(* ===== verification/Prelude.thy ===== *)
theory Prelude
  imports Complex_Main "HOL-Library.Sublist" "HOL-Library.Word"
begin

text \<open>
  The shared layer of the development: the fragment of JavaScript's values and string
  functions the modelled code uses, thrown values as a sum type, and the generic lemmas
  the component theories rely on.

  A JavaScript string is a list of code units; the model has those below 256, Isabelle's
  \<^typ>\<open>char\<close>. A number that the modelled code reads from JSON (a status, a port, a
  count, seconds since the epoch) is an integer. \<open>undefined\<close> and \<open>null\<close> are two
  values, as in the language.
\<close>

named_theorems js_simps \<open>the definitions of the JavaScript layer, to unfold on concrete values\<close>

section \<open>Values\<close>

datatype json =
    JUndef
  | JNull
  | JBool bool
  | JNum int
  | JStr string
  | JArr "json list"
  | JObj "(string \<times> json) list"

text \<open>What \<open>if (v)\<close> tests.\<close>

fun truthy :: "json \<Rightarrow> bool" where
  "truthy JUndef = False"
| "truthy JNull = False"
| "truthy (JBool b) = b"
| "truthy (JNum n) = (n \<noteq> 0)"
| "truthy (JStr s) = (s \<noteq> [])"
| "truthy (JArr _) = True"
| "truthy (JObj _) = True"

definition nullish :: "json \<Rightarrow> bool" where
  "nullish v \<longleftrightarrow> v = JUndef \<or> v = JNull"

text \<open>\<open>a ?? b\<close> and \<open>a || b\<close>.\<close>

definition coalesce :: "json \<Rightarrow> json \<Rightarrow> json" where
  "coalesce a b = (if nullish a then b else a)"

definition or_else :: "json \<Rightarrow> json \<Rightarrow> json" where
  "or_else a b = (if truthy a then a else b)"

text \<open>
  Property access \<open>v.k\<close>: \<^const>\<open>None\<close> is the TypeError that reading a property of
  \<open>null\<close> or \<open>undefined\<close> throws. The keys the modelled code reads are not built-in
  properties of numbers, strings, booleans or arrays, where they give \<open>undefined\<close>.
\<close>

fun jget :: "json \<Rightarrow> string \<Rightarrow> json option" where
  "jget JUndef k = None"
| "jget JNull k = None"
| "jget (JObj ps) k = Some (case map_of ps k of None \<Rightarrow> JUndef | Some v \<Rightarrow> v)"
| "jget _ k = Some JUndef"

text \<open>Property access where the value is known not to be \<open>null\<close> or \<open>undefined\<close>.\<close>

definition jprop :: "json \<Rightarrow> string \<Rightarrow> json" where
  "jprop v k = (case jget v k of None \<Rightarrow> JUndef | Some w \<Rightarrow> w)"

fun is_array :: "json \<Rightarrow> bool" where
  "is_array (JArr _) = True"
| "is_array _ = False"

fun array_elems :: "json \<Rightarrow> json list" where
  "array_elems (JArr vs) = vs"
| "array_elems _ = []"

fun is_string :: "json \<Rightarrow> bool" where
  "is_string (JStr _) = True"
| "is_string _ = False"

fun is_number :: "json \<Rightarrow> bool" where
  "is_number (JNum _) = True"
| "is_number _ = False"

text \<open>
  The argument of \<open>JSON.stringify\<close> for an object literal: properties whose value is
  \<open>undefined\<close> are not sent.
\<close>

definition json_body :: "(string \<times> json) list \<Rightarrow> json" where
  "json_body ps = JObj (filter (\<lambda>(_, v). v \<noteq> JUndef) ps)"

lemma json_body_keeps:
  "v \<noteq> JUndef \<Longrightarrow> (k, v) \<in> set ps \<Longrightarrow> \<exists>qs. json_body ps = JObj qs \<and> (k, v) \<in> set qs"
  by (auto simp: json_body_def)

section \<open>Numbers as strings\<close>

definition digit_char :: "nat \<Rightarrow> char" where
  "digit_char d = char_of (48 + d)"

fun nat_string :: "nat \<Rightarrow> string" where
  "nat_string n = (if n < 10 then [digit_char n] else nat_string (n div 10) @ [digit_char (n mod 10)])"

declare nat_string.simps [simp del]

definition int_string :: "int \<Rightarrow> string" where
  "int_string i = (if i < 0 then CHR ''-'' # nat_string (nat (- i)) else nat_string (nat i))"

definition digit_val :: "char \<Rightarrow> nat" where
  "digit_val c = of_char c - 48"

definition read_nat :: "string \<Rightarrow> nat" where
  "read_nat s = foldl (\<lambda>a c. 10 * a + digit_val c) 0 s"

lemma digit_val_char: "d < 10 \<Longrightarrow> digit_val (digit_char d) = d"
  by (simp add: digit_val_def digit_char_def)

lemma read_nat_snoc: "read_nat (s @ [c]) = 10 * read_nat s + digit_val c"
  by (simp add: read_nat_def)

lemma read_nat_string: "read_nat (nat_string n) = n"
proof (induction n rule: nat_string.induct)
  case (1 n)
  show ?case
  proof (cases "n < 10")
    case True
    then show ?thesis
      by (subst nat_string.simps) (simp add: read_nat_def digit_val_char)
  next
    case False
    with "1.IH" have "read_nat (nat_string (n div 10)) = n div 10" by simp
    with False show ?thesis
      by (subst nat_string.simps) (simp add: read_nat_snoc digit_val_char)
  qed
qed

text \<open>Two numbers never print alike, so a path built from a number names it.\<close>

lemma nat_string_inject [simp]: "nat_string m = nat_string n \<longleftrightarrow> m = n"
  by (metis read_nat_string)

lemma nat_string_nonempty [simp]: "nat_string n \<noteq> []"
  by (subst nat_string.simps) simp

text \<open>
  \<open>String(v)\<close>, which a template literal and \<open>localStorage.setItem\<close> apply.
\<close>

fun join_with :: "string \<Rightarrow> string list \<Rightarrow> string" where
  "join_with sep [] = []"
| "join_with sep [s] = s"
| "join_with sep (s # t # ss) = s @ sep @ join_with sep (t # ss)"

fun js_string :: "json \<Rightarrow> string" where
  "js_string JUndef = ''undefined''"
| "js_string JNull = ''null''"
| "js_string (JBool b) = (if b then ''true'' else ''false'')"
| "js_string (JNum n) = int_string n"
| "js_string (JStr s) = s"
| "js_string (JArr vs) = join_with '','' (map (\<lambda>v. if nullish v then '''' else js_string v) vs)"
| "js_string (JObj _) = ''[object Object]''"

section \<open>Thrown values\<close>

text \<open>
  What a \<open>throw\<close> can carry here: the object the API client throws (code, message,
  details), or an \<open>Error\<close> of the runtime with its message.
\<close>

datatype exn = ApiError json json json | JsError string

text \<open>
  \<open>err.message\<close> and \<open>err.code\<close> behind the guards \<open>typeof err === 'object' && 'k' in err\<close>:
  both kinds are objects with a \<open>message\<close>, only the client's has a \<open>code\<close>.
\<close>

fun exn_message :: "exn \<Rightarrow> json" where
  "exn_message (ApiError c m d) = m"
| "exn_message (JsError m) = JStr m"

fun exn_code :: "exn \<Rightarrow> json" where
  "exn_code (ApiError c m d) = c"
| "exn_code (JsError m) = JStr ''''"

section \<open>Strings\<close>

definition is_ws :: "char \<Rightarrow> bool" where
  "is_ws c \<longleftrightarrow> (of_char c :: nat) \<in> {9, 10, 11, 12, 13, 32, 160}"

definition trim :: "string \<Rightarrow> string" where
  "trim s = rev (dropWhile is_ws (rev (dropWhile is_ws s)))"

fun split_on :: "char \<Rightarrow> string \<Rightarrow> string list" where
  "split_on c [] = [[]]"
| "split_on c (x # xs) =
     (if x = c then [] # split_on c xs
      else (case split_on c xs of [] \<Rightarrow> [[x]] | p # ps \<Rightarrow> (x # p) # ps))"

fun starts_with :: "string \<Rightarrow> string \<Rightarrow> bool" where
  "starts_with s [] = True"
| "starts_with [] (p # ps) = False"
| "starts_with (x # xs) (p # ps) = (x = p \<and> starts_with xs ps)"

text \<open>\<open>s.replace(a, b)\<close> for characters: the first one only.\<close>

fun replace_first :: "char \<Rightarrow> char \<Rightarrow> string \<Rightarrow> string" where
  "replace_first a b [] = []"
| "replace_first a b (c # cs) = (if c = a then b # cs else c # replace_first a b cs)"

fun js_includes :: "string \<Rightarrow> string \<Rightarrow> bool" where
  "js_includes [] p = (p = [])"
| "js_includes (x # xs) p = (starts_with (x # xs) p \<or> js_includes xs p)"

definition is_upper :: "char \<Rightarrow> bool" where
  "is_upper c \<longleftrightarrow> (let n = (of_char c :: nat) in 65 \<le> n \<and> n \<le> 90)"

definition is_lower :: "char \<Rightarrow> bool" where
  "is_lower c \<longleftrightarrow> (let n = (of_char c :: nat) in 97 \<le> n \<and> n \<le> 122)"

definition is_digit :: "char \<Rightarrow> bool" where
  "is_digit c \<longleftrightarrow> (let n = (of_char c :: nat) in 48 \<le> n \<and> n \<le> 57)"

text \<open>
  \<open>toLowerCase\<close> and \<open>toUpperCase\<close> on the letters A-Z and a-z; every other code
  unit is left as it is.
\<close>

definition lower_char :: "char \<Rightarrow> char" where
  "lower_char c = (if is_upper c then char_of (of_char c + 32 :: nat) else c)"

definition upper_char :: "char \<Rightarrow> char" where
  "upper_char c = (if is_lower c then char_of (of_char c - 32 :: nat) else c)"

definition to_lower :: "string \<Rightarrow> string" where
  "to_lower s = map lower_char s"

definition to_upper :: "string \<Rightarrow> string" where
  "to_upper s = map upper_char s"

lemmas [js_simps] =
  nullish_def coalesce_def or_else_def json_body_def jprop_def int_string_def digit_char_def nat_string.simps
  is_ws_def trim_def is_upper_def is_lower_def is_digit_def lower_char_def upper_char_def
  to_lower_def to_upper_def

lemma split_on_nonempty [simp]: "split_on c s \<noteq> []"
  by (induction s) (auto split: list.splits)

lemma split_on_no_sep: "c \<notin> set s \<Longrightarrow> split_on c s = [s]"
  by (induction s) auto

lemma split_on_append: "c \<notin> set p \<Longrightarrow> split_on c (p @ c # s) = p # split_on c s"
  by (induction p) auto

lemma split_on_pieces: "p \<in> set (split_on c s) \<Longrightarrow> c \<notin> set p"
proof (induction s arbitrary: p)
  case Nil
  then show ?case by simp
next
  case (Cons x xs)
  then show ?case
    by (cases "split_on c xs") (auto split: if_splits)
qed

lemma split_on_concat: "split_on c (s @ c # t) = split_on c s @ split_on c t"
  by (induction s) (auto split: list.split)

text \<open>Joining the pieces with the separator gives the string back.\<close>

lemma join_split_on: "join_with [c] (split_on c s) = s"
proof (induction s)
  case Nil
  then show ?case by simp
next
  case (Cons x xs)
  obtain p ps where ps: "split_on c xs = p # ps"
    by (cases "split_on c xs") auto
  from Cons ps show ?case
    by (cases ps) auto
qed

lemma starts_with_prefix: "starts_with s p \<longleftrightarrow> prefix p s"
  by (induction s p rule: starts_with.induct) auto

lemma includes_sublist: "js_includes s p \<longleftrightarrow> sublist p s"
  by (induction s p rule: js_includes.induct)
    (auto simp: starts_with_prefix sublist_Cons_right)

lemma dropWhile_Nil_iff: "dropWhile P xs = [] \<longleftrightarrow> (\<forall>x\<in>set xs. P x)"
  by (induction xs) auto

lemma trim_empty_iff: "trim s = [] \<longleftrightarrow> (\<forall>c\<in>set s. is_ws c)"
proof -
  have "trim s = [] \<longleftrightarrow> (\<forall>c\<in>set (dropWhile is_ws s). is_ws c)"
    by (simp add: trim_def dropWhile_Nil_iff)
  also have "\<dots> \<longleftrightarrow> (\<forall>c\<in>set s. is_ws c)"
    by (metis dropWhile_Nil_iff dropWhile_idem)
  finally show ?thesis .
qed

lemma dropWhile_ends: "dropWhile P (rev (dropWhile P (rev (dropWhile P s)))) = rev (dropWhile P (rev (dropWhile P s)))"
proof -
  let ?t = "dropWhile P s"
  show ?thesis
  proof (cases ?t)
    case (Cons x xs)
    then have x: "\<not> P x" by (simp add: dropWhile_eq_Cons_conv)
    have "rev (dropWhile P (rev ?t)) = x # rev (dropWhile P (rev xs))"
    proof -
      have "rev ?t = rev xs @ [x]" using Cons by simp
      then show ?thesis using x by (simp add: dropWhile_append)
    qed
    then show ?thesis using x by simp
  next
    case Nil
    then show ?thesis by (simp only: Nil rev.simps dropWhile.simps)
  qed
qed

lemma trim_trim: "trim (trim s) = trim s"
  by (simp add: trim_def dropWhile_ends)

lemma lower_char_idem [simp]: "lower_char (lower_char c) = lower_char c"
  by (simp add: lower_char_def is_upper_def Let_def)

lemma to_lower_idem [simp]: "to_lower (to_lower s) = to_lower s"
  by (simp add: to_lower_def)

section \<open>Lists\<close>

text \<open>\<open>xs[i]\<close> with \<open>undefined\<close> out of range, for a signed index.\<close>

definition nth_opt :: "'a list \<Rightarrow> int \<Rightarrow> 'a option" where
  "nth_opt xs i = (if 0 \<le> i \<and> i < int (length xs) then Some (xs ! nat i) else None)"

lemma nth_opt_Some_iff: "nth_opt xs i = Some x \<longleftrightarrow> 0 \<le> i \<and> i < int (length xs) \<and> xs ! nat i = x"
  by (auto simp: nth_opt_def)

lemma nth_opt_None_iff: "nth_opt xs i = None \<longleftrightarrow> i < 0 \<or> int (length xs) \<le> i"
  by (auto simp: nth_opt_def)

lemma nth_opt_in_set: "nth_opt xs i = Some x \<Longrightarrow> x \<in> set xs"
  by (auto simp: nth_opt_Some_iff)

text \<open>\<open>xs.slice(a, b)\<close> for indices that are not negative.\<close>

definition slice :: "nat \<Rightarrow> nat \<Rightarrow> 'a list \<Rightarrow> 'a list" where
  "slice a b xs = take (b - a) (drop a xs)"

lemma set_slice_subset: "set (slice a b xs) \<subseteq> set xs"
  using set_take_subset set_drop_subset unfolding slice_def by fastforce

lemma length_slice: "length (slice a b xs) = min (b - a) (length xs - a)"
  by (simp add: slice_def)

lemma slice_empty_iff: "slice a b xs = [] \<longleftrightarrow> b \<le> a \<or> length xs \<le> a"
  by (auto simp: slice_def)

text \<open>A JavaScript \<open>Set\<close> as the list of its members in insertion order.\<close>

definition set_add :: "'a \<Rightarrow> 'a list \<Rightarrow> 'a list" where
  "set_add x xs = (if x \<in> set xs then xs else xs @ [x])"

definition set_delete :: "'a \<Rightarrow> 'a list \<Rightarrow> 'a list" where
  "set_delete x xs = filter (\<lambda>y. y \<noteq> x) xs"

definition set_of_list :: "'a list \<Rightarrow> 'a list" where
  "set_of_list xs = fold set_add xs []"

lemma set_set_add [simp]: "set (set_add x xs) = insert x (set xs)"
  by (auto simp: set_add_def)

lemma set_set_delete [simp]: "set (set_delete x xs) = set xs - {x}"
  by (auto simp: set_delete_def)

lemma distinct_set_add [simp]: "distinct xs \<Longrightarrow> distinct (set_add x xs)"
  by (simp add: set_add_def)

lemma distinct_set_delete [simp]: "distinct xs \<Longrightarrow> distinct (set_delete x xs)"
  by (simp add: set_delete_def)

lemma set_fold_set_add: "set (fold set_add xs ys) = set ys \<union> set xs"
  by (induction xs arbitrary: ys) auto

lemma set_set_of_list [simp]: "set (set_of_list xs) = set xs"
  by (simp add: set_of_list_def set_fold_set_add)

lemma distinct_fold_set_add: "distinct ys \<Longrightarrow> distinct (fold set_add xs ys)"
  by (induction xs arbitrary: ys) auto

lemma distinct_set_of_list [simp]: "distinct (set_of_list xs)"
  by (simp add: set_of_list_def distinct_fold_set_add)

end
