(* ===== verification/Format.thy ===== *)
theory Format
  imports Prelude
begin

text \<open>
  The pure functions the pages share or carry with them: \<open>formatBytes\<close>, \<open>hashCode\<close>, the
  relative times, \<open>slugify\<close>, the search's \<open>fuzzyMatch\<close>, the password strength and the address
  test of the sign-in forms.

  A text that goes through the translation function \<open>t(key, params)\<close> of the i18n library is the symbolic
  \<open>Tr key params\<close>; a template string is a list of such pieces.
\<close>

datatype label = Lit string | Tr string "(string \<times> json) list"

type_synonym caption = "label list"

abbreviation tr :: "string \<Rightarrow> caption" where
  "tr key \<equiv> [Tr key []]"

section \<open>Byte counts\<close>

text \<open>
  \<open>Math.floor(Math.log(bytes) / Math.log(1024))\<close>, over the reals. Doubles give the same integer but for
  the last few counts below $1024^5$, where the quotient rounds up to 5.
\<close>

definition log1024 :: "nat \<Rightarrow> nat" where
  "log1024 b = nat \<lfloor>ln (real b) / ln 1024\<rfloor>"

text \<open>
  \<open>(n / d).toFixed(1)\<close>: the nearest tenth, the larger of two. For a byte count below $2^{53}$ and a
  power of 1024 the division is exact.
\<close>

definition toFixed1 :: "nat \<Rightarrow> nat \<Rightarrow> string" where
  "toFixed1 n d = (let k = (20 * n + d) div (2 * d) in nat_string (k div 10) @ ''.'' @ nat_string (k mod 10))"

text \<open>\<open>x.toFixed(d)\<close> below $10^{21}$, on the exact value of the double: the nearest multiple, the larger of two, with its
  sign in front.\<close>

definition pad_digits :: "nat \<Rightarrow> nat \<Rightarrow> string" where
  "pad_digits d n = (let s = nat_string n in replicate (d - length s) (CHR ''0'') @ s)"

definition toFixed :: "nat \<Rightarrow> rat \<Rightarrow> string" where
  "toFixed d x =
     (let k = nat \<lfloor>\<bar>x\<bar> * 10 ^ d + 1 / 2\<rfloor> in
      (if x < 0 then ''-'' else '''') @ nat_string (k div 10 ^ d) @ (if d = 0 then '''' else ''.'' @ pad_digits d (k mod 10 ^ d)))"

lemma toFixed1_toFixed:
  assumes "0 < d"
  shows "toFixed1 n d = toFixed 1 (of_nat n / of_nat d)"
proof -
  have "of_nat n / of_nat d * 10 + 1 / 2 = (of_int (int (20 * n + d)) / of_int (int (2 * d)) :: rat)"
    using assms by (simp add: field_simps)
  then have k: "nat \<lfloor>of_nat n / of_nat d * 10 + (1 / 2 :: rat)\<rfloor> = (20 * n + d) div (2 * d)"
    by (simp only: floor_divide_of_int_eq) (metis nat_int zdiv_int)
  have one: "length (nat_string (m mod 10)) = 1" for m
    by (subst nat_string.simps) simp
  have "\<not> (of_nat n / of_nat d :: rat) < 0" by (simp add: not_less)
  then show ?thesis unfolding toFixed1_def toFixed_def pad_digits_def Let_def
    using k by (simp add: one)
qed

definition byte_units :: "string list" where
  "byte_units = [''B'', ''KB'', ''MB'', ''GB'', ''TB'']"

definition formatBytes :: "nat \<Rightarrow> string" where
  "formatBytes bytes =
     (if bytes = 0 then ''0 B''
      else let i = log1024 bytes in
        toFixed1 bytes (1024 ^ i) @ '' '' @
        (case nth_opt byte_units (int i) of None \<Rightarrow> ''undefined'' | Some u \<Rightarrow> u))"

section \<open>Integers in texts\<close>

text \<open>\<open>parseInt\<close> on the texts a number field yields: leading white space, a sign, then the longest run of
  digits.\<close>

definition parseInt :: "string \<Rightarrow> int option" where
  "parseInt v =
     (let t = dropWhile is_ws v;
          neg = (t \<noteq> [] \<and> hd t = CHR ''-'');
          u = (if t \<noteq> [] \<and> hd t \<in> {CHR ''-'', CHR ''+''} then tl t else t);
          ds = takeWhile is_digit u
      in if ds = [] then None else Some (if neg then - int (read_nat ds) else int (read_nat ds)))"

section \<open>Quotation marks\<close>

definition quoted :: "string \<Rightarrow> string" where
  "quoted s = CHR 0x22 # s @ [CHR 0x22]"

section \<open>Random numbers\<close>

text \<open>\<open>Math.floor(Math.random() * width + base)\<close>.\<close>

definition draw :: "rat \<Rightarrow> int \<Rightarrow> int \<Rightarrow> int" where
  "draw r width base = \<lfloor>r * of_int width + of_int base\<rfloor>"

lemma draw_bounds: "0 \<le> r \<Longrightarrow> r < 1 \<Longrightarrow> 0 < width \<Longrightarrow> base \<le> draw r width base \<and> draw r width base < base + width"
proof -
  assume r: "0 \<le> r" "r < 1" "0 < width"
  have "r * of_int width < of_int width" using r by simp
  then show ?thesis using r by (simp add: draw_def floor_less_iff le_floor_iff)
qed

section \<open>Colours of tags\<close>

text \<open>The conversion to a 32-bit signed integer that \<open><<\<close> and \<open>| 0\<close> apply.\<close>

definition to_int32 :: "int \<Rightarrow> int" where
  "to_int32 x = sint (word_of_int x :: 32 word)"

definition hash_step :: "int \<Rightarrow> char \<Rightarrow> int" where
  "hash_step hash c = to_int32 (to_int32 (hash * 2 ^ 5) - hash + of_char c)"

definition hashCode :: "string \<Rightarrow> int" where
  "hashCode str = \<bar>foldl hash_step 0 str\<bar>"

definition TAG_COLORS :: "string list" where
  "TAG_COLORS = [''blue'', ''emerald'', ''amber'', ''purple'', ''pink'', ''cyan'']"

definition tag_color :: "string \<Rightarrow> string option" where
  "tag_color tag = nth_opt TAG_COLORS (\<bar>hashCode tag\<bar> mod int (length TAG_COLORS))"

section \<open>Relative times\<close>

definition timeAgo :: "int \<Rightarrow> int \<Rightarrow> caption" where
  "timeAgo now created =
     (let minutes = (now - created) div 60000 in
      if minutes < 1 then tr ''notifications.ago.now''
      else if minutes < 60 then [Tr ''notifications.ago.minute'' [(''n'', JNum minutes)]]
      else let hours = minutes div 60 in
        if hours < 24 then [Tr ''notifications.ago.hour'' [(''n'', JNum hours)]]
        else [Tr ''notifications.ago.day'' [(''n'', JNum (hours div 24))]])"

section \<open>Slugs\<close>

definition slug_char :: "char \<Rightarrow> bool" where
  "slug_char c \<longleftrightarrow> is_lower c \<or> is_digit c"

text \<open>\<open>replace(/[^a-z0-9]+/g, '-')\<close>; the flag says that the current run is already replaced.\<close>

fun dash_runs :: "bool \<Rightarrow> string \<Rightarrow> string" where
  "dash_runs r [] = []"
| "dash_runs r (c # cs) =
     (if slug_char c then c # dash_runs False cs
      else if r then dash_runs True cs else CHR ''-'' # dash_runs True cs)"

definition trim_dashes :: "string \<Rightarrow> string" where
  "trim_dashes s = rev (dropWhile (\<lambda>c. c = CHR ''-'') (rev (dropWhile (\<lambda>c. c = CHR ''-'') s)))"

definition slugify :: "string \<Rightarrow> string" where
  "slugify s = take 64 (trim_dashes (dash_runs False (to_lower s)))"

section \<open>Search\<close>

fun fuzzy_loop :: "string \<Rightarrow> string \<Rightarrow> nat \<Rightarrow> bool" where
  "fuzzy_loop q [] qi = False"
| "fuzzy_loop q (x # xs) qi =
     (if nth_opt q (int qi) = Some x
      then (if Suc qi = length q then True else fuzzy_loop q xs (Suc qi))
      else fuzzy_loop q xs qi)"

definition fuzzyMatch :: "string \<Rightarrow> string \<Rightarrow> bool" where
  "fuzzyMatch query subject =
     (if query = '''' then True
      else let lowerQuery = to_lower query; lowerText = to_lower subject in
        if js_includes lowerText lowerQuery then True else fuzzy_loop lowerQuery lowerText 0)"

section \<open>Forms\<close>

datatype Strength = Weak | Medium | Strong

definition strength_score :: "string \<Rightarrow> nat" where
  "strength_score pw =
     (if length pw \<ge> 8 then 1 else 0) +
     (if list_ex is_upper pw \<and> list_ex is_lower pw then 1 else 0) +
     (if list_ex is_digit pw then 1 else 0) +
     (if list_ex (\<lambda>c. \<not> is_upper c \<and> \<not> is_lower c \<and> \<not> is_digit c) pw then 1 else 0)"

definition getStrength :: "string \<Rightarrow> Strength" where
  "getStrength pw = (let score = strength_score pw in if score \<le> 1 then Weak else if score \<le> 2 then Medium else Strong)"

text \<open>
  \<open>EMAIL_RE.test\<close>: the only \<open>@\<close> splits the text, no white space, and a dot of the second half has
  something on both sides.
\<close>

definition email_test :: "string \<Rightarrow> bool" where
  "email_test s =
     (case split_on (CHR ''@'') s of
        [a, d] \<Rightarrow> a \<noteq> [] \<and> \<not> list_ex is_ws s \<and> list_ex (\<lambda>i. d ! i = CHR ''.'') [1 ..< length d - 1]
      | _ \<Rightarrow> False)"

section \<open>Byte counts: the unit is the right one\<close>

lemma log1024_eq:
  assumes "1024 ^ i \<le> b" and "b < 1024 ^ Suc i"
  shows "log1024 b = i"
proof -
  have b: "1 \<le> b" using assms(1) by (meson one_le_numeral one_le_power order_trans)
  have "real (1024 ^ i) \<le> real b" using assms(1) of_nat_le_iff by blast
  then have "ln (1024 ^ i) \<le> ln (real b)" using b by (simp add: ln_le_cancel_iff)
  then have lo: "real i * ln 1024 \<le> ln (real b)" by (simp add: ln_realpow)
  have "real b < real (1024 ^ Suc i)" using assms(2) of_nat_less_iff by blast
  then have "ln (real b) < ln (1024 ^ Suc i)" using b by (subst ln_less_cancel_iff) auto
  then have hi: "ln (real b) < real (Suc i) * ln 1024" using ln_realpow [of 1024 "Suc i"] by simp
  have "(0::real) < ln 1024" by simp
  with lo hi have "real i \<le> ln (real b) / ln 1024" "ln (real b) / ln 1024 < real i + 1"
    by (simp_all add: pos_le_divide_eq pos_divide_less_eq algebra_simps)
  then have "\<lfloor>ln (real b) / ln 1024\<rfloor> = int i" by (simp add: floor_eq_iff)
  then show ?thesis by (simp add: log1024_def)
qed

lemma power_bracket: "1 \<le> (b::nat) \<Longrightarrow> \<exists>i. 1024 ^ i \<le> b \<and> b < 1024 ^ Suc i"
proof (induction b rule: less_induct)
  case (less b)
  show ?case
  proof (cases "b < 1024")
    case True
    with less.prems show ?thesis by (intro exI [of _ 0]) simp
  next
    case False
    then have "1 \<le> b div 1024" "b div 1024 < b" by simp_all
    with less.IH obtain i where i: "1024 ^ i \<le> b div 1024" "b div 1024 < 1024 ^ Suc i" by blast
    have "1024 * 1024 ^ i \<le> 1024 * (b div 1024)" using i(1) by simp
    also have "\<dots> \<le> b" by simp
    finally have "1024 ^ Suc i \<le> b" by simp
    moreover from i(2) have "b < 1024 ^ Suc i * 1024" by (simp add: div_less_iff_less_mult)
    ultimately show ?thesis by (intro exI [of _ "Suc i"]) (simp add: mult.commute)
  qed
qed

lemma log1024_bounds: "1 \<le> b \<Longrightarrow> 1024 ^ log1024 b \<le> b \<and> b < 1024 ^ Suc (log1024 b)"
  using power_bracket log1024_eq by blast

text \<open>A byte count is shown with the largest unit that fits: for every count from one byte to a
  kibibyte below a pebibyte there is a unit of the list, the shown value is the count over that power of 1024
  to one decimal, and that power is the largest not above the count; from a pebibyte on the list is exhausted
  and the unit reads \<open>undefined\<close>.\<close>

theorem formatBytes_unit:
  assumes "1 \<le> b"
  shows "\<exists>i. 1024 ^ i \<le> b \<and> b < 1024 ^ Suc i \<and>
    (b \<le> 1024 ^ 5 - 1024 \<longrightarrow> i < length byte_units \<and>
       formatBytes b = toFixed1 b (1024 ^ i) @ '' '' @ byte_units ! i) \<and>
    (1024 ^ 5 \<le> b \<longrightarrow> formatBytes b = toFixed1 b (1024 ^ i) @ '' undefined'')"
proof -
  let ?i = "log1024 b"
  have l: "1024 ^ ?i \<le> b" "b < 1024 ^ Suc ?i" using log1024_bounds [OF assms] by simp_all
  have five: "b < 1024 ^ 5 \<longleftrightarrow> ?i < 5"
  proof
    assume "b < 1024 ^ 5"
    with l(1) have "(1024::nat) ^ ?i < 1024 ^ 5" by linarith
    then show "?i < 5" by (rule power_less_imp_less_exp [rotated]) simp
  next
    assume "?i < 5"
    then have "(1024::nat) ^ Suc ?i \<le> 1024 ^ 5" by (intro power_increasing) simp_all
    with l(2) show "b < 1024 ^ 5" by linarith
  qed
  have "formatBytes b = toFixed1 b (1024 ^ ?i) @ '' '' @ (if b < 1024 ^ 5 then byte_units ! ?i else ''undefined'')"
    using assms five by (auto simp: formatBytes_def Let_def nth_opt_def byte_units_def)
  moreover have "length byte_units = 5" by (simp add: byte_units_def)
  then have "?i < length byte_units \<longleftrightarrow> b < 1024 ^ 5" using five by simp
  ultimately show ?thesis using l by (intro exI [of _ ?i]) auto
qed

theorem formatBytes_unit_witness: "formatBytes 1536 = ''1.5 KB''"
proof -
  from formatBytes_unit [of 1536] obtain i where
    i: "1024 ^ i \<le> (1536::nat)" "1536 < (1024::nat) ^ Suc i"
      "formatBytes 1536 = toFixed1 1536 (1024 ^ i) @ '' '' @ byte_units ! i"
    by auto
  have "i = 1" using log1024_eq [OF i(1,2)] log1024_eq [of 1 1536] by simp
  moreover have "toFixed1 1536 1024 = ''1.5''"
    by (simp add: toFixed1_def Let_def nat_string.simps digit_char_def char_of_eq_iff)
  ultimately show ?thesis using i(3) by (simp add: byte_units_def)
qed

section \<open>Colours of tags: the rolling hash\<close>

text \<open>The hash as a word: the polynomial in 31 that wraps at 32 bits.\<close>

definition hash_word :: "string \<Rightarrow> 32 word" where
  "hash_word s = foldl (\<lambda>h c. 31 * h + of_char c) 0 s"

lemma to_int32_word: "word_of_int (to_int32 x) = (word_of_int x :: 32 word)"
  by (simp add: to_int32_def)

lemma hash_step_word: "hash_step (sint (w :: 32 word)) c = sint (31 * w + of_char c)"
proof -
  have "word_of_int (to_int32 (sint w * 2 ^ 5) - sint w + of_char c) =
      (word_of_int (to_int32 (sint w * 2 ^ 5)) - word_of_int (sint w) + word_of_int (of_char c) :: 32 word)"
    by (simp add: wi_hom_syms)
  also have "\<dots> = w * 32 - w + of_char c"
    unfolding to_int32_word
    by (simp add: of_int_of_char)
  also have "\<dots> = 31 * w + of_char c" by (simp add: algebra_simps)
  finally show ?thesis by (simp add: hash_step_def to_int32_def)
qed

lemma foldl_hash_step: "foldl hash_step (sint (w :: 32 word)) s = sint (foldl (\<lambda>h c. 31 * h + of_char c) w s)"
  by (induction s arbitrary: w) (simp_all add: hash_step_word)

text \<open>The loop of \<open>hashCode\<close>, whose sums exceed 32 bits before they are cut by \<open>| 0\<close>,
  is the absolute value of the signed 32-bit polynomial hash with base 31; every tag therefore gets a
  colour of the list, since the magnitude of even the smallest 32-bit integer is a valid dividend.\<close>

theorem tag_color_total:
  "hashCode tag = \<bar>sint (hash_word tag)\<bar> \<and> 0 \<le> hashCode tag \<and> hashCode tag \<le> 2 ^ 31 \<and>
   tag_color tag = Some (TAG_COLORS ! (nat \<bar>sint (hash_word tag)\<bar> mod 6))"
proof -
  have h: "hashCode tag = \<bar>sint (hash_word tag)\<bar>"
    using foldl_hash_step [of 0 tag] unfolding hashCode_def hash_word_def by simp
  have "- (2 ^ 31) \<le> sint (hash_word tag)" "sint (hash_word tag) < 2 ^ 31"
    using sint_greater_eq [of "hash_word tag"] sint_lt [of "hash_word tag"] by simp_all
  with h show ?thesis
    by (auto simp: tag_color_def nth_opt_def TAG_COLORS_def nat_mod_distrib)
qed

section \<open>Search: the loop decides the subsequence relation\<close>

lemma fuzzy_loop_subseq: "qi < length q \<Longrightarrow> fuzzy_loop q t qi \<longleftrightarrow> subseq (drop qi q) t"
proof (induction q t qi rule: fuzzy_loop.induct)
  case (1 q qi)
  then show ?case by simp
next
  case (2 q x xs qi)
  have d: "drop qi q = q ! qi # drop (Suc qi) q" using "2.prems" by (simp add: Cons_nth_drop_Suc)
  have nth: "nth_opt q (int qi) = Some (q ! qi)" using "2.prems" by (simp add: nth_opt_def)
  show ?case
  proof (cases "q ! qi = x")
    case True
    show ?thesis
    proof (cases "Suc qi = length q")
      case True
      then show ?thesis using \<open>q ! qi = x\<close> d nth by simp
    next
      case False
      then have "Suc qi < length q" using "2.prems" by simp
      then show ?thesis using "2.IH"(1) \<open>q ! qi = x\<close> d nth False by simp
    qed
  next
    case False
    then have "fuzzy_loop q (x # xs) qi = fuzzy_loop q xs qi" using nth by simp
    also have "\<dots> = subseq (drop qi q) xs" using "2.IH"(2) nth False "2.prems" by simp
    also have "\<dots> = subseq (drop qi q) (x # xs)" using d False by (simp add: subseq_Cons')
    finally show ?thesis .
  qed
qed

lemma fuzzyMatch_as_subseq: "fuzzyMatch query subject \<longleftrightarrow> subseq (to_lower query) (to_lower subject)"
proof (cases "query = []")
  case True
  then show ?thesis by (simp add: fuzzyMatch_def to_lower_def)
next
  case False
  then have "0 < length (to_lower query)" by (simp add: to_lower_def)
  then have "fuzzy_loop (to_lower query) (to_lower subject) 0 \<longleftrightarrow> subseq (to_lower query) (to_lower subject)"
    using fuzzy_loop_subseq [of 0 "to_lower query"] by simp
  then show ?thesis
    using False by (auto simp: fuzzyMatch_def Let_def includes_sublist sublist_imp_subseq)
qed

text \<open>C36: the palette's search accepts an entry exactly when the query, with case ignored, is a
  subsequence of it; the shortcut for a contiguous match never changes the answer.\<close>

theorem fuzzyMatch_subseq: "fuzzyMatch query subject \<longleftrightarrow> subseq (to_lower query) (to_lower subject)"
  by (rule fuzzyMatch_as_subseq)

section \<open>Slugs: what the server is sent\<close>

definition slug_ok :: "string \<Rightarrow> bool" where
  "slug_ok s \<longleftrightarrow> (\<forall>c \<in> set s. slug_char c \<or> c = CHR ''-'') \<and> \<not> sublist ''--'' s"

lemma slug_char_dash [simp]: "\<not> slug_char (CHR ''-'')"
  by (simp add: slug_char_def is_lower_def is_digit_def)

lemma dash_runs_chars: "c \<in> set (dash_runs r s) \<Longrightarrow> slug_char c \<or> c = CHR ''-''"
  by (induction r s rule: dash_runs.induct) (auto split: if_splits)

lemma dash_runs_no_double:
  "\<not> sublist ''--'' (dash_runs r s) \<and> (r \<longrightarrow> \<not> prefix ''-'' (dash_runs r s))"
  by (induction r s rule: dash_runs.induct) (auto simp: sublist_Cons_right prefix_Cons)

lemma slug_ok_sublist: "slug_ok s \<Longrightarrow> sublist t s \<Longrightarrow> slug_ok t"
  unfolding slug_ok_def using set_mono_sublist sublist_order.order_trans by blast

lemma dropWhile_sublist: "sublist (dropWhile P s) s"
  by (simp add: suffix_dropWhile suffix_imp_sublist)

lemma rev_dropWhile_rev_prefix: "prefix (rev (dropWhile P (rev s))) s"
  using suffix_dropWhile [of P "rev s"] by (simp add: suffix_to_prefix)

lemma trim_dashes_sublist: "sublist (trim_dashes s) s"
  unfolding trim_dashes_def
  by (rule sublist_order.order_trans [OF prefix_imp_sublist [OF rev_dropWhile_rev_prefix] dropWhile_sublist])

lemma trim_dashes_ends:
  "trim_dashes s = [] \<or> hd (trim_dashes s) \<noteq> CHR ''-'' \<and> last (trim_dashes s) \<noteq> CHR ''-''"
proof -
  let ?d = "dropWhile (\<lambda>c. c = CHR ''-'')"
  have hd_d: "\<And>t. ?d t = [] \<or> hd (?d t) \<noteq> CHR ''-''"
    using hd_dropWhile [of "\<lambda>c. c = CHR ''-''"] by blast
  have "trim_dashes s = [] \<or> last (trim_dashes s) \<noteq> CHR ''-''"
    using hd_d [of "rev (?d s)"] by (auto simp: trim_dashes_def last_rev)
  moreover have "prefix (trim_dashes s) (?d s)"
    by (simp add: trim_dashes_def rev_dropWhile_rev_prefix)
  then obtain r where "?d s = trim_dashes s @ r" by (auto elim: prefixE)
  then have "trim_dashes s = [] \<or> hd (trim_dashes s) \<noteq> CHR ''-''"
    using hd_d [of s] by (cases "trim_dashes s") simp_all
  ultimately show ?thesis by blast
qed

lemma take_dash_front:
  "t = [] \<or> hd t \<noteq> CHR ''-'' \<and> last t \<noteq> CHR ''-'' \<Longrightarrow> \<not> prefix ''-'' (take n t)"
  by (cases t; cases n) auto

lemma take_dash_end:
  assumes "t = [] \<or> hd t \<noteq> CHR ''-'' \<and> last t \<noteq> CHR ''-''"
  shows "suffix ''-'' (take n t) \<longrightarrow> length (take n t) = n"
proof (cases "n \<le> length t")
  case True
  then show ?thesis by simp
next
  case False
  then have "take n t = t" by simp
  with assms show ?thesis by (auto simp: suffix_def)
qed

lemma slugify_shape:
  "length (slugify s) \<le> 64 \<and> (\<forall>c \<in> set (slugify s). slug_char c \<or> c = CHR ''-'') \<and> \<not> sublist ''--'' (slugify s) \<and>
   \<not> prefix ''-'' (slugify s) \<and> (suffix ''-'' (slugify s) \<longrightarrow> length (slugify s) = 64)"
proof -
  let ?t = "trim_dashes (dash_runs False (to_lower s))"
  have t: "slug_ok ?t"
    by (rule slug_ok_sublist [OF _ trim_dashes_sublist])
      (use dash_runs_chars dash_runs_no_double in \<open>auto simp: slug_ok_def\<close>)
  have "sublist (slugify s) ?t"
    by (simp add: slugify_def take_is_prefix prefix_imp_sublist)
  then have "slug_ok (slugify s)" using t slug_ok_sublist by blast
  moreover have "\<not> prefix ''-'' (slugify s)" "suffix ''-'' (slugify s) \<longrightarrow> length (slugify s) = 64"
    unfolding slugify_def by (rule take_dash_front [OF trim_dashes_ends], rule take_dash_end [OF trim_dashes_ends])
  moreover have "length (slugify s) \<le> 64" by (simp add: slugify_def)
  ultimately show ?thesis by (simp add: slug_ok_def)
qed

text \<open>The slug sent for an organization has at most 64 characters, all of them lower-case letters,
  digits and dashes, never two dashes in a row and never one in front; a dash at the end is possible only where
  the cut at 64 characters falls on one.\<close>

theorem slugify_well_formed:
  "length (slugify s) \<le> 64 \<and> (\<forall>c \<in> set (slugify s). slug_char c \<or> c = CHR ''-'') \<and> \<not> sublist ''--'' (slugify s) \<and>
   \<not> prefix ''-'' (slugify s) \<and> (suffix ''-'' (slugify s) \<longrightarrow> length (slugify s) = 64)"
  by (rule slugify_shape)

lemma slugify_cut: "slugify (replicate 63 (CHR ''A'') @ '' b'') = replicate 63 (CHR ''a'') @ ''-''"
  by code_simp

theorem slugify_well_formed_witness:
  "suffix ''-'' (slugify (replicate 63 (CHR ''A'') @ '' b'')) \<and>
   length (slugify (replicate 63 (CHR ''A'') @ '' b'')) = 64"
  using slugify_well_formed [of "replicate 63 (CHR ''A'') @ '' b''"] slugify_cut by (simp add: suffix_def)

section \<open>Forms: passwords and addresses\<close>

text \<open>Typing more characters never lowers the shown password strength, and a password is shown as
  strong exactly when at least three of the four tests (length, both cases, a digit, another character)
  succeed.\<close>

theorem strength_monotone:
  "strength_score pw \<le> strength_score (pw @ more) \<and> strength_score (pw @ more) \<le> 4 \<and>
   (getStrength (pw @ more) = Weak \<longrightarrow> getStrength pw = Weak) \<and>
   (getStrength pw = Strong \<longrightarrow> getStrength (pw @ more) = Strong)"
proof -
  have "strength_score pw \<le> strength_score (pw @ more)"
    unfolding strength_score_def by (intro add_mono) auto
  moreover have "strength_score (pw @ more) \<le> 4" by (simp add: strength_score_def)
  ultimately show ?thesis by (auto simp: getStrength_def Let_def split: if_splits)
qed

theorem strength_monotone_witness:
  "getStrength ''Tunnel42'' = Strong \<and> getStrength (''Tunnel42'' @ ''!'') = Strong"
proof -
  have "getStrength ''Tunnel42'' = Strong" by code_simp
  with strength_monotone [of "''Tunnel42''" "''!''"] show ?thesis by blast
qed

lemma dot_inside_iff:
  "list_ex (\<lambda>i. d ! i = CHR ''.'') [1 ..< length d - 1] \<longleftrightarrow>
   (\<exists>b c. d = b @ CHR ''.'' # c \<and> b \<noteq> [] \<and> c \<noteq> [])"
proof
  assume "list_ex (\<lambda>i. d ! i = CHR ''.'') [1 ..< length d - 1]"
  then obtain i where i: "1 \<le> i" "i < length d - 1" "d ! i = CHR ''.''"
    by (auto simp: list_ex_iff)
  then have "d = take i d @ CHR ''.'' # drop (Suc i) d"
    by (metis One_nat_def id_take_nth_drop less_diff_conv add_lessD1)
  with i show "\<exists>b c. d = b @ CHR ''.'' # c \<and> b \<noteq> [] \<and> c \<noteq> []"
    by (intro exI [of _ "take i d"] exI [of _ "drop (Suc i) d"]) auto
next
  assume "\<exists>b c. d = b @ CHR ''.'' # c \<and> b \<noteq> [] \<and> c \<noteq> []"
  then obtain b c where d: "d = b @ CHR ''.'' # c" "b \<noteq> []" "c \<noteq> []" by blast
  then have "d ! length b = CHR ''.''" "1 \<le> length b" "length b < length d - 1"
    by (cases b; cases c; simp add: nth_append)+
  then show "list_ex (\<lambda>i. d ! i = CHR ''.'') [1 ..< length d - 1]"
    by (auto simp: list_ex_iff)
qed

lemma at_split_iff:
  "split_on (CHR ''@'') s = [a, d] \<longleftrightarrow> s = a @ CHR ''@'' # d \<and> CHR ''@'' \<notin> set a \<and> CHR ''@'' \<notin> set d"
proof
  assume h: "split_on (CHR ''@'') s = [a, d]"
  then have "s = a @ CHR ''@'' # d" using join_split_on [of "CHR ''@''" s] by simp
  moreover have "CHR ''@'' \<notin> set a" "CHR ''@'' \<notin> set d"
    using split_on_pieces [of a "CHR ''@''" s] split_on_pieces [of d "CHR ''@''" s] h by simp_all
  ultimately show "s = a @ CHR ''@'' # d \<and> CHR ''@'' \<notin> set a \<and> CHR ''@'' \<notin> set d" by simp
next
  assume "s = a @ CHR ''@'' # d \<and> CHR ''@'' \<notin> set a \<and> CHR ''@'' \<notin> set d"
  then show "split_on (CHR ''@'') s = [a, d]" by (simp add: split_on_append split_on_no_sep)
qed

text \<open>The language of the expression: three non-empty parts without white space or \<open>@\<close>, around one \<open>@\<close>
  and one dot.\<close>

definition email_part :: "string \<Rightarrow> bool" where
  "email_part p \<longleftrightarrow> p \<noteq> [] \<and> (\<forall>c \<in> set p. \<not> is_ws c \<and> c \<noteq> CHR ''@'')"

text \<open>The forms accept exactly the addresses of the language of
  \<open>/^[^\s@]+@[^\s@]+\.[^\s@]+$/\<close>.\<close>

theorem email_test_language:
  "email_test s \<longleftrightarrow>
   (\<exists>a b c. s = a @ CHR ''@'' # b @ CHR ''.'' # c \<and> email_part a \<and> email_part b \<and> email_part c)"
proof
  assume "email_test s"
  then obtain a d where s: "split_on (CHR ''@'') s = [a, d]" "a \<noteq> []" "\<not> list_ex is_ws s"
    "list_ex (\<lambda>i. d ! i = CHR ''.'') [1 ..< length d - 1]"
    by (auto simp: email_test_def split: list.splits)
  then obtain b c where "d = b @ CHR ''.'' # c" "b \<noteq> []" "c \<noteq> []" using dot_inside_iff by blast
  with s show "\<exists>a b c. s = a @ CHR ''@'' # b @ CHR ''.'' # c \<and> email_part a \<and> email_part b \<and> email_part c"
    by (intro exI [of _ a] exI [of _ b] exI [of _ c]) (auto simp: at_split_iff email_part_def list_ex_iff)
next
  assume "\<exists>a b c. s = a @ CHR ''@'' # b @ CHR ''.'' # c \<and> email_part a \<and> email_part b \<and> email_part c"
  then obtain a b c where s: "s = a @ CHR ''@'' # (b @ CHR ''.'' # c)"
    and p: "email_part a" "email_part b" "email_part c" by auto
  from s p have "split_on (CHR ''@'') s = [a, b @ CHR ''.'' # c]"
    by (auto simp: at_split_iff email_part_def)
  moreover have "\<not> list_ex is_ws s"
    using s p by (auto simp: list_ex_iff email_part_def is_ws_def)
  moreover have "list_ex (\<lambda>i. (b @ CHR ''.'' # c) ! i = CHR ''.'') [1 ..< length (b @ CHR ''.'' # c) - 1]"
    using p by (subst dot_inside_iff) (auto simp: email_part_def)
  ultimately show "email_test s" using p by (simp add: email_test_def email_part_def)
qed

end
