(* ===== verification/Ui.thy ===== *)
theory Ui
  imports Format
begin

text \<open>
  The layer between the pages and React. A page is a state, a view of it (\<open>ui\<close>, the tree the JSX
  denotes without icons and class names), a handler per event, and continuations for what its handlers
  await. The user can only raise events the current view offers: a disabled button, a disabled field or a
  form whose submit button is disabled offers nothing.

  An \<open>async\<close> handler is cut at each \<open>await\<close>: the part before it is the event's handler, the part
  after it a continuation that carries the values the closure captured. The awaited results arrive in any
  order. What a handler does outside the page (a request, a toast, a navigation, a cache invalidation) is a
  list of commands.
\<close>

section \<open>Views\<close>

datatype 'e ui =
    Say caption
  | Node string "'e ui list"
  | Button bool 'e "'e ui list"
  | LinkTo string "'e ui list"
  | Field caption string bool "string \<Rightarrow> 'e"
  | NumField caption int "int \<Rightarrow> 'e"
  | Checkbox bool 'e
  | Select string "(string \<times> caption) list" "string \<Rightarrow> 'e"
  | Form bool 'e "'e ui list"
  | Listens 'e "'e ui list"

text \<open>The arguments: \<open>Button disabled onClick\<close>, \<open>Field label value disabled onChange\<close>,
  \<open>Checkbox checked onChange\<close>, \<open>Select value options onChange\<close>, \<open>Form blocked onSubmit\<close>;
  \<open>Listens\<close> is a key or click handler on any other element.\<close>

abbreviation Null :: "'e ui" where
  "Null \<equiv> Node '''' []"

primrec events :: "'e ui \<Rightarrow> 'e set" where
  "events (Say c) = {}"
| "events (Node tag us) = \<Union> (set (map events us))"
| "events (Button disabled e us) = (if disabled then {} else {e}) \<union> \<Union> (set (map events us))"
| "events (LinkTo to us) = \<Union> (set (map events us))"
| "events (Field lbl v disabled f) = (if disabled then {} else range f)"
| "events (NumField lbl v f) = range f"
| "events (Checkbox c e) = {e}"
| "events (Select v opts f) = f ` fst ` set opts"
| "events (Form blocked e us) = (if blocked then {} else {e}) \<union> \<Union> (set (map events us))"
| "events (Listens e us) = {e} \<union> \<Union> (set (map events us))"

text \<open>The paths of the links a view shows, and its texts, from top to bottom.\<close>

primrec links :: "'e ui \<Rightarrow> string list" where
  "links (Say c) = []"
| "links (Node tag us) = concat (map links us)"
| "links (Button disabled e us) = concat (map links us)"
| "links (LinkTo to us) = to # concat (map links us)"
| "links (Field lbl v disabled f) = []"
| "links (NumField lbl v f) = []"
| "links (Checkbox c e) = []"
| "links (Select v opts f) = []"
| "links (Form blocked e us) = concat (map links us)"
| "links (Listens e us) = concat (map links us)"

primrec texts :: "'e ui \<Rightarrow> caption list" where
  "texts (Say c) = [c]"
| "texts (Node tag us) = concat (map texts us)"
| "texts (Button disabled e us) = concat (map texts us)"
| "texts (LinkTo to us) = concat (map texts us)"
| "texts (Field lbl v disabled f) = []"
| "texts (NumField lbl v f) = []"
| "texts (Checkbox c e) = []"
| "texts (Select v opts f) = map snd opts"
| "texts (Form blocked e us) = concat (map texts us)"
| "texts (Listens e us) = concat (map texts us)"

text \<open>\<open>cond && element\<close>.\<close>

definition only_if :: "bool \<Rightarrow> 'e ui \<Rightarrow> 'e ui" where
  "only_if b u = (if b then u else Null)"

lemma events_only_if [simp]: "events (only_if b u) = (if b then events u else {})"
  by (simp add: only_if_def)

lemma texts_only_if [simp]: "texts (only_if b u) = (if b then texts u else [])"
  by (simp add: only_if_def)

lemma links_only_if [simp]: "links (only_if b u) = (if b then links u else [])"
  by (simp add: only_if_def)

text \<open>\<open>v || '-'\<close>, with a dash beyond ASCII in the source.\<close>

definition or_dash :: "string \<Rightarrow> string" where
  "or_dash v = (if v = '''' then ''-'' else v)"

text \<open>The shared components: a labelled input with its error, and the dialog, which listens to the Escape
  key and to clicks on the backdrop while it is open.\<close>

definition Input :: "caption \<Rightarrow> string \<Rightarrow> caption \<Rightarrow> bool \<Rightarrow> (string \<Rightarrow> 'e) \<Rightarrow> 'e ui" where
  "Input lbl v err disabled onChange = Node ''div''
     [only_if (lbl \<noteq> []) (Node ''label'' [Say lbl]),
      Field lbl v disabled onChange,
      only_if (err \<noteq> []) (Node ''p'' [Say err])]"

definition Dialog :: "bool \<Rightarrow> 'e \<Rightarrow> caption \<Rightarrow> caption \<Rightarrow> 'e ui list \<Rightarrow> 'e ui" where
  "Dialog is_open onClose title description children =
     (if \<not> is_open then Null
      else Listens onClose
        [Node ''div''
          [Button False onClose [],
           only_if (title \<noteq> []) (Node ''h2'' [Say title]),
           only_if (description \<noteq> []) (Node ''p'' [Say description]),
           Node ''div'' children]])"

lemma events_Input [simp]: "events (Input lbl v err disabled f) = (if disabled then {} else range f)"
  by (simp add: Input_def)

lemma events_Dialog [simp]:
  "events (Dialog is_open e title descr us) = (if is_open then {e} \<union> \<Union> (set (map events us)) else {})"
  by (simp add: Dialog_def)

section \<open>Commands\<close>

datatype cmd =
    CallApi string string json
  | ShowToast caption string
  | GoTo string
  | Invalidate "string list"
  | Refetch "string list"
  | CopyText string
  | Href string
  | Alert string
  | OpenTab string
  | HistoryBack

text \<open>\<open>CallApi method path body\<close>, with the body \<open>JUndef\<close> where none is sent.\<close>

fun is_call :: "cmd \<Rightarrow> bool" where
  "is_call (CallApi m p b) = True"
| "is_call _ = False"

section \<open>Pages\<close>

type_synonym result = "exn + json"

type_synonym ('s, 'k) effect = "'s \<times> cmd list \<times> 'k list"

record ('s, 'e, 'k) page =
  pg_mount :: "('s, 'k) effect"
  pg_view :: "'s \<Rightarrow> 'e ui"
  pg_user :: "'e \<Rightarrow> 's \<Rightarrow> ('s, 'k) effect"
  pg_resume :: "'k \<Rightarrow> result \<Rightarrow> 's \<Rightarrow> ('s, 'k) effect"
  pg_env :: "'s \<Rightarrow> 's \<Rightarrow> bool"

text \<open>
  A running page: its state, the continuations that wait, and the commands it has issued. The
  environment step is what the page does not control: the data its queries hold.
\<close>

type_synonym ('s, 'k) running = "'s \<times> 'k list \<times> cmd list"

inductive page_step :: "('s, 'e, 'k) page \<Rightarrow> ('s, 'k) running \<Rightarrow> ('s, 'k) running \<Rightarrow> bool" for pg where
  step_user:
    "e \<in> events (pg_view pg s) \<Longrightarrow> pg_user pg e s = (s', cs, new) \<Longrightarrow>
     page_step pg (s, ks, out) (s', ks @ new, out @ cs)"
| step_resume:
    "pg_resume pg k r s = (s', cs, new) \<Longrightarrow>
     page_step pg (s, ks1 @ k # ks2, out) (s', ks1 @ ks2 @ new, out @ cs)"
| step_env:
    "pg_env pg s s' \<Longrightarrow> page_step pg (s, ks, out) (s', ks, out)"

inductive page_reach :: "('s, 'e, 'k) page \<Rightarrow> ('s, 'k) running \<Rightarrow> bool" for pg where
  reach_mount: "pg_mount pg = (s, cs, ks) \<Longrightarrow> page_reach pg (s, ks, cs)"
| reach_step: "page_reach pg a \<Longrightarrow> page_step pg a b \<Longrightarrow> page_reach pg b"

inductive_cases page_stepE: "page_step pg a b"

text \<open>
  The contract a page proves of its invariant: mounting establishes it and every handler, every
  continuation with every result, and every change of the queries' data keeps it. The invariant relates
  the state to the continuations that wait.
\<close>

locale page_invariant =
  fixes pg :: "('s, 'e, 'k) page" and I :: "'s \<Rightarrow> 'k list \<Rightarrow> bool"
  assumes mount: "pg_mount pg = (s, cs, ks) \<Longrightarrow> I s ks"
    and user: "I s ks \<Longrightarrow> e \<in> events (pg_view pg s) \<Longrightarrow> pg_user pg e s = (s', cs, new) \<Longrightarrow> I s' (ks @ new)"
    and resume: "I s (ks1 @ k # ks2) \<Longrightarrow> pg_resume pg k r s = (s', cs, new) \<Longrightarrow> I s' (ks1 @ ks2 @ new)"
    and env: "I s ks \<Longrightarrow> pg_env pg s s' \<Longrightarrow> I s' ks"
begin

lemma step_keeps: "page_step pg a b \<Longrightarrow> I (fst a) (fst (snd a)) \<Longrightarrow> I (fst b) (fst (snd b))"
  by (induction rule: page_step.induct) (auto dest: user resume env)

lemma reach_keeps: "page_reach pg a \<Longrightarrow> I (fst a) (fst (snd a))"
  by (induction rule: page_reach.induct) (auto dest: mount step_keeps)

lemma reachable: "page_reach pg (s, ks, out) \<Longrightarrow> I s ks"
  using reach_keeps by fastforce

end

text \<open>The contract of a page whose commands all satisfy a predicate.\<close>

locale page_commands = page_invariant pg I
  for pg :: "('s, 'e, 'k) page" and I :: "'s \<Rightarrow> 'k list \<Rightarrow> bool" +
  fixes C :: "cmd \<Rightarrow> bool"
  assumes mount_cmds: "pg_mount pg = (s, cs, ks) \<Longrightarrow> c \<in> set cs \<Longrightarrow> C c"
    and user_cmds: "I s ks \<Longrightarrow> e \<in> events (pg_view pg s) \<Longrightarrow> pg_user pg e s = (s', cs, new) \<Longrightarrow> c \<in> set cs \<Longrightarrow> C c"
    and resume_cmds: "I s (ks1 @ k # ks2) \<Longrightarrow> pg_resume pg k r s = (s', cs, new) \<Longrightarrow> c \<in> set cs \<Longrightarrow> C c"
begin

lemma step_commands:
  "page_step pg a b \<Longrightarrow> I (fst a) (fst (snd a)) \<Longrightarrow> \<forall>c \<in> set (snd (snd a)). C c \<Longrightarrow> \<forall>c \<in> set (snd (snd b)). C c"
  by (induction rule: page_step.induct) (auto dest: user_cmds resume_cmds)

lemma reach_commands: "page_reach pg a \<Longrightarrow> \<forall>c \<in> set (snd (snd a)). C c"
proof (induction rule: page_reach.induct)
  case (reach_mount s cs ks)
  then show ?case by (auto dest: mount_cmds)
next
  case (reach_step a b)
  then show ?case using step_commands reach_keeps by blast
qed

lemma commands: "page_reach pg (s, ks, out) \<Longrightarrow> c \<in> set out \<Longrightarrow> C c"
  using reach_commands by fastforce

end

text \<open>
  The same contract as a page proves it: a guard per event, which the view enforces, and one law for all handlers
  and one for all continuations.
\<close>

locale page_guarded =
  fixes pg :: "('s, 'e, 'k) page" and I :: "'s \<Rightarrow> 'k list \<Rightarrow> bool" and G :: "'s \<Rightarrow> 'e \<Rightarrow> bool" and C :: "cmd \<Rightarrow> bool"
  assumes mounted: "I (fst (pg_mount pg)) (snd (snd (pg_mount pg)))" "list_all C (fst (snd (pg_mount pg)))"
    and offered: "I s ks \<Longrightarrow> e \<in> events (pg_view pg s) \<Longrightarrow> G s e"
    and handled: "I s ks \<Longrightarrow> G s e \<Longrightarrow> I (fst (pg_user pg e s)) (ks @ snd (snd (pg_user pg e s)))"
      "I s ks \<Longrightarrow> G s e \<Longrightarrow> list_all C (fst (snd (pg_user pg e s)))"
    and resumed: "I s (ks1 @ k # ks2) \<Longrightarrow> I (fst (pg_resume pg k r s)) (ks1 @ ks2 @ snd (snd (pg_resume pg k r s)))"
      "I s (ks1 @ k # ks2) \<Longrightarrow> list_all C (fst (snd (pg_resume pg k r s)))"
    and changed: "I s ks \<Longrightarrow> pg_env pg s s' \<Longrightarrow> I s' ks"

sublocale page_guarded \<subseteq> page_commands
proof unfold_locales
  fix s s' :: 's and ks ks1 ks2 new :: "'k list" and cs and c and e and k and r
  show "I s ks" if "pg_mount pg = (s, cs, ks)" using mounted that by simp
  show "I s' (ks @ new)" if "I s ks" "e \<in> events (pg_view pg s)" "pg_user pg e s = (s', cs, new)"
    using handled(1) [OF that(1) offered [OF that(1,2)]] that(3) by simp
  show "I s' (ks1 @ ks2 @ new)" if "I s (ks1 @ k # ks2)" "pg_resume pg k r s = (s', cs, new)"
    using resumed(1) [OF that(1), of r] that(2) by simp
  show "I s' ks" if "I s ks" "pg_env pg s s'" using changed that .
  show "C c" if "pg_mount pg = (s, cs, ks)" "c \<in> set cs" using mounted(2) that by (simp add: list_all_iff)
  show "C c" if "I s ks" "e \<in> events (pg_view pg s)" "pg_user pg e s = (s', cs, new)" "c \<in> set cs"
    using handled(2) [OF that(1) offered [OF that(1,2)]] that(3,4) by (simp add: list_all_iff)
  show "C c" if "I s (ks1 @ k # ks2)" "pg_resume pg k r s = (s', cs, new)" "c \<in> set cs"
    using resumed(2) [OF that(1), of r] that(2,3) by (simp add: list_all_iff)
qed

text \<open>
  The contract of a page that only reads: its handlers await nothing and issue nothing but reads.
\<close>

locale page_reading =
  fixes pg :: "('s, 'e, 'k) page" and J :: "'s \<Rightarrow> bool" and R :: "cmd \<Rightarrow> bool"
  assumes starts: "J (fst (pg_mount pg))" "list_all R (fst (snd (pg_mount pg)))" "snd (snd (pg_mount pg)) = []"
    and reads: "J s \<Longrightarrow> e \<in> events (pg_view pg s) \<Longrightarrow>
      J (fst (pg_user pg e s)) \<and> list_all R (fst (snd (pg_user pg e s))) \<and> snd (snd (pg_user pg e s)) = []"
    and refreshed: "J s \<Longrightarrow> pg_env pg s s' \<Longrightarrow> J s'"

sublocale page_reading \<subseteq> page_guarded pg "\<lambda>s ks. J s \<and> ks = []" "\<lambda>s e. e \<in> events (pg_view pg s)" R
  by unfold_locales (use starts reads refreshed in auto)

text \<open>
  A session played on a page, to reach concrete states: events the view offers, a result for the waiting
  continuation of an index, and a change of the queries' data.
\<close>

datatype ('s, 'e) act = Do 'e | Answer nat result | Change "'s \<Rightarrow> 's"

fun page_play :: "('s, 'e, 'k) page \<Rightarrow> ('s, 'e) act list \<Rightarrow> ('s, 'k) running \<Rightarrow> ('s, 'k) running option" where
  "page_play pg [] a = Some a"
| "page_play pg (Do e # ds) (s, ks, out) =
     (if e \<in> events (pg_view pg s)
      then (case pg_user pg e s of (s', cs, new) \<Rightarrow> page_play pg ds (s', ks @ new, out @ cs))
      else None)"
| "page_play pg (Answer i r # ds) (s, ks, out) =
     (if i < length ks
      then (case pg_resume pg (ks ! i) r s of (s', cs, new) \<Rightarrow>
              page_play pg ds (s', take i ks @ drop (Suc i) ks @ new, out @ cs))
      else None)"
| "page_play pg (Change f # ds) (s, ks, out) =
     (if pg_env pg s (f s) then page_play pg ds (f s, ks, out) else None)"

lemma page_play_reach: "page_reach pg a \<Longrightarrow> page_play pg ds a = Some b \<Longrightarrow> page_reach pg b"
proof (induction pg ds a rule: page_play.induct)
  case (2 pg e ds s ks out)
  then show ?case
    using reach_step [OF "2.prems"(1) step_user [of e pg s]] by (auto split: prod.splits if_splits)
next
  case (3 pg i r ds s ks out)
  obtain s' cs new where r: "pg_resume pg (ks ! i) r s = (s', cs, new)" by (cases "pg_resume pg (ks ! i) r s")
  have i: "i < length ks" using "3.prems"(2) by (auto split: if_splits)
  have "page_step pg (s, take i ks @ ks ! i # drop (Suc i) ks, out) (s', take i ks @ drop (Suc i) ks @ new, out @ cs)"
    by (rule step_resume [OF r])
  then have "page_reach pg (s', take i ks @ drop (Suc i) ks @ new, out @ cs)"
    using "3.prems"(1) reach_step i by (metis id_take_nth_drop)
  with "3.IH" "3.prems"(2) r i show ?case by simp
next
  case (4 pg f ds s ks out)
  then show ?case
    using reach_step [OF "4.prems"(1) step_env [of pg s "f s"]] by (auto split: if_splits)
qed simp

lemma page_play_mount:
  "pg_mount pg = (s, cs, ks) \<Longrightarrow> page_play pg ds (s, ks, cs) = Some b \<Longrightarrow> page_reach pg b"
  by (rule page_play_reach [OF reach_mount])

section \<open>Mutations\<close>

text \<open>
  What the pages read of a \<open>useMutation\<close> result. The pages disable the control that starts a mutation
  while it is pending, so that one call at a time is in flight; the theories of the pages prove it.
\<close>

record mutation =
  isPending :: bool
  merror :: "exn option"

definition idle :: mutation where
  "idle = \<lparr>isPending = False, merror = None\<rparr>"

definition mutate :: mutation where
  "mutate = \<lparr>isPending = True, merror = None\<rparr>"

fun settled :: "result \<Rightarrow> mutation" where
  "settled (Inl err) = \<lparr>isPending = False, merror = Some err\<rparr>"
| "settled (Inr v) = \<lparr>isPending = False, merror = None\<rparr>"

lemma mutation_simps [simp]:
  "\<not> isPending idle" "isPending mutate" "\<not> isPending (settled r)" "merror idle = None" "merror mutate = None"
  by (cases r; simp add: idle_def mutate_def)+

text \<open>\<open>waiting P ks\<close> continuations of a kind wait.\<close>

definition waiting :: "('k \<Rightarrow> bool) \<Rightarrow> 'k list \<Rightarrow> nat" where
  "waiting P ks = length (filter P ks)"

lemma waiting_simps [simp]:
  "waiting P [] = 0" "waiting P (k # ks) = (if P k then Suc (waiting P ks) else waiting P ks)"
  "waiting P (ks @ ls) = waiting P ks + waiting P ls"
  by (simp_all add: waiting_def)

lemma waiting_zero: "waiting P ks = 0 \<longleftrightarrow> (\<forall>k \<in> set ks. \<not> P k)"
  by (auto simp: waiting_def filter_empty_conv)

text \<open>A flag that says whether a continuation of the kind waits, at most one.\<close>

definition flags :: "bool \<Rightarrow> ('k \<Rightarrow> bool) \<Rightarrow> 'k list \<Rightarrow> bool" where
  "flags b P ks \<longleftrightarrow> waiting P ks = (if b then 1 else 0)"

text \<open>At most one request of each kind is in flight in every reachable state, exactly while its flag is up: a kind
  is a flag of the state and the continuations that answer it.\<close>

definition single_flight :: "('s, 'e, 'k) page \<Rightarrow> (('s \<Rightarrow> bool) \<times> ('k \<Rightarrow> bool)) list \<Rightarrow> bool" where
  "single_flight pg kinds \<longleftrightarrow>
     (\<forall>s ks out. page_reach pg (s, ks, out) \<longrightarrow> list_all (\<lambda>(flag, P). flags (flag s) P ks) kinds)"

context page_invariant
begin

lemma single_flightI:
  "(\<And>s ks. I s ks \<Longrightarrow> list_all (\<lambda>(flag, P). flags (flag s) P ks) kinds) \<Longrightarrow> single_flight pg kinds"
  unfolding single_flight_def using reachable by blast

end

text \<open>The text a page shows for a failed mutation.\<close>

definition mutation_error :: "mutation \<Rightarrow> string \<Rightarrow> 'e ui" where
  "mutation_error m key =
     (case merror m of
        None \<Rightarrow> Null
      | Some err \<Rightarrow> Node ''p''
          [if nullish (exn_message err) then Say (tr key) else Say [Lit (js_string (exn_message err))]])"

lemma events_mutation_error [simp]: "events (mutation_error m key) = {}"
  by (simp add: mutation_error_def split: option.split)

lemma links_mutation_error [simp]: "links (mutation_error m key) = []"
  by (simp add: mutation_error_def split: option.split)

text \<open>The error of a form that creates and edits: \<open>createMutation.error?.message ?? updateMutation.error?.message ?? t(key)\<close>.\<close>

definition error_message :: "mutation \<Rightarrow> json" where
  "error_message m = (case merror m of None \<Rightarrow> JUndef | Some err \<Rightarrow> exn_message err)"

definition form_error :: "mutation \<Rightarrow> mutation \<Rightarrow> string \<Rightarrow> 'e ui" where
  "form_error create update key =
     (let m = coalesce (error_message create) (error_message update) in
      only_if (merror create \<noteq> None \<or> merror update \<noteq> None)
        (Node ''Badge'' [Say (if nullish m then tr key else [Lit (js_string m)])]))"

lemma events_form_error [simp]: "events (form_error c u key) = {}"
  by (simp add: form_error_def Let_def)

text \<open>The dialogs that ask before something is removed; \<open>keys\<close> are the texts of title, message, cancel button, and
  confirm button while pending and otherwise.\<close>

definition confirm_dialog :: "bool \<Rightarrow> 'e \<Rightarrow> 'e \<Rightarrow> bool \<Rightarrow> string \<times> string \<times> string \<times> string \<times> string \<Rightarrow> 'e ui" where
  "confirm_dialog is_open onCancel onConfirm pending keys =
     (case keys of (title, message, cancel, doing, confirm) \<Rightarrow>
        Dialog is_open onCancel (tr title) (tr message)
          [Node ''div''
            [Button False onCancel [Say (tr cancel)],
             Button pending onConfirm [Say (tr (if pending then doing else confirm))]]])"

lemma events_confirm_dialog [simp]:
  "events (confirm_dialog is_open c e pending keys) = (if is_open then {c} \<union> (if pending then {} else {e}) else {})"
  by (auto simp: confirm_dialog_def split: prod.split)

lemma links_confirm_dialog [simp]: "links (confirm_dialog is_open c e pending keys) = []"
  by (auto simp: confirm_dialog_def Dialog_def split: prod.split)

text \<open>A button whose handler starts with \<open>confirm\<close>: the user's answer is part of the event.\<close>

definition confirm_button :: "bool \<Rightarrow> (bool \<Rightarrow> 'e) \<Rightarrow> 'e ui" where
  "confirm_button disabled e = Node '''' [Button disabled (e True) [], Button disabled (e False) []]"

lemma events_confirm_button [simp]: "events (confirm_button disabled e) = (if disabled then {} else range e)"
  by (auto simp: confirm_button_def UNIV_bool)

section \<open>Toasts\<close>

record toast =
  toast_id :: string
  toast_title :: caption
  toast_description :: caption
  toast_variant :: "string option"
  toast_duration :: "int option"

text \<open>\<open>toast(t)\<close> with the id \<open>crypto.randomUUID()\<close> returns; the second result is the timer it sets.\<close>

definition toast_add :: "string \<Rightarrow> toast \<Rightarrow> toast list \<Rightarrow> toast list \<times> (string \<times> int) option" where
  "toast_add uid t toasts =
     (let duration = (case toast_duration t of None \<Rightarrow> 4000 | Some d \<Rightarrow> d) in
      (toasts @ [t\<lparr>toast_id := uid\<rparr>], if duration > 0 then Some (uid, duration) else None))"

definition dismiss :: "string \<Rightarrow> toast list \<Rightarrow> toast list" where
  "dismiss uid toasts = filter (\<lambda>t. toast_id t \<noteq> uid) toasts"

definition ToastItem :: "toast \<Rightarrow> 'e \<Rightarrow> 'e ui" where
  "ToastItem t onDismiss = Node ''div'' [Node ''div'' 
     [Node ''p'' [Say (toast_title t)],
      only_if (toast_description t \<noteq> []) (Node ''p'' [Say (toast_description t)])], Button False onDismiss []]"

definition ToastContainer :: "toast list \<Rightarrow> (string \<Rightarrow> 'e) \<Rightarrow> 'e ui" where
  "ToastContainer toasts onDismiss = Node ''div'' (map (\<lambda>t. ToastItem t (onDismiss (toast_id t))) toasts)"

lemma dismiss_added:
  "uid \<notin> toast_id ` set toasts \<Longrightarrow> dismiss uid (fst (toast_add uid t toasts)) = toasts"
  by (auto simp: dismiss_def toast_add_def Let_def filter_id_conv)

lemma dismiss_keeps_order: "subseq (dismiss uid toasts) toasts"
  by (simp add: dismiss_def subseq_filter_left)

end
