(* ===== verification/Hooks.thy ===== *)
theory Hooks
  imports Ui
begin

text \<open>
  The data types of the web console (\<open>lib/types.ts\<close>) and its data hooks (\<open>hooks/useTunnels.ts\<close>,
  \<open>hooks/useNetworks.ts\<close>). The query cache is outside the model: a hook is the
  function from a response to its list, the request each mutation sends and the keys it invalidates.

  Responses are typed by unchecked casts; the pages' data are records of the declared types.
\<close>

section \<open>Types\<close>

record tunnel =
  tunnel_id :: string
  tunnel_name :: string
  tunnel_protocol :: string
  tunnel_local_port :: int
  tunnel_remote_port :: int
  tunnel_domain :: "string option"
  tunnel_status :: string
  tunnel_tags :: "string list option"
  tunnel_bytes_in_total :: nat
  tunnel_bytes_out_total :: nat

text \<open>The last two are not declared in \<open>lib/types.ts\<close>: the tunnel list reads them through \<open>any\<close>, 0 where
  they are missing.\<close>

record tunnel_template =
  tmpl_id :: string
  tmpl_name :: string
  tmpl_icon :: string
  tmpl_protocol :: string
  tmpl_local_port :: int
  tmpl_tls_mode :: string
  tmpl_compression :: bool
  tmpl_description :: string

record mesh_network =
  network_id :: string
  network_name :: string
  network_cidr :: string
  network_node_count :: int

section \<open>List responses\<close>

text \<open>
  The list endpoints answer with an array or with an object that holds one: anything else is the empty
  list.
\<close>

definition list_response :: "string \<Rightarrow> json \<Rightarrow> json list" where
  "list_response key data =
     (if is_array data then array_elems data
      else if truthy data \<and> is_array (jprop data key) then array_elems (jprop data key)
      else [])"

definition tunnels_queryFn :: "json \<Rightarrow> json list" where
  "tunnels_queryFn data = list_response ''tunnels'' data"

definition networks_queryFn :: "json \<Rightarrow> json list" where
  "networks_queryFn data = list_response ''networks'' data"

text \<open>\<open>tunnelsQuery.data ?? []\<close>.\<close>

definition data_or_empty :: "'a list option \<Rightarrow> 'a list" where
  "data_or_empty d = (case d of None \<Rightarrow> [] | Some xs \<Rightarrow> xs)"

lemma list_response_wrapped: "list_response key (JObj [(key, JArr vs)]) = list_response key (JArr vs)"
  by (simp add: list_response_def jprop_def)

lemma list_response_other:
  "\<not> is_array data \<Longrightarrow> \<not> is_array (jprop data key) \<Longrightarrow> list_response key data = []"
  by (simp add: list_response_def)

section \<open>Queries\<close>

text \<open>What the pages read of a \<open>useQuery\<close> result.\<close>

record 'a query =
  q_isLoading :: bool
  q_isError :: bool
  q_data :: "'a option"

definition q_pending :: "'a query" where
  "q_pending = \<lparr>q_isLoading = True, q_isError = False, q_data = None\<rparr>"

definition q_success :: "'a \<Rightarrow> 'a query" where
  "q_success x = \<lparr>q_isLoading = False, q_isError = False, q_data = Some x\<rparr>"

text \<open>A query whose \<open>enabled\<close> is false and that has no data: nothing is being loaded.\<close>

definition q_disabled :: "'a query" where
  "q_disabled = \<lparr>q_isLoading = False, q_isError = False, q_data = None\<rparr>"

text \<open>What enabling a query does to one that has no data: it is loading from then on, and a request is sent unless
  one is on its way.\<close>

definition q_enable :: "'a query \<Rightarrow> 'a query" where
  "q_enable q = (if q_data q = None then q_pending else q)"

definition q_fetches :: "'a query \<Rightarrow> bool" where
  "q_fetches q \<longleftrightarrow> q_data q = None \<and> \<not> q_isLoading q"

definition q_isSuccess :: "'a query \<Rightarrow> bool" where
  "q_isSuccess q \<longleftrightarrow> q_data q \<noteq> None \<and> \<not> q_isError q"

lemma query_simps [simp]:
  "q_isLoading q_pending" "q_data q_pending = None" "\<not> q_isLoading (q_success x)" "\<not> q_isError (q_success x)" "q_data (q_success x) = Some x"
  by (simp_all add: q_pending_def q_success_def)

abbreviation present :: "string option \<Rightarrow> bool" where
  "present v \<equiv> v \<noteq> None \<and> v \<noteq> Some ''''"

definition failed_load :: "string \<Rightarrow> 'e ui list \<Rightarrow> 'e ui" where
  "failed_load key us = Node ''div'' (Node ''p'' [Say (tr key)] # us)"

definition head_row :: "string list \<Rightarrow> 'e ui" where
  "head_row keys = Node ''TableHeader'' [Node ''TableRow'' (map (\<lambda>k. Node ''TableHead'' [Say (tr k)]) keys)]"

lemma data_or_empty_simps [simp]: "data_or_empty None = []" "data_or_empty (Some xs) = xs"
  by (simp_all add: data_or_empty_def)

lemma events_failed_load [simp]: "events (failed_load key us) = \<Union> (set (map events us))"
  by (simp add: failed_load_def)

lemma events_head_row [simp]: "events (head_row keys) = {}"
  by (auto simp: head_row_def)

section \<open>Tunnel mutations\<close>

abbreviation TUNNELS_KEY :: "string list" where
  "TUNNELS_KEY \<equiv> [''tunnels'']"

definition opt_str :: "string option \<Rightarrow> json" where
  "opt_str o' = (case o' of None \<Rightarrow> JUndef | Some s \<Rightarrow> JStr s)"

definition createTunnel :: "string \<Rightarrow> string \<Rightarrow> int \<Rightarrow> int \<Rightarrow> string option \<Rightarrow> cmd" where
  "createTunnel name protocol local_port remote_port domain =
     CallApi ''POST'' ''/v1/tunnels'' (json_body
       [(''name'', JStr name), (''protocol'', JStr protocol), (''local_port'', JNum local_port),
        (''remote_port'', JNum remote_port), (''domain'', opt_str domain)])"

definition tunnel_path :: "string \<Rightarrow> string" where
  "tunnel_path tid = ''/v1/tunnels/'' @ tid"

definition updateTunnel :: "string \<Rightarrow> (string \<times> json) list \<Rightarrow> cmd" where
  "updateTunnel tid input = CallApi ''PATCH'' (tunnel_path tid) (json_body input)"

definition deleteTunnel :: "string \<Rightarrow> cmd" where
  "deleteTunnel tid = CallApi ''DELETE'' (tunnel_path tid) JUndef"

definition startTunnel :: "string \<Rightarrow> cmd" where
  "startTunnel tid = CallApi ''POST'' (tunnel_path tid @ ''/start'') JUndef"

definition stopTunnel :: "string \<Rightarrow> cmd" where
  "stopTunnel tid = CallApi ''POST'' (tunnel_path tid @ ''/stop'') JUndef"

definition restartTunnel :: "string \<Rightarrow> cmd" where
  "restartTunnel tid = CallApi ''POST'' (tunnel_path tid @ ''/restart'') JUndef"

text \<open>\<open>onSuccess\<close> of each tunnel mutation: the list is stale.\<close>

fun tunnels_onSuccess :: "result \<Rightarrow> cmd list" where
  "tunnels_onSuccess (Inl err) = []"
| "tunnels_onSuccess (Inr v) = [Invalidate TUNNELS_KEY]"

text \<open>\<open>useTunnel\<close> asks only for an id that is there.\<close>

definition useTunnel_calls :: "string option \<Rightarrow> cmd list" where
  "useTunnel_calls tid = (case tid of None \<Rightarrow> [] | Some i \<Rightarrow> if i = [] then [] else [CallApi ''GET'' (tunnel_path i) JUndef])"

section \<open>Network mutations\<close>

abbreviation NETWORKS_KEY :: "string list" where
  "NETWORKS_KEY \<equiv> [''networks'']"

definition network_path :: "string \<Rightarrow> string" where
  "network_path nid = ''/v1/networks/'' @ nid"

definition createNetwork :: "string \<Rightarrow> string \<Rightarrow> cmd" where
  "createNetwork name cidr = CallApi ''POST'' ''/v1/networks'' (json_body [(''name'', JStr name), (''cidr'', JStr cidr)])"

definition joinNetwork :: "string \<Rightarrow> cmd" where
  "joinNetwork invite_code = CallApi ''POST'' ''/v1/networks/join'' (json_body [(''invite_code'', JStr invite_code)])"

definition deleteNetwork :: "string \<Rightarrow> cmd" where
  "deleteNetwork nid = CallApi ''DELETE'' (network_path nid) JUndef"

fun networks_onSuccess :: "result \<Rightarrow> cmd list" where
  "networks_onSuccess (Inl err) = []"
| "networks_onSuccess (Inr v) = [Invalidate NETWORKS_KEY]"

definition createInvite :: "string \<Rightarrow> cmd" where
  "createInvite nid = CallApi ''POST'' (network_path nid @ ''/invite'') JUndef"

fun invite_onSuccess :: "string \<Rightarrow> result \<Rightarrow> cmd list" where
  "invite_onSuccess nid (Inl err) = []"
| "invite_onSuccess nid (Inr v) = [Invalidate [''network'', nid, ''invite'']]"

definition removeNode :: "string \<Rightarrow> string \<Rightarrow> cmd" where
  "removeNode nid node = CallApi ''DELETE'' (network_path nid @ ''/nodes/'' @ node) JUndef"

fun removeNode_onSuccess :: "string \<Rightarrow> result \<Rightarrow> cmd list" where
  "removeNode_onSuccess nid (Inl err) = []"
| "removeNode_onSuccess nid (Inr v) = [Invalidate [''network'', nid], Invalidate NETWORKS_KEY]"

text \<open>
  A key is stale when an invalidated one is its prefix: removing a node makes the network's own query stale,
  the one of its invitation too, and the list of networks.
\<close>

definition stale :: "cmd list \<Rightarrow> string list \<Rightarrow> bool" where
  "stale cs key \<longleftrightarrow> list_ex (\<lambda>c. case c of Invalidate k \<Rightarrow> prefix k key | _ \<Rightarrow> False) cs"

lemma removeNode_stale:
  "stale (removeNode_onSuccess nid (Inr v)) [''network'', nid, ''invite'']"
  "stale (removeNode_onSuccess nid (Inr v)) NETWORKS_KEY"
  by (simp_all add: stale_def)

lemma tunnel_calls_distinct:
  "distinct [deleteTunnel i, startTunnel i, stopTunnel i, restartTunnel i]"
  by (simp add: deleteTunnel_def startTunnel_def stopTunnel_def restartTunnel_def)

end
