(* ===== verification/Translations.thy ===== *)
theory Translations
  imports Hooks
begin

text \<open>
  The texts of both front ends (\<open>web/src/i18n\<close>, \<open>admin/src/i18n\<close>): the keys of the resource files with the names their texts
  interpolate, by section. \<open>en.json\<close> and \<open>zh.json\<close> have the same keys with the same names, in the same order, so that one table
  stands for both languages and for the fallback \<open>en\<close>. What \<open>t\<close> returns for a key that is in no table is the library's: the key
  itself, or the text the call gives as the default. A view is \<open>translated\<close> when every key it shows is in the table and gets all
  the names the text interpolates, or has a default.
\<close>

type_synonym texts_section = "(string \<times> string list) list"

type_synonym texts_table = "(string \<times> texts_section) list"

text \<open>\<open>plain\<close> texts interpolate nothing.\<close>

definition plain :: "string list \<Rightarrow> texts_section" where
  "plain ks = map (\<lambda>k. (k, [])) ks"

text \<open>A key is the name of its section, a dot, and the path in the section.\<close>

definition text_params :: "texts_table \<Rightarrow> string \<Rightarrow> string list option" where
  "text_params table key =
     (let sec = takeWhile (\<lambda>c. c \<noteq> CHR ''.'') key; rest = drop (Suc (length sec)) key in
      Option.bind (map_of table sec) (\<lambda>entries. map_of entries rest))"

primrec label_found :: "texts_table \<Rightarrow> label \<Rightarrow> bool" where
  "label_found table (Lit s) = True"
| "label_found table (Tr key ps) = (case text_params table key of None \<Rightarrow> ''defaultValue'' \<in> fst ` set ps | Some names \<Rightarrow> list_all (\<lambda>n. n \<in> fst ` set ps) names)"

definition caption_found :: "texts_table \<Rightarrow> caption \<Rightarrow> bool" where
  "caption_found table c = list_all (label_found table) c"

definition translated :: "texts_table \<Rightarrow> 'e ui \<Rightarrow> bool" where
  "translated table u = list_all (caption_found table) (texts u)"

definition web_en :: texts_table where
  "web_en =
     [(''app'', plain [''title'', ''tagline'']),
      (''nav'', plain [''dashboard'', ''tunnels'', ''domains'', ''networks'', ''billing'', ''settings'', ''notifications'', ''api_docs'',
        ''downloads'', ''sign_out'']),
      (''auth'', plain [''login.title'', ''login.description'', ''login.email'', ''login.password'', ''login.submit'', ''login.signing_in'',
        ''login.no_account'', ''login.register_link'', ''login.or_continue'', ''login.github'', ''login.google'', ''login.saml'',
        ''login.oidc'', ''login.email_required'', ''login.invalid_email'', ''login.password_required'', ''login.email_placeholder'',
        ''login.password_placeholder'', ''login.forgot_password'', ''login.mfa_code'', ''login.mfa_code_required'',
        ''login.mfa_description'', ''login.verify_mfa'', ''login.back_to_login'', ''register.title'', ''register.description'',
        ''register.name'', ''register.email'', ''register.password'', ''register.confirm_password'', ''register.submit'',
        ''register.creating'', ''register.has_account'', ''register.sign_in_link'', ''register.password_strength.label'',
        ''register.password_strength.weak'', ''register.password_strength.medium'', ''register.password_strength.strong'',
        ''register.name_required'', ''register.email_required'', ''register.password_mismatch'', ''register.password_min'',
        ''register.password_rule'', ''register.created'', ''register.name_placeholder'', ''register.email_placeholder'',
        ''register.confirm_password_placeholder'', ''register.invalid_email'', ''forgot.title'', ''forgot.description'',
        ''forgot.email'', ''forgot.email_placeholder'', ''forgot.submit'', ''forgot.sending'', ''forgot.success'', ''forgot.back'',
        ''forgot.email_required'', ''forgot.invalid_email'', ''reset.title'', ''reset.description'', ''reset.new_password'',
        ''reset.confirm_password'', ''reset.submit'', ''reset.resetting'', ''reset.success'', ''reset.back'', ''reset.token_missing'',
        ''reset.password_strength.label'', ''reset.password_strength.weak'', ''reset.password_strength.medium'',
        ''reset.password_strength.strong'', ''reset.password_mismatch'', ''reset.password_min'', ''reset.password_rule'',
        ''reset.confirm_password_placeholder'', ''reset.invalid_token'']),
      (''onboarding'', plain [''step1_title'', ''step1_desc'', ''step1_feature1_title'', ''step1_feature1_desc'', ''step1_feature2_title'',
        ''step1_feature2_desc'', ''step1_feature3_title'', ''step1_feature3_desc'', ''step2_title'', ''step2_desc'',
        ''step2_name_label'', ''step2_name_placeholder'', ''step2_slug_label'', ''step2_slug_placeholder'', ''step2_name_required'',
        ''step3_title'', ''step3_desc'', ''step3_macos'', ''step3_linux'', ''step3_windows'', ''step3_install_note'',
        ''step3_verify'', ''step4_title'', ''step4_desc'', ''step4_port_label'', ''step4_port_placeholder'', ''step4_protocol_label'',
        ''step4_name_label'', ''step4_name_placeholder'', ''step4_preview_title'', ''step4_creating'', ''step4_create'',
        ''step4_created'', ''step5_title'', ''step5_desc'', ''step5_tunnel_url'', ''step5_link_dashboard'', ''step5_link_tunnels'',
        ''step5_link_docs'', ''step5_copy_url'', ''skip'', ''back'', ''next'', ''finish'', ''get_started'', ''creating_org'',
        ''copied_cli'', ''failed_create_org'', ''failed_create_tunnel'']),
      (''common'', plain [''loading'', ''error'', ''retry'', ''cancel'', ''save'', ''delete'', ''copy'', ''copied'', ''active'', ''status'', ''time'',
        ''never'']),
      (''networks'', plain [''title'', ''subtitle'', ''create'', ''join'', ''empty'', ''created'', ''joined'', ''deleted'', ''active'', ''failed_load'',
        ''table.name'', ''table.cidr'', ''table.nodes'', ''table.status'', ''table.actions'', ''create_dialog.title'',
        ''create_dialog.description'', ''create_dialog.name'', ''create_dialog.name_placeholder'', ''create_dialog.cidr'',
        ''create_dialog.cancel'', ''create_dialog.submit'', ''create_dialog.creating'', ''create_dialog.failed_create'',
        ''join_dialog.title'', ''join_dialog.description'', ''join_dialog.code'', ''join_dialog.code_placeholder'',
        ''join_dialog.cancel'', ''join_dialog.submit'', ''join_dialog.joining'', ''join_dialog.failed_join'', ''delete_dialog.title'',
        ''delete_dialog.message'', ''delete_dialog.cancel'', ''delete_dialog.confirm'', ''delete_dialog.deleting'']),
      (''network_detail'', plain [''breadcrumb'', ''back'', ''not_found'', ''failed_load'', ''created'', ''online_nodes'', ''invite_code'',
        ''invite_description'', ''no_invite'', ''generate_invite'', ''generating'', ''invite_created'', ''copy_code'', ''topology'',
        ''topology_description'', ''nodes'', ''no_nodes'', ''node_removed'', ''table.name'', ''table.ip'', ''table.public_key'',
        ''table.nat_type'', ''table.endpoint'', ''table.status'', ''table.actions'', ''status.online'', ''status.offline'',
        ''remove_dialog.title'', ''remove_dialog.message'', ''remove_dialog.cancel'', ''remove_dialog.confirm'',
        ''remove_dialog.removing'']),
      (''billing'', plain [''title'', ''subtitle'', ''current_plan'', ''current_plan_desc'', ''available_plans'', ''current'', ''free''] @
        [(''upgrade_to'', [''plan''])] @
        plain [''upgrading'', ''downgrade'', ''checkout_failed'', ''upgrade'', ''active'', ''connections'', ''unlimited'', ''tunnels_usage'',
        ''bandwidth_usage''] @
        [(''tunnels_count'', [''count''])] @
        [(''bandwidth_count'', [''gb''])] @
        plain [''usage_details'', ''usage_tunnels'', ''usage_bandwidth'', ''period_start'', ''period_end'', ''invoice_history'',
        ''no_invoices'', ''failed_usage'', ''failed_invoices'', ''table.invoice'', ''table.plan'', ''table.amount'', ''table.status'',
        ''table.date'']),
      (''inspect'', plain [''title'', ''subtitle'', ''back'', ''pause'', ''resume'', ''clear'', ''filter_placeholder'', ''empty'', ''no_match'',
        ''table.time'', ''table.method'', ''table.path'', ''table.status'', ''table.duration'', ''table.client_ip'', ''detail.title'',
        ''detail.request'', ''detail.response'', ''detail.method'', ''detail.path'', ''detail.status'', ''detail.duration'',
        ''detail.headers'', ''detail.body'', ''detail.no_body'', ''detail.copy_request'', ''detail.copy_response'', ''detail.replay'',
        ''detail.close'', ''replay_dialog.title'', ''replay_dialog.description'', ''replay_dialog.send'', ''replay_dialog.sending'',
        ''replay_dialog.cancel'']),
      (''webhooks'', plain [''title'', ''subtitle'', ''create'', ''empty'', ''failed_load'', ''created'', ''updated'', ''deleted'', ''table.name'',
        ''table.url'', ''table.events'', ''table.status'', ''table.last_delivery'', ''table.actions'', ''status.active'',
        ''status.failed'', ''status.disabled'', ''events.tunnel.started'', ''events.tunnel.stopped'', ''events.tunnel.error'',
        ''events.cert.expiring'', ''events.quota.warning'', ''events.org.member_joined'', ''create_dialog.title'',
        ''create_dialog.description'', ''create_dialog.name'', ''create_dialog.name_placeholder'', ''create_dialog.url'',
        ''create_dialog.url_placeholder'', ''create_dialog.events'', ''create_dialog.secret'', ''create_dialog.secret_placeholder'',
        ''create_dialog.regenerate'', ''create_dialog.copy_secret'', ''create_dialog.test_send'', ''create_dialog.test_sending''] @
        [(''create_dialog.test_sent'', [''status''])] @
        plain [''create_dialog.cancel'', ''create_dialog.submit'', ''create_dialog.creating'', ''create_dialog.failed_create'',
        ''edit_dialog.title'', ''edit_dialog.description'', ''edit_dialog.cancel'', ''edit_dialog.save'', ''edit_dialog.saving'',
        ''edit_dialog.failed_update'', ''delete_dialog.title'', ''delete_dialog.message'', ''delete_dialog.cancel'',
        ''delete_dialog.confirm'', ''delete_dialog.deleting'', ''deliveries.title'', ''deliveries.recent'', ''deliveries.empty'',
        ''deliveries.table.time'', ''deliveries.table.event'', ''deliveries.table.status'', ''deliveries.table.duration'',
        ''deliveries.table.retries'', ''deliveries.detail.title'', ''deliveries.detail.request'', ''deliveries.detail.response'',
        ''deliveries.detail.headers'', ''deliveries.detail.body'']),
      (''domains'', plain [''title'', ''subtitle'', ''add'', ''created'', ''removed'', ''verify_triggered'', ''empty'', ''add_first'', ''failed_load'',
        ''total'', ''dns_title'', ''dns_description'', ''dns_step1'', ''dns_step2'', ''dns_step3'', ''table.domain'',
        ''table.tunnel'', ''table.verification'', ''table.created'', ''table.actions'', ''verification.pending'',
        ''verification.verified'', ''verification.failed'', ''add_dialog.title'', ''add_dialog.description'', ''add_dialog.domain'',
        ''add_dialog.tunnel'', ''add_dialog.select_tunnel'', ''add_dialog.cancel'', ''add_dialog.submit'', ''add_dialog.adding'',
        ''add_dialog.failed_add'', ''instructions_dialog.title'', ''instructions_dialog.description'',
        ''instructions_dialog.record_type'', ''instructions_dialog.name'', ''instructions_dialog.value'',
        ''instructions_dialog.note'', ''instructions_dialog.done'', ''delete_dialog.title'', ''delete_dialog.message'',
        ''delete_dialog.cancel'', ''delete_dialog.confirm'', ''delete_dialog.removing'']),
      (''notifications'', plain [''title'', ''subtitle'', ''mark_all_read'', ''empty'', ''failed_load'', ''all'', ''tunnels'', ''billing_cat'', ''system'',
        ''view'', ''ago.now''] @
        [(''ago.minute'', [''n''])] @
        [(''ago.hour'', [''n''])] @
        [(''ago.day'', [''n''])] @
        plain [''types.tunnel_created'', ''types.tunnel_stopped'', ''types.tunnel_started'', ''types.tunnel_deleted'',
        ''types.tunnel_error'', ''types.billing_invoice'', ''types.billing_upgrade'', ''types.billing_limit'',
        ''types.system_maintenance'', ''types.system_update'', ''types.domain_verified'', ''types.domain_failed'']),
      (''search'', plain [''placeholder'', ''no_results'', ''groups.tunnels'', ''groups.domains'', ''groups.settings'', ''groups.docs'',
        ''groups.networks'']),
      (''theme'', plain [''light'', ''dark'', ''system'']),
      (''templates'', plain [''tab_from_scratch'', ''tab_templates'', ''http_api'', ''http_api_desc'', ''grpc'', ''grpc_desc'', ''websocket'',
        ''websocket_desc'', ''tcp_database'', ''tcp_database_desc'', ''ssh'', ''ssh_desc'']),
      (''batch'', [(''selected'', [''count''])] @
        plain [''start_all'', ''stop_all'', ''delete_all'', ''select_all'', ''batch_delete_title''] @
        [(''batch_delete_message'', [''count''])]),
      (''sessions'', plain [''title'', ''subtitle'', ''current_session'', ''revoke'', ''revoking'', ''revoke_confirm'', ''no_sessions'', ''failed_load'',
        ''revoked'', ''table.browser'', ''table.ip'', ''table.location'', ''table.last_active'', ''table.actions'']),
      (''tags'', plain [''placeholder'', ''no_tags'', ''filter_by_tag'']),
      (''invitations'', plain [''generate'', ''generating'', ''active_links'', ''no_invites'', ''expires'', ''uses'', ''never_expires'', ''unlimited_uses'',
        ''link_copied'', ''deleted'', ''copy_link'', ''delete_link'']),
      (''activity'', plain [''title'', ''description'', ''empty'', ''failed_load'']),
      (''apidocs'', plain [''title'', ''subtitle'', ''endpoints'', ''failed_load'']),
      (''downloads'', plain [''title'', ''subtitle'', ''quick_start'', ''install'', ''verify''])]"

definition admin_en :: texts_table where
  "admin_en =
     [(''common'', plain [''back'', ''save'', ''cancel'', ''create'', ''update'', ''edit'', ''delete'', ''retry'', ''search'', ''actions'', ''status'',
        ''name'', ''email'', ''role'', ''plan'', ''created'', ''expires'', ''active'', ''inactive'', ''enabled'', ''disabled'',
        ''yes'', ''no'', ''never'', ''all'', ''none'', ''loading'', ''saving'', ''confirm'', ''description'']),
      (''nav'', plain [''dashboard'', ''organizations'', ''users'', ''relayNodes'', ''auditLogs'', ''announcements'', ''certificates'', ''revenue'',
        ''invoices'', ''pricing'', ''discounts'', ''ipWhitelist'', ''dataRetention'', ''slaDashboard'', ''auditReports'', ''roles'',
        ''signOut'', ''omniTunAdmin'']),
      (''auth'', plain [''login.title'', ''login.subtitle'', ''login.email'', ''login.password'', ''login.emailPlaceholder'',
        ''login.passwordPlaceholder'', ''login.signIn'', ''login.signingIn'', ''login.emailRequired'', ''login.invalidEmail'',
        ''login.passwordRequired'']),
      (''dashboard'', plain [''title'', ''subtitle'', ''totalOrgs'', ''activeTunnels'', ''todayTraffic'', ''activeRelays'', ''active'', ''recentSignups'',
        ''organization'', ''date'', ''systemHealth'', ''apiServer'', ''database'', ''relayMesh'', ''webSocketGateway'', ''uptime'',
        ''uptimeRelayMesh'', ''failedToLoad'']),
      (''organizations'', plain [''title'', ''subtitle'', ''newOrg'', ''searchPlaceholder'', ''name'', ''plan'', ''status'', ''tunnels'', ''users'',
        ''created'']),
      (''organizationDetail'', plain [''back''] @
        [(''organization'', [''id''])] @
        plain [''status'', ''users'', ''tunnels'', ''bandwidth'', ''role'', ''protocol'', ''traffic'']),
      (''users'', plain [''title'', ''subtitle'', ''searchPlaceholder'', ''user'', ''organization'', ''role'', ''status'', ''lastLogin'', ''joined'',
        ''never'']),
      (''userDetail'', plain [''back''] @
        [(''user'', [''id''])] @
        plain [''profileInfo'', ''email'', ''organization'', ''role'', ''joined'', ''accountStatus'', ''status'', ''mfaEnabled'',
        ''lastLogin'', ''actions'', ''resetPassword'', ''disableAccount'', ''deleteUser'']),
      (''relayNodes'', plain [''title''] @
        [(''nodesOnline'', [''online'', ''total''])] @
        plain [''searchPlaceholder'', ''name'', ''region'', ''status'', ''version'', ''cpu'', ''memory'', ''connections'', ''lastSeen'']),
      (''relayNodeDetail'', plain [''back'', ''status'', ''cpuUsage'', ''memoryUsage'', ''uptime'', ''nodeInfo'', ''region'', ''version'', ''publicIp'',
        ''diskUsage'', ''trafficStats'', ''activeConnections'', ''totalTunnels'', ''bandwidthIn'', ''bandwidthOut'',
        ''trafficHistory'']),
      (''abuseReports'', plain [''title'', ''subtitle'', ''searchPlaceholder'', ''reportId'', ''org'', ''tunnel'', ''reason'', ''status'', ''actions'',
        ''resolve'', ''dismiss'', ''resolved'', ''dismissed'', ''noReports'']),
      (''blacklist'', plain [''title'', ''subtitle'', ''cidr'', ''reason'', ''addedBy'', ''addedAt'', ''expires'', ''actions'', ''add'', ''adding'',
        ''cidrRequired'', ''noEntries'', ''cidrPlaceholder'', ''reasonPlaceholder'']),
      (''auditLogs'', plain [''title'', ''subtitle'', ''exportJson'', ''orgId'', ''action'', ''resourceType'', ''userId'', ''fromDate'', ''toDate'',
        ''filterByOrg'', ''filterByAction'', ''filterByResource'', ''filterByUser'', ''results''] @
        [(''total'', [''total''])] @
        plain [''time'', ''resource'', ''clientIp'', ''previous'', ''next''] @
        [(''page'', [''current'', ''total''])] @
        plain [''failedToLoad'', ''noResults'', ''fullResourceId'', ''fullOrgId'', ''fullUserId'', ''details'']),
      (''announcements'', plain [''title'', ''subtitle'', ''newAnnouncement'', ''editAnnouncement'', ''createAnnouncement'', ''title_field'', ''body'',
        ''severity'', ''targetPlan'', ''startAt'', ''endAt'', ''active'', ''allPlans'', ''schedule'', ''always'', ''now'',
        ''forever'', ''allAnnouncements'', ''noAnnouncements'', ''deleteConfirm'', ''failedToLoad'', ''operationFailed'',
        ''titlePlaceholder'', ''bodyPlaceholder'']),
      (''certificates'', plain [''title'', ''subtitle'', ''systemCerts'', ''tenantCerts'', ''systemCertificates'', ''tenantCertificates'', ''domain'',
        ''organization'', ''issuer'', ''daysLeft'', ''status'', ''autoRenew'', ''actions'', ''renew'', ''valid'', ''expiringSoon'',
        ''expired'', ''failedToLoad'', ''noCertificates''] @
        [(''revokeConfirm'', [''domain''])]),
      (''featureFlags'', plain [''title''] @
        [(''subtitle'', [''count''])] @
        plain [''newFlag'', ''key'', ''name'', ''type'', ''actions'', ''editFlag'', ''createFlag'', ''description'', ''value'', ''save'',
        ''cancel'', ''boolean'', ''percentage'', ''whitelist'', ''noFlags'', ''keyPlaceholder'', ''namePlaceholder'',
        ''descriptionPlaceholder''] @
        [(''deleteConfirm'', [''name''])]),
      (''revenue'', plain [''title'', ''subtitle'', ''mrr'', ''arr'', ''activeSubscriptions'', ''churnRate'', ''mrrTrendBreakdown'', ''revenueForecast'',
        ''days30'', ''days60'', ''days90'', ''current'', ''conversionFunnel'', ''churnMetrics'', ''voluntaryChurn'',
        ''involuntaryChurn'', ''retentionRate'', ''atRiskCustomers'', ''failedToLoad'', ''count'']),
      (''customerCRM'', plain [''title'', ''subtitle'', ''searchPlaceholder'', ''allPlans'', ''allStatus'', ''allHealth'', ''healthy'', ''atRisk'',
        ''critical'', ''organization'', ''plan'', ''mrr'', ''status'', ''health'', ''created'', ''failedToLoad'', ''noCustomers'']),
      (''customerDetail'', plain [''back'', ''customerView'', ''healthScore'', ''mrr'', ''users'', ''tunnels'', ''overview'', ''billing'', ''usage'',
        ''activity'', ''orgInfo'', ''name'', ''plan'', ''status'', ''customerSince'', ''contacts'', ''healthScoreTrend'',
        ''subscriptionHistory'', ''invoices'', ''start'', ''end'', ''invoice'', ''amount'', ''date'', ''activeTunnels'',
        ''bandwidthUsed'', ''activeUsers'', ''connections'', ''healthFactors'', ''eventTimeline'', ''backToCustomers'',
        ''failedToLoad'']),
      (''invoices'', plain [''title'', ''subtitle'', ''searchPlaceholder'', ''allStatuses'', ''allInvoices'', ''id'', ''customer'', ''amount'',
        ''status'', ''date'', ''dueDate'', ''actions'', ''subtotal'', ''tax'', ''paymentMethod'', ''invoiceItems'', ''description'',
        ''qty'', ''unitPrice'', ''total'', ''failedToLoad'', ''noInvoices'', ''failedToLoadDetail'', ''markPaidConfirm'',
        ''voidConfirm'', ''na'']),
      (''pricing'', plain [''title'', ''subtitle'', ''annualDiscount'', ''annualHint'', ''monthlyPrice'', ''maxTunnels'', ''maxBandwidth'', ''features'',
        ''addFeature'', ''tunnels'', ''bandwidth'', ''unlimited'', ''saved'', ''failedToLoad'']),
      (''discountCodes'', plain [''title'', ''subtitle'', ''newDiscount'', ''editDiscount'', ''createDiscount'', ''code'', ''type'', ''value'', ''usesMax'',
        ''status'', ''expires'', ''plans'', ''actions'', ''percentage'', ''fixedAmount'', ''valuePercent'', ''valueDollar'',
        ''maxUses'', ''expiresAt'', ''applicablePlans'', ''allDiscounts'', ''noDiscounts'', ''failedToLoad'', ''operationFailed'',
        ''deleteConfirm'']),
      (''roles'', plain [''title''] @
        [(''subtitle_one'', [''count''])] @
        [(''subtitle_other'', [''count''])] @
        plain [''newRole'', ''editRole'', ''createRole'', ''name'', ''permissions'', ''assignedUsers'', ''actions'', ''noRoles'',
        ''templates'', ''roleName'', ''roleNamePlaceholder''] @
        [(''permissionsSelected'', [''count''])] @
        [(''permissionsSelected_other'', [''count''])] @
        [(''deleteConfirm'', [''name''])] @
        [(''more'', [''count''])]),
      (''ipWhitelist'', plain [''title'', ''subtitle'', ''orgId'', ''orgIdPlaceholder'', ''whitelistStatus'', ''enforcementEnabled'',
        ''enforcementDisabled'', ''enforcementEnabledDesc'', ''enforcementDisabledDesc'', ''addIpCidr'', ''ipOrCidr'',
        ''labelOptional'', ''whitelistEntries''] @
        [(''entries'', [''count''])] @
        [(''entries_other'', [''count''])] @
        plain [''ipCidr'', ''label'', ''added'', ''add'', ''adding'', ''noEntries'', ''invalidCidr'', ''enterOrgPrompt'', ''failedToLoad'',
        ''note'', ''ipCidrPlaceholder'', ''labelPlaceholder'']),
      (''dataRetention'', plain [''title'', ''subtitle'', ''triggerCleanup'', ''running'', ''planLimits''] @
        [(''max'', [''limit''])] @
        plain [''auditLogs'', ''trafficEvents'', ''userSessions'', ''auditLogsDesc'', ''trafficEventsDesc'', ''userSessionsDesc'',
        ''currentRecords'', ''storageUsed'', ''retentionPeriod''] @
        [(''lastCleanup'', [''date''])] @
        plain [''cleanupSuccess'', ''failedToLoad'', ''30d'', ''90d'', ''1y'', ''3y'']),
      (''sla'', plain [''title'', ''subtitle'', ''uptime'', ''incidents'', ''slaCredits'', ''currentMonth'', ''apiUptime'', ''tunnelControlPlane'',
        ''relayDataPlane'', ''monthlyTrend'', ''month'', ''controlPlane'', ''dataPlane'', ''incidentLog'', ''date'', ''duration'',
        ''impact'', ''rootCause'', ''services'', ''failedToLoadIncidents'', ''failedToLoadUptime'', ''failedToLoadCredits'',
        ''slaStatusCurrent'', ''actualUptime'', ''slaThreshold'', ''slaBreached'', ''creditsOwed'', ''creditHistory'', ''slaMet'',
        ''met'', ''breached'', ''totalCreditsYtd'', ''creditFormula'']),
      (''auditReports'', plain [''title'', ''subtitle'', ''generateReport'', ''reportHistory'', ''reportConfig'', ''reportTemplate'', ''selectTemplate'',
        ''fromDate'', ''toDate'', ''orgFilter'', ''allOrganizations'', ''exportFormat'', ''generating'', ''generateFailed'',
        ''generateSuccess'', ''availableTemplates'', ''previousReports'', ''report'', ''template'', ''dateRange'', ''format'',
        ''generated'', ''size'', ''noReports'', ''failedToLoad''])]"

section \<open>Rules\<close>

lemma translated_simps [simp]:
  "translated table (Say c) = caption_found table c"
  "translated table (Node tag us) = list_all (translated table) us"
  "translated table (Button d e us) = list_all (translated table) us"
  "translated table (LinkTo to us) = list_all (translated table) us"
  "translated table (Field lbl v d f)"
  "translated table (NumField lbl n g)"
  "translated table (Checkbox b e)"
  "translated table (Select v opts f') = list_all (\<lambda>opt. caption_found table (snd opt)) opts"
  "translated table (Form d e us) = list_all (translated table) us"
  "translated table (Listens e us) = list_all (translated table) us"
  by (auto simp: translated_def list_all_iff)

lemma translated_only_if [simp]: "translated table (only_if b u) = (b \<longrightarrow> translated table u)"
  by (simp add: only_if_def)

lemma caption_found_simps [simp]:
  "caption_found table []" "caption_found table (l # ls) = (label_found table l \<and> caption_found table ls)"
  by (simp_all add: caption_found_def)

lemma caption_found_append [simp]: "caption_found table (c @ d) = (caption_found table c \<and> caption_found table d)"
  by (simp add: caption_found_def)

lemma translated_Input [simp]:
  "translated table (Input lbl v err d f) = (caption_found table lbl \<and> caption_found table err)"
  by (auto simp: Input_def)

lemma translated_Dialog [simp]:
  "translated table (Dialog b e title descr us) = (b \<longrightarrow> caption_found table title \<and> caption_found table descr \<and> list_all (translated table) us)"
  by (auto simp: Dialog_def)

lemma translated_head_row [simp]: "translated table (head_row keys) = list_all (\<lambda>k. label_found table (Tr k [])) keys"
  by (simp add: head_row_def list_all_iff)

lemma translated_shared [simp]:
  "translated table (mutation_error m key) = (merror m \<noteq> None \<longrightarrow>
     nullish (exn_message (the (merror m))) \<longrightarrow> label_found table (Tr key []))"
  "translated table (failed_load key us) = (label_found table (Tr key []) \<and> list_all (translated table) us)"
  "translated table (confirm_button d f)"
  by (simp_all add: mutation_error_def failed_load_def confirm_button_def split: option.split)

lemma translated_confirm_dialog [simp]:
  "translated table (confirm_dialog b c e pending (title, message, cancel, doing, confirm)) =
     (b \<longrightarrow> label_found table (Tr title []) \<and> label_found table (Tr message []) \<and> label_found table (Tr cancel []) \<and>
      label_found table (Tr (if pending then doing else confirm) []))"
  by (simp add: confirm_dialog_def)

text \<open>Every entry is found by its key: none is hidden by another. The facts for the single keys follow.\<close>

definition entries_found :: "texts_table \<Rightarrow> texts_table \<Rightarrow> bool" where
  "entries_found table secs =
     list_all (\<lambda>(sec, entries). list_all (\<lambda>(k, names). text_params table (sec @ CHR ''.'' # k) = Some names) entries) secs"

lemma web_entries_found: "entries_found web_en web_en"
  by code_simp

lemma admin_entries_found: "entries_found admin_en admin_en"
  by code_simp

lemmas web_found [simp] =
  iffD1 [OF arg_cong [OF web_en_def, of "entries_found web_en"] web_entries_found, unfolded entries_found_def plain_def, simplified]

lemmas admin_found [simp] =
  iffD1 [OF arg_cong [OF admin_en_def, of "entries_found admin_en"] admin_entries_found, unfolded entries_found_def plain_def, simplified]

end
