(* ===== verification/Charts.thy ===== *)
theory Charts
  imports Ui
begin

text \<open>
  The chart components of the two consoles and the store of the selected tunnel. The chart library draws what it is handed: the points, the texts
  of the axes and of the tooltip, and the names of the two series.
\<close>

section \<open>The dashboard's charts\<close>

text \<open>The axis and the tooltip of both charts show a value as a count of bytes (\<^verbatim>\<open>web/src/components/TrafficAreaChart.tsx\<close>,
  \<^verbatim>\<open>web/src/components/TrafficLineChart.tsx\<close>).\<close>

definition tooltip_text :: "nat \<Rightarrow> string list" where
  "tooltip_text v = [formatBytes v, '''']"

definition series_point :: "string \<Rightarrow> nat \<times> nat \<Rightarrow> 'e ui" where
  "series_point lbl p = Node ''point''
     [Say [Lit lbl], Say [Lit ''Inbound''], Say [Lit (hd (tooltip_text (fst p)))], Say [Lit ''Outbound''], Say [Lit (hd (tooltip_text (snd p)))]]"

record area_point =
  ap_time :: string
  ap_in :: nat
  ap_out :: nat

definition TrafficAreaChart :: "area_point list \<Rightarrow> 'e ui" where
  "TrafficAreaChart data = Node ''AreaChart'' (map (\<lambda>p. series_point (ap_time p) (ap_in p, ap_out p)) data)"

record line_point =
  lp_timestamp :: string
  lp_bytes_in :: nat
  lp_bytes_out :: nat

text \<open>\<open>clock\<close> is the locale's time of day for a date text.\<close>

definition TrafficLineChart :: "(string \<Rightarrow> string) \<Rightarrow> line_point list \<Rightarrow> 'e ui" where
  "TrafficLineChart clock data = Node ''LineChart'' (map (\<lambda>p. series_point (clock (lp_timestamp p)) (lp_bytes_in p, lp_bytes_out p)) data)"

section \<open>The admin console's chart\<close>

text \<open>The chart of a relay node (\<^verbatim>\<open>admin/src/components/ui/TrafficLineChart.tsx\<close>) makes its data up, at every render anew: one point for each
  of the last 24 hours, from the clock and the random numbers \<open>rnd\<close>, two a point.\<close>

record relay_point =
  rp_time :: int
  rp_in :: int
  rp_out :: int

definition generateMockData :: "int \<Rightarrow> (nat \<Rightarrow> rat) \<Rightarrow> relay_point list" where
  "generateMockData now rnd = map (\<lambda>k.
     \<lparr>rp_time = now - (23 - int k) * 60 * 60 * 1000, rp_in = draw (rnd (2 * k)) 500 100, rp_out = draw (rnd (2 * k + 1)) 400 50\<rparr>) [0..<24]"

definition RelayTrafficChart :: "(int \<Rightarrow> string) \<Rightarrow> int \<Rightarrow> (nat \<Rightarrow> rat) \<Rightarrow> 'e ui" where
  "RelayTrafficChart clock now rnd = Node ''LineChart'' (map (\<lambda>p. Node ''point''
     [Say [Lit (clock (rp_time p))], Say [Lit ''Inbound''], Say [Lit (int_string (rp_in p))], Say [Lit ''Outbound''], Say [Lit (int_string (rp_out p))]])
     (generateMockData now rnd))"

lemma events_charts [simp]:
  "events (series_point lbl p) = {}" "events (TrafficAreaChart as) = {}" "events (TrafficLineChart clock ls) = {}"
  "events (RelayTrafficChart clock' now rnd) = {}"
  by (auto simp: series_point_def TrafficAreaChart_def TrafficLineChart_def RelayTrafficChart_def)

text \<open>The points are an hour apart up to now, and stay within the bounds the chart was drawn for.\<close>

lemma generateMockData_nth: "k < 24 \<Longrightarrow> generateMockData now rnd ! k =
   \<lparr>rp_time = now - (23 - int k) * 60 * 60 * 1000, rp_in = draw (rnd (2 * k)) 500 100, rp_out = draw (rnd (2 * k + 1)) 400 50\<rparr>"
  unfolding generateMockData_def by (subst nth_map) simp_all

lemma generateMockData_length: "length (generateMockData now rnd) = 24"
  by (simp add: generateMockData_def)

theorem relay_chart_shape:
  assumes "\<forall>i. 0 \<le> rnd i \<and> rnd i < 1"
  shows "length (generateMockData now rnd) = 24 \<and> rp_time (last (generateMockData now rnd)) = now \<and>
    (\<forall>k < 23. rp_time (generateMockData now rnd ! Suc k) - rp_time (generateMockData now rnd ! k) = 3600000) \<and>
    (\<forall>p \<in> set (generateMockData now rnd). 100 \<le> rp_in p \<and> rp_in p < 600 \<and> 50 \<le> rp_out p \<and> rp_out p < 450)"
proof -
  have "100 \<le> draw (rnd i) 500 100 \<and> draw (rnd i) 500 100 < 600 \<and> 50 \<le> draw (rnd i) 400 50 \<and> draw (rnd i) 400 50 < 450" for i
    using draw_bounds [of "rnd i" 500 100] draw_bounds [of "rnd i" 400 50] assms by simp
  then have "\<forall>p \<in> set (generateMockData now rnd). 100 \<le> rp_in p \<and> rp_in p < 600 \<and> 50 \<le> rp_out p \<and> rp_out p < 450"
    unfolding generateMockData_def by auto
  moreover have "last (generateMockData now rnd) = generateMockData now rnd ! 23"
    using generateMockData_length [of now rnd] by (subst last_conv_nth) auto
  ultimately show ?thesis by (simp add: generateMockData_nth generateMockData_length)
qed

section \<open>The selected tunnel\<close>

text \<open>A store of one field (\<^verbatim>\<open>web/src/store/tunnels.ts\<close>).\<close>

record tunnel_store =
  selectedTunnelId :: "string option"

definition tunnel_store_init :: tunnel_store where
  "tunnel_store_init = \<lparr>selectedTunnelId = None\<rparr>"

definition selectTunnel :: "string option \<Rightarrow> tunnel_store \<Rightarrow> tunnel_store" where
  "selectTunnel i s = s\<lparr>selectedTunnelId := i\<rparr>"

lemma selected_last: "selectedTunnelId (fold selectTunnel is tunnel_store_init) = (if is = [] then None else last is)"
  by (induction "is" rule: rev_induct) (simp_all add: selectTunnel_def tunnel_store_init_def)

end
