(* ===== verification/AbusePage.thy ===== *)
theory AbusePage
  imports Hooks
begin

text \<open>
  The abuse reports of the admin console (\<open>pages/AbuseReports.tsx\<close>): a list with a search, where an open report is
  resolved or dismissed.
\<close>

section \<open>State\<close>

record abuse_report =
  ab_id :: string
  ab_org_id :: string
  ab_tunnel_id :: string
  ab_reason :: string
  ab_description :: string
  ab_status :: string
  ab_resolution :: "string option"
  ab_created_at :: string

record abuse_page =
  reportsQuery :: "abuse_report list option query"
  resolveMutation :: mutation
  dismissMutation :: mutation
  ab_search :: string

definition abuse_init :: abuse_page where
  "abuse_init = \<lparr>reportsQuery = q_pending, resolveMutation = idle, dismissMutation = idle, ab_search = ''''\<rparr>"

datatype abuse_ev = SearchReports string | ResolveReport string | DismissReport string

datatype abuse_k = KResolve | KDismiss

abbreviation ABUSE_KEY :: "string list" where
  "ABUSE_KEY \<equiv> [''admin'', ''abuse'', ''reports'']"

definition abuse_path :: string where
  "abuse_path = ''/api/admin/v1/abuse/reports''"

section \<open>Handlers\<close>

definition resolve_call :: "string \<Rightarrow> cmd" where
  "resolve_call i = CallApi ''POST'' (abuse_path @ ''/'' @ i @ ''/resolve'') (json_body [(''resolution'', JStr ''resolved by admin'')])"

definition dismiss_call :: "string \<Rightarrow> cmd" where
  "dismiss_call i = CallApi ''POST'' (abuse_path @ ''/'' @ i @ ''/dismiss'') (json_body [(''reason'', JStr ''dismissed by admin'')])"

fun abuse_user :: "abuse_ev \<Rightarrow> abuse_page \<Rightarrow> (abuse_page, abuse_k) effect" where
  "abuse_user (SearchReports v) s = (s\<lparr>ab_search := v\<rparr>, [], [])"
| "abuse_user (ResolveReport i) s = (s\<lparr>resolveMutation := mutate\<rparr>, [resolve_call i], [KResolve])"
| "abuse_user (DismissReport i) s = (s\<lparr>dismissMutation := mutate\<rparr>, [dismiss_call i], [KDismiss])"

definition abuse_refresh :: "result \<Rightarrow> cmd list" where
  "abuse_refresh r = (case r of Inl err \<Rightarrow> [] | Inr v \<Rightarrow> [Invalidate ABUSE_KEY])"

fun abuse_resume :: "abuse_k \<Rightarrow> result \<Rightarrow> abuse_page \<Rightarrow> (abuse_page, abuse_k) effect" where
  "abuse_resume KResolve r s = (s\<lparr>resolveMutation := settled r\<rparr>, abuse_refresh r, [])"
| "abuse_resume KDismiss r s = (s\<lparr>dismissMutation := settled r\<rparr>, abuse_refresh r, [])"

section \<open>View\<close>

definition abuse_matches :: "string \<Rightarrow> abuse_report \<Rightarrow> bool" where
  "abuse_matches q r =
     (js_includes (to_lower (ab_reason r)) (to_lower q) \<or> js_includes (to_lower (ab_org_id r)) (to_lower q) \<or>
      js_includes (to_lower (ab_tunnel_id r)) (to_lower q) \<or>
      ab_description r \<noteq> '''' \<and> js_includes (to_lower (ab_description r)) (to_lower q))"

definition abuse_reports :: "abuse_report list option query \<Rightarrow> abuse_report list" where
  "abuse_reports q = data_or_empty (Option.bind (q_data q) id)"

definition abuse_actions :: "abuse_page \<Rightarrow> abuse_report \<Rightarrow> abuse_ev ui" where
  "abuse_actions s r =
     (if ab_status r = ''pending'' \<or> ab_status r = ''investigating'' then Node ''div''
        [Button (isPending (resolveMutation s)) (ResolveReport (ab_id r)) [Say (tr ''abuseReports.resolve'')],
         Button (isPending (dismissMutation s)) (DismissReport (ab_id r)) [Say (tr ''abuseReports.dismiss'')]]
      else Say (case ab_resolution r of
          Some t \<Rightarrow> [Lit t]
        | None \<Rightarrow> tr (if ab_status r = ''resolved'' then ''abuseReports.resolved'' else ''abuseReports.dismissed'')))"

definition abuse_row :: "(string \<Rightarrow> string) \<Rightarrow> abuse_page \<Rightarrow> abuse_report \<Rightarrow> abuse_ev ui" where
  "abuse_row toLocaleString s r = Node ''TableRow''
     [Say [Lit (take 8 (ab_id r))], Say [Lit (take 8 (ab_org_id r))], Say [Lit (take 8 (ab_tunnel_id r))], Say [Lit (ab_reason r)],
      only_if (ab_description r \<noteq> '''') (Node ''p'' [Say [Lit (ab_description r)]]), Node ''Badge'' [Say [Lit (ab_status r)]],
      Say [Lit (toLocaleString (ab_created_at r))], abuse_actions s r]"

definition AbuseReports_view :: "(string \<Rightarrow> string) \<Rightarrow> abuse_page \<Rightarrow> abuse_ev ui" where
  "AbuseReports_view toLocaleString s =
     (if q_isLoading (reportsQuery s) then Node ''div'' [Node ''Skeleton'' [], Node ''Skeleton'' []]
      else Node ''div''
       [Node ''h1'' [Say (tr ''abuseReports.title'')], Node ''p'' [Say (tr ''abuseReports.subtitle'')],
        Input [] (ab_search s) [] False SearchReports,
        Node ''Table''
         [head_row [''abuseReports.reportId'', ''abuseReports.org'', ''abuseReports.tunnel'', ''abuseReports.reason'', ''abuseReports.status'',
            ''common.created'', ''abuseReports.actions''],
          (let shown = filter (abuse_matches (ab_search s)) (abuse_reports (reportsQuery s)) in
           if shown = [] then Node ''TableRow'' [Say (tr ''abuseReports.noReports'')]
           else Node ''TableBody'' (map (abuse_row toLocaleString s) shown))]])"

text \<open>\<open>S\<close> holds the reports that every list the server sends shows as closed.\<close>

definition open_report :: "abuse_report \<Rightarrow> bool" where
  "open_report r \<longleftrightarrow> ab_status r = ''pending'' \<or> ab_status r = ''investigating''"

definition abuse_env :: "string set \<Rightarrow> abuse_page \<Rightarrow> abuse_page \<Rightarrow> bool" where
  "abuse_env S s s' \<longleftrightarrow> (\<exists>q. s' = s\<lparr>reportsQuery := q\<rparr> \<and> (\<forall>r \<in> set (abuse_reports q). ab_id r \<in> S \<longrightarrow> \<not> open_report r))"

definition AbuseReports :: "(string \<Rightarrow> string) \<Rightarrow> string set \<Rightarrow> (abuse_page, abuse_ev, abuse_k) page" where
  "AbuseReports toLocaleString S =
     \<lparr>pg_mount = (abuse_init, [CallApi ''GET'' abuse_path JUndef], []), pg_view = AbuseReports_view toLocaleString, pg_user = abuse_user,
      pg_resume = abuse_resume, pg_env = abuse_env S\<rparr>"

lemma AbuseReports_sel [simp]:
  "pg_mount (AbuseReports fmt S) = (abuse_init, [CallApi ''GET'' abuse_path JUndef], [])" "pg_view (AbuseReports fmt S) = AbuseReports_view fmt"
  "pg_user (AbuseReports fmt S) = abuse_user" "pg_resume (AbuseReports fmt S) = abuse_resume" "pg_env (AbuseReports fmt S) = abuse_env S"
  by (simp_all add: AbuseReports_def)

section \<open>Invariant\<close>

definition abuse_inv :: "string set \<Rightarrow> abuse_page \<Rightarrow> abuse_k list \<Rightarrow> bool" where
  "abuse_inv S s ks \<longleftrightarrow>
     flags (isPending (resolveMutation s)) (\<lambda>k. k = KResolve) ks \<and> flags (isPending (dismissMutation s)) (\<lambda>k. k = KDismiss) ks \<and>
     (\<forall>r \<in> set (abuse_reports (reportsQuery s)). ab_id r \<in> S \<longrightarrow> \<not> open_report r)"

fun abuse_guard :: "string set \<Rightarrow> abuse_page \<Rightarrow> abuse_ev \<Rightarrow> bool" where
  "abuse_guard S s (SearchReports v) = True"
| "abuse_guard S s (ResolveReport i) = (i \<notin> S \<and> \<not> isPending (resolveMutation s))"
| "abuse_guard S s (DismissReport i) = (i \<notin> S \<and> \<not> isPending (dismissMutation s))"

fun abuse_cmd_ok :: "string set \<Rightarrow> cmd \<Rightarrow> bool" where
  "abuse_cmd_ok S (CallApi m p b) = (m = ''POST'' \<longrightarrow> (\<exists>i. i \<notin> S \<and> (CallApi m p b = resolve_call i \<or> CallApi m p b = dismiss_call i)))"
| "abuse_cmd_ok S _ = True"

lemma abuse_row_events:
  "e \<in> events (abuse_row fmt s r) \<longleftrightarrow>
   open_report r \<and> (e = ResolveReport (ab_id r) \<and> \<not> isPending (resolveMutation s) \<or> e = DismissReport (ab_id r) \<and> \<not> isPending (dismissMutation s))"
  by (auto simp: abuse_row_def abuse_actions_def open_report_def split: if_splits)

lemma abuse_view_events:
  "e \<in> events (AbuseReports_view fmt s) \<longleftrightarrow>
   \<not> q_isLoading (reportsQuery s) \<and>
   (e \<in> range SearchReports \<or> (\<exists>r \<in> set (abuse_reports (reportsQuery s)). abuse_matches (ab_search s) r \<and> e \<in> events (abuse_row fmt s r)))"
  by (auto simp: AbuseReports_view_def Let_def filter_empty_conv)

lemma abuse_offered: "abuse_inv S s ks \<Longrightarrow> e \<in> events (AbuseReports_view fmt s) \<Longrightarrow> abuse_guard S s e"
  unfolding abuse_view_events abuse_row_events by (auto simp: abuse_inv_def)

lemma abuse_user_inv:
  assumes "abuse_inv S s ks" and "abuse_guard S s e"
  shows "abuse_inv S (fst (abuse_user e s)) (ks @ snd (snd (abuse_user e s)))" and "list_all (abuse_cmd_ok S) (fst (snd (abuse_user e s)))"
  using assms by (cases e; auto simp: abuse_inv_def flags_def resolve_call_def dismiss_call_def)+

lemma abuse_resume_inv:
  assumes "abuse_inv S s (ks1 @ k # ks2)"
  shows "abuse_inv S (fst (abuse_resume k r s)) (ks1 @ ks2 @ snd (snd (abuse_resume k r s)))"
    and "list_all (abuse_cmd_ok S) (fst (snd (abuse_resume k r s)))"
  using assms by (cases k; cases r; auto simp: abuse_inv_def flags_def abuse_refresh_def split: if_splits)+

lemma abuse_mounted: "abuse_inv S abuse_init []"
  by (simp add: abuse_inv_def abuse_init_def flags_def abuse_reports_def)

lemma abuse_changed: "abuse_inv S s ks \<Longrightarrow> abuse_env S s s' \<Longrightarrow> abuse_inv S s' ks"
  by (auto simp: abuse_inv_def abuse_env_def)

interpretation abuse: page_guarded "AbuseReports fmt S" "abuse_inv S" "abuse_guard S" "abuse_cmd_ok S" for fmt S
  by unfold_locales (simp_all add: abuse_mounted abuse_user_inv abuse_resume_inv abuse_changed, erule (1) abuse_offered)

section \<open>Properties\<close>

lemma abuse_calls [simp]:
  "resolve_call i \<noteq> dismiss_call j" "dismiss_call j \<noteq> resolve_call i" "resolve_call i = resolve_call j \<longleftrightarrow> i = j" "dismiss_call i = dismiss_call j \<longleftrightarrow> i = j"
  by (auto simp: resolve_call_def dismiss_call_def json_body_def)

lemma abuse_cmd_calls: "abuse_cmd_ok S (resolve_call i) \<longleftrightarrow> i \<notin> S" "abuse_cmd_ok S (dismiss_call i) \<longleftrightarrow> i \<notin> S"
  by (auto simp: resolve_call_def dismiss_call_def json_body_def)

text \<open>Closed reports stay closed. Whatever the lists the server sends and however they change, no request resolves or
  dismisses a report that every list shows as closed; and one of either kind is in flight at a time.\<close>

theorem closed_reports_kept:
  assumes "page_reach (AbuseReports fmt S) (s, ks, out)" and "i \<in> S"
  shows "resolve_call i \<notin> set out \<and> dismiss_call i \<notin> set out \<and>
    waiting (\<lambda>k. k = KResolve) ks = (if isPending (resolveMutation s) then 1 else 0) \<and>
    waiting (\<lambda>k. k = KDismiss) ks = (if isPending (dismissMutation s) then 1 else 0)"
  using abuse.commands [OF assms(1)] abuse.reachable [OF assms(1)] assms(2) abuse_cmd_calls
  by (fastforce simp: abuse_inv_def flags_def)

definition sample_report :: "string \<Rightarrow> string \<Rightarrow> abuse_report" where
  "sample_report i st = \<lparr>ab_id = i, ab_org_id = ''o'', ab_tunnel_id = ''t'', ab_reason = ''spam'', ab_description = '''', ab_status = st,
     ab_resolution = None, ab_created_at = ''''\<rparr>"

definition list_reports :: "abuse_report list \<Rightarrow> abuse_page \<Rightarrow> abuse_page" where
  "list_reports rs s = s\<lparr>reportsQuery := q_success (Some rs)\<rparr>"

lemma list_reports_sel [simp]:
  "abuse_reports (reportsQuery (list_reports rs s)) = rs" "\<not> q_isLoading (reportsQuery (list_reports rs s))"
  "resolveMutation (list_reports rs s) = resolveMutation s" "dismissMutation (list_reports rs s) = dismissMutation s"
  "ab_search (list_reports rs s) = ab_search s"
  by (simp_all add: list_reports_def abuse_reports_def)

lemma list_reports_env: "(\<forall>r \<in> set rs. ab_id r \<in> S \<longrightarrow> \<not> open_report r) \<Longrightarrow> abuse_env S s (list_reports rs s)"
  unfolding abuse_env_def list_reports_def by (intro exI conjI, rule refl) (simp add: abuse_reports_def)

lemma sample_open [simp]: "open_report (sample_report i ''pending'')" "ab_id (sample_report i st) = i" "abuse_matches '''' (sample_report i st)"
  by (simp_all add: open_report_def sample_report_def abuse_matches_def includes_sublist to_lower_def)

lemma abuse_init_sel [simp]: "resolveMutation abuse_init = idle" "dismissMutation abuse_init = idle" "ab_search abuse_init = ''''"
  by (simp_all add: abuse_init_def)

text \<open>A report can be resolved and dismissed. The two buttons do not wait for each other: both requests for one report
  are in flight together.\<close>

theorem resolved_and_dismissed:
  "\<exists>s out. page_reach (AbuseReports fmt {}) (s, [KResolve, KDismiss], out) \<and> resolve_call i \<in> set out \<and> dismiss_call i \<in> set out"
proof -
  let ?load = "list_reports [sample_report i ''pending'']"
  have "\<exists>s out. page_play (AbuseReports fmt {}) [Change ?load, Do (ResolveReport i), Do (DismissReport i)]
      (abuse_init, [], [CallApi ''GET'' abuse_path JUndef]) = Some (s, [KResolve, KDismiss], out) \<and> resolve_call i \<in> set out \<and> dismiss_call i \<in> set out"
    by (simp add: list_reports_env abuse_view_events abuse_row_events)
  then show ?thesis using page_play_mount [OF AbuseReports_sel(1)] by blast
qed

theorem closed_reports_kept_witness:
  "\<exists>s out. page_reach (AbuseReports id {''7''}) (s, [KResolve], out) \<and> resolve_call ''8'' \<in> set out \<and> resolve_call ''7'' \<notin> set out"
proof -
  let ?load = "list_reports [sample_report ''7'' ''resolved'', sample_report ''8'' ''pending'']"
  have "\<not> open_report (sample_report ''7'' ''resolved'')" by (simp add: open_report_def sample_report_def)
  then have "\<exists>s out. page_play (AbuseReports id {''7''}) [Change ?load, Do (ResolveReport ''8'')] (abuse_init, [], [CallApi ''GET'' abuse_path JUndef]) =
      Some (s, [KResolve], out) \<and> resolve_call ''8'' \<in> set out"
    by (simp add: list_reports_env abuse_view_events abuse_row_events)
  then obtain s out where r: "page_reach (AbuseReports id {''7''}) (s, [KResolve], out)" "resolve_call ''8'' \<in> set out"
    using page_play_mount [OF AbuseReports_sel(1)] by blast
  from closed_reports_kept [OF r(1), of "''7''"] r show ?thesis by blast
qed

end
