(* ===== verification/AccessPages.thy ===== *)
theory AccessPages
  imports Hooks
begin

text \<open>
  Who may connect, in the admin console: the address whitelist of an organization (\<open>pages/IPWhitelist.tsx\<close>) with its
  address test, and the blacklist (\<open>pages/Blacklist.tsx\<close>).
\<close>

section \<open>Addresses\<close>

text \<open>One round of \<open>(\d{1,3}\.)\<close>: the dot ends the digits, so the match takes them all.\<close>

definition eat_group :: "string \<Rightarrow> string option" where
  "eat_group s =
     (let d = takeWhile is_digit s; r = dropWhile is_digit s in
      if 1 \<le> length d \<and> length d \<le> 3 \<and> starts_with r ''.'' then Some (tl r) else None)"

text \<open>\<open>cidrRegex.test\<close>.\<close>

definition cidrRegex_test :: "string \<Rightarrow> bool" where
  "cidrRegex_test s =
     (case Option.bind (Option.bind (eat_group s) eat_group) eat_group of
        None \<Rightarrow> False
      | Some r \<Rightarrow>
          (let d = takeWhile is_digit r; m = dropWhile is_digit r in
           1 \<le> length d \<and> length d \<le> 3 \<and>
           (m = [] \<or> hd m = CHR ''/'' \<and> list_all is_digit (tl m) \<and> 1 \<le> length (tl m) \<and> length (tl m) \<le> 2)))"

definition validateCIDR :: "string \<Rightarrow> bool" where
  "validateCIDR s =
     (if \<not> cidrRegex_test s then False
      else list_all (\<lambda>p. case parseInt p of None \<Rightarrow> False | Some n \<Rightarrow> 0 \<le> n \<and> n \<le> 255)
        (split_on (CHR ''.'') (hd (split_on (CHR ''/'') s))))"

text \<open>The language of the test: four numbers up to 255 of one to three digits, and perhaps a slash with one or two
  digits.\<close>

definition digit_text :: "nat \<Rightarrow> string \<Rightarrow> bool" where
  "digit_text n d \<longleftrightarrow> list_all is_digit d \<and> 1 \<le> length d \<and> length d \<le> n"

definition octet :: "string \<Rightarrow> bool" where
  "octet d \<longleftrightarrow> digit_text 3 d \<and> read_nat d \<le> 255"

definition mask_text :: "string \<Rightarrow> bool" where
  "mask_text p \<longleftrightarrow> p = [] \<or> (\<exists>m. p = CHR ''/'' # m \<and> digit_text 2 m)"

lemma not_digits [simp]: "\<not> is_digit (CHR ''.'')" "\<not> is_digit (CHR ''/'')"
  by (simp_all add: is_digit_def)

lemma digits_run: "list_all is_digit d \<Longrightarrow> \<not> is_digit c \<Longrightarrow> takeWhile is_digit (d @ c # r) = d \<and> dropWhile is_digit (d @ c # r) = c # r"
  by (simp add: takeWhile_append2 dropWhile_append2 list_all_iff)

lemma digits_end: "list_all is_digit d \<Longrightarrow> takeWhile is_digit d = d \<and> dropWhile is_digit d = []"
  by (simp add: list_all_iff)

lemma eat_group_iff: "eat_group s = Some r \<longleftrightarrow> (\<exists>d. digit_text 3 d \<and> s = d @ CHR ''.'' # r)"
proof
  assume "eat_group s = Some r"
  then have l: "1 \<le> length (takeWhile is_digit s)" "length (takeWhile is_digit s) \<le> 3"
    and r: "starts_with (dropWhile is_digit s) ''.''" "tl (dropWhile is_digit s) = r"
    by (auto simp: eat_group_def Let_def split: if_splits)
  from r have "dropWhile is_digit s = CHR ''.'' # r"
    by (cases "dropWhile is_digit s") auto
  then have "s = takeWhile is_digit s @ CHR ''.'' # r" by (metis takeWhile_dropWhile_id)
  moreover have "digit_text 3 (takeWhile is_digit s)"
    using l by (auto simp: digit_text_def list_all_iff dest: set_takeWhileD)
  ultimately show "\<exists>d. digit_text 3 d \<and> s = d @ CHR ''.'' # r" by blast
next
  assume "\<exists>d. digit_text 3 d \<and> s = d @ CHR ''.'' # r"
  then show "eat_group s = Some r"
    by (auto simp: eat_group_def digit_text_def digits_run)
qed

lemma last_group_iff:
  "(let d = takeWhile is_digit r; m = dropWhile is_digit r in
      1 \<le> length d \<and> length d \<le> 3 \<and>
      (m = [] \<or> hd m = CHR ''/'' \<and> list_all is_digit (tl m) \<and> 1 \<le> length (tl m) \<and> length (tl m) \<le> 2)) \<longleftrightarrow>
   (\<exists>d p. r = d @ p \<and> digit_text 3 d \<and> mask_text p)" (is "?L \<longleftrightarrow> ?R")
proof
  assume l: ?L
  let ?d = "takeWhile is_digit r" and ?m = "dropWhile is_digit r"
  have "digit_text 3 ?d" using l by (auto simp: digit_text_def list_all_iff Let_def dest: set_takeWhileD)
  moreover have "mask_text ?m"
    using l by (cases ?m) (auto simp: mask_text_def digit_text_def Let_def)
  ultimately show ?R by (metis takeWhile_dropWhile_id)
next
  assume ?R
  then obtain d p where r: "r = d @ p" and d: "digit_text 3 d" and p: "mask_text p" by blast
  have "takeWhile is_digit r = d \<and> dropWhile is_digit r = p"
    using r d p digits_run [of d "CHR ''/''"] digits_end [of d] by (auto simp: mask_text_def digit_text_def)
  then show ?L using d p by (auto simp: Let_def digit_text_def mask_text_def)
qed

lemma cidrRegex_language:
  "cidrRegex_test s \<longleftrightarrow>
   (\<exists>a b c d p. s = a @ CHR ''.'' # b @ CHR ''.'' # c @ CHR ''.'' # d @ p \<and> digit_text 3 a \<and> digit_text 3 b \<and> digit_text 3 c \<and>
      digit_text 3 d \<and> mask_text p)"
proof -
  have "cidrRegex_test s \<longleftrightarrow> (\<exists>r1 r2 r. eat_group s = Some r1 \<and> eat_group r1 = Some r2 \<and> eat_group r2 = Some r \<and>
      (\<exists>d p. r = d @ p \<and> digit_text 3 d \<and> mask_text p))"
    unfolding cidrRegex_test_def last_group_iff by (auto simp: bind_eq_Some_conv split: option.splits) blast+
  also have "\<dots> \<longleftrightarrow> (\<exists>a b c d p. s = a @ CHR ''.'' # b @ CHR ''.'' # c @ CHR ''.'' # d @ p \<and> digit_text 3 a \<and> digit_text 3 b \<and>
      digit_text 3 c \<and> digit_text 3 d \<and> mask_text p)"
    unfolding eat_group_iff by blast
  finally show ?thesis .
qed

lemma digits_no_sep: "digit_text n d \<Longrightarrow> CHR ''.'' \<notin> set d \<and> CHR ''/'' \<notin> set d"
  by (auto simp: digit_text_def list_all_iff)

lemma parseInt_digits: "digit_text n d \<Longrightarrow> parseInt d = Some (int (read_nat d))"
proof -
  assume d: "digit_text n d"
  then obtain c cs where c: "d = c # cs" "is_digit c" by (cases d) (auto simp: digit_text_def)
  then have ws: "\<not> is_ws c" "c \<noteq> CHR ''-''" "c \<noteq> CHR ''+''" by (auto simp: is_digit_def is_ws_def)
  have "dropWhile is_ws d = d" using c ws by simp
  have "\<forall>x \<in> set cs. is_digit x" using c d by (simp add: digit_text_def list_all_iff)
  with \<open>dropWhile is_ws d = d\<close> show ?thesis
    using c ws by (simp add: parseInt_def Let_def takeWhile_eq_all_conv [THEN iffD2])
qed

lemma octets_of:
  assumes "digit_text 3 a" "digit_text 3 b" "digit_text 3 c" "digit_text 3 d" and "mask_text p"
  shows "split_on (CHR ''.'') (hd (split_on (CHR ''/'') (a @ CHR ''.'' # b @ CHR ''.'' # c @ CHR ''.'' # d @ p))) = [a, b, c, d]"
proof -
  let ?ip = "a @ CHR ''.'' # b @ CHR ''.'' # c @ CHR ''.'' # d"
  have n: "CHR ''/'' \<notin> set ?ip" using assms(1-4) digits_no_sep by auto
  from assms(5) consider "p = []" | m where "p = CHR ''/'' # m" by (auto simp: mask_text_def)
  then have "hd (split_on (CHR ''/'') (?ip @ p)) = ?ip"
  proof cases
    case 1
    then show ?thesis using split_on_no_sep [OF n] by simp
  next
    case 2
    then show ?thesis using split_on_append [OF n] by simp
  qed
  then show ?thesis using assms(1-4) digits_no_sep by (simp add: split_on_append split_on_no_sep)
qed

lemma validateCIDR_parts:
  assumes "digit_text 3 a" "digit_text 3 b" "digit_text 3 c" "digit_text 3 d" and "mask_text p"
  shows "validateCIDR (a @ CHR ''.'' # b @ CHR ''.'' # c @ CHR ''.'' # d @ p) \<longleftrightarrow> octet a \<and> octet b \<and> octet c \<and> octet d"
proof -
  have "cidrRegex_test (a @ CHR ''.'' # b @ CHR ''.'' # c @ CHR ''.'' # d @ p)" using assms cidrRegex_language by blast
  then show ?thesis using assms by (simp add: validateCIDR_def octets_of octet_def parseInt_digits)
qed

lemma validateCIDR_iff:
  "validateCIDR s \<longleftrightarrow>
     (\<exists>a b c d p. s = a @ CHR ''.'' # b @ CHR ''.'' # c @ CHR ''.'' # d @ p \<and> octet a \<and> octet b \<and> octet c \<and> octet d \<and> mask_text p)"
proof
  assume a: "validateCIDR s"
  then have "cidrRegex_test s" by (simp add: validateCIDR_def split: if_splits)
  with a validateCIDR_parts
  show "\<exists>a b c d p. s = a @ CHR ''.'' # b @ CHR ''.'' # c @ CHR ''.'' # d @ p \<and> octet a \<and> octet b \<and> octet c \<and> octet d \<and> mask_text p"
    unfolding cidrRegex_language by blast
qed (use validateCIDR_parts octet_def in blast)

lemma wide_prefix_accepted: "validateCIDR ''10.0.0.0/99''"
proof -
  have "validateCIDR (''10'' @ CHR ''.'' # ''0'' @ CHR ''.'' # ''0'' @ CHR ''.'' # ''0'' @ ''/99'')"
    by (subst validateCIDR_parts) (simp_all add: octet_def digit_text_def mask_text_def is_digit_def read_nat_def digit_val_def)
  then show ?thesis by simp
qed

text \<open>C38: the whitelist accepts exactly the dotted addresses with four numbers of at most 255, alone or followed by a
  slash and one or two digits. The digits after the slash are not bounded: a prefix of 99 bits is accepted.\<close>

theorem validateCIDR_language:
  "(validateCIDR s \<longleftrightarrow>
     (\<exists>a b c d p. s = a @ CHR ''.'' # b @ CHR ''.'' # c @ CHR ''.'' # d @ p \<and> octet a \<and> octet b \<and> octet c \<and> octet d \<and> mask_text p)) \<and>
   validateCIDR ''10.0.0.0/99''"
  by (intro conjI validateCIDR_iff wide_prefix_accepted)

section \<open>The whitelist page\<close>

record ip_entry =
  ip_id :: string
  ip_cidr :: string
  ip_label :: string
  ip_created_at :: string

record IPWhitelistConfig =
  ip_entries :: "ip_entry list"
  ip_enabled :: bool

record ip_page =
  whitelistQuery :: "IPWhitelistConfig query"
  ip_addMutation :: mutation
  ip_deleteMutation :: mutation
  orgId :: string
  newCIDR :: string
  newLabel :: string
  ip_addError :: caption

definition ip_init :: ip_page where
  "ip_init = \<lparr>whitelistQuery = \<lparr>q_isLoading = False, q_isError = False, q_data = None\<rparr>, ip_addMutation = idle, ip_deleteMutation = idle,
     orgId = '''', newCIDR = '''', newLabel = '''', ip_addError = []\<rparr>"

datatype ip_ev = SetOrgId string | SetNewCIDR string | SetNewLabel string | AddCIDR | DeleteCIDR string | RetryWhitelist

datatype ip_k = KAddCIDR | KDeleteCIDR

text \<open>The query asks for the organization without the spaces around it, and for none where nothing is left.\<close>

definition enabledOrgId :: "ip_page \<Rightarrow> string" where
  "enabledOrgId s = (if trim (orgId s) \<noteq> '''' then trim (orgId s) else ''_'')"

definition whitelist_path :: "string \<Rightarrow> string" where
  "whitelist_path org = ''/api/admin/v1/organizations/'' @ org @ ''/ip-whitelist''"

definition whitelist_call :: "ip_page \<Rightarrow> cmd list" where
  "whitelist_call s = (if trim (orgId s) \<noteq> '''' then [CallApi ''GET'' (whitelist_path (enabledOrgId s)) JUndef] else [])"

definition ip_handleAdd :: "ip_page \<Rightarrow> (ip_page, ip_k) effect" where
  "ip_handleAdd s =
     (if \<not> validateCIDR (newCIDR s) then (s\<lparr>ip_addError := tr ''ipWhitelist.invalidCidr''\<rparr>, [], [])
      else (s\<lparr>ip_addMutation := mutate\<rparr>,
        [CallApi ''POST'' (whitelist_path (orgId s)) (json_body [(''cidr'', JStr (newCIDR s)),
           (''label'', JStr (if newLabel s \<noteq> '''' then newLabel s else newCIDR s))])], [KAddCIDR]))"

text \<open>\<open>setAddError(err.message)\<close>, shown where it is truthy.\<close>

definition error_caption :: "json \<Rightarrow> caption" where
  "error_caption m = (if truthy m then [Lit (js_string m)] else [])"

definition ip_add_done :: "result \<Rightarrow> ip_page \<Rightarrow> (ip_page, ip_k) effect" where
  "ip_add_done r s =
     (let s1 = s\<lparr>ip_addMutation := settled r\<rparr> in
      case r of
        Inl err \<Rightarrow> (s1\<lparr>ip_addError := error_caption (exn_message err)\<rparr>, [], [])
      | Inr v \<Rightarrow> (s1\<lparr>newCIDR := '''', newLabel := '''', ip_addError := []\<rparr>, [Invalidate [''admin'', ''ip-whitelist'']], []))"

definition ip_delete_done :: "result \<Rightarrow> ip_page \<Rightarrow> (ip_page, ip_k) effect" where
  "ip_delete_done r s = (s\<lparr>ip_deleteMutation := settled r\<rparr>,
     (case r of Inl err \<Rightarrow> [] | Inr v \<Rightarrow> [Invalidate [''admin'', ''ip-whitelist'']]), [])"

fun ip_user :: "ip_ev \<Rightarrow> ip_page \<Rightarrow> (ip_page, ip_k) effect" where
  "ip_user (SetOrgId v) s = (s\<lparr>orgId := v\<rparr>, [], [])"
| "ip_user (SetNewCIDR v) s = (s\<lparr>newCIDR := v, ip_addError := []\<rparr>, [], [])"
| "ip_user (SetNewLabel v) s = (s\<lparr>newLabel := v\<rparr>, [], [])"
| "ip_user AddCIDR s = ip_handleAdd s"
| "ip_user (DeleteCIDR i) s = (s\<lparr>ip_deleteMutation := mutate\<rparr>, [CallApi ''DELETE'' (whitelist_path (orgId s) @ ''/'' @ i) JUndef], [KDeleteCIDR])"
| "ip_user RetryWhitelist s = (s, [Refetch [''admin'', ''ip-whitelist'', enabledOrgId s]], [])"

fun ip_resume :: "ip_k \<Rightarrow> result \<Rightarrow> ip_page \<Rightarrow> (ip_page, ip_k) effect" where
  "ip_resume KAddCIDR r s = ip_add_done r s"
| "ip_resume KDeleteCIDR r s = ip_delete_done r s"

definition whitelist_entries :: "ip_page \<Rightarrow> ip_entry list" where
  "whitelist_entries s = (case q_data (whitelistQuery s) of None \<Rightarrow> [] | Some c \<Rightarrow> ip_entries c)"

definition whitelist_enabled :: "ip_page \<Rightarrow> bool" where
  "whitelist_enabled s = (case q_data (whitelistQuery s) of None \<Rightarrow> False | Some c \<Rightarrow> ip_enabled c)"

definition whitelist_status :: "bool \<Rightarrow> 'e ui" where
  "whitelist_status enabled = Node ''Card''
     [Node ''CardHeader'' [Node (if enabled then ''Shield'' else ''ShieldOff'') [], Say (tr ''ipWhitelist.whitelistStatus'')],
      Node ''Badge'' [Say (tr (if enabled then ''ipWhitelist.enforcementEnabled'' else ''ipWhitelist.enforcementDisabled''))],
      Node ''span'' [Say (tr (if enabled then ''ipWhitelist.enforcementEnabledDesc'' else ''ipWhitelist.enforcementDisabledDesc''))]]"

definition whitelist_form :: "ip_page \<Rightarrow> ip_ev ui" where
  "whitelist_form s = Node ''Card''
     [Say (tr ''ipWhitelist.addIpCidr''),
      Input (tr ''ipWhitelist.ipOrCidr'') (newCIDR s) [] False SetNewCIDR, Input (tr ''ipWhitelist.labelOptional'') (newLabel s) [] False SetNewLabel,
      Button (isPending (ip_addMutation s) \<or> trim (newCIDR s) = '''') AddCIDR
        [Say (tr (if isPending (ip_addMutation s) then ''ipWhitelist.adding'' else ''ipWhitelist.add''))],
      only_if (ip_addError s \<noteq> []) (Node ''p'' [Say (ip_addError s)])]"

definition whitelist_row :: "(string \<Rightarrow> string) \<Rightarrow> bool \<Rightarrow> ip_entry \<Rightarrow> ip_ev ui" where
  "whitelist_row toLocaleDateString busy e = Node ''TableRow''
     [Node ''code'' [Say [Lit (ip_cidr e)]], Say [Lit (ip_label e)], Say [Lit (toLocaleDateString (ip_created_at e))],
      Button busy (DeleteCIDR (ip_id e)) []]"

definition whitelist_table :: "(string \<Rightarrow> string) \<Rightarrow> ip_page \<Rightarrow> ip_ev ui" where
  "whitelist_table toLocaleDateString s =
     (let q = whitelistQuery s; es = whitelist_entries s in
      Node ''Card''
       [Node ''CardTitle'' [Say (tr ''ipWhitelist.whitelistEntries''),
          only_if (es \<noteq> []) (Say [Lit ''('', Tr ''ipWhitelist.entries_other'' [(''count'', JNum (int (length es)))], Lit '')''])],
        if q_isLoading q then Node ''div'' (replicate 3 (Node ''Skeleton'' []))
        else if q_isError q then failed_load ''ipWhitelist.failedToLoad'' [Button False RetryWhitelist [Say (tr ''common.retry'')]]
        else if es = [] then Node ''div'' [Say (tr ''ipWhitelist.noEntries'')]
        else Node ''Table''
         [head_row [''ipWhitelist.ipCidr'', ''ipWhitelist.label'', ''ipWhitelist.added''],
          Node ''TableBody'' (map (whitelist_row toLocaleDateString (isPending (ip_deleteMutation s))) es)]])"

definition IPWhitelist_view :: "(string \<Rightarrow> string) \<Rightarrow> ip_page \<Rightarrow> ip_ev ui" where
  "IPWhitelist_view toLocaleDateString s = Node ''div''
     ([Node ''h1'' [Say (tr ''ipWhitelist.title'')], Node ''p'' [Say (tr ''ipWhitelist.subtitle'')],
       Input (tr ''ipWhitelist.orgId'') (orgId s) [] False SetOrgId] @
      (if trim (orgId s) = '''' then [Node ''p'' [Say (tr ''ipWhitelist.enterOrgPrompt'')]]
       else [whitelist_status (whitelist_enabled s), whitelist_form s, whitelist_table toLocaleDateString s,
         only_if (whitelist_enabled s) (Node ''strong'' [Say (tr ''ipWhitelist.note'')])]))"

definition ip_env :: "ip_page \<Rightarrow> ip_page \<Rightarrow> bool" where
  "ip_env s s' \<longleftrightarrow> (\<exists>q. s' = s\<lparr>whitelistQuery := q\<rparr>)"

definition IPWhitelist :: "(string \<Rightarrow> string) \<Rightarrow> (ip_page, ip_ev, ip_k) page" where
  "IPWhitelist toLocaleDateString =
     \<lparr>pg_mount = (ip_init, [], []), pg_view = IPWhitelist_view toLocaleDateString, pg_user = ip_user, pg_resume = ip_resume, pg_env = ip_env\<rparr>"

lemma IPWhitelist_sel [simp]:
  "pg_mount (IPWhitelist fmt) = (ip_init, [], [])" "pg_view (IPWhitelist fmt) = IPWhitelist_view fmt" "pg_user (IPWhitelist fmt) = ip_user"
  "pg_resume (IPWhitelist fmt) = ip_resume" "pg_env (IPWhitelist fmt) = ip_env"
  by (simp_all add: IPWhitelist_def)

definition ip_inv :: "ip_page \<Rightarrow> ip_k list \<Rightarrow> bool" where
  "ip_inv s ks \<longleftrightarrow>
     flags (isPending (ip_addMutation s)) (\<lambda>k. k = KAddCIDR) ks \<and> flags (isPending (ip_deleteMutation s)) (\<lambda>k. k = KDeleteCIDR) ks"

fun ip_guard :: "ip_page \<Rightarrow> ip_ev \<Rightarrow> bool" where
  "ip_guard s AddCIDR = (trim (orgId s) \<noteq> '''' \<and> \<not> isPending (ip_addMutation s))"
| "ip_guard s (DeleteCIDR i) = (trim (orgId s) \<noteq> '''' \<and> \<not> isPending (ip_deleteMutation s) \<and> i \<in> ip_id ` set (whitelist_entries s))"
| "ip_guard s _ = True"

text \<open>What is added passed the test, has a label and goes to an organization that is not blank.\<close>

fun ip_cmd_ok :: "cmd \<Rightarrow> bool" where
  "ip_cmd_ok (CallApi m p b) = (if m = ''POST''
     then (\<exists>org cidr lbl. trim org \<noteq> '''' \<and> p = whitelist_path org \<and> validateCIDR cidr \<and> lbl \<noteq> '''' \<and>
        b = json_body [(''cidr'', JStr cidr), (''label'', JStr lbl)])
     else m = ''DELETE'' \<and> b = JUndef \<and> (\<exists>org i. trim org \<noteq> '''' \<and> p = whitelist_path org @ ''/'' @ i))"
| "ip_cmd_ok _ = True"

lemma validateCIDR_nonempty: "\<not> validateCIDR ''''"
  by (simp add: validateCIDR_def cidrRegex_test_def eat_group_def)

lemma ip_parts_guarded:
  "events (whitelist_status b) = {}"
  "e \<in> events (whitelist_form s) \<Longrightarrow> e = AddCIDR \<and> \<not> isPending (ip_addMutation s) \<or> e \<in> range SetNewCIDR \<union> range SetNewLabel"
  "e \<in> events (whitelist_table fmt s) \<Longrightarrow>
     e = RetryWhitelist \<or> (\<exists>i \<in> ip_id ` set (whitelist_entries s). e = DeleteCIDR i) \<and> \<not> isPending (ip_deleteMutation s)"
  by (auto simp: whitelist_status_def whitelist_form_def whitelist_table_def whitelist_row_def Let_def split: if_splits)

lemma ip_offered: "e \<in> events (IPWhitelist_view fmt s) \<Longrightarrow> ip_guard s e"
  by (auto simp: IPWhitelist_view_def ip_parts_guarded(1) dest!: ip_parts_guarded(2,3) split: if_splits)

lemma ip_user_inv:
  assumes "ip_inv s ks" and "ip_guard s e"
  shows "ip_inv (fst (ip_user e s)) (ks @ snd (snd (ip_user e s)))" and "list_all ip_cmd_ok (fst (snd (ip_user e s)))"
proof -
  show "ip_inv (fst (ip_user e s)) (ks @ snd (snd (ip_user e s)))"
    using assms by (cases e) (auto simp: ip_inv_def flags_def ip_handleAdd_def)
  show "list_all ip_cmd_ok (fst (snd (ip_user e s)))"
    using assms(2) validateCIDR_nonempty by (cases e) (auto simp: ip_handleAdd_def, metis)
qed

lemma ip_resume_inv:
  assumes "ip_inv s (ks1 @ k # ks2)"
  shows "ip_inv (fst (ip_resume k r s)) (ks1 @ ks2 @ snd (snd (ip_resume k r s)))" and "list_all ip_cmd_ok (fst (snd (ip_resume k r s)))"
  using assms by (cases k; cases r; auto simp: ip_inv_def flags_def ip_add_done_def ip_delete_done_def Let_def split: if_splits)+

lemma ip_mounted: "ip_inv ip_init []"
  by (simp add: ip_inv_def ip_init_def flags_def)

lemma ip_changed: "ip_inv s ks \<Longrightarrow> ip_env s s' \<Longrightarrow> ip_inv s' ks"
  by (auto simp: ip_inv_def ip_env_def)

interpretation whitelist: page_guarded "IPWhitelist fmt" ip_inv ip_guard ip_cmd_ok for fmt
  by unfold_locales (simp_all add: ip_mounted ip_user_inv ip_resume_inv ip_changed, erule ip_offered)

lemma whitelist_single_flight:
  "single_flight (IPWhitelist fmt)
     [(\<lambda>s. isPending (ip_addMutation s), \<lambda>k. k = KAddCIDR), (\<lambda>s. isPending (ip_deleteMutation s), \<lambda>k. k = KDeleteCIDR)]"
  by (rule whitelist.single_flightI) (simp add: ip_inv_def)

text \<open>The whitelist that is shown and the one that is changed can belong to different organizations. Where the id was
  typed with spaces around it, the page loads and shows the organization without them, but adds an address to a path that
  has them.\<close>

theorem whitelist_other_organization:
  assumes "trim org \<noteq> ''''" and "trim org \<noteq> org" and "validateCIDR cidr"
  shows "\<exists>s ks out b. page_reach (IPWhitelist fmt) (s, ks, out) \<and> CallApi ''POST'' (whitelist_path org) b \<in> set out \<and>
    whitelist_call s = [CallApi ''GET'' (whitelist_path (trim org)) JUndef] \<and> whitelist_path (trim org) \<noteq> whitelist_path org"
proof -
  have ev: "SetOrgId v \<in> events (IPWhitelist_view fmt s)" for v s
    by (simp add: IPWhitelist_view_def)
  have typed: "trim (orgId s) \<noteq> '''' \<Longrightarrow> SetNewCIDR v \<in> events (IPWhitelist_view fmt s)" for v s
    by (simp add: IPWhitelist_view_def whitelist_form_def)
  have add: "trim (orgId s) \<noteq> '''' \<Longrightarrow> trim (newCIDR s) \<noteq> '''' \<Longrightarrow> \<not> isPending (ip_addMutation s) \<Longrightarrow> AddCIDR \<in> events (IPWhitelist_view fmt s)" for s
    by (simp add: IPWhitelist_view_def whitelist_form_def)
  have start: "ip_addMutation ip_init = idle" by (simp add: ip_init_def)
  have "trim cidr \<noteq> ''''"
  proof
    assume "trim cidr = ''''"
    then have "\<forall>c \<in> set cidr. is_ws c" by (simp add: trim_empty_iff)
    moreover have "\<exists>c \<in> set cidr. c = CHR ''.''" using assms(3) validateCIDR_iff [of cidr] by auto
    ultimately show False by (auto simp: is_ws_def)
  qed
  then have "\<exists>s ks out b. page_play (IPWhitelist fmt) [Do (SetOrgId org), Do (SetNewCIDR cidr), Do AddCIDR] (ip_init, [], []) = Some (s, ks, out) \<and>
      CallApi ''POST'' (whitelist_path org) b \<in> set out \<and> whitelist_call s = [CallApi ''GET'' (whitelist_path (trim org)) JUndef]"
    using assms by (simp add: ev typed add start ip_handleAdd_def whitelist_call_def enabledOrgId_def)
  then obtain s ks out b where "page_reach (IPWhitelist fmt) (s, ks, out)" "CallApi ''POST'' (whitelist_path org) b \<in> set out"
    "whitelist_call s = [CallApi ''GET'' (whitelist_path (trim org)) JUndef]"
    using page_play_mount [OF IPWhitelist_sel(1)] by blast
  then show ?thesis using assms(2) by (auto simp: whitelist_path_def)
qed

theorem whitelist_other_organization_witness:
  "\<exists>s ks out b. page_reach (IPWhitelist id) (s, ks, out) \<and>
     CallApi ''POST'' ''/api/admin/v1/organizations/acme /ip-whitelist'' b \<in> set out"
proof -
  have "trim ''acme '' = ''acme''" by (simp add: trim_def is_ws_def)
  then show ?thesis
    using whitelist_other_organization [of "''acme ''" "''10.0.0.0/99''" id] wide_prefix_accepted by (simp add: whitelist_path_def) blast
qed

section \<open>The blacklist page\<close>

record BlacklistEntry =
  bl_id :: string
  bl_cidr :: string
  bl_reason :: string
  bl_created_by :: string
  bl_created_at :: string
  bl_expires_at :: "string option"

record blacklist_page =
  blacklistQuery :: "BlacklistEntry list option query"
  bl_addMutation :: mutation
  bl_removeMutation :: mutation
  newCidr :: string
  newReason :: string
  bl_addError :: caption

text \<open>The answer is an object that has the entries, or not.\<close>

definition blacklist_init :: blacklist_page where
  "blacklist_init = \<lparr>blacklistQuery = q_pending, bl_addMutation = idle, bl_removeMutation = idle, newCidr = '''', newReason = '''', bl_addError = []\<rparr>"

datatype blacklist_ev = SetNewCidr string | SetNewReason string | AddEntry | RemoveEntry string

datatype blacklist_k = KAddEntry | KRemoveEntry

abbreviation BLACKLIST_KEY :: "string list" where
  "BLACKLIST_KEY \<equiv> [''admin'', ''abuse'', ''blacklist'']"

abbreviation blacklist_path :: string where
  "blacklist_path \<equiv> ''/api/admin/v1/abuse/blacklist''"

definition bl_handleAdd :: "blacklist_page \<Rightarrow> (blacklist_page, blacklist_k) effect" where
  "bl_handleAdd s =
     (if trim (newCidr s) = '''' then (s\<lparr>bl_addError := tr ''blacklist.cidrRequired''\<rparr>, [], [])
      else (s\<lparr>bl_addMutation := mutate\<rparr>,
        [CallApi ''POST'' blacklist_path (json_body [(''cidr'', JStr (trim (newCidr s))),
           (''reason'', JStr (if trim (newReason s) \<noteq> '''' then trim (newReason s) else ''manual block''))])], [KAddEntry]))"

definition bl_add_done :: "result \<Rightarrow> blacklist_page \<Rightarrow> (blacklist_page, blacklist_k) effect" where
  "bl_add_done r s =
     (let s1 = s\<lparr>bl_addMutation := settled r\<rparr> in
      case r of
        Inl err \<Rightarrow> (s1\<lparr>bl_addError := (if nullish (exn_message err) then tr ''blacklist.cidrRequired'' else error_caption (exn_message err))\<rparr>, [], [])
      | Inr v \<Rightarrow> (s1\<lparr>newCidr := '''', newReason := '''', bl_addError := []\<rparr>, [Invalidate BLACKLIST_KEY], []))"

definition bl_remove_done :: "result \<Rightarrow> blacklist_page \<Rightarrow> (blacklist_page, blacklist_k) effect" where
  "bl_remove_done r s = (s\<lparr>bl_removeMutation := settled r\<rparr>, (case r of Inl err \<Rightarrow> [] | Inr v \<Rightarrow> [Invalidate BLACKLIST_KEY]), [])"

fun blacklist_user :: "blacklist_ev \<Rightarrow> blacklist_page \<Rightarrow> (blacklist_page, blacklist_k) effect" where
  "blacklist_user (SetNewCidr v) s = (s\<lparr>newCidr := v, bl_addError := []\<rparr>, [], [])"
| "blacklist_user (SetNewReason v) s = (s\<lparr>newReason := v\<rparr>, [], [])"
| "blacklist_user AddEntry s = bl_handleAdd s"
| "blacklist_user (RemoveEntry i) s = (s\<lparr>bl_removeMutation := mutate\<rparr>, [CallApi ''DELETE'' (blacklist_path @ ''/'' @ i) JUndef], [KRemoveEntry])"

fun blacklist_resume :: "blacklist_k \<Rightarrow> result \<Rightarrow> blacklist_page \<Rightarrow> (blacklist_page, blacklist_k) effect" where
  "blacklist_resume KAddEntry r s = bl_add_done r s"
| "blacklist_resume KRemoveEntry r s = bl_remove_done r s"

definition blacklist_entries :: "blacklist_page \<Rightarrow> BlacklistEntry list" where
  "blacklist_entries s = data_or_empty (Option.bind (q_data (blacklistQuery s)) id)"

definition blacklist_row :: "(string \<Rightarrow> string) \<Rightarrow> bool \<Rightarrow> BlacklistEntry \<Rightarrow> blacklist_ev ui" where
  "blacklist_row toLocaleString busy e = Node ''TableRow''
     [Node ''Badge'' [Say [Lit (bl_cidr e)]], Say [Lit (bl_reason e)], Say [Lit (bl_created_by e)], Say [Lit (toLocaleString (bl_created_at e))],
      Say (if present (bl_expires_at e) then [Lit (toLocaleString (the (bl_expires_at e)))] else tr ''common.never''),
      Button busy (RemoveEntry (bl_id e)) []]"

definition blacklist_form :: "blacklist_page \<Rightarrow> blacklist_ev ui" where
  "blacklist_form s = Node ''Card''
     [Input (tr ''blacklist.cidr'') (newCidr s) (bl_addError s) False SetNewCidr, Input (tr ''blacklist.reason'') (newReason s) [] False SetNewReason,
      Button (isPending (bl_addMutation s)) AddEntry [Say (tr (if isPending (bl_addMutation s) then ''blacklist.adding'' else ''blacklist.add''))]]"

definition Blacklist_view :: "(string \<Rightarrow> string) \<Rightarrow> blacklist_page \<Rightarrow> blacklist_ev ui" where
  "Blacklist_view toLocaleString s =
     (if q_isLoading (blacklistQuery s) then Node ''div'' [Node ''Skeleton'' [], Node ''Skeleton'' []]
      else Node ''div''
       [Node ''h1'' [Say (tr ''blacklist.title'')], Node ''p'' [Say (tr ''blacklist.subtitle'')], blacklist_form s,
        Node ''Table''
         [head_row [''blacklist.cidr'', ''blacklist.reason'', ''blacklist.addedBy'', ''blacklist.addedAt'', ''blacklist.expires'', ''blacklist.actions''],
          Node ''TableBody'' (if blacklist_entries s = [] then [Node ''TableRow'' [Say (tr ''blacklist.noEntries'')]]
            else map (blacklist_row toLocaleString (isPending (bl_removeMutation s))) (blacklist_entries s))]])"

definition blacklist_env :: "blacklist_page \<Rightarrow> blacklist_page \<Rightarrow> bool" where
  "blacklist_env s s' \<longleftrightarrow> (\<exists>q. s' = s\<lparr>blacklistQuery := q\<rparr>)"

definition Blacklist :: "(string \<Rightarrow> string) \<Rightarrow> (blacklist_page, blacklist_ev, blacklist_k) page" where
  "Blacklist toLocaleString =
     \<lparr>pg_mount = (blacklist_init, [CallApi ''GET'' blacklist_path JUndef], []), pg_view = Blacklist_view toLocaleString,
      pg_user = blacklist_user, pg_resume = blacklist_resume, pg_env = blacklist_env\<rparr>"

lemma Blacklist_sel [simp]:
  "pg_mount (Blacklist fmt) = (blacklist_init, [CallApi ''GET'' blacklist_path JUndef], [])" "pg_view (Blacklist fmt) = Blacklist_view fmt"
  "pg_user (Blacklist fmt) = blacklist_user" "pg_resume (Blacklist fmt) = blacklist_resume" "pg_env (Blacklist fmt) = blacklist_env"
  by (simp_all add: Blacklist_def)

definition blacklist_inv :: "blacklist_page \<Rightarrow> blacklist_k list \<Rightarrow> bool" where
  "blacklist_inv s ks \<longleftrightarrow>
     flags (isPending (bl_addMutation s)) (\<lambda>k. k = KAddEntry) ks \<and> flags (isPending (bl_removeMutation s)) (\<lambda>k. k = KRemoveEntry) ks"

fun blacklist_guard :: "blacklist_page \<Rightarrow> blacklist_ev \<Rightarrow> bool" where
  "blacklist_guard s AddEntry = (\<not> isPending (bl_addMutation s))"
| "blacklist_guard s (RemoveEntry i) = (\<not> isPending (bl_removeMutation s) \<and> i \<in> bl_id ` set (blacklist_entries s))"
| "blacklist_guard s _ = True"

text \<open>Only the blacklist is touched; an entry has an address that is not blank and a reason.\<close>

fun blacklist_cmd_ok :: "cmd \<Rightarrow> bool" where
  "blacklist_cmd_ok (CallApi m p b) = (prefix blacklist_path p \<and>
     (if m = ''POST'' then (\<exists>cidr reason. cidr \<noteq> '''' \<and> reason \<noteq> '''' \<and> b = json_body [(''cidr'', JStr cidr), (''reason'', JStr reason)])
      else b = JUndef))"
| "blacklist_cmd_ok _ = True"

lemma blacklist_offered: "e \<in> events (Blacklist_view fmt s) \<Longrightarrow> blacklist_guard s e"
  by (auto simp: Blacklist_view_def blacklist_form_def blacklist_row_def split: if_splits)

lemma blacklist_user_inv:
  assumes "blacklist_inv s ks" and "blacklist_guard s e"
  shows "blacklist_inv (fst (blacklist_user e s)) (ks @ snd (snd (blacklist_user e s)))"
    and "list_all blacklist_cmd_ok (fst (snd (blacklist_user e s)))"
proof -
  show "blacklist_inv (fst (blacklist_user e s)) (ks @ snd (snd (blacklist_user e s)))"
    using assms by (cases e) (auto simp: blacklist_inv_def flags_def bl_handleAdd_def)
  show "list_all blacklist_cmd_ok (fst (snd (blacklist_user e s)))"
    by (cases e) (auto simp: bl_handleAdd_def)
qed

lemma blacklist_resume_inv:
  assumes "blacklist_inv s (ks1 @ k # ks2)"
  shows "blacklist_inv (fst (blacklist_resume k r s)) (ks1 @ ks2 @ snd (snd (blacklist_resume k r s)))"
    and "list_all blacklist_cmd_ok (fst (snd (blacklist_resume k r s)))"
  using assms by (cases k; cases r; auto simp: blacklist_inv_def flags_def bl_add_done_def bl_remove_done_def Let_def split: if_splits)+

lemma blacklist_mounted: "blacklist_inv blacklist_init []"
  by (simp add: blacklist_inv_def blacklist_init_def flags_def)

lemma blacklist_changed: "blacklist_inv s ks \<Longrightarrow> blacklist_env s s' \<Longrightarrow> blacklist_inv s' ks"
  by (auto simp: blacklist_inv_def blacklist_env_def)

interpretation blacklist: page_guarded "Blacklist fmt" blacklist_inv blacklist_guard blacklist_cmd_ok for fmt
  by unfold_locales (simp_all add: blacklist_mounted blacklist_user_inv blacklist_resume_inv blacklist_changed, erule blacklist_offered)

lemma blacklist_single_flight:
  "single_flight (Blacklist fmt)
     [(\<lambda>s. isPending (bl_addMutation s), \<lambda>k. k = KAddEntry), (\<lambda>s. isPending (bl_removeMutation s), \<lambda>k. k = KRemoveEntry)]"
  by (rule blacklist.single_flightI) (simp add: blacklist_inv_def)

text \<open>A failed load looks like an empty blacklist.\<close>

lemma failed_blacklist_silent:
  "\<not> q_isLoading (blacklistQuery s) \<Longrightarrow> q_data (blacklistQuery s) = None \<Longrightarrow> tr ''blacklist.noEntries'' \<in> set (texts (Blacklist_view fmt s))"
  by (simp add: Blacklist_view_def blacklist_entries_def)

end
