(* ===== verification/AnnouncementsPage.thy ===== *)
theory AnnouncementsPage
  imports Hooks
begin

text \<open>
  The announcements of the admin console (\<open>pages/Announcements.tsx\<close>). One form creates and edits; its button waits for
  both mutations.
\<close>

section \<open>State\<close>

record announcement =
  an_id :: string
  an_title :: string
  an_body :: string
  an_severity :: string
  an_target :: string
  an_active :: bool
  an_start_at :: "string option"
  an_end_at :: "string option"
  an_created_at :: string

record announcement_form =
  af_title :: string
  af_body :: string
  af_severity :: string
  af_target :: string
  af_active :: bool
  af_start_at :: string
  af_end_at :: string

definition blank_announcement :: announcement_form where
  "blank_announcement = \<lparr>af_title = '''', af_body = '''', af_severity = ''info'', af_target = ''all'', af_active = True, af_start_at = '''', af_end_at = ''''\<rparr>"

record announcements_page =
  announcementsQuery :: "announcement list option query"
  an_createMutation :: mutation
  an_updateMutation :: mutation
  an_showForm :: bool
  editingAnnouncement :: "announcement option"
  aform :: announcement_form

definition announcements_init :: announcements_page where
  "announcements_init = \<lparr>announcementsQuery = q_pending, an_createMutation = idle, an_updateMutation = idle, an_showForm = False,
     editingAnnouncement = None, aform = blank_announcement\<rparr>"

datatype announcements_ev =
    NewAnnouncement | EditAnnouncement announcement | CancelAnnouncement | SetATitle string | SetABody string | SetASeverity string
  | SetATarget string | SetAStart string | SetAEnd string | SetAActive bool | SubmitAnnouncement | DeleteAnnouncement string bool | RetryAnnouncements

datatype announcements_k = KCreateAnnouncement | KUpdateAnnouncement | KDeleteAnnouncement

section \<open>Handlers\<close>

abbreviation ANNOUNCEMENTS_KEY :: "string list" where
  "ANNOUNCEMENTS_KEY \<equiv> [''admin'', ''announcements'']"

abbreviation announcements_path :: string where
  "announcements_path \<equiv> ''/api/admin/v1/announcements''"

definition announcement_path :: "string \<Rightarrow> string" where
  "announcement_path i = announcements_path @ ''/'' @ i"

definition announcement_body :: "announcement_form \<Rightarrow> json" where
  "announcement_body f =
     json_body [(''title'', JStr (af_title f)), (''body'', JStr (af_body f)), (''severity'', JStr (af_severity f)), (''target'', JStr (af_target f)),
       (''active'', JBool (af_active f)), (''start_at'', JStr (af_start_at f)), (''end_at'', JStr (af_end_at f))]"

definition resetAnnouncement :: "announcements_page \<Rightarrow> announcements_page" where
  "resetAnnouncement s = s\<lparr>an_showForm := False, editingAnnouncement := None, aform := blank_announcement\<rparr>"

definition handleEditAnnouncement :: "announcement \<Rightarrow> announcements_page \<Rightarrow> announcements_page" where
  "handleEditAnnouncement a s =
     s\<lparr>editingAnnouncement := Some a,
       aform := \<lparr>af_title = an_title a, af_body = an_body a, af_severity = an_severity a, af_target = an_target a, af_active = an_active a,
         af_start_at = (case an_start_at a of None \<Rightarrow> '''' | Some d \<Rightarrow> d), af_end_at = (case an_end_at a of None \<Rightarrow> '''' | Some d \<Rightarrow> d)\<rparr>,
       an_showForm := True\<rparr>"

definition handleSubmitAnnouncement :: "announcements_page \<Rightarrow> (announcements_page, announcements_k) effect" where
  "handleSubmitAnnouncement s =
     (if trim (af_title (aform s)) = '''' then (s, [], [])
      else (case editingAnnouncement s of
          Some a \<Rightarrow> (s\<lparr>an_updateMutation := mutate\<rparr>, [CallApi ''PUT'' (announcement_path (an_id a)) (announcement_body (aform s))], [KUpdateAnnouncement])
        | None \<Rightarrow> (s\<lparr>an_createMutation := mutate\<rparr>, [CallApi ''POST'' announcements_path (announcement_body (aform s))], [KCreateAnnouncement])))"

text \<open>\<open>onSuccess\<close> of both mutations.\<close>

definition saved_announcement :: "result \<Rightarrow> announcements_page \<Rightarrow> (announcements_page, announcements_k) effect" where
  "saved_announcement r s = (case r of Inl err \<Rightarrow> (s, [], []) | Inr v \<Rightarrow> (resetAnnouncement s, [Invalidate ANNOUNCEMENTS_KEY], []))"

abbreviation edit_announcement ::
  "(announcement_form \<Rightarrow> announcement_form) \<Rightarrow> announcements_page \<Rightarrow> (announcements_page, announcements_k) effect" where
  "edit_announcement f s \<equiv> (s\<lparr>aform := f (aform s)\<rparr>, [], [])"

fun announcements_user :: "announcements_ev \<Rightarrow> announcements_page \<Rightarrow> (announcements_page, announcements_k) effect" where
  "announcements_user NewAnnouncement s = ((resetAnnouncement s)\<lparr>an_showForm := True\<rparr>, [], [])"
| "announcements_user (EditAnnouncement a) s = (handleEditAnnouncement a s, [], [])"
| "announcements_user CancelAnnouncement s = (resetAnnouncement s, [], [])"
| "announcements_user (SetATitle v) s = edit_announcement (\<lambda>f. f\<lparr>af_title := v\<rparr>) s"
| "announcements_user (SetABody v) s = edit_announcement (\<lambda>f. f\<lparr>af_body := v\<rparr>) s"
| "announcements_user (SetASeverity v) s = edit_announcement (\<lambda>f. f\<lparr>af_severity := v\<rparr>) s"
| "announcements_user (SetATarget v) s = edit_announcement (\<lambda>f. f\<lparr>af_target := v\<rparr>) s"
| "announcements_user (SetAStart v) s = edit_announcement (\<lambda>f. f\<lparr>af_start_at := v\<rparr>) s"
| "announcements_user (SetAEnd v) s = edit_announcement (\<lambda>f. f\<lparr>af_end_at := v\<rparr>) s"
| "announcements_user (SetAActive b) s = edit_announcement (\<lambda>f. f\<lparr>af_active := b\<rparr>) s"
| "announcements_user SubmitAnnouncement s = handleSubmitAnnouncement s"
| "announcements_user (DeleteAnnouncement i ok) s =
     (if ok then (s, [CallApi ''DELETE'' (announcement_path i) JUndef], [KDeleteAnnouncement]) else (s, [], []))"
| "announcements_user RetryAnnouncements s = (s, [Refetch ANNOUNCEMENTS_KEY], [])"

fun announcements_resume :: "announcements_k \<Rightarrow> result \<Rightarrow> announcements_page \<Rightarrow> (announcements_page, announcements_k) effect" where
  "announcements_resume KCreateAnnouncement r s = saved_announcement r (s\<lparr>an_createMutation := settled r\<rparr>)"
| "announcements_resume KUpdateAnnouncement r s = saved_announcement r (s\<lparr>an_updateMutation := settled r\<rparr>)"
| "announcements_resume KDeleteAnnouncement r s = (s, (case r of Inl err \<Rightarrow> [] | Inr v \<Rightarrow> [Invalidate ANNOUNCEMENTS_KEY]), [])"

section \<open>View\<close>

definition targetLabels :: "(string \<times> string) list" where
  "targetLabels = [(''all'', ''All Plans''), (''free'', ''Free''), (''pro'', ''Pro''), (''team'', ''Team''), (''business'', ''Business''),
     (''enterprise'', ''Enterprise'')]"

definition severities :: "(string \<times> caption) list" where
  "severities = [(''info'', [Lit ''Info'']), (''warning'', [Lit ''Warning'']), (''critical'', [Lit ''Critical''])]"

definition target_options :: "(string \<times> caption) list" where
  "target_options = (''all'', tr ''announcements.allPlans'') #
     [(''free'', [Lit ''Free'']), (''pro'', [Lit ''Pro'']), (''team'', [Lit ''Team'']), (''business'', [Lit ''Business'']), (''enterprise'', [Lit ''Enterprise''])]"

definition announcement_form_card :: "announcements_page \<Rightarrow> announcements_ev ui" where
  "announcement_form_card s =
     (let f = aform s; editing = editingAnnouncement s \<noteq> None in
      only_if (an_showForm s) (Node ''Card''
       [Say (tr (if editing then ''announcements.editAnnouncement'' else ''announcements.createAnnouncement'')),
        Input (tr ''announcements.title_field'') (af_title f) [] False SetATitle,
        Say (tr ''announcements.body''), Field [] (af_body f) False SetABody,
        Say (tr ''announcements.severity''), Select (af_severity f) severities SetASeverity,
        Say (tr ''announcements.targetPlan''), Select (af_target f) target_options SetATarget,
        Input (tr ''announcements.startAt'') (af_start_at f) [] False SetAStart, Input (tr ''announcements.endAt'') (af_end_at f) [] False SetAEnd,
        Checkbox (af_active f) (SetAActive (\<not> af_active f)), Say (tr ''announcements.active''),
        Button (isPending (an_createMutation s) \<or> isPending (an_updateMutation s)) SubmitAnnouncement
          [Say (tr (if editing then ''common.update'' else ''common.create''))],
        Button False CancelAnnouncement [Say (tr ''common.cancel'')],
        form_error (an_createMutation s) (an_updateMutation s) ''announcements.operationFailed'']))"

definition schedule :: "(string \<Rightarrow> string) \<Rightarrow> announcement \<Rightarrow> caption" where
  "schedule toLocaleDateString a =
     (if present (an_start_at a) \<or> present (an_end_at a) then
        (if present (an_start_at a) then [Lit (toLocaleDateString (the (an_start_at a)))] else tr ''announcements.now'') @ [Lit '' - ''] @
        (if present (an_end_at a) then [Lit (toLocaleDateString (the (an_end_at a)))] else tr ''announcements.forever'')
      else tr ''announcements.always'')"

definition announcement_row :: "(string \<Rightarrow> string) \<Rightarrow> announcement \<Rightarrow> announcements_ev ui" where
  "announcement_row toLocaleDateString a = Node ''TableRow''
     [Say [Lit (an_title a)], Node ''Badge'' [Say [Lit (an_severity a)]],
      Say [Lit (case map_of targetLabels (an_target a) of None \<Rightarrow> an_target a | Some l \<Rightarrow> l)],
      Node ''Badge'' [Say (tr (if an_active a then ''common.active'' else ''common.inactive''))], Say (schedule toLocaleDateString a),
      Say [Lit (toLocaleDateString (an_created_at a))], Button False (EditAnnouncement a) [], confirm_button False (DeleteAnnouncement (an_id a))]"

definition announced :: "announcements_page \<Rightarrow> announcement list" where
  "announced s = data_or_empty (Option.bind (q_data (announcementsQuery s)) id)"

definition announcements_table :: "(string \<Rightarrow> string) \<Rightarrow> announcements_page \<Rightarrow> announcements_ev ui" where
  "announcements_table toLocaleDateString s =
     (let q = announcementsQuery s; known = Option.bind (q_data q) id in
      Node ''Card''
       [Node ''CardTitle'' [Say (tr ''announcements.allAnnouncements''),
          only_if (known \<noteq> None) (Say [Lit (''('' @ nat_string (length (announced s)) @ '')'')])],
        if q_isError q then failed_load ''announcements.failedToLoad'' [Button False RetryAnnouncements [Say (tr ''common.retry'')]]
        else Node ''Table''
         [head_row [''announcements.title_field'', ''announcements.severity'', ''announcements.targetPlan'', ''announcements.active'',
            ''announcements.schedule'', ''common.created'', ''common.actions''],
          Node ''TableBody'' (if q_isLoading q then replicate 3 (Node ''TableRow'' (replicate 7 (Node ''Skeleton'' [])))
            else map (announcement_row toLocaleDateString) (announced s))],
        only_if (known = Some [] \<and> \<not> q_isLoading q) (Say (tr ''announcements.noAnnouncements''))])"

definition Announcements_view :: "(string \<Rightarrow> string) \<Rightarrow> announcements_page \<Rightarrow> announcements_ev ui" where
  "Announcements_view toLocaleDateString s = Node ''div''
     [Node ''h1'' [Say (tr ''announcements.title'')], Node ''p'' [Say (tr ''announcements.subtitle'')],
      Button False NewAnnouncement [Say (tr ''announcements.newAnnouncement'')], announcement_form_card s, announcements_table toLocaleDateString s]"

definition announcements_env :: "announcements_page \<Rightarrow> announcements_page \<Rightarrow> bool" where
  "announcements_env s s' \<longleftrightarrow> (\<exists>q. s' = s\<lparr>announcementsQuery := q\<rparr>)"

definition Announcements :: "(string \<Rightarrow> string) \<Rightarrow> (announcements_page, announcements_ev, announcements_k) page" where
  "Announcements toLocaleDateString =
     \<lparr>pg_mount = (announcements_init, [CallApi ''GET'' announcements_path JUndef], []), pg_view = Announcements_view toLocaleDateString,
      pg_user = announcements_user, pg_resume = announcements_resume, pg_env = announcements_env\<rparr>"

lemma Announcements_sel [simp]:
  "pg_mount (Announcements fmt) = (announcements_init, [CallApi ''GET'' announcements_path JUndef], [])"
  "pg_view (Announcements fmt) = Announcements_view fmt" "pg_user (Announcements fmt) = announcements_user"
  "pg_resume (Announcements fmt) = announcements_resume" "pg_env (Announcements fmt) = announcements_env"
  by (simp_all add: Announcements_def)

section \<open>Invariant\<close>

text \<open>The two mutations exclude each other.\<close>

definition announcements_inv :: "announcements_page \<Rightarrow> announcements_k list \<Rightarrow> bool" where
  "announcements_inv s ks \<longleftrightarrow>
     flags (isPending (an_createMutation s)) (\<lambda>k. k = KCreateAnnouncement) ks \<and> flags (isPending (an_updateMutation s)) (\<lambda>k. k = KUpdateAnnouncement) ks \<and>
     \<not> (isPending (an_createMutation s) \<and> isPending (an_updateMutation s))"

fun announcements_guard :: "announcements_page \<Rightarrow> announcements_ev \<Rightarrow> bool" where
  "announcements_guard s SubmitAnnouncement = (an_showForm s \<and> \<not> isPending (an_createMutation s) \<and> \<not> isPending (an_updateMutation s))"
| "announcements_guard s (SetASeverity v) = (v \<in> fst ` set severities)"
| "announcements_guard s (SetATarget v) = (v \<in> fst ` set target_options)"
| "announcements_guard s _ = True"

definition announcement_sent :: "json \<Rightarrow> bool" where
  "announcement_sent b \<longleftrightarrow> (\<exists>f. trim (af_title f) \<noteq> '''' \<and> b = announcement_body f)"

fun announcements_cmd_ok :: "cmd \<Rightarrow> bool" where
  "announcements_cmd_ok (CallApi m p b) =
     (if m = ''POST'' then p = announcements_path \<and> announcement_sent b
      else if m = ''PUT'' then (\<exists>i. p = announcement_path i) \<and> announcement_sent b
      else b = JUndef)"
| "announcements_cmd_ok _ = True"

lemma announcement_row_events:
  "e \<in> events (announcement_row fmt a) \<Longrightarrow> e = EditAnnouncement a \<or> e \<in> range (DeleteAnnouncement (an_id a))"
  by (auto simp: announcement_row_def)

lemma announcements_parts_guarded:
  "e \<in> events (announcement_form_card s) \<Longrightarrow> announcements_guard s e" "e \<in> events (announcements_table fmt s) \<Longrightarrow> announcements_guard s e"
proof -
  show "e \<in> events (announcement_form_card s) \<Longrightarrow> announcements_guard s e"
    by (auto simp: announcement_form_card_def Let_def rev_image_eqI split: if_splits)
  show "e \<in> events (announcements_table fmt s) \<Longrightarrow> announcements_guard s e"
    by (auto simp: announcements_table_def Let_def dest!: announcement_row_events split: if_splits)
qed

lemma announcements_offered: "e \<in> events (Announcements_view fmt s) \<Longrightarrow> announcements_guard s e"
  by (auto simp: Announcements_view_def dest: announcements_parts_guarded)

lemmas announcements_handlers = resetAnnouncement_def handleEditAnnouncement_def handleSubmitAnnouncement_def saved_announcement_def

lemma announcements_user_inv:
  assumes "announcements_inv s ks" and "announcements_guard s e"
  shows "announcements_inv (fst (announcements_user e s)) (ks @ snd (snd (announcements_user e s)))"
    and "list_all announcements_cmd_ok (fst (snd (announcements_user e s)))"
  using assms
  by (cases e; auto simp: announcements_inv_def flags_def announcements_handlers announcement_sent_def split: option.splits)+

lemma announcements_resume_inv:
  assumes "announcements_inv s (ks1 @ k # ks2)"
  shows "announcements_inv (fst (announcements_resume k r s)) (ks1 @ ks2 @ snd (snd (announcements_resume k r s)))"
    and "list_all announcements_cmd_ok (fst (snd (announcements_resume k r s)))"
  using assms by (cases k; cases r; auto simp: announcements_inv_def flags_def announcements_handlers split: if_splits)+

lemma announcements_mounted: "announcements_inv announcements_init []"
  by (simp add: announcements_inv_def announcements_init_def flags_def)

lemma announcements_changed: "announcements_inv s ks \<Longrightarrow> announcements_env s s' \<Longrightarrow> announcements_inv s' ks"
  by (auto simp: announcements_inv_def announcements_env_def)

interpretation announcements: page_guarded "Announcements fmt" announcements_inv announcements_guard announcements_cmd_ok for fmt
  by unfold_locales
    (simp_all add: announcements_mounted announcements_user_inv announcements_resume_inv announcements_changed, erule announcements_offered)

section \<open>Properties\<close>

lemma waiting_disjoint: "(\<And>k. \<not> (P k \<and> Q k)) \<Longrightarrow> waiting (\<lambda>k. P k \<or> Q k) ks = waiting P ks + waiting Q ks"
  by (induction ks) auto

text \<open>Announcements are saved one at a time. Whatever is created or changed has a title that is not blank, with all fields
  of the form; and of creations and changes together at most one is in flight, exactly while the button of the form is
  disabled.\<close>

theorem announcement_saves_exclusive:
  assumes "page_reach (Announcements fmt) (s, ks, out)" and "CallApi m p b \<in> set out" and "m = ''POST'' \<or> m = ''PUT''"
  shows "(\<exists>f. trim (af_title f) \<noteq> '''' \<and> b = announcement_body f) \<and>
    waiting (\<lambda>k. k = KCreateAnnouncement \<or> k = KUpdateAnnouncement) ks =
      (if isPending (an_createMutation s) \<or> isPending (an_updateMutation s) then 1 else 0)"
  using announcements.commands [OF assms(1,2)] announcements.reachable [OF assms(1)] assms(3)
  by (auto simp: announcements_inv_def flags_def announcement_sent_def waiting_disjoint)

lemma announcement_events:
  "NewAnnouncement \<in> events (Announcements_view fmt s)"
  "an_showForm s \<Longrightarrow> {CancelAnnouncement, SetATitle v} \<subseteq> events (Announcements_view fmt s)"
  "an_showForm s \<Longrightarrow> \<not> isPending (an_createMutation s) \<Longrightarrow> \<not> isPending (an_updateMutation s) \<Longrightarrow> SubmitAnnouncement \<in> events (Announcements_view fmt s)"
  by (auto simp: Announcements_view_def announcement_form_card_def Let_def)

lemma announcements_init_sel [simp]:
  "an_createMutation announcements_init = idle" "an_updateMutation announcements_init = idle" "editingAnnouncement announcements_init = None"
  by (simp_all add: announcements_init_def)

lemma trim_a: "trim ''a'' = ''a''"
  by (simp add: trim_def is_ws_def)

text \<open>A creation that was cancelled comes back. Its late answer closes the form that is open by then and empties it: what
  was typed there is gone and has not been sent.\<close>

theorem late_creation_drops_announcement:
  assumes "c \<noteq> ''a''"
  shows "\<exists>s out s' out'. page_reach (Announcements fmt) (s, [KCreateAnnouncement], out) \<and> an_showForm s \<and> af_title (aform s) = c \<and>
    page_step (Announcements fmt) (s, [KCreateAnnouncement], out) (s', [], out') \<and> \<not> an_showForm s' \<and> aform s' = blank_announcement \<and>
    (\<forall>p f. CallApi p announcements_path (announcement_body f) \<in> set out' \<longrightarrow> af_title f \<noteq> c)"
proof -
  let ?play = "[Do NewAnnouncement, Do (SetATitle ''a''), Do SubmitAnnouncement, Do CancelAnnouncement, Do NewAnnouncement, Do (SetATitle c)]"
  have b: "announcement_body f = announcement_body g \<Longrightarrow> af_title f = af_title g" for f g
    by (simp add: announcement_body_def json_body_def)
  have t: "af_title (blank_announcement\<lparr>af_title := v\<rparr>) = v" for v by simp
  have "\<exists>s. page_play (Announcements fmt) ?play (announcements_init, [], [CallApi ''GET'' announcements_path JUndef]) =
      Some (s, [KCreateAnnouncement], [CallApi ''GET'' announcements_path JUndef,
        CallApi ''POST'' announcements_path (announcement_body (blank_announcement\<lparr>af_title := ''a''\<rparr>))]) \<and> an_showForm s \<and> af_title (aform s) = c"
    using announcement_events by (simp add: announcements_handlers trim_a)
  then obtain s where r: "page_reach (Announcements fmt) (s, [KCreateAnnouncement], [CallApi ''GET'' announcements_path JUndef,
      CallApi ''POST'' announcements_path (announcement_body (blank_announcement\<lparr>af_title := ''a''\<rparr>))])" "an_showForm s" "af_title (aform s) = c"
    using page_play_mount [OF Announcements_sel(1)] by blast
  obtain s' where s: "pg_resume (Announcements fmt) KCreateAnnouncement (Inr JUndef) s = (s', [Invalidate ANNOUNCEMENTS_KEY], [])"
    "\<not> an_showForm s'" "aform s' = blank_announcement"
    by (simp add: announcements_handlers)
  let ?out = "[CallApi ''GET'' announcements_path JUndef,
      CallApi ''POST'' announcements_path (announcement_body (blank_announcement\<lparr>af_title := ''a''\<rparr>))]"
  have "announcement_body f \<noteq> JUndef" for f by (simp add: announcement_body_def json_body_def)
  then have "CallApi p announcements_path (announcement_body f) \<in> set (?out @ [Invalidate ANNOUNCEMENTS_KEY]) \<Longrightarrow> af_title f = ''a''" for p f
    using b [of f "blank_announcement\<lparr>af_title := ''a''\<rparr>"] by auto
  then have n: "\<forall>p f. CallApi p announcements_path (announcement_body f) \<in> set (?out @ [Invalidate ANNOUNCEMENTS_KEY]) \<longrightarrow> af_title f \<noteq> c"
    using assms by blast
  have st: "page_step (Announcements fmt) (s, [KCreateAnnouncement], ?out) (s', [], ?out @ [Invalidate ANNOUNCEMENTS_KEY])"
    using step_resume [OF s(1), of "[]" "[]" ?out] by simp
  show ?thesis by (rule exI [of _ s], rule exI [of _ ?out], rule exI [of _ s'], rule exI, intro conjI, rule r(1), rule r(2), rule r(3), rule st, rule s(2), rule s(3), rule n)
qed

theorem late_creation_drops_announcement_witness:
  "\<exists>s out. page_reach (Announcements id) (s, [KCreateAnnouncement], out) \<and> af_title (aform s) = ''Maintenance on Sunday''"
proof -
  have "''Maintenance on Sunday'' \<noteq> ''a''" by simp
  from late_creation_drops_announcement [OF this] show ?thesis by blast
qed

theorem announcement_saves_exclusive_witness:
  "\<exists>s ks out. page_reach (Announcements id) (s, ks, out) \<and> waiting (\<lambda>k. k = KCreateAnnouncement \<or> k = KUpdateAnnouncement) ks = 1"
proof -
  have "\<exists>s ks out b. page_play (Announcements id) [Do NewAnnouncement, Do (SetATitle ''a''), Do SubmitAnnouncement]
      (announcements_init, [], [CallApi ''GET'' announcements_path JUndef]) = Some (s, ks, out) \<and>
      CallApi ''POST'' announcements_path b \<in> set out \<and> isPending (an_createMutation s)"
    using announcement_events by (simp add: announcements_handlers trim_a)
  then obtain s ks out b where r: "page_reach (Announcements id) (s, ks, out)" "CallApi ''POST'' announcements_path b \<in> set out"
    "isPending (an_createMutation s)"
    using page_play_mount [OF Announcements_sel(1)] by blast
  from announcement_saves_exclusive [OF r(1,2)] r show ?thesis by force
qed

end
