(* ===== verification/Decimals.thy ===== *)
theory Decimals
  imports Format
begin

text \<open>
  Decimal texts of numbers: \<open>parseFloat\<close> on texts without an exponent, and that reading what \<open>toFixed\<close> printed gives
  the printed multiple back, half a unit from the number at most.
\<close>

section \<open>Reading\<close>

text \<open>\<open>parseFloat\<close>: leading white space, a sign, digits, a dot and digits. The value is exact here; a double is the
  nearest one to it.\<close>

definition fraction_digits :: "string \<Rightarrow> string" where
  "fraction_digits t = (case t of [] \<Rightarrow> '''' | c # r \<Rightarrow> if c = CHR ''.'' then takeWhile is_digit r else '''')"

definition parseFloat :: "string \<Rightarrow> rat option" where
  "parseFloat v =
     (let t = dropWhile is_ws v;
          neg = (t \<noteq> [] \<and> hd t = CHR ''-'');
          u = (if t \<noteq> [] \<and> hd t \<in> {CHR ''-'', CHR ''+''} then tl t else t);
          ds = takeWhile is_digit u;
          fs = fraction_digits (dropWhile is_digit u);
          x = of_nat (read_nat (ds @ fs)) / 10 ^ length fs
      in if ds = '''' \<and> fs = '''' then None else Some (if neg then - x else x))"

section \<open>Digits\<close>

lemma digit_char_code: "d < 10 \<Longrightarrow> (of_char (digit_char d) :: nat) = 48 + d"
  by (simp add: digit_char_def)

lemma is_digit_char: "d < 10 \<Longrightarrow> is_digit (digit_char d)"
  by (simp add: is_digit_def digit_char_code)

lemma nat_string_digits: "\<forall>c \<in> set (nat_string n). is_digit c"
proof (induction n rule: nat_string.induct)
  case (1 n)
  show ?case
  proof (cases "n < 10")
    case True
    then show ?thesis by (subst nat_string.simps) (simp add: is_digit_char)
  next
    case False
    with 1 show ?thesis by (subst nat_string.simps) (auto simp: is_digit_char)
  qed
qed

lemma length_nat_string: "n < 10 ^ Suc d \<Longrightarrow> length (nat_string n) \<le> Suc d"
proof (induction d arbitrary: n)
  case 0
  then show ?case by (subst nat_string.simps) simp
next
  case (Suc d)
  show ?case
  proof (cases "n < 10")
    case True
    then show ?thesis by (subst nat_string.simps) simp
  next
    case False
    have "n div 10 < 10 ^ Suc d" using Suc.prems by (simp add: less_mult_imp_div_less mult.commute)
    with Suc.IH False show ?thesis by (subst nat_string.simps) simp
  qed
qed

lemma read_nat_append: "read_nat (s @ t) = read_nat s * 10 ^ length t + read_nat t"
proof (induction t rule: rev_induct)
  case Nil
  then show ?case by (simp add: read_nat_def)
next
  case (snoc c t)
  then show ?case by (simp add: read_nat_snoc flip: append_assoc)
qed

lemma read_nat_zeros: "read_nat (replicate k (CHR ''0'')) = 0"
proof (induction k)
  case 0
  then show ?case by (simp add: read_nat_def)
next
  case (Suc k)
  have "read_nat [CHR ''0''] = 0" by (simp add: read_nat_def digit_val_def)
  then show ?case using Suc read_nat_append [of "[CHR ''0'']" "replicate k (CHR ''0'')"] by simp
qed

lemma pad_digits_facts:
  assumes "n < 10 ^ Suc d"
  shows "read_nat (pad_digits (Suc d) n) = n" "length (pad_digits (Suc d) n) = Suc d" "\<forall>c \<in> set (pad_digits (Suc d) n). is_digit c"
  using length_nat_string [OF assms] nat_string_digits [of n]
  by (auto simp: pad_digits_def Let_def read_nat_append read_nat_zeros read_nat_string is_digit_def)

section \<open>Reading what was printed\<close>

lemma takeWhile_digits: "\<forall>c \<in> set ds. is_digit c \<Longrightarrow> \<not> is_digit c' \<Longrightarrow> takeWhile is_digit (ds @ c' # t) = ds \<and> dropWhile is_digit (ds @ c' # t) = c' # t"
  by (induction ds) auto

lemma takeWhile_all_digits: "\<forall>c \<in> set ds. is_digit c \<Longrightarrow> takeWhile is_digit ds = ds \<and> dropWhile is_digit ds = []"
  by (induction ds) auto

lemma digit_front:
  "is_digit c \<Longrightarrow> \<not> is_ws c \<and> c \<noteq> CHR ''-'' \<and> c \<noteq> CHR ''+''"
  by (auto simp: is_digit_def is_ws_def Let_def)

lemma not_digit_dot: "\<not> is_digit (CHR ''.'')" and not_ws_minus: "\<not> is_ws (CHR ''-'')"
  by (simp_all add: is_digit_def is_ws_def)

text \<open>A sign, digits, and perhaps a dot and digits.\<close>

lemma parseFloat_text:
  assumes "ds \<noteq> ''''" and "\<forall>c \<in> set ds. is_digit c" and "\<forall>c \<in> set fs. is_digit c"
  shows "parseFloat ((if neg then ''-'' else '''') @ ds @ (if fs = '''' then '''' else ''.'' @ fs)) =
    Some ((if neg then -1 else 1) * (of_nat (read_nat (ds @ fs)) / 10 ^ length fs))"
proof -
  let ?u = "ds @ (if fs = '''' then '''' else ''.'' @ fs)"
  let ?t = "(if neg then ''-'' else '''') @ ?u"
  obtain c ds' where c: "ds = c # ds'" "is_digit c" using assms(1,2) by (cases ds) auto
  have t: "dropWhile is_ws ?t = ?t" "?t \<noteq> []" "(hd ?t = CHR ''-'') = neg"
    "(if ?t \<noteq> [] \<and> hd ?t \<in> {CHR ''-'', CHR ''+''} then tl ?t else ?t) = ?u"
    using c digit_front [OF c(2)] by (auto simp: not_ws_minus)
  have u: "takeWhile is_digit ?u = ds" "fraction_digits (dropWhile is_digit ?u) = fs"
    using takeWhile_digits [OF assms(2) not_digit_dot, of fs] takeWhile_all_digits [OF assms(2)] takeWhile_all_digits [OF assms(3)]
    by (auto simp: fraction_digits_def)
  show ?thesis unfolding parseFloat_def Let_def t u using assms(1) by simp
qed

definition fixed_units :: "nat \<Rightarrow> rat \<Rightarrow> nat" where
  "fixed_units d x = nat \<lfloor>\<bar>x\<bar> * 10 ^ d + 1 / 2\<rfloor>"

lemma fixed_units_near: "\<bar>of_nat (fixed_units d x) / 10 ^ d - \<bar>x\<bar>\<bar> \<le> 1 / (2 * 10 ^ d)"
proof -
  let ?y = "\<bar>x\<bar> * 10 ^ d + 1 / 2"
  have "0 \<le> ?y" by simp
  then have k: "of_nat (fixed_units d x) = (of_int \<lfloor>?y\<rfloor> :: rat)" by (simp add: fixed_units_def)
  have "of_int \<lfloor>?y\<rfloor> \<le> ?y" "?y < of_int \<lfloor>?y\<rfloor> + 1" by linarith+
  then have "\<bar>of_nat (fixed_units d x) - \<bar>x\<bar> * 10 ^ d\<bar> \<le> 1 / 2" unfolding k by linarith
  then have "\<bar>of_nat (fixed_units d x) - \<bar>x\<bar> * 10 ^ d\<bar> / 10 ^ d \<le> 1 / 2 / 10 ^ d" by (rule divide_right_mono) simp
  moreover have "of_nat (fixed_units d x) / 10 ^ d - \<bar>x\<bar> = (of_nat (fixed_units d x) - \<bar>x\<bar> * 10 ^ d) / 10 ^ d"
    by (simp add: diff_divide_distrib)
  ultimately show ?thesis by (simp only: abs_divide) simp
qed

lemma toFixed_units:
  "toFixed d x = (if x < 0 then ''-'' else '''') @ nat_string (fixed_units d x div 10 ^ d) @
     (if d = 0 then '''' else ''.'' @ pad_digits d (fixed_units d x mod 10 ^ d))"
  by (simp add: toFixed_def fixed_units_def Let_def)

lemma parseFloat_toFixed:
  "parseFloat (toFixed d x) = Some ((if x < 0 then -1 else 1) * (of_nat (fixed_units d x) / 10 ^ d))"
proof (cases d)
  case 0
  then show ?thesis
    using parseFloat_text [of "nat_string (fixed_units 0 x)" "''''" "x < 0"] nat_string_digits [of "fixed_units 0 x"]
    by (simp add: toFixed_units read_nat_string)
next
  case (Suc e)
  let ?k = "fixed_units d x" and ?p = "pad_digits d (fixed_units d x mod 10 ^ d)"
  have "?k mod 10 ^ d < 10 ^ Suc e" using Suc by simp
  note pad = pad_digits_facts [OF this, folded Suc]
  have "?p \<noteq> ''''" using pad(2) Suc by auto
  moreover have "read_nat (nat_string (?k div 10 ^ d) @ ?p) = ?k"
    using div_mult_mod_eq [of ?k "10 ^ d"] by (simp only: read_nat_append read_nat_string pad(1,2))
  ultimately show ?thesis
    using parseFloat_text [of "nat_string (?k div 10 ^ d)" ?p "x < 0"] nat_string_digits [of "?k div 10 ^ d"] pad(2,3) Suc
    by (simp add: toFixed_units)
qed

text \<open>Reading the text of a number to \<open>d\<close> places gives a value half a unit of the last place away from it at most; it
  is negative only if the number is.\<close>

theorem toFixed_reads_back:
  "\<exists>y. parseFloat (toFixed d x) = Some y \<and> \<bar>y - x\<bar> \<le> 1 / (2 * 10 ^ d) \<and> (y < 0 \<longrightarrow> x < 0)"
proof -
  have "\<bar>(if x < 0 then -1 else 1) * (of_nat (fixed_units d x) / 10 ^ d) - x\<bar> \<le> 1 / (2 * 10 ^ d)"
    using fixed_units_near [of d x] by (cases "x < 0") (simp_all add: abs_minus_commute)
  moreover have "0 \<le> (of_nat (fixed_units d x) / 10 ^ d :: rat)" by simp
  ultimately show ?thesis by (auto simp: parseFloat_toFixed not_less)
qed

text \<open>A small negative number keeps its sign but is read back as zero.\<close>

lemma toFixed_negative_zero:
  assumes "x < 0" and "- 1 / (2 * 10 ^ Suc d) < x"
  shows "toFixed (Suc d) x = ''-0.'' @ replicate (Suc d) (CHR ''0'')" "parseFloat (toFixed (Suc d) x) = Some 0"
proof -
  have "\<bar>x\<bar> * 10 ^ Suc d < 1 / 2"
    using assms(2) by (simp add: abs_of_neg [OF assms(1)] field_simps)
  then have "\<lfloor>\<bar>x\<bar> * 10 ^ Suc d + 1 / 2\<rfloor> = 0" by (intro floor_unique) (use abs_ge_zero [of x] in simp_all)
  then have k: "fixed_units (Suc d) x = 0" by (simp add: fixed_units_def)
  have zero: "nat_string 0 = ''0''" by code_simp
  have "replicate d (CHR ''0'') @ ''0'' = replicate (Suc d) (CHR ''0'')" by (simp add: replicate_append_same)
  then show "toFixed (Suc d) x = ''-0.'' @ replicate (Suc d) (CHR ''0'')"
    using assms(1) by (simp add: toFixed_units k pad_digits_def Let_def zero)
  show "parseFloat (toFixed (Suc d) x) = Some 0" by (simp add: parseFloat_toFixed k)
qed

end
