(* ===== verification/UrlCoding.thy ===== *)
theory UrlCoding
  imports Prelude
begin

text \<open>
  Text in addresses: \<open>encodeURIComponent\<close> and the queries \<open>URLSearchParams\<close> writes, with the readers at the other end.
  Both leave some characters and send the bytes of the others as percent escapes; a query also writes a space as a plus.
\<close>

section \<open>Percent encoding\<close>

definition uri_unreserved :: "char \<Rightarrow> bool" where
  "uri_unreserved c \<longleftrightarrow> is_upper c \<or> is_lower c \<or> is_digit c \<or> c \<in> set ''-_.!~*()'' \<or> (of_char c :: nat) = 39"

definition hex_digit :: "nat \<Rightarrow> char" where
  "hex_digit n = (if n < 10 then char_of (48 + n) else char_of (55 + n))"

definition pct_byte :: "nat \<Rightarrow> string" where
  "pct_byte n = [CHR ''%'', hex_digit (n div 16), hex_digit (n mod 16)]"

text \<open>A code unit is sent as its UTF-8 bytes, one below 128 and two from there.\<close>

definition pct_char :: "char \<Rightarrow> string" where
  "pct_char c =
     (let n = (of_char c :: nat) in
      if n < 128 then pct_byte n else pct_byte (192 + n div 64) @ pct_byte (128 + n mod 64))"

definition enc_char :: "char \<Rightarrow> string" where
  "enc_char c = (if uri_unreserved c then [c] else pct_char c)"

definition encodeURIComponent :: "string \<Rightarrow> string" where
  "encodeURIComponent s = concat (map enc_char s)"

lemma hex_digit_safe: "n < 16 \<Longrightarrow> is_upper (hex_digit n) \<or> is_digit (hex_digit n)"
  by (auto simp: hex_digit_def is_upper_def is_digit_def Let_def)

lemma pct_byte_safe: "n < 256 \<Longrightarrow> c \<in> set (pct_byte n) \<Longrightarrow> c = CHR ''%'' \<or> is_upper c \<or> is_digit c"
  using hex_digit_safe [of "n div 16"] hex_digit_safe [of "n mod 16"]
  by (auto simp: pct_byte_def less_mult_imp_div_less)

lemma pct_char_safe:
  assumes "c \<in> set (pct_char d)"
  shows "c = CHR ''%'' \<or> is_upper c \<or> is_digit c"
proof -
  define n where "n = (of_char d :: nat)"
  have "n < 256" by (simp add: n_def)
  then have b: "192 + n div 64 < 256" "128 + n mod 64 < 256"
    using less_mult_imp_div_less [of n 4 64] by simp_all
  from assms consider "c \<in> set (pct_byte n)" | "c \<in> set (pct_byte (192 + n div 64))" | "c \<in> set (pct_byte (128 + n mod 64))"
    by (auto simp: pct_char_def Let_def n_def split: if_splits)
  then show ?thesis
    using pct_byte_safe [OF \<open>n < 256\<close>] pct_byte_safe [OF b(1)] pct_byte_safe [OF b(2)] by cases auto
qed

lemma enc_char_safe: "c \<in> set (enc_char d) \<Longrightarrow> c = CHR ''%'' \<or> uri_unreserved c"
  using pct_char_safe by (auto simp: enc_char_def uri_unreserved_def split: if_splits)

text \<open>Whatever is encoded, it stays one value of a query or one segment of a path.\<close>

lemma encodeURIComponent_safe:
  "c \<in> set (encodeURIComponent s) \<Longrightarrow> c = CHR ''%'' \<or> uri_unreserved c"
  by (auto simp: encodeURIComponent_def dest: enc_char_safe)

lemma delimiters_reserved:
  "c \<in> set ''?&=#/ '' \<Longrightarrow> \<not> uri_unreserved c \<and> c \<noteq> CHR ''%''"
  by (auto simp: uri_unreserved_def is_upper_def is_lower_def is_digit_def Let_def)

text \<open>The reader at the other end: percent escapes to bytes, bytes as UTF-8. It refuses what is not an encoding of code
  units below 256.\<close>

definition hex_val :: "char \<Rightarrow> nat" where
  "hex_val c = (if is_digit c then of_char c - 48 else of_char c - 55)"

definition hex_byte :: "char \<Rightarrow> char \<Rightarrow> nat" where
  "hex_byte a b = 16 * hex_val a + hex_val b"

fun decodeURIComponent :: "string \<Rightarrow> string option" where
  "decodeURIComponent [] = Some []"
| "decodeURIComponent (c # rest) =
     (if c \<noteq> CHR ''%'' then map_option ((#) c) (decodeURIComponent rest)
      else case rest of
        a # b # rest1 \<Rightarrow>
          if hex_byte a b < 128 then map_option ((#) (char_of (hex_byte a b))) (decodeURIComponent rest1)
          else (case rest1 of
              p # a' # b' # rest2 \<Rightarrow>
                if p = CHR ''%'' \<and> 192 \<le> hex_byte a b \<and> hex_byte a b < 196 \<and> 128 \<le> hex_byte a' b' \<and> hex_byte a' b' < 192
                then map_option ((#) (char_of (64 * (hex_byte a b - 192) + (hex_byte a' b' - 128)))) (decodeURIComponent rest2)
                else None
            | _ \<Rightarrow> None)
      | _ \<Rightarrow> None)"

lemma hex_val_digit: "n < 16 \<Longrightarrow> hex_val (hex_digit n) = n"
  by (auto simp: hex_val_def hex_digit_def is_digit_def Let_def)

lemma hex_byte_pct: "n < 256 \<Longrightarrow> hex_byte (hex_digit (n div 16)) (hex_digit (n mod 16)) = n"
  by (simp add: hex_byte_def hex_val_digit less_mult_imp_div_less)

lemma percent_reserved: "\<not> uri_unreserved (CHR ''%'')"
  by (simp add: uri_unreserved_def is_upper_def is_lower_def is_digit_def)

lemma decode_pct_char: "decodeURIComponent (pct_char c @ r) = map_option ((#) c) (decodeURIComponent r)"
proof -
  define n where "n = (of_char c :: nat)"
  have n: "n < 256" "char_of n = c" by (simp_all add: n_def)
  show ?thesis
  proof (cases "n < 128")
    case True
    then show ?thesis using n by (simp add: pct_char_def Let_def pct_byte_def hex_byte_pct flip: n_def)
  next
    case False
    then have d: "2 \<le> n div 64" "n div 64 < 4" "n div 64 * 64 + n mod 64 = n"
      using n(1) by (simp_all add: less_mult_imp_div_less)
    then have b: "hex_byte (hex_digit ((192 + n div 64) div 16)) (hex_digit ((192 + n div 64) mod 16)) = 192 + n div 64"
      "hex_byte (hex_digit ((128 + n mod 64) div 16)) (hex_digit ((128 + n mod 64) mod 16)) = 128 + n mod 64"
      using hex_byte_pct [of "192 + n div 64"] hex_byte_pct [of "128 + n mod 64"] by simp_all
    have "pct_char c = pct_byte (192 + n div 64) @ pct_byte (128 + n mod 64)"
      using False by (simp add: pct_char_def Let_def flip: n_def)
    then have "decodeURIComponent (pct_char c @ r) =
        map_option ((#) (char_of (64 * (n div 64) + n mod 64))) (decodeURIComponent r)"
      using d b by (simp add: pct_byte_def)
    then show ?thesis using n(2) by simp
  qed
qed

lemma decode_enc_char: "decodeURIComponent (enc_char c @ r) = map_option ((#) c) (decodeURIComponent r)"
proof (cases "uri_unreserved c")
  case True
  then have "c \<noteq> CHR ''%''" using percent_reserved by auto
  with True show ?thesis by (simp add: enc_char_def)
qed (simp add: enc_char_def decode_pct_char)

lemma decode_encode: "decodeURIComponent (encodeURIComponent s) = Some s"
  by (induction s) (simp_all add: encodeURIComponent_def decode_enc_char)

section \<open>Queries\<close>

text \<open>A \<open>URLSearchParams\<close> object is the list of its pairs; \<open>set\<close> replaces the first pair of the key and drops the others.\<close>

fun params_set :: "string \<Rightarrow> string \<Rightarrow> (string \<times> string) list \<Rightarrow> (string \<times> string) list" where
  "params_set k v [] = [(k, v)]"
| "params_set k v ((k', v') # ps) = (if k' = k then (k, v) # filter (\<lambda>p. fst p \<noteq> k) ps else (k', v') # params_set k v ps)"

text \<open>\<open>if (v) params.set(k, v)\<close>.\<close>

definition params_set_if :: "string \<Rightarrow> string \<Rightarrow> (string \<times> string) list \<Rightarrow> (string \<times> string) list" where
  "params_set_if k v ps = (if v \<noteq> '''' then params_set k v ps else ps)"

definition form_char :: "char \<Rightarrow> string" where
  "form_char c =
     (if c = CHR '' '' then ''+'' else if is_upper c \<or> is_lower c \<or> is_digit c \<or> c \<in> set ''*-._'' then [c] else pct_char c)"

definition form_encode :: "string \<Rightarrow> string" where
  "form_encode s = concat (map form_char s)"

definition params_string :: "(string \<times> string) list \<Rightarrow> string" where
  "params_string ps = join_with ''&'' (map (\<lambda>(k, v). form_encode k @ ''='' @ form_encode v) ps)"

text \<open>The server's side: pairs at the ampersands, key and value at the first equals sign, plus signs back to spaces.\<close>

definition form_decode :: "string \<Rightarrow> string option" where
  "form_decode s = decodeURIComponent (map (\<lambda>c. if c = CHR ''+'' then CHR '' '' else c) s)"

definition read_pair :: "string \<Rightarrow> (string \<times> string) option" where
  "read_pair p =
     (case (form_decode (takeWhile (\<lambda>c. c \<noteq> CHR ''='') p), form_decode (tl (dropWhile (\<lambda>c. c \<noteq> CHR ''='') p))) of
        (Some k, Some v) \<Rightarrow> Some (k, v)
      | _ \<Rightarrow> None)"

definition query_parse :: "string \<Rightarrow> (string \<times> string) list option" where
  "query_parse s = those (map read_pair (filter (\<lambda>p. p \<noteq> '''') (split_on (CHR ''&'') s)))"

lemma params_set_new: "k \<notin> fst ` set ps \<Longrightarrow> params_set k v ps = ps @ [(k, v)]"
  by (induction ps) auto

lemma fold_params_set_if:
  "distinct ks \<Longrightarrow> set ks \<inter> fst ` set ps = {} \<Longrightarrow>
   fold (\<lambda>k. params_set_if k (f k)) ks ps = ps @ filter (\<lambda>(k, v). v \<noteq> '''') (map (\<lambda>k. (k, f k)) ks)"
proof (induction ks arbitrary: ps)
  case (Cons k ks)
  then have "params_set k (f k) ps = ps @ [(k, f k)]" by (intro params_set_new) auto
  with Cons show ?case by (auto simp: params_set_if_def)
qed simp

lemma form_char_safe: "c \<in> set (form_char d) \<Longrightarrow> c \<noteq> CHR ''&'' \<and> c \<noteq> CHR ''='' \<and> c \<noteq> CHR ''?'' \<and> c \<noteq> CHR ''#''"
  using pct_char_safe [of c d]
  by (auto simp: form_char_def is_upper_def is_lower_def is_digit_def Let_def split: if_splits)

lemma form_encode_safe: "c \<in> set (form_encode s) \<Longrightarrow> c \<noteq> CHR ''&'' \<and> c \<noteq> CHR ''='' \<and> c \<noteq> CHR ''?'' \<and> c \<noteq> CHR ''#''"
  using form_char_safe by (auto simp: form_encode_def)

lemma plus_escaped: "c \<in> set (pct_char d) \<Longrightarrow> c \<noteq> CHR ''+''"
  using pct_char_safe [of c d] by (auto simp: is_upper_def is_digit_def)

lemma form_decode_char: "form_decode (form_char c @ r) = map_option ((#) c) (form_decode r)"
proof -
  let ?f = "\<lambda>c. if c = CHR ''+'' then CHR '' '' else c"
  have "map ?f (pct_char c) = pct_char c"
    by (rule map_idI) (use plus_escaped in auto)
  then show ?thesis
    using decode_pct_char [of c "map ?f r"]
    by (auto simp: form_decode_def form_char_def is_upper_def is_lower_def is_digit_def)
qed

lemma form_roundtrip: "form_decode (form_encode s) = Some s"
proof (induction s)
  case Nil
  then show ?case by (simp add: form_encode_def form_decode_def)
next
  case (Cons c s)
  then show ?case using form_decode_char [of c "form_encode s"] by (simp add: form_encode_def)
qed

lemma read_pair_encoded: "read_pair (form_encode k @ ''='' @ form_encode v) = Some (k, v)"
proof -
  have "\<forall>c \<in> set (form_encode k). c \<noteq> CHR ''=''" using form_encode_safe by blast
  then have "takeWhile (\<lambda>c. c \<noteq> CHR ''='') (form_encode k @ ''='' @ form_encode v) = form_encode k"
    "dropWhile (\<lambda>c. c \<noteq> CHR ''='') (form_encode k @ ''='' @ form_encode v) = ''='' @ form_encode v"
    by (simp_all add: takeWhile_append2 dropWhile_append2)
  then show ?thesis by (simp add: read_pair_def form_roundtrip)
qed

lemma split_params: "ps \<noteq> [] \<Longrightarrow> split_on (CHR ''&'') (params_string ps) = map (\<lambda>(k, v). form_encode k @ ''='' @ form_encode v) ps"
proof (induction ps rule: induct_list012)
  case (2 p)
  have "CHR ''&'' \<notin> set (form_encode s)" for s using form_encode_safe by blast
  then show ?case by (cases p) (simp add: params_string_def split_on_no_sep)
next
  case (3 p q ps)
  have "CHR ''&'' \<notin> set (form_encode s)" for s using form_encode_safe by blast
  then have "CHR ''&'' \<notin> set (case p of (k, v) \<Rightarrow> form_encode k @ ''='' @ form_encode v)" by (cases p) simp
  from split_on_append [OF this, of "params_string (q # ps)"] "3.IH"(2) show ?case
    by (simp add: params_string_def)
qed simp

lemma query_roundtrip: "query_parse (params_string ps) = Some ps"
proof (cases "ps = []")
  case False
  then have "filter (\<lambda>p. p \<noteq> '''') (split_on (CHR ''&'') (params_string ps)) = map (\<lambda>(k, v). form_encode k @ ''='' @ form_encode v) ps"
    by (auto simp: split_params filter_id_conv)
  then have "query_parse (params_string ps) = those (map (\<lambda>(k, v). Some (k, v)) ps)"
    by (simp add: query_parse_def comp_def case_prod_beta read_pair_encoded [simplified])
  also have "those (map (\<lambda>(k, v). Some (k, v)) ps) = Some ps"
    by (induction ps) auto
  finally show ?thesis .
qed (simp add: query_parse_def params_string_def)

text \<open>Nothing in a query ends it.\<close>

lemma set_join_with: "set (join_with sep ss) \<subseteq> set sep \<union> \<Union> (set ` set ss)"
  by (induction sep ss rule: join_with.induct) auto

lemma params_string_safe: "c \<in> set (params_string ps) \<Longrightarrow> c \<noteq> CHR ''?'' \<and> c \<noteq> CHR ''#''"
  using set_join_with [of "''&''" "map (\<lambda>(k, v). form_encode k @ ''='' @ form_encode v) ps"] form_encode_safe
  unfolding params_string_def by fastforce

end
