(* ===== verification/JsonText.thy ===== *)
theory JsonText
  imports Decimals UrlCoding
begin

text \<open>
  JSON as text: what \<open>JSON.stringify(v, null, 2)\<close> prints for the values of the model, and a reader for it with the round trip.
  Numbers are whole, objects are lists of properties in the order they are enumerated; a reader that is handed a prefix of a text
  returns what is left.
\<close>

section \<open>Printing\<close>

definition nl :: string where
  "nl = [CHR 0x0A]"

definition json_escape :: "char \<Rightarrow> string" where
  "json_escape c =
     (let n = (of_char c :: nat) in
      if n = 34 \<or> n = 92 then [CHR 0x5C, c]
      else if n = 8 then [CHR 0x5C, CHR ''b''] else if n = 12 then [CHR 0x5C, CHR ''f'']
      else if n = 10 then [CHR 0x5C, CHR ''n''] else if n = 13 then [CHR 0x5C, CHR ''r'']
      else if n = 9 then [CHR 0x5C, CHR ''t'']
      else if n < 32 then [CHR 0x5C, CHR ''u'', CHR ''0'', CHR ''0'', lower_char (hex_digit (n div 16)), lower_char (hex_digit (n mod 16))]
      else [c])"

definition json_quote :: "string \<Rightarrow> string" where
  "json_quote s = quoted (concat (map json_escape s))"

text \<open>\<open>gap\<close> is the indentation of the line; a value that JSON does not have is not printed.\<close>

fun json_pretty :: "string \<Rightarrow> json \<Rightarrow> string" where
  "json_pretty gap JUndef = ''''"
| "json_pretty gap JNull = ''null''"
| "json_pretty gap (JBool b) = (if b then ''true'' else ''false'')"
| "json_pretty gap (JNum n) = int_string n"
| "json_pretty gap (JStr s) = json_quote s"
| "json_pretty gap (JArr vs) =
     (if vs = [] then ''[]''
      else ''['' @ join_with '','' (map (\<lambda>v. nl @ gap @ ''  '' @ json_pretty (gap @ ''  '') v) vs) @ nl @ gap @ '']'')"
| "json_pretty gap (JObj ps) =
     (if ps = [] then ''{}''
      else ''{'' @ join_with '','' (map (\<lambda>(k, v). nl @ gap @ ''  '' @ json_quote k @ '': '' @ json_pretty (gap @ ''  '') v) ps) @ nl @ gap @ ''}'')"

text \<open>The values JSON has.\<close>

fun is_json :: "json \<Rightarrow> bool" where
  "is_json JUndef = False"
| "is_json (JArr vs) = (\<forall>v \<in> set vs. is_json v)"
| "is_json (JObj ps) = (\<forall>(k, v) \<in> set ps. is_json v)"
| "is_json _ = True"

section \<open>Reading\<close>

definition json_ws :: "char \<Rightarrow> bool" where
  "json_ws c \<longleftrightarrow> (of_char c :: nat) \<in> {9, 10, 13, 32}"

definition skip_ws :: "string \<Rightarrow> string" where
  "skip_ws s = dropWhile json_ws s"

definition hex_any :: "char \<Rightarrow> nat" where
  "hex_any c = (if is_digit c then of_char c - 48 else if is_lower c then of_char c - 87 else of_char c - 55)"

definition plain_escape :: "char \<Rightarrow> char option" where
  "plain_escape e = map_of
     [(CHR 0x22, CHR 0x22), (CHR 0x5C, CHR 0x5C), (CHR ''/'', CHR ''/''), (CHR ''b'', CHR 0x08), (CHR ''f'', CHR 0x0C), (CHR ''n'', CHR 0x0A),
      (CHR ''r'', CHR 0x0D), (CHR ''t'', CHR 0x09)] e"

text \<open>The characters of a string up to its closing quotation mark, and what follows.\<close>

fun read_chars :: "string \<Rightarrow> (string \<times> string) option" where
  "read_chars [] = None"
| "read_chars (c # cs) =
     (if c = CHR 0x22 then Some ('''', cs)
      else if c = CHR 0x5C then
        (case cs of
           [] \<Rightarrow> None
         | e # r \<Rightarrow>
             if e = CHR ''u'' then
               (case r of
                  w # x # y # z # r' \<Rightarrow> map_option (\<lambda>(s, t). (char_of (((hex_any w * 16 + hex_any x) * 16 + hex_any y) * 16 + hex_any z) # s, t)) (read_chars r')
                | _ \<Rightarrow> None)
             else (case plain_escape e of
                 None \<Rightarrow> None
               | Some d \<Rightarrow> map_option (\<lambda>(s, t). (d # s, t)) (read_chars r)))
      else if (of_char c :: nat) < 32 then None
      else map_option (\<lambda>(s, t). (c # s, t)) (read_chars cs))"

definition read_word :: "string \<Rightarrow> json \<Rightarrow> string \<Rightarrow> (json \<times> string) option" where
  "read_word w v s = (if starts_with s w then Some (v, drop (length w) s) else None)"

definition read_number :: "string \<Rightarrow> (json \<times> string) option" where
  "read_number s =
     (let neg = (s \<noteq> [] \<and> hd s = CHR ''-''); u = (if neg then tl s else s); ds = takeWhile is_digit u in
      if ds = [] then None else Some (JNum (if neg then - int (read_nat ds) else int (read_nat ds)), dropWhile is_digit u))"

text \<open>The number bounds the calls inside each other; twice the length of the text is enough.\<close>

fun read_value :: "nat \<Rightarrow> string \<Rightarrow> (json \<times> string) option"
  and read_items :: "nat \<Rightarrow> string \<Rightarrow> (json list \<times> string) option"
  and read_props :: "nat \<Rightarrow> string \<Rightarrow> ((string \<times> json) list \<times> string) option" where
  "read_value 0 s = None"
| "read_value (Suc n) s =
     (case skip_ws s of
        [] \<Rightarrow> None
      | c # r \<Rightarrow>
          if c = CHR 0x22 then map_option (\<lambda>(t, r'). (JStr t, r')) (read_chars r)
          else if c = CHR ''['' then
            (if skip_ws r \<noteq> [] \<and> hd (skip_ws r) = CHR '']'' then Some (JArr [], tl (skip_ws r))
             else map_option (\<lambda>(vs, r'). (JArr vs, r')) (read_items n r))
          else if c = CHR ''{'' then
            (if skip_ws r \<noteq> [] \<and> hd (skip_ws r) = CHR ''}'' then Some (JObj [], tl (skip_ws r))
             else map_option (\<lambda>(ps, r'). (JObj ps, r')) (read_props n r))
          else if c = CHR ''n'' then read_word ''null'' JNull (c # r)
          else if c = CHR ''t'' then read_word ''true'' (JBool True) (c # r)
          else if c = CHR ''f'' then read_word ''false'' (JBool False) (c # r)
          else read_number (c # r))"
| "read_items 0 s = None"
| "read_items (Suc n) s =
     (case read_value n s of
        None \<Rightarrow> None
      | Some (v, r) \<Rightarrow>
          (case skip_ws r of
             [] \<Rightarrow> None
           | c # r' \<Rightarrow>
               if c = CHR '','' then map_option (\<lambda>(vs, t). (v # vs, t)) (read_items n r')
               else if c = CHR '']'' then Some ([v], r') else None))"
| "read_props 0 s = None"
| "read_props (Suc n) s =
     (case skip_ws s of
        [] \<Rightarrow> None
      | q # r \<Rightarrow>
          if q \<noteq> CHR 0x22 then None
          else (case read_chars r of
              None \<Rightarrow> None
            | Some (k, r1) \<Rightarrow>
                (case skip_ws r1 of
                   [] \<Rightarrow> None
                 | d # r2 \<Rightarrow>
                     if d \<noteq> CHR '':'' then None
                     else (case read_value n r2 of
                         None \<Rightarrow> None
                       | Some (v, r3) \<Rightarrow>
                           (case skip_ws r3 of
                              [] \<Rightarrow> None
                            | c # r4 \<Rightarrow>
                                if c = CHR '','' then map_option (\<lambda>(ps, t). ((k, v) # ps, t)) (read_props n r4)
                                else if c = CHR ''}'' then Some ([(k, v)], r4) else None)))))"

definition json_read :: "string \<Rightarrow> json option" where
  "json_read s =
     (case read_value (2 * length s) s of None \<Rightarrow> None | Some (v, r) \<Rightarrow> if skip_ws r = [] then Some v else None)"

section \<open>The round trip\<close>

lemma hex_any_digit: "d < 16 \<Longrightarrow> hex_any (lower_char (hex_digit d)) = d"
  by (cases "d < 10") (simp_all add: hex_any_def hex_digit_def lower_char_def is_upper_def is_lower_def is_digit_def Let_def)

lemma code_char: "of_char c = (n :: nat) \<Longrightarrow> of_char d = n \<Longrightarrow> c = d"
  by (metis of_char_eq_iff)

lemma escape_codes:
  "of_char c = (34 :: nat) \<Longrightarrow> c = CHR 0x22" "of_char c = (92 :: nat) \<Longrightarrow> c = CHR 0x5C" "of_char c = (8 :: nat) \<Longrightarrow> c = CHR 0x08"
  "of_char c = (12 :: nat) \<Longrightarrow> c = CHR 0x0C" "of_char c = (10 :: nat) \<Longrightarrow> c = CHR 0x0A" "of_char c = (13 :: nat) \<Longrightarrow> c = CHR 0x0D"
  "of_char c = (9 :: nat) \<Longrightarrow> c = CHR 0x09"
  by (erule code_char, simp)+

lemma escape_cases:
  obtains "c \<in> {CHR 0x22, CHR 0x5C, CHR 0x08, CHR 0x0C, CHR 0x0A, CHR 0x0D, CHR 0x09}"
  | "(of_char c :: nat) < 32" "c \<notin> {CHR 0x08, CHR 0x0C, CHR 0x0A, CHR 0x0D, CHR 0x09}"
  | "32 \<le> (of_char c :: nat)" "c \<noteq> CHR 0x22" "c \<noteq> CHR 0x5C"
  by fastforce

lemma plain_escapes:
  "json_escape (CHR 0x22) = [CHR 0x5C, CHR 0x22]" "json_escape (CHR 0x5C) = [CHR 0x5C, CHR 0x5C]" "json_escape (CHR 0x08) = [CHR 0x5C, CHR ''b'']"
  "json_escape (CHR 0x0C) = [CHR 0x5C, CHR ''f'']" "json_escape (CHR 0x0A) = [CHR 0x5C, CHR ''n'']" "json_escape (CHR 0x0D) = [CHR 0x5C, CHR ''r'']"
  "json_escape (CHR 0x09) = [CHR 0x5C, CHR ''t'']"
  by code_simp+

lemma json_escape_control:
  assumes "(of_char c :: nat) < 32" and "c \<notin> {CHR 0x08, CHR 0x0C, CHR 0x0A, CHR 0x0D, CHR 0x09}"
  shows "json_escape c = [CHR 0x5C, CHR ''u'', CHR ''0'', CHR ''0'', lower_char (hex_digit (of_char c div 16)), lower_char (hex_digit (of_char c mod 16))]"
proof -
  have "of_char c \<notin> {34, 92, 8, 12, 10, 13, 9 :: nat}" using assms escape_codes [of c] by auto
  then show ?thesis using assms(1) by (simp add: json_escape_def Let_def)
qed

lemma json_escape_other:
  assumes "32 \<le> (of_char c :: nat)" and "c \<noteq> CHR 0x22" and "c \<noteq> CHR 0x5C"
  shows "json_escape c = [c]"
  using assms escape_codes(1,2) [of c] by (auto simp: json_escape_def Let_def)

lemma read_escape: "read_chars (json_escape c @ r) = map_option (\<lambda>(s, t). (c # s, t)) (read_chars r)"
proof (cases c rule: escape_cases)
  case 1
  then show ?thesis by (auto simp: plain_escapes plain_escape_def)
next
  case 2
  have "char_of (of_char c div 16 * 16 + of_char c mod 16 :: nat) = c" by (simp only: div_mult_mod_eq char_of_char)
  moreover have "of_char c div 16 < (16 :: nat)" using 2(1) by simp
  moreover have "hex_any (CHR ''0'') = 0" by code_simp
  ultimately show ?thesis using 2 by (simp add: json_escape_control hex_any_digit)
next
  case 3
  then show ?thesis by (simp add: json_escape_other)
qed

lemma read_quoted: "read_chars (concat (map json_escape s) @ CHR 0x22 # r) = Some (s, r)"
  by (induction s) (simp_all add: read_escape)

text \<open>The texts of values start with a character that is no white space, and tell the kinds apart.\<close>

lemma skip_ws_front: "\<forall>c \<in> set ws. json_ws c \<Longrightarrow> skip_ws (ws @ s) = skip_ws s"
  by (induction ws) (auto simp: skip_ws_def)

lemma skip_ws_other: "\<not> json_ws c \<Longrightarrow> skip_ws (c # s) = c # s"
  by (simp add: skip_ws_def)

lemma read_value_ws: "\<forall>c \<in> set ws. json_ws c \<Longrightarrow> read_value n (ws @ s) = read_value n s"
  by (cases n) (simp_all add: skip_ws_front)

lemma json_ws_facts: "\<forall>c \<in> set nl. json_ws c" "json_ws (CHR '' '')" "\<not> json_ws (CHR 0x22)" "\<not> json_ws (CHR '','')" "\<not> json_ws (CHR '':'')"
  "\<not> json_ws (CHR ''['')" "\<not> json_ws (CHR '']'')" "\<not> json_ws (CHR ''{'')" "\<not> json_ws (CHR ''}'')" "\<not> json_ws (CHR ''n'')" "\<not> json_ws (CHR ''t'')"
  "\<not> json_ws (CHR ''f'')" "\<not> json_ws (CHR ''-'')"
  by (simp_all add: json_ws_def nl_def)

lemma digit_not_ws: "is_digit c \<Longrightarrow> \<not> json_ws c \<and> c \<notin> {CHR 0x22, CHR ''['', CHR ''{'', CHR ''n'', CHR ''t'', CHR ''f'', CHR ''-''}"
  by (auto simp: is_digit_def json_ws_def Let_def)

text \<open>What may follow a number.\<close>

definition ends_number :: "string \<Rightarrow> bool" where
  "ends_number r \<longleftrightarrow> (case r of [] \<Rightarrow> True | c # cs \<Rightarrow> \<not> is_digit c)"

lemma read_digits: "ends_number r \<Longrightarrow> takeWhile is_digit (nat_string n @ r) = nat_string n \<and> dropWhile is_digit (nat_string n @ r) = r"
  using takeWhile_all_digits [OF nat_string_digits] takeWhile_digits [OF nat_string_digits]
  by (cases r) (auto simp: ends_number_def)

lemma read_number_string: "ends_number r \<Longrightarrow> read_number (int_string i @ r) = Some (JNum i, r)"
proof (cases "i < 0")
  case True
  assume r: "ends_number r"
  show ?thesis
    using True read_digits [OF r] nat_string_digits [of "nat (- i)"] by (auto simp: read_number_def int_string_def read_nat_string Let_def)
next
  case False
  assume r: "ends_number r"
  have "nat_string (nat i) \<noteq> []" "hd (nat_string (nat i) @ r) \<noteq> CHR ''-''"
    using nat_string_digits [of "nat i"] digit_not_ws by (auto simp: hd_append)
  then show ?thesis
    using False read_digits [OF r] by (simp add: read_number_def int_string_def read_nat_string Let_def)
qed

lemma pretty_front:
  "is_json v \<Longrightarrow> json_pretty gap v \<noteq> [] \<and> \<not> json_ws (hd (json_pretty gap v)) \<and> hd (json_pretty gap v) \<notin> {CHR '']'', CHR ''}''}"
proof (cases v)
  case (JNum i)
  have "is_digit (hd (nat_string (nat i)))" using nat_string_digits [of "nat i"] by simp
  then show ?thesis
    using JNum digit_not_ws [of "hd (nat_string (nat i))"] by (auto simp: int_string_def json_ws_facts is_digit_def)
qed (auto simp: json_quote_def quoted_def json_ws_facts)

text \<open>A list of items is read to its bracket when each item is read whatever follows it.\<close>

lemma read_items_list:
  assumes "vs \<noteq> []" and "\<forall>c \<in> set gap. json_ws c" and "\<forall>c \<in> set gap'. json_ws c"
    and "\<And>v r m. v \<in> set vs \<Longrightarrow> ends_number r \<Longrightarrow> 2 * length (f v) \<le> m \<Longrightarrow> read_value m (f v @ r) = Some (v, r)"
    and "2 * length (join_with '','' (map (\<lambda>v. nl @ gap' @ f v) vs)) + 1 \<le> n"
  shows "read_items n (join_with '','' (map (\<lambda>v. nl @ gap' @ f v) vs) @ nl @ gap @ CHR '']'' # r) = Some (vs, r)"
  using assms(1,4,5)
proof (induction vs arbitrary: n)
  case (Cons v vs)
  obtain k where n: "n = Suc k" using Cons.prems(3) by (cases n) auto
  have ws: "\<forall>c \<in> set (nl @ gap'). json_ws c" "\<forall>c \<in> set (nl @ gap). json_ws c" using assms(2,3) json_ws_facts(1) by auto
  have ends: "ends_number (CHR '','' # t)" "ends_number (nl @ t)" for t by (simp_all add: ends_number_def nl_def is_digit_def)
  show ?case
  proof (cases vs)
    case Nil
    have "read_value k (nl @ gap' @ f v @ nl @ gap @ CHR '']'' # r) = Some (v, nl @ gap @ CHR '']'' # r)"
      using Cons.prems(2) [of v "nl @ gap @ CHR '']'' # r" k] Cons.prems(3) ends n Nil read_value_ws [OF ws(1), of k "f v @ nl @ gap @ CHR '']'' # r"]
      by simp
    then show ?thesis using n Nil skip_ws_front [OF ws(2), of "CHR '']'' # r"] by (simp add: skip_ws_other json_ws_facts)
  next
    case (Cons w ws')
    let ?more = "join_with '','' (map (\<lambda>v. nl @ gap' @ f v) vs) @ nl @ gap @ CHR '']'' # r"
    have "read_value k (nl @ gap' @ f v @ CHR '','' # ?more) = Some (v, CHR '','' # ?more)"
      using Cons.prems(2) [of v "CHR '','' # ?more" k] Cons.prems(3) ends n Cons read_value_ws [OF ws(1), of k "f v @ CHR '','' # ?more"]
      by simp
    moreover have "read_items k ?more = Some (vs, r)"
      using Cons.IH [of k] Cons.prems(2,3) n Cons by (simp add: nl_def)
    ultimately show ?thesis using n Cons by (simp add: skip_ws_other json_ws_facts)
  qed
qed simp


lemma read_props_list:
  assumes "ps \<noteq> []" and "\<forall>c \<in> set gap. json_ws c" and "\<forall>c \<in> set gap'. json_ws c"
    and "\<And>k v r m. (k, v) \<in> set ps \<Longrightarrow> ends_number r \<Longrightarrow> 2 * length (f v) \<le> m \<Longrightarrow> read_value m (f v @ r) = Some (v, r)"
    and "2 * length (join_with '','' (map (\<lambda>(k, v). nl @ gap' @ json_quote k @ '': '' @ f v) ps)) + 1 \<le> n"
  shows "read_props n (join_with '','' (map (\<lambda>(k, v). nl @ gap' @ json_quote k @ '': '' @ f v) ps) @ nl @ gap @ CHR ''}'' # r) = Some (ps, r)"
  using assms(1,4,5)
proof (induction ps arbitrary: n)
  case (Cons p ps)
  obtain k v where p: "p = (k, v)" by (cases p)
  obtain j where n: "n = Suc j" using Cons.prems(3) by (cases n) auto
  have ws: "\<forall>c \<in> set (nl @ gap'). json_ws c" "\<forall>c \<in> set (nl @ gap). json_ws c" "\<forall>c \<in> set '' ''. json_ws c"
    using assms(2,3) json_ws_facts(1,2) by auto
  have ends: "ends_number (CHR '','' # t)" "ends_number (nl @ t)" for t by (simp_all add: ends_number_def nl_def is_digit_def)
  have key: "skip_ws (nl @ gap' @ json_quote k @ t) = json_quote k @ t" for t
    using skip_ws_front [OF ws(1), of "json_quote k @ t"] by (simp add: json_quote_def quoted_def skip_ws_other json_ws_facts)
  show ?case
  proof (cases ps)
    case Nil
    have "read_value j ('' '' @ f v @ nl @ gap @ CHR ''}'' # r) = Some (v, nl @ gap @ CHR ''}'' # r)"
      using Cons.prems(2) [of k v "nl @ gap @ CHR ''}'' # r" j] Cons.prems(3) ends n Nil p read_value_ws [OF ws(3), of j "f v @ nl @ gap @ CHR ''}'' # r"]
      by simp
    then show ?thesis
      using n Nil p key skip_ws_front [OF ws(2), of "CHR ''}'' # r"]
      by (simp add: skip_ws_other json_ws_facts) (simp add: json_quote_def quoted_def read_quoted skip_ws_other json_ws_facts)
  next
    case (Cons w ws')
    let ?more = "join_with '','' (map (\<lambda>(k, v). nl @ gap' @ json_quote k @ '': '' @ f v) ps) @ nl @ gap @ CHR ''}'' # r"
    have "read_value j ('' '' @ f v @ CHR '','' # ?more) = Some (v, CHR '','' # ?more)"
      using Cons.prems(2) [of k v "CHR '','' # ?more" j] Cons.prems(3) ends n Cons p read_value_ws [OF ws(3), of j "f v @ CHR '','' # ?more"]
      by simp
    moreover have "read_props j ?more = Some (ps, r)"
    proof (rule Cons.IH)
      fix k v r m assume "(k, v) \<in> set ps" "ends_number r" "2 * length (f v) \<le> m"
      then show "read_value m (f v @ r) = Some (v, r)" using Cons.prems(2) [of k v r m] by simp
    qed (use Cons.prems(3) n Cons p in \<open>simp_all add: nl_def\<close>)
    ultimately show ?thesis
      using n Cons p key
      by (simp add: skip_ws_other json_ws_facts) (simp add: json_quote_def quoted_def read_quoted skip_ws_other json_ws_facts)
  qed
qed simp

lemma read_pretty:
  "is_json v \<Longrightarrow> \<forall>c \<in> set gap. json_ws c \<Longrightarrow> ends_number r \<Longrightarrow> 2 * length (json_pretty gap v) \<le> m \<Longrightarrow>
   read_value m (json_pretty gap v @ r) = Some (v, r)"
proof (induction gap v arbitrary: r m rule: json_pretty.induct)
  case (2 gap)
  then show ?case by (cases m) (simp_all add: skip_ws_other json_ws_facts read_word_def)
next
  case (3 gap b)
  then obtain k where "m = Suc k" by (cases m) (auto split: if_splits)
  then show ?case by (cases b) (simp_all add: skip_ws_other json_ws_facts read_word_def)
next
  case (4 gap n)
  have front: "int_string n \<noteq> []" using pretty_front [of "JNum n" gap] by simp
  then obtain k where m: "m = Suc k" using 4 by (cases m) auto
  have "hd (int_string n) = CHR ''-'' \<or> is_digit (hd (int_string n))"
    using nat_string_digits [of "nat n"] by (simp add: int_string_def)
  then show ?case
    using front m read_number_string [OF 4(3), of n] digit_not_ws [of "hd (int_string n)"]
    by (cases "int_string n") (auto simp: skip_ws_other json_ws_facts)
next
  case (5 gap s)
  then obtain k where "m = Suc k" by (cases m) (auto simp: json_quote_def quoted_def)
  then show ?case by (simp add: json_quote_def quoted_def skip_ws_other json_ws_facts read_quoted)
next
  case (6 gap vs)
  show ?case
  proof (cases "vs = []")
    case True
    then show ?thesis using 6 by (cases m) (auto simp: skip_ws_other json_ws_facts)
  next
    case False
    let ?f = "json_pretty (gap @ ''  '')"
    let ?items = "join_with '','' (map (\<lambda>v. nl @ (gap @ ''  '') @ ?f v) vs)"
    obtain k where m: "m = Suc k" using 6 by (cases m) (auto split: if_splits)
    have deep: "\<forall>c \<in> set (gap @ ''  ''). json_ws c" using 6 json_ws_facts(2) by auto
    have "read_items k (?items @ nl @ gap @ CHR '']'' # r) = Some (vs, r)"
      using 6 False m deep by (intro read_items_list) (auto simp: nl_def)
    moreover have "skip_ws (?items @ t) \<noteq> [] \<and> hd (skip_ws (?items @ t)) \<noteq> CHR '']''" for t
    proof -
      obtain v vs' where vs: "vs = v # vs'" using False by (cases vs) auto
      obtain t' where t: "?items @ t = (nl @ gap @ ''  '') @ ?f v @ t'" using vs by (cases vs') auto
      have "\<forall>c \<in> set (nl @ gap @ ''  ''). json_ws c" using deep json_ws_facts(1) by auto
      moreover have "is_json v" using 6(2) vs by simp
      note pretty_front [OF this, of "gap @ ''  ''"]
      ultimately show ?thesis
        unfolding t by (cases "?f v") (simp_all add: skip_ws_front [of "nl @ gap @ ''  ''"] skip_ws_other del: append_assoc)
    qed
    ultimately show ?thesis using m False by (simp add: skip_ws_other json_ws_facts)
  qed
next
  case (7 gap ps)
  show ?case
  proof (cases "ps = []")
    case True
    then show ?thesis using 7 by (cases m) (auto simp: skip_ws_other json_ws_facts)
  next
    case False
    let ?f = "json_pretty (gap @ ''  '')"
    let ?props = "join_with '','' (map (\<lambda>(k, v). nl @ (gap @ ''  '') @ json_quote k @ '': '' @ ?f v) ps)"
    obtain k where m: "m = Suc k" using 7 by (cases m) (auto split: if_splits)
    have deep: "\<forall>c \<in> set (gap @ ''  ''). json_ws c" using 7 json_ws_facts(2) by auto
    have "read_props k (?props @ nl @ gap @ CHR ''}'' # r) = Some (ps, r)"
    proof (rule read_props_list [OF False _ deep])
      fix k v r m assume "(k, v) \<in> set ps" "ends_number r" "2 * length (?f v) \<le> m"
      then show "read_value m (?f v @ r) = Some (v, r)" using 7(1) [OF False _ refl] 7(2) deep by auto
    qed (use 7 False m in \<open>auto simp: nl_def\<close>)
    moreover have "skip_ws (?props @ t) \<noteq> [] \<and> hd (skip_ws (?props @ t)) \<noteq> CHR ''}''" for t
    proof -
      obtain k v ps' where ps: "ps = (k, v) # ps'" using False by (cases ps) auto
      obtain t' where t: "?props @ t = (nl @ gap @ ''  '') @ CHR 0x22 # t'" using ps by (cases ps') (auto simp: json_quote_def quoted_def)
      have "\<forall>c \<in> set (nl @ gap @ ''  ''). json_ws c" using deep json_ws_facts(1) by auto
      then show ?thesis unfolding t by (simp add: skip_ws_front [of "nl @ gap @ ''  ''"] skip_ws_other json_ws_facts del: append_assoc)
    qed
    ultimately show ?thesis using m False by (simp add: skip_ws_other json_ws_facts)
  qed
qed simp_all

text \<open>What \<open>JSON.stringify(v, null, 2)\<close> prints of a value is read back as that value, however the text is nested and
  whatever characters its strings and keys hold: nothing printed is ambiguous, and no quotation mark, backslash or control character
  of a string ends it early.
\<close>

theorem json_round_trip:
  assumes "is_json v"
  shows "json_read (json_pretty '''' v) = Some v"
  using read_pretty [OF assms, of "''''" "''''" "2 * length (json_pretty '''' v)"] by (simp add: json_read_def ends_number_def skip_ws_def)

theorem json_round_trip_witness:
  "json_read (json_pretty '''' (JObj [([CHR ''a'', CHR 0x22], JArr [JNum (-7), JStr [CHR 0x5C, CHR 0x0A, CHR 0x01], JNull, JObj []]), (''b'', JBool True)]))
   = Some (JObj [([CHR ''a'', CHR 0x22], JArr [JNum (-7), JStr [CHR 0x5C, CHR 0x0A, CHR 0x01], JNull, JObj []]), (''b'', JBool True)])"
  by (rule json_round_trip) simp

text \<open>No two values are printed alike.\<close>

lemma json_pretty_injective: "is_json v \<Longrightarrow> is_json w \<Longrightarrow> json_pretty '''' v = json_pretty '''' w \<Longrightarrow> v = w"
  using read_pretty [of v "''''" "''''" "2 * length (json_pretty '''' v)"] read_pretty [of w "''''" "''''" "2 * length (json_pretty '''' w)"]
  by (simp add: ends_number_def)

end
