(* ===== verification/ApiDocsPage.thy ===== *)
theory ApiDocsPage
  imports Hooks JsonText "HOL-Library.Multiset"
begin

text \<open>
  The API reference of the dashboard (\<open>pages/ApiDocs.tsx\<close>): a specification from the server, or the one built in where there is
  none, its operations grouped by their first tag, a card per operation with its schemas, and samples of calls in four
  languages.

  A specification is what the page reads of the OpenAPI document; the lists stand for objects, in the order their keys are
  enumerated.
\<close>

section \<open>Specifications\<close>

datatype schema = Schema
  (sch_type: "string option") (sch_format: "string option") (sch_description: "string option")
  (sch_properties: "(string \<times> schema) list option") (sch_items: "schema option") (sch_required: "string list option")
  (sch_example: json) (sch_enum: "string list option") (sch_allOf: "schema list option") (sch_ref: "string option")

record parameter =
  pa_name :: string
  pa_in :: string
  pa_description :: "string option"
  pa_required :: bool
  pa_schema :: schema

record request_body =
  rb_required :: bool
  rb_content :: "(string \<times> schema) list"

record response =
  rs_description :: string
  rs_content :: "(string \<times> schema) list option"

record path_operation =
  op_summary :: "string option"
  op_description :: "string option"
  op_tags :: "string list option"
  op_parameters :: "parameter list option"
  op_requestBody :: "request_body option"
  op_responses :: "(string \<times> response) list"
  op_deprecated :: bool

type_synonym api_paths = "(string \<times> (string \<times> path_operation) list) list"

text \<open>The title, the version and the list of tags are not read.\<close>

record openapi_spec =
  sp_paths :: api_paths

definition json_schema :: "(string \<times> schema) list \<Rightarrow> schema option" where
  "json_schema content = map_of content ''application/json''"

section \<open>Samples\<close>

definition baseUrl_docs :: string where
  "baseUrl_docs = ''https://api.omnitun.dev''"

text \<open>A backslash at the end of a line and the indentation of the next.\<close>

definition cont :: string where
  "cont = '' '' @ [CHR 0x5C, CHR 0x0A] @ ''  ''"

definition curl_url :: "string \<Rightarrow> string \<Rightarrow> string" where
  "curl_url verb url = ''curl -X '' @ to_upper verb @ '' '' @ quoted (baseUrl_docs @ url)"

definition curl_header :: "string \<Rightarrow> string" where
  "curl_header h = cont @ ''-H '' @ quoted h"

definition params_in :: "string \<Rightarrow> parameter list \<Rightarrow> parameter list" where
  "params_in loc params = filter (\<lambda>p. pa_in p = loc) params"

definition placeholder :: "string \<Rightarrow> string" where
  "placeholder s = ''<'' @ s @ ''>''"

definition sends_body :: "string \<Rightarrow> bool" where
  "sends_body verb \<longleftrightarrow> verb \<noteq> ''get'' \<and> verb \<noteq> ''delete''"

text \<open>The example of a body. Assigning to \<open>__proto__\<close> makes no property.\<close>

definition example_of :: "(string \<times> schema) list \<Rightarrow> json" where
  "example_of ps = JObj (map (\<lambda>(k, p).
       (k, coalesce (sch_example p) (JStr (placeholder (case sch_type p of None \<Rightarrow> ''string'' | Some t \<Rightarrow> t)))))
     (filter (\<lambda>(k, p). k \<noteq> ''__proto__'') ps))"

definition curl_data :: "string \<Rightarrow> request_body option \<Rightarrow> string" where
  "curl_data verb body =
     (case body of
        None \<Rightarrow> ''''
      | Some b \<Rightarrow>
          if sends_body verb then
            (case Option.bind (json_schema (rb_content b)) sch_properties of
               None \<Rightarrow> ''''
             | Some ps \<Rightarrow> cont @ ''-d '' @ [CHR 0x27] @ json_pretty '''' (example_of ps) @ [CHR 0x27])
          else '''')"

text \<open>With query parameters the command is built anew: what was appended before is gone.\<close>

definition generateCurl :: "string \<Rightarrow> string \<Rightarrow> parameter list \<Rightarrow> request_body option \<Rightarrow> string" where
  "generateCurl verb path params body =
     (let curl = curl_url verb path;
          curl = curl @ concat (map (\<lambda>p. curl_header (pa_name p @ '': '' @ placeholder (pa_name p))) (params_in ''header'' params));
          curl = curl @ (if sends_body verb then curl_header ''Content-Type: application/json'' else '''');
          curl = curl @ curl_header ''Authorization: Bearer <token>'';
          queryParams = params_in ''query'' params;
          curl = (if queryParams \<noteq> []
            then curl_url verb (path @ ''?'' @ join_with ''&'' (map (\<lambda>p. pa_name p @ ''='' @ placeholder (pa_name p)) queryParams))
            else curl)
      in curl @ curl_data verb body)"

text \<open>\<open>path.split('/')[2]?.replace(/s$/, '') ?? 'resource'\<close>.\<close>

definition strip_s :: "string \<Rightarrow> string" where
  "strip_s s = (if s \<noteq> '''' \<and> last s = CHR ''s'' then butlast s else s)"

definition path_tag :: "string \<Rightarrow> string" where
  "path_tag path = (case nth_opt (split_on (CHR ''/'') path) 2 of None \<Rightarrow> ''resource'' | Some seg \<Rightarrow> strip_s seg)"

text \<open>\<open>s[0].toUpperCase() + s.slice(1)\<close>, which throws for the empty string.\<close>

definition capitalize :: "string \<Rightarrow> string option" where
  "capitalize s = (case s of [] \<Rightarrow> None | c # cs \<Rightarrow> Some (upper_char c # cs))"

definition text_lines :: "string list \<Rightarrow> string" where
  "text_lines ls = join_with nl ls"

abbreviation go_client :: string where
  "go_client \<equiv> ''client, _ := omnitun.NewClient(\"<token>\")''"

definition go_snippets :: "(string \<times> string) list" where
  "go_snippets =
     [(''list-tunnels'', text_lines [go_client, ''tunnels, err := client.Tunnels.List(ctx, nil)'']),
      (''create-tunnel'', text_lines [go_client, ''tunnel, err := client.Tunnels.Create(ctx, omnitun.CreateTunnelOptions{'',
         ''  Name:      \"my-tunnel\",'', ''  Protocol:  \"http\",'', ''  LocalPort: 3000,'', ''})'']),
      (''get-tunnel'', text_lines [go_client, ''tunnel, err := client.Tunnels.Get(ctx, \"<tunnel-id>\")'']),
      (''delete-tunnel'', text_lines [go_client, ''err := client.Tunnels.Delete(ctx, \"<tunnel-id>\")''])]"

definition docs_type_error :: exn where
  "docs_type_error = JsError ''Cannot read properties of undefined''"

definition generateGoSnippet :: "string \<Rightarrow> string \<Rightarrow> exn + string" where
  "generateGoSnippet verb path =
     (let tag = path_tag path in
      case capitalize tag of
        None \<Rightarrow> Inl docs_type_error
      | Some svc \<Rightarrow>
          (case map_of go_snippets (verb @ ''-'' @ tag) of
             Some t \<Rightarrow> Inr t
           | None \<Rightarrow>
               (case capitalize verb of
                  None \<Rightarrow> Inl docs_type_error
                | Some name \<Rightarrow> Inr (text_lines [go_client, ''// TODO: call client.'' @ svc @ ''.'' @ name @ ''(ctx, ...)'']))))"

abbreviation python_client :: "string list" where
  "python_client \<equiv> [''from omnitun import OmniTun'', '''', ''client = OmniTun(token=\"<token>\")'']"

definition python_snippets :: "(string \<times> string) list" where
  "python_snippets =
     [(''list-tunnels'', text_lines (python_client @ [''tunnels = client.tunnels.list()''])),
      (''create-tunnel'', text_lines (python_client @ [''tunnel = client.tunnels.create('', ''    name=\"my-tunnel\",'', ''    protocol=\"http\",'',
         ''    local_port=3000,'', '')''])),
      (''get-tunnel'', text_lines (python_client @ [''tunnel = client.tunnels.get(\"<tunnel-id>\")''])),
      (''delete-tunnel'', text_lines (python_client @ [''client.tunnels.delete(\"<tunnel-id>\")'']))]"

definition generatePythonSnippet :: "string \<Rightarrow> string \<Rightarrow> string" where
  "generatePythonSnippet verb path =
     (let tag = path_tag path in
      case map_of python_snippets (verb @ ''-'' @ tag) of
        Some t \<Rightarrow> t
      | None \<Rightarrow> text_lines (python_client @ [''# TODO: use client.'' @ tag @ ''s.'' @ verb @ ''(...)'']))"

definition single_quoted :: "string \<Rightarrow> string" where
  "single_quoted s = CHR 0x27 # s @ [CHR 0x27]"

definition generateJSSnippet :: "string \<Rightarrow> string \<Rightarrow> string" where
  "generateJSSnippet verb path = text_lines
     ([''const response = await fetch('' @ single_quoted (baseUrl_docs @ path) @ '', {'',
       ''  method: '' @ single_quoted (to_upper verb) @ '','',
       ''  headers: {'',
       ''    '' @ single_quoted ''Authorization'' @ '': '' @ single_quoted ''Bearer <token>'' @ '','',
       ''    '' @ single_quoted ''Content-Type'' @ '': '' @ single_quoted ''application/json'' @ '','',
       ''  }'' @ (if sends_body verb then '','' else '''')] @
      (if sends_body verb then [''  body: JSON.stringify({'', ''    // ... request body'', ''  }),''] else []) @
      [''});'', ''const data = await response.json();''])"


section \<open>The samples of an operation\<close>

datatype code_tab = Curl | Go | Python | JavaScript

definition code_tabs :: "(code_tab \<times> string) list" where
  "code_tabs = [(Curl, ''cURL''), (Go, ''Go''), (Python, ''Python''), (JavaScript, ''JavaScript'')]"

definition sample_code :: "code_tab \<Rightarrow> string \<Rightarrow> string \<Rightarrow> path_operation \<Rightarrow> exn + string" where
  "sample_code tab verb path oper =
     (case tab of
        Curl \<Rightarrow> Inr (generateCurl verb path (data_or_empty (op_parameters oper)) (op_requestBody oper))
      | Go \<Rightarrow> generateGoSnippet verb path
      | Python \<Rightarrow> Inr (generatePythonSnippet verb path)
      | JavaScript \<Rightarrow> Inr (generateJSSnippet verb path))"

section \<open>Groups\<close>

text \<open>An operation with its path and its method, in the order of the document.\<close>

type_synonym endpoint = "string \<times> string \<times> path_operation"

definition endpoints_of :: "api_paths \<Rightarrow> endpoint list" where
  "endpoints_of paths = concat (map (\<lambda>(path, methods). map (\<lambda>(verb, oper). (path, verb, oper)) methods) paths)"

definition first_tag :: "path_operation \<Rightarrow> string" where
  "first_tag oper = (case op_tags oper of None \<Rightarrow> ''Other'' | Some [] \<Rightarrow> ''Other'' | Some (t # ts) \<Rightarrow> t)"

definition endpoint_tag :: "endpoint \<Rightarrow> string" where
  "endpoint_tag e = first_tag (snd (snd e))"

text \<open>What every object inherits, under these names: \<open>groups[tag]\<close> is then a value that has no \<open>push\<close>.\<close>

definition inherited_names :: "string list" where
  "inherited_names = [''constructor'', ''hasOwnProperty'', ''isPrototypeOf'', ''propertyIsEnumerable'', ''toLocaleString'', ''toString'', ''valueOf'',
     ''__proto__'', ''__defineGetter__'', ''__defineSetter__'', ''__lookupGetter__'', ''__lookupSetter__'']"

fun push_group :: "string \<Rightarrow> endpoint \<Rightarrow> (string \<times> endpoint list) list \<Rightarrow> (string \<times> endpoint list) list" where
  "push_group t e [] = [(t, [e])]"
| "push_group t e ((u, es) # gs) = (if u = t then (u, es @ [e]) # gs else (u, es) # push_group t e gs)"

definition group_endpoint :: "(string \<times> endpoint list) list option \<Rightarrow> endpoint \<Rightarrow> (string \<times> endpoint list) list option" where
  "group_endpoint g e =
     (case g of
        None \<Rightarrow> None
      | Some gs \<Rightarrow> if endpoint_tag e \<in> set inherited_names then None else Some (push_group (endpoint_tag e) e gs))"

text \<open>Keys that are array indices are enumerated first, in their order, and then the others as they were added.\<close>

definition array_index :: "string \<Rightarrow> bool" where
  "array_index k \<longleftrightarrow> k \<noteq> '''' \<and> (\<forall>c \<in> set k. is_digit c) \<and> nat_string (read_nat k) = k \<and> read_nat k < 4294967295"

definition enumerated :: "(string \<times> 'a) list \<Rightarrow> (string \<times> 'a) list" where
  "enumerated ps = sort_key (\<lambda>p. read_nat (fst p)) (filter (\<lambda>p. array_index (fst p)) ps) @ filter (\<lambda>p. \<not> array_index (fst p)) ps"

definition groupedPaths :: "api_paths \<Rightarrow> (string \<times> endpoint list) list option" where
  "groupedPaths paths = map_option enumerated (foldl group_endpoint (Some []) (endpoints_of paths))"

text \<open>What it means: a group for each first tag, with all operations that have it, in the order of the document.\<close>

fun first_seen :: "'a list \<Rightarrow> 'a list" where
  "first_seen [] = []"
| "first_seen (x # xs) = x # filter (\<lambda>y. y \<noteq> x) (first_seen xs)"

definition groups_by_tag :: "endpoint list \<Rightarrow> (string \<times> endpoint list) list" where
  "groups_by_tag es = map (\<lambda>t. (t, filter (\<lambda>e. endpoint_tag e = t) es)) (first_seen (map endpoint_tag es))"

lemma set_first_seen [simp]: "set (first_seen xs) = set xs"
  by (induction xs) auto

lemma distinct_first_seen: "distinct (first_seen xs)"
  by (induction xs) auto

lemma first_seen_snoc: "first_seen (xs @ [x]) = (if x \<in> set xs then first_seen xs else first_seen xs @ [x])"
  by (induction xs) auto

lemma push_group_map:
  "distinct ts \<Longrightarrow> push_group t e (map (\<lambda>u. (u, f u)) ts) =
   (if t \<in> set ts then map (\<lambda>u. (u, if u = t then f u @ [e] else f u)) ts else map (\<lambda>u. (u, f u)) ts @ [(t, [e])])"
  by (induction ts) auto

lemma group_fold:
  "foldl group_endpoint (Some []) es =
   (if \<exists>e \<in> set es. endpoint_tag e \<in> set inherited_names then None else Some (groups_by_tag es))"
proof (induction es rule: rev_induct)
  case Nil
  then show ?case by (simp add: groups_by_tag_def)
next
  case (snoc e es)
  have "push_group (endpoint_tag e) e (groups_by_tag es) = groups_by_tag (es @ [e])"
    unfolding groups_by_tag_def push_group_map [OF distinct_first_seen]
    by (auto simp: first_seen_snoc filter_empty_conv) (metis image_eqI)
  then show ?case using snoc by (auto simp: group_endpoint_def)
qed

lemma grouped_paths:
  "groupedPaths paths =
   (if \<exists>e \<in> set (endpoints_of paths). endpoint_tag e \<in> set inherited_names then None
    else Some (enumerated (groups_by_tag (endpoints_of paths))))"
  by (simp add: groupedPaths_def group_fold)

lemma mset_enumerated: "mset (enumerated ps) = mset ps"
  using multiset_partition [of "mset ps" "\<lambda>p. array_index (fst p)"] by (simp add: enumerated_def)


lemma distinct_enumerated: "distinct (map fst ps) \<Longrightarrow> distinct (map fst (enumerated ps))"
  using mset_eq_imp_distinct_iff [of "map fst (enumerated ps)" "map fst ps"] by (simp add: mset_map mset_enumerated)

lemma filter_partition: "distinct ts \<Longrightarrow> f ` set es \<subseteq> set ts \<Longrightarrow> mset (concat (map (\<lambda>t. filter (\<lambda>e. f e = t) es) ts)) = mset es"
proof (induction es)
  case (Cons e es)
  have "mset (concat (map (\<lambda>t. filter (\<lambda>x. f x = t) (e # es)) us)) =
      mset (concat (map (\<lambda>t. filter (\<lambda>x. f x = t) es) us)) + (if f e \<in> set us then {#e#} else {#})" if "distinct us" for us
    using that by (induction us) auto
  then show ?case using Cons by simp
qed simp

text \<open>No operation is lost or shown twice.\<close>

theorem endpoints_shown_once:
  assumes "groupedPaths paths = Some gs"
  shows "mset (concat (map snd gs)) = mset (endpoints_of paths) \<and> distinct (map fst gs) \<and> (\<forall>(t, es) \<in> set gs. es \<noteq> [])"
proof -
  have gs: "gs = enumerated (groups_by_tag (endpoints_of paths))"
    using assms by (simp add: grouped_paths split: if_splits)
  then have m: "mset gs = mset (groups_by_tag (endpoints_of paths))" by (simp add: mset_enumerated)
  have "mset (concat (map snd gs)) = mset (concat (map snd (groups_by_tag (endpoints_of paths))))"
    using m by (simp add: mset_concat flip: mset_map sum_mset_sum_list) (simp only: mset_map)
  also have "\<dots> = mset (endpoints_of paths)"
    using filter_partition [OF distinct_first_seen, of endpoint_tag "endpoints_of paths"] by (simp add: groups_by_tag_def comp_def)
  finally show ?thesis
    using distinct_enumerated [of "groups_by_tag (endpoints_of paths)"] mset_eq_setD [OF m] distinct_first_seen
    unfolding gs by (auto simp: groups_by_tag_def filter_empty_conv comp_def)
qed


section \<open>Schemas\<close>

lemma schema_sizes:
  "sch_allOf s = Some ss \<Longrightarrow> x \<in> set ss \<Longrightarrow> size x < size s"
  "sch_items s = Some i \<Longrightarrow> size i < size s"
  "sch_properties s = Some ps \<Longrightarrow> (k, p) \<in> set ps \<Longrightarrow> size p < size s"
proof -
  show "sch_allOf s = Some ss \<Longrightarrow> x \<in> set ss \<Longrightarrow> size x < size s"
    by (cases s) (auto dest!: size_list_estimation' [where f = size and y = "size x", OF _ order_refl])
  show "sch_items s = Some i \<Longrightarrow> size i < size s" by (cases s) auto
  assume p: "sch_properties s = Some ps" "(k, p) \<in> set ps"
  have "size p \<le> size_list (size_prod (\<lambda>x. 0) size) ps" using p(2) by (intro size_list_estimation' [OF p(2)]) simp
  then show "size p < size s" using p(1) by (cases s) auto
qed

definition or_blank :: "string option \<Rightarrow> string" where
  "or_blank v = (case v of None \<Rightarrow> '''' | Some t \<Rightarrow> t)"

text \<open>The type with the format in parentheses, as properties, parameters and plain schemas show it.\<close>

definition type_text :: "schema \<Rightarrow> string" where
  "type_text s = or_blank (sch_type s) @ (if present (sch_format s) then '' ('' @ or_blank (sch_format s) @ '')'' else '''')"

definition ref_name :: "string \<Rightarrow> string" where
  "ref_name r = last (split_on (CHR ''/'') r)"

definition quoted_list :: "string \<Rightarrow> string list \<Rightarrow> string" where
  "quoted_list sep vs = join_with sep (map quoted vs)"

definition property_head :: "schema \<Rightarrow> string \<times> schema \<Rightarrow> 'e ui list" where
  "property_head s kp = (case kp of (k, p) \<Rightarrow>
     [Say [Lit k], only_if (k \<in> set (data_or_empty (sch_required s))) (Say [Lit ''*'']), Say [Lit (type_text p)],
      (case sch_enum p of None \<Rightarrow> Null | Some vs \<Rightarrow> Say [Lit (''['' @ quoted_list '' | '' vs @ '']'')]),
      only_if (present (sch_description p)) (Say [Lit (or_blank (sch_description p))])])"

text \<open>Properties and items go one level deeper, the parts of \<open>allOf\<close> do not.\<close>

function SchemaView :: "schema \<Rightarrow> nat \<Rightarrow> 'e ui" where
  "SchemaView s d =
     (if d > 4 then Say [Lit ''...'']
      else if present (sch_ref s) then Say [Lit (ref_name (or_blank (sch_ref s)))]
      else case sch_allOf s of
        Some ss \<Rightarrow> Node ''div'' (map (\<lambda>x. SchemaView x d) ss)
      | None \<Rightarrow>
          (case sch_enum s of
             Some vs \<Rightarrow> Say [Lit (''enum: ['' @ quoted_list '', '' vs @ '']'')]
           | None \<Rightarrow>
               if sch_type s = Some ''array'' then
                 Node ''span'' [Say [Lit ''[''], (case sch_items s of Some i \<Rightarrow> SchemaView i (Suc d) | None \<Rightarrow> Say [Lit ''any'']), Say [Lit '']'']]
               else (case (if sch_type s = Some ''object'' then sch_properties s else None) of
                   Some ps \<Rightarrow> Node ''div'' (map (\<lambda>(k, p). Node ''div'' (property_head s (k, p) @
                     [only_if (sch_properties p \<noteq> None) (SchemaView p (Suc d)),
                      (case sch_items p of None \<Rightarrow> Null | Some i \<Rightarrow> Node ''div'' [Say [Lit ''items: ''], SchemaView i (Suc d)])])) ps)
                 | None \<Rightarrow> Say [Lit (type_text s)])))"
  by pat_completeness auto

termination
  by (relation "measure (\<lambda>(s, d). size s)")
    (auto split: prod.splits if_splits dest: schema_sizes intro: less_trans [OF schema_sizes(2) schema_sizes(3)])

declare SchemaView.simps [simp del]


lemma events_property_head: "\<Union> (set (map events (property_head s kp))) = {}"
  by (auto simp: property_head_def split: prod.split option.split if_splits)

lemma events_SchemaView [simp]: "events (SchemaView s d :: 'e ui) = {}"
proof (induction s arbitrary: d rule: measure_induct_rule [where f = size])
  case (less s)
  have all: "sch_allOf s = Some ss \<Longrightarrow> x \<in> set ss \<Longrightarrow> events (SchemaView x e :: 'e ui) = {}" for ss x e
    using less [of x e] schema_sizes(1) [of s ss x] by simp
  have items: "sch_items s = Some i \<Longrightarrow> events (SchemaView i e :: 'e ui) = {}" for i e
    using less [of i e] schema_sizes(2) [of s i] by simp
  have deep: "sch_properties s = Some ps \<Longrightarrow> (k, p) \<in> set ps \<Longrightarrow> x \<in> events (SchemaView p e :: 'e ui) \<Longrightarrow> False"
    "sch_properties s = Some ps \<Longrightarrow> (k, p) \<in> set ps \<Longrightarrow> sch_items p = Some i \<Longrightarrow> x \<in> events (SchemaView i e :: 'e ui) \<Longrightarrow> False"
    for ps k p i e x using less [of p e] less [of i e] schema_sizes(3) [of s ps k p] schema_sizes(2) [of p i] by auto
  have head: "x \<in> set (property_head s kp) \<Longrightarrow> events (x :: 'e ui) = {}" for kp x
    using events_property_head [of s kp] by auto
  show ?case
    by (subst SchemaView.simps)
      (auto simp: all items split: option.split if_splits option.split_asm dest!: head dest: deep)
qed

section \<open>Cards\<close>

text \<open>
  An endpoint's card, by its group, method and path, is a component with a state of its own; its samples are one more, there while
  the card is open. \<open>smp_born\<close> numbers the latter.
\<close>

type_synonym card_key = "string \<times> string \<times> string"

record card =
  expanded :: bool
  smp_tab :: code_tab
  smp_copied :: bool
  smp_born :: nat

definition toggle_card :: "card \<Rightarrow> card" where
  "toggle_card c =
     (if expanded c then c\<lparr>expanded := False\<rparr>
      else c\<lparr>expanded := True, smp_tab := Curl, smp_copied := False, smp_born := Suc (smp_born c)\<rparr>)"

definition card_left :: "card \<Rightarrow> card" where
  "card_left c = c\<lparr>expanded := False\<rparr>"

record docs_page =
  specQuery :: "openapi_spec query"
  cards :: "card_key \<Rightarrow> card"
  crashed :: bool

datatype docs_ev = RetrySpec | ToggleCard card_key | SetCodeTab card_key code_tab | CopyCode card_key string

datatype docs_k = KUncopied card_key nat

section \<open>The built-in specification\<close>

abbreviation sch :: "string \<Rightarrow> schema" where
  "sch ty \<equiv> Schema (Some ty) None None None None None JUndef None None None"

abbreviation sch_formatted :: "string \<Rightarrow> string \<Rightarrow> schema" where
  "sch_formatted ty f \<equiv> Schema (Some ty) (Some f) None None None None JUndef None None None"

abbreviation sch_described :: "string \<Rightarrow> string \<Rightarrow> schema" where
  "sch_described ty d \<equiv> Schema (Some ty) None (Some d) None None None JUndef None None None"

abbreviation sch_choice :: "string list \<Rightarrow> schema" where
  "sch_choice vs \<equiv> Schema (Some ''string'') None None None None None JUndef (Some vs) None None"

abbreviation sch_object :: "string list \<Rightarrow> (string \<times> schema) list \<Rightarrow> schema" where
  "sch_object req ps \<equiv> Schema (Some ''object'') None None (Some ps) None (Some req) JUndef None None None"

abbreviation query_param :: "string \<Rightarrow> schema \<Rightarrow> parameter" where
  "query_param n s \<equiv> \<lparr>pa_name = n, pa_in = ''query'', pa_description = None, pa_required = False, pa_schema = s\<rparr>"

definition id_param :: parameter where
  "id_param = \<lparr>pa_name = ''id'', pa_in = ''path'', pa_description = None, pa_required = True, pa_schema = sch_formatted ''string'' ''uuid''\<rparr>"

definition operation_of :: "string \<Rightarrow> string \<Rightarrow> parameter list option \<Rightarrow> schema option \<Rightarrow> (string \<times> string) list \<Rightarrow> path_operation" where
  "operation_of tag summary params body rs =
     \<lparr>op_summary = Some summary, op_description = None, op_tags = Some [tag], op_parameters = params,
      op_requestBody = map_option (\<lambda>s. \<lparr>rb_required = True, rb_content = [(''application/json'', s)]\<rparr>) body,
      op_responses = map (\<lambda>(c, d). (c, \<lparr>rs_description = d, rs_content = None\<rparr>)) rs, op_deprecated = False\<rparr>"

definition tunnel_body :: schema where
  "tunnel_body = sch_object [''name'', ''protocol'', ''local_port'']
     [(''name'', sch_described ''string'' ''Tunnel name''), (''protocol'', sch_choice [''tcp'', ''http'', ''https'']),
      (''local_port'', sch_described ''integer'' ''Local port to forward''), (''remote_port'', sch ''integer''), (''domain'', sch ''string''),
      (''tags'', Schema (Some ''array'') None None None (Some (sch ''string'')) None JUndef None None None),
      (''auth_mode'', sch_choice [''none'', ''basic'', ''oauth'']), (''tls_mode'', sch_choice [''off'', ''flexible'', ''strict'']),
      (''compression'', sch ''boolean'')]"

definition tunnels_path :: "(string \<times> path_operation) list" where
  "tunnels_path =
     [(''get'', operation_of ''Tunnels'' ''List tunnels''
         (Some [query_param ''status'' (sch_choice [''active'', ''stopped'', ''error'']), query_param ''protocol'' (sch_choice [''tcp'', ''http'', ''https'']),
           query_param ''page'' (sch ''integer''), query_param ''per_page'' (sch ''integer'')])
         None [(''200'', ''Paginated list of tunnels''), (''401'', ''Unauthorized'')]),
      (''post'', operation_of ''Tunnels'' ''Create a tunnel'' None (Some tunnel_body)
         [(''201'', ''Tunnel created''), (''400'', ''Validation error''), (''401'', ''Unauthorized'')])]"

definition one_tunnel_path :: "(string \<times> path_operation) list" where
  "one_tunnel_path =
     [(''get'', operation_of ''Tunnels'' ''Get tunnel by ID'' (Some [id_param]) None [(''200'', ''Tunnel details''), (''404'', ''Tunnel not found'')]),
      (''patch'', operation_of ''Tunnels'' ''Update tunnel'' (Some [id_param]) None [(''200'', ''Tunnel updated''), (''404'', ''Tunnel not found'')]),
      (''delete'', operation_of ''Tunnels'' ''Delete tunnel'' (Some [id_param]) None [(''204'', ''Tunnel deleted''), (''404'', ''Tunnel not found'')])]"

definition tunnel_switch_paths :: api_paths where
  "tunnel_switch_paths =
     [(''/v1/tunnels/{id}/start'', [(''post'', operation_of ''Tunnels'' ''Start tunnel'' (Some [id_param]) None
         [(''200'', ''Tunnel started''), (''400'', ''Tunnel already running''), (''404'', ''Tunnel not found'')])]),
      (''/v1/tunnels/{id}/stop'', [(''post'', operation_of ''Tunnels'' ''Stop tunnel'' (Some [id_param]) None
         [(''200'', ''Tunnel stopped''), (''404'', ''Tunnel not found'')])])]"

definition domain_paths :: api_paths where
  "domain_paths =
     [(''/v1/domains'',
        [(''get'', operation_of ''Domains'' ''List domains'' None None [(''200'', ''Paginated list of domains'')]),
         (''post'', operation_of ''Domains'' ''Add custom domain'' None
           (Some (sch_object [''domain''] [(''domain'', sch_described ''string'' ''Custom domain name''), (''tunnel_id'', sch_formatted ''string'' ''uuid'')]))
           [(''201'', ''Domain added''), (''409'', ''Domain already exists'')])]),
      (''/v1/domains/{id}'',
        [(''get'', operation_of ''Domains'' ''Get domain'' (Some [id_param]) None [(''200'', ''Domain details'')]),
         (''delete'', operation_of ''Domains'' ''Remove domain'' (Some [id_param]) None [(''204'', ''Domain removed'')])])]"

definition network_paths :: api_paths where
  "network_paths =
     [(''/v1/networks'',
        [(''get'', operation_of ''Networks'' ''List networks'' None None [(''200'', ''Paginated list of mesh networks'')]),
         (''post'', operation_of ''Networks'' ''Create mesh network'' None
           (Some (sch_object [''name'', ''cidr'']
             [(''name'', sch ''string''), (''cidr'', Schema (Some ''string'') None None None None None (JStr ''10.0.0.0/24'') None None None)]))
           [(''201'', ''Network created'')])]),
      (''/v1/networks/{id}'',
        [(''get'', operation_of ''Networks'' ''Get network'' (Some [id_param]) None [(''200'', ''Network details'')]),
         (''delete'', operation_of ''Networks'' ''Delete network'' (Some [id_param]) None [(''204'', ''Network deleted'')])]),
      (''/v1/networks/join'', [(''post'', operation_of ''Networks'' ''Join network by invite'' None
         (Some (sch_object [''invite_code''] [(''invite_code'', sch ''string'')])) [(''200'', ''Joined network successfully'')])]),
      (''/v1/networks/{id}/leave'', [(''post'', operation_of ''Networks'' ''Leave network'' (Some [id_param]) None [(''204'', ''Left network'')])])]"

definition auth_paths :: api_paths where
  "auth_paths =
     [(''/v1/auth/refresh'', [(''post'', operation_of ''Auth'' ''Refresh access token'' None
         (Some (sch_object [''refresh_token''] [(''refresh_token'', sch ''string'')]))
         [(''200'', ''New token pair''), (''401'', ''Invalid refresh token'')])])]"

definition mockSpec :: openapi_spec where
  "mockSpec = \<lparr>sp_paths = [(''/v1/tunnels'', tunnels_path), (''/v1/tunnels/{id}'', one_tunnel_path)] @ tunnel_switch_paths @ domain_paths @
     network_paths @ auth_paths\<rparr>"


section \<open>View\<close>

definition spec_of :: "docs_page \<Rightarrow> openapi_spec" where
  "spec_of s = (case q_data (specQuery s) of None \<Rightarrow> mockSpec | Some d \<Rightarrow> d)"

definition key_of :: "string \<Rightarrow> endpoint \<Rightarrow> card_key" where
  "key_of tag e = (case e of (path, verb, oper) \<Rightarrow> (tag, verb, path))"

definition ok_text :: "exn + string \<Rightarrow> string" where
  "ok_text r = (case r of Inl err \<Rightarrow> '''' | Inr t \<Rightarrow> t)"

definition CodeSample :: "card_key \<Rightarrow> card \<Rightarrow> endpoint \<Rightarrow> docs_ev ui" where
  "CodeSample k c e = (case e of (path, verb, oper) \<Rightarrow>
     let code = ok_text (sample_code (smp_tab c) verb path oper) in
     Node ''div''
       [Node ''div'' (map (\<lambda>(tab, lbl). Button False (SetCodeTab k tab) [Node (if smp_tab c = tab then ''selected'' else '''') [Say [Lit lbl]]]) code_tabs),
        Button False (CopyCode k code) [Node (if smp_copied c then ''Check'' else ''Copy'') []],
        Node ''code'' [Say [Lit code]]])"

definition parameter_row :: "parameter \<Rightarrow> docs_ev ui" where
  "parameter_row p = Node ''tr''
     [Say [Lit (pa_name p)], Node ''Badge'' [Say [Lit (pa_in p)]], Say [Lit (type_text (pa_schema p))],
      Say [Lit (if pa_required p then ''Yes'' else ''No'')], Say [Lit (case pa_description p of None \<Rightarrow> ''-'' | Some d \<Rightarrow> d)]]"

definition parameters_view :: "path_operation \<Rightarrow> docs_ev ui" where
  "parameters_view oper =
     (let ps = data_or_empty (op_parameters oper) in
      only_if (ps \<noteq> []) (Node ''div'' [Say [Lit ''Parameters''],
        Node ''table'' (Node ''tr'' (map (\<lambda>h. Say [Lit h]) [''Name'', ''In'', ''Type'', ''Required'', ''Description'']) # map parameter_row ps)]))"

definition schema_view :: "schema option \<Rightarrow> docs_ev ui" where
  "schema_view s = (case s of None \<Rightarrow> Null | Some x \<Rightarrow> SchemaView x 0)"

definition request_view :: "path_operation \<Rightarrow> docs_ev ui" where
  "request_view oper =
     (case op_requestBody oper of
        None \<Rightarrow> Null
      | Some b \<Rightarrow> Node ''div'' [Say [Lit ''Request Body''], only_if (rb_required b) (Say [Lit ''required'']),
          Node ''div'' [schema_view (json_schema (rb_content b))]])"

definition response_color :: "string \<Rightarrow> string" where
  "response_color code = (if starts_with code ''2'' then ''emerald'' else if starts_with code ''4'' then ''red'' else ''muted'')"

definition responses_view :: "path_operation \<Rightarrow> docs_ev ui" where
  "responses_view oper =
     only_if (op_responses oper \<noteq> []) (Node ''div'' (Say [Lit ''Responses''] #
       map (\<lambda>(code, r). Node ''div'' [Node (response_color code) [Say [Lit code]], Say [Lit (rs_description r)],
         schema_view (Option.bind (rs_content r) json_schema)]) (op_responses oper)))"

definition EndpointCard :: "docs_page \<Rightarrow> string \<Rightarrow> endpoint \<Rightarrow> docs_ev ui" where
  "EndpointCard s tag e = (case e of (path, verb, oper) \<Rightarrow>
     let k = key_of tag e; c = cards s k in
     Node ''div''
       [Button False (ToggleCard k)
          [Node (if expanded c then ''ChevronDown'' else ''ChevronRight'') [], Node ''Badge'' [Say [Lit (to_upper verb)]], Say [Lit path],
           only_if (op_deprecated oper) (Node ''Badge'' [Say [Lit ''deprecated'']]), Say [Lit (or_blank (op_summary oper))]],
        only_if (expanded c) (Node ''div''
          [only_if (present (op_description oper)) (Node ''p'' [Say [Lit (or_blank (op_description oper))]]),
           parameters_view oper, request_view oper, responses_view oper, CodeSample k c e])])"

text \<open>\<open>tag.toLowerCase().replace(/\s+/g, '-')\<close>: white space becomes a dash.\<close>

definition js_space :: "char \<Rightarrow> bool" where
  "js_space c \<longleftrightarrow> (of_char c :: nat) \<in> {9, 10, 11, 12, 13, 32, 160}"

fun dash_spaces :: "bool \<Rightarrow> string \<Rightarrow> string" where
  "dash_spaces after [] = []"
| "dash_spaces after (c # cs) =
     (if js_space c then (if after then [] else ''-'') @ dash_spaces True cs else c # dash_spaces False cs)"

definition tag_anchor :: "string \<Rightarrow> string" where
  "tag_anchor tag = ''tag-'' @ dash_spaces False (to_lower tag)"

definition ApiDocsSkeleton :: "docs_ev ui" where
  "ApiDocsSkeleton = Node ''div'' (replicate 7 (Node ''Skeleton'' []))"

definition tag_card :: "docs_page \<Rightarrow> string \<times> endpoint list \<Rightarrow> docs_ev ui" where
  "tag_card s g = Node (tag_anchor (fst g)) (Node ''CardTitle'' [Say [Lit (fst g)]] # map (EndpointCard s (fst g)) (snd g))"

definition docs_groups :: "docs_page \<Rightarrow> (string \<times> endpoint list) list" where
  "docs_groups s = (case groupedPaths (sp_paths (spec_of s)) of None \<Rightarrow> [] | Some gs \<Rightarrow> gs)"

definition docs_error :: "docs_page \<Rightarrow> docs_ev ui" where
  "docs_error s =
     only_if (q_isError (specQuery s) \<and> q_data (specQuery s) = None)
       (failed_load ''apidocs.failed_load'' [Button False RetrySpec [Say (tr ''common.retry'')]])"

definition ApiDocs_view :: "docs_page \<Rightarrow> docs_ev ui" where
  "ApiDocs_view s =
     (if crashed s then Null
      else if q_isLoading (specQuery s) then ApiDocsSkeleton
      else Node ''div''
        [Node ''h1'' [Say (tr ''apidocs.title'')], Node ''p'' [Say (tr ''apidocs.subtitle'')], docs_error s,
         Node ''nav'' (Say (tr ''apidocs.endpoints'') # map (\<lambda>g. LinkTo (CHR ''#'' # tag_anchor (fst g)) [Say [Lit (fst g)]]) (docs_groups s)),
         Node ''div'' (map (tag_card s) (docs_groups s))])"

section \<open>The page\<close>

text \<open>The cards on the page, with their endpoints.\<close>

definition cards_of :: "docs_page \<Rightarrow> (card_key \<times> endpoint) list" where
  "cards_of s = (if q_isLoading (specQuery s) then [] else concat (map (\<lambda>(tag, es). map (\<lambda>e. (key_of tag e, e)) es) (docs_groups s)))"

text \<open>An error thrown while rendering takes the page down: nothing above catches it.\<close>

definition throws :: "docs_page \<Rightarrow> bool" where
  "throws s \<longleftrightarrow> groupedPaths (sp_paths (spec_of s)) = None \<or>
     (\<exists>(k, path, verb, oper) \<in> set (cards_of s). expanded (cards s k) \<and> isl (sample_code (smp_tab (cards s k)) verb path oper))"

definition commit :: "docs_page \<Rightarrow> docs_page" where
  "commit s = (if throws s then s\<lparr>crashed := True\<rparr> else s)"

definition docs_init :: docs_page where
  "docs_init = \<lparr>specQuery = q_pending, cards = (\<lambda>_. \<lparr>expanded = False, smp_tab = Curl, smp_copied = False, smp_born = 0\<rparr>), crashed = False\<rparr>"

definition set_card :: "card_key \<Rightarrow> (card \<Rightarrow> card) \<Rightarrow> docs_page \<Rightarrow> docs_page" where
  "set_card k f s = s\<lparr>cards := (cards s)(k := f (cards s k))\<rparr>"

fun docs_user :: "docs_ev \<Rightarrow> docs_page \<Rightarrow> (docs_page, docs_k) effect" where
  "docs_user RetrySpec s = (s, [Refetch [''openapi'', ''spec'']], [])"
| "docs_user (ToggleCard k) s = (commit (set_card k toggle_card s), [], [])"
| "docs_user (SetCodeTab k tab) s = (commit (set_card k (smp_tab_update (\<lambda>_. tab)) s), [], [])"
| "docs_user (CopyCode k code) s =
     (set_card k (smp_copied_update (\<lambda>_. True)) s, [CopyText code], [KUncopied k (smp_born (cards s k))])"

fun docs_resume :: "docs_k \<Rightarrow> result \<Rightarrow> docs_page \<Rightarrow> (docs_page, docs_k) effect" where
  "docs_resume (KUncopied k n) r s =
     (set_card k (\<lambda>c. if smp_born c = n then c\<lparr>smp_copied := False\<rparr> else c) s, [], [])"

text \<open>When the query changes, cards whose endpoints are gone leave with their state.\<close>

definition show_spec :: "openapi_spec query \<Rightarrow> docs_page \<Rightarrow> docs_page" where
  "show_spec q s =
     (let s1 = s\<lparr>specQuery := q\<rparr> in
      commit (s1\<lparr>cards := (\<lambda>k. if k \<in> fst ` set (cards_of s1) then cards s k else card_left (cards s k))\<rparr>))"

definition docs_refresh :: "docs_page \<Rightarrow> docs_page \<Rightarrow> bool" where
  "docs_refresh s s' \<longleftrightarrow> \<not> crashed s \<and> (\<exists>q. s' = show_spec q s)"

definition ApiDocs :: "(docs_page, docs_ev, docs_k) page" where
  "ApiDocs =
     \<lparr>pg_mount = (docs_init, [CallApi ''GET'' ''/v1/openapi.json'' JUndef], []), pg_view = ApiDocs_view, pg_user = docs_user,
      pg_resume = docs_resume, pg_env = docs_refresh\<rparr>"

lemma ApiDocs_sel [simp]:
  "pg_mount ApiDocs = (docs_init, [CallApi ''GET'' ''/v1/openapi.json'' JUndef], [])" "pg_view ApiDocs = ApiDocs_view"
  "pg_user ApiDocs = docs_user" "pg_resume ApiDocs = docs_resume" "pg_env ApiDocs = docs_refresh"
  by (simp_all add: ApiDocs_def)


section \<open>Contract\<close>

text \<open>What the page needs of a specification: no inherited name as a tag, and a method and a third segment of the path to build
  names from.\<close>

definition fits :: "api_paths \<Rightarrow> bool" where
  "fits paths \<longleftrightarrow> (\<forall>e \<in> set (endpoints_of paths).
     endpoint_tag e \<notin> set inherited_names \<and> path_tag (fst e) \<noteq> '''' \<and> fst (snd e) \<noteq> '''')"

lemma sample_code_fails: "isl (sample_code tab verb path oper) \<Longrightarrow> path_tag path = '''' \<or> verb = ''''"
  by (auto simp: sample_code_def generateGoSnippet_def capitalize_def Let_def split: code_tab.splits option.splits list.splits)

lemma card_endpoint:
  assumes "(k, e) \<in> set (cards_of s)"
  shows "e \<in> set (endpoints_of (sp_paths (spec_of s)))"
proof (cases "groupedPaths (sp_paths (spec_of s))")
  case (Some gs)
  have "e \<in> set (concat (map snd gs))" using assms Some by (force simp: cards_of_def docs_groups_def split: if_splits)
  then show ?thesis using endpoints_shown_once [OF Some] by (metis set_mset_mset)
qed (use assms in \<open>auto simp: cards_of_def docs_groups_def split: if_splits\<close>)

lemma throws_misfit: "throws s \<Longrightarrow> \<not> fits (sp_paths (spec_of s))"
proof -
  assume "throws s"
  then consider "groupedPaths (sp_paths (spec_of s)) = None"
    | k path verb oper where "(k, path, verb, oper) \<in> set (cards_of s)" "isl (sample_code (smp_tab (cards s k)) verb path oper)"
    by (auto simp: throws_def)
  then show ?thesis
  proof cases
    case 1
    then show ?thesis by (auto simp: grouped_paths fits_def split: if_splits)
  next
    case 2
    then show ?thesis using card_endpoint [OF 2(1)] sample_code_fails [OF 2(2)] by (force simp: fits_def)
  qed
qed

definition docs_copied :: "docs_page \<Rightarrow> docs_k list \<Rightarrow> bool" where
  "docs_copied s ks \<longleftrightarrow> (\<forall>k. smp_copied (cards s k) \<longrightarrow> KUncopied k (smp_born (cards s k)) \<in> set ks)"

definition docs_inv :: "docs_page \<Rightarrow> docs_k list \<Rightarrow> bool" where
  "docs_inv s ks \<longleftrightarrow> (crashed s \<longrightarrow> \<not> fits (sp_paths (spec_of s))) \<and> (\<not> crashed s \<longrightarrow> \<not> throws s) \<and> docs_copied s ks"

definition docs_cmd_ok :: "cmd \<Rightarrow> bool" where
  "docs_cmd_ok c \<longleftrightarrow> c = CallApi ''GET'' ''/v1/openapi.json'' JUndef \<or> c = Refetch [''openapi'', ''spec''] \<or> (\<exists>t. c = CopyText t)"

lemma docs_inv_commit:
  "\<not> crashed s \<Longrightarrow> docs_copied s ks \<Longrightarrow> docs_inv (commit s) ks"
  using throws_misfit [of s] by (auto simp: docs_inv_def docs_copied_def commit_def spec_of_def)

lemma set_card_simps [simp]: "crashed (set_card k f s) = crashed s" "spec_of (set_card k f s) = spec_of s"
  "cards (set_card k f s) j = (if j = k then f (cards s k) else cards s j)"
  by (simp_all add: set_card_def spec_of_def)

lemma throws_set_card:
  assumes "\<And>c. expanded (f c) = expanded c \<and> smp_tab (f c) = smp_tab c"
  shows "throws (set_card k f s) = throws s"
proof -
  have "expanded (cards (set_card k f s) j) = expanded (cards s j)" "smp_tab (cards (set_card k f s) j) = smp_tab (cards s j)" for j
    using assms by simp_all
  moreover have "cards_of (set_card k f s) = cards_of s"
    by (simp add: cards_of_def docs_groups_def) (simp add: set_card_def)
  ultimately show ?thesis by (simp only: throws_def set_card_simps)
qed

lemma docs_copied_set:
  "docs_copied s ks \<Longrightarrow> (\<And>c. smp_copied (f c) \<Longrightarrow> smp_copied c \<and> smp_born (f c) = smp_born c) \<Longrightarrow> docs_copied (set_card k f s) ks"
  unfolding docs_copied_def by (metis set_card_simps(3))

lemma docs_user_inv:
  assumes "docs_inv s ks" and "\<not> crashed s"
  shows "docs_inv (fst (docs_user e s)) (ks @ snd (snd (docs_user e s)))"
proof -
  have c: "docs_copied s ks" "\<not> throws s" using assms by (simp_all add: docs_inv_def)
  show ?thesis
  proof (cases e)
    case (ToggleCard k)
    have "docs_copied (set_card k toggle_card s) ks" using c(1) by (rule docs_copied_set) (auto simp: toggle_card_def split: if_splits)
    then show ?thesis using assms(2) ToggleCard by (simp add: docs_inv_commit)
  next
    case (SetCodeTab k tab)
    have "docs_copied (set_card k (smp_tab_update (\<lambda>_. tab)) s) ks" using c(1) by (rule docs_copied_set) auto
    then show ?thesis using assms(2) SetCodeTab by (simp add: docs_inv_commit)
  next
    case (CopyCode k code)
    then show ?thesis using assms(2) c by (auto simp: docs_inv_def docs_copied_def throws_set_card)
  qed (use assms in simp)
qed

lemma docs_user_cmds: "list_all docs_cmd_ok (fst (snd (docs_user e s)))"
  by (cases e) (auto simp: docs_cmd_ok_def)

lemma docs_resume_inv:
  assumes "docs_inv s (ks1 @ k # ks2)"
  shows "docs_inv (fst (docs_resume k r s)) (ks1 @ ks2 @ snd (snd (docs_resume k r s)))"
    and "list_all docs_cmd_ok (fst (snd (docs_resume k r s)))"
  using assms by (cases k; auto simp: docs_inv_def docs_copied_def throws_set_card)+

lemma docs_refresh_inv:
  assumes "docs_inv s ks" and "docs_refresh s s'"
  shows "docs_inv s' ks"
proof -
  obtain q where q: "\<not> crashed s" "s' = show_spec q s" using assms(2) by (auto simp: docs_refresh_def)
  let ?t = "s\<lparr>specQuery := q, cards := (\<lambda>k. if k \<in> fst ` set (cards_of (s\<lparr>specQuery := q\<rparr>)) then cards s k else card_left (cards s k))\<rparr>"
  have "docs_copied s ks" using assms(1) by (simp add: docs_inv_def)
  then have "docs_copied ?t ks" by (simp add: docs_copied_def card_left_def)
  then show ?thesis unfolding q(2) show_spec_def Let_def using q(1) by (intro docs_inv_commit) simp_all
qed

lemma docs_mounted: "docs_inv docs_init []"
proof -
  have "groupedPaths (sp_paths mockSpec) \<noteq> None" by code_simp
  then show ?thesis by (simp add: docs_inv_def docs_init_def throws_def spec_of_def cards_of_def docs_copied_def)
qed

interpretation api_docs: page_guarded ApiDocs docs_inv "\<lambda>s e. \<not> crashed s" docs_cmd_ok
  by unfold_locales
    (auto simp: docs_mounted docs_user_inv docs_user_cmds docs_resume_inv docs_refresh_inv ApiDocs_view_def docs_cmd_ok_def)


section \<open>Properties\<close>

text \<open>C37: The endpoints of the reference are grouped by their first tag: one group for each tag that occurs, with exactly the operations
  of the tag, in the order of the document, under no tag twice. A tag that every object inherits is an error instead, which takes
  the whole page down.
\<close>

theorem groupedPaths_by_tag:
  "groupedPaths paths =
   (if \<exists>e \<in> set (endpoints_of paths). endpoint_tag e \<in> set inherited_names then None
    else Some (enumerated (groups_by_tag (endpoints_of paths))))"
  by (rule grouped_paths)

theorem groupedPaths_by_tag_witness:
  "\<exists>gs. groupedPaths (sp_paths mockSpec) = Some gs \<and> map fst gs = [''Tunnels'', ''Domains'', ''Networks'', ''Auth''] \<and>
     map (length \<circ> snd) gs = [7, 4, 6, 1]"
proof -
  let ?es = "endpoints_of (sp_paths mockSpec)"
  have "list_all (\<lambda>e. endpoint_tag e \<notin> set inherited_names) ?es" by code_simp
  then have "groupedPaths (sp_paths mockSpec) = Some (enumerated (groups_by_tag ?es))"
    using groupedPaths_by_tag [of "sp_paths mockSpec"] by (auto simp: list_all_iff)
  moreover have "map_option (\<lambda>gs. (map fst gs, map (length \<circ> snd) gs)) (groupedPaths (sp_paths mockSpec)) =
      Some ([''Tunnels'', ''Domains'', ''Networks'', ''Auth''], [7, 4, 6, 1])" by code_simp
  ultimately show ?thesis by auto
qed

text \<open>The built-in specification is one the page can show.\<close>

lemma mockSpec_fits: "fits (sp_paths mockSpec)"
  by code_simp

text \<open>C18: the reference stays up whatever the reader opens, and every card has its sample in each of the four languages, for a
  specification of which every operation has a first tag that is not the name of an inherited property, a method that is not empty,
  and a path whose third segment, where there is one, is not empty once an \<open>s\<close> at its end is dropped. The specification that is
  built in is of this kind.\<close>

theorem reference_stays_up:
  assumes "page_reach ApiDocs (s, ks, out)"
    and "fits (sp_paths (spec_of s))"
  shows "\<not> crashed s \<and> (\<forall>(k, path, verb, oper) \<in> set (cards_of s). \<forall>tab. \<exists>code. sample_code tab verb path oper = Inr code) \<and>
    fits (sp_paths mockSpec)"
proof -
  have "\<not> crashed s" using api_docs.reachable [OF assms(1)] assms(2) by (auto simp: docs_inv_def)
  moreover have "\<exists>code. sample_code tab verb path oper = Inr code" if "(k, path, verb, oper) \<in> set (cards_of s)" for k path verb oper tab
    using card_endpoint [OF that] assms(2) sample_code_fails [of tab verb path oper]
    by (cases "sample_code tab verb path oper") (auto simp: fits_def)
  ultimately show ?thesis using mockSpec_fits by fast
qed

definition spec_failed :: "openapi_spec query" where
  "spec_failed = \<lparr>q_isLoading = False, q_isError = True, q_data = None\<rparr>"

lemma docs_shown: "page_reach ApiDocs (show_spec q docs_init, [], [CallApi ''GET'' ''/v1/openapi.json'' JUndef])"
proof (rule page_play_mount)
  show "page_play ApiDocs [Change (show_spec q)] (docs_init, [], [CallApi ''GET'' ''/v1/openapi.json'' JUndef]) =
      Some (show_spec q docs_init, [], [CallApi ''GET'' ''/v1/openapi.json'' JUndef])"
    by (simp add: docs_refresh_def) (auto simp: docs_init_def)
qed simp

lemma spec_of_show [simp]: "spec_of (show_spec q s) = (case q_data q of None \<Rightarrow> mockSpec | Some d \<Rightarrow> d)"
  by (simp add: show_spec_def commit_def spec_of_def Let_def)

theorem reference_stays_up_witness:
  "\<exists>s ks out. page_reach ApiDocs (s, ks, out) \<and> \<not> crashed s \<and> spec_of s = mockSpec \<and> length (cards_of s) = 18 \<and>
     (\<forall>(k, path, verb, oper) \<in> set (cards_of s). \<forall>tab. \<exists>code. sample_code tab verb path oper = Inr code)"
proof -
  let ?s = "show_spec spec_failed docs_init"
  have spec: "spec_of ?s = mockSpec" by (simp add: spec_failed_def)
  then have "fits (sp_paths (spec_of ?s))" using mockSpec_fits by simp
  note up = reference_stays_up [OF docs_shown this]
  have "length (cards_of ?s) = 18" by code_simp
  with up spec docs_shown show ?thesis by blast
qed

text \<open>A tag that every object inherits takes the page down for good.\<close>

definition odd_spec :: openapi_spec where
  "odd_spec = \<lparr>sp_paths = [(''/v1/x'', [(''get'', operation_of ''constructor'' ''x'' None None [])])]\<rparr>"

theorem inherited_tag_crash:
  "\<exists>s ks out. page_reach ApiDocs (s, ks, out) \<and> crashed s \<and> ApiDocs_view s = Null"
proof -
  let ?s = "show_spec (q_success odd_spec) docs_init"
  have "groupedPaths (sp_paths odd_spec) = None" by code_simp
  then have "crashed ?s" by (simp add: show_spec_def commit_def throws_def spec_of_def Let_def)
  then show ?thesis using docs_shown [of "q_success odd_spec"] by (auto simp: ApiDocs_view_def)
qed

lemma is_json_example:
  assumes "\<forall>p \<in> snd ` set ps. sch_example p = JUndef \<or> is_json (sch_example p)"
  shows "is_json (example_of ps)"
proof -
  have "is_json (coalesce (sch_example p) (JStr t))" if "(k, p) \<in> set ps" for k p t
    using assms that by (cases "sch_example p = JUndef") (force simp: coalesce_def nullish_def)+
  then show ?thesis by (auto simp: example_of_def)
qed

text \<open>What a shell takes for the text of a word between apostrophes: everything up to the second one.\<close>

definition shell_word :: "string \<Rightarrow> string" where
  "shell_word w = takeWhile (\<lambda>c. c \<noteq> CHR 0x27) (drop 1 w)"

lemma takeWhile_tail: "c \<notin> set xs \<Longrightarrow> takeWhile (\<lambda>x. x \<noteq> c) (xs @ [c]) = xs"
  by (induction xs) auto

lemma shell_word_single_quoted: "shell_word (single_quoted arg) = arg \<longleftrightarrow> CHR 0x27 \<notin> set arg"
proof
  show "shell_word (single_quoted arg) = arg \<Longrightarrow> CHR 0x27 \<notin> set arg"
    unfolding shell_word_def by (metis (mono_tags, lifting) set_takeWhileD)
qed (simp add: shell_word_def single_quoted_def takeWhile_tail)

text \<open>C21: the text between the apostrophes of a command's \<open>-d\<close> argument is JSON, and reading it back gives an object with the
  properties of the body in their order: the declared example of each, or where there is none its type, \<open>string\<close> without one, in angle
  brackets. The shell passes on exactly this text if and only if no apostrophe occurs in it. No property is called \<open>__proto__\<close>.\<close>

theorem curl_body_reads_back:
  assumes "sends_body verb" and "json_schema (rb_content body) = Some s" and "sch_properties s = Some ps"
    and "\<forall>p \<in> snd ` set ps. sch_example p = JUndef \<or> is_json (sch_example p)" and "''__proto__'' \<notin> fst ` set ps"
  shows "\<exists>arg vs. generateCurl verb path params (Some body) = generateCurl verb path params None @ cont @ ''-d '' @ single_quoted arg \<and>
    json_read arg = Some (JObj vs) \<and> map fst vs = map fst ps \<and>
    (\<forall>i < length ps. snd (vs ! i) =
       (let p = snd (ps ! i) in
        if sch_example p = JUndef \<or> sch_example p = JNull
        then JStr (''<'' @ (case sch_type p of None \<Rightarrow> ''string'' | Some t \<Rightarrow> t) @ ''>'') else sch_example p)) \<and>
    (shell_word (single_quoted arg) = arg \<longleftrightarrow> CHR 0x27 \<notin> set arg)"
proof -
  let ?v = "\<lambda>(k, p). (k, coalesce (sch_example p) (JStr (placeholder (case sch_type p of None \<Rightarrow> ''string'' | Some t \<Rightarrow> t))))"
  have "filter (\<lambda>(k, p). k \<noteq> ''__proto__'') ps = ps" using assms(5) by (intro filter_True) force
  then have ex: "example_of ps = JObj (map ?v ps)" by (simp add: example_of_def)
  have "map fst (map ?v ps) = map fst ps" by auto
  moreover have "snd (map ?v ps ! i) = (let p = snd (ps ! i) in
      if sch_example p = JUndef \<or> sch_example p = JNull
      then JStr (''<'' @ (case sch_type p of None \<Rightarrow> ''string'' | Some t \<Rightarrow> t) @ ''>'') else sch_example p)" if "i < length ps" for i
    using that by (simp add: Let_def coalesce_def nullish_def placeholder_def split: prod.split)
  moreover have "json_read (json_pretty '''' (example_of ps)) = Some (JObj (map ?v ps))"
    using json_round_trip [OF is_json_example [OF assms(4)]] ex by simp
  moreover have "generateCurl verb path params (Some body) =
      generateCurl verb path params None @ cont @ ''-d '' @ single_quoted (json_pretty '''' (example_of ps))"
    using assms(1-3) by (auto simp: generateCurl_def curl_data_def Let_def single_quoted_def)
  ultimately show ?thesis
    by (intro exI [of _ "json_pretty '''' (example_of ps)"] exI [of _ "map ?v ps"]) (simp add: shell_word_single_quoted)
qed

theorem curl_body_reads_back_witness:
  "\<exists>arg. generateCurl ''post'' ''/v1/networks'' [] (Some \<lparr>rb_required = True, rb_content = [(''application/json'',
       sch_object [] [(''name'', sch ''string''), (''cidr'', Schema (Some ''string'') None None None None None (JStr ''10.0.0.0/24'') None None None)])]\<rparr>) =
     generateCurl ''post'' ''/v1/networks'' [] None @ cont @ ''-d '' @ single_quoted arg \<and>
     json_read arg = Some (JObj [(''name'', JStr ''<string>''), (''cidr'', JStr ''10.0.0.0/24'')])"
proof -
  let ?ps = "[(''name'', sch ''string''), (''cidr'', Schema (Some ''string'') None None None None None (JStr ''10.0.0.0/24'') None None None)]"
  have two: "vs = [(''name'', JStr ''<string>''), (''cidr'', JStr ''10.0.0.0/24'')]"
    if k: "map fst vs = [''name'', ''cidr'']" and v: "snd (vs ! 0) = JStr ''<string>''" "snd (vs ! 1) = JStr ''10.0.0.0/24''" for vs :: "(string \<times> json) list"
  proof -
    obtain a b where "vs = [(''name'', a), (''cidr'', b)]" using k by (auto simp: map_eq_Cons_conv)
    with v show ?thesis by simp
  qed
  let ?b = "\<lparr>rb_required = True, rb_content = [(''application/json'', sch_object [] ?ps)]\<rparr>"
  have h: "sends_body ''post''" "json_schema (rb_content ?b) = Some (sch_object [] ?ps)" "sch_properties (sch_object [] ?ps) = Some ?ps"
    "\<forall>p \<in> snd ` set ?ps. sch_example p = JUndef \<or> is_json (sch_example p)" "''__proto__'' \<notin> fst ` set ?ps"
    by (simp_all add: sends_body_def json_schema_def)
  obtain arg vs where r: "generateCurl ''post'' ''/v1/networks'' [] (Some ?b) =
      generateCurl ''post'' ''/v1/networks'' [] None @ cont @ ''-d '' @ single_quoted arg" "json_read arg = Some (JObj vs)"
    and k: "map fst vs = map fst ?ps"
    and v: "\<forall>i < length ?ps. snd (vs ! i) = (let p = snd (?ps ! i) in if sch_example p = JUndef \<or> sch_example p = JNull
        then JStr (''<'' @ (case sch_type p of None \<Rightarrow> ''string'' | Some t \<Rightarrow> t) @ ''>'') else sch_example p)"
    using curl_body_reads_back [OF h, of "''/v1/networks''" "[]"] by blast
  have "vs = [(''name'', JStr ''<string>''), (''cidr'', JStr ''10.0.0.0/24'')]"
    using k v [rule_format, of 0] v [rule_format, of 1] by (intro two) (simp_all add: Let_def)
  with r show ?thesis by blast
qed

text \<open>With a query parameter the command is the bare address: the headers that were appended, the token's among them, are gone.\<close>

theorem query_drops_headers:
  assumes "params_in ''query'' params \<noteq> []"
  shows "generateCurl verb path params body =
    curl_url verb (path @ ''?'' @ join_with ''&'' (map (\<lambda>p. pa_name p @ ''='' @ placeholder (pa_name p)) (params_in ''query'' params))) @
    curl_data verb body"
  using assms by (simp add: generateCurl_def Let_def)

lemma list_command_without_token:
  "\<not> js_includes (ok_text (sample_code Curl ''get'' ''/v1/tunnels'' (snd (hd tunnels_path)))) ''Authorization''"
  "js_includes (ok_text (sample_code Curl ''get'' ''/v1/tunnels/{id}'' (snd (hd one_tunnel_path)))) ''Authorization: Bearer <token>''"
  by code_simp+

text \<open>The Go and Python samples know the third segment of the path and the method only: the sample of the list is the one that
  gets a single tunnel, and those that list and create are never shown.\<close>

theorem sample_by_segment:
  assumes "path_tag path = path_tag path'"
  shows "generateGoSnippet verb path = generateGoSnippet verb path'" "generatePythonSnippet verb path = generatePythonSnippet verb path'"
  using assms by (simp_all add: generateGoSnippet_def generatePythonSnippet_def)

lemma list_sample_gets_one:
  "generateGoSnippet ''get'' ''/v1/tunnels'' = Inr (the (map_of go_snippets ''get-tunnel''))"
  "generateGoSnippet ''delete'' ''/v1/tunnels/{id}'' = Inr (the (map_of go_snippets ''delete-tunnel''))"
  by code_simp+

text \<open>\<open>list-tunnels\<close> is asked for by a method \<open>list\<close> on two segments that leave \<open>tunnels\<close>; HTTP has no such method.\<close>

lemma http_methods_generic:
  assumes "verb \<in> {''get'', ''post'', ''put'', ''patch'', ''delete'', ''head'', ''options'', ''trace''}"
  shows "verb @ ''-'' @ tag \<notin> {''list-tunnels'', ''create-tunnel''}"
  using assms by auto

end
