(* ===== verification/AuditPages.thy ===== *)
theory AuditPages
  imports Hooks UrlCoding
begin

text \<open>
  The audit pages of the admin console: the log with its filters, pages and export (\<open>pages/AuditLogs.tsx\<close>) and the
  reports (\<open>pages/AuditReports.tsx\<close>). Both write queries with \<open>URLSearchParams\<close>.
\<close>

section \<open>The audit log\<close>

record AuditLog =
  al_id :: string
  al_org_id :: string
  al_user_id :: string
  al_action :: string
  al_resource_type :: string
  al_resource_id :: string
  al_details :: string
  al_client_ip :: string
  al_created_at :: string

text \<open>The answer has the logs and the total, or not. The filters are an object over \<open>filter_keys\<close>.\<close>

record logs_answer =
  la_logs :: "AuditLog list option"
  la_total :: "int option"

record logs_page =
  logsQuery :: "logs_answer query"
  filters :: "string \<Rightarrow> string"
  logs_at :: int
  expandedRow :: "string option"

definition logs_init :: logs_page where
  "logs_init = \<lparr>logsQuery = q_pending, filters = (\<lambda>_. ''''), logs_at = 0, expandedRow = None\<rparr>"

definition filter_keys :: "string list" where
  "filter_keys = [''org_id'', ''action'', ''resource_type'', ''user_id'', ''from'', ''to'']"

definition logs_limit :: int where
  "logs_limit = 50"

definition buildQueryString :: "(string \<Rightarrow> string) \<Rightarrow> int \<Rightarrow> string" where
  "buildQueryString flt page =
     params_string (params_set ''offset'' (int_string (page * logs_limit)) (params_set ''limit'' (int_string logs_limit)
       (fold (\<lambda>k. params_set_if k (flt k)) filter_keys [])))"

definition logs_call :: "logs_page \<Rightarrow> cmd" where
  "logs_call s = CallApi ''GET'' (''/api/admin/v1/audit-logs?'' @ buildQueryString (filters s) (logs_at s)) JUndef"

definition exportUrl :: "logs_page \<Rightarrow> string" where
  "exportUrl s = ''/api/admin/v1/audit-logs/export?'' @ buildQueryString (filters s) (logs_at s)"

definition logs_total :: "logs_page \<Rightarrow> int" where
  "logs_total s = (case Option.bind (q_data (logsQuery s)) la_total of None \<Rightarrow> 0 | Some n \<Rightarrow> n)"

text \<open>\<open>Math.ceil(total / limit)\<close>.\<close>

definition totalPages :: "logs_page \<Rightarrow> int" where
  "totalPages s = - ((- logs_total s) div logs_limit)"

datatype logs_ev = SetFilter string string | PrevLogs | NextLogs | ToggleRow string | ExportLogs | RetryLogs

fun logs_user :: "logs_ev \<Rightarrow> logs_page \<Rightarrow> (logs_page, unit) effect" where
  "logs_user (SetFilter key v) s = (s\<lparr>filters := (filters s)(key := v), logs_at := 0\<rparr>, [], [])"
| "logs_user PrevLogs s = (s\<lparr>logs_at := logs_at s - 1\<rparr>, [], [])"
| "logs_user NextLogs s = (s\<lparr>logs_at := logs_at s + 1\<rparr>, [], [])"
| "logs_user (ToggleRow i) s = (s\<lparr>expandedRow := (if expandedRow s = Some i then None else Some i)\<rparr>, [], [])"
| "logs_user ExportLogs s = (s, [OpenTab (exportUrl s)], [])"
| "logs_user RetryLogs s = (s, [Refetch [''admin'', ''audit-logs'']], [])"

definition log_details :: "AuditLog \<Rightarrow> 'e ui" where
  "log_details l = Node ''TableRow''
     [Say (tr ''auditLogs.fullResourceId''), Say [Lit (al_resource_id l)], Say (tr ''auditLogs.fullOrgId''), Say [Lit (al_org_id l)],
      Say (tr ''auditLogs.fullUserId''), Say [Lit (al_user_id l)],
      only_if (al_details l \<noteq> '''') (Node ''div'' [Say (tr ''auditLogs.details''), Say [Lit (al_details l)]])]"

definition log_rows :: "(string \<Rightarrow> string) \<Rightarrow> string option \<Rightarrow> AuditLog \<Rightarrow> logs_ev ui list" where
  "log_rows toLocaleString expanded l =
     [Listens (ToggleRow (al_id l))
       [Node (if expanded = Some (al_id l) then ''ChevronDown'' else ''ChevronRight'') [], Say [Lit (toLocaleString (al_created_at l))],
        Node ''Badge'' [Say [Lit (al_action l)]], Say [Lit (al_resource_type l)], Say [Lit (take 12 (al_resource_id l))],
        Say [Lit (take 8 (al_org_id l))], Say [Lit (take 8 (al_user_id l))], Say [Lit (al_client_ip l)]],
      only_if (expanded = Some (al_id l)) (log_details l)]"

definition logs_shown :: "logs_page \<Rightarrow> AuditLog list" where
  "logs_shown s = data_or_empty (Option.bind (q_data (logsQuery s)) la_logs)"

definition logs_pager :: "logs_page \<Rightarrow> logs_ev ui" where
  "logs_pager s = only_if (totalPages s > 1) (Node ''div''
     [Button (logs_at s = 0) PrevLogs [Say (tr ''auditLogs.previous'')],
      Say [Tr ''auditLogs.page'' [(''current'', JNum (logs_at s + 1)), (''total'', JNum (totalPages s))]],
      Button (logs_at s \<ge> totalPages s - 1) NextLogs [Say (tr ''auditLogs.next'')]])"

definition logs_table :: "(string \<Rightarrow> string) \<Rightarrow> logs_page \<Rightarrow> logs_ev ui list" where
  "logs_table toLocaleString s =
     [Node ''Table''
       [head_row [''auditLogs.time'', ''auditLogs.action'', ''auditLogs.resource'', ''auditLogs.orgId'', ''auditLogs.userId'', ''auditLogs.clientIp''],
        Node ''TableBody'' (if q_isLoading (logsQuery s) then replicate 5 (Node ''TableRow'' (replicate 7 (Node ''Skeleton'' [])))
          else concat (map (log_rows toLocaleString (expandedRow s)) (logs_shown s)))],
      only_if (Option.bind (q_data (logsQuery s)) la_logs = Some []) (Say (tr ''auditLogs.noResults'')), logs_pager s]"

definition AuditLogs_view :: "(string \<Rightarrow> string) \<Rightarrow> logs_page \<Rightarrow> logs_ev ui" where
  "AuditLogs_view toLocaleString s = Node ''div''
     [Node ''h1'' [Say (tr ''auditLogs.title'')], Node ''p'' [Say (tr ''auditLogs.subtitle'')],
      Button False ExportLogs [Say (tr ''auditLogs.exportJson'')],
      Node ''Card'' (map (\<lambda>(k, lbl). Input (tr lbl) (filters s k) [] False (SetFilter k))
        [(''org_id'', ''auditLogs.orgId''), (''action'', ''auditLogs.action''), (''resource_type'', ''auditLogs.resourceType''),
         (''user_id'', ''auditLogs.userId''), (''from'', ''auditLogs.fromDate''), (''to'', ''auditLogs.toDate'')]),
      Node ''CardTitle'' [Say (tr ''auditLogs.results''),
        only_if (logs_total s > 0) (Say [Tr ''auditLogs.total'' [(''total'', JNum (logs_total s))]])],
      Node ''Card'' (if q_isError (logsQuery s) then [failed_load ''auditLogs.failedToLoad'' [Button False RetryLogs [Say (tr ''common.retry'')]]]
        else logs_table toLocaleString s)]"

definition logs_env :: "logs_page \<Rightarrow> logs_page \<Rightarrow> bool" where
  "logs_env s s' \<longleftrightarrow> (\<exists>q. s' = s\<lparr>logsQuery := q\<rparr>)"

definition AuditLogs :: "(string \<Rightarrow> string) \<Rightarrow> (logs_page, logs_ev, unit) page" where
  "AuditLogs toLocaleString =
     \<lparr>pg_mount = (logs_init, [logs_call logs_init], []), pg_view = AuditLogs_view toLocaleString, pg_user = logs_user,
      pg_resume = (\<lambda>_ _ s. (s, [], [])), pg_env = logs_env\<rparr>"

lemma AuditLogs_sel [simp]:
  "pg_mount (AuditLogs fmt) = (logs_init, [logs_call logs_init], [])" "pg_view (AuditLogs fmt) = AuditLogs_view fmt"
  "pg_user (AuditLogs fmt) = logs_user" "pg_resume (AuditLogs fmt) k r s = (s, [], [])" "pg_env (AuditLogs fmt) = logs_env"
  by (simp_all add: AuditLogs_def)

definition logs_inv :: "logs_page \<Rightarrow> unit list \<Rightarrow> bool" where
  "logs_inv s ks \<longleftrightarrow> 0 \<le> logs_at s"

fun logs_guard :: "logs_page \<Rightarrow> logs_ev \<Rightarrow> bool" where
  "logs_guard s PrevLogs = (logs_at s \<noteq> 0 \<and> totalPages s > 1)"
| "logs_guard s NextLogs = (logs_at s < totalPages s - 1)"
| "logs_guard s (SetFilter k v) = (k \<in> set filter_keys)"
| "logs_guard s _ = True"

fun logs_cmd_ok :: "cmd \<Rightarrow> bool" where
  "logs_cmd_ok (OpenTab u) = (\<exists>s. 0 \<le> logs_at s \<and> u = exportUrl s)"
| "logs_cmd_ok _ = True"

lemma events_log_details [simp]: "events (log_details l) = {}"
  by (simp add: log_details_def)

lemma log_rows_events: "u \<in> set (log_rows fmt x l) \<Longrightarrow> events u \<subseteq> {ToggleRow (al_id l)}"
  by (auto simp: log_rows_def split: if_splits)

lemma logs_parts_guarded:
  "e \<in> events (logs_pager s) \<Longrightarrow> logs_guard s e"
  "u \<in> set (logs_table fmt s) \<Longrightarrow> e \<in> events u \<Longrightarrow> logs_guard s e"
proof -
  show p: "e \<in> events (logs_pager s) \<Longrightarrow> logs_guard s e" for e
    by (auto simp: logs_pager_def split: if_splits)
  show "u \<in> set (logs_table fmt s) \<Longrightarrow> e \<in> events u \<Longrightarrow> logs_guard s e"
    using log_rows_events p by (fastforce simp: logs_table_def split: if_splits)
qed

lemma logs_offered: "e \<in> events (AuditLogs_view fmt s) \<Longrightarrow> logs_guard s e"
  using logs_parts_guarded(2) by (auto simp: AuditLogs_view_def filter_keys_def split: if_splits)

lemma logs_user_inv:
  "logs_inv s ks \<Longrightarrow> logs_guard s e \<Longrightarrow> logs_inv (fst (logs_user e s)) (ks @ snd (snd (logs_user e s)))"
  "logs_inv s ks \<Longrightarrow> list_all logs_cmd_ok (fst (snd (logs_user e s)))"
  by (cases e; auto simp: logs_inv_def)+

lemma logs_mounted: "logs_inv logs_init []" "logs_cmd_ok (logs_call logs_init)"
  by (simp_all add: logs_inv_def logs_init_def logs_call_def)

lemma logs_changed: "logs_inv s ks \<Longrightarrow> logs_inv s ls" "logs_inv s ks \<Longrightarrow> logs_env s s' \<Longrightarrow> logs_inv s' ks"
  by (auto simp: logs_inv_def logs_env_def)

interpretation audit_logs: page_guarded "AuditLogs fmt" logs_inv logs_guard logs_cmd_ok for fmt
  by unfold_locales (simp_all add: logs_mounted logs_user_inv logs_changed(2), erule logs_offered, erule logs_changed)

lemma limit_string: "int_string logs_limit = ''50''" "int_string (0 * logs_limit) = ''0''"
  by code_simp+

lemma query_of_filters:
  "query_parse (buildQueryString flt page) =
     Some (filter (\<lambda>(k, v). v \<noteq> '''') (map (\<lambda>k. (k, flt k)) filter_keys) @
       [(''limit'', int_string logs_limit), (''offset'', int_string (page * logs_limit))])"
proof -
  let ?ps = "filter (\<lambda>(k, v). v \<noteq> '''') (map (\<lambda>k. (k, flt k)) filter_keys)"
  have f: "fold (\<lambda>k. params_set_if k (flt k)) filter_keys [] = ?ps"
    by (subst fold_params_set_if) (auto simp: filter_keys_def)
  have l: "''limit'' \<notin> fst ` set ?ps" "''offset'' \<notin> fst ` set (?ps @ [(''limit'', int_string logs_limit)])"
    by (auto simp: filter_keys_def)
  show ?thesis
    unfolding buildQueryString_def f params_set_new [OF l(1)] params_set_new [OF l(2)] query_roundtrip by simp
qed

text \<open>C40: the log asks for what the filters say. In every reachable state the query string, read back, has the filters that
  are not empty, in the order of the form and with the texts as they were typed, the limit of fifty, and an offset that is
  a multiple of it and not negative; nothing typed can end the query.\<close>

theorem logs_query_reads_back:
  assumes "page_reach (AuditLogs fmt) (s, ks, out)"
  shows "\<exists>n. query_parse (buildQueryString (filters s) (logs_at s)) =
      Some (filter (\<lambda>(k, v). v \<noteq> '''') (map (\<lambda>k. (k, filters s k)) filter_keys) @ [(''limit'', ''50''), (''offset'', nat_string (50 * n))]) \<and>
    set (buildQueryString (filters s) (logs_at s)) \<inter> set ''?#'' = {}"
proof -
  have p: "0 \<le> logs_at s" using audit_logs.reachable [OF assms] by (simp add: logs_inv_def)
  then have "int_string (logs_at s * logs_limit) = nat_string (50 * nat (logs_at s))"
    by (simp add: int_string_def logs_limit_def nat_mult_distrib mult.commute)
  moreover have "set (buildQueryString (filters s) (logs_at s)) \<inter> set ''?#'' = {}"
    using params_string_safe by (auto simp: buildQueryString_def)
  ultimately show ?thesis unfolding query_of_filters limit_string by auto
qed

text \<open>The export is one page. Whatever the total is, everything the export button opens asks for fifty records at the
  offset of the page that is shown: what the other pages have is missing from the file.\<close>

theorem export_one_page:
  assumes "page_reach (AuditLogs fmt) (s, ks, out)" and "OpenTab u \<in> set out"
  shows "\<exists>q ps n. u = ''/api/admin/v1/audit-logs/export?'' @ q \<and> query_parse q = Some ps \<and> map_of ps ''limit'' = Some ''50'' \<and>
    map_of ps ''offset'' = Some (nat_string (50 * n))"
proof -
  from audit_logs.commands [OF assms] obtain t where t: "0 \<le> logs_at t" "u = exportUrl t" by auto
  let ?ps = "filter (\<lambda>(k, v). v \<noteq> '''') (map (\<lambda>k. (k, filters t k)) filter_keys)"
  have n: "map_of ?ps ''limit'' = None" "map_of ?ps ''offset'' = None"
    by (auto simp: map_of_eq_None_iff filter_keys_def)
  have "int_string (logs_at t * logs_limit) = nat_string (50 * nat (logs_at t))"
    using t(1) by (simp add: logs_limit_def int_string_def nat_mult_distrib mult.commute)
  then have "map_of (?ps @ [(''limit'', int_string logs_limit), (''offset'', int_string (logs_at t * logs_limit))]) ''limit'' = Some ''50''"
    "map_of (?ps @ [(''limit'', int_string logs_limit), (''offset'', int_string (logs_at t * logs_limit))]) ''offset'' =
      Some (nat_string (50 * nat (logs_at t)))"
    using n by (simp_all add: map_add_def limit_string)
  then show ?thesis using t(2) query_of_filters unfolding exportUrl_def by blast
qed

lemma log_events:
  "ExportLogs \<in> events (AuditLogs_view fmt s)"
  "\<not> q_isError (logsQuery s) \<Longrightarrow> totalPages s > 1 \<Longrightarrow> logs_at s < totalPages s - 1 \<Longrightarrow> NextLogs \<in> events (AuditLogs_view fmt s)"
  by (auto simp: AuditLogs_view_def logs_table_def logs_pager_def)

theorem logs_query_reads_back_witness:
  "\<exists>s ks out. page_reach (AuditLogs id) (s, ks, out) \<and>
     query_parse (buildQueryString (filters s) (logs_at s)) = Some [(''user_id'', ''a&b c''), (''limit'', ''50''), (''offset'', ''0'')] \<and>
     set (buildQueryString (filters s) (logs_at s)) \<inter> set ''?#'' = {}"
proof -
  have ev: "SetFilter ''user_id'' v \<in> events (AuditLogs_view fmt s)" for v fmt s
    by (simp add: AuditLogs_view_def)
  let ?s = "logs_init\<lparr>filters := (\<lambda>_. '''')(''user_id'' := ''a&b c''), logs_at := 0\<rparr>"
  have "page_play (AuditLogs id) [Do (SetFilter ''user_id'' ''a&b c'')] (logs_init, [], [logs_call logs_init]) = Some (?s, [], [logs_call logs_init])"
    using ev by (simp add: logs_init_def)
  then have r: "page_reach (AuditLogs id) (?s, [], [logs_call logs_init])"
    using page_play_mount [OF AuditLogs_sel(1)] by blast
  have f: "filter (\<lambda>(k, v). v \<noteq> '''') (map (\<lambda>k. (k, filters ?s k)) filter_keys) = [(''user_id'', ''a&b c'')]"
    by (simp add: filter_keys_def)
  have q: "query_parse (buildQueryString (filters ?s) (logs_at ?s)) = Some ([(''user_id'', ''a&b c'')] @ [(''limit'', ''50''), (''offset'', ''0'')])"
    using query_of_filters [of "filters ?s" 0] unfolding f limit_string by simp
  from logs_query_reads_back [OF r] have "set (buildQueryString (filters ?s) (logs_at ?s)) \<inter> set ''?#'' = {}" by (elim exE conjE)
  with r q show ?thesis by (intro exI [of _ ?s] exI [of _ "[]"] exI [of _ "[logs_call logs_init]"]) simp_all
qed

theorem export_one_page_witness:
  "\<exists>u q ps. u = ''/api/admin/v1/audit-logs/export?'' @ q \<and> query_parse q = Some ps \<and> map_of ps ''limit'' = Some ''50''"
proof -
  have "page_play (AuditLogs id) [Do ExportLogs] (logs_init, [], [logs_call logs_init]) =
      Some (logs_init, [], [logs_call logs_init, OpenTab (exportUrl logs_init)])"
    using log_events by simp
  then have "page_reach (AuditLogs id) (logs_init, [], [logs_call logs_init, OpenTab (exportUrl logs_init)])"
    using page_play_mount [OF AuditLogs_sel(1)] by blast
  from export_one_page [OF this, of "exportUrl logs_init"] show ?thesis by auto
qed

section \<open>The reports\<close>

record report_template =
  rt_id :: string
  rt_name :: string
  rt_description :: string

record audit_report =
  ar_id :: string
  ar_template :: string
  ar_generated_at :: string
  ar_format :: string
  ar_from :: string
  ar_to :: string
  ar_size_bytes :: nat

record history_answer =
  ha_reports :: "audit_report list option"
  ha_templates :: "report_template list option"

text \<open>\<open>ar_isSuccess\<close> is \<open>generateMutation.isSuccess\<close>.\<close>

record reports_page =
  historyQuery :: "history_answer query"
  generateMutation :: mutation
  ar_isSuccess :: bool
  selectedTemplate :: string
  fromDate :: string
  toDate :: string
  orgFilter :: string
  reportFormat :: string
  reportsTab :: string

definition reports_init :: reports_page where
  "reports_init = \<lparr>historyQuery = q_pending, generateMutation = idle, ar_isSuccess = False, selectedTemplate = '''', fromDate = '''', toDate = '''',
     orgFilter = '''', reportFormat = ''json'', reportsTab = ''generate''\<rparr>"

datatype reports_ev =
    SetReportsTab string | SelectTemplate string | SetFromDate string | SetToDate string | SetOrgFilter string | SetReportFormat string
  | GenerateReport | RetryHistory

datatype reports_k = KGenerateReport

abbreviation HISTORY_KEY :: "string list" where
  "HISTORY_KEY \<equiv> [''admin'', ''reports'', ''history'']"

abbreviation history_path :: string where
  "history_path \<equiv> ''/api/admin/v1/reports/history''"

definition report_params :: "reports_page \<Rightarrow> (string \<times> string) list" where
  "report_params s =
     params_set ''format'' (reportFormat s) (params_set_if ''org_id'' (orgFilter s)
       (params_set ''to'' (toDate s) (params_set ''from'' (fromDate s) (params_set ''template'' (selectedTemplate s) []))))"

definition handleGenerate :: "reports_page \<Rightarrow> (reports_page, reports_k) effect" where
  "handleGenerate s =
     (if selectedTemplate s = '''' \<or> fromDate s = '''' \<or> toDate s = '''' then (s, [], [])
      else (s\<lparr>generateMutation := mutate, ar_isSuccess := False\<rparr>,
        [CallApi ''GET'' (''/api/admin/v1/reports/audit?'' @ params_string (report_params s)) JUndef], [KGenerateReport]))"

definition generate_done :: "result \<Rightarrow> reports_page \<Rightarrow> (reports_page, reports_k) effect" where
  "generate_done r s =
     (case r of
        Inl err \<Rightarrow> (s\<lparr>generateMutation := settled r\<rparr>, [], [])
      | Inr v \<Rightarrow> (s\<lparr>generateMutation := settled r, ar_isSuccess := True\<rparr>, [Invalidate HISTORY_KEY], []))"

fun reports_user :: "reports_ev \<Rightarrow> reports_page \<Rightarrow> (reports_page, reports_k) effect" where
  "reports_user (SetReportsTab v) s = (s\<lparr>reportsTab := v\<rparr>, [], [])"
| "reports_user (SelectTemplate v) s = (s\<lparr>selectedTemplate := v\<rparr>, [], [])"
| "reports_user (SetFromDate v) s = (s\<lparr>fromDate := v\<rparr>, [], [])"
| "reports_user (SetToDate v) s = (s\<lparr>toDate := v\<rparr>, [], [])"
| "reports_user (SetOrgFilter v) s = (s\<lparr>orgFilter := v\<rparr>, [], [])"
| "reports_user (SetReportFormat v) s = (s\<lparr>reportFormat := v\<rparr>, [], [])"
| "reports_user GenerateReport s = handleGenerate s"
| "reports_user RetryHistory s = (s, [Refetch HISTORY_KEY], [])"

fun reports_resume :: "reports_k \<Rightarrow> result \<Rightarrow> reports_page \<Rightarrow> (reports_page, reports_k) effect" where
  "reports_resume KGenerateReport r s = generate_done r s"

definition report_templates :: "reports_page \<Rightarrow> report_template list" where
  "report_templates s = data_or_empty (Option.bind (q_data (historyQuery s)) ha_templates)"

definition reports_listed :: "reports_page \<Rightarrow> audit_report list" where
  "reports_listed s = data_or_empty (Option.bind (q_data (historyQuery s)) ha_reports)"

text \<open>\<open>error?.message || t(...)\<close>.\<close>

definition generate_notes :: "reports_page \<Rightarrow> reports_ev ui list" where
  "generate_notes s =
     [(case merror (generateMutation s) of
         None \<Rightarrow> Null
       | Some err \<Rightarrow> Say (if truthy (exn_message err) then [Lit (js_string (exn_message err))] else tr ''auditReports.generateFailed'')),
      only_if (ar_isSuccess s) (Say (tr ''auditReports.generateSuccess''))]"

definition report_config :: "reports_page \<Rightarrow> reports_ev ui" where
  "report_config s = Node ''Card''
     ([Say (tr ''auditReports.reportConfig''), Say (tr ''auditReports.reportTemplate''),
       Select (selectedTemplate s) (('''', tr ''auditReports.selectTemplate'') # map (\<lambda>t. (rt_id t, [Lit (rt_name t)])) (report_templates s)) SelectTemplate,
       Input (tr ''auditReports.fromDate'') (fromDate s) [] False SetFromDate, Input (tr ''auditReports.toDate'') (toDate s) [] False SetToDate,
       Input (tr ''auditReports.orgFilter'') (orgFilter s) [] False SetOrgFilter, Say (tr ''auditReports.exportFormat''),
       Select (reportFormat s) [(''json'', [Lit ''JSON'']), (''csv'', [Lit ''CSV'']), (''pdf'', [Lit ''PDF''])] SetReportFormat,
       Button (isPending (generateMutation s) \<or> selectedTemplate s = '''' \<or> fromDate s = '''' \<or> toDate s = '''') GenerateReport
         [Say (tr (if isPending (generateMutation s) then ''auditReports.generating'' else ''auditReports.generateReport''))]] @ generate_notes s)"

definition template_cards :: "reports_page \<Rightarrow> reports_ev ui" where
  "template_cards s = Node ''Card'' (Say (tr ''auditReports.availableTemplates'') #
     (if q_isLoading (historyQuery s) then replicate 5 (Node ''Skeleton'' [])
      else map (\<lambda>t. Button False (SelectTemplate (rt_id t)) [Say [Lit (rt_name t)], Say [Lit (rt_description t)]]) (report_templates s)))"

definition report_row :: "(string \<Rightarrow> string) \<Rightarrow> audit_report \<Rightarrow> reports_ev ui" where
  "report_row toLocaleString r = Node ''TableRow''
     [Say [Lit (ar_id r)], Node ''Badge'' [Say [Lit (ar_template r)]], Say [Lit (ar_from r @ '' to '' @ ar_to r)],
      Node ''Badge'' [Say [Lit (ar_format r)]], Say [Lit (toLocaleString (ar_generated_at r))], Say [Lit (toFixed1 (ar_size_bytes r) 1024 @ '' KB'')]]"

definition reports_history :: "(string \<Rightarrow> string) \<Rightarrow> reports_page \<Rightarrow> reports_ev ui" where
  "reports_history toLocaleString s =
     (let q = historyQuery s; rs = reports_listed s in
      Node ''Card''
       [Node ''CardTitle'' [Say (tr ''auditReports.previousReports''), only_if (rs \<noteq> []) (Say [Lit (''('' @ nat_string (length rs) @ '')'')])],
        if q_isLoading q then Node ''div'' (replicate 3 (Node ''Skeleton'' []))
        else if q_isError q then failed_load ''auditReports.failedToLoad'' [Button False RetryHistory [Say (tr ''common.retry'')]]
        else if rs = [] then Say (tr ''auditReports.noReports'')
        else Node ''Table''
         [head_row [''auditReports.report'', ''auditReports.template'', ''auditReports.dateRange'', ''auditReports.format'', ''auditReports.generated'',
            ''auditReports.size''],
          Node ''TableBody'' (map (report_row toLocaleString) rs)]])"

definition AuditReports_view :: "(string \<Rightarrow> string) \<Rightarrow> reports_page \<Rightarrow> reports_ev ui" where
  "AuditReports_view toLocaleString s = Node ''div''
     [Node ''h1'' [Say (tr ''auditReports.title'')], Node ''p'' [Say (tr ''auditReports.subtitle'')],
      Button False (SetReportsTab ''generate'') [Say (tr ''auditReports.generateReport'')],
      Button False (SetReportsTab ''history'') [Say (tr ''auditReports.reportHistory'')],
      only_if (reportsTab s = ''generate'') (Node ''div'' [report_config s, template_cards s]),
      only_if (reportsTab s = ''history'') (reports_history toLocaleString s)]"

definition reports_env :: "reports_page \<Rightarrow> reports_page \<Rightarrow> bool" where
  "reports_env s s' \<longleftrightarrow> (\<exists>q. s' = s\<lparr>historyQuery := q\<rparr>)"

definition AuditReports :: "(string \<Rightarrow> string) \<Rightarrow> (reports_page, reports_ev, reports_k) page" where
  "AuditReports toLocaleString =
     \<lparr>pg_mount = (reports_init, [CallApi ''GET'' history_path JUndef], []), pg_view = AuditReports_view toLocaleString, pg_user = reports_user,
      pg_resume = reports_resume, pg_env = reports_env\<rparr>"

lemma AuditReports_sel [simp]:
  "pg_mount (AuditReports fmt) = (reports_init, [CallApi ''GET'' history_path JUndef], [])" "pg_view (AuditReports fmt) = AuditReports_view fmt"
  "pg_user (AuditReports fmt) = reports_user" "pg_resume (AuditReports fmt) = reports_resume" "pg_env (AuditReports fmt) = reports_env"
  by (simp_all add: AuditReports_def)

definition reports_inv :: "reports_page \<Rightarrow> reports_k list \<Rightarrow> bool" where
  "reports_inv s ks \<longleftrightarrow> flags (isPending (generateMutation s)) (\<lambda>k. k = KGenerateReport) ks \<and> reportFormat s \<in> {''json'', ''csv'', ''pdf''}"

fun reports_guard :: "reports_page \<Rightarrow> reports_ev \<Rightarrow> bool" where
  "reports_guard s GenerateReport = (\<not> isPending (generateMutation s))"
| "reports_guard s (SetReportFormat v) = (v \<in> {''json'', ''csv'', ''pdf''})"
| "reports_guard s _ = True"

text \<open>What a request for a report says, in the order of the query.\<close>

definition report_query :: "(string \<times> string) list \<Rightarrow> bool" where
  "report_query ps \<longleftrightarrow>
     (\<exists>t f u rest fm. ps = [(''template'', t), (''from'', f), (''to'', u)] @ rest @ [(''format'', fm)] \<and> t \<noteq> '''' \<and> f \<noteq> '''' \<and> u \<noteq> '''' \<and>
        (rest = [] \<or> (\<exists>org. org \<noteq> '''' \<and> rest = [(''org_id'', org)])) \<and> fm \<in> {''json'', ''csv'', ''pdf''})"

fun reports_cmd_ok :: "cmd \<Rightarrow> bool" where
  "reports_cmd_ok (CallApi m p b) =
     (m = ''GET'' \<and> (p = history_path \<or> (\<exists>ps. p = ''/api/admin/v1/reports/audit?'' @ params_string ps \<and> report_query ps)))"
| "reports_cmd_ok _ = True"

lemma reports_parts_guarded:
  "e \<in> events (report_config s) \<Longrightarrow> reports_guard s e" "events (template_cards s) \<subseteq> range SelectTemplate"
  "events (reports_history fmt s) \<subseteq> {RetryHistory}"
  by (auto simp: report_config_def generate_notes_def template_cards_def reports_history_def report_row_def Let_def split: if_splits option.splits)

lemma reports_offered: "e \<in> events (AuditReports_view fmt s) \<Longrightarrow> reports_guard s e"
  using reports_parts_guarded(1) [of e s] reports_parts_guarded(2) [of s] reports_parts_guarded(3) [of fmt s]
  by (auto simp: AuditReports_view_def split: if_splits)

lemma report_params_query:
  "selectedTemplate s \<noteq> '''' \<Longrightarrow> fromDate s \<noteq> '''' \<Longrightarrow> toDate s \<noteq> '''' \<Longrightarrow> reportFormat s \<in> {''json'', ''csv'', ''pdf''} \<Longrightarrow>
   report_query (report_params s)"
  by (auto simp: report_query_def report_params_def params_set_if_def)

lemma reports_user_inv:
  assumes "reports_inv s ks" and "reports_guard s e"
  shows "reports_inv (fst (reports_user e s)) (ks @ snd (snd (reports_user e s)))" and "list_all reports_cmd_ok (fst (snd (reports_user e s)))"
  using assms report_params_query [of s] by (cases e; fastforce simp: reports_inv_def flags_def handleGenerate_def)+

lemma reports_resume_inv:
  assumes "reports_inv s (ks1 @ k # ks2)"
  shows "reports_inv (fst (reports_resume k r s)) (ks1 @ ks2 @ snd (snd (reports_resume k r s)))"
    and "list_all reports_cmd_ok (fst (snd (reports_resume k r s)))"
  using assms by (cases k; cases r; auto simp: reports_inv_def flags_def generate_done_def split: if_splits)+

lemma reports_mounted: "reports_inv reports_init []"
  by (simp add: reports_inv_def reports_init_def flags_def)

lemma reports_changed: "reports_inv s ks \<Longrightarrow> reports_env s s' \<Longrightarrow> reports_inv s' ks"
  by (auto simp: reports_inv_def reports_env_def)

interpretation audit_reports: page_guarded "AuditReports fmt" reports_inv reports_guard reports_cmd_ok for fmt
  by unfold_locales (simp_all add: reports_mounted reports_user_inv reports_resume_inv reports_changed, erule reports_offered)

text \<open>What a report is asked with. Read back, the query of every report has a template, a first and a last day that are
  not empty, the organization only where one was entered, and one of the three formats; one report at a time is generated.
  That the first day is not after the last one is not checked.\<close>

theorem report_requests_sound:
  assumes "page_reach (AuditReports fmt) (s, ks, out)" and "CallApi m p b \<in> set out" and "p \<noteq> ''/api/admin/v1/reports/history''"
  shows "(\<exists>q ps. p = ''/api/admin/v1/reports/audit?'' @ q \<and> query_parse q = Some ps \<and> report_query ps) \<and>
    waiting (\<lambda>k. k = KGenerateReport) ks = (if isPending (generateMutation s) then 1 else 0)"
  using audit_reports.commands [OF assms(1,2)] audit_reports.reachable [OF assms(1)] assms(3) query_roundtrip
  by (auto simp: reports_inv_def flags_def)

lemma reports_init_sel [simp]:
  "generateMutation reports_init = idle" "reportsTab reports_init = ''generate''" "selectedTemplate reports_init = ''''"
  "orgFilter reports_init = ''''" "reportFormat reports_init = ''json''"
  by (simp_all add: reports_init_def)

theorem report_requests_sound_witness:
  "\<exists>s ks out. page_reach (AuditReports id) (s, ks, out) \<and> length out = 2 \<and> waiting (\<lambda>k. k = KGenerateReport) ks = 1"
proof -
  define q where "q = q_success \<lparr>ha_reports = None, ha_templates = Some [\<lparr>rt_id = ''soc2'', rt_name = ''SOC 2'', rt_description = ''''\<rparr>]\<rparr>"
  have q: "q_data q = Some \<lparr>ha_reports = None, ha_templates = Some [\<lparr>rt_id = ''soc2'', rt_name = ''SOC 2'', rt_description = ''''\<rparr>]\<rparr>"
    by (simp add: q_def)
  have ev: "reportsTab s = ''generate'' \<Longrightarrow> {SetFromDate v, SetToDate v} \<subseteq> events (AuditReports_view id s)"
    "reportsTab s = ''generate'' \<Longrightarrow> historyQuery s = q \<Longrightarrow> SelectTemplate ''soc2'' \<in> events (AuditReports_view id s)"
    "reportsTab s = ''generate'' \<Longrightarrow> selectedTemplate s \<noteq> '''' \<Longrightarrow> fromDate s \<noteq> '''' \<Longrightarrow> toDate s \<noteq> '''' \<Longrightarrow> \<not> isPending (generateMutation s) \<Longrightarrow>
      GenerateReport \<in> events (AuditReports_view id s)" for s v
    by (auto simp: AuditReports_view_def report_config_def report_templates_def q)
  let ?play = "[Change (\<lambda>s. s\<lparr>historyQuery := q\<rparr>), Do (SelectTemplate ''soc2''), Do (SetFromDate ''2026-01-01''), Do (SetToDate ''2026-01-31''),
    Do GenerateReport]"
  have "\<exists>s ks p. page_play (AuditReports id) ?play (reports_init, [], [CallApi ''GET'' history_path JUndef]) =
      Some (s, ks, [CallApi ''GET'' history_path JUndef, CallApi ''GET'' p JUndef]) \<and> p \<noteq> history_path \<and> isPending (generateMutation s)"
    using ev by (auto simp: reports_env_def handleGenerate_def)
  then obtain s ks p where r: "page_reach (AuditReports id) (s, ks, [CallApi ''GET'' history_path JUndef, CallApi ''GET'' p JUndef])"
    "p \<noteq> history_path" "isPending (generateMutation s)"
    using page_play_mount [OF AuditReports_sel(1)] by blast
  then have "waiting (\<lambda>k. k = KGenerateReport) ks = 1" using report_requests_sound [OF r(1), of "''GET''" p JUndef] by simp
  with r(1) show ?thesis by (metis One_nat_def length_Cons list.size(3) numeral_2_eq_2)
qed

end
