(* ===== verification/ApiClient.thy ===== *)
theory ApiClient
  imports Prelude
begin

text \<open>
  The HTTP client of both front ends, \<^verbatim>\<open>web/src/lib/api.ts\<close> and
  \<^verbatim>\<open>admin/src/lib/api.ts\<close>. The two classes are the same code over different storage
  keys and a different refresh endpoint, which is the record \<open>client_cfg\<close>; every
  definition takes it as its first argument.

  The model has two layers over the same pieces. \<open>request\<close> is the method run to its end
  with nothing else happening meanwhile; the network is a function of the requests sent so
  far and the request at hand, so every reaction of a server is an instance. \<open>cstep\<close>
  is the same code cut at its \<open>await\<close>s, with any number of requests in flight, the
  promise of the running refresh shared between them, and any answer from the network at
  any time.
\<close>

section \<open>Configuration, requests and responses\<close>

record client_cfg =
  access_key :: string
  refresh_key :: string
  refresh_path :: string

definition web_cfg :: client_cfg where
  "web_cfg = \<lparr>access_key = ''access_token'', refresh_key = ''refresh_token'',
     refresh_path = ''/v1/auth/refresh''\<rparr>"

definition admin_cfg :: client_cfg where
  "admin_cfg = \<lparr>access_key = ''admin_access_token'', refresh_key = ''admin_refresh_token'',
     refresh_path = ''/api/admin/v1/auth/refresh''\<rparr>"

text \<open>\<open>RequestInit\<close>: what a caller passes; a body is the value given to \<open>JSON.stringify\<close>.\<close>

record request_init =
  ri_method :: string
  ri_headers :: "string \<rightharpoonup> string"
  ri_body :: "json option"

definition get_init :: request_init where
  "get_init = \<lparr>ri_method = ''GET'', ri_headers = Map.empty, ri_body = None\<rparr>"

definition send_init :: "string \<Rightarrow> json option \<Rightarrow> request_init" where
  "send_init m b = \<lparr>ri_method = m, ri_headers = Map.empty, ri_body = b\<rparr>"

record http_request =
  hr_url :: string
  hr_method :: string
  hr_headers :: "string \<rightharpoonup> string"
  hr_body :: "json option"

text \<open>A response; \<open>payload\<close> is \<^const>\<open>None\<close> where \<open>res.json()\<close> rejects.\<close>

record http_response =
  status :: nat
  statusText :: string
  payload :: "json option"

datatype fetch_result = NetworkError string | Response http_response

definition res_ok :: "http_response \<Rightarrow> bool" where
  "res_ok r \<longleftrightarrow> 200 \<le> status r \<and> status r \<le> 299"

type_synonym net = "http_request list \<Rightarrow> http_request \<Rightarrow> fetch_result"

section \<open>The client's state\<close>

text \<open>
  The fields of \<open>ApiClient\<close> beside the refresh promise, the browser's \<open>localStorage\<close>
  (\<open>storage\<close>), and the requests sent so far, oldest first.
\<close>

record client =
  storage :: "string \<rightharpoonup> string"
  token :: json
  baseUrl :: string
  sent :: "http_request list"

definition readToken :: "client_cfg \<Rightarrow> 'a client_scheme \<Rightarrow> json" where
  "readToken cfg c = (case storage c (access_key cfg) of None \<Rightarrow> JNull | Some s \<Rightarrow> JStr s)"

definition writeToken :: "client_cfg \<Rightarrow> json \<Rightarrow> 'a client_scheme \<Rightarrow> 'a client_scheme" where
  "writeToken cfg t c = c\<lparr>storage := (storage c)(access_key cfg \<mapsto> js_string t)\<rparr>"

definition removeToken :: "client_cfg \<Rightarrow> 'a client_scheme \<Rightarrow> 'a client_scheme" where
  "removeToken cfg c = c\<lparr>storage := (storage c)(access_key cfg := None)\<rparr>"

text \<open>The constructor, from the build mode, the configured base URL and the storage.\<close>

definition new_client :: "client_cfg \<Rightarrow> bool \<Rightarrow> string option \<Rightarrow> (string \<rightharpoonup> string) \<Rightarrow> client" where
  "new_client cfg is_prod env_url st =
     \<lparr>storage = st,
      token = (case st (access_key cfg) of None \<Rightarrow> JNull | Some s \<Rightarrow> JStr s),
      baseUrl = (if is_prod then (case env_url of None \<Rightarrow> '''' | Some u \<Rightarrow> u) else ''''),
      sent = []\<rparr>"

definition setToken :: "client_cfg \<Rightarrow> json \<Rightarrow> 'a client_scheme \<Rightarrow> 'a client_scheme" where
  "setToken cfg t c = writeToken cfg t (c\<lparr>token := t\<rparr>)"

definition clearToken :: "client_cfg \<Rightarrow> 'a client_scheme \<Rightarrow> 'a client_scheme" where
  "clearToken cfg c = removeToken cfg (c\<lparr>token := JNull\<rparr>)"

definition buildUrl :: "'a client_scheme \<Rightarrow> string \<Rightarrow> string" where
  "buildUrl c path = (if baseUrl c \<noteq> '''' then baseUrl c @ path else path)"

definition fetch :: "net \<Rightarrow> http_request \<Rightarrow> 'a client_scheme \<Rightarrow> fetch_result \<times> 'a client_scheme" where
  "fetch net r c = (net (sent c) r, c\<lparr>sent := sent c @ [r]\<rparr>)"

section \<open>Refreshing the access token\<close>

definition refresh_request :: "client_cfg \<Rightarrow> 'a client_scheme \<Rightarrow> string \<Rightarrow> http_request" where
  "refresh_request cfg c rt =
     \<lparr>hr_url = buildUrl c (refresh_path cfg), hr_method = ''POST'',
      hr_headers = [''Content-Type'' \<mapsto> ''application/json''],
      hr_body = Some (JObj [(''refresh_token'', JStr rt)])\<rparr>"

text \<open>The refresh token to send, where there is one: \<open>if (!refresh) return null\<close>.\<close>

definition stored_refresh :: "client_cfg \<Rightarrow> 'a client_scheme \<Rightarrow> string option" where
  "stored_refresh cfg c =
     (case storage c (refresh_key cfg) of None \<Rightarrow> None | Some rt \<Rightarrow> if rt = '''' then None else Some rt)"

text \<open>\<open>_doRefresh\<close> from the answer of its \<open>fetch\<close> on, the \<open>catch\<close> included.\<close>

definition refresh_done ::
  "client_cfg \<Rightarrow> fetch_result \<Rightarrow> 'a client_scheme \<Rightarrow> json \<times> 'a client_scheme" where
  "refresh_done cfg res c =
     (case res of
        NetworkError _ \<Rightarrow> (JNull, clearToken cfg c)
      | Response r \<Rightarrow>
          if \<not> res_ok r then (JNull, clearToken cfg c)
          else (case payload r of
              None \<Rightarrow> (JNull, clearToken cfg c)
            | Some data \<Rightarrow>
                if nullish data then (JNull, clearToken cfg c)
                else
                  let a = jprop data ''access_token'';
                      rt = jprop data ''refresh_token'';
                      c1 = (if truthy a then setToken cfg a c else c);
                      c2 = (if truthy rt
                            then c1\<lparr>storage := (storage c1)(refresh_key cfg \<mapsto> js_string rt)\<rparr>
                            else c1)
                  in (coalesce a JNull, c2)))"

definition doRefresh ::
  "client_cfg \<Rightarrow> net \<Rightarrow> 'a client_scheme \<Rightarrow> json \<times> 'a client_scheme" where
  "doRefresh cfg net c =
     (case stored_refresh cfg c of
        None \<Rightarrow> (JNull, c)
      | Some rt \<Rightarrow> let (res, c1) = fetch net (refresh_request cfg c rt) c in refresh_done cfg res c1)"

section \<open>A request\<close>

definition reload_token :: "client_cfg \<Rightarrow> 'a client_scheme \<Rightarrow> 'a client_scheme" where
  "reload_token cfg c = (if truthy (token c) then c else c\<lparr>token := readToken cfg c\<rparr>)"

definition bearer :: "json \<Rightarrow> string" where
  "bearer t = ''Bearer '' @ js_string t"

definition request_headers :: "json \<Rightarrow> request_init \<Rightarrow> (string \<rightharpoonup> string)" where
  "request_headers t opts =
     (let h = [''Content-Type'' \<mapsto> ''application/json''] ++ ri_headers opts
      in if truthy t then h(''Authorization'' \<mapsto> bearer t) else h)"

definition mk_request ::
  "'a client_scheme \<Rightarrow> string \<Rightarrow> request_init \<Rightarrow> (string \<rightharpoonup> string) \<Rightarrow> http_request" where
  "mk_request c path opts h =
     \<lparr>hr_url = buildUrl c path, hr_method = ri_method opts, hr_headers = h, hr_body = ri_body opts\<rparr>"

text \<open>The \<open>ApiError\<close> built from a response that is not ok.\<close>

definition response_error :: "http_response \<Rightarrow> exn" where
  "response_error r =
     (case payload r of
        None \<Rightarrow> ApiError (JStr ''HTTP_ERROR'') (JStr (statusText r)) JUndef
      | Some body \<Rightarrow>
          if nullish body then ApiError (JStr ''HTTP_ERROR'') (JStr (statusText r)) JUndef
          else let errObj = or_else (jprop body ''error'') body in
            ApiError (coalesce (jprop errObj ''code'') (JStr ''UNKNOWN''))
              (coalesce (jprop errObj ''message'') (JStr (statusText r)))
              (jprop body ''details''))"

text \<open>How the last response ends the request.\<close>

definition finish :: "fetch_result \<Rightarrow> exn + json" where
  "finish res =
     (case res of
        NetworkError m \<Rightarrow> Inl (JsError m)
      | Response r \<Rightarrow>
          if \<not> res_ok r then Inl (response_error r)
          else if status r = 204 then Inr JUndef
          else (case payload r of None \<Rightarrow> Inl (JsError ''invalid JSON'') | Some v \<Rightarrow> Inr v))"

definition needs_refresh :: "fetch_result \<Rightarrow> 'a client_scheme \<Rightarrow> bool" where
  "needs_refresh res c =
     (case res of NetworkError _ \<Rightarrow> False | Response r \<Rightarrow> status r = 401 \<and> truthy (token c))"

definition request ::
  "client_cfg \<Rightarrow> net \<Rightarrow> string \<Rightarrow> request_init \<Rightarrow> 'a client_scheme \<Rightarrow> (exn + json) \<times> 'a client_scheme" where
  "request cfg net path opts c =
     (let c0 = reload_token cfg c;
          h = request_headers (token c0) opts;
          (res, c1) = fetch net (mk_request c0 path opts h) c0
      in if needs_refresh res c1 then
           let (t, c2) = doRefresh cfg net c1 in
           if truthy t then
             let (res2, c3) = fetch net (mk_request c2 path opts (h(''Authorization'' \<mapsto> bearer t))) c2
             in (finish res2, c3)
           else (finish res, c2)
         else (finish res, c1))"

text \<open>The exported functions of the two modules.\<close>

definition web_apiRequest ::
  "net \<Rightarrow> string \<Rightarrow> request_init \<Rightarrow> 'a client_scheme \<Rightarrow> (exn + json) \<times> 'a client_scheme" where
  "web_apiRequest net path opts c = request web_cfg net path opts c"

definition admin_apiRequest ::
  "net \<Rightarrow> string \<Rightarrow> request_init \<Rightarrow> 'a client_scheme \<Rightarrow> (exn + json) \<times> 'a client_scheme" where
  "admin_apiRequest net path opts c = request admin_cfg net path opts c"

section \<open>Requests in flight\<close>

text \<open>
  A request between two \<open>await\<close>s. The header map and the first response are local
  variables of the method; \<open>AwaitOwn\<close> is the call of \<open>refreshToken\<close> that created the
  promise and will reset the field, \<open>AwaitJoin\<close> one that found a promise there.
\<close>

datatype proc =
    Fetching1 string request_init "string \<rightharpoonup> string"
  | AwaitOwn nat string request_init "string \<rightharpoonup> string" fetch_result
  | AwaitJoin nat string request_init "string \<rightharpoonup> string" fetch_result
  | Fetching2
  | Done "exn + json"

text \<open>
  The promises created by \<open>_doRefresh\<close>, by number: \<^const>\<open>None\<close> while its \<open>fetch\<close>
  is in flight, then the value it settled to.
\<close>

record conc = client +
  refreshPromise :: "nat option"
  promises :: "json option list"
  procs :: "proc list"

definition conc_init :: "client \<Rightarrow> conc" where
  "conc_init c = \<lparr>storage = storage c, token = token c, baseUrl = baseUrl c, sent = sent c,
     refreshPromise = None, promises = [], procs = []\<rparr>"

definition client_of :: "conc \<Rightarrow> client" where
  "client_of s = \<lparr>storage = storage s, token = token s, baseUrl = baseUrl s, sent = sent s\<rparr>"

text \<open>The call of \<open>request\<close> up to its first \<open>fetch\<close>.\<close>

definition start_request :: "client_cfg \<Rightarrow> string \<Rightarrow> request_init \<Rightarrow> conc \<Rightarrow> conc" where
  "start_request cfg path opts s =
     (let s0 = reload_token cfg s; h = request_headers (token s0) opts
      in s0\<lparr>sent := sent s0 @ [mk_request s0 path opts h], procs := procs s0 @ [Fetching1 path opts h]\<rparr>)"

text \<open>The call of \<open>refreshToken\<close> by request \<open>i\<close>, up to the \<open>await\<close>.\<close>

definition call_refresh ::
  "client_cfg \<Rightarrow> nat \<Rightarrow> string \<Rightarrow> request_init \<Rightarrow> (string \<rightharpoonup> string) \<Rightarrow> fetch_result \<Rightarrow> conc \<Rightarrow> conc" where
  "call_refresh cfg i path opts h res s =
     (case refreshPromise s of
        Some p \<Rightarrow> s\<lparr>procs := (procs s)[i := AwaitJoin p path opts h res]\<rparr>
      | None \<Rightarrow>
          let p = length (promises s);
              s1 = s\<lparr>refreshPromise := Some p, procs := (procs s)[i := AwaitOwn p path opts h res]\<rparr>
          in (case stored_refresh cfg s of
                None \<Rightarrow> s1\<lparr>promises := promises s @ [Some JNull]\<rparr>
              | Some rt \<Rightarrow> s1\<lparr>promises := promises s @ [None], sent := sent s @ [refresh_request cfg s rt]\<rparr>))"

definition first_response :: "client_cfg \<Rightarrow> nat \<Rightarrow> fetch_result \<Rightarrow> conc \<Rightarrow> conc" where
  "first_response cfg i res s =
     (case procs s ! i of
        Fetching1 path opts h \<Rightarrow>
          if needs_refresh res s then call_refresh cfg i path opts h res s
          else s\<lparr>procs := (procs s)[i := Done (finish res)]\<rparr>
      | _ \<Rightarrow> s)"

definition settle :: "client_cfg \<Rightarrow> nat \<Rightarrow> fetch_result \<Rightarrow> conc \<Rightarrow> conc" where
  "settle cfg p res s = (let (v, s1) = refresh_done cfg res s in s1\<lparr>promises := (promises s1)[p := Some v]\<rparr>)"

text \<open>What follows \<open>await this.refreshToken()\<close> in \<open>request\<close>.\<close>

definition continue_request ::
  "nat \<Rightarrow> json \<Rightarrow> string \<Rightarrow> request_init \<Rightarrow> (string \<rightharpoonup> string) \<Rightarrow> fetch_result \<Rightarrow> conc \<Rightarrow> conc" where
  "continue_request i t path opts h res s =
     (if truthy t
      then s\<lparr>sent := sent s @ [mk_request s path opts (h(''Authorization'' \<mapsto> bearer t))],
             procs := (procs s)[i := Fetching2]\<rparr>
      else s\<lparr>procs := (procs s)[i := Done (finish res)]\<rparr>)"

inductive cstep :: "client_cfg \<Rightarrow> conc \<Rightarrow> conc \<Rightarrow> bool" for cfg :: client_cfg where
  call: "cstep cfg s (start_request cfg path opts s)"
| first: "i < length (procs s) \<Longrightarrow> procs s ! i = Fetching1 path opts h \<Longrightarrow>
    cstep cfg s (first_response cfg i res s)"
| settled: "p < length (promises s) \<Longrightarrow> promises s ! p = None \<Longrightarrow> cstep cfg s (settle cfg p res s)"
| own: "i < length (procs s) \<Longrightarrow> procs s ! i = AwaitOwn p path opts h res \<Longrightarrow>
    p < length (promises s) \<Longrightarrow> promises s ! p = Some t \<Longrightarrow>
    cstep cfg s (continue_request i t path opts h res (s\<lparr>refreshPromise := None\<rparr>))"
| join: "i < length (procs s) \<Longrightarrow> procs s ! i = AwaitJoin p path opts h res \<Longrightarrow>
    p < length (promises s) \<Longrightarrow> promises s ! p = Some t \<Longrightarrow>
    cstep cfg s (continue_request i t path opts h res s)"
| second: "i < length (procs s) \<Longrightarrow> procs s ! i = Fetching2 \<Longrightarrow>
    cstep cfg s (s\<lparr>procs := (procs s)[i := Done (finish res)]\<rparr>)"
| login: "cstep cfg s (setToken cfg t s)"
| logout: "cstep cfg s (clearToken cfg s)"

inductive creach :: "client_cfg \<Rightarrow> conc \<Rightarrow> bool" for cfg :: client_cfg where
  init: "creach cfg (conc_init c)"
| step: "creach cfg s \<Longrightarrow> cstep cfg s t \<Longrightarrow> creach cfg t"

section \<open>What a request sends and changes\<close>

lemmas client_defs = readToken_def writeToken_def removeToken_def setToken_def clearToken_def
  buildUrl_def fetch_def reload_token_def stored_refresh_def

lemma sent_clearToken [simp]: "sent (clearToken cfg c) = sent c"
  by (simp add: client_defs)

lemma sent_setToken [simp]: "sent (setToken cfg t c) = sent c"
  by (simp add: client_defs)

lemma sent_reload_token [simp]: "sent (reload_token cfg c) = sent c"
  by (simp add: client_defs)

lemma storage_reload_token [simp]: "storage (reload_token cfg c) = storage c"
  by (simp add: client_defs)

lemma baseUrl_reload_token [simp]: "baseUrl (reload_token cfg c) = baseUrl c"
  by (simp add: client_defs)

lemma buildUrl_reload_token [simp]: "buildUrl (reload_token cfg c) path = buildUrl c path"
  by (simp add: buildUrl_def)

lemma sent_refresh_done [simp]: "sent (snd (refresh_done cfg res c)) = sent c"
  by (auto simp: refresh_done_def Let_def split: fetch_result.splits option.splits)

lemma baseUrl_refresh_done [simp]: "baseUrl (snd (refresh_done cfg res c)) = baseUrl c"
  by (auto simp: refresh_done_def Let_def client_defs split: fetch_result.splits option.splits)

lemma sent_doRefresh:
  "sent (snd (doRefresh cfg net c)) =
     sent c @ (case stored_refresh cfg c of None \<Rightarrow> [] | Some rt \<Rightarrow> [refresh_request cfg c rt])"
  by (auto simp: doRefresh_def fetch_def Let_def split: option.splits prod.splits)

lemma baseUrl_doRefresh [simp]: "baseUrl (snd (doRefresh cfg net c)) = baseUrl c"
  by (auto simp: doRefresh_def fetch_def Let_def split: option.splits prod.splits)

lemma mk_request_cong: "baseUrl c = baseUrl d \<Longrightarrow> mk_request c path opts h = mk_request d path opts h"
  by (simp add: mk_request_def buildUrl_def)

lemma refresh_request_cong: "baseUrl c = baseUrl d \<Longrightarrow> refresh_request cfg c rt = refresh_request cfg d rt"
  by (simp add: refresh_request_def buildUrl_def)

lemma truthy_coalesce_null [simp]: "truthy (coalesce a JNull) = truthy a"
  by (cases a) (simp_all add: coalesce_def nullish_def)

lemma coalesce_truthy [simp]: "truthy a \<Longrightarrow> coalesce a b = a"
  by (cases a) (simp_all add: coalesce_def nullish_def)

text \<open>A refresh that yields a token has installed it.\<close>

lemma refresh_done_token:
  assumes "truthy (fst (refresh_done cfg res c))"
  shows "token (snd (refresh_done cfg res c)) = fst (refresh_done cfg res c)"
  using assms
  by (auto simp: refresh_done_def Let_def client_defs split: fetch_result.splits option.splits if_splits)

lemma refresh_done_stored:
  assumes "truthy (fst (refresh_done cfg res c))" and "access_key cfg \<noteq> refresh_key cfg"
  shows "storage (snd (refresh_done cfg res c)) (access_key cfg) = Some (js_string (fst (refresh_done cfg res c)))"
  using assms
  by (auto simp: refresh_done_def Let_def client_defs split: fetch_result.splits option.splits if_splits)

lemma refresh_done_frame:
  "k \<noteq> access_key cfg \<Longrightarrow> k \<noteq> refresh_key cfg \<Longrightarrow> storage (snd (refresh_done cfg res c)) k = storage c k"
  by (auto simp: refresh_done_def Let_def client_defs split: fetch_result.splits option.splits)

lemma doRefresh_token:
  "truthy (fst (doRefresh cfg net c)) \<Longrightarrow> token (snd (doRefresh cfg net c)) = fst (doRefresh cfg net c)"
  by (auto simp: doRefresh_def fetch_def Let_def split: option.splits prod.splits)
    (metis fst_conv snd_conv refresh_done_token)

lemma doRefresh_frame:
  "k \<noteq> access_key cfg \<Longrightarrow> k \<noteq> refresh_key cfg \<Longrightarrow> storage (snd (doRefresh cfg net c)) k = storage c k"
  by (auto simp: doRefresh_def fetch_def Let_def refresh_done_frame split: option.splits prod.splits)

lemma doRefresh_truthy_stored:
  "truthy (fst (doRefresh cfg net c)) \<Longrightarrow> \<exists>rt. stored_refresh cfg c = Some rt"
  by (auto simp: doRefresh_def split: option.splits)

lemma needs_refresh_sent [simp]: "needs_refresh res (c\<lparr>sent := x\<rparr>) = needs_refresh res c"
  by (simp add: needs_refresh_def split: fetch_result.splits)

lemma stored_refresh_cong: "storage c = storage d \<Longrightarrow> stored_refresh cfg c = stored_refresh cfg d"
  by (simp add: stored_refresh_def)

text \<open>The two ways a request runs, as equations.\<close>

lemma request_plain:
  assumes "c0 = reload_token cfg c" and "q = mk_request c path opts (request_headers (token c0) opts)"
    and "\<not> needs_refresh (net (sent c) q) c0"
  shows "request cfg net path opts c = (finish (net (sent c) q), c0\<lparr>sent := sent c @ [q]\<rparr>)"
proof -
  have q: "mk_request (reload_token cfg c) path opts h = mk_request c path opts h" for h
    by (rule mk_request_cong) simp
  from assms show ?thesis
    by (simp add: request_def fetch_def Let_def q)
qed

lemma request_refreshed:
  assumes "c0 = reload_token cfg c" and "h = request_headers (token c0) opts"
    and "q = mk_request c path opts h" and "needs_refresh (net (sent c) q) c0"
    and "d = doRefresh cfg net (c0\<lparr>sent := sent c @ [q]\<rparr>)"
  shows "request cfg net path opts c =
    (if truthy (fst d)
     then let q2 = mk_request c path opts (h(''Authorization'' \<mapsto> bearer (fst d)))
          in (finish (net (sent (snd d)) q2), (snd d)\<lparr>sent := sent (snd d) @ [q2]\<rparr>)
     else (finish (net (sent c) q), snd d))"
proof -
  have q: "mk_request (reload_token cfg c) path opts h' = mk_request c path opts h'" for h'
    by (rule mk_request_cong) simp
  have "baseUrl (snd d) = baseUrl c"
    using assms by simp
  then have q2: "mk_request (snd d) path opts h' = mk_request c path opts h'" for h'
    by (rule mk_request_cong)
  obtain t c2 where d: "d = (t, c2)" by (cases d)
  show ?thesis
    using assms(4) q2 d unfolding assms(1-3,5)
    by (simp add: request_def fetch_def Let_def q)
qed

lemma request_sends_aux:
  fixes c :: "'a client_scheme" and cfg :: client_cfg and net :: net and path :: string and opts :: request_init
  defines "c0 \<equiv> reload_token cfg c"
  defines "h \<equiv> request_headers (token c0) opts"
  defines "q \<equiv> mk_request c path opts h"
  defines "c' \<equiv> snd (request cfg net path opts c)"
  shows "sent c' = sent c @ [q] \<or>
    (\<exists>rt. stored_refresh cfg c = Some rt \<and> needs_refresh (net (sent c) q) c0 \<and>
       (sent c' = sent c @ [q, refresh_request cfg c rt] \<or>
        (\<exists>t. truthy t \<and> token c' = t \<and>
           sent c' = sent c @ [q, refresh_request cfg c rt, mk_request c path opts (h(''Authorization'' \<mapsto> bearer t))])))"
proof (cases "needs_refresh (net (sent c) q) c0")
  case False
  then have "request cfg net path opts c = (finish (net (sent c) q), c0\<lparr>sent := sent c @ [q]\<rparr>)"
    by (intro request_plain) (simp_all add: c0_def q_def h_def)
  then show ?thesis by (simp add: c'_def)
next
  case True
  define c1 where "c1 = c0\<lparr>sent := sent c @ [q]\<rparr>"
  define d where "d = doRefresh cfg net c1"
  have st: "stored_refresh cfg c1 = stored_refresh cfg c"
    by (rule stored_refresh_cong) (simp add: c1_def c0_def)
  have rr: "refresh_request cfg c1 rt = refresh_request cfg c rt" for rt
    by (rule refresh_request_cong) (simp add: c1_def c0_def)
  have sd: "sent (snd d) = sent c @ q # (case stored_refresh cfg c of None \<Rightarrow> [] | Some rt \<Rightarrow> [refresh_request cfg c rt])"
    unfolding d_def sent_doRefresh st rr by (simp add: c1_def)
  have eq: "request cfg net path opts c =
    (if truthy (fst d)
     then let q2 = mk_request c path opts (h(''Authorization'' \<mapsto> bearer (fst d)))
          in (finish (net (sent (snd d)) q2), (snd d)\<lparr>sent := sent (snd d) @ [q2]\<rparr>)
     else (finish (net (sent c) q), snd d))"
    by (rule request_refreshed [OF c0_def [THEN meta_eq_to_obj_eq] h_def [THEN meta_eq_to_obj_eq]
          q_def [THEN meta_eq_to_obj_eq] True d_def [unfolded c1_def]])
  show ?thesis
  proof (cases "stored_refresh cfg c")
    case None
    then have "\<not> truthy (fst d)"
      using doRefresh_truthy_stored [of cfg net c1] st by (auto simp: d_def)
    with eq sd None show ?thesis by (simp add: c'_def)
  next
    case (Some rt)
    with eq sd True show ?thesis
      using doRefresh_token [of cfg net c1] by (auto simp: c'_def d_def Let_def)
  qed
qed

text \<open>C3: what a request puts on the wire, for every reaction of the network: the call itself
  with the token in its \<open>Authorization\<close> header; after a 401 at most one refresh, and only with
  a stored refresh token; after a refresh that gave a token the same call once more, with that
  token in the header and in the client. Never more than three messages.\<close>

theorem request_sends:
  fixes c :: "'a client_scheme"
  shows "let c0 = reload_token cfg c; h = request_headers (token c0) opts;
      q = mk_request c path opts h; c' = snd (request cfg net path opts c)
    in sent c' = sent c @ [q] \<or>
      (\<exists>rt. stored_refresh cfg c = Some rt \<and> needs_refresh (net (sent c) q) c0 \<and>
         (sent c' = sent c @ [q, refresh_request cfg c rt] \<or>
          (\<exists>t. truthy t \<and> token c' = t \<and>
             sent c' = sent c @ [q, refresh_request cfg c rt,
               mk_request c path opts (h(''Authorization'' \<mapsto> bearer t))])))"
  unfolding Let_def by (rule request_sends_aux)

text \<open>The first message of a request, whatever follows.\<close>

lemma request_first_message:
  "sent (snd (request cfg net path opts c)) ! length (sent c) =
     mk_request c path opts (request_headers (token (reload_token cfg c)) opts)"
  using request_sends_aux [where cfg = cfg and c = c and net = net and path = path and opts = opts] by (auto simp: nth_append)

lemma request_frame:
  fixes c :: "'a client_scheme"
  assumes "k \<noteq> access_key cfg" and "k \<noteq> refresh_key cfg"
  shows "storage (snd (request cfg net path opts c)) k = storage c k"
proof -
  define c0 where "c0 = reload_token cfg c"
  define h where "h = request_headers (token c0) opts"
  define q where "q = mk_request c path opts h"
  define d where "d = doRefresh cfg net (c0\<lparr>sent := sent c @ [q]\<rparr>)"
  have d: "storage (snd d) k = storage c k"
    using assms by (simp add: d_def c0_def doRefresh_frame)
  show ?thesis
  proof (cases "needs_refresh (net (sent c) q) c0")
    case True
    from request_refreshed [where net = net, OF c0_def h_def q_def True d_def] d show ?thesis
      by (simp add: Let_def)
  next
    case False
    from request_plain [where net = net, OF c0_def q_def [unfolded h_def] False] show ?thesis
      by (simp add: c0_def)
  qed
qed

text \<open>A request changes nothing of a larger state the client is part of.\<close>

lemma refresh_done_more [simp]: "client.more (snd (refresh_done cfg res c)) = client.more c"
  by (auto simp: refresh_done_def Let_def client_defs split: fetch_result.splits option.splits)

lemma doRefresh_more [simp]: "client.more (snd (doRefresh cfg net c)) = client.more c"
  by (auto simp: doRefresh_def fetch_def Let_def split: option.splits prod.splits)

lemma request_more: "client.more (snd (request cfg net path opts c)) = client.more c"
  by (simp add: request_def fetch_def Let_def reload_token_def case_prod_beta)

text \<open>C25: the two front ends can share one browser: whatever the network answers, a request of
  the admin client leaves the dashboard's tokens in \<open>localStorage\<close> as they were, and the other
  way round.\<close>

theorem sessions_isolated:
  fixes c :: "'a client_scheme"
  shows "storage (snd (admin_apiRequest net path opts c)) ''access_token'' = storage c ''access_token'' \<and>
    storage (snd (admin_apiRequest net path opts c)) ''refresh_token'' = storage c ''refresh_token'' \<and>
    storage (snd (web_apiRequest net path opts c)) ''admin_access_token'' = storage c ''admin_access_token'' \<and>
    storage (snd (web_apiRequest net path opts c)) ''admin_refresh_token'' = storage c ''admin_refresh_token''"
  unfolding admin_apiRequest_def web_apiRequest_def
  by (intro conjI request_frame) (simp_all add: web_cfg_def admin_cfg_def)

lemma refresh_failure_effect:
  fixes c :: "'a client_scheme"
  assumes token: "truthy (token c)"
    and q: "q = mk_request c path opts (request_headers (token c) opts)"
    and unauthorized: "net (sent c) q = Response r" "status r = 401"
    and stored: "stored_refresh cfg c = Some rt"
    and refused: "case net (sent c @ [q]) (refresh_request cfg c rt) of
        NetworkError _ \<Rightarrow> True | Response r' \<Rightarrow> \<not> res_ok r'"
  shows "fst (request cfg net path opts c) = Inl (response_error r) \<and>
    token (snd (request cfg net path opts c)) = JNull \<and>
    storage (snd (request cfg net path opts c)) (access_key cfg) = None"
proof -
  define c1 where "c1 = c\<lparr>sent := sent c @ [q]\<rparr>"
  have c0: "c = reload_token cfg c" using token by (simp add: reload_token_def)
  have rr: "refresh_request cfg c1 rt = refresh_request cfg c rt"
    by (rule refresh_request_cong) (simp add: c1_def)
  have st: "stored_refresh cfg c1 = Some rt"
    using stored by (simp add: c1_def stored_refresh_def)
  have nr: "needs_refresh (net (sent c) q) c"
    using unauthorized token by (simp add: needs_refresh_def)
  have sc: "sent c1 = sent c @ [q]" by (simp add: c1_def)
  have d: "doRefresh cfg net c1 = (JNull, clearToken cfg (c1\<lparr>sent := sent c1 @ [refresh_request cfg c rt]\<rparr>))"
    using refused by (auto simp: doRefresh_def st fetch_def rr refresh_done_def sc split: fetch_result.splits)
  have "finish (net (sent c) q) = Inl (response_error r)"
    using unauthorized by (simp add: finish_def res_ok_def)
  with request_refreshed [where net = net, OF c0 refl q nr refl] d show ?thesis
    by (simp add: c1_def [symmetric] clearToken_def removeToken_def)
qed

text \<open>C24: when the refresh after a 401 fails (the network is down or the endpoint does not answer
  2xx), the client signs out, in memory and in \<open>localStorage\<close>, and the caller gets the error of
  the original response.\<close>

theorem refresh_failure_signs_out:
  fixes c :: "'a client_scheme"
  assumes token: "truthy (token c)"
    and q: "q = mk_request c path opts (request_headers (token c) opts)"
    and unauthorized: "net (sent c) q = Response r" "status r = 401"
    and stored: "stored_refresh cfg c = Some rt"
    and refused: "case net (sent c @ [q]) (refresh_request cfg c rt) of
        NetworkError _ \<Rightarrow> True | Response r' \<Rightarrow> \<not> res_ok r'"
  shows "fst (request cfg net path opts c) = Inl (response_error r) \<and>
    token (snd (request cfg net path opts c)) = JNull \<and>
    storage (snd (request cfg net path opts c)) (access_key cfg) = None"
  by (rule refresh_failure_effect [OF assms])

text \<open>Every call answered 401 without a body: the refresh is refused too.\<close>

definition refusing_net :: net where
  "refusing_net hist r = Response \<lparr>status = 401, statusText = ''Unauthorized'', payload = None\<rparr>"

definition signed_in_client :: client where
  "signed_in_client = \<lparr>storage = [''access_token'' \<mapsto> ''old'', ''refresh_token'' \<mapsto> ''r''],
     token = JStr ''old'', baseUrl = '''', sent = []\<rparr>"

theorem refresh_failure_signs_out_witness:
  "fst (request web_cfg refusing_net ''/v1/tunnels'' get_init signed_in_client)
      = Inl (ApiError (JStr ''HTTP_ERROR'') (JStr ''Unauthorized'') JUndef) \<and>
   token (snd (request web_cfg refusing_net ''/v1/tunnels'' get_init signed_in_client)) = JNull"
proof -
  have s: "stored_refresh web_cfg signed_in_client = Some ''r''"
    by (simp add: signed_in_client_def stored_refresh_def web_cfg_def)
  show ?thesis
    using refresh_failure_signs_out [of signed_in_client _ "''/v1/tunnels''" get_init refusing_net, OF _ refl _ _ s]
    by (simp add: signed_in_client_def refusing_net_def res_ok_def response_error_def)
qed

section \<open>One refresh at a time\<close>

fun owns :: "proc \<Rightarrow> nat option" where
  "owns (AwaitOwn p _ _ _ _) = Some p"
| "owns _ = None"

fun awaits :: "proc \<Rightarrow> nat option" where
  "awaits (AwaitOwn p _ _ _ _) = Some p"
| "awaits (AwaitJoin p _ _ _ _) = Some p"
| "awaits _ = None"

definition owner :: "conc \<Rightarrow> nat \<Rightarrow> nat option" where
  "owner s i = (if i < length (procs s) then owns (procs s ! i) else None)"

definition awaiting :: "conc \<Rightarrow> nat \<Rightarrow> nat option" where
  "awaiting s i = (if i < length (procs s) then awaits (procs s ! i) else None)"

definition known :: "conc \<Rightarrow> nat \<Rightarrow> bool" where
  "known s p \<longleftrightarrow> p < length (promises s)"

definition pending :: "conc \<Rightarrow> nat \<Rightarrow> bool" where
  "pending s p \<longleftrightarrow> p < length (promises s) \<and> promises s ! p = None"

text \<open>
  A pending promise is the one in the field; the field holds a known promise, with exactly one
  request that will reset it; every awaited promise exists.
\<close>

definition cinv :: "conc \<Rightarrow> bool" where
  "cinv s \<longleftrightarrow>
     (\<forall>p. pending s p \<longrightarrow> refreshPromise s = Some p) \<and>
     (\<forall>p. refreshPromise s = Some p \<longrightarrow> known s p \<and> (\<exists>i. owner s i = Some p)) \<and>
     (\<forall>i p. owner s i = Some p \<longrightarrow> refreshPromise s = Some p) \<and>
     (\<forall>i j. owner s i \<noteq> None \<longrightarrow> owner s j \<noteq> None \<longrightarrow> i = j) \<and>
     (\<forall>i p. awaiting s i = Some p \<longrightarrow> known s p)"

lemma cinv_pendingD: "cinv s \<Longrightarrow> pending s p \<Longrightarrow> refreshPromise s = Some p"
  and cinv_fieldD: "cinv s \<Longrightarrow> refreshPromise s = Some p \<Longrightarrow> known s p \<and> (\<exists>i. owner s i = Some p)"
  and cinv_ownerD: "cinv s \<Longrightarrow> owner s i = Some p \<Longrightarrow> refreshPromise s = Some p"
  and cinv_owner_unique: "cinv s \<Longrightarrow> owner s i = Some p \<Longrightarrow> owner s j = Some q \<Longrightarrow> i = j"
  and cinv_awaitingD: "cinv s \<Longrightarrow> awaiting s i = Some p \<Longrightarrow> known s p"
  unfolding cinv_def by blast+

lemma owner_update:
  "procs t = (procs s)[i := x] \<Longrightarrow> i < length (procs s) \<Longrightarrow> owner t = (owner s)(i := owns x)"
  by (auto simp: owner_def fun_eq_iff)

lemma awaiting_update:
  "procs t = (procs s)[i := x] \<Longrightarrow> i < length (procs s) \<Longrightarrow> awaiting t = (awaiting s)(i := awaits x)"
  by (auto simp: awaiting_def fun_eq_iff)

lemma owner_append:
  "procs t = procs s @ [x] \<Longrightarrow> owner t = (owner s)(length (procs s) := owns x)"
  by (auto simp: owner_def fun_eq_iff nth_append)

lemma awaiting_append:
  "procs t = procs s @ [x] \<Longrightarrow> awaiting t = (awaiting s)(length (procs s) := awaits x)"
  by (auto simp: awaiting_def fun_eq_iff nth_append)

lemma refresh_done_conc [simp]:
  "promises (snd (refresh_done cfg res s)) = promises s"
  "refreshPromise (snd (refresh_done cfg res s)) = refreshPromise s"
  "procs (snd (refresh_done cfg res s)) = procs s"
  by (auto simp: refresh_done_def Let_def client_defs split: fetch_result.splits option.splits)

text \<open>Steps after which the same requests own and await the same promises.\<close>

lemma cinv_cong:
  assumes "cinv s" and "owner t = owner s" and "refreshPromise t = refreshPromise s"
    and "promises t = promises s" and "\<And>i p. awaiting t i = Some p \<Longrightarrow> known s p"
  shows "cinv t"
proof -
  have pk: "pending t = pending s" "known t = known s"
    using assms(4) by (simp_all add: pending_def known_def fun_eq_iff)
  show ?thesis
    using assms(1,5) unfolding cinv_def pk assms(2,3) by blast
qed

lemma cinv_call:
  assumes "cinv s"
  shows "cinv (start_request cfg path opts s)"
proof -
  define t where "t = start_request cfg path opts s"
  obtain h where p: "procs t = procs s @ [Fetching1 path opts h]"
    by (simp add: t_def start_request_def Let_def reload_token_def)
  have "owner s (length (procs s)) = None" "awaiting s (length (procs s)) = None"
    by (simp_all add: owner_def awaiting_def)
  with owner_append [OF p] awaiting_append [OF p]
  have "owner t = owner s" "awaiting t = awaiting s" by (auto simp: fun_eq_iff)
  then show ?thesis
    using assms cinv_awaitingD [OF assms]
    by (intro cinv_cong [OF assms]) (auto simp: t_def start_request_def Let_def reload_token_def)
qed

text \<open>A request that owns nothing moves to a place where it awaits at most a known promise.\<close>

lemma cinv_move:
  assumes "cinv s" and "i < length (procs s)" and "owner s i = None" and "owns x = None"
    and "\<And>p. awaits x = Some p \<Longrightarrow> known s p"
    and "procs t = (procs s)[i := x]" "refreshPromise t = refreshPromise s" "promises t = promises s"
  shows "cinv t"
proof (rule cinv_cong [OF assms(1)])
  show "owner t = owner s"
    using assms(3,4) owner_update [OF assms(6,2)] by auto
  show "known s p" if "awaiting t j = Some p" for j p
    using that awaiting_update [OF assms(6,2)] assms(5) cinv_awaitingD [OF assms(1)]
    by (auto split: if_splits)
qed (use assms in simp_all)

lemma cinv_own_new:
  assumes "cinv s" and "i < length (procs s)" and "refreshPromise s = None"
    and "procs t = (procs s)[i := AwaitOwn (length (promises s)) path opts h res]"
    and "refreshPromise t = Some (length (promises s))" and "promises t = promises s @ [v]"
  shows "cinv t"
proof -
  have no: "owner s j = None" "\<not> pending s p" for j p
    using cinv_ownerD [OF assms(1)] cinv_pendingD [OF assms(1)] assms(3) by fastforce+
  have o: "owner t = (\<lambda>_. None)(i := Some (length (promises s)))"
    using owner_update [OF assms(4,2)] no(1) by (auto simp: fun_eq_iff)
  have a: "awaiting t = (awaiting s)(i := Some (length (promises s)))"
    using awaiting_update [OF assms(4,2)] by simp
  have p: "pending t q \<Longrightarrow> q = length (promises s)" "known t q = (known s q \<or> q = length (promises s))" for q
    using no(2) [of q] assms(6) by (auto simp: pending_def known_def nth_append split: if_splits)
  show ?thesis
    using p cinv_awaitingD [OF assms(1)] unfolding cinv_def o a assms(5) by (auto split: if_splits)
qed

lemma cinv_first:
  assumes "cinv s" and "i < length (procs s)" and "procs s ! i = Fetching1 path opts h"
  shows "cinv (first_response cfg i res s)"
proof -
  have o: "owner s i = None" using assms by (simp add: owner_def)
  consider "\<not> needs_refresh res s" | p where "needs_refresh res s" "refreshPromise s = Some p"
    | "needs_refresh res s" "refreshPromise s = None"
    by fastforce
  then show ?thesis
  proof cases
    case 1
    then show ?thesis
      by (intro cinv_move [OF assms(1,2) o]) (auto simp: first_response_def assms(3))
  next
    case (2 p)
    then show ?thesis
      using cinv_fieldD [OF assms(1), of p]
      by (intro cinv_move [OF assms(1,2) o, where x = "AwaitJoin p path opts h res"])
        (auto simp: first_response_def assms(3) call_refresh_def)
  next
    case 3
    then show ?thesis
      by (cases "stored_refresh cfg s")
        (auto intro!: cinv_own_new [OF assms(1,2)] simp: first_response_def assms(3) call_refresh_def Let_def)
  qed
qed

lemma cinv_settle:
  assumes "cinv s" and "p < length (promises s)"
  shows "cinv (settle cfg p res s)"
proof -
  define t where "t = settle cfg p res s"
  have eqs: "procs t = procs s" "refreshPromise t = refreshPromise s"
      "promises t = (promises s)[p := Some (fst (refresh_done cfg res s))]"
    by (simp_all add: t_def settle_def case_prod_beta)
  have same: "owner t = owner s" "awaiting t = awaiting s" "known t = known s"
    using eqs by (auto simp: owner_def awaiting_def known_def fun_eq_iff)
  have "pending t q \<Longrightarrow> pending s q" for q
    using eqs assms(2) by (cases "p = q") (auto simp: pending_def)
  then show ?thesis
    using assms(1) unfolding t_def [symmetric] cinv_def same eqs(2) by blast
qed

lemma continue_request_fields:
  "\<exists>x. owns x = None \<and> awaits x = None \<and> procs (continue_request i t path opts h res s) = (procs s)[i := x]"
  "refreshPromise (continue_request i t path opts h res s) = refreshPromise s"
  "promises (continue_request i t path opts h res s) = promises s"
  by (auto simp: continue_request_def intro: exI [of _ Fetching2] exI [of _ "Done (finish res)"])

lemma cinv_own:
  assumes "cinv s" and "i < length (procs s)" and "procs s ! i = AwaitOwn p path opts h res"
    and "promises s ! p = Some t"
  shows "cinv (continue_request i t path opts h res (s\<lparr>refreshPromise := None\<rparr>))" (is "cinv ?t")
proof -
  obtain x where x: "owns x = None" "awaits x = None" "procs ?t = (procs s)[i := x]"
    using continue_request_fields(1) [of i t path opts h res "s\<lparr>refreshPromise := None\<rparr>"] by auto
  have own: "owner s i = Some p" using assms(2,3) by (simp add: owner_def)
  have o: "owner t = (\<lambda>_. None)" if "owner t = (owner s)(i := None)" for t
    using that cinv_owner_unique [OF assms(1) own] by (fastforce simp: fun_eq_iff)
  have "\<not> pending s q" for q
    using cinv_pendingD [OF assms(1), of q] cinv_ownerD [OF assms(1) own] assms(4)
    by (metis option.distinct(1) option.inject pending_def)
  moreover have "owner ?t = (\<lambda>_. None)"
    using o owner_update [OF x(3) assms(2)] x(1) by simp
  moreover have "awaiting ?t = (awaiting s)(i := None)"
    using awaiting_update [OF x(3) assms(2)] x(2) by simp
  ultimately show ?thesis
    using cinv_awaitingD [OF assms(1)]
    by (auto simp: cinv_def pending_def known_def continue_request_fields split: if_splits)
qed

lemma cinv_join:
  assumes "cinv s" and "i < length (procs s)" and "procs s ! i = AwaitJoin p path opts h res"
  shows "cinv (continue_request i t path opts h res s)"
proof -
  obtain x where x: "owns x = None" "awaits x = None"
      "procs (continue_request i t path opts h res s) = (procs s)[i := x]"
    using continue_request_fields(1) [of i t path opts h res s] by auto
  show ?thesis
    using x assms by (intro cinv_move [OF assms(1,2), where x = x]) (auto simp: owner_def continue_request_fields)
qed

text \<open>Steps that change only the tokens.\<close>

lemma cinv_same:
  assumes "cinv s" and "procs t = procs s" and "refreshPromise t = refreshPromise s"
    and "promises t = promises s"
  shows "cinv t"
proof (rule cinv_cong [OF assms(1) _ assms(3,4)])
  show "owner t = owner s" using assms(2) by (simp add: owner_def fun_eq_iff)
  show "known s p" if "awaiting t i = Some p" for i p
    using that assms(2) cinv_awaitingD [OF assms(1), of i p] by (simp add: awaiting_def split: if_splits)
qed

lemma cinv_step: "cstep cfg s t \<Longrightarrow> cinv s \<Longrightarrow> cinv t"
proof (induction rule: cstep.induct)
  case (second i s res)
  show ?case
    by (rule cinv_move [where s = s and i = i and x = "Done (finish res)"])
      (use second in \<open>simp_all add: owner_def\<close>)
next
  case (login s t)
  then show ?case by (rule cinv_same) (simp_all add: client_defs)
next
  case (logout s)
  then show ?case by (rule cinv_same) (simp_all add: client_defs)
qed (rule cinv_call cinv_first cinv_settle cinv_own cinv_join; assumption)+

lemma creach_cinv: "creach cfg s \<Longrightarrow> cinv s"
proof (induction rule: creach.induct)
  case (init c)
  show ?case by (simp add: cinv_def conc_init_def pending_def owner_def awaiting_def)
next
  case (step s t)
  then show ?case by (blast intro: cinv_step)
qed

text \<open>C1: however many requests meet a 401 and in whatever order answers arrive, at most one
  refresh is on the wire at any time, and the client's field holds exactly that promise, so the
  others wait for its result.\<close>

theorem refresh_single_flight:
  assumes "creach cfg s" and "pending s p" and "pending s q"
  shows "p = q \<and> refreshPromise s = Some p"
  using cinv_pendingD [OF creach_cinv [OF assms(1)] assms(2)] cinv_pendingD [OF creach_cinv [OF assms(1)] assms(3)]
  by simp

text \<open>A request of a signed-in client answered 401.\<close>

definition one_refreshing :: conc where
  "one_refreshing = first_response web_cfg 0
     (Response \<lparr>status = 401, statusText = '''', payload = None\<rparr>)
     (start_request web_cfg ''/v1/tunnels'' get_init (conc_init signed_in_client))"

lemma one_refreshing_state:
  "creach web_cfg one_refreshing" "promises one_refreshing = [None]"
proof -
  define s where "s = start_request web_cfg ''/v1/tunnels'' get_init (conc_init signed_in_client)"
  have s: "creach web_cfg s"
    unfolding s_def by (rule creach.step [OF creach.init cstep.call])
  obtain h where h: "procs s = [Fetching1 ''/v1/tunnels'' get_init h]"
    by (simp add: s_def start_request_def Let_def conc_init_def signed_in_client_def reload_token_def)
  show "creach web_cfg one_refreshing"
    unfolding one_refreshing_def s_def [symmetric]
    by (rule creach.step [OF s cstep.first]) (simp_all add: h)
  show "promises one_refreshing = [None]"
    by (simp add: one_refreshing_def first_response_def start_request_def Let_def conc_init_def
        signed_in_client_def reload_token_def needs_refresh_def call_refresh_def stored_refresh_def web_cfg_def)
qed

theorem refresh_single_flight_witness:
  "pending one_refreshing 0 \<and> refreshPromise one_refreshing = Some 0"
proof -
  have p: "pending one_refreshing 0" by (simp add: pending_def one_refreshing_state)
  from refresh_single_flight [OF one_refreshing_state(1) p p] p show ?thesis by simp
qed

section \<open>No request is left waiting\<close>

fun work :: "proc \<Rightarrow> nat" where
  "work (Fetching1 _ _ _) = 3"
| "work (AwaitOwn _ _ _ _ _) = 2"
| "work (AwaitJoin _ _ _ _ _) = 2"
| "work Fetching2 = 1"
| "work (Done _) = 0"

lemma work_zero: "work x = 0 \<Longrightarrow> \<exists>r. x = Done r"
  by (cases x) auto

lemma continue_request_work:
  "i < length (procs s) \<Longrightarrow> work (procs (continue_request i t path opts h res s) ! i) < 2"
  by (simp add: continue_request_def)

lemma settle_procs [simp]: "procs (settle cfg p res s) = procs s"
  by (simp add: settle_def case_prod_beta)

lemma settle_promise:
  "p < length (promises s) \<Longrightarrow> \<exists>v. promises (settle cfg p res s) ! p = Some v"
  "length (promises (settle cfg p res s)) = length (promises s)"
  by (simp_all add: settle_def case_prod_beta)

text \<open>An awaited promise is settled, or can be by the answer of its \<open>fetch\<close>.\<close>

lemma await_settled:
  assumes "creach cfg s" and "awaiting s i = Some p"
  shows "\<exists>t v. (cstep cfg)\<^sup>*\<^sup>* s t \<and> procs t = procs s \<and> p < length (promises t) \<and> promises t ! p = Some v"
proof -
  have p: "p < length (promises s)"
    using cinv_awaitingD [OF creach_cinv [OF assms(1)] assms(2)] by (simp add: known_def)
  show ?thesis
  proof (cases "promises s ! p")
    case (Some v)
    with p show ?thesis by blast
  next
    case None
    have "cstep cfg s (settle cfg p (NetworkError '''') s)"
      by (rule cstep.settled [OF p None])
    with p show ?thesis
      using settle_promise [where s = s] by (metis r_into_rtranclp settle_procs)
  qed
qed

lemma request_progress:
  assumes "creach cfg s" and i: "i < length (procs s)" and "work (procs s ! i) \<noteq> 0"
  shows "\<exists>t. (cstep cfg)\<^sup>*\<^sup>* s t \<and> i < length (procs t) \<and> work (procs t ! i) < work (procs s ! i)"
proof (cases "procs s ! i")
  case (Fetching1 path opts h)
  have "procs (first_response cfg i (NetworkError '''') s) ! i = Done (finish (NetworkError ''''))"
      "i < length (procs (first_response cfg i (NetworkError '''') s))"
    using i by (simp_all add: first_response_def Fetching1 needs_refresh_def)
  with cstep.first [OF i Fetching1] show ?thesis
    by (metis Fetching1 r_into_rtranclp work.simps(1,5) zero_less_numeral)
next
  case (AwaitOwn p path opts h res)
  from await_settled [OF assms(1), of i p] AwaitOwn i obtain t v where
    t: "(cstep cfg)\<^sup>*\<^sup>* s t" "procs t = procs s" "p < length (promises t)" "promises t ! p = Some v"
    by (auto simp: awaiting_def)
  let ?u = "continue_request i v path opts h res (t\<lparr>refreshPromise := None\<rparr>)"
  have "cstep cfg t ?u" using t i AwaitOwn by (intro cstep.own) auto
  moreover have "i < length (procs ?u) \<and> work (procs ?u ! i) < 2"
    using continue_request_work [of i "t\<lparr>refreshPromise := None\<rparr>"] i t(2) by (simp add: continue_request_def)
  ultimately show ?thesis
    using t(1) AwaitOwn by (auto intro: rtranclp.rtrancl_into_rtrancl)
next
  case (AwaitJoin p path opts h res)
  from await_settled [OF assms(1), of i p] AwaitJoin i obtain t v where
    t: "(cstep cfg)\<^sup>*\<^sup>* s t" "procs t = procs s" "p < length (promises t)" "promises t ! p = Some v"
    by (auto simp: awaiting_def)
  let ?u = "continue_request i v path opts h res t"
  have "cstep cfg t ?u" using t i AwaitJoin by (intro cstep.join) auto
  moreover have "i < length (procs ?u) \<and> work (procs ?u ! i) < 2"
    using continue_request_work [of i t] i t(2) by (simp add: continue_request_def)
  ultimately show ?thesis
    using t(1) AwaitJoin by (auto intro: rtranclp.rtrancl_into_rtrancl)
next
  case Fetching2
  from cstep.second [OF i Fetching2] have
    "cstep cfg s (s\<lparr>procs := (procs s)[i := Done (finish (NetworkError ''''))]\<rparr>)" .
  then show ?thesis using i Fetching2 by (auto intro!: exI r_into_rtranclp)
next
  case (Done r)
  with assms(3) show ?thesis by simp
qed

lemma creach_steps: "(cstep cfg)\<^sup>*\<^sup>* s t \<Longrightarrow> creach cfg s \<Longrightarrow> creach cfg t"
  by (induction rule: rtranclp_induct) (auto intro: creach.step)



section \<open>The sequential method is a run of the concurrent one\<close>

lemma client_of_simps [simp]:
  "storage (client_of s) = storage s" "token (client_of s) = token s"
  "baseUrl (client_of s) = baseUrl s" "sent (client_of s) = sent s"
  by (simp_all add: client_of_def)

lemma client_of_conc_init [simp]: "client_of (conc_init c) = c"
  by (simp add: client_of_def conc_init_def)

lemma client_of_update [simp]:
  "client_of (s\<lparr>sent := x\<rparr>) = (client_of s)\<lparr>sent := x\<rparr>"
  "client_of (s\<lparr>token := t\<rparr>) = (client_of s)\<lparr>token := t\<rparr>"
  "client_of (s\<lparr>storage := m\<rparr>) = (client_of s)\<lparr>storage := m\<rparr>"
  "client_of (s\<lparr>refreshPromise := p\<rparr>) = client_of s"
  "client_of (s\<lparr>promises := ps\<rparr>) = client_of s"
  "client_of (s\<lparr>procs := xs\<rparr>) = client_of s"
  by (simp_all add: client_of_def)

lemma client_of_ops:
  "reload_token cfg (client_of s) = client_of (reload_token cfg s)"
  "stored_refresh cfg (client_of s) = stored_refresh cfg s"
  "needs_refresh res (client_of s) = needs_refresh res s"
  "mk_request (client_of s) path opts h = mk_request s path opts h"
  "refresh_request cfg (client_of s) rt = refresh_request cfg s rt"
  by (simp_all add: client_defs needs_refresh_def mk_request_def refresh_request_def split: fetch_result.splits)

lemma client_of_refresh_done:
  "refresh_done cfg res (client_of s) =
     (fst (refresh_done cfg res s), client_of (snd (refresh_done cfg res s)))"
  by (auto simp: refresh_done_def Let_def client_defs split: fetch_result.splits option.splits)

lemma client_of_settle [simp]: "client_of (settle cfg p res s) = client_of (snd (refresh_done cfg res s))"
  by (simp add: settle_def case_prod_beta)

lemma start_request_sim:
  fixes cfg :: client_cfg and s :: conc and opts :: request_init
  assumes "refreshPromise s = None"
  defines "c0 \<equiv> reload_token cfg (client_of s)"
  defines "h \<equiv> request_headers (token c0) opts"
  shows "procs (start_request cfg path opts s) = procs s @ [Fetching1 path opts h]"
    "client_of (start_request cfg path opts s) = c0\<lparr>sent := sent s @ [mk_request (client_of s) path opts h]\<rparr>"
    "refreshPromise (start_request cfg path opts s) = None"
    "promises (start_request cfg path opts s) = promises s"
proof -
  have "mk_request (reload_token cfg s) path opts h' = mk_request (client_of s) path opts h'" for h'
    by (rule mk_request_cong) simp
  then show "procs (start_request cfg path opts s) = procs s @ [Fetching1 path opts h]"
    "client_of (start_request cfg path opts s) = c0\<lparr>sent := sent s @ [mk_request (client_of s) path opts h]\<rparr>"
    "refreshPromise (start_request cfg path opts s) = None"
    "promises (start_request cfg path opts s) = promises s"
    using assms(1) by (simp_all add: start_request_def Let_def h_def c0_def client_of_ops)
      (simp_all add: reload_token_def)
qed

text \<open>The refresh of the sequential method, as steps of request 0 that end with the promise
  settled to what \<^const>\<open>doRefresh\<close> returns.\<close>

lemma doRefresh_sim:
  assumes "procs s = [Fetching1 path opts h]" and "refreshPromise s = None" and "promises s = []"
    and "needs_refresh res s"
  shows "\<exists>t. (cstep cfg)\<^sup>*\<^sup>* s t \<and> procs t = [AwaitOwn 0 path opts h res] \<and> refreshPromise t = Some 0 \<and>
    promises t = [Some (fst (doRefresh cfg net (client_of s)))] \<and>
    client_of t = snd (doRefresh cfg net (client_of s))"
proof -
  define u where "u = first_response cfg 0 res s"
  have su: "cstep cfg s u"
    unfolding u_def by (rule cstep.first) (simp_all add: assms(1))
  show ?thesis
  proof (cases "stored_refresh cfg s")
    case None
    have "procs u = [AwaitOwn 0 path opts h res]" "refreshPromise u = Some 0"
      "promises u = [Some JNull]" "client_of u = client_of s"
      using None assms by (simp_all add: u_def first_response_def call_refresh_def Let_def)
    moreover have "doRefresh cfg net (client_of s) = (JNull, client_of s)"
      by (simp add: doRefresh_def client_of_ops None)
    ultimately show ?thesis using su by auto
  next
    case (Some rt)
    define q where "q = refresh_request cfg s rt"
    define ans where "ans = net (sent s) q"
    have u: "procs u = [AwaitOwn 0 path opts h res]" "refreshPromise u = Some 0"
      "promises u = [None]" "client_of u = (client_of s)\<lparr>sent := sent s @ [q]\<rparr>"
      using Some assms by (simp_all add: u_def first_response_def call_refresh_def Let_def q_def)
    have d: "doRefresh cfg net (client_of s) = refresh_done cfg ans (client_of u)"
      by (simp add: doRefresh_def client_of_ops Some fetch_def u(4) ans_def q_def)
    define t where "t = settle cfg 0 ans u"
    have ut: "cstep cfg u t"
      unfolding t_def by (rule cstep.settled) (simp_all add: u)
    have "procs t = procs u" "refreshPromise t = refreshPromise u"
      "promises t = [Some (fst (refresh_done cfg ans u))]" "client_of t = client_of (snd (refresh_done cfg ans u))"
      by (simp_all add: t_def) (simp_all add: settle_def case_prod_beta u(3))
    with u(1,2) d [unfolded client_of_refresh_done] su ut show ?thesis
      by (intro exI [of _ t]) (auto intro: converse_rtranclp_into_rtranclp)
  qed
qed

text \<open>C2: the method run alone is one schedule of the concurrent client: from a client with nothing
  in flight, the steps of one request reach a state where it has ended with the result of
  \<^const>\<open>request\<close>, the client's fields, the storage and the messages sent are the same, and the
  promise field is reset.\<close>

theorem request_refines_steps:
  fixes c :: client
  shows "\<exists>t. (cstep cfg)\<^sup>*\<^sup>* (conc_init c) t \<and> procs t = [Done (fst (request cfg net path opts c))] \<and>
    client_of t = snd (request cfg net path opts c) \<and> refreshPromise t = None"
proof -
  define s where "s = start_request cfg path opts (conc_init c)"
  define c0 where "c0 = reload_token cfg c"
  define h where "h = request_headers (token c0) opts"
  define q where "q = mk_request c path opts h"
  define res where "res = net (sent c) q"
  have ini: "refreshPromise (conc_init c) = None" "promises (conc_init c) = []" "procs (conc_init c) = []"
    "sent (conc_init c) = sent c"
    by (simp_all add: conc_init_def)
  have s: "procs s = [Fetching1 path opts h]" "client_of s = c0\<lparr>sent := sent c @ [q]\<rparr>"
    "refreshPromise s = None" "promises s = []"
    using start_request_sim [OF ini(1), of cfg path opts]
    by (simp_all add: s_def ini c0_def h_def q_def)
  have start: "(cstep cfg)\<^sup>*\<^sup>* (conc_init c) s"
    unfolding s_def by (rule r_into_rtranclp) (rule cstep.call)
  have nr: "needs_refresh res s = needs_refresh res c0"
    using client_of_ops(3) [of res s] s(2) by simp
  show ?thesis
  proof (cases "needs_refresh res c0")
    case False
    define t where "t = s\<lparr>procs := [Done (finish res)]\<rparr>"
    have "first_response cfg 0 res s = t"
      using False by (simp add: first_response_def s nr t_def)
    then have "cstep cfg s t"
      using cstep.first [of 0 s path opts h cfg res] s(1) by simp
    moreover have "request cfg net path opts c = (finish res, c0\<lparr>sent := sent c @ [q]\<rparr>)"
      using False unfolding res_def by (intro request_plain) (simp_all add: c0_def q_def h_def)
    ultimately show ?thesis
      using start s by (intro exI [of _ t]) (simp add: t_def)
  next
    case True
    define d where "d = doRefresh cfg net (c0\<lparr>sent := sent c @ [q]\<rparr>)"
    have req: "request cfg net path opts c =
      (if truthy (fst d)
       then let q2 = mk_request c path opts (h(''Authorization'' \<mapsto> bearer (fst d)))
            in (finish (net (sent (snd d)) q2), (snd d)\<lparr>sent := sent (snd d) @ [q2]\<rparr>)
       else (finish res, snd d))"
      using request_refreshed [where net = net, OF c0_def h_def q_def _ d_def] True by (simp add: res_def)
    from doRefresh_sim [OF s(1,3,4), of res cfg net] True nr obtain t where
      t: "(cstep cfg)\<^sup>*\<^sup>* s t" "procs t = [AwaitOwn 0 path opts h res]" "promises t = [Some (fst d)]"
        "client_of t = snd d"
      by (auto simp: s(2) d_def)
    let ?u = "continue_request 0 (fst d) path opts h res (t\<lparr>refreshPromise := None\<rparr>)"
    have tu: "cstep cfg t ?u"
      by (rule cstep.own [where p = 0]) (simp_all add: t(2,3))
    have sd: "sent t = sent (snd d)" using t(4) [symmetric] by simp
    have mk: "mk_request (t\<lparr>refreshPromise := None\<rparr>) path opts h' = mk_request c path opts h'" for h'
    proof (rule mk_request_cong)
      have "baseUrl (client_of t) = baseUrl c" unfolding t(4) d_def by (simp add: c0_def)
      then show "baseUrl (t\<lparr>refreshPromise := None\<rparr>) = baseUrl c" by simp
    qed
    show ?thesis
    proof (cases "truthy (fst d)")
      case False
      with start t tu req show ?thesis
        by (intro exI [of _ ?u]) (auto simp: continue_request_def)
    next
      case tr: True
      define q2 where "q2 = mk_request c path opts (h(''Authorization'' \<mapsto> bearer (fst d)))"
      have u: "procs ?u = [Fetching2]" "client_of ?u = (snd d)\<lparr>sent := sent (snd d) @ [q2]\<rparr>" "refreshPromise ?u = None"
        using tr t sd by (simp_all add: continue_request_def mk q2_def)
      have "cstep cfg ?u (?u\<lparr>procs := [Done (finish (net (sent (snd d)) q2))]\<rparr>)"
        using cstep.second [of 0 ?u cfg "net (sent (snd d)) q2"] u(1) by simp
      with start t(1) tu req tr u show ?thesis
        by (intro exI [of _ "?u\<lparr>procs := [Done (finish (net (sent (snd d)) q2))]\<rparr>"])
          (auto simp: q2_def Let_def)
    qed
  qed
qed

end
