(* ===== verification/Jwt.thy ===== *)
theory Jwt
  imports ApiClient
begin

text \<open>
  The token helpers of \<^verbatim>\<open>web/src/lib/auth.ts\<close> and \<^verbatim>\<open>admin/src/lib/auth.ts\<close>: the two
  tokens in \<open>localStorage\<close>, the payload of a JWT and whether it has expired.

  \<open>atob\<close> is the browser's decoder, written out. \<open>JSON.parse\<close> is the argument
  \<open>parse\<close> of the definitions that call it (\<^const>\<open>None\<close> where it throws): nothing is
  assumed of it. \<open>now\<close> is \<open>Date.now()\<close>.
\<close>

section \<open>Base64\<close>

text \<open>The value of a character of the standard alphabet.\<close>

definition sextet :: "char \<Rightarrow> nat option" where
  "sextet ch = (let n = (of_char ch :: nat) in
     if 65 \<le> n \<and> n \<le> 90 then Some (n - 65)
     else if 97 \<le> n \<and> n \<le> 122 then Some (n - 71)
     else if 48 \<le> n \<and> n \<le> 57 then Some (n + 4)
     else if n = 43 then Some 62
     else if n = 47 then Some 63
     else None)"

fun sextets_of :: "string \<Rightarrow> nat list option" where
  "sextets_of [] = Some []"
| "sextets_of (c # cs) =
     (case sextet c of None \<Rightarrow> None
      | Some v \<Rightarrow> (case sextets_of cs of None \<Rightarrow> None | Some vs \<Rightarrow> Some (v # vs)))"

text \<open>Four values are three bytes; a rest of two or three values is one or two.\<close>

fun bytes_of :: "nat list \<Rightarrow> nat list" where
  "bytes_of (a # b # c # d # vs) =
     (4 * a + b div 16) # (16 * (b mod 16) + c div 4) # (64 * (c mod 4) + d) # bytes_of vs"
| "bytes_of [a, b, c] = [4 * a + b div 16, 16 * (b mod 16) + c div 4]"
| "bytes_of [a, b] = [4 * a + b div 16]"
| "bytes_of _ = []"

definition ascii_ws :: "char \<Rightarrow> bool" where
  "ascii_ws c \<longleftrightarrow> (of_char c :: nat) \<in> {9, 10, 12, 13, 32}"

text \<open>At most two \<open>=\<close> at the end, when the length is a multiple of four.\<close>

definition drop_padding :: "string \<Rightarrow> string" where
  "drop_padding s =
     (if length s mod 4 = 0 then
        (if s \<noteq> [] \<and> last s = CHR ''='' then
           let t = butlast s in if t \<noteq> [] \<and> last t = CHR ''='' then butlast t else t
         else s)
      else s)"

definition atob :: "string \<Rightarrow> string option" where
  "atob s =
     (let t = drop_padding (filter (\<lambda>c. \<not> ascii_ws c) s) in
      if length t mod 4 = 1 then None
      else map_option (\<lambda>vs. map char_of (bytes_of vs)) (sextets_of t))"

section \<open>Tokens in the storage\<close>

definition getAccessToken :: "client_cfg \<Rightarrow> 'a client_scheme \<Rightarrow> string option" where
  "getAccessToken cfg c = storage c (access_key cfg)"

definition getRefreshToken :: "client_cfg \<Rightarrow> 'a client_scheme \<Rightarrow> string option" where
  "getRefreshToken cfg c = storage c (refresh_key cfg)"

definition setTokens :: "client_cfg \<Rightarrow> json \<Rightarrow> json \<Rightarrow> 'a client_scheme \<Rightarrow> 'a client_scheme" where
  "setTokens cfg access refresh c =
     c\<lparr>storage := (storage c)(access_key cfg \<mapsto> js_string access, refresh_key cfg \<mapsto> js_string refresh)\<rparr>"

definition clearTokens :: "client_cfg \<Rightarrow> 'a client_scheme \<Rightarrow> 'a client_scheme" where
  "clearTokens cfg c = c\<lparr>storage := (storage c)(access_key cfg := None, refresh_key cfg := None)\<rparr>"

section \<open>The payload of a JWT\<close>

record JwtPayload =
  jp_sub :: string
  jp_org_id :: json
  jp_role :: json
  jp_exp :: int

text \<open>
  The two modules differ in the defaults: the dashboard fills in an empty \<open>org_id\<close> and the
  role \<open>member\<close>, the admin console has no \<open>org_id\<close> and fills in \<open>operator\<close>.
\<close>

definition parse_payload ::
  "(string \<Rightarrow> json option) \<Rightarrow> string \<Rightarrow> json option" where
  "parse_payload parse tok =
     (let parts = split_on (CHR ''.'') tok in
      if length parts \<noteq> 3 then None
      else (case atob (parts ! 1) of None \<Rightarrow> None | Some txt \<Rightarrow> parse txt))"

definition web_parseJWT :: "(string \<Rightarrow> json option) \<Rightarrow> string \<Rightarrow> JwtPayload option" where
  "web_parseJWT parse tok =
     (case parse_payload parse tok of
        None \<Rightarrow> None
      | Some v \<Rightarrow>
          if nullish v then None
          else (case (jprop v ''sub'', jprop v ''exp'') of
              (JStr s, JNum e) \<Rightarrow>
                Some \<lparr>jp_sub = s, jp_org_id = coalesce (jprop v ''org_id'') (JStr ''''),
                  jp_role = coalesce (jprop v ''role'') (JStr ''member''), jp_exp = e\<rparr>
            | _ \<Rightarrow> None))"

definition admin_parseJWT :: "(string \<Rightarrow> json option) \<Rightarrow> string \<Rightarrow> JwtPayload option" where
  "admin_parseJWT parse tok =
     (case parse_payload parse tok of
        None \<Rightarrow> None
      | Some v \<Rightarrow>
          if nullish v then None
          else (case (jprop v ''sub'', jprop v ''exp'') of
              (JStr s, JNum e) \<Rightarrow>
                Some \<lparr>jp_sub = s, jp_org_id = JUndef,
                  jp_role = coalesce (jprop v ''role'') (JStr ''operator''), jp_exp = e\<rparr>
            | _ \<Rightarrow> None))"

definition token_valid :: "(string \<Rightarrow> JwtPayload option) \<Rightarrow> int \<Rightarrow> string option \<Rightarrow> bool" where
  "token_valid pj now tok =
     (case tok of
        None \<Rightarrow> False
      | Some t \<Rightarrow>
          if t = '''' then False
          else (case pj t of None \<Rightarrow> False | Some p \<Rightarrow> jp_exp p * 1000 > now))"

definition web_isAuthenticated ::
  "(string \<Rightarrow> json option) \<Rightarrow> int \<Rightarrow> 'a client_scheme \<Rightarrow> bool" where
  "web_isAuthenticated parse now c = token_valid (web_parseJWT parse) now (getAccessToken web_cfg c)"

definition admin_isAuthenticated ::
  "(string \<Rightarrow> json option) \<Rightarrow> int \<Rightarrow> 'a client_scheme \<Rightarrow> bool" where
  "admin_isAuthenticated parse now c = token_valid (admin_parseJWT parse) now (getAccessToken admin_cfg c)"

section \<open>What issuers of tokens write\<close>

text \<open>
  The reference the decoder is compared with, from RFC 7515: the payload of a JWT is its bytes in
  the URL-safe alphabet, where 62 and 63 are \<open>-\<close> and \<open>_\<close>, without padding.
\<close>

fun groups_of :: "nat list \<Rightarrow> nat list" where
  "groups_of (x # y # z # bs) =
     (x div 4) # (16 * (x mod 4) + y div 16) # (4 * (y mod 16) + z div 64) # (z mod 64) # groups_of bs"
| "groups_of [x, y] = [x div 4, 16 * (x mod 4) + y div 16, 4 * (y mod 16)]"
| "groups_of [x] = [x div 4, 16 * (x mod 4)]"
| "groups_of [] = []"

definition url_char :: "nat \<Rightarrow> char" where
  "url_char v = (if v < 26 then char_of (v + 65) else if v < 52 then char_of (v + 71)
     else if v < 62 then char_of (v - 4) else if v = 62 then CHR ''-'' else CHR ''_'')"

definition payload_groups :: "string \<Rightarrow> nat list" where
  "payload_groups s = groups_of (map of_char s)"

definition base64url :: "string \<Rightarrow> string" where
  "base64url s = map url_char (payload_groups s)"

lemma groups_bound: "\<forall>b\<in>set bs. b < 256 \<Longrightarrow> \<forall>v\<in>set (groups_of bs). v < 64"
  by (induction bs rule: groups_of.induct) auto

lemma repack:
  fixes y z :: nat
  shows "y < 256 \<Longrightarrow> y div 16 div 16 = 0" "y < 256 \<Longrightarrow> y div 16 mod 16 = y div 16"
    "z < 256 \<Longrightarrow> z div 64 div 4 = 0" "z < 256 \<Longrightarrow> z div 64 mod 4 = z div 64"
  by (simp_all add: less_mult_imp_div_less)

lemma bytes_of_groups: "\<forall>b\<in>set bs. b < 256 \<Longrightarrow> bytes_of (groups_of bs) = bs"
  by (induction bs rule: groups_of.induct) (simp_all add: repack)

lemma length_groups: "length (groups_of bs) mod 4 \<noteq> 1"
  by (induction bs rule: groups_of.induct) (simp_all add: mod_Suc)

lemma url_char_code:
  "v < 64 \<Longrightarrow> of_char (url_char v) =
     (if v < 26 then v + 65 else if v < 52 then v + 71 else if v < 62 then v - 4
      else if v = 62 then 45 else 95)"
  by (simp add: url_char_def)

lemma sextet_url_char: "v < 64 \<Longrightarrow> sextet (url_char v) = (if v < 62 then Some v else None)"
  unfolding sextet_def Let_def using url_char_code [of v] by (auto split: if_splits)

lemma url_char_plain: "v < 64 \<Longrightarrow> \<not> ascii_ws (url_char v)" "v < 64 \<Longrightarrow> url_char v \<noteq> CHR ''=''"
    "v < 64 \<Longrightarrow> url_char v \<noteq> CHR ''.''"
  using url_char_code [of v] by (auto simp: ascii_ws_def split: if_splits)

lemma payload_groups_bound: "v \<in> set (payload_groups s) \<Longrightarrow> v < 64"
  using groups_bound [of "map of_char s"] by (auto simp: payload_groups_def)

text \<open>What is left of the text once \<open>atob\<close> has removed white space and padding: all of it.\<close>

lemma atob_base64url:
  "atob (base64url s) = map_option (\<lambda>vs. map char_of (bytes_of vs)) (sextets_of (base64url s))"
proof -
  have "filter (\<lambda>c. \<not> ascii_ws c) (base64url s) = base64url s"
    using url_char_plain(1) payload_groups_bound by (auto simp: base64url_def filter_id_conv)
  moreover have "drop_padding (base64url s) = base64url s"
    using url_char_plain(2) [OF payload_groups_bound [OF last_in_set]]
    by (auto simp: drop_padding_def base64url_def last_map)
  moreover have "length (base64url s) mod 4 \<noteq> 1"
    using length_groups [of "map of_char s"] by (simp add: base64url_def payload_groups_def)
  ultimately show ?thesis by (simp add: atob_def Let_def)
qed

lemma sextets_of_url: "\<forall>v\<in>set vs. v < 64 \<Longrightarrow>
    sextets_of (map url_char vs) = (if \<forall>v\<in>set vs. v < 62 then Some vs else None)"
  by (induction vs) (auto simp: sextet_url_char split: option.splits)

lemma atob_jwt_payload_eq:
  "atob (base64url s) = (if list_all (\<lambda>v. v < 62) (payload_groups s) then Some s else None)"
proof -
  have "bytes_of (payload_groups s) = map of_char s"
    by (simp add: payload_groups_def bytes_of_groups)
  moreover have "sextets_of (base64url s) =
      (if \<forall>v\<in>set (payload_groups s). v < 62 then Some (payload_groups s) else None)"
    using sextets_of_url payload_groups_bound by (simp add: base64url_def)
  ultimately show ?thesis by (simp add: atob_base64url comp_def list_all_iff)
qed

text \<open>A token \<open>h.p.g\<close> splits into its three parts.\<close>

lemma parse_payload_token:
  assumes "CHR ''.'' \<notin> set h" and "CHR ''.'' \<notin> set p" and "CHR ''.'' \<notin> set g"
  shows "parse_payload parse (h @ CHR ''.'' # p @ CHR ''.'' # g) =
    (case atob p of None \<Rightarrow> None | Some txt \<Rightarrow> parse txt)"
  using assms by (simp add: parse_payload_def split_on_append split_on_no_sep Let_def)

lemma url_char_no_dot: "CHR ''.'' \<notin> set (base64url s)"
  using url_char_plain(3) [OF payload_groups_bound] by (auto simp: base64url_def dest: sym)

text \<open>C26: who counts as signed in at start-up. With a stored token of three parts whose payload is
  the encoding of \<open>p\<close>, and \<open>p\<close> parses to an object with a string \<open>sub\<close> and a
  number \<open>exp\<close>, both front ends say yes exactly when \<open>exp\<close> lies in the future and the
  encoding of \<open>p\<close> has no six-bit group above 61: a valid session whose payload encodes to
  \<open>-\<close> or \<open>_\<close> is treated as signed out.\<close>

theorem signed_in_iff_unexpired:
  assumes tok: "tok = h @ CHR ''.'' # base64url p @ CHR ''.'' # g"
    and dots: "CHR ''.'' \<notin> set h" "CHR ''.'' \<notin> set g"
    and parsed: "parse p = Some v" "\<not> nullish v" "jprop v ''sub'' = JStr u" "jprop v ''exp'' = JNum e"
    and stored: "storage c ''access_token'' = Some tok" "storage c ''admin_access_token'' = Some tok"
  shows "(web_isAuthenticated parse now c \<longleftrightarrow> list_all (\<lambda>x. x < 62) (payload_groups p) \<and> now < e * 1000) \<and>
    (admin_isAuthenticated parse now c \<longleftrightarrow> list_all (\<lambda>x. x < 62) (payload_groups p) \<and> now < e * 1000)"
proof -
  have "parse_payload parse tok = (if list_all (\<lambda>x. x < 62) (payload_groups p) then Some v else None)"
    using parsed(1) by (simp add: tok parse_payload_token dots url_char_no_dot atob_jwt_payload_eq)
  moreover have "tok \<noteq> ''''" by (simp add: tok)
  ultimately show ?thesis
    using parsed(2-4) stored
    by (simp add: web_isAuthenticated_def admin_isAuthenticated_def token_valid_def getAccessToken_def
        web_cfg_def admin_cfg_def web_parseJWT_def admin_parseJWT_def)
qed

text \<open>Payloads \<open>abc\<close> and \<open>ab~\<close>, both parsed to the same claims: the second encodes to
  \<open>YWJ-\<close>.\<close>

definition demo_parse :: "string \<Rightarrow> json option" where
  "demo_parse s = Some (JObj [(''sub'', JStr ''u1''), (''exp'', JNum 100)])"

definition demo_session :: "string \<Rightarrow> client" where
  "demo_session p = \<lparr>storage = (\<lambda>_. Some (''h.'' @ base64url p @ ''.s'')), token = JNull, baseUrl = '''', sent = []\<rparr>"

theorem signed_in_iff_unexpired_witness:
  "web_isAuthenticated demo_parse 5000 (demo_session ''abc'') \<and>
   \<not> web_isAuthenticated demo_parse 5000 (demo_session ''ab~'')"
proof -
  have j: "jprop (JObj [(''sub'', JStr ''u1''), (''exp'', JNum 100)]) ''sub'' = JStr ''u1''"
    "jprop (JObj [(''sub'', JStr ''u1''), (''exp'', JNum 100)]) ''exp'' = JNum 100"
    by (simp_all add: jprop_def)
  have *: "web_isAuthenticated demo_parse 5000 (demo_session p) \<longleftrightarrow>
      list_all (\<lambda>x. x < 62) (payload_groups p) \<and> (5000 :: int) < 100 * 1000" for p
    using signed_in_iff_unexpired [OF refl, of "''h''" "''s''" demo_parse p _ "''u1''" 100 "demo_session p" 5000]
    by (simp add: demo_parse_def nullish_def j demo_session_def)
  show ?thesis by (simp add: * payload_groups_def)
qed

end
