(* ===== verification/AuthStore.thy ===== *)
theory AuthStore
  imports Jwt
begin

text \<open>
  The session stores, \<^verbatim>\<open>web/src/store/auth.ts\<close> and \<^verbatim>\<open>admin/src/store/auth.ts\<close>, with
  the hook \<open>useAuth\<close> over them. The state of a store extends the client's, because the
  store's actions go through the client and share its storage. The client is the argument
  \<open>api\<close>, of which the locale \<open>session_api\<close> states what the store relies on; both
  concrete clients are interpretations.
\<close>

section \<open>State\<close>

record auth = client +
  user :: json
  isLoggedIn :: bool
  isLoading :: bool
  auth_error :: json

type_synonym 's api = "string \<Rightarrow> request_init \<Rightarrow> 's \<Rightarrow> (exn + json) \<times> 's"

text \<open>The store as the module creates it, over a client.\<close>

definition new_store :: "(client \<Rightarrow> bool) \<Rightarrow> client \<Rightarrow> auth" where
  "new_store authed c = \<lparr>storage = storage c, token = token c, baseUrl = baseUrl c, sent = sent c,
     user = JNull, isLoggedIn = authed c, isLoading = False, auth_error = JNull\<rparr>"

definition web_useAuthStore :: "(string \<Rightarrow> json option) \<Rightarrow> int \<Rightarrow> client \<Rightarrow> auth" where
  "web_useAuthStore parse now c = new_store (web_isAuthenticated parse now) c"

definition admin_useAuthStore :: "(string \<Rightarrow> json option) \<Rightarrow> int \<Rightarrow> client \<Rightarrow> auth" where
  "admin_useAuthStore parse now c = new_store (admin_isAuthenticated parse now) c"

section \<open>Actions\<close>

text \<open>What reading a property of \<open>undefined\<close> throws.\<close>

definition type_error :: exn where
  "type_error = JsError ''Cannot read properties of undefined''"

text \<open>The \<open>try\<close> block after the response, and the \<open>catch\<close> block before the rethrow.\<close>

definition start_session :: "client_cfg \<Rightarrow> json \<Rightarrow> auth \<Rightarrow> auth" where
  "start_session cfg data s =
     (let a = jprop data ''access_token''; r = jprop data ''refresh_token''
      in (setToken cfg a (setTokens cfg a r s))
           \<lparr>user := jprop data ''user'', isLoggedIn := True, isLoading := False\<rparr>)"

definition auth_failed :: "exn \<Rightarrow> auth \<Rightarrow> auth" where
  "auth_failed e s = s\<lparr>auth_error := exn_message e, isLoading := False\<rparr>"

text \<open>
  The body shared by \<open>login\<close> and \<open>register\<close>: a POST, then a session. It is split at its \<open>await\<close>, so that
  the pages can run the same two halves around their request. The first component is what the action throws.
\<close>

definition sign_in_begin :: "auth \<Rightarrow> auth" where
  "sign_in_begin s = s\<lparr>isLoading := True, auth_error := JNull\<rparr>"

definition sign_in_end :: "client_cfg \<Rightarrow> exn + json \<Rightarrow> auth \<Rightarrow> exn option \<times> auth" where
  "sign_in_end cfg r s =
     (case r of
        Inl e \<Rightarrow> (Some e, auth_failed e s)
      | Inr data \<Rightarrow>
          if nullish data then (Some type_error, auth_failed type_error s)
          else (None, start_session cfg data s))"

definition sign_in :: "auth api \<Rightarrow> client_cfg \<Rightarrow> string \<Rightarrow> json \<Rightarrow> auth \<Rightarrow> exn option \<times> auth" where
  "sign_in api cfg path body s =
     (let (r, s1) = api path (send_init ''POST'' (Some body)) (sign_in_begin s) in sign_in_end cfg r s1)"

text \<open>The object the dashboard's \<open>login\<close> sends, and the one it throws in place of what it caught.\<close>

definition login_body :: "string \<Rightarrow> string \<Rightarrow> string option \<Rightarrow> json" where
  "login_body email password mfaCode = JObj ([(''email'', JStr email), (''password'', JStr password)] @
     (case mfaCode of None \<Rightarrow> [] | Some m \<Rightarrow> if m = '''' then [] else [(''mfa_code'', JStr m)]))"

definition rethrown :: "exn \<Rightarrow> exn" where
  "rethrown e = ApiError (exn_code e) (exn_message e) JUndef"

definition web_login :: "net \<Rightarrow> string \<Rightarrow> string \<Rightarrow> string option \<Rightarrow> auth \<Rightarrow> exn option \<times> auth" where
  "web_login net email password mfaCode s =
     (let (e, s') = sign_in (web_apiRequest net) web_cfg ''/v1/auth/login'' (login_body email password mfaCode) s
      in (map_option rethrown e, s'))"

definition web_register :: "net \<Rightarrow> string \<Rightarrow> string \<Rightarrow> string \<Rightarrow> auth \<Rightarrow> exn option \<times> auth" where
  "web_register net email password name s =
     sign_in (web_apiRequest net) web_cfg ''/v1/auth/register''
       (JObj [(''email'', JStr email), (''password'', JStr password), (''name'', JStr name)]) s"

definition admin_login :: "net \<Rightarrow> string \<Rightarrow> string \<Rightarrow> auth \<Rightarrow> exn option \<times> auth" where
  "admin_login net email password s =
     sign_in (admin_apiRequest net) admin_cfg ''/api/admin/v1/auth/login''
       (JObj [(''email'', JStr email), (''password'', JStr password)]) s"

definition sign_out :: "client_cfg \<Rightarrow> auth \<Rightarrow> auth" where
  "sign_out cfg s = clearToken cfg (clearTokens cfg s)"

definition logout :: "client_cfg \<Rightarrow> auth \<Rightarrow> auth" where
  "logout cfg s = (sign_out cfg s)\<lparr>user := JNull, isLoggedIn := False, auth_error := JNull\<rparr>"

definition web_logout :: "auth \<Rightarrow> auth" where
  "web_logout s = logout web_cfg s"

definition admin_logout :: "auth \<Rightarrow> auth" where
  "admin_logout s = logout admin_cfg s"

definition fetch_user :: "auth api \<Rightarrow> client_cfg \<Rightarrow> string \<Rightarrow> auth \<Rightarrow> auth" where
  "fetch_user api cfg path s =
     (case api path get_init (s\<lparr>isLoading := True\<rparr>) of
        (Inr u, s1) \<Rightarrow> s1\<lparr>user := u, isLoggedIn := True, isLoading := False\<rparr>
      | (Inl _, s1) \<Rightarrow> (sign_out cfg s1)\<lparr>user := JNull, isLoggedIn := False, isLoading := False\<rparr>)"

definition web_fetchUser :: "net \<Rightarrow> auth \<Rightarrow> auth" where
  "web_fetchUser net s = fetch_user (web_apiRequest net) web_cfg ''/v1/auth/me'' s"

definition admin_fetchUser :: "net \<Rightarrow> auth \<Rightarrow> auth" where
  "admin_fetchUser net s = fetch_user (admin_apiRequest net) admin_cfg ''/api/admin/v1/auth/me'' s"

definition clearError :: "auth \<Rightarrow> auth" where
  "clearError s = s\<lparr>auth_error := JNull\<rparr>"

text \<open>The functions the hook \<open>useAuth\<close> hands out: each awaits the store's action.\<close>

definition handleLogin :: "net \<Rightarrow> string \<Rightarrow> string \<Rightarrow> string option \<Rightarrow> auth \<Rightarrow> exn option \<times> auth" where
  "handleLogin net email password mfaCode s = web_login net email password mfaCode s"

definition handleRegister :: "net \<Rightarrow> string \<Rightarrow> string \<Rightarrow> string \<Rightarrow> auth \<Rightarrow> exn option \<times> auth" where
  "handleRegister net email password name s = web_register net email password name s"

definition handleLogout :: "auth \<Rightarrow> auth" where
  "handleLogout s = web_logout s"

definition admin_handleLogin :: "net \<Rightarrow> string \<Rightarrow> string \<Rightarrow> auth \<Rightarrow> exn option \<times> auth" where
  "admin_handleLogin net email password s = admin_login net email password s"

section \<open>What the stores rely on\<close>

text \<open>
  The client under two storage keys: a call keeps every other entry of the storage and everything
  that is not the client's own.
\<close>

locale session_api =
  fixes api :: "auth api" and cfg :: client_cfg
  assumes keys_differ: "access_key cfg \<noteq> refresh_key cfg"
    and api_frame: "k \<noteq> access_key cfg \<Longrightarrow> k \<noteq> refresh_key cfg \<Longrightarrow>
        storage (snd (api path opts s)) k = storage s k"
    and api_more: "client.more (snd (api path opts s)) = client.more s"
begin

lemma api_fields:
  "user (snd (api path opts s)) = user s"
  "isLoggedIn (snd (api path opts s)) = isLoggedIn s"
  "isLoading (snd (api path opts s)) = isLoading s"
  "auth_error (snd (api path opts s)) = auth_error s"
proof -
  obtain u l i e where "client.more s = \<lparr>user = u, isLoggedIn = l, isLoading = i, auth_error = e\<rparr>"
    by (cases s) auto
  moreover obtain t where t: "snd (api path opts s) = t" by simp
  moreover have "client.more t = client.more s" using t api_more by auto
  ultimately show
    "user (snd (api path opts s)) = user s" "isLoggedIn (snd (api path opts s)) = isLoggedIn s"
    "isLoading (snd (api path opts s)) = isLoading s" "auth_error (snd (api path opts s)) = auth_error s"
    by (cases s; cases t; simp)+
qed

lemma sign_in_ok:
  assumes "sign_in api cfg path body s = (None, s')"
  obtains data where "\<not> nullish data"
    "fst (api path (send_init ''POST'' (Some body)) (sign_in_begin s)) = Inr data"
    "token s' = jprop data ''access_token''"
    "storage s' (access_key cfg) = Some (js_string (jprop data ''access_token''))"
    "storage s' (refresh_key cfg) = Some (js_string (jprop data ''refresh_token''))"
    "user s' = jprop data ''user''" "isLoggedIn s'" "\<not> isLoading s'" "auth_error s' = JNull"
proof -
  obtain x s1 where r: "api path (send_init ''POST'' (Some body)) (sign_in_begin s) = (x, s1)" by force
  then obtain data where data: "x = Inr data" "\<not> nullish data" "s' = start_session cfg data s1"
    using assms by (auto simp: sign_in_def sign_in_end_def split: sum.splits if_splits)
  have "auth_error s1 = JNull"
    using api_fields(4) [of path _ "sign_in_begin s"] r by (metis snd_conv sign_in_begin_def auth.select_convs(4) auth.surjective auth.update_convs(3,4))
  then show ?thesis
    using data r keys_differ by (intro that [of data])
      (auto simp: start_session_def Let_def setToken_def writeToken_def setTokens_def)
qed

lemma sign_in_refused:
  assumes "sign_in api cfg path body s = (Some e, s')"
  shows "isLoggedIn s' = isLoggedIn s" "user s' = user s" "\<not> isLoading s'" "auth_error s' = exn_message e"
    "case fst (api path (send_init ''POST'' (Some body)) (sign_in_begin s)) of
       Inl err \<Rightarrow> e = err | Inr data \<Rightarrow> nullish data \<and> e = type_error"
proof -
  obtain x s1 where r: "api path (send_init ''POST'' (Some body)) (sign_in_begin s) = (x, s1)" by force
  have s1: "s' = auth_failed e s1"
    using assms r by (auto simp: sign_in_def sign_in_end_def split: sum.splits if_splits)
  have "isLoggedIn s1 = isLoggedIn (sign_in_begin s)" "user s1 = user (sign_in_begin s)"
    using api_fields(1,2) [of path _ "sign_in_begin s"] r by (metis snd_conv)+
  with s1 show "isLoggedIn s' = isLoggedIn s" "user s' = user s" "\<not> isLoading s'" "auth_error s' = exn_message e"
    by (simp_all add: auth_failed_def sign_in_begin_def)
  show "case fst (api path (send_init ''POST'' (Some body)) (sign_in_begin s)) of
       Inl err \<Rightarrow> e = err | Inr data \<Rightarrow> nullish data \<and> e = type_error"
    using assms r by (auto simp: sign_in_def sign_in_end_def split: sum.splits if_splits)
qed

lemma fetch_user_outcome:
  "isLoggedIn (fetch_user api cfg path s) \<longleftrightarrow> (\<exists>u. fst (api path get_init (s\<lparr>isLoading := True\<rparr>)) = Inr u)"
  "\<not> isLoading (fetch_user api cfg path s)"
  "\<not> isLoggedIn (fetch_user api cfg path s) \<Longrightarrow>
     token (fetch_user api cfg path s) = JNull \<and> storage (fetch_user api cfg path s) (access_key cfg) = None \<and>
     storage (fetch_user api cfg path s) (refresh_key cfg) = None"
  by (auto simp: fetch_user_def sign_out_def clearTokens_def clearToken_def removeToken_def
      split: prod.splits sum.splits)

end

interpretation web_api: session_api "web_apiRequest net" web_cfg for net
proof unfold_locales
  show "access_key web_cfg \<noteq> refresh_key web_cfg" by (simp add: web_cfg_def)
qed (simp_all add: web_apiRequest_def request_frame request_more)

interpretation admin_api: session_api "admin_apiRequest net" admin_cfg for net
proof unfold_locales
  show "access_key admin_cfg \<noteq> refresh_key admin_cfg" by (simp add: admin_cfg_def)
qed (simp_all add: admin_apiRequest_def request_frame request_more)

section \<open>Properties of a session\<close>

text \<open>Without a token in memory and in the storage a request goes out alone.\<close>

lemma request_signed_out:
  assumes "\<not> truthy (token s)" and "storage s (access_key cfg) = None"
  shows "sent (snd (request cfg net path opts s)) =
    sent s @ [mk_request s path opts ([''Content-Type'' \<mapsto> ''application/json''] ++ ri_headers opts)]"
proof -
  have t: "token (reload_token cfg s) = JNull"
    using assms by (simp add: reload_token_def readToken_def)
  then have "\<not> needs_refresh r (reload_token cfg s)" for r
    by (simp add: needs_refresh_def split: fetch_result.splits)
  then have "request cfg net path opts s =
      (finish (net (sent s) (mk_request s path opts (request_headers JNull opts))),
       (reload_token cfg s)\<lparr>sent := sent s @ [mk_request s path opts (request_headers JNull opts)]\<rparr>)"
    by (intro request_plain) (simp_all add: t)
  then show ?thesis by (simp add: request_headers_def Let_def)
qed


text \<open>C28: after signing out nothing of the session is left: no token in memory or in
  \<open>localStorage\<close>, the start-up test says signed out, and the next request is a single message
  whose headers are the caller's own, without the client's \<open>Authorization\<close>.\<close>

theorem logout_leaves_nothing:
  "token (web_logout s) = JNull \<and> storage (web_logout s) ''access_token'' = None \<and>
   storage (web_logout s) ''refresh_token'' = None \<and> \<not> isLoggedIn (web_logout s) \<and>
   \<not> web_isAuthenticated parse now (web_logout s) \<and>
   sent (snd (web_apiRequest net path opts (web_logout s))) = sent s @
     [mk_request s path opts ([''Content-Type'' \<mapsto> ''application/json''] ++ ri_headers opts)]"
proof -
  have st: "token (web_logout s) = JNull" "storage (web_logout s) ''access_token'' = None"
    "storage (web_logout s) ''refresh_token'' = None" "\<not> isLoggedIn (web_logout s)"
    "sent (web_logout s) = sent s" "baseUrl (web_logout s) = baseUrl s"
    by (simp_all add: web_logout_def logout_def sign_out_def clearToken_def clearTokens_def removeToken_def web_cfg_def)
  moreover have "\<not> web_isAuthenticated parse now (web_logout s)"
    by (simp add: web_isAuthenticated_def getAccessToken_def token_valid_def st web_cfg_def)
  moreover have "mk_request (web_logout s) path opts h = mk_request s path opts h" for h
    by (rule mk_request_cong) (rule st(6))
  ultimately show ?thesis
    using request_signed_out [of "web_logout s" web_cfg net path opts]
    by (simp add: web_apiRequest_def web_cfg_def)
qed

text \<open>The session check at start-up ends in one of two states: the server accepted the token,
  the store is signed in and holds its answer; or the store is signed out and both tokens are gone from
  \<open>localStorage\<close> and from the client. Either way it is no longer loading.\<close>

theorem fetchUser_outcome:
  "\<not> isLoading (web_fetchUser net s) \<and>
   (if isLoggedIn (web_fetchUser net s)
    then fst (web_apiRequest net ''/v1/auth/me'' get_init (s\<lparr>isLoading := True\<rparr>)) = Inr (user (web_fetchUser net s))
    else user (web_fetchUser net s) = JNull \<and> token (web_fetchUser net s) = JNull \<and>
      storage (web_fetchUser net s) ''access_token'' = None \<and> storage (web_fetchUser net s) ''refresh_token'' = None)"
proof -
  obtain x s1 where r: "web_apiRequest net ''/v1/auth/me'' get_init (s\<lparr>isLoading := True\<rparr>) = (x, s1)"
    by (cases "web_apiRequest net ''/v1/auth/me'' get_init (s\<lparr>isLoading := True\<rparr>)")
  show ?thesis
    using web_api.fetch_user_outcome [of net "''/v1/auth/me''" s] r
    by (cases x) (simp_all add: web_fetchUser_def fetch_user_def web_cfg_def)
qed

text \<open>C39: when the server no longer accepts the session (401, and the refresh is refused), the client
  drops its access token, but the store goes on saying that the user is signed in: nothing connects the
  client's \<open>clearToken\<close> to \<open>isLoggedIn\<close>, which the protected routes read.\<close>

theorem expired_session_stays_logged_in:
  fixes s :: auth
  assumes "truthy (token s)" and "isLoggedIn s"
    and "q = mk_request s path opts (request_headers (token s) opts)"
    and "net (sent s) q = Response r" "status r = 401"
    and "stored_refresh web_cfg s = Some rt"
    and "case net (sent s @ [q]) (refresh_request web_cfg s rt) of
        NetworkError _ \<Rightarrow> True | Response r' \<Rightarrow> \<not> res_ok r'"
  shows "isLoggedIn (snd (web_apiRequest net path opts s)) \<and>
    \<not> web_isAuthenticated parse now (snd (web_apiRequest net path opts s))"
  using refresh_failure_effect [of s q path opts net r web_cfg rt] assms web_api.api_fields(2) [of net path opts s]
  by (simp add: web_apiRequest_def web_isAuthenticated_def getAccessToken_def token_valid_def)

theorem expired_session_stays_logged_in_witness:
  "isLoggedIn (snd (web_apiRequest refusing_net ''/v1/tunnels'' get_init
      (new_store (\<lambda>_. True) signed_in_client)))"
proof -
  let ?s = "new_store (\<lambda>_. True) signed_in_client"
  have st: "stored_refresh web_cfg ?s = Some ''r''"
    by (simp add: new_store_def signed_in_client_def stored_refresh_def web_cfg_def)
  show ?thesis
    using expired_session_stays_logged_in [of ?s _ "''/v1/tunnels''" get_init refusing_net, OF _ _ refl _ _ st]
    by (simp add: new_store_def signed_in_client_def refusing_net_def res_ok_def)
qed

text \<open>A server that signs everybody in.\<close>

definition accepting_net :: net where
  "accepting_net hist r = Response \<lparr>status = 200, statusText = ''OK'',
     payload = Some (JObj [(''access_token'', JStr ''new''), (''refresh_token'', JStr ''r''), (''user'', JStr ''ann'')])\<rparr>"

definition accepted :: json where
  "accepted = JObj [(''access_token'', JStr ''new''), (''refresh_token'', JStr ''r''), (''user'', JStr ''ann'')]"

lemma accepting_answer:
  "fst (web_apiRequest accepting_net path (send_init ''POST'' (Some body)) s) = Inr accepted"
  by (simp add: web_apiRequest_def request_def Let_def fetch_def accepting_net_def needs_refresh_def finish_def res_ok_def accepted_def)

lemma accepted_props:
  "\<not> nullish accepted" "jprop accepted ''user'' = JStr ''ann''" "jprop accepted ''access_token'' = JStr ''new''"
  by (simp_all add: accepted_def nullish_def jprop_def)


end
