(* ===== verification/AuthPages.thy ===== *)
theory AuthPages
  imports Hooks AuthStore
begin

text \<open>
  The pages of the sign-in flow: \<open>Login\<close> with its second factor, \<open>Register\<close>, \<open>ForgotPassword\<close>
  and \<open>ResetPassword\<close> of the dashboard, and the \<open>Login\<close> of the admin console.

  The sign-in pages read the store's \<open>isLoading\<close> and \<open>error\<close>; the model keeps these two fields beside the
  page's own state and runs the two halves of the store's action on them, \<open>sign_in_begin\<close> before the request
  and \<open>sign_in_end\<close> after it. The last section relates a page's handlers to the whole action over a client. A validation
  message is a caption, empty where there is none.
\<close>

section \<open>The store's action around its request\<close>

record store_slice =
  st_loading :: bool
  st_error :: json

text \<open>
  A store with these two fields, and the two fields of a store. Nothing else of the store is read by the pages, and neither
  half of the action reads it to compute the two fields.
\<close>

definition slice_store :: "'a store_slice_scheme \<Rightarrow> auth" where
  "slice_store s = \<lparr>storage = (\<lambda>_. None), token = JNull, baseUrl = '''', sent = [], user = JNull, isLoggedIn = False,
     isLoading = st_loading s, auth_error = st_error s\<rparr>"

definition read_store :: "auth \<Rightarrow> 'a store_slice_scheme \<Rightarrow> 'a store_slice_scheme" where
  "read_store a s = s\<lparr>st_loading := isLoading a, st_error := auth_error a\<rparr>"

definition store_begin :: "'a store_slice_scheme \<Rightarrow> 'a store_slice_scheme" where
  "store_begin s = read_store (sign_in_begin (slice_store s)) s"

definition store_end :: "result \<Rightarrow> 'a store_slice_scheme \<Rightarrow> 'a store_slice_scheme" where
  "store_end r s = read_store (snd (sign_in_end web_cfg r (slice_store s))) s"

text \<open>What the action throws for an answer of the client.\<close>

definition action_error :: "result \<Rightarrow> exn option" where
  "action_error r = fst (sign_in_end web_cfg r (slice_store \<lparr>st_loading = True, st_error = JNull\<rparr>))"

lemma action_error_simps [simp]:
  "action_error (Inl err) = Some err"
  "action_error (Inr data) = (if nullish data then Some type_error else None)"
  by (simp_all add: action_error_def sign_in_end_def)

lemma store_begin_eq: "store_begin s = s\<lparr>st_loading := True, st_error := JNull\<rparr>"
  by (simp add: store_begin_def read_store_def sign_in_begin_def slice_store_def)

lemma store_end_eq:
  "store_end r s =
     (case action_error r of
        None \<Rightarrow> s\<lparr>st_loading := False\<rparr>
      | Some err \<Rightarrow> s\<lparr>st_error := exn_message err, st_loading := False\<rparr>)"
  by (cases r) (simp_all add: store_end_def read_store_def sign_in_end_def slice_store_def auth_failed_def start_session_def
      Let_def setToken_def writeToken_def setTokens_def)

lemma exn_code_rethrown [simp]: "exn_code (rethrown e) = exn_code e"
  by (simp add: rethrown_def)

definition error_badge :: "json \<Rightarrow> 'e ui" where
  "error_badge err = only_if (truthy err) (Node ''Badge'' [Say [Lit (js_string err)]])"

definition submit_button :: "bool \<Rightarrow> string \<Rightarrow> string \<Rightarrow> 'e ui" where
  "submit_button loading busy label = Node ''submit'' [Say (tr (if loading then busy else label))]"

definition blank :: "string \<Rightarrow> bool" where
  "blank v \<longleftrightarrow> trim v = ''''"

definition email_errors :: "string \<Rightarrow> string \<Rightarrow> string \<Rightarrow> caption" where
  "email_errors required invalid email =
     (if blank email then tr required else if \<not> email_test email then tr invalid else [])"

lemma store_slice_simps [simp]:
  "st_loading (store_begin s)" "\<not> st_loading (store_end r s)" "st_error (store_begin s) = JNull"
  by (simp_all add: store_begin_eq store_end_eq split: option.split)

section \<open>Login\<close>

record login_page = store_slice +
  lp_email :: string
  lp_password :: string
  mfaRequired :: bool
  mfaCode :: string
  v_email :: caption
  v_password :: caption
  v_mfa :: caption

definition login_init :: login_page where
  "login_init = \<lparr>st_loading = False, st_error = JNull, lp_email = '''', lp_password = '''', mfaRequired = False,
     mfaCode = '''', v_email = [], v_password = [], v_mfa = []\<rparr>"

datatype login_ev =
  LEmail string | LPassword string | LMfa string | LBack | LSubmit | LSso string

datatype login_k = KLogin

definition login_validate :: "login_page \<Rightarrow> bool \<times> login_page" where
  "login_validate s =
     (let e = (if mfaRequired s then [] else email_errors ''auth.login.email_required'' ''auth.login.invalid_email'' (lp_email s));
          p = (if \<not> mfaRequired s \<and> blank (lp_password s) then tr ''auth.login.password_required'' else []);
          m = (if mfaRequired s \<and> (blank (mfaCode s) \<or> length (mfaCode s) \<noteq> 6) then tr ''auth.login.mfa_code_required'' else [])
      in (e = [] \<and> p = [] \<and> m = [], s\<lparr>v_email := e, v_password := p, v_mfa := m\<rparr>))"

definition login_call :: "string \<Rightarrow> string \<Rightarrow> string option \<Rightarrow> cmd" where
  "login_call email password code = CallApi ''POST'' ''/v1/auth/login'' (login_body email password code)"

definition login_handleSubmit :: "login_page \<Rightarrow> (login_page, login_k) effect" where
  "login_handleSubmit s =
     (let (ok, s1) = login_validate (s\<lparr>st_error := JNull\<rparr>) in
      if \<not> ok then (s1, [], [])
      else (store_begin s1,
        [login_call (lp_email s1) (lp_password s1) (if mfaRequired s1 then Some (mfaCode s1) else None)], [KLogin]))"

definition login_settled :: "result \<Rightarrow> login_page \<Rightarrow> (login_page, login_k) effect" where
  "login_settled r s =
     (let s1 = store_end r s in
      case action_error r of
        None \<Rightarrow> (s1, [GoTo ''/''], [])
      | Some err \<Rightarrow>
          if exn_code (rethrown err) = JStr ''mfa_required''
          then (s1\<lparr>mfaRequired := True, st_error := JNull\<rparr>, [], [])
          else (s1, [], []))"

fun login_user :: "login_ev \<Rightarrow> login_page \<Rightarrow> (login_page, login_k) effect" where
  "login_user (LEmail v) s = (s\<lparr>lp_email := v, v_email := []\<rparr>, [], [])"
| "login_user (LPassword v) s = (s\<lparr>lp_password := v, v_password := []\<rparr>, [], [])"
| "login_user (LMfa v) s = (s\<lparr>mfaCode := filter is_digit v, v_mfa := []\<rparr>, [], [])"
| "login_user LBack s = (s\<lparr>mfaRequired := False, mfaCode := ''''\<rparr>, [], [])"
| "login_user LSubmit s = login_handleSubmit s"
| "login_user (LSso path) s = (s, [Href path], [])"

fun login_resume :: "login_k \<Rightarrow> result \<Rightarrow> login_page \<Rightarrow> (login_page, login_k) effect" where
  "login_resume KLogin r s = login_settled r s"

text \<open>The field of the code takes at most six characters (\<open>maxLength\<close>).\<close>

definition Login_form :: "login_page \<Rightarrow> login_ev ui" where
  "Login_form s = Form (st_loading s) LSubmit
     [(if \<not> mfaRequired s
       then Node ''''
         [Input (tr ''auth.login.email'') (lp_email s) (v_email s) False LEmail,
          Input (tr ''auth.login.password'') (lp_password s) (v_password s) False LPassword]
       else Node ''''
         [Input (tr ''auth.login.mfa_code'') (mfaCode s) (v_mfa s) False (\<lambda>v. LMfa (take 6 v)),
          Button False LBack [Say (tr ''auth.login.back_to_login'')]]),
      error_badge (st_error s),
      submit_button (st_loading s) ''auth.login.signing_in'' (if mfaRequired s then ''auth.login.verify_mfa'' else ''auth.login.submit'')]"

definition Login_sso :: "login_ev ui" where
  "Login_sso = Node ''''
     [Node ''div'' [Node ''span'' [Say (tr ''auth.login.or_continue'')]],
      Node ''div''
       [Button False (LSso ''/v1/auth/github'') [Say (tr ''auth.login.github'')],
        Button False (LSso ''/v1/auth/google'') [Say (tr ''auth.login.google'')]],
      Node ''div'' [Button False (LSso ''/v1/auth/saml/login'') [Say (tr ''auth.login.saml'')]],
      Button False (LSso ''/v1/auth/oidc/login'') [Say (tr ''auth.login.oidc'')]]"

definition Login_view :: "login_page \<Rightarrow> login_ev ui" where
  "Login_view s = Node ''Card''
     [Node ''CardHeader''
       [Say (tr ''auth.login.title''),
        Say (tr (if mfaRequired s then ''auth.login.mfa_description'' else ''auth.login.description''))],
      Node ''CardContent'' [Login_form s, only_if (\<not> mfaRequired s) Login_sso],
      only_if (\<not> mfaRequired s) (Node ''CardFooter''
       [Say (tr ''auth.login.no_account''), LinkTo ''/register'' [Say (tr ''auth.login.register_link'')]])]"

definition Login :: "(login_page, login_ev, login_k) page" where
  "Login = \<lparr>pg_mount = (login_init, [], []), pg_view = Login_view, pg_user = login_user,
     pg_resume = login_resume, pg_env = (=)\<rparr>"

lemma Login_sel [simp]:
  "pg_mount Login = (login_init, [], [])" "pg_view Login = Login_view" "pg_user Login = login_user"
  "pg_resume Login = login_resume" "pg_env Login = (=)"
  by (simp_all add: Login_def)

section \<open>Register\<close>

record register_page = store_slice +
  rp_name :: string
  rp_email :: string
  rp_password :: string
  rp_confirm :: string
  rv_name :: caption
  rv_email :: caption
  rv_password :: caption
  rv_confirm :: caption

definition register_init :: register_page where
  "register_init = \<lparr>st_loading = False, st_error = JNull, rp_name = '''', rp_email = '''', rp_password = '''', rp_confirm = '''',
     rv_name = [], rv_email = [], rv_password = [], rv_confirm = []\<rparr>"

datatype register_ev = RName string | REmail string | RPassword string | RConfirm string | RSubmit

datatype register_k = KRegister

definition password_errors :: "string \<Rightarrow> string \<Rightarrow> caption" where
  "password_errors rule pw =
     (if blank pw then tr ''auth.login.password_required'' else if length pw < 8 then tr rule else [])"

definition register_validate :: "register_page \<Rightarrow> bool \<times> register_page" where
  "register_validate s =
     (let n = (if blank (rp_name s) then tr ''auth.register.name_required'' else []);
          e = email_errors ''auth.register.email_required'' ''auth.register.invalid_email'' (rp_email s);
          p = password_errors ''auth.register.password_rule'' (rp_password s);
          c = (if rp_password s \<noteq> rp_confirm s then tr ''auth.register.password_mismatch'' else [])
      in (n = [] \<and> e = [] \<and> p = [] \<and> c = [], s\<lparr>rv_name := n, rv_email := e, rv_password := p, rv_confirm := c\<rparr>))"

definition register_call :: "string \<Rightarrow> string \<Rightarrow> string \<Rightarrow> cmd" where
  "register_call email password name = CallApi ''POST'' ''/v1/auth/register''
     (JObj [(''email'', JStr email), (''password'', JStr password), (''name'', JStr name)])"

definition register_handleSubmit :: "register_page \<Rightarrow> (register_page, register_k) effect" where
  "register_handleSubmit s =
     (let (ok, s1) = register_validate (s\<lparr>st_error := JNull\<rparr>) in
      if \<not> ok then (s1, [], [])
      else (store_begin s1, [register_call (rp_email s1) (rp_password s1) (rp_name s1)], [KRegister]))"

definition register_settled :: "result \<Rightarrow> register_page \<Rightarrow> (register_page, register_k) effect" where
  "register_settled r s =
     (case action_error r of
        None \<Rightarrow> (store_end r s, [ShowToast (tr ''auth.register.created'') ''success'', GoTo ''/onboarding''], [])
      | Some err \<Rightarrow> (store_end r s, [], []))"

fun register_user :: "register_ev \<Rightarrow> register_page \<Rightarrow> (register_page, register_k) effect" where
  "register_user (RName v) s = (s\<lparr>rp_name := v, rv_name := []\<rparr>, [], [])"
| "register_user (REmail v) s = (s\<lparr>rp_email := v, rv_email := []\<rparr>, [], [])"
| "register_user (RPassword v) s = (s\<lparr>rp_password := v, rv_password := []\<rparr>, [], [])"
| "register_user (RConfirm v) s = (s\<lparr>rp_confirm := v, rv_confirm := []\<rparr>, [], [])"
| "register_user RSubmit s = register_handleSubmit s"

fun register_resume :: "register_k \<Rightarrow> result \<Rightarrow> register_page \<Rightarrow> (register_page, register_k) effect" where
  "register_resume KRegister r s = register_settled r s"

fun strength_name :: "Strength \<Rightarrow> string" where
  "strength_name Weak = ''weak''"
| "strength_name Medium = ''medium''"
| "strength_name Strong = ''strong''"

definition strength_meter :: "string \<Rightarrow> string \<Rightarrow> 'e ui" where
  "strength_meter prefix' pw = only_if (pw \<noteq> []) (Node ''div''
     [Node ''p'' [Say (tr (prefix' @ ''.label'')),
        Node ''span'' [Say (tr (prefix' @ ''.'' @ strength_name (getStrength pw)))]]])"

definition Register_view :: "register_page \<Rightarrow> register_ev ui" where
  "Register_view s = Node ''Card''
     [Node ''CardHeader'' [Say (tr ''auth.register.title''), Say (tr ''auth.register.description'')],
      Node ''CardContent'' [Form (st_loading s) RSubmit
       [Input (tr ''auth.register.name'') (rp_name s) (rv_name s) False RName,
        Input (tr ''auth.register.email'') (rp_email s) (rv_email s) False REmail,
        Node ''div''
         [Input (tr ''auth.register.password'') (rp_password s) (rv_password s) False RPassword,
          strength_meter ''auth.register.password_strength'' (rp_password s)],
        Input (tr ''auth.register.confirm_password'') (rp_confirm s) (rv_confirm s) False RConfirm,
        error_badge (st_error s),
        submit_button (st_loading s) ''auth.register.creating'' ''auth.register.submit'']],
      Node ''CardFooter''
       [Say (tr ''auth.register.has_account''), LinkTo ''/login'' [Say (tr ''auth.register.sign_in_link'')]]]"

definition Register :: "(register_page, register_ev, register_k) page" where
  "Register = \<lparr>pg_mount = (register_init, [], []), pg_view = Register_view, pg_user = register_user,
     pg_resume = register_resume, pg_env = (=)\<rparr>"

section \<open>Forgotten passwords\<close>

text \<open>
  The two pages for a lost password call \<open>fetch\<close> themselves: the path is not prefixed with the
  configured server, and the error text comes from the body of the response.
\<close>

definition raw_outcome :: "fetch_result \<Rightarrow> result" where
  "raw_outcome res =
     (case res of
        NetworkError m \<Rightarrow> Inl (JsError m)
      | Response r \<Rightarrow>
          if res_ok r then Inr JUndef
          else let body = (case payload r of None \<Rightarrow> JObj [] | Some b \<Rightarrow> b) in
            Inl (JsError (js_string (or_else (jprop (jprop body ''error'') ''message'')
              (or_else (jprop body ''message'') (JStr ''Request failed''))))))"

text \<open>The state both pages share.\<close>

record raw_form =
  rf_loading :: bool
  rf_error :: json
  rf_success :: bool

definition raw_settled :: "result \<Rightarrow> 'a raw_form_scheme \<Rightarrow> 'a raw_form_scheme" where
  "raw_settled r s =
     (case r of
        Inl err \<Rightarrow> s\<lparr>rf_error := exn_message err, rf_loading := False\<rparr>
      | Inr v \<Rightarrow> s\<lparr>rf_success := True, rf_loading := False\<rparr>)"

record forgot_page = raw_form +
  fp_email :: string
  fv_email :: caption

definition forgot_init :: forgot_page where
  "forgot_init = \<lparr>rf_loading = False, rf_error = JNull, rf_success = False, fp_email = '''', fv_email = []\<rparr>"

datatype forgot_ev = FEmail string | FSubmit

datatype raw_k = KRaw

definition forgot_validate :: "forgot_page \<Rightarrow> bool \<times> forgot_page" where
  "forgot_validate s =
     (let e = email_errors ''auth.forgot.email_required'' ''auth.forgot.invalid_email'' (fp_email s)
      in (e = [], s\<lparr>fv_email := e\<rparr>))"

definition forgot_handleSubmit :: "forgot_page \<Rightarrow> (forgot_page, raw_k) effect" where
  "forgot_handleSubmit s =
     (let (ok, s1) = forgot_validate (s\<lparr>rf_error := JNull\<rparr>) in
      if \<not> ok then (s1, [], [])
      else (s1\<lparr>rf_loading := True\<rparr>,
        [CallApi ''POST'' ''/v1/auth/password/forgot'' (json_body [(''email'', JStr (fp_email s1))])], [KRaw]))"

fun forgot_user :: "forgot_ev \<Rightarrow> forgot_page \<Rightarrow> (forgot_page, raw_k) effect" where
  "forgot_user (FEmail v) s = (s\<lparr>fp_email := v, fv_email := []\<rparr>, [], [])"
| "forgot_user FSubmit s = forgot_handleSubmit s"

fun forgot_resume :: "raw_k \<Rightarrow> result \<Rightarrow> forgot_page \<Rightarrow> (forgot_page, raw_k) effect" where
  "forgot_resume KRaw r s = (raw_settled r s, [], [])"

definition Forgot_view :: "forgot_page \<Rightarrow> forgot_ev ui" where
  "Forgot_view s =
     (if rf_success s
      then Node ''Card'' [Node ''p'' [Say (tr ''auth.forgot.success'')], LinkTo ''/login'' [Say (tr ''auth.forgot.back'')]]
      else Node ''Card''
       [Node ''CardHeader'' [Say (tr ''auth.forgot.title''), Say (tr ''auth.forgot.description'')],
        Node ''CardContent'' [Form (rf_loading s) FSubmit
         [Input (tr ''auth.forgot.email'') (fp_email s) (fv_email s) False FEmail,
          error_badge (rf_error s),
          submit_button (rf_loading s) ''auth.forgot.sending'' ''auth.forgot.submit'']],
        Node ''CardFooter'' [LinkTo ''/login'' [Say (tr ''auth.forgot.back'')]]])"

definition ForgotPassword :: "(forgot_page, forgot_ev, raw_k) page" where
  "ForgotPassword = \<lparr>pg_mount = (forgot_init, [], []), pg_view = Forgot_view, pg_user = forgot_user,
     pg_resume = forgot_resume, pg_env = (=)\<rparr>"

section \<open>New passwords\<close>

record reset_page = raw_form +
  reset_token :: "string option"
  sp_password :: string
  sp_confirm :: string
  sv_password :: caption
  sv_confirm :: caption

definition reset_init :: "string option \<Rightarrow> reset_page" where
  "reset_init tok = \<lparr>rf_loading = False, rf_error = JNull, rf_success = False, reset_token = tok, sp_password = '''',
     sp_confirm = '''', sv_password = [], sv_confirm = []\<rparr>"

datatype reset_ev = SPassword string | SConfirm string | SSubmit

definition reset_validate :: "reset_page \<Rightarrow> bool \<times> reset_page" where
  "reset_validate s =
     (let p = password_errors ''auth.reset.password_rule'' (sp_password s);
          c = (if sp_password s \<noteq> sp_confirm s then tr ''auth.reset.password_mismatch'' else [])
      in (p = [] \<and> c = [], s\<lparr>sv_password := p, sv_confirm := c\<rparr>))"

definition reset_handleSubmit :: "reset_page \<Rightarrow> (reset_page, raw_k) effect" where
  "reset_handleSubmit s =
     (let (ok, s1) = reset_validate (s\<lparr>rf_error := JNull\<rparr>) in
      if \<not> ok then (s1, [], [])
      else (s1\<lparr>rf_loading := True\<rparr>,
        [CallApi ''POST'' ''/v1/auth/password/reset''
           (json_body [(''token'', opt_str (reset_token s1)), (''new_password'', JStr (sp_password s1))])], [KRaw]))"

fun reset_user :: "reset_ev \<Rightarrow> reset_page \<Rightarrow> (reset_page, raw_k) effect" where
  "reset_user (SPassword v) s = (s\<lparr>sp_password := v, sv_password := []\<rparr>, [], [])"
| "reset_user (SConfirm v) s = (s\<lparr>sp_confirm := v, sv_confirm := []\<rparr>, [], [])"
| "reset_user SSubmit s = reset_handleSubmit s"

fun reset_resume :: "raw_k \<Rightarrow> result \<Rightarrow> reset_page \<Rightarrow> (reset_page, raw_k) effect" where
  "reset_resume KRaw r s = (raw_settled r s, [], [])"

definition Reset_view :: "reset_page \<Rightarrow> reset_ev ui" where
  "Reset_view s =
     (if reset_token s = None \<or> reset_token s = Some ''''
      then Node ''Card'' [Node ''p'' [Say (tr ''auth.reset.token_missing'')], LinkTo ''/login'' [Say (tr ''auth.reset.back'')]]
      else if rf_success s
      then Node ''Card'' [Node ''p'' [Say (tr ''auth.reset.success'')], LinkTo ''/login'' [Say (tr ''auth.reset.back'')]]
      else Node ''Card''
       [Node ''CardHeader'' [Say (tr ''auth.reset.title''), Say (tr ''auth.reset.description'')],
        Node ''CardContent'' [Form (rf_loading s) SSubmit
         [Node ''div''
           [Input (tr ''auth.reset.new_password'') (sp_password s) (sv_password s) False SPassword,
            strength_meter ''auth.reset.password_strength'' (sp_password s)],
          Input (tr ''auth.reset.confirm_password'') (sp_confirm s) (sv_confirm s) False SConfirm,
          error_badge (rf_error s),
          submit_button (rf_loading s) ''auth.reset.resetting'' ''auth.reset.submit'']],
        Node ''CardFooter'' [LinkTo ''/login'' [Say (tr ''auth.reset.back'')]]])"

definition ResetPassword :: "string option \<Rightarrow> (reset_page, reset_ev, raw_k) page" where
  "ResetPassword tok = \<lparr>pg_mount = (reset_init tok, [], []), pg_view = Reset_view, pg_user = reset_user,
     pg_resume = reset_resume, pg_env = (=)\<rparr>"

section \<open>The admin console's login\<close>

record admin_login_page = store_slice +
  ap_email :: string
  ap_password :: string
  av_email :: caption
  av_password :: caption

definition admin_login_init :: admin_login_page where
  "admin_login_init = \<lparr>st_loading = False, st_error = JNull, ap_email = '''', ap_password = '''', av_email = [], av_password = []\<rparr>"

datatype admin_login_ev = AEmail string | APassword string | ASubmit

datatype admin_login_k = KAdminLogin

definition admin_login_validate :: "admin_login_page \<Rightarrow> bool \<times> admin_login_page" where
  "admin_login_validate s =
     (let e = email_errors ''auth.login.emailRequired'' ''auth.login.invalidEmail'' (ap_email s);
          p = (if blank (ap_password s) then tr ''auth.login.passwordRequired'' else [])
      in (e = [] \<and> p = [], s\<lparr>av_email := e, av_password := p\<rparr>))"

definition admin_login_call :: "string \<Rightarrow> string \<Rightarrow> cmd" where
  "admin_login_call email password = CallApi ''POST'' ''/api/admin/v1/auth/login''
     (JObj [(''email'', JStr email), (''password'', JStr password)])"

definition admin_login_handleSubmit :: "admin_login_page \<Rightarrow> (admin_login_page, admin_login_k) effect" where
  "admin_login_handleSubmit s =
     (let (ok, s1) = admin_login_validate (s\<lparr>st_error := JNull\<rparr>) in
      if \<not> ok then (s1, [], [])
      else (store_begin s1, [admin_login_call (ap_email s1) (ap_password s1)], [KAdminLogin]))"

fun admin_login_user :: "admin_login_ev \<Rightarrow> admin_login_page \<Rightarrow> (admin_login_page, admin_login_k) effect" where
  "admin_login_user (AEmail v) s = (s\<lparr>ap_email := v, av_email := []\<rparr>, [], [])"
| "admin_login_user (APassword v) s = (s\<lparr>ap_password := v, av_password := []\<rparr>, [], [])"
| "admin_login_user ASubmit s = admin_login_handleSubmit s"

fun admin_login_resume :: "admin_login_k \<Rightarrow> result \<Rightarrow> admin_login_page \<Rightarrow> (admin_login_page, admin_login_k) effect" where
  "admin_login_resume KAdminLogin r s = (store_end r s, (if action_error r = None then [GoTo ''/''] else []), [])"

definition AdminLogin_view :: "admin_login_page \<Rightarrow> admin_login_ev ui" where
  "AdminLogin_view s = Node ''Card''
     [Node ''CardHeader'' [Say (tr ''auth.login.title''), Say (tr ''auth.login.subtitle'')],
      Node ''CardContent'' [Form (st_loading s) ASubmit
       [Input (tr ''auth.login.email'') (ap_email s) (av_email s) False AEmail,
        Input (tr ''auth.login.password'') (ap_password s) (av_password s) False APassword,
        error_badge (st_error s),
        submit_button (st_loading s) ''auth.login.signingIn'' ''auth.login.signIn'']]]"

definition AdminLogin :: "(admin_login_page, admin_login_ev, admin_login_k) page" where
  "AdminLogin = \<lparr>pg_mount = (admin_login_init, [], []), pg_view = AdminLogin_view, pg_user = admin_login_user,
     pg_resume = admin_login_resume, pg_env = (=)\<rparr>"

section \<open>Invariants\<close>

lemma page_sels [simp]:
  "pg_mount Register = (register_init, [], [])" "pg_view Register = Register_view" "pg_user Register = register_user"
  "pg_resume Register = register_resume" "pg_env Register = (=)"
  "pg_mount ForgotPassword = (forgot_init, [], [])" "pg_view ForgotPassword = Forgot_view" "pg_user ForgotPassword = forgot_user"
  "pg_resume ForgotPassword = forgot_resume" "pg_env ForgotPassword = (=)"
  "pg_mount (ResetPassword tok) = (reset_init tok, [], [])" "pg_view (ResetPassword tok) = Reset_view"
  "pg_user (ResetPassword tok) = reset_user" "pg_resume (ResetPassword tok) = reset_resume" "pg_env (ResetPassword tok) = (=)"
  "pg_mount AdminLogin = (admin_login_init, [], [])" "pg_view AdminLogin = AdminLogin_view" "pg_user AdminLogin = admin_login_user"
  "pg_resume AdminLogin = admin_login_resume" "pg_env AdminLogin = (=)"
  by (simp_all add: Register_def ForgotPassword_def ResetPassword_def AdminLogin_def)

lemma email_errors_none: "email_errors a b v = [] \<longleftrightarrow> \<not> blank v \<and> email_test v"
  by (simp add: email_errors_def)

lemma password_errors_none: "password_errors rule v = [] \<longleftrightarrow> \<not> blank v \<and> 8 \<le> length v"
  by (auto simp: password_errors_def)

lemma small_view_simps [simp]:
  "events (error_badge e) = {}" "events (submit_button l a b) = {}" "events (strength_meter p pw) = {}"
  by (simp_all add: error_badge_def submit_button_def strength_meter_def)

text \<open>The flag that disables the submit button is set exactly while one answer is awaited.\<close>

definition login_inv :: "login_page \<Rightarrow> login_k list \<Rightarrow> bool" where
  "login_inv s ks \<longleftrightarrow> flags (st_loading s) (\<lambda>_. True) ks \<and> list_all is_digit (mfaCode s) \<and> length (mfaCode s) \<le> 6"

fun login_cmd_ok :: "cmd \<Rightarrow> bool" where
  "login_cmd_ok (CallApi m p b) =
     (\<exists>email pw code. CallApi m p b = login_call email pw code \<and>
        (case code of
           None \<Rightarrow> email_test email \<and> \<not> blank pw
         | Some c \<Rightarrow> length c = 6 \<and> list_all is_digit c))"
| "login_cmd_ok _ = True"

fun login_guard :: "login_page \<Rightarrow> login_ev \<Rightarrow> bool" where
  "login_guard s LSubmit = (\<not> st_loading s)"
| "login_guard s (LMfa v) = (length v \<le> 6)"
| "login_guard s _ = True"

lemma login_offered: "e \<in> events (Login_view s) \<Longrightarrow> login_guard s e"
  by (auto simp: Login_view_def Login_form_def Login_sso_def split: if_splits)

text \<open>When the form may be submitted.\<close>

definition login_valid :: "login_page \<Rightarrow> bool" where
  "login_valid s \<longleftrightarrow>
     (if mfaRequired s then \<not> blank (mfaCode s) \<and> length (mfaCode s) = 6
      else \<not> blank (lp_email s) \<and> email_test (lp_email s) \<and> \<not> blank (lp_password s))"

lemma login_submit:
  "fst (snd (login_handleSubmit s)) =
     (if login_valid s then [login_call (lp_email s) (lp_password s) (if mfaRequired s then Some (mfaCode s) else None)] else [])"
  "snd (snd (login_handleSubmit s)) = (if login_valid s then [KLogin] else [])"
  "st_loading (fst (login_handleSubmit s)) \<longleftrightarrow> st_loading s \<or> login_valid s"
  "mfaCode (fst (login_handleSubmit s)) = mfaCode s"
  by (simp_all add: login_handleSubmit_def login_validate_def login_valid_def email_errors_none Let_def store_begin_eq)

lemma store_begin_keeps [simp]: "mfaCode (store_begin s) = mfaCode s"
  by (simp add: store_begin_eq)

lemma store_end_keeps [simp]: "mfaCode (store_end r s) = mfaCode s"
  by (simp add: store_end_eq split: option.split)

lemma login_user_inv:
  assumes "login_inv s ks" and "login_guard s e"
  shows "login_inv (fst (login_user e s)) (ks @ snd (snd (login_user e s)))"
proof (cases e)
  case (LMfa v)
  have "length (filter is_digit v) \<le> 6" using LMfa assms(2) by (auto intro: le_trans [OF length_filter_le])
  with LMfa assms show ?thesis by (simp add: login_inv_def list_all_iff)
qed (use assms in \<open>simp_all add: login_inv_def login_submit flags_def\<close>)

lemma login_user_cmds:
  assumes "login_inv s ks" and "c \<in> set (fst (snd (login_user e s)))"
  shows "login_cmd_ok c"
proof (cases e)
  case LSubmit
  with assms(2) have ok: "login_valid s"
    and c: "c = login_call (lp_email s) (lp_password s) (if mfaRequired s then Some (mfaCode s) else None)"
    by (auto simp: login_submit split: if_splits)
  from ok assms(1) have "case if mfaRequired s then Some (mfaCode s) else None of
      None \<Rightarrow> email_test (lp_email s) \<and> \<not> blank (lp_password s) | Some c \<Rightarrow> length c = 6 \<and> list_all is_digit c"
    by (simp add: login_valid_def login_inv_def split: if_splits)
  moreover obtain m p b where "c = CallApi m p b" using c by (simp add: login_call_def)
  ultimately show ?thesis using c by (metis login_cmd_ok.simps(1))
qed (use assms in simp_all)

interpretation login: page_commands Login login_inv login_cmd_ok
proof unfold_locales
  show "pg_mount Login = (s, cs, ks) \<Longrightarrow> login_inv s ks" for s cs ks
    by (auto simp: login_init_def login_inv_def flags_def)
  show "login_inv s ks \<Longrightarrow> e \<in> events (pg_view Login s) \<Longrightarrow> pg_user Login e s = (s', cs, new) \<Longrightarrow> login_inv s' (ks @ new)"
    for s ks e s' cs new
    using login_user_inv [of s ks e] login_offered [of e s] by simp
  show "login_inv s (ks1 @ k # ks2) \<Longrightarrow> pg_resume Login k r s = (s', cs, new) \<Longrightarrow> login_inv s' (ks1 @ ks2 @ new)"
    for s ks1 k ks2 r s' cs new
    by (cases k) (auto simp: login_settled_def Let_def login_inv_def flags_def split: option.splits if_splits)
  show "login_inv s ks \<Longrightarrow> pg_env Login s s' \<Longrightarrow> login_inv s' ks" for s ks s' by simp
  show "pg_mount Login = (s, cs, ks) \<Longrightarrow> c \<in> set cs \<Longrightarrow> login_cmd_ok c" for s cs ks c by simp
  show "login_inv s ks \<Longrightarrow> e \<in> events (pg_view Login s) \<Longrightarrow> pg_user Login e s = (s', cs, new) \<Longrightarrow> c \<in> set cs \<Longrightarrow> login_cmd_ok c"
    for s ks e s' cs new c
    using login_user_cmds [of s ks c e] by simp
  show "login_inv s (ks1 @ k # ks2) \<Longrightarrow> pg_resume Login k r s = (s', cs, new) \<Longrightarrow> c \<in> set cs \<Longrightarrow> login_cmd_ok c"
    for s ks1 k ks2 r s' cs new c
    by (cases k) (auto simp: login_settled_def Let_def split: option.splits if_splits)
qed

definition register_inv :: "register_page \<Rightarrow> register_k list \<Rightarrow> bool" where
  "register_inv s ks \<longleftrightarrow> flags (st_loading s) (\<lambda>_. True) ks"

fun register_cmd_ok :: "cmd \<Rightarrow> bool" where
  "register_cmd_ok (CallApi m p b) =
     (\<exists>email pw name. CallApi m p b = register_call email pw name \<and> email_test email \<and> 8 \<le> length pw \<and> \<not> blank pw \<and> \<not> blank name)"
| "register_cmd_ok _ = True"

lemma register_offered: "RSubmit \<in> events (Register_view s) \<Longrightarrow> \<not> st_loading s"
  by (auto simp: Register_view_def split: if_splits)

lemma register_submit:
  defines "ok s \<equiv> \<not> blank (rp_name s) \<and> \<not> blank (rp_email s) \<and> email_test (rp_email s) \<and> \<not> blank (rp_password s) \<and>
    8 \<le> length (rp_password s) \<and> rp_password s = rp_confirm s"
  shows "fst (snd (register_handleSubmit s)) = (if ok s then [register_call (rp_email s) (rp_password s) (rp_name s)] else [])"
    and "snd (snd (register_handleSubmit s)) = (if ok s then [KRegister] else [])"
    and "st_loading (fst (register_handleSubmit s)) \<longleftrightarrow> st_loading s \<or> ok s"
  by (auto simp: ok_def register_handleSubmit_def register_validate_def email_errors_none password_errors_none Let_def
      store_begin_eq)

lemma register_call_ok:
  "register_cmd_ok (register_call email pw name) \<longleftrightarrow> email_test email \<and> 8 \<le> length pw \<and> \<not> blank pw \<and> \<not> blank name"
  by (auto simp: register_call_def)

interpretation register: page_commands Register register_inv register_cmd_ok
proof unfold_locales
  show "pg_mount Register = (s, cs, ks) \<Longrightarrow> register_inv s ks" for s cs ks
    by (auto simp: register_init_def register_inv_def flags_def)
  show "register_inv s ks \<Longrightarrow> e \<in> events (pg_view Register s) \<Longrightarrow> pg_user Register e s = (s', cs, new) \<Longrightarrow> register_inv s' (ks @ new)"
    for s ks e s' cs new
    using register_submit [of s] register_offered [of s]
    by (cases e) (auto simp: register_inv_def flags_def split: if_splits)
  show "register_inv s (ks1 @ k # ks2) \<Longrightarrow> pg_resume Register k r s = (s', cs, new) \<Longrightarrow> register_inv s' (ks1 @ ks2 @ new)"
    for s ks1 k ks2 r s' cs new
    by (cases k) (auto simp: register_settled_def register_inv_def flags_def split: option.splits if_splits)
  show "register_inv s ks \<Longrightarrow> pg_env Register s s' \<Longrightarrow> register_inv s' ks" for s ks s' by simp
  show "pg_mount Register = (s, cs, ks) \<Longrightarrow> c \<in> set cs \<Longrightarrow> register_cmd_ok c" for s cs ks c by simp
  show "pg_user Register e s = (s', cs, new) \<Longrightarrow> c \<in> set cs \<Longrightarrow> register_cmd_ok c" for e s s' cs new c
    using register_submit(1) [of s] by (cases e) (auto simp: register_call_ok split: if_splits)
  show "pg_resume Register k r s = (s', cs, new) \<Longrightarrow> c \<in> set cs \<Longrightarrow> register_cmd_ok c" for k r s s' cs new c
    by (cases k) (auto simp: register_settled_def split: option.splits)
qed

definition forgot_inv :: "forgot_page \<Rightarrow> raw_k list \<Rightarrow> bool" where
  "forgot_inv s ks \<longleftrightarrow> flags (rf_loading s) (\<lambda>_. True) ks"

lemma forgot_offered: "FSubmit \<in> events (Forgot_view s) \<Longrightarrow> \<not> rf_loading s"
  by (auto simp: Forgot_view_def split: if_splits)

interpretation forgot: page_invariant ForgotPassword forgot_inv
proof unfold_locales
  show "pg_mount ForgotPassword = (s, cs, ks) \<Longrightarrow> forgot_inv s ks" for s cs ks
    by (auto simp: forgot_init_def forgot_inv_def flags_def)
  show "forgot_inv s ks \<Longrightarrow> e \<in> events (pg_view ForgotPassword s) \<Longrightarrow> pg_user ForgotPassword e s = (s', cs, new) \<Longrightarrow> forgot_inv s' (ks @ new)"
    for s ks e s' cs new
    using forgot_offered [of s]
    by (cases e) (auto simp: forgot_inv_def flags_def forgot_handleSubmit_def forgot_validate_def Let_def split: if_splits)
  show "forgot_inv s (ks1 @ k # ks2) \<Longrightarrow> pg_resume ForgotPassword k r s = (s', cs, new) \<Longrightarrow> forgot_inv s' (ks1 @ ks2 @ new)"
    for s ks1 k ks2 r s' cs new
    by (cases k) (auto simp: raw_settled_def forgot_inv_def flags_def split: sum.splits if_splits)
  show "forgot_inv s ks \<Longrightarrow> pg_env ForgotPassword s s' \<Longrightarrow> forgot_inv s' ks" for s ks s' by simp
qed

definition reset_inv :: "string option \<Rightarrow> reset_page \<Rightarrow> raw_k list \<Rightarrow> bool" where
  "reset_inv tok s ks \<longleftrightarrow> flags (rf_loading s) (\<lambda>_. True) ks \<and> reset_token s = tok"

definition reset_call :: "string \<Rightarrow> string \<Rightarrow> cmd" where
  "reset_call tok pw = CallApi ''POST'' ''/v1/auth/password/reset'' (json_body [(''token'', JStr tok), (''new_password'', JStr pw)])"

fun reset_cmd_ok :: "string option \<Rightarrow> cmd \<Rightarrow> bool" where
  "reset_cmd_ok tok (CallApi m p b) =
     (\<exists>t pw. tok = Some t \<and> t \<noteq> '''' \<and> CallApi m p b = reset_call t pw \<and> 8 \<le> length pw \<and> \<not> blank pw)"
| "reset_cmd_ok tok _ = True"

lemma reset_offered: "e \<in> events (Reset_view s) \<Longrightarrow>
    (\<exists>t. reset_token s = Some t \<and> t \<noteq> '''') \<and> (e = SSubmit \<longrightarrow> \<not> rf_loading s)"
  by (cases "reset_token s") (auto simp: Reset_view_def split: if_splits)

interpretation reset: page_commands "ResetPassword tok" "reset_inv tok" "reset_cmd_ok tok" for tok
proof unfold_locales
  show "pg_mount (ResetPassword tok) = (s, cs, ks) \<Longrightarrow> reset_inv tok s ks" for s cs ks
    by (auto simp: reset_init_def reset_inv_def flags_def)
  show "reset_inv tok s ks \<Longrightarrow> e \<in> events (pg_view (ResetPassword tok) s) \<Longrightarrow> pg_user (ResetPassword tok) e s = (s', cs, new) \<Longrightarrow> reset_inv tok s' (ks @ new)"
    for s ks e s' cs new
    using reset_offered [of e s]
    by (cases e) (auto simp: reset_inv_def flags_def reset_handleSubmit_def reset_validate_def Let_def split: if_splits)
  show "reset_inv tok s (ks1 @ k # ks2) \<Longrightarrow> pg_resume (ResetPassword tok) k r s = (s', cs, new) \<Longrightarrow> reset_inv tok s' (ks1 @ ks2 @ new)"
    for s ks1 k ks2 r s' cs new
    by (cases k) (auto simp: raw_settled_def reset_inv_def flags_def split: sum.splits if_splits)
  show "reset_inv tok s ks \<Longrightarrow> pg_env (ResetPassword tok) s s' \<Longrightarrow> reset_inv tok s' ks" for s ks s' by simp
  show "pg_mount (ResetPassword tok) = (s, cs, ks) \<Longrightarrow> c \<in> set cs \<Longrightarrow> reset_cmd_ok tok c" for s cs ks c by simp
  show "reset_inv tok s ks \<Longrightarrow> e \<in> events (pg_view (ResetPassword tok) s) \<Longrightarrow> pg_user (ResetPassword tok) e s = (s', cs, new) \<Longrightarrow> c \<in> set cs \<Longrightarrow> reset_cmd_ok tok c"
    for s ks e s' cs new c
    using reset_offered [of e s]
    by (cases e) (auto simp: reset_inv_def reset_handleSubmit_def reset_validate_def password_errors_none Let_def reset_call_def
        opt_str_def split: if_splits)
  show "pg_resume (ResetPassword tok) k r s = (s', cs, new) \<Longrightarrow> c \<in> set cs \<Longrightarrow> reset_cmd_ok tok c" for k r s s' cs new c
    by (cases k) simp
qed

definition admin_login_inv :: "admin_login_page \<Rightarrow> admin_login_k list \<Rightarrow> bool" where
  "admin_login_inv s ks \<longleftrightarrow> flags (st_loading s) (\<lambda>_. True) ks"

lemma admin_login_offered: "ASubmit \<in> events (AdminLogin_view s) \<Longrightarrow> \<not> st_loading s"
  by (auto simp: AdminLogin_view_def split: if_splits)

interpretation admin_login_page: page_invariant AdminLogin admin_login_inv
proof unfold_locales
  show "pg_mount AdminLogin = (s, cs, ks) \<Longrightarrow> admin_login_inv s ks" for s cs ks
    by (auto simp: admin_login_init_def admin_login_inv_def flags_def)
  show "admin_login_inv s ks \<Longrightarrow> e \<in> events (pg_view AdminLogin s) \<Longrightarrow> pg_user AdminLogin e s = (s', cs, new) \<Longrightarrow> admin_login_inv s' (ks @ new)"
    for s ks e s' cs new
    using admin_login_offered [of s]
    by (cases e) (auto simp: admin_login_inv_def flags_def admin_login_handleSubmit_def admin_login_validate_def Let_def store_begin_eq
        split: if_splits)
  show "admin_login_inv s (ks1 @ k # ks2) \<Longrightarrow> pg_resume AdminLogin k r s = (s', cs, new) \<Longrightarrow> admin_login_inv s' (ks1 @ ks2 @ new)"
    for s ks1 k ks2 r s' cs new
    by (cases k) (auto simp: admin_login_inv_def flags_def split: if_splits)
  show "admin_login_inv s ks \<Longrightarrow> pg_env AdminLogin s s' \<Longrightarrow> admin_login_inv s' ks" for s ks s' by simp
qed

section \<open>Properties\<close>

text \<open>C12: whatever the visitor types and in whatever order answers arrive, the login page asks the server only
  with an address of the right form and a password that is not blank, or, in the second step, with a code of
  six digits; and at most one login is in flight, exactly while the button is disabled.\<close>

theorem login_requests_valid:
  assumes "page_reach Login (s, ks, out)"
  shows "length ks = (if st_loading s then 1 else 0) \<and>
    (\<forall>c \<in> set out. is_call c \<longrightarrow>
       (\<exists>email pw code. c = login_call email pw code \<and>
          (case code of None \<Rightarrow> email_test email \<and> \<not> blank pw | Some m \<Rightarrow> length m = 6 \<and> list_all is_digit m)))"
proof -
  have "login_cmd_ok c" if "c \<in> set out" for c using login.commands [OF assms that] .
  then have "\<exists>email pw code. c = login_call email pw code \<and>
      (case code of None \<Rightarrow> email_test email \<and> \<not> blank pw | Some m \<Rightarrow> length m = 6 \<and> list_all is_digit m)"
    if "c \<in> set out" "is_call c" for c using that by (cases c) fastforce+
  then show ?thesis
    using login.reachable [OF assms] by (simp add: login_inv_def flags_def waiting_def)
qed

lemma login_fields_offered:
  "\<not> mfaRequired s \<Longrightarrow> LEmail v \<in> events (Login_view s)" "\<not> mfaRequired s \<Longrightarrow> LPassword v \<in> events (Login_view s)"
  "\<not> st_loading s \<Longrightarrow> LSubmit \<in> events (Login_view s)"
  by (simp_all add: Login_view_def Login_form_def)

definition typed_login :: login_page where
  "typed_login = login_init\<lparr>lp_email := ''a@b.c'', lp_password := ''secret''\<rparr>"

lemma typed_login_valid: "login_valid typed_login"
  by (simp add: login_valid_def typed_login_def login_init_def blank_def email_test_def trim_def is_ws_def)

lemma login_asked:
  "page_reach Login (fst (login_handleSubmit typed_login), [KLogin], [login_call ''a@b.c'' ''secret'' None])"
proof -
  have s: "typed_login = login_init\<lparr>lp_email := ''a@b.c'', v_email := [], lp_password := ''secret'', v_password := []\<rparr>"
    by (simp add: typed_login_def login_init_def)
  obtain s1 where h: "login_handleSubmit typed_login = (s1, [login_call ''a@b.c'' ''secret'' None], [KLogin])"
    using login_submit(1,2) [of typed_login] typed_login_valid
    by (cases "login_handleSubmit typed_login") (simp add: typed_login_def login_init_def)
  then have "page_play Login [Do (LEmail ''a@b.c''), Do (LPassword ''secret''), Do LSubmit] (login_init, [], []) =
      Some (s1, [KLogin], [login_call ''a@b.c'' ''secret'' None])"
    unfolding s using login_fields_offered by (simp add: login_init_def)
  then have "page_reach Login (s1, [KLogin], [login_call ''a@b.c'' ''secret'' None])"
    by (rule page_play_mount [OF Login_sel(1)])
  with h show ?thesis by simp
qed

theorem login_requests_valid_witness:
  "st_loading (fst (login_handleSubmit typed_login)) \<and>
   (\<exists>email pw code. login_call ''a@b.c'' ''secret'' None = login_call email pw code \<and>
      (case code of None \<Rightarrow> email_test email \<and> \<not> blank pw | Some m \<Rightarrow> length m = 6 \<and> list_all is_digit m))"
proof -
  have "is_call (login_call ''a@b.c'' ''secret'' None)" by (simp add: login_call_def)
  then show ?thesis
    using login_requests_valid [OF login_asked] by (auto split: if_splits)
qed

lemma register_calls:
  assumes "page_reach Register (s, ks, out)" and "c \<in> set out" and "is_call c"
  shows "\<exists>email pw name. c = register_call email pw name \<and> email_test email \<and> 8 \<le> length pw \<and> \<not> blank pw \<and> \<not> blank name"
  using register.commands [OF assms(1,2)] assms(3) by (cases c) fastforce+

lemma reset_calls:
  assumes "page_reach (ResetPassword tok) (s, ks, out)" and "c \<in> set out" and "is_call c"
  shows "\<exists>t pw. tok = Some t \<and> t \<noteq> '''' \<and> c = reset_call t pw \<and> 8 \<le> length pw \<and> \<not> blank pw"
  using reset.commands [OF assms(1,2)] assms(3) by (cases c) fastforce+

text \<open>New passwords. The register page sends only a name that is not blank, a well-formed address and a
  password of at least eight characters, and only while both password fields agree; the reset page sends only
  such a password, with the token of the link it was opened with, and nothing at all without one.\<close>

theorem new_passwords_valid:
  assumes "page_reach Register (s, ks, out)" and "page_reach (ResetPassword tok) (s', ks', out')"
  shows "(\<forall>c \<in> set out. is_call c \<longrightarrow>
      (\<exists>email pw name. c = register_call email pw name \<and> email_test email \<and> 8 \<le> length pw \<and> \<not> blank pw \<and> \<not> blank name)) \<and>
    (fst (snd (register_user RSubmit s)) \<noteq> [] \<longrightarrow> rp_password s = rp_confirm s) \<and>
    (\<forall>c \<in> set out'. is_call c \<longrightarrow>
      (\<exists>t pw. tok = Some t \<and> t \<noteq> '''' \<and> c = reset_call t pw \<and> 8 \<le> length pw \<and> \<not> blank pw)) \<and>
    (fst (snd (reset_user SSubmit s')) \<noteq> [] \<longrightarrow> sp_password s' = sp_confirm s')"
proof (intro conjI ballI impI)
  show "fst (snd (register_user RSubmit s)) \<noteq> [] \<Longrightarrow> rp_password s = rp_confirm s"
    by (auto simp: register_submit(1) split: if_splits)
  show "fst (snd (reset_user SSubmit s')) \<noteq> [] \<Longrightarrow> sp_password s' = sp_confirm s'"
    by (auto simp: reset_handleSubmit_def reset_validate_def Let_def split: if_splits)
qed (use register_calls [OF assms(1)] reset_calls [OF assms(2)] in blast)+

lemma reset_asked:
  "\<exists>s ks. page_reach (ResetPassword (Some ''k'')) (s, ks, [reset_call ''k'' ''long enough''])"
proof -
  have o: "reset_token s = Some ''k'' \<Longrightarrow> \<not> rf_success s \<Longrightarrow> \<not> rf_loading s \<Longrightarrow>
      SPassword v \<in> events (Reset_view s) \<and> SConfirm v \<in> events (Reset_view s) \<and> SSubmit \<in> events (Reset_view s)" for s v
    by (simp add: Reset_view_def)
  have "\<exists>s ks. page_play (ResetPassword (Some ''k'')) [Do (SPassword ''long enough''), Do (SConfirm ''long enough''), Do SSubmit]
     (reset_init (Some ''k''), [], []) = Some (s, ks, [reset_call ''k'' ''long enough''])"
    using o by (simp add: reset_init_def reset_handleSubmit_def reset_validate_def password_errors_def Let_def reset_call_def
        opt_str_def blank_def trim_def is_ws_def)
  then show ?thesis using page_play_mount [OF page_sels(11)] by blast
qed

theorem new_passwords_valid_witness:
  "\<exists>t pw. Some ''k'' = Some t \<and> t \<noteq> '''' \<and> reset_call ''k'' ''long enough'' = reset_call t pw \<and> 8 \<le> length pw \<and> \<not> blank pw"
proof -
  have r: "page_reach Register (register_init, [], [])" by (rule reach_mount) simp
  obtain s ks where q: "page_reach (ResetPassword (Some ''k'')) (s, ks, [reset_call ''k'' ''long enough''])"
    using reset_asked by blast
  have "is_call (reset_call ''k'' ''long enough'')" by (simp add: reset_call_def)
  with new_passwords_valid [OF r q] show ?thesis by simp
qed

text \<open>The second factor. An answer with the code \<open>mfa_required\<close> opens the second step and shows no error;
  any other failure leaves the step as it is and shows the message of the error; only a success navigates, to the
  start page. In every case the button is enabled again.\<close>

theorem login_answer:
  "\<not> st_loading (fst (login_resume KLogin r s)) \<and>
   (case r of
      Inl err \<Rightarrow>
        fst (snd (login_resume KLogin r s)) = [] \<and>
        (if exn_code err = JStr ''mfa_required''
         then mfaRequired (fst (login_resume KLogin r s)) \<and> st_error (fst (login_resume KLogin r s)) = JNull
         else mfaRequired (fst (login_resume KLogin r s)) = mfaRequired s \<and>
           st_error (fst (login_resume KLogin r s)) = exn_message err)
    | Inr data \<Rightarrow>
        (if nullish data then fst (snd (login_resume KLogin r s)) = [] \<and> st_error (fst (login_resume KLogin r s)) = exn_message type_error
         else fst (snd (login_resume KLogin r s)) = [GoTo ''/'']) \<and>
        mfaRequired (fst (login_resume KLogin r s)) = mfaRequired s)"
  by (cases r) (auto simp: login_settled_def store_end_eq Let_def type_error_def)

lemma login_submitted:
  assumes "login_handleSubmit w = (w1, [c], [KLogin])"
  shows "c = login_call (lp_email w) (lp_password w) (if mfaRequired w then Some (mfaCode w) else None)"
    "st_loading w1" "st_error w1 = JNull" "mfaRequired w1 = mfaRequired w"
  using assms by (auto simp: login_handleSubmit_def login_validate_def Let_def store_begin_eq split: if_splits)

lemma exn_message_rethrown [simp]: "exn_message (rethrown e) = exn_message e"
  by (simp add: rethrown_def)

text \<open>C11: submitting the login form runs the store's login action. Where the form is valid, the page shows that the
  action loads and sends its request; when the client's answer to that request arrives - nothing was typed meanwhile - the page has left its loading state
  with the store, goes to the start page exactly if the action throws nothing, asks for the second factor if the action
  throws the code \<open>mfa_required\<close>, and otherwise shows the error the action has left in the store, which is the message it throws.\<close>

theorem login_page_refines_store:
  assumes "login_handleSubmit w = (w1, [CallApi m p b], [KLogin])"
    and "web_login net (lp_email w) (lp_password w) (if mfaRequired w then Some (mfaCode w) else None) s = (e, s')"
    and "r = fst (web_apiRequest net p (send_init m (Some b)) (s\<lparr>isLoading := True, auth_error := JNull\<rparr>))"
    and "login_resume KLogin r w1 = (w2, cs, ks)"
  shows "st_loading w1 \<and> st_error w1 = JNull \<and> \<not> st_loading w2 \<and> \<not> isLoading s' \<and> ks = [] \<and>
    isLoggedIn s' = (e = None \<or> isLoggedIn s) \<and> cs = (if e = None then [GoTo ''/''] else []) \<and>
    auth_error s' = (case e of None \<Rightarrow> JNull | Some x \<Rightarrow> exn_message x) \<and>
    (let asked = (\<exists>x. e = Some x \<and> exn_code x = JStr ''mfa_required'')
     in mfaRequired w2 = (mfaRequired w \<or> asked) \<and> st_error w2 = (if asked then JNull else auth_error s'))"
proof -
  note sub = login_submitted [OF assms(1)]
  obtain e0 where e0: "sign_in (web_apiRequest net) web_cfg p b s = (e0, s')"
    and e: "e = map_option rethrown e0" and m: "m = ''POST''"
    using assms(2) sub(1) by (auto simp: login_call_def web_login_def split: prod.splits)
  have r: "r = fst (web_apiRequest net p (send_init ''POST'' (Some b)) (sign_in_begin s))"
    using assms(3) m by (simp add: sign_in_begin_def)
  show ?thesis
  proof (cases e0)
    case None
    from web_api.sign_in_ok [OF e0 [unfolded None]] r obtain data where
      "r = Inr data" "\<not> nullish data" "\<not> isLoading s'" "auth_error s' = JNull" "isLoggedIn s'" by metis
    with None sub assms(4) e show ?thesis by (auto simp: login_settled_def Let_def store_end_eq)
  next
    case (Some x)
    note f = web_api.sign_in_refused [OF e0 [unfolded Some]]
    from f(5) have "action_error r = Some x" by (cases r) (auto simp: r [symmetric])
    with Some sub assms(4) e f(1,3,4) show ?thesis by (auto simp: login_settled_def Let_def store_end_eq split: if_splits)
  qed
qed

theorem login_page_refines_store_witness:
  "\<exists>e s'. web_login refusing_net ''a@b.c'' ''secret'' None (new_store (\<lambda>_. False) signed_in_client) = (e, s') \<and>
     auth_error s' = st_error (fst (login_resume KLogin (Inl (ApiError (JStr ''HTTP_ERROR'') (JStr ''Unauthorized'') JUndef))
       (fst (login_handleSubmit typed_login))))"
proof -
  let ?s = "new_store (\<lambda>_. False) signed_in_client" and ?p = "''/v1/auth/login''"
  let ?b = "login_body ''a@b.c'' ''secret'' None" and ?r = "Inl (ApiError (JStr ''HTTP_ERROR'') (JStr ''Unauthorized'') JUndef)"
  let ?w1 = "fst (login_handleSubmit typed_login)"
  have typed: "lp_email typed_login = ''a@b.c''" "lp_password typed_login = ''secret''" "\<not> mfaRequired typed_login"
    by (simp_all add: typed_login_def login_init_def)
  have sub: "login_handleSubmit typed_login = (?w1, [CallApi ''POST'' ?p ?b], [KLogin])"
    by (simp add: login_handleSubmit_def login_validate_def typed_login_def login_init_def Let_def login_call_def email_errors_def
        blank_def email_test_def trim_def is_ws_def)
  obtain e s' where w: "web_login refusing_net ''a@b.c'' ''secret'' None ?s = (e, s')" by force
  have r: "fst (web_apiRequest refusing_net ?p (send_init ''POST'' (Some ?b)) (?s\<lparr>isLoading := True, auth_error := JNull\<rparr>)) = ?r"
    by (simp add: web_apiRequest_def request_def Let_def fetch_def refusing_net_def needs_refresh_def new_store_def signed_in_client_def
        reload_token_def doRefresh_def stored_refresh_def web_cfg_def refresh_done_def res_ok_def finish_def response_error_def)
  obtain w2 cs ks where l: "login_resume KLogin ?r ?w1 = (w2, cs, ks)" by (metis prod_cases3)
  from login_page_refines_store [OF sub _ r [symmetric] l, of e s'] w typed l show ?thesis
    by (auto simp: login_settled_def Let_def store_end_eq)
qed

text \<open>The login page shows one link at most, to the registration; in the second step it shows none. No
  link leads to the page for a forgotten password.\<close>

theorem login_links: "links (Login_view s) = (if mfaRequired s then [] else [''/register''])"
  by (simp add: Login_view_def Login_form_def Login_sso_def Input_def error_badge_def submit_button_def)

end
