(* ===== verification/BillingPage.thy ===== *)
theory BillingPage
  imports Hooks
begin

text \<open>
  The billing page (\<open>pages/Billing.tsx\<close>): the plan with its usage bars, the plans on offer, the usage and the invoices.
  A checkout is a mutation whose answer sends the browser to the payment page.

  A mutation can be started again while one is in flight. The page then follows the last one only, and the earlier
  ones still run their \<open>onSuccess\<close> and \<open>onError\<close>; so the checkouts are numbered here. Amounts are the exact values
  of the doubles.
\<close>

section \<open>Data\<close>

record BillingPlanData =
  plan_id :: string
  plan_name :: string
  price_monthly_usd :: int
  max_tunnels :: int
  max_bandwidth_gb :: int
  plan_features :: "string list option"

record PlanResponse =
  current_plan :: BillingPlanData
  available_plans :: "BillingPlanData list"

record UsageResponse =
  tunnels_used :: int
  tunnels_limit :: int
  bandwidth_gb :: rat
  bandwidth_limit_gb :: rat
  period_start :: string
  period_end :: string

record billing_invoice =
  bi_id :: string
  bi_plan_id :: string
  bi_amount_usd :: rat
  bi_status :: string
  bi_created_at :: string

section \<open>State\<close>

record billing_page =
  planQuery :: "PlanResponse query"
  usageQuery :: "UsageResponse query"
  invoicesQuery :: "billing_invoice list query"
  checkoutMutation :: mutation
  checkouts :: nat

definition billing_init :: billing_page where
  "billing_init = \<lparr>planQuery = q_pending, usageQuery = q_pending, invoicesQuery = q_pending, checkoutMutation = idle, checkouts = 0\<rparr>"

definition billing_calls :: "cmd list" where
  "billing_calls = [CallApi ''GET'' ''/v1/billing/plan'' JUndef, CallApi ''GET'' ''/v1/billing/usage'' JUndef,
     CallApi ''GET'' ''/v1/billing/invoices'' JUndef]"

datatype billing_ev = Checkout string | RetryUsage | RetryInvoices

datatype billing_k = KCheckout nat

section \<open>Handlers\<close>

definition checkout_call :: "string \<Rightarrow> string \<Rightarrow> cmd" where
  "checkout_call origin planId = CallApi ''POST'' ''/v1/billing/checkout'' (json_body
     [(''plan_id'', JStr planId), (''success_url'', JStr (origin @ ''/billing?success=true'')),
      (''cancel_url'', JStr (origin @ ''/billing?canceled=true''))])"

fun billing_user :: "string \<Rightarrow> billing_ev \<Rightarrow> billing_page \<Rightarrow> (billing_page, billing_k) effect" where
  "billing_user origin (Checkout p) s =
     (s\<lparr>checkoutMutation := mutate, checkouts := Suc (checkouts s)\<rparr>, [checkout_call origin p], [KCheckout (Suc (checkouts s))])"
| "billing_user origin RetryUsage s = (s, [Refetch [''billing'', ''usage'']], [])"
| "billing_user origin RetryInvoices s = (s, [Refetch [''billing'', ''invoices'']], [])"

text \<open>\<open>onSuccess\<close> reads \<open>data.url\<close>: an answer without a body makes it throw, which is a failed mutation.\<close>

definition checkout_result :: "result \<Rightarrow> result" where
  "checkout_result r = (case r of Inl err \<Rightarrow> Inl err
     | Inr data \<Rightarrow> if nullish data then Inl (JsError ''Cannot read properties of undefined'') else Inr data)"

definition checkout_cmds :: "result \<Rightarrow> cmd list" where
  "checkout_cmds r = (case checkout_result r of
       Inl err \<Rightarrow> [ShowToast (tr ''billing.checkout_failed'') ''error'']
     | Inr data \<Rightarrow> if truthy (jprop data ''url'') then [Href (js_string (jprop data ''url''))] else [])"

fun billing_resume :: "billing_k \<Rightarrow> result \<Rightarrow> billing_page \<Rightarrow> (billing_page, billing_k) effect" where
  "billing_resume (KCheckout n) r s =
     (if n = checkouts s then s\<lparr>checkoutMutation := settled (checkout_result r)\<rparr> else s, checkout_cmds r, [])"

section \<open>View\<close>

definition tunnelPercent :: "UsageResponse option \<Rightarrow> rat" where
  "tunnelPercent usage = (case usage of None \<Rightarrow> 0
     | Some u \<Rightarrow> min 100 (of_int (tunnels_used u) / of_int (max 1 (tunnels_limit u)) * 100))"

definition bandwidthPercent :: "UsageResponse option \<Rightarrow> rat" where
  "bandwidthPercent usage = (case usage of None \<Rightarrow> 0
     | Some u \<Rightarrow> min 100 (bandwidth_gb u / max (1 / 100) (bandwidth_limit_gb u) * 100))"

text \<open>A usage bar, red above 80 percent.\<close>

definition billing_usage_bar :: "rat \<Rightarrow> 'e ui" where
  "billing_usage_bar percent = Node ''div'' [Node (if percent > 80 then ''bg-destructive'' else ''bg-primary'') []]"

definition current_plan_card :: "BillingPlanData \<Rightarrow> UsageResponse option \<Rightarrow> 'e ui" where
  "current_plan_card plan usage = Node ''Card''
     [Node ''CardHeader'' [Say (tr ''billing.current_plan''), Say (tr ''billing.current_plan_desc''), Node ''Badge'' [Say [Lit (plan_name plan)]]],
      Node ''CardContent''
       [Say (tr ''billing.tunnels_usage''),
        Say [Lit (case usage of None \<Rightarrow> ''0 / 1'' | Some u \<Rightarrow> int_string (tunnels_used u) @ '' / '' @ int_string (tunnels_limit u))],
        billing_usage_bar (tunnelPercent usage), Say (tr ''billing.bandwidth_usage''),
        Say [Lit (toFixed 1 (case usage of None \<Rightarrow> 0 | Some u \<Rightarrow> bandwidth_gb u) @ '' / '' @
          toFixed 0 (case usage of None \<Rightarrow> 0 | Some u \<Rightarrow> bandwidth_limit_gb u) @ '' GB'')],
        billing_usage_bar (bandwidthPercent usage)]]"

text \<open>The sign for an unlimited plan is beyond ASCII in the source.\<close>

definition limit_param :: "int \<Rightarrow> int \<Rightarrow> json" where
  "limit_param bound n = (if n \<ge> bound then JStr ''inf'' else JNum n)"

definition plan_card :: "billing_page \<Rightarrow> BillingPlanData \<Rightarrow> billing_ev ui" where
  "plan_card s plan =
     (let isCurrent = (case q_data (planQuery s) of None \<Rightarrow> False | Some r \<Rightarrow> plan_id plan = plan_id (current_plan r));
          isFree = (plan_id plan = ''free''); pending = isPending (checkoutMutation s) in
      Node ''Card''
       [only_if isCurrent (Node ''Badge'' [Say (tr ''billing.current'')]),
        Node ''CardHeader''
         [Say [Lit (plan_name plan)],
          if price_monthly_usd plan = 0 then Say (tr ''billing.free'')
          else Say [Lit (''$'' @ toFixed 0 (of_int (price_monthly_usd plan) / 100)), Lit ''/mo'']],
        Node ''CardContent''
         [Node ''ul''
           ([Say [Tr ''billing.tunnels_count'' [(''count'', limit_param 999999 (max_tunnels plan))]],
             Say [Tr ''billing.bandwidth_count'' [(''gb'', limit_param 999 (max_bandwidth_gb plan))]]] @
            map (\<lambda>f. Say [Lit f]) (data_or_empty (plan_features plan))),
          only_if (\<not> isCurrent \<and> \<not> isFree) (Button pending (Checkout (plan_id plan))
            [Say (if pending then tr ''billing.upgrading'' else [Tr ''billing.upgrade_to'' [(''plan'', JStr (plan_name plan))]])]),
          only_if (isFree \<and> \<not> isCurrent) (Button False (Checkout ''free'') [Say (tr ''billing.downgrade'')])]])"

definition billing_usage_card :: "(string \<Rightarrow> string) \<Rightarrow> UsageResponse query \<Rightarrow> billing_ev ui" where
  "billing_usage_card toLocaleDateString q =
     (if q_isLoading q then Node ''Skeleton'' []
      else case q_data q of
        Some u \<Rightarrow> Node ''Card''
          [Say (tr ''billing.usage_details''),
           Say (tr ''billing.usage_tunnels''), Say [Lit (int_string (tunnels_used u)), Lit ('' / '' @ int_string (tunnels_limit u))],
           Say (tr ''billing.usage_bandwidth''), Say [Lit (toFixed 1 (bandwidth_gb u)), Lit '' GB''],
           Say (tr ''billing.period_start''), Say [Lit (toLocaleDateString (period_start u))],
           Say (tr ''billing.period_end''), Say [Lit (toLocaleDateString (period_end u))]]
      | None \<Rightarrow> if q_isError q then failed_load ''billing.failed_usage'' [Button False RetryUsage [Say (tr ''common.retry'')]] else Null)"

definition invoice_line :: "(string \<Rightarrow> string) \<Rightarrow> billing_invoice \<Rightarrow> 'e ui" where
  "invoice_line toLocaleDateString i = Node ''TableRow''
     [Say [Lit (bi_id i)], Say [Lit (bi_plan_id i)], Say [Lit (''$'' @ toFixed 2 (bi_amount_usd i))], Say [Lit (bi_status i)],
      Say [Lit (toLocaleDateString (bi_created_at i))]]"

definition invoices_card :: "(string \<Rightarrow> string) \<Rightarrow> billing_invoice list query \<Rightarrow> billing_ev ui" where
  "invoices_card toLocaleDateString q = Node ''Card''
     [Say (tr ''billing.invoice_history''),
      if q_isLoading q then Node ''Skeleton'' []
      else if q_isError q then failed_load ''billing.failed_invoices'' [Button False RetryInvoices [Say (tr ''common.retry'')]]
      else if q_data q = Some [] then Node ''p'' [Say (tr ''billing.no_invoices'')]
      else Node ''Table''
        [head_row [''billing.table.invoice'', ''billing.table.plan'', ''billing.table.amount'', ''billing.table.status'', ''billing.table.date''],
         Node ''TableBody'' (map (invoice_line toLocaleDateString) (data_or_empty (q_data q)))]]"

definition Billing_view :: "(string \<Rightarrow> string) \<Rightarrow> billing_page \<Rightarrow> billing_ev ui" where
  "Billing_view toLocaleDateString s = Node ''div''
     [Node ''h1'' [Say (tr ''billing.title'')], Node ''p'' [Say (tr ''billing.subtitle'')],
      if q_isLoading (planQuery s) \<or> q_isLoading (usageQuery s) then Node ''Skeleton'' []
      else (case q_data (planQuery s) of None \<Rightarrow> Null | Some r \<Rightarrow> current_plan_card (current_plan r) (q_data (usageQuery s))),
      Node ''div'' (Node ''h2'' [Say (tr ''billing.available_plans'')] #
        map (plan_card s) (case q_data (planQuery s) of None \<Rightarrow> [] | Some r \<Rightarrow> available_plans r)),
      billing_usage_card toLocaleDateString (usageQuery s),
      invoices_card toLocaleDateString (invoicesQuery s)]"

definition billing_env :: "billing_page \<Rightarrow> billing_page \<Rightarrow> bool" where
  "billing_env s s' \<longleftrightarrow> (\<exists>p u i. s' = s\<lparr>planQuery := p, usageQuery := u, invoicesQuery := i\<rparr>)"

definition Billing :: "string \<Rightarrow> (string \<Rightarrow> string) \<Rightarrow> (billing_page, billing_ev, billing_k) page" where
  "Billing origin toLocaleDateString =
     \<lparr>pg_mount = (billing_init, billing_calls, []), pg_view = Billing_view toLocaleDateString, pg_user = billing_user origin,
      pg_resume = billing_resume, pg_env = billing_env\<rparr>"

lemma Billing_sel [simp]:
  "pg_mount (Billing origin fmt) = (billing_init, billing_calls, [])" "pg_view (Billing origin fmt) = Billing_view fmt"
  "pg_user (Billing origin fmt) = billing_user origin" "pg_resume (Billing origin fmt) = billing_resume" "pg_env (Billing origin fmt) = billing_env"
  by (simp_all add: Billing_def)

section \<open>Invariant\<close>

text \<open>The checkouts in flight have different numbers, none above the last one; the flag follows the last one.\<close>

definition billing_inv :: "billing_page \<Rightarrow> billing_k list \<Rightarrow> bool" where
  "billing_inv s ks \<longleftrightarrow>
     distinct ks \<and> (\<forall>n. KCheckout n \<in> set ks \<longrightarrow> n \<le> checkouts s) \<and>
     (isPending (checkoutMutation s) \<longleftrightarrow> KCheckout (checkouts s) \<in> set ks)"

fun billing_guard :: "billing_page \<Rightarrow> billing_ev \<Rightarrow> bool" where
  "billing_guard s (Checkout p) = (p = ''free'' \<or> \<not> isPending (checkoutMutation s))"
| "billing_guard s _ = True"

definition billing_cmd_ok :: "string \<Rightarrow> cmd \<Rightarrow> bool" where
  "billing_cmd_ok origin c \<longleftrightarrow> (case c of
       CallApi m p b \<Rightarrow> m = ''GET'' \<and> b = JUndef \<or> (\<exists>plan. c = checkout_call origin plan)
     | Href u \<Rightarrow> True | ShowToast t v \<Rightarrow> True | Refetch k \<Rightarrow> True | _ \<Rightarrow> False)"

lemma billing_offered: "e \<in> events (Billing_view fmt s) \<Longrightarrow> billing_guard s e"
  by (cases e) (auto simp: Billing_view_def current_plan_card_def billing_usage_bar_def plan_card_def billing_usage_card_def invoices_card_def
      invoice_line_def Let_def split: option.splits if_splits)

lemma billing_user_inv:
  assumes "billing_inv s ks" and "billing_guard s e"
  shows "billing_inv (fst (billing_user origin e s)) (ks @ snd (snd (billing_user origin e s)))"
    and "list_all (billing_cmd_ok origin) (fst (snd (billing_user origin e s)))"
  using assms by (cases e; fastforce simp: billing_inv_def billing_cmd_ok_def checkout_call_def)+

lemma billing_resume_inv:
  assumes "billing_inv s (ks1 @ k # ks2)"
  shows "billing_inv (fst (billing_resume k r s)) (ks1 @ ks2 @ snd (snd (billing_resume k r s)))"
    and "list_all (billing_cmd_ok origin) (fst (snd (billing_resume k r s)))"
proof -
  obtain n where "k = KCheckout n" by (cases k)
  with assms show "billing_inv (fst (billing_resume k r s)) (ks1 @ ks2 @ snd (snd (billing_resume k r s)))"
    by (auto simp: billing_inv_def)
  show "list_all (billing_cmd_ok origin) (fst (snd (billing_resume k r s)))"
    by (cases k) (auto simp: billing_cmd_ok_def checkout_cmds_def split: sum.splits)
qed

lemma billing_mounted: "billing_inv billing_init []" "list_all (billing_cmd_ok origin) billing_calls"
  by (simp_all add: billing_inv_def billing_init_def billing_calls_def billing_cmd_ok_def)

lemma billing_changed: "billing_inv s ks \<Longrightarrow> billing_env s s' \<Longrightarrow> billing_inv s' ks"
  by (auto simp: billing_inv_def billing_env_def)

interpretation billing: page_guarded "Billing origin fmt" billing_inv billing_guard "billing_cmd_ok origin" for origin fmt
  by unfold_locales (simp_all add: billing_mounted billing_user_inv billing_resume_inv billing_changed, erule billing_offered)

section \<open>Properties\<close>

lemma percent_bar:
  fixes a b :: rat
  assumes "0 \<le> a" and "0 < b"
  shows "0 \<le> min 100 (a / b * 100)" "min 100 (a / b * 100) \<le> 100" "min 100 (a / b * 100) = 100 \<longleftrightarrow> b \<le> a"
proof -
  show "0 \<le> min 100 (a / b * 100)" using assms by simp
  show "min 100 (a / b * 100) \<le> 100" by simp
  have "100 \<le> a / b * 100 \<longleftrightarrow> b \<le> a" using assms(2) by (simp add: pos_le_divide_eq)
  then show "min 100 (a / b * 100) = 100 \<longleftrightarrow> b \<le> a" by linarith
qed

text \<open>The usage bars stay between 0 and 100 percent for every usage that is not negative, an absent or a zero limit
  included; the tunnel bar is full exactly when as many tunnels as the limit, at least one, are in use.\<close>

theorem usage_bars_bounded:
  assumes "0 \<le> tunnels_used u" and "0 \<le> bandwidth_gb u"
  shows "0 \<le> tunnelPercent (Some u) \<and> tunnelPercent (Some u) \<le> 100 \<and>
    0 \<le> bandwidthPercent (Some u) \<and> bandwidthPercent (Some u) \<le> 100 \<and>
    (tunnelPercent (Some u) = 100 \<longleftrightarrow> max 1 (tunnels_limit u) \<le> tunnels_used u)"
  using percent_bar [of "of_int (tunnels_used u)" "of_int (max 1 (tunnels_limit u))"]
    percent_bar [of "bandwidth_gb u" "max (1 / 100) (bandwidth_limit_gb u)"] assms
  by (simp add: tunnelPercent_def bandwidthPercent_def del: of_int_max)

theorem usage_bars_bounded_witness:
  "tunnelPercent (Some \<lparr>tunnels_used = 3, tunnels_limit = 0, bandwidth_gb = 0, bandwidth_limit_gb = 0, period_start = '''', period_end = ''''\<rparr>) = 100"
  using usage_bars_bounded
    [of "\<lparr>tunnels_used = 3, tunnels_limit = 0, bandwidth_gb = 0, bandwidth_limit_gb = 0, period_start = '''', period_end = ''''\<rparr>"] by simp

text \<open>An upgrade cannot be started while a checkout is in flight.\<close>

lemma upgrade_guarded: "Checkout p \<in> events (Billing_view fmt s) \<Longrightarrow> p \<noteq> ''free'' \<Longrightarrow> \<not> isPending (checkoutMutation s)"
  using billing_offered by fastforce

lemma billing_init_sel [simp]: "checkouts billing_init = 0" "checkoutMutation billing_init = idle"
  by (simp_all add: billing_init_def)

lemma downgrade_offered:
  assumes "q_data (planQuery s) = Some r" and "free \<in> set (available_plans r)" and "plan_id free = ''free''" and "plan_id (current_plan r) \<noteq> ''free''"
  shows "Checkout ''free'' \<in> events (Billing_view fmt s)"
proof -
  have "Checkout ''free'' \<in> events (plan_card s free)" using assms by (simp add: plan_card_def Let_def)
  then show ?thesis using assms(1,2) by (auto simp: Billing_view_def)
qed

lemma downgrades_reach:
  assumes "page_reach (Billing origin fmt) (s, ks, out)" and "q_data (planQuery s) = Some r" and "free \<in> set (available_plans r)"
    and "plan_id free = ''free''" and "plan_id (current_plan r) \<noteq> ''free''"
  shows "\<exists>s' new cs. page_reach (Billing origin fmt) (s', ks @ new, out @ cs) \<and> planQuery s' = planQuery s \<and> length new = n \<and>
    cs = replicate n (checkout_call origin ''free'')"
proof (induction n)
  case 0
  then show ?case using assms(1) by (intro exI [of _ s] exI [of _ "[]"]) simp
next
  case (Suc n)
  then obtain s' new cs where a: "page_reach (Billing origin fmt) (s', ks @ new, out @ cs)" "planQuery s' = planQuery s" "length new = n"
    "cs = replicate n (checkout_call origin ''free'')" by blast
  let ?s = "s'\<lparr>checkoutMutation := mutate, checkouts := Suc (checkouts s')\<rparr>"
  have "Checkout ''free'' \<in> events (Billing_view fmt s')" using assms a(2) downgrade_offered by simp
  then have "page_step (Billing origin fmt) (s', ks @ new, out @ cs) (?s, (ks @ new) @ [KCheckout (Suc (checkouts s'))], (out @ cs) @ [checkout_call origin ''free''])"
    by (intro step_user [where e = "Checkout ''free''"]) simp_all
  from reach_step [OF a(1) this] a(2-4) show ?case
    by (intro exI [of _ ?s] exI [of _ "new @ [KCheckout (Suc (checkouts s'))]"] exI [of _ "cs @ [checkout_call origin ''free'']"])
      (simp add: replicate_append_same)
qed

text \<open>A downgrade can be started any number of times. The button of the free plan is not disabled while a checkout is
  in flight, so that for a customer of another plan a state with \<open>n\<close> checkouts of the free plan in flight is reachable,
  for every \<open>n\<close>; the answer to each of them can send the browser away.\<close>

theorem downgrades_pile_up:
  fixes r :: PlanResponse
  assumes "free \<in> set (available_plans r)" and "plan_id free = ''free''" and "plan_id (current_plan r) \<noteq> ''free''"
  shows "\<exists>s ks out. page_reach (Billing origin fmt) (s, ks, out) \<and> length ks = n \<and>
    out = billing_calls @ replicate n (checkout_call origin ''free'')"
proof -
  let ?s = "billing_init\<lparr>planQuery := q_success r\<rparr>"
  have "billing_env billing_init ?s"
    by (auto simp: billing_env_def billing_init_def)
  then have "page_reach (Billing origin fmt) (?s, [], billing_calls)"
    by (intro reach_step [OF reach_mount [OF Billing_sel(1)] step_env]) simp
  from downgrades_reach [OF this _ assms, of n] show ?thesis by (auto simp: q_success_def)
qed

definition two_plans :: PlanResponse where
  "two_plans = (let p = \<lparr>plan_id = ''pro'', plan_name = ''Pro'', price_monthly_usd = 1200, max_tunnels = 10, max_bandwidth_gb = 100, plan_features = None\<rparr> in
     \<lparr>current_plan = p, available_plans = [p\<lparr>plan_id := ''free''\<rparr>, p]\<rparr>)"

theorem downgrades_pile_up_witness: "\<exists>s ks out. page_reach (Billing ''o'' id) (s, ks, out) \<and> length ks = 2"
proof -
  let ?free = "hd (available_plans two_plans)"
  have "?free \<in> set (available_plans two_plans)" "plan_id ?free = ''free''" "plan_id (current_plan two_plans) \<noteq> ''free''"
    by (simp_all add: two_plans_def Let_def)
  from downgrades_pile_up [OF this, of "''o''" id 2] show ?thesis by blast
qed

text \<open>A failed load of the plans is not shown: the page then looks like one with no plans on offer, without a way to retry.\<close>

lemma failed_plans_silent:
  "q_data (planQuery s) = None \<Longrightarrow> texts (Billing_view fmt s) = texts (Billing_view fmt (s\<lparr>planQuery := (planQuery s)\<lparr>q_isError := b\<rparr>\<rparr>))"
  by (simp add: Billing_view_def)

end
