(* ===== verification/CertificatesPage.thy ===== *)
theory CertificatesPage
  imports Hooks
begin

text \<open>
  The certificates of the admin console (\<open>pages/Certificates.tsx\<close>): the system's and the tenants' certificates in two tabs,
  each with its own query, renewal and - after a confirmation - revocation.
\<close>

section \<open>State\<close>

record system_certificate =
  crt_id :: string
  crt_domain :: string
  crt_issuer :: string
  crt_not_after :: string
  crt_days_remaining :: int
  crt_auto_renew :: bool
  crt_status :: string

record tenant_certificate = system_certificate +
  crt_org_id :: "string option"
  crt_org_name :: string

text \<open>The tenants' organization is read as if it could be missing.\<close>

datatype cert_tab = SystemCerts | TenantCerts

record certificates_page =
  certTab :: cert_tab
  systemQuery :: "system_certificate list query"
  tenantsQuery :: "tenant_certificate list query"
  renewMutation :: mutation
  cert_revokeMutation :: mutation

definition certificates_init :: certificates_page where
  "certificates_init = \<lparr>certTab = SystemCerts, systemQuery = q_pending, tenantsQuery = q_disabled, renewMutation = idle, cert_revokeMutation = idle\<rparr>"

datatype certificates_ev = SetCertTab cert_tab | RenewCert string | RevokeCert string bool | RetryCerts

datatype certificates_k = KRenew | KRevokeCert

abbreviation CERTS_KEY :: "string list" where
  "CERTS_KEY \<equiv> [''admin'', ''certificates'']"

section \<open>Handlers\<close>

definition certs_path :: "cert_tab \<Rightarrow> string" where
  "certs_path t = ''/api/admin/v1/certificates/'' @ (case t of SystemCerts \<Rightarrow> ''system'' | TenantCerts \<Rightarrow> ''tenants'')"

definition renew_path :: "string \<Rightarrow> string" where
  "renew_path i = ''/api/admin/v1/certificates/'' @ i @ ''/renew''"

definition revoke_cert_path :: "string \<Rightarrow> string" where
  "revoke_cert_path i = ''/api/admin/v1/certificates/'' @ i @ ''/revoke''"

text \<open>The last component of the keys of the two queries.\<close>

definition cert_key :: "cert_tab \<Rightarrow> string list" where
  "cert_key t = CERTS_KEY @ [case t of SystemCerts \<Rightarrow> ''system'' | TenantCerts \<Rightarrow> ''tenants'']"

definition setCertTab :: "cert_tab \<Rightarrow> certificates_page \<Rightarrow> (certificates_page, certificates_k) effect" where
  "setCertTab t s =
     (if t = certTab s then (s, [], [])
      else (case t of
          SystemCerts \<Rightarrow> (s\<lparr>certTab := t, systemQuery := q_enable (systemQuery s)\<rparr>,
            if q_fetches (systemQuery s) then [CallApi ''GET'' (certs_path t) JUndef] else [], [])
        | TenantCerts \<Rightarrow> (s\<lparr>certTab := t, tenantsQuery := q_enable (tenantsQuery s)\<rparr>,
            if q_fetches (tenantsQuery s) then [CallApi ''GET'' (certs_path t) JUndef] else [], [])))"

fun certificates_user :: "certificates_ev \<Rightarrow> certificates_page \<Rightarrow> (certificates_page, certificates_k) effect" where
  "certificates_user (SetCertTab t) s = setCertTab t s"
| "certificates_user (RenewCert i) s = (s\<lparr>renewMutation := mutate\<rparr>, [CallApi ''POST'' (renew_path i) JUndef], [KRenew])"
| "certificates_user (RevokeCert i ok) s =
     (if ok then (s\<lparr>cert_revokeMutation := mutate\<rparr>, [CallApi ''POST'' (revoke_cert_path i) JUndef], [KRevokeCert]) else (s, [], []))"
| "certificates_user RetryCerts s = (s, [Refetch (cert_key (certTab s))], [])"

fun cert_onSuccess :: "result \<Rightarrow> cmd list" where
  "cert_onSuccess (Inl err) = []"
| "cert_onSuccess (Inr v) = [Invalidate CERTS_KEY]"

fun certificates_resume :: "certificates_k \<Rightarrow> result \<Rightarrow> certificates_page \<Rightarrow> (certificates_page, certificates_k) effect" where
  "certificates_resume KRenew r s = (s\<lparr>renewMutation := settled r\<rparr>, cert_onSuccess r, [])"
| "certificates_resume KRevokeCert r s = (s\<lparr>cert_revokeMutation := settled r\<rparr>, cert_onSuccess r, [])"

section \<open>View\<close>

definition getStatusBadge :: "string \<Rightarrow> 'e ui" where
  "getStatusBadge status =
     (if status = ''valid'' then Node ''success'' [Say (tr ''certificates.valid'')]
      else if status = ''expiring_soon'' then Node ''warning'' [Say (tr ''certificates.expiringSoon'')]
      else if status = ''expired'' then Node ''destructive'' [Say (tr ''certificates.expired'')]
      else Node ''secondary'' [Say [Lit status]])"

definition getExpiryColor :: "int \<Rightarrow> string" where
  "getExpiryColor days = (if days < 0 then ''text-destructive'' else if days < 30 then ''text-amber-400'' else ''text-emerald-400'')"

text \<open>The cells both tables end with.\<close>

definition cert_cells :: "(string \<Rightarrow> string) \<Rightarrow> certificates_page \<Rightarrow> 'a system_certificate_scheme \<Rightarrow> certificates_ev ui list" where
  "cert_cells toLocaleDateString s c =
     [Say [Lit (crt_issuer c)], Say [Lit (toLocaleDateString (crt_not_after c))],
      Node (getExpiryColor (crt_days_remaining c)) [Say [Lit (int_string (crt_days_remaining c) @ ''d'')]], getStatusBadge (crt_status c),
      Node ''Badge'' [Say (tr (if crt_auto_renew c then ''common.yes'' else ''common.no''))],
      Button (isPending (renewMutation s)) (RenewCert (crt_id c)) [Say (tr ''certificates.renew'')],
      confirm_button (isPending (cert_revokeMutation s)) (RevokeCert (crt_id c))]"

definition system_row :: "(string \<Rightarrow> string) \<Rightarrow> certificates_page \<Rightarrow> system_certificate \<Rightarrow> certificates_ev ui" where
  "system_row fmt s c = Node ''TableRow'' (Say [Lit (crt_domain c)] # cert_cells fmt s c)"

definition tenant_row :: "(string \<Rightarrow> string) \<Rightarrow> certificates_page \<Rightarrow> tenant_certificate \<Rightarrow> certificates_ev ui" where
  "tenant_row fmt s c = Node ''TableRow''
     (Say [Lit (crt_domain c)] #
      Say [Lit (if crt_org_name c \<noteq> '''' then crt_org_name c else (case crt_org_id c of None \<Rightarrow> '''' | Some i \<Rightarrow> take 8 i))] # cert_cells fmt s c)"

definition cert_rows :: "(string \<Rightarrow> string) \<Rightarrow> certificates_page \<Rightarrow> certificates_ev ui list" where
  "cert_rows fmt s = (case certTab s of
       SystemCerts \<Rightarrow> map (system_row fmt s) (data_or_empty (q_data (systemQuery s)))
     | TenantCerts \<Rightarrow> map (tenant_row fmt s) (data_or_empty (q_data (tenantsQuery s))))"

text \<open>What the page reads of \<open>activeQuery\<close>: whether it loads, failed, succeeded.\<close>

definition active_status :: "certificates_page \<Rightarrow> bool \<times> bool \<times> bool" where
  "active_status s = (case certTab s of
       SystemCerts \<Rightarrow> (q_isLoading (systemQuery s), q_isError (systemQuery s), q_isSuccess (systemQuery s))
     | TenantCerts \<Rightarrow> (q_isLoading (tenantsQuery s), q_isError (tenantsQuery s), q_isSuccess (tenantsQuery s)))"

definition cert_tabs :: "cert_tab \<Rightarrow> certificates_ev ui" where
  "cert_tabs t = Node ''div''
     [Button False (SetCertTab SystemCerts) [Say (tr ''certificates.systemCerts'')],
      Button False (SetCertTab TenantCerts) [Say (tr ''certificates.tenantCerts'')]]"

definition cert_head :: "cert_tab \<Rightarrow> string list" where
  "cert_head t = ''certificates.domain'' # (if t = TenantCerts then [''certificates.organization''] else []) @
     [''certificates.issuer'', ''common.expires'', ''certificates.daysLeft'', ''certificates.status'', ''certificates.autoRenew'', ''certificates.actions'']"

definition Certificates_view :: "(string \<Rightarrow> string) \<Rightarrow> certificates_page \<Rightarrow> certificates_ev ui" where
  "Certificates_view toLocaleDateString s =
     (let t = certTab s; (loading, failed, success) = active_status s; rows = cert_rows toLocaleDateString s in
      Node ''div''
       [Node ''h1'' [Say (tr ''certificates.title'')], Node ''p'' [Say (tr ''certificates.subtitle'')], cert_tabs t,
        Node ''Card''
         [Node ''CardTitle''
            [Say (tr (if t = SystemCerts then ''certificates.systemCertificates'' else ''certificates.tenantCertificates'')),
             only_if success (Say [Lit (''('' @ nat_string (length rows) @ '')'')])],
          if failed then failed_load ''certificates.failedToLoad'' [Button False RetryCerts [Say (tr ''common.retry'')]]
          else Node ''Table''
           [head_row (cert_head t),
            Node ''TableBody''
              (if loading then replicate 5 (Node ''TableRow'' (replicate (length (cert_head t)) (Node ''Skeleton'' [])))
               else if rows = [] then [Node ''TableRow'' [Say (tr ''certificates.noCertificates'')]]
               else rows)]]])"

definition certificates_env :: "certificates_page \<Rightarrow> certificates_page \<Rightarrow> bool" where
  "certificates_env s s' \<longleftrightarrow> (\<exists>q q'. s' = s\<lparr>systemQuery := q, tenantsQuery := q'\<rparr>)"

definition Certificates :: "(string \<Rightarrow> string) \<Rightarrow> (certificates_page, certificates_ev, certificates_k) page" where
  "Certificates toLocaleDateString =
     \<lparr>pg_mount = (certificates_init, [CallApi ''GET'' (certs_path SystemCerts) JUndef], []), pg_view = Certificates_view toLocaleDateString,
      pg_user = certificates_user, pg_resume = certificates_resume, pg_env = certificates_env\<rparr>"

lemma Certificates_sel [simp]:
  "pg_mount (Certificates fmt) = (certificates_init, [CallApi ''GET'' (certs_path SystemCerts) JUndef], [])"
  "pg_view (Certificates fmt) = Certificates_view fmt" "pg_user (Certificates fmt) = certificates_user"
  "pg_resume (Certificates fmt) = certificates_resume" "pg_env (Certificates fmt) = certificates_env"
  by (simp_all add: Certificates_def)

section \<open>Contract\<close>

definition certificates_inv :: "certificates_page \<Rightarrow> certificates_k list \<Rightarrow> bool" where
  "certificates_inv s ks \<longleftrightarrow>
     flags (isPending (renewMutation s)) (\<lambda>k. k = KRenew) ks \<and> flags (isPending (cert_revokeMutation s)) (\<lambda>k. k = KRevokeCert) ks"

text \<open>The certificates in the open tab.\<close>

definition shown_certs :: "certificates_page \<Rightarrow> string set" where
  "shown_certs s = (case certTab s of
       SystemCerts \<Rightarrow> crt_id ` set (data_or_empty (q_data (systemQuery s)))
     | TenantCerts \<Rightarrow> crt_id ` set (data_or_empty (q_data (tenantsQuery s))))"

fun certificates_guard :: "certificates_page \<Rightarrow> certificates_ev \<Rightarrow> bool" where
  "certificates_guard s (RenewCert i) = (i \<in> shown_certs s \<and> \<not> isPending (renewMutation s))"
| "certificates_guard s (RevokeCert i ok) = (i \<in> shown_certs s \<and> \<not> isPending (cert_revokeMutation s))"
| "certificates_guard s _ = True"

text \<open>Only renewals and revocations are sent, without a body.\<close>

fun certificates_cmd_ok :: "cmd \<Rightarrow> bool" where
  "certificates_cmd_ok (CallApi m p b) =
     (b = JUndef \<and> (m = ''GET'' \<and> p \<in> range certs_path \<or> m = ''POST'' \<and> (\<exists>i. p = renew_path i \<or> p = revoke_cert_path i)))"
| "certificates_cmd_ok _ = True"

lemma events_getStatusBadge [simp]: "events (getStatusBadge st) = {}"
  by (simp add: getStatusBadge_def)

lemma cert_cells_events:
  "(\<Union>u \<in> set (cert_cells fmt s c). events u) =
   (if isPending (renewMutation s) then {} else {RenewCert (crt_id c)}) \<union>
   (if isPending (cert_revokeMutation s) then {} else range (RevokeCert (crt_id c)))"
  by (auto simp: cert_cells_def)

lemma cert_rows_events:
  "u \<in> set (cert_rows fmt s) \<Longrightarrow> e \<in> events u \<Longrightarrow> certificates_guard s e"
  by (auto simp: cert_rows_def system_row_def tenant_row_def cert_cells_events shown_certs_def split: cert_tab.splits if_splits)

lemma certificates_offered: "e \<in> events (Certificates_view fmt s) \<Longrightarrow> certificates_guard s e"
  by (auto simp: Certificates_view_def cert_tabs_def Let_def dest: cert_rows_events split: if_splits prod.splits)

lemma certificates_user_inv:
  assumes "certificates_inv s ks" and "certificates_guard s e"
  shows "certificates_inv (fst (certificates_user e s)) (ks @ snd (snd (certificates_user e s)))"
    and "list_all certificates_cmd_ok (fst (snd (certificates_user e s)))"
  using assms by (cases e; auto simp: certificates_inv_def flags_def setCertTab_def split: cert_tab.split)+

lemma certificates_resume_inv:
  assumes "certificates_inv s (ks1 @ k # ks2)"
  shows "certificates_inv (fst (certificates_resume k r s)) (ks1 @ ks2 @ snd (snd (certificates_resume k r s)))"
    and "list_all certificates_cmd_ok (fst (snd (certificates_resume k r s)))"
  using assms by (cases k; cases r; auto simp: certificates_inv_def flags_def split: if_splits)+

lemma certificates_mounted: "certificates_inv certificates_init []"
  by (simp add: certificates_inv_def certificates_init_def flags_def)

lemma certificates_changed: "certificates_inv s ks \<Longrightarrow> certificates_env s s' \<Longrightarrow> certificates_inv s' ks"
  by (auto simp: certificates_inv_def certificates_env_def)

interpretation certificates: page_guarded "Certificates fmt" certificates_inv certificates_guard certificates_cmd_ok for fmt
  by unfold_locales (simp_all add: certificates_mounted certificates_user_inv certificates_resume_inv certificates_changed, erule certificates_offered)

lemma certificates_single_flight:
  "single_flight (Certificates fmt)
     [(\<lambda>s. isPending (renewMutation s), \<lambda>k. k = KRenew), (\<lambda>s. isPending (cert_revokeMutation s), \<lambda>k. k = KRevokeCert)]"
  by (rule certificates.single_flightI) (simp add: certificates_inv_def)

section \<open>Properties\<close>

text \<open>A certificate that is refused renewal or revocation looks as one that was granted it: the page shows the same after both.\<close>

lemma failed_renewal_silent:
  "Certificates_view fmt (fst (certificates_resume k (Inl err) s)) = Certificates_view fmt (fst (certificates_resume k (Inr v) s))"
proof -
  have "Certificates_view fmt (s\<lparr>renewMutation := settled (Inl err)\<rparr>) = Certificates_view fmt (s\<lparr>renewMutation := settled (Inr v)\<rparr>)"
    "Certificates_view fmt (s\<lparr>cert_revokeMutation := settled (Inl err)\<rparr>) = Certificates_view fmt (s\<lparr>cert_revokeMutation := settled (Inr v)\<rparr>)"
    by (cases "certTab s"; simp add: Certificates_view_def active_status_def cert_rows_def system_row_def [abs_def] tenant_row_def [abs_def]
        cert_cells_def [abs_def])+
  then show ?thesis by (cases k) simp_all
qed

text \<open>One renewal in flight disables renewing in the other tab too.\<close>

lemma renewal_blocks_both_tabs:
  "isPending (renewMutation s) \<Longrightarrow> RenewCert i \<notin> events (Certificates_view fmt (s\<lparr>certTab := t\<rparr>))"
  using certificates_offered by fastforce

end
