(* ===== verification/CustomerPages.thy ===== *)
theory CustomerPages
  imports Hooks UrlCoding
begin

text \<open>
  The customers of the admin console: the list with its filters (\<open>pages/CustomerCRM.tsx\<close>) and one customer
  (\<open>pages/CustomerDetail.tsx\<close>). Three of the list's filters go to the server, the search is done on the page.
\<close>

section \<open>Data\<close>

record customer =
  cu_id :: string
  cu_org_name :: string
  cu_plan :: string
  cu_mrr :: int
  cu_status :: string
  cu_health_score :: int
  cu_created_at :: string
  cu_contact_email :: string

definition healthColor :: "int \<Rightarrow> string" where
  "healthColor score = (if score \<ge> 80 then ''emerald'' else if score \<ge> 50 then ''amber'' else ''red'')"

section \<open>The list\<close>

record crm_page =
  customersQuery :: "customer list option query"
  crm_search :: string
  planFilter :: string
  crm_statusFilter :: string
  healthFilter :: string

definition crm_init :: crm_page where
  "crm_init = \<lparr>customersQuery = q_pending, crm_search = '''', planFilter = '''', crm_statusFilter = '''', healthFilter = ''''\<rparr>"

definition health_params :: "string \<Rightarrow> (string \<times> string) list \<Rightarrow> (string \<times> string) list" where
  "health_params h ps =
     (if h = ''healthy'' then params_set ''health_min'' ''80'' ps
      else if h = ''at_risk'' then params_set ''health_max'' ''79'' (params_set ''health_min'' ''50'' ps)
      else if h = ''critical'' then params_set ''health_max'' ''49'' ps
      else ps)"

definition crm_buildQuery :: "crm_page \<Rightarrow> string" where
  "crm_buildQuery s =
     params_string (health_params (healthFilter s) (params_set_if ''status'' (crm_statusFilter s) (params_set_if ''plan'' (planFilter s) [])))"

definition customers_call :: "crm_page \<Rightarrow> cmd" where
  "customers_call s = CallApi ''GET'' (''/api/admin/v1/customers?'' @ crm_buildQuery s) JUndef"

datatype crm_ev = SearchCustomers string | SetPlanFilter string | SetCrmStatus string | SetHealthFilter string | RetryCustomers

fun crm_user :: "crm_ev \<Rightarrow> crm_page \<Rightarrow> (crm_page, unit) effect" where
  "crm_user (SearchCustomers v) s = (s\<lparr>crm_search := v\<rparr>, [], [])"
| "crm_user (SetPlanFilter v) s = (s\<lparr>planFilter := v\<rparr>, [], [])"
| "crm_user (SetCrmStatus v) s = (s\<lparr>crm_statusFilter := v\<rparr>, [], [])"
| "crm_user (SetHealthFilter v) s = (s\<lparr>healthFilter := v\<rparr>, [], [])"
| "crm_user RetryCustomers s = (s, [Refetch [''admin'', ''customers'']], [])"

definition crm_filtered :: "crm_page \<Rightarrow> customer list" where
  "crm_filtered s =
     filter (\<lambda>c. crm_search s = '''' \<or> js_includes (to_lower (cu_org_name c)) (to_lower (crm_search s)) \<or>
        js_includes (to_lower (cu_contact_email c)) (to_lower (crm_search s)))
       (data_or_empty (Option.bind (q_data (customersQuery s)) id))"

definition customer_path :: "customer \<Rightarrow> string" where
  "customer_path c = ''/customers/'' @ cu_id c"

record crm_cfg =
  cc_number :: "int \<Rightarrow> string"
  cc_date :: "string \<Rightarrow> string"

definition customer_row :: "crm_cfg \<Rightarrow> customer \<Rightarrow> crm_ev ui" where
  "customer_row cfg c = Node ''TableRow''
     [LinkTo (customer_path c) [Say [Lit (cu_org_name c)]], Node ''p'' [Say [Lit (cu_contact_email c)]], Node ''Badge'' [Say [Lit (cu_plan c)]],
      Say [Lit (if cu_mrr c > 0 then ''$'' @ cc_number cfg (cu_mrr c) else ''-'')], Node ''Badge'' [Say [Lit (cu_status c)]],
      Node (healthColor (cu_health_score c)) [], Say [Lit (int_string (cu_health_score c))], Say [Lit (cc_date cfg (cu_created_at c))],
      LinkTo (customer_path c) []]"

definition crm_filters :: "crm_page \<Rightarrow> crm_ev ui" where
  "crm_filters s = Node ''Card''
     [Input [] (crm_search s) [] False SearchCustomers,
      Select (planFilter s) [('''', tr ''customerCRM.allPlans''), (''free'', [Lit ''Free'']), (''pro'', [Lit ''Pro'']), (''enterprise'', [Lit ''Enterprise''])]
        SetPlanFilter,
      Select (crm_statusFilter s) [('''', tr ''customerCRM.allStatus''), (''active'', [Lit ''Active'']), (''suspended'', [Lit ''Suspended'']), (''trial'', [Lit ''Trial''])]
        SetCrmStatus,
      Select (healthFilter s) [('''', tr ''customerCRM.allHealth''), (''healthy'', tr ''customerCRM.healthy''), (''at_risk'', tr ''customerCRM.atRisk''),
        (''critical'', tr ''customerCRM.critical'')] SetHealthFilter]"

definition CustomerCRM_view :: "crm_cfg \<Rightarrow> crm_page \<Rightarrow> crm_ev ui" where
  "CustomerCRM_view cfg s = Node ''div''
     [Node ''h1'' [Say (tr ''customerCRM.title'')], Node ''p'' [Say (tr ''customerCRM.subtitle'')], crm_filters s,
      (if q_isError (customersQuery s) then failed_load ''customerCRM.failedToLoad'' [Button False RetryCustomers [Say (tr ''common.retry'')]]
       else Node ''Table''
        [head_row [''customerCRM.organization'', ''customerCRM.plan'', ''customerCRM.mrr'', ''customerCRM.status'', ''customerCRM.health'', ''customerCRM.created''],
         Node ''TableBody'' (if q_isLoading (customersQuery s) then replicate 5 (Node ''TableRow'' (replicate 7 (Node ''Skeleton'' [])))
           else if crm_filtered s = [] then [Node ''TableRow'' [Say (tr ''customerCRM.noCustomers'')]]
           else map (customer_row cfg) (crm_filtered s))])]"

definition crm_env :: "crm_page \<Rightarrow> crm_page \<Rightarrow> bool" where
  "crm_env s s' \<longleftrightarrow> (\<exists>q. s' = s\<lparr>customersQuery := q\<rparr>)"

definition CustomerCRM :: "crm_cfg \<Rightarrow> (crm_page, crm_ev, unit) page" where
  "CustomerCRM cfg =
     \<lparr>pg_mount = (crm_init, [customers_call crm_init], []), pg_view = CustomerCRM_view cfg, pg_user = crm_user,
      pg_resume = (\<lambda>_ _ s. (s, [], [])), pg_env = crm_env\<rparr>"

lemma CustomerCRM_sel [simp]:
  "pg_mount (CustomerCRM cfg) = (crm_init, [customers_call crm_init], [])" "pg_view (CustomerCRM cfg) = CustomerCRM_view cfg"
  "pg_user (CustomerCRM cfg) = crm_user" "pg_resume (CustomerCRM cfg) k r s = (s, [], [])" "pg_env (CustomerCRM cfg) = crm_env"
  by (simp_all add: CustomerCRM_def)

text \<open>The filters hold what their lists offer.\<close>

definition crm_inv :: "crm_page \<Rightarrow> unit list \<Rightarrow> bool" where
  "crm_inv s ks \<longleftrightarrow> planFilter s \<in> {'''', ''free'', ''pro'', ''enterprise''} \<and> crm_statusFilter s \<in> {'''', ''active'', ''suspended'', ''trial''} \<and>
     healthFilter s \<in> {'''', ''healthy'', ''at_risk'', ''critical''}"

fun crm_guard :: "crm_page \<Rightarrow> crm_ev \<Rightarrow> bool" where
  "crm_guard s (SetPlanFilter v) = (v \<in> {'''', ''free'', ''pro'', ''enterprise''})"
| "crm_guard s (SetCrmStatus v) = (v \<in> {'''', ''active'', ''suspended'', ''trial''})"
| "crm_guard s (SetHealthFilter v) = (v \<in> {'''', ''healthy'', ''at_risk'', ''critical''})"
| "crm_guard s _ = True"

lemma crm_filters_events:
  "events (crm_filters s) = range SearchCustomers \<union> SetPlanFilter ` {'''', ''free'', ''pro'', ''enterprise''} \<union>
     SetCrmStatus ` {'''', ''active'', ''suspended'', ''trial''} \<union> SetHealthFilter ` {'''', ''healthy'', ''at_risk'', ''critical''}"
  by (simp add: crm_filters_def)

lemma crm_offered: "e \<in> events (CustomerCRM_view cfg s) \<Longrightarrow> crm_guard s e"
  by (auto simp: CustomerCRM_view_def crm_filters_events customer_row_def split: if_splits)

lemma crm_user_inv: "crm_inv s ks \<Longrightarrow> crm_guard s e \<Longrightarrow> crm_inv (fst (crm_user e s)) (ks @ snd (snd (crm_user e s)))"
  by (cases e; simp add: crm_inv_def)

lemma crm_mounted: "crm_inv crm_init []"
  by (simp add: crm_inv_def crm_init_def)

lemma crm_changed: "crm_inv s ks \<Longrightarrow> crm_inv s ls" "crm_inv s ks \<Longrightarrow> crm_env s s' \<Longrightarrow> crm_inv s' ks"
  by (auto simp: crm_inv_def crm_env_def)

interpretation crm: page_guarded "CustomerCRM cfg" crm_inv crm_guard "\<lambda>_. True" for cfg
  by unfold_locales (simp_all add: crm_mounted crm_user_inv crm_changed(2) list_all_iff, erule crm_offered, erule crm_changed)

text \<open>What the server is asked for, as bounds on the score.\<close>

definition score_within :: "(string \<times> string) list \<Rightarrow> int \<Rightarrow> bool" where
  "score_within ps n \<longleftrightarrow>
     (case map_of ps ''health_min'' of None \<Rightarrow> True | Some lo \<Rightarrow> int (read_nat lo) \<le> n) \<and>
     (case map_of ps ''health_max'' of None \<Rightarrow> True | Some hi \<Rightarrow> n \<le> int (read_nat hi))"

definition health_color_of :: "string \<Rightarrow> string" where
  "health_color_of h = (if h = ''healthy'' then ''emerald'' else if h = ''at_risk'' then ''amber'' else ''red'')"

lemma read_bounds: "read_nat ''80'' = 80" "read_nat ''79'' = 79" "read_nat ''50'' = 50" "read_nat ''49'' = 49"
  by code_simp+

lemma crm_query_parse:
  assumes "crm_inv s ks"
  shows "\<exists>ps. query_parse (crm_buildQuery s) = Some ps \<and> map_of ps ''plan'' = (if planFilter s = '''' then None else Some (planFilter s)) \<and>
    map_of ps ''status'' = (if crm_statusFilter s = '''' then None else Some (crm_statusFilter s)) \<and>
    (\<forall>n. score_within ps n \<longleftrightarrow> healthFilter s = '''' \<or> healthColor n = health_color_of (healthFilter s))"
  using assms
  by (auto simp: crm_buildQuery_def query_roundtrip health_params_def params_set_if_def score_within_def read_bounds healthColor_def health_color_of_def crm_inv_def)

text \<open>The filters of the list say what the list shows. In every reachable state the query, read back, has the plan and the
  status that are chosen and no others, and its bounds on the score hold for exactly the scores whose mark has the colour
  of the chosen class: the three classes leave out no score and share none.\<close>

theorem customer_filters_agree:
  assumes "page_reach (CustomerCRM cfg) (s, ks, out)"
  shows "\<exists>ps. query_parse (crm_buildQuery s) = Some ps \<and> map_of ps ''plan'' = (if planFilter s = '''' then None else Some (planFilter s)) \<and>
    map_of ps ''status'' = (if crm_statusFilter s = '''' then None else Some (crm_statusFilter s)) \<and>
    (\<forall>n. score_within ps n \<longleftrightarrow> healthFilter s = '''' \<or> healthColor n = health_color_of (healthFilter s))"
  by (rule crm_query_parse [OF crm.reachable [OF assms]])

theorem customer_filters_agree_witness:
  "\<exists>s out ps. page_reach (CustomerCRM \<lparr>cc_number = int_string, cc_date = id\<rparr>) (s, [], out) \<and> healthFilter s = ''at_risk'' \<and>
     query_parse (crm_buildQuery s) = Some ps \<and> score_within ps 79 \<and> \<not> score_within ps 80"
proof -
  let ?P = "CustomerCRM \<lparr>cc_number = int_string, cc_date = id\<rparr>" and ?s = "crm_init\<lparr>healthFilter := ''at_risk''\<rparr>"
  have "SetHealthFilter ''at_risk'' \<in> events (CustomerCRM_view cfg s)" for cfg s
    by (simp add: CustomerCRM_view_def crm_filters_events)
  then have "page_play ?P [Do (SetHealthFilter ''at_risk'')] (crm_init, [], [customers_call crm_init]) = Some (?s, [], [customers_call crm_init])"
    by simp
  then have r: "page_reach ?P (?s, [], [customers_call crm_init])"
    using page_play_mount [OF CustomerCRM_sel(1)] by blast
  from customer_filters_agree [OF r] obtain ps where ps: "query_parse (crm_buildQuery ?s) = Some ps"
    "\<forall>n. score_within ps n \<longleftrightarrow> healthColor n = health_color_of ''at_risk''"
    by auto
  then have "score_within ps 79" "\<not> score_within ps 80" by (simp_all add: healthColor_def health_color_of_def)
  with r ps(1) show ?thesis by (intro exI [of _ ?s] exI [of _ "[customers_call crm_init]"] exI [of _ ps]) simp
qed

text \<open>The search on the page: the customers that are shown are those with the text in their name or address, case ignored.\<close>

lemma crm_filtered_iff:
  "c \<in> set (crm_filtered s) \<longleftrightarrow> c \<in> set (data_or_empty (Option.bind (q_data (customersQuery s)) id)) \<and>
     (sublist (to_lower (crm_search s)) (to_lower (cu_org_name c)) \<or> sublist (to_lower (crm_search s)) (to_lower (cu_contact_email c)))"
  by (auto simp: crm_filtered_def includes_sublist to_lower_def)

section \<open>One customer\<close>

record customer_contact =
  ct_name :: string
  ct_email :: string
  ct_role :: string

record customer_invoice =
  ci_id :: string
  ci_amount :: rat
  ci_status :: string
  ci_date :: string

record subscription =
  su_plan :: string
  su_status :: string
  su_start :: string
  su_end :: string

record customer_event =
  ce_timestamp :: string
  ce_action :: string
  ce_detail :: string

record customer_usage =
  us_tunnels :: int
  us_bandwidth_gb :: rat
  us_active_users :: int
  us_connections :: int

record customer_detail = customer +
  cd_user_count :: int
  cd_tunnel_count :: int
  cd_contacts :: "customer_contact list"
  cd_usage :: customer_usage
  cd_invoices :: "customer_invoice list"
  cd_subscriptions :: "subscription list"
  cd_activity :: "customer_event list"

record health_factor =
  hf_factor :: string
  hf_score :: int

record customer_health =
  ch_trend :: "(string \<times> int) list option"
  ch_factors :: "health_factor list option"

record customer_page =
  customerQuery :: "customer_detail query"
  healthQuery :: "customer_health query"
  customerTab :: string

definition customer_init :: customer_page where
  "customer_init = \<lparr>customerQuery = q_pending, healthQuery = q_pending, customerTab = ''Overview''\<rparr>"

definition customer_tabs :: "string list" where
  "customer_tabs = [''Overview'', ''Billing'', ''Usage'', ''Activity'']"

datatype customer_ev = SelectCustomerTab string | RetryCustomer

text \<open>Both queries are enabled by the id of the route.\<close>

definition customer_calls :: "string \<Rightarrow> cmd list" where
  "customer_calls i =
     (if i = '''' then []
      else [CallApi ''GET'' (''/api/admin/v1/customers/'' @ i) JUndef, CallApi ''GET'' (''/api/admin/v1/customers/'' @ i @ ''/health'') JUndef])"

fun customer_user :: "string \<Rightarrow> customer_ev \<Rightarrow> customer_page \<Rightarrow> (customer_page, unit) effect" where
  "customer_user i (SelectCustomerTab v) s = (s\<lparr>customerTab := v\<rparr>, [], [])"
| "customer_user i RetryCustomer s = (s, [Refetch [''admin'', ''customer'', i]], [])"

record detail_cfg = crm_cfg +
  dc_money :: "rat \<Rightarrow> string"
  dc_time :: "string \<Rightarrow> string"

definition customer_summary :: "detail_cfg \<Rightarrow> customer_detail \<Rightarrow> 'e ui" where
  "customer_summary cfg c = Node ''section''
     [Node ''Card'' [Say (tr ''customerDetail.healthScore''), Node (healthColor (cu_health_score c)) [], Say [Lit (int_string (cu_health_score c))]],
      Node ''Card'' [Say (tr ''customerDetail.mrr''), Say [Lit (''$'' @ cc_number cfg (cu_mrr c))]],
      Node ''Card'' [Say (tr ''customerDetail.users''), Say [Lit (int_string (cd_user_count c))]],
      Node ''Card'' [Say (tr ''customerDetail.tunnels''), Say [Lit (int_string (cd_tunnel_count c))]]]"

definition customer_overview :: "detail_cfg \<Rightarrow> customer_health query \<Rightarrow> customer_detail \<Rightarrow> 'e ui" where
  "customer_overview cfg h c = Node ''div''
     [Node ''Card'' [Say (tr ''customerDetail.orgInfo''), Say (tr ''customerDetail.name''), Say [Lit (cu_org_name c)], Say (tr ''customerDetail.plan''),
        Node ''Badge'' [Say [Lit (cu_plan c)]], Say (tr ''customerDetail.status''), Node ''Badge'' [Say [Lit (cu_status c)]],
        Say (tr ''customerDetail.customerSince''), Say [Lit (cc_date cfg (cu_created_at c))]],
      Node ''Card'' (Say (tr ''customerDetail.contacts'') #
        map (\<lambda>k. Node ''div'' [Say [Lit (ct_name k)], Say [Lit (ct_email k)], Node ''Badge'' [Say [Lit (ct_role k)]]]) (cd_contacts c)),
      Node ''Card'' [Say (tr ''customerDetail.healthScoreTrend''),
        if q_isLoading h then Node ''Skeleton'' []
        else Node ''LineChart'' (map (\<lambda>(d, n). Say [Lit d, Lit (int_string n)]) (data_or_empty (Option.bind (q_data h) ch_trend)))]]"

definition customer_billing :: "detail_cfg \<Rightarrow> customer_detail \<Rightarrow> 'e ui" where
  "customer_billing cfg c = Node ''div''
     [Node ''Card'' [Say (tr ''customerDetail.subscriptionHistory''),
        head_row [''customerDetail.plan'', ''customerDetail.status'', ''customerDetail.start'', ''customerDetail.end''],
        Node ''TableBody'' (map (\<lambda>u. Node ''TableRow'' [Node ''Badge'' [Say [Lit (su_plan u)]], Node ''Badge'' [Say [Lit (su_status u)]],
          Say [Lit (su_start u)], Say [Lit (or_dash (su_end u))]]) (cd_subscriptions c))],
      Node ''Card'' [Say (tr ''customerDetail.invoices''),
        head_row [''customerDetail.invoice'', ''customerDetail.amount'', ''customerDetail.date'', ''customerDetail.status''],
        Node ''TableBody'' (map (\<lambda>v. Node ''TableRow'' [Say [Lit (ci_id v)], Say [Lit (''$'' @ dc_money cfg (ci_amount v))],
          Say [Lit (ci_date v)], Node ''Badge'' [Say [Lit (ci_status v)]]]) (cd_invoices c))]]"

definition factor_bar :: "health_factor \<Rightarrow> 'e ui" where
  "factor_bar f = Node ''div''
     [Say [Lit (hf_factor f)], Node (healthColor (hf_score f)) [Node (int_string (hf_score f) @ ''%'') []], Say [Lit (int_string (hf_score f))]]"

definition customer_usage_tab :: "customer_health query \<Rightarrow> customer_detail \<Rightarrow> 'e ui" where
  "customer_usage_tab h c =
     (let u = cd_usage c in
      Node ''div''
       [Node ''Card'' [Say (tr ''customerDetail.tunnels''),
          Say (tr ''customerDetail.activeTunnels''), Say [Lit (int_string (us_tunnels u))],
          Say (tr ''customerDetail.bandwidthUsed''), Say [Lit (toFixed 1 (us_bandwidth_gb u) @ '' GB'')],
          Say (tr ''customerDetail.activeUsers''), Say [Lit (int_string (us_active_users u))],
          Say (tr ''customerDetail.connections''), Say [Lit (int_string (us_connections u))]],
        Node ''Card'' (Say (tr ''customerDetail.healthFactors'') #
          (if q_isLoading h then [Node ''Skeleton'' []] else map factor_bar (data_or_empty (Option.bind (q_data h) ch_factors))))])"

definition event_color :: "string \<Rightarrow> string" where
  "event_color action =
     (if js_includes action ''created'' \<or> js_includes action ''verified'' \<or> js_includes action ''upgraded'' \<or> js_includes action ''paid''
      then ''emerald'' else if js_includes action ''invited'' then ''blue'' else ''muted'')"

definition customer_activity :: "detail_cfg \<Rightarrow> customer_detail \<Rightarrow> 'e ui" where
  "customer_activity cfg c = Node ''Card'' (Say (tr ''customerDetail.eventTimeline'') #
     map (\<lambda>i. let ev = cd_activity c ! i in Node ''div''
       [Node (event_color (ce_action ev)) [], only_if (i < length (cd_activity c) - 1) (Node ''line'' []),
        Node ''Badge'' [Say [Lit (ce_action ev)]], Say [Lit (dc_time cfg (ce_timestamp ev))], Say [Lit (ce_detail ev)]]) [0..<length (cd_activity c)])"

definition CustomerDetail_view :: "detail_cfg \<Rightarrow> customer_page \<Rightarrow> customer_ev ui" where
  "CustomerDetail_view cfg s =
     (let q = customerQuery s in
      if q_isError q then failed_load ''customerDetail.failedToLoad''
        [Button False RetryCustomer [Say (tr ''common.retry'')], LinkTo ''/customers'' [Say (tr ''customerDetail.backToCustomers'')]]
      else if q_isLoading q then Node ''div'' (replicate 6 (Node ''Skeleton'' []))
      else (case q_data q of
          None \<Rightarrow> Null
        | Some c \<Rightarrow> Node ''div''
           [LinkTo ''/customers'' [Say (tr ''customerDetail.back'')], Node ''h1'' [Say [Lit (cu_org_name c)]],
            Node ''p'' [Say (tr ''customerDetail.customerView'')], customer_summary cfg c,
            Node ''div'' (map (\<lambda>t. Button False (SelectCustomerTab t) [Say [Lit t]]) customer_tabs),
            only_if (customerTab s = ''Overview'') (customer_overview cfg (healthQuery s) c),
            only_if (customerTab s = ''Billing'') (customer_billing cfg c), only_if (customerTab s = ''Usage'') (customer_usage_tab (healthQuery s) c),
            only_if (customerTab s = ''Activity'') (customer_activity cfg c)]))"

definition customer_env :: "customer_page \<Rightarrow> customer_page \<Rightarrow> bool" where
  "customer_env s s' \<longleftrightarrow> (\<exists>q h. s' = s\<lparr>customerQuery := q, healthQuery := h\<rparr>)"

definition CustomerDetail :: "detail_cfg \<Rightarrow> string \<Rightarrow> (customer_page, customer_ev, unit) page" where
  "CustomerDetail cfg i =
     \<lparr>pg_mount = (customer_init, customer_calls i, []), pg_view = CustomerDetail_view cfg, pg_user = customer_user i,
      pg_resume = (\<lambda>_ _ s. (s, [], [])), pg_env = customer_env\<rparr>"

definition customer_inv :: "customer_page \<Rightarrow> unit list \<Rightarrow> bool" where
  "customer_inv s ks \<longleftrightarrow> customerTab s \<in> set customer_tabs"

fun customer_guard :: "customer_page \<Rightarrow> customer_ev \<Rightarrow> bool" where
  "customer_guard s (SelectCustomerTab v) = (v \<in> set customer_tabs)"
| "customer_guard s RetryCustomer = q_isError (customerQuery s)"

text \<open>The page only reads.\<close>

fun customer_cmd_ok :: "string \<Rightarrow> cmd \<Rightarrow> bool" where
  "customer_cmd_ok i (CallApi m p b) = (m = ''GET'' \<and> b = JUndef \<and> prefix (''/api/admin/v1/customers/'' @ i) p)"
| "customer_cmd_ok i _ = True"

lemma events_customer_parts [simp]:
  "events (customer_summary cfg c) = {}" "events (customer_overview cfg h c) = {}" "events (customer_billing cfg c) = {}"
  "events (customer_usage_tab h c) = {}" "events (customer_activity cfg c) = {}"
  by (auto simp: customer_summary_def customer_overview_def customer_billing_def customer_usage_tab_def customer_activity_def factor_bar_def Let_def
      split: if_splits prod.splits)

lemma customer_offered: "e \<in> events (CustomerDetail_view cfg s) \<Longrightarrow> customer_guard s e"
  by (auto simp: CustomerDetail_view_def Let_def split: if_splits option.splits)

lemma customer_steps:
  "customer_inv s ks \<Longrightarrow> customer_guard s e \<Longrightarrow> customer_inv (fst (customer_user i e s)) ls" "list_all (customer_cmd_ok i) (fst (snd (customer_user i e s)))"
  "list_all (customer_cmd_ok i) (customer_calls i)" "customer_inv customer_init ls" "customer_env s s' \<Longrightarrow> customer_inv s ks \<Longrightarrow> customer_inv s' ls"
  by (cases e; auto simp: customer_inv_def customer_calls_def customer_init_def customer_tabs_def customer_env_def)+

interpretation customer: page_guarded "CustomerDetail cfg i" customer_inv customer_guard "customer_cmd_ok i" for cfg i
proof unfold_locales
  fix s s' ks ks1 ks2 e k r
  show "customer_inv (fst (pg_mount (CustomerDetail cfg i))) (snd (snd (pg_mount (CustomerDetail cfg i))))"
    "list_all (customer_cmd_ok i) (fst (snd (pg_mount (CustomerDetail cfg i))))"
    by (simp_all add: CustomerDetail_def customer_steps)
  show "customer_guard s e" if "e \<in> events (pg_view (CustomerDetail cfg i) s)"
    using that by (simp add: CustomerDetail_def customer_offered)
  show "customer_inv (fst (pg_user (CustomerDetail cfg i) e s)) (ks @ snd (snd (pg_user (CustomerDetail cfg i) e s)))"
    if "customer_inv s ks" "customer_guard s e"
    using customer_steps(1) [OF that] by (simp add: CustomerDetail_def)
  show "list_all (customer_cmd_ok i) (fst (snd (pg_user (CustomerDetail cfg i) e s)))"
    by (simp add: CustomerDetail_def customer_steps)
  show "customer_inv (fst (pg_resume (CustomerDetail cfg i) k r s)) (ks1 @ ks2 @ snd (snd (pg_resume (CustomerDetail cfg i) k r s)))"
    if "customer_inv s (ks1 @ k # ks2)"
    using that by (simp add: CustomerDetail_def customer_inv_def)
  show "list_all (customer_cmd_ok i) (fst (snd (pg_resume (CustomerDetail cfg i) k r s)))" by (simp add: CustomerDetail_def)
  show "customer_inv s' ks" if "customer_inv s ks" "pg_env (CustomerDetail cfg i) s s'"
    using that customer_steps(5) by (simp add: CustomerDetail_def)
qed

text \<open>Every tab has contents: on a customer that is loaded exactly one of the four is shown, in every reachable state.\<close>

lemma one_tab_shown:
  assumes "page_reach (CustomerDetail cfg i) (s, ks, out)"
  shows "length (filter (\<lambda>t. customerTab s = t) customer_tabs) = 1"
  using customer.reachable [OF assms] by (auto simp: customer_inv_def customer_tabs_def)

end
