(* ===== verification/DashboardPage.thy ===== *)
theory DashboardPage
  imports Hooks
begin

text \<open>
  The dashboard (\<open>pages/Dashboard.tsx\<close>): the statistics, the traffic chart and the recent events. The chart draws
  random data that every render makes anew, from the clock and \<open>Math.random\<close>; both are part of the state here, and the
  environment changes them with the queries.
\<close>

record TunnelStats =
  active_tunnels :: nat
  total_tunnels :: nat
  total_traffic_in :: nat
  total_traffic_out :: nat
  active_connections :: nat
  today_requests :: "nat option"

record RecentEvent =
  ev_id :: string
  ev_type :: string
  ev_tunnel_id :: "string option"
  ev_tunnel_name :: "string option"
  ev_status :: string
  ev_created_at :: string

record dash_point =
  dp_time :: int
  dp_in :: int
  dp_out :: int

text \<open>Hourly points; \<open>i\<close> counts down from 23, and the \<open>k\<close>-th point draws the random numbers \<open>2 k\<close> and \<open>2 k + 1\<close>.\<close>

definition generateMockTrafficData :: "int \<Rightarrow> (nat \<Rightarrow> rat) \<Rightarrow> dash_point list" where
  "generateMockTrafficData now rnd = map (\<lambda>k.
     \<lparr>dp_time = now - (23 - int k) * 60 * 60 * 1000, dp_in = draw (rnd (2 * k)) 50000 10000, dp_out = draw (rnd (2 * k + 1)) 30000 5000\<rparr>)
     [0..<24]"

record dashboard_page =
  statsQuery :: "TunnelStats query"
  eventsQuery :: "RecentEvent list query"
  render_now :: int
  render_random :: "nat \<Rightarrow> rat"

definition dashboard_init :: "int \<Rightarrow> (nat \<Rightarrow> rat) \<Rightarrow> dashboard_page" where
  "dashboard_init now rnd = \<lparr>statsQuery = q_pending, eventsQuery = q_pending, render_now = now, render_random = rnd\<rparr>"

definition dashboard_calls :: "cmd list" where
  "dashboard_calls = [CallApi ''GET'' ''/v1/dashboard/stats'' JUndef, CallApi ''GET'' ''/v1/dashboard/events'' JUndef]"

datatype dashboard_ev = RetryStats | RetryEvents | CreateFirst

text \<open>The button inside the link has no handler of its own.\<close>

fun dashboard_user :: "dashboard_ev \<Rightarrow> dashboard_page \<Rightarrow> (dashboard_page, unit) effect" where
  "dashboard_user RetryStats s = (s, [Refetch [''dashboard'', ''stats'']], [])"
| "dashboard_user RetryEvents s = (s, [Refetch [''dashboard'', ''events'']], [])"
| "dashboard_user CreateFirst s = (s, [], [])"

text \<open>\<open>t(key, type)\<close> shows the type where the key has no translation.\<close>

definition eventTypeLabel :: "string \<Rightarrow> caption" where
  "eventTypeLabel typ = [Tr (''dashboard.event.'' @ typ) [(''defaultValue'', JStr typ)]]"

definition stat_card :: "string \<Rightarrow> 'e ui list \<Rightarrow> 'e ui" where
  "stat_card key us = Node ''Card'' [Node ''CardHeader'' [Say (tr key)], Node ''CardContent'' us]"

definition stats_cards :: "(nat \<Rightarrow> string) \<Rightarrow> TunnelStats query \<Rightarrow> dashboard_ev ui" where
  "stats_cards toLocaleString q =
     (if q_isError q then failed_load ''dashboard.failed_stats'' [Button False RetryStats [Say (tr ''common.retry'')]]
      else if q_isLoading q then Node ''section'' (replicate 4 (Node ''Skeleton'' []))
      else Node ''section''
       [stat_card ''dashboard.active_tunnels''
          [Say [Lit (case q_data q of None \<Rightarrow> ''0'' | Some st \<Rightarrow> nat_string (active_tunnels st))], Node ''Badge'' [Say (tr ''common.active'')]],
        stat_card ''dashboard.total_traffic''
          [Say [Lit (case q_data q of None \<Rightarrow> ''0 B'' | Some st \<Rightarrow> formatBytes (total_traffic_in st + total_traffic_out st))]],
        stat_card ''dashboard.active_connections''
          [Say [Lit (case q_data q of None \<Rightarrow> ''0'' | Some st \<Rightarrow> nat_string (active_connections st))]],
        stat_card ''dashboard.today_requests''
          [Say [Lit (case q_data q of None \<Rightarrow> ''0'' | Some st \<Rightarrow>
             (case today_requests st of None \<Rightarrow> ''0'' | Some n \<Rightarrow> toLocaleString n))]]])"

text \<open>The chart, without its drawing: the points it is given.\<close>

definition traffic_card :: "(int \<Rightarrow> string) \<Rightarrow> bool \<Rightarrow> dash_point list \<Rightarrow> 'e ui" where
  "traffic_card toLocaleTimeString showSkeleton points = Node ''Card''
     [Say (tr ''dashboard.traffic_timeline''),
      if showSkeleton then Node ''Skeleton'' []
      else Node ''TrafficAreaChart'' (map (\<lambda>p. Say [Lit (toLocaleTimeString (dp_time p)), Lit (int_string (dp_in p)), Lit (int_string (dp_out p))]) points)]"

definition event_row :: "(string \<Rightarrow> string) \<Rightarrow> RecentEvent \<Rightarrow> 'e ui" where
  "event_row toLocaleString e = Node ''TableRow''
     [Say [Lit (toLocaleString (ev_created_at e))], Node ''Badge'' [Say (eventTypeLabel (ev_type e))],
      Say [Lit (case ev_tunnel_name e of Some n \<Rightarrow> n | None \<Rightarrow> (case ev_tunnel_id e of Some i \<Rightarrow> i | None \<Rightarrow> ''-''))],
      Node ''Badge'' [Say (eventTypeLabel (ev_status e))]]"

definition isEmpty :: "TunnelStats query \<Rightarrow> bool" where
  "isEmpty q = (case q_data q of None \<Rightarrow> False | Some st \<Rightarrow> total_tunnels st = 0)"

definition events_card :: "(string \<Rightarrow> string) \<Rightarrow> dashboard_page \<Rightarrow> dashboard_ev ui" where
  "events_card toLocaleString s =
     (let q = eventsQuery s in
      Node ''Card''
       [Say (tr ''dashboard.recent_events''),
        if q_isLoading q then Node ''Skeleton'' []
        else if q_isError q then failed_load ''dashboard.failed_events'' [Button False RetryEvents [Say (tr ''common.retry'')]]
        else if q_data q = Some [] \<or> isEmpty (statsQuery s) then
          Node ''div'' [Say (tr ''dashboard.empty''), LinkTo ''/tunnels'' [Button False CreateFirst [Say (tr ''dashboard.create_first'')]]]
        else (case q_data q of
            None \<Rightarrow> Null
          | Some es \<Rightarrow> Node ''Table''
             [head_row [''dashboard.table.time'', ''dashboard.table.event'', ''dashboard.table.tunnel'', ''dashboard.table.status''],
              Node ''TableBody'' (map (event_row toLocaleString) es)])])"

record dash_cfg =
  fmt_count :: "nat \<Rightarrow> string"
  fmt_hour :: "int \<Rightarrow> string"
  fmt_date :: "string \<Rightarrow> string"

definition Dashboard_view :: "dash_cfg \<Rightarrow> dashboard_page \<Rightarrow> dashboard_ev ui" where
  "Dashboard_view cfg s = Node ''div''
     [Node ''h1'' [Say (tr ''dashboard.title'')], Node ''p'' [Say (tr ''dashboard.subtitle'')],
      stats_cards (fmt_count cfg) (statsQuery s),
      traffic_card (fmt_hour cfg) (q_isLoading (statsQuery s)) (generateMockTrafficData (render_now s) (render_random s)),
      events_card (fmt_date cfg) s]"

text \<open>A render draws numbers in [0, 1).\<close>

definition dashboard_env :: "dashboard_page \<Rightarrow> dashboard_page \<Rightarrow> bool" where
  "dashboard_env s s' \<longleftrightarrow> (\<forall>i. 0 \<le> render_random s' i \<and> render_random s' i < 1)"

definition Dashboard :: "dash_cfg \<Rightarrow> int \<Rightarrow> (nat \<Rightarrow> rat) \<Rightarrow> (dashboard_page, dashboard_ev, unit) page" where
  "Dashboard cfg now rnd =
     \<lparr>pg_mount = (dashboard_init now rnd, dashboard_calls, []), pg_view = Dashboard_view cfg, pg_user = dashboard_user,
      pg_resume = (\<lambda>k r s. (s, [], [])), pg_env = dashboard_env\<rparr>"

lemma Dashboard_sel [simp]:
  "pg_mount (Dashboard cfg now rnd) = (dashboard_init now rnd, dashboard_calls, [])" "pg_view (Dashboard cfg now rnd) = Dashboard_view cfg"
  "pg_user (Dashboard cfg now rnd) = dashboard_user" "pg_resume (Dashboard cfg now rnd) = (\<lambda>k r s. (s, [], []))"
  "pg_env (Dashboard cfg now rnd) = dashboard_env"
  by (simp_all add: Dashboard_def)

section \<open>Contract\<close>

text \<open>The page only reads: nothing waits, and it sends no request but the two loads.\<close>

fun dashboard_guard :: "dashboard_page \<Rightarrow> dashboard_ev \<Rightarrow> bool" where
  "dashboard_guard s RetryStats = q_isError (statsQuery s)"
| "dashboard_guard s RetryEvents = (q_isError (eventsQuery s) \<and> \<not> q_isLoading (eventsQuery s))"
| "dashboard_guard s CreateFirst = (q_data (eventsQuery s) = Some [] \<or> isEmpty (statsQuery s))"

definition dashboard_cmd_ok :: "cmd \<Rightarrow> bool" where
  "dashboard_cmd_ok c \<longleftrightarrow> c \<in> set dashboard_calls \<or> c \<in> {Refetch [''dashboard'', ''stats''], Refetch [''dashboard'', ''events'']}"

lemma dashboard_parts_guarded:
  "e \<in> events (stats_cards f (statsQuery s)) \<Longrightarrow> dashboard_guard s e" "e \<in> events (events_card g s) \<Longrightarrow> dashboard_guard s e"
  by (auto simp: stats_cards_def stat_card_def events_card_def event_row_def Let_def split: option.splits if_splits)

lemma dashboard_offered: "e \<in> events (Dashboard_view cfg s) \<Longrightarrow> dashboard_guard s e"
  by (auto simp: Dashboard_view_def traffic_card_def dest: dashboard_parts_guarded split: if_splits)

definition dashboard_inv :: "dashboard_page \<Rightarrow> unit list \<Rightarrow> bool" where
  "dashboard_inv s ks \<longleftrightarrow> ks = []"

lemma dashboard_user_inv:
  assumes "dashboard_inv s ks"
  shows "dashboard_inv (fst (dashboard_user e s)) (ks @ snd (snd (dashboard_user e s)))"
    and "list_all dashboard_cmd_ok (fst (snd (dashboard_user e s)))"
  using assms by (cases e; simp add: dashboard_inv_def dashboard_cmd_ok_def)+

lemma dashboard_mounted: "dashboard_inv (dashboard_init now rnd) []" "list_all dashboard_cmd_ok dashboard_calls"
  by (simp_all add: dashboard_inv_def dashboard_cmd_ok_def dashboard_calls_def)

interpretation dashboard: page_guarded "Dashboard cfg now rnd" dashboard_inv dashboard_guard dashboard_cmd_ok for cfg now rnd
  by unfold_locales (simp_all add: dashboard_mounted dashboard_user_inv, simp_all add: dashboard_inv_def, erule dashboard_offered)

section \<open>Properties\<close>

lemma dashboard_traffic_bounds:
  assumes "\<And>i. 0 \<le> rnd i \<and> rnd i < 1" and "p \<in> set (generateMockTrafficData now rnd)"
  shows "10000 \<le> dp_in p \<and> dp_in p < 60000 \<and> 5000 \<le> dp_out p \<and> dp_out p < 35000"
proof -
  obtain k where "p = \<lparr>dp_time = now - (23 - int k) * 60 * 60 * 1000, dp_in = draw (rnd (2 * k)) 50000 10000,
      dp_out = draw (rnd (2 * k + 1)) 30000 5000\<rparr>"
    using assms(2) by (auto simp: generateMockTrafficData_def)
  then show ?thesis
    using draw_bounds [of "rnd (2 * k)" 50000 10000] draw_bounds [of "rnd (2 * k + 1)" 30000 5000] assms(1) [of "2 * k"] assms(1) [of "2 * k + 1"]
    by simp
qed

lemma dashboard_traffic_hours:
  "map dp_time (generateMockTrafficData now rnd) = map (\<lambda>k. now - (23 - int k) * 3600000) [0..<24]"
  by (simp add: generateMockTrafficData_def)

text \<open>A failed load can always be retried: whatever else the dashboard shows, it offers to load the statistics
  again exactly when they failed, and the events again exactly when they failed and are not loading.\<close>

theorem dashboard_retries:
  "(RetryStats \<in> events (Dashboard_view cfg s) \<longleftrightarrow> q_isError (statsQuery s)) \<and>
   (RetryEvents \<in> events (Dashboard_view cfg s) \<longleftrightarrow> q_isError (eventsQuery s) \<and> \<not> q_isLoading (eventsQuery s))"
proof -
  have "q_isError (statsQuery s) \<Longrightarrow> RetryStats \<in> events (Dashboard_view cfg s)"
    by (simp add: Dashboard_view_def stats_cards_def)
  moreover have "q_isError (eventsQuery s) \<Longrightarrow> \<not> q_isLoading (eventsQuery s) \<Longrightarrow> RetryEvents \<in> events (Dashboard_view cfg s)"
    by (simp add: Dashboard_view_def events_card_def Let_def)
  ultimately show ?thesis using dashboard_offered by fastforce
qed

text \<open>The only link leads to the tunnels.\<close>

lemma dashboard_links: "to \<in> set (links (Dashboard_view cfg s)) \<Longrightarrow> to = ''/tunnels''"
  by (auto simp: Dashboard_view_def stats_cards_def stat_card_def traffic_card_def events_card_def event_row_def failed_load_def head_row_def
      Let_def split: option.splits if_splits)

text \<open>A page without tunnels hides the events it has loaded.\<close>

lemma empty_hides_events:
  "isEmpty (statsQuery s) \<Longrightarrow> \<not> q_isLoading (eventsQuery s) \<Longrightarrow> \<not> q_isError (eventsQuery s) \<Longrightarrow>
   texts (events_card fmt s) = [tr ''dashboard.recent_events'', tr ''dashboard.empty'', tr ''dashboard.create_first'']"
  by (simp add: events_card_def Let_def)

end
