(* ===== verification/Routing.thy ===== *)
theory Routing
  imports AuthStore
begin

text \<open>
  The route tables of \<^verbatim>\<open>web/src/App.tsx\<close> and \<^verbatim>\<open>admin/src/App.tsx\<close>, the guard
  \<open>ProtectedRoute\<close>, and the navigation of the two layouts.

  Which pattern of a table a path selects is decided by the router library; it is the argument
  \<open>chooser\<close> (the patterns, then the path; \<^const>\<open>None\<close> where no pattern but \<open>*\<close>
  matches). A nested relative path is written with its leading slash.
\<close>

datatype element = Page string | Navigate string

record route =
  rt_path :: string
  rt_guarded :: bool
  rt_page :: string

definition mk_route :: "bool \<Rightarrow> string \<Rightarrow> string \<Rightarrow> route" where
  "mk_route g p e = \<lparr>rt_path = p, rt_guarded = g, rt_page = e\<rparr>"

definition ProtectedRoute :: "'a auth_scheme \<Rightarrow> element \<Rightarrow> element" where
  "ProtectedRoute s children = (if \<not> isLoggedIn s then Navigate ''/login'' else children)"

definition web_routes :: "route list" where
  "web_routes =
     [mk_route False ''/login'' ''Login'', mk_route False ''/register'' ''Register'',
      mk_route False ''/forgot-password'' ''ForgotPassword'', mk_route False ''/reset-password'' ''ResetPassword'',
      mk_route True ''/'' ''Dashboard'', mk_route True ''/tunnels'' ''Tunnels'',
      mk_route True ''/tunnels/:id'' ''TunnelDetail'', mk_route True ''/domains'' ''Domains'',
      mk_route True ''/networks'' ''Networks'', mk_route True ''/networks/:id'' ''NetworkDetail'',
      mk_route True ''/settings'' ''Settings'', mk_route True ''/billing'' ''Billing'',
      mk_route True ''/notifications'' ''Notifications'', mk_route True ''/docs/api'' ''ApiDocs'',
      mk_route True ''/downloads'' ''Downloads'', mk_route True ''/onboarding'' ''Onboarding'']"

definition admin_routes :: "route list" where
  "admin_routes =
     [mk_route False ''/login'' ''Login'', mk_route True ''/'' ''Dashboard'',
      mk_route True ''/organizations'' ''Organizations'', mk_route True ''/organizations/:id'' ''OrganizationDetail'',
      mk_route True ''/users'' ''Users'', mk_route True ''/users/:id'' ''UserDetail'',
      mk_route True ''/relays'' ''RelayNodes'', mk_route True ''/relays/:id'' ''RelayNodeDetail'',
      mk_route True ''/audit-logs'' ''AuditLogs'', mk_route True ''/announcements'' ''Announcements'',
      mk_route True ''/certificates'' ''Certificates'', mk_route True ''/revenue'' ''RevenueDashboard'',
      mk_route True ''/customers'' ''CustomerCRM'', mk_route True ''/customers/:id'' ''CustomerDetail'',
      mk_route True ''/invoices'' ''Invoices'', mk_route True ''/pricing'' ''PricingConfig'',
      mk_route True ''/discounts'' ''DiscountCodes'', mk_route True ''/roles'' ''Roles'',
      mk_route True ''/ip-whitelist'' ''IPWhitelist'', mk_route True ''/data-retention'' ''DataRetention'',
      mk_route True ''/sla'' ''SLADashboard'', mk_route True ''/audit-reports'' ''AuditReports'']"

text \<open>\<open>App\<close>: the element of the selected route, behind the guard where the table has it; any
  other path goes to \<open>/\<close>.\<close>

definition render_route ::
  "route list \<Rightarrow> (string list \<Rightarrow> string \<Rightarrow> string option) \<Rightarrow> 'a auth_scheme \<Rightarrow> string \<Rightarrow> element" where
  "render_route routes chooser s path =
     (case chooser (map rt_path routes) path of
        None \<Rightarrow> Navigate ''/''
      | Some pat \<Rightarrow>
          (case find (\<lambda>r. rt_path r = pat) routes of
             None \<Rightarrow> Navigate ''/''
           | Some r \<Rightarrow> if rt_guarded r then ProtectedRoute s (Page (rt_page r)) else Page (rt_page r)))"

definition web_App :: "(string list \<Rightarrow> string \<Rightarrow> string option) \<Rightarrow> 'a auth_scheme \<Rightarrow> string \<Rightarrow> element" where
  "web_App chooser s path = render_route web_routes chooser s path"

definition admin_App :: "(string list \<Rightarrow> string \<Rightarrow> string option) \<Rightarrow> 'a auth_scheme \<Rightarrow> string \<Rightarrow> element" where
  "admin_App chooser s path = render_route admin_routes chooser s path"

text \<open>
  What the router's documentation says of a match: slashes at the end are ignored, and the path has the segments of the
  pattern, case ignored, with some text in the place of \<open>:id\<close>. Escapes in a path are read before that; the paths the
  code builds have none.
\<close>

definition trim_slashes :: "string \<Rightarrow> string" where
  "trim_slashes p = rev (dropWhile (\<lambda>c. c = CHR ''/'') (rev p))"

definition path_segments :: "string \<Rightarrow> string list" where
  "path_segments p = split_on (CHR ''/'') (trim_slashes p)"

definition segment_matches :: "string \<Rightarrow> string \<Rightarrow> bool" where
  "segment_matches pat seg \<longleftrightarrow> (if pat = '':id'' then seg \<noteq> '''' else to_lower pat = to_lower seg)"

definition route_matches :: "string \<Rightarrow> string \<Rightarrow> bool" where
  "route_matches pat path \<longleftrightarrow> list_all2 segment_matches (path_segments pat) (path_segments path)"

text \<open>An id as the servers make them: letters, digits, dashes, underscores. A path with an id at its end has one segment more.\<close>

definition id_ok :: "string \<Rightarrow> bool" where
  "id_ok i \<longleftrightarrow> i \<noteq> '''' \<and> list_all (\<lambda>c. is_upper c \<or> is_lower c \<or> is_digit c \<or> c \<in> {CHR ''-'', CHR ''_''}) i"

lemma id_no_slash: "id_ok i \<Longrightarrow> CHR ''/'' \<notin> set i"
  by (auto simp: id_ok_def list_all_iff is_upper_def is_lower_def is_digit_def)

lemma trim_slashes_kept [simp]: "i \<noteq> '''' \<Longrightarrow> CHR ''/'' \<notin> set i \<Longrightarrow> trim_slashes (p @ i) = p @ i"
  by (cases "rev i") (auto simp: trim_slashes_def)

lemma segments_of_id:
  assumes "id_ok i" and "CHR ''/'' \<notin> set p"
  shows "path_segments (CHR ''/'' # p @ CHR ''/'' # i) = ['''', p, i]"
proof -
  have "trim_slashes ((CHR ''/'' # p @ [CHR ''/'']) @ i) = (CHR ''/'' # p @ [CHR ''/'']) @ i"
    using assms id_no_slash by (intro trim_slashes_kept) (auto simp: id_ok_def)
  then show ?thesis using assms id_no_slash split_on_append [of "CHR ''/''" p i] by (simp add: path_segments_def split_on_no_sep)
qed

lemma detail_matches:
  assumes "id_ok i" and "CHR ''/'' \<notin> set p"
  shows "route_matches (CHR ''/'' # p @ ''/:id'') (CHR ''/'' # p @ CHR ''/'' # i)"
proof -
  have "trim_slashes ((CHR ''/'' # p @ ''/'') @ '':id'') = (CHR ''/'' # p @ ''/'') @ '':id''" by (rule trim_slashes_kept) simp_all
  then have "path_segments (CHR ''/'' # p @ ''/:id'') = ['''', p, '':id'']"
    using assms(2) split_on_append [of "CHR ''/''" p "'':id''"] by (simp add: path_segments_def)
  then show ?thesis using assms by (simp add: route_matches_def segments_of_id segment_matches_def id_ok_def)
qed

lemma route_matches_refl: "'':id'' \<notin> set (path_segments p) \<Longrightarrow> route_matches p p"
  by (auto simp: route_matches_def segment_matches_def list_all2_same)

text \<open>The navigation entries of \<open>Layout\<close> and \<open>AdminLayout\<close>, by their target.\<close>

definition web_navItems :: "string list" where
  "web_navItems = [''/'', ''/tunnels'', ''/domains'', ''/networks'', ''/billing'', ''/settings'',
     ''/notifications'', ''/docs/api'', ''/downloads'']"

definition admin_navItems :: "string list" where
  "admin_navItems = [''/'', ''/organizations'', ''/users'', ''/relays'', ''/audit-logs'', ''/announcements'',
     ''/certificates'', ''/revenue'', ''/invoices'', ''/pricing'', ''/discounts'', ''/ip-whitelist'',
     ''/data-retention'', ''/sla'', ''/audit-reports'', ''/roles'']"

text \<open>Which entry is marked as the current page.\<close>

definition nav_isActive :: "string \<Rightarrow> string \<Rightarrow> bool" where
  "nav_isActive pathname item_to = (if item_to = ''/'' then pathname = ''/'' else starts_with pathname item_to)"

text \<open>Following the redirects an element asks for, at most \<open>n\<close> of them.\<close>

fun settle_route :: "nat \<Rightarrow> (string \<Rightarrow> element) \<Rightarrow> string \<Rightarrow> string option" where
  "settle_route n app path =
     (case app path of
        Page p \<Rightarrow> Some p
      | Navigate to \<Rightarrow> (case n of 0 \<Rightarrow> None | Suc m \<Rightarrow> settle_route m app to))"

declare settle_route.simps [simp del]

section \<open>The guard\<close>

lemma render_route_page:
  assumes "render_route routes chooser s path = Page p"
  shows "\<exists>r\<in>set routes. rt_page r = p \<and> (rt_guarded r \<longrightarrow> isLoggedIn s)"
  using assms
  by (auto simp: render_route_def ProtectedRoute_def find_Some_iff split: option.splits if_splits)

lemma public_web_routes:
  "r \<in> set web_routes \<Longrightarrow> \<not> rt_guarded r \<Longrightarrow> rt_page r \<in> {''Login'', ''Register'', ''ForgotPassword'', ''ResetPassword''}"
  by (auto simp: web_routes_def mk_route_def)

lemma public_admin_routes: "r \<in> set admin_routes \<Longrightarrow> \<not> rt_guarded r \<Longrightarrow> rt_page r = ''Login''"
  by (auto simp: admin_routes_def mk_route_def)

text \<open>C5: however the router matches paths, a visitor who is not signed in sees no page of the
  dashboard but the four of the sign-in flow, and no page of the admin console but its login.\<close>

theorem signed_out_sees_public_pages_only:
  assumes "\<not> isLoggedIn s"
  shows "(\<forall>p. web_App chooser s path = Page p \<longrightarrow> p \<in> {''Login'', ''Register'', ''ForgotPassword'', ''ResetPassword''}) \<and>
    (\<forall>p. admin_App chooser s path = Page p \<longrightarrow> p = ''Login'')"
  using assms render_route_page [of web_routes chooser s path] render_route_page [of admin_routes chooser s path]
    public_web_routes public_admin_routes
  unfolding web_App_def admin_App_def by blast

definition exact_chooser :: "string list \<Rightarrow> string \<Rightarrow> string option" where
  "exact_chooser pats path = (if path \<in> set pats then Some path else None)"

definition visitor :: auth where
  "visitor = new_store (\<lambda>_. False) signed_in_client"

lemma web_paths: "map rt_path web_routes =
   [''/login'', ''/register'', ''/forgot-password'', ''/reset-password'', ''/'', ''/tunnels'', ''/tunnels/:id'',
    ''/domains'', ''/networks'', ''/networks/:id'', ''/settings'', ''/billing'', ''/notifications'', ''/docs/api'',
    ''/downloads'', ''/onboarding'']"
  by (simp add: web_routes_def mk_route_def)

theorem signed_out_sees_public_pages_only_witness:
  "\<not> isLoggedIn visitor \<and> web_App exact_chooser visitor ''/login'' = Page ''Login'' \<and>
   web_App exact_chooser visitor ''/billing'' = Navigate ''/login'' \<and>
   admin_App exact_chooser visitor ''/users'' \<noteq> Page ''Users''"
proof -
  have v: "\<not> isLoggedIn visitor" by (simp add: visitor_def new_store_def)
  have "web_App exact_chooser visitor ''/login'' = Page ''Login''"
    "web_App exact_chooser visitor ''/billing'' = Navigate ''/login''"
    using v by (simp_all add: web_App_def render_route_def web_paths exact_chooser_def)
      (simp_all add: web_routes_def mk_route_def ProtectedRoute_def)
  with v signed_out_sees_public_pages_only [OF v, of exact_chooser "''/users''"] show ?thesis by auto
qed

text \<open>The redirects cannot chase each other: with a router that maps \<open>/\<close> and \<open>/login\<close> to
  the entries of those names, every path of the dashboard settles on a page after at most two
  redirects, whether or not the visitor is signed in.\<close>

theorem web_redirects_settle:
  assumes "chooser (map rt_path web_routes) ''/'' = Some ''/''"
    and "chooser (map rt_path web_routes) ''/login'' = Some ''/login''"
  shows "settle_route 2 (web_App chooser s) path \<noteq> None"
proof -
  have root: "web_App chooser s ''/'' = (if isLoggedIn s then Page ''Dashboard'' else Navigate ''/login'')"
    using assms(1) by (simp add: web_App_def render_route_def) (simp add: web_routes_def mk_route_def ProtectedRoute_def)
  have login: "web_App chooser s ''/login'' = Page ''Login''"
    using assms(2) by (simp add: web_App_def render_route_def) (simp add: web_routes_def mk_route_def)
  have "web_App chooser s path = Navigate to \<Longrightarrow> to \<in> {''/'', ''/login''}" for to
    by (auto simp: web_App_def render_route_def ProtectedRoute_def split: option.splits if_splits)
  then show ?thesis
    using root login
    by (auto simp: settle_route.simps [of _ _ path] settle_route.simps [of _ _ "''/''"] settle_route.simps [of _ _ "''/login''"]
        numeral_2_eq_2 split: element.splits)
qed

theorem web_redirects_settle_witness:
  "settle_route 2 (web_App exact_chooser visitor) ''/no/such/page'' \<noteq> None"
  by (rule web_redirects_settle) (simp_all add: exact_chooser_def web_paths)

text \<open>Every navigation entry is a route of its application.\<close>

lemma nav_items_routed:
  "set web_navItems \<subseteq> set (map rt_path web_routes)" "set admin_navItems \<subseteq> set (map rt_path admin_routes)"
  by (simp_all add: web_navItems_def web_routes_def admin_navItems_def admin_routes_def mk_route_def)

end
