(* ===== verification/DirectoryPages.thy ===== *)
theory DirectoryPages
  imports Hooks Routing Charts
begin

text \<open>
  The pages of the admin console over sample data: organisations, users and relay nodes with their details
  (\<open>pages/Organizations.tsx\<close>, \<open>pages/OrganizationDetail.tsx\<close>, \<open>pages/Users.tsx\<close>, \<open>pages/UserDetail.tsx\<close>,
  \<open>pages/RelayNodes.tsx\<close>, \<open>pages/RelayNodeDetail.tsx\<close>), and the first page (\<open>pages/Dashboard.tsx\<close>), which reads its figures from
  the server.

  Dates, times and counts are printed by the locale, an argument. A button without a handler is a node.
\<close>

record dir_cfg =
  dir_date :: "string \<Rightarrow> string"
  dir_time :: "string \<Rightarrow> string"
  dir_count :: "nat \<Rightarrow> string"

section \<open>Lists with a search\<close>

text \<open>A text matches when it has the text of the search in it, whatever the case.\<close>

definition text_matches :: "string \<Rightarrow> string \<Rightarrow> bool" where
  "text_matches search v \<longleftrightarrow> js_includes (to_lower v) (to_lower search)"

datatype search_ev = SetSearch string

fun search_user :: "search_ev \<Rightarrow> string \<Rightarrow> (string, unit) effect" where
  "search_user (SetSearch v) s = (v, [], [])"

text \<open>The three lists have the text of their search as their state and send nothing.\<close>

definition search_page :: "(string \<Rightarrow> search_ev ui) \<Rightarrow> (string, search_ev, unit) page" where
  "search_page view =
     \<lparr>pg_mount = ('''', [], []), pg_view = view, pg_user = search_user, pg_resume = (\<lambda>k r s. (s, [], [])), pg_env = (\<lambda>s s'. False)\<rparr>"

lemma search_page_sel [simp]:
  "pg_mount (search_page view) = ('''', [], [])" "pg_view (search_page view) = view" "pg_user (search_page view) = search_user"
  "pg_resume (search_page view) = (\<lambda>k r s. (s, [], []))" "\<not> pg_env (search_page view) s s'"
  by (simp_all add: search_page_def)

definition search_field :: "string \<Rightarrow> search_ev ui" where
  "search_field s = Input [] s [] False SetSearch"

definition list_head :: "caption \<Rightarrow> caption \<Rightarrow> search_ev ui" where
  "list_head title subtitle = Node ''div'' [Node ''h1'' [Say title], Node ''p'' [Say subtitle]]"

definition plan_variant :: "string \<Rightarrow> string" where
  "plan_variant plan = (case map_of [(''free'', ''secondary''), (''pro'', ''default''), (''enterprise'', ''success'')] plan of
     None \<Rightarrow> ''secondary'' | Some v \<Rightarrow> v)"

section \<open>Organisations\<close>

record org_row =
  or_id :: string
  or_name :: string
  or_email :: string
  or_plan :: string
  or_status :: string
  or_tunnel_count :: nat
  or_user_count :: nat
  or_created_at :: string

definition mockOrgs :: "org_row list" where
  "mockOrgs =
     [\<lparr>or_id = ''1'', or_name = ''Acme Corp'', or_email = ''admin@acme.com'', or_plan = ''pro'', or_status = ''active'', or_tunnel_count = 12, or_user_count = 25, or_created_at = ''2026-01-15''\<rparr>,
      \<lparr>or_id = ''2'', or_name = ''Globex Inc'', or_email = ''hello@globex.io'', or_plan = ''enterprise'', or_status = ''active'', or_tunnel_count = 48, or_user_count = 120, or_created_at = ''2025-11-01''\<rparr>,
      \<lparr>or_id = ''3'', or_name = ''Initech'', or_email = ''ops@initech.dev'', or_plan = ''free'', or_status = ''trial'', or_tunnel_count = 1, or_user_count = 3, or_created_at = ''2026-05-18''\<rparr>,
      \<lparr>or_id = ''4'', or_name = ''Umbrella'', or_email = ''support@umbrella.com'', or_plan = ''pro'', or_status = ''suspended'', or_tunnel_count = 0, or_user_count = 8, or_created_at = ''2025-08-22''\<rparr>,
      \<lparr>or_id = ''5'', or_name = ''Stark Industries'', or_email = ''tony@stark.net'', or_plan = ''enterprise'', or_status = ''active'', or_tunnel_count = 67, or_user_count = 340, or_created_at = ''2024-03-10''\<rparr>]"

definition org_variant :: "string \<Rightarrow> string" where
  "org_variant st = (case map_of [(''active'', ''success''), (''suspended'', ''destructive''), (''trial'', ''warning'')] st of
     None \<Rightarrow> ''secondary'' | Some v \<Rightarrow> v)"

definition orgs_filtered :: "string \<Rightarrow> org_row list" where
  "orgs_filtered search = filter (\<lambda>o'. text_matches search (or_name o') \<or> text_matches search (or_email o')) mockOrgs"

definition org_row_view :: "dir_cfg \<Rightarrow> org_row \<Rightarrow> search_ev ui" where
  "org_row_view cfg r = Node ''TableRow''
     [LinkTo (''/organizations/'' @ or_id r) [Say [Lit (or_name r)]], Say [Lit (or_email r)],
      Node (plan_variant (or_plan r)) [Say [Lit (or_plan r)]], Node (org_variant (or_status r)) [Say [Lit (or_status r)]],
      Say [Lit (nat_string (or_tunnel_count r))], Say [Lit (nat_string (or_user_count r))], Say [Lit (dir_date cfg (or_created_at r))]]"

definition Organizations_view :: "dir_cfg \<Rightarrow> string \<Rightarrow> search_ev ui" where
  "Organizations_view cfg s = Node ''div''
     [list_head (tr ''organizations.title'') (tr ''organizations.subtitle''), Node ''Button'' [Say (tr ''organizations.newOrg'')], search_field s,
      Node ''Table''
       [head_row [''organizations.name'', ''organizations.plan'', ''organizations.status'', ''organizations.tunnels'', ''organizations.users'', ''organizations.created''],
        Node ''TableBody'' (map (org_row_view cfg) (orgs_filtered s))]]"

definition Organizations :: "dir_cfg \<Rightarrow> (string, search_ev, unit) page" where
  "Organizations cfg = search_page (Organizations_view cfg)"

section \<open>Users\<close>

record user_row =
  ur_id :: string
  ur_name :: string
  ur_email :: string
  ur_org_name :: string
  ur_role :: string
  ur_status :: string
  ur_created_at :: string
  ur_last_login_at :: "string option"

definition mk_user_row :: "string \<Rightarrow> string \<Rightarrow> string \<Rightarrow> string \<Rightarrow> string \<Rightarrow> string \<Rightarrow> string \<Rightarrow> string option \<Rightarrow> user_row" where
  "mk_user_row i n e org ro st c l =
     \<lparr>ur_id = i, ur_name = n, ur_email = e, ur_org_name = org, ur_role = ro, ur_status = st, ur_created_at = c, ur_last_login_at = l\<rparr>"

definition mockUsers :: "user_row list" where
  "mockUsers =
     [mk_user_row ''1'' ''John Doe'' ''john@acme.com'' ''Acme Corp'' ''admin'' ''active'' ''2026-01-15'' (Some ''2026-05-21T10:00:00Z''),
      mk_user_row ''2'' ''Jane Smith'' ''jane@acme.com'' ''Acme Corp'' ''member'' ''active'' ''2026-02-01'' (Some ''2026-05-20T16:30:00Z''),
      mk_user_row ''3'' ''Bob Wilson'' ''bob@globex.io'' ''Globex Inc'' ''admin'' ''active'' ''2025-11-15'' (Some ''2026-05-21T08:00:00Z''),
      mk_user_row ''4'' ''Alice Lee'' ''alice@initech.dev'' ''Initech'' ''member'' ''disabled'' ''2026-05-18'' None,
      mk_user_row ''5'' ''Tony Stark'' ''tony@stark.net'' ''Stark Industries'' ''admin'' ''active'' ''2024-03-15'' (Some ''2026-05-21T09:30:00Z'')]"

definition users_filtered :: "string \<Rightarrow> user_row list" where
  "users_filtered search =
     filter (\<lambda>u. text_matches search (ur_name u) \<or> text_matches search (ur_email u) \<or> text_matches search (ur_org_name u)) mockUsers"

definition user_row_view :: "dir_cfg \<Rightarrow> user_row \<Rightarrow> search_ev ui" where
  "user_row_view cfg u = Node ''TableRow''
     [LinkTo (''/users/'' @ ur_id u) [Say [Lit (ur_name u)]], Say [Lit (ur_email u)], Say [Lit (ur_org_name u)],
      Node (if ur_role u = ''admin'' then ''default'' else ''secondary'') [Say [Lit (ur_role u)]],
      Node (if ur_status u = ''active'' then ''success'' else ''destructive'') [Say [Lit (ur_status u)]],
      Say (if present (ur_last_login_at u) then [Lit (dir_time cfg (the (ur_last_login_at u)))] else tr ''users.never''),
      Say [Lit (dir_date cfg (ur_created_at u))]]"

definition Users_view :: "dir_cfg \<Rightarrow> string \<Rightarrow> search_ev ui" where
  "Users_view cfg s = Node ''div''
     [list_head (tr ''users.title'') (tr ''users.subtitle''), search_field s,
      Node ''Table''
       [head_row [''users.user'', ''users.organization'', ''users.role'', ''users.status'', ''users.lastLogin'', ''users.joined''],
        Node ''TableBody'' (map (user_row_view cfg) (users_filtered s))]]"

definition Users :: "dir_cfg \<Rightarrow> (string, search_ev, unit) page" where
  "Users cfg = search_page (Users_view cfg)"

section \<open>Relay nodes\<close>

record relay_row =
  rr_id :: string
  rr_name :: string
  rr_hostname :: string
  rr_region :: string
  rr_status :: string
  rr_version :: string
  rr_cpu :: nat
  rr_memory :: nat
  rr_connections :: nat
  rr_last_seen :: string

definition mk_relay :: "string \<Rightarrow> string \<Rightarrow> string \<Rightarrow> string \<Rightarrow> string \<Rightarrow> string \<Rightarrow> nat \<times> nat \<times> nat \<Rightarrow> string \<Rightarrow> relay_row" where
  "mk_relay i n h rg st v load seen = (case load of (cpu, memory, conns) \<Rightarrow>
     \<lparr>rr_id = i, rr_name = n, rr_hostname = h, rr_region = rg, rr_status = st, rr_version = v, rr_cpu = cpu, rr_memory = memory,
      rr_connections = conns, rr_last_seen = seen\<rparr>)"

definition mockRelays :: "relay_row list" where
  "mockRelays =
     [mk_relay ''1'' ''relay-us-east-1'' ''us-east-1.omnitun.io'' ''US East'' ''online'' ''1.2.0'' (23, 45, 1450) ''2026-05-21T11:30:00Z'',
      mk_relay ''2'' ''relay-us-west-1'' ''us-west-1.omnitun.io'' ''US West'' ''online'' ''1.2.0'' (18, 38, 980) ''2026-05-21T11:29:00Z'',
      mk_relay ''3'' ''relay-eu-central-1'' ''eu-central-1.omnitun.io'' ''EU Central'' ''online'' ''1.1.9'' (35, 62, 2100) ''2026-05-21T11:28:00Z'',
      mk_relay ''4'' ''relay-ap-southeast-1'' ''ap-se-1.omnitun.io'' ''Asia Pacific'' ''offline'' ''1.1.8'' (0, 0, 0) ''2026-05-20T22:15:00Z'',
      mk_relay ''5'' ''relay-sa-east-1'' ''sa-east-1.omnitun.io'' ''South America'' ''maintenance'' ''1.2.0'' (5, 12, 45) ''2026-05-21T10:00:00Z'']"

definition relay_variant :: "string \<Rightarrow> string" where
  "relay_variant st = (case map_of [(''online'', ''success''), (''offline'', ''destructive''), (''maintenance'', ''warning'')] st of
     None \<Rightarrow> ''secondary'' | Some v \<Rightarrow> v)"

definition relays_filtered :: "string \<Rightarrow> relay_row list" where
  "relays_filtered search =
     filter (\<lambda>r. text_matches search (rr_name r) \<or> text_matches search (rr_hostname r) \<or> text_matches search (rr_region r)) mockRelays"

definition onlineCount :: nat where
  "onlineCount = length (filter (\<lambda>r. rr_status r = ''online'') mockRelays)"

definition load_bar :: "nat \<Rightarrow> 'e ui" where
  "load_bar n = Node (nat_string n @ ''%'') [Say [Lit (nat_string n @ ''%'')]]"

definition relay_row_view :: "dir_cfg \<Rightarrow> relay_row \<Rightarrow> search_ev ui" where
  "relay_row_view cfg r = Node ''TableRow''
     [LinkTo (''/relays/'' @ rr_id r) [Say [Lit (rr_name r)]], Say [Lit (rr_hostname r)], Say [Lit (rr_region r)],
      Node (relay_variant (rr_status r)) [Say [Lit (rr_status r)]], Node ''code'' [Say [Lit (rr_version r)]],
      load_bar (rr_cpu r), load_bar (rr_memory r), Say [Lit (dir_count cfg (rr_connections r))], Say [Lit (dir_time cfg (rr_last_seen r))]]"

definition RelayNodes_view :: "dir_cfg \<Rightarrow> string \<Rightarrow> search_ev ui" where
  "RelayNodes_view cfg s = Node ''div''
     [list_head (tr ''relayNodes.title'')
        [Tr ''relayNodes.nodesOnline'' [(''online'', JNum (int onlineCount)), (''total'', JNum (int (length mockRelays)))]], search_field s,
      Node ''Table''
       [head_row [''relayNodes.name'', ''relayNodes.region'', ''relayNodes.status'', ''relayNodes.version'', ''relayNodes.cpu'', ''relayNodes.memory'',
          ''relayNodes.connections'', ''relayNodes.lastSeen''],
        Node ''TableBody'' (map (relay_row_view cfg) (relays_filtered s))]]"

definition RelayNodes :: "dir_cfg \<Rightarrow> (string, search_ev, unit) page" where
  "RelayNodes cfg = search_page (RelayNodes_view cfg)"


section \<open>Details\<close>

text \<open>The details of the three are constants: only the id of an organisation and of a user is taken from the address.\<close>

text \<open>\<open>formatBytes\<close> for a count that is no whole number, from one byte.\<close>

definition rat_formatBytes :: "rat \<Rightarrow> string" where
  "rat_formatBytes b =
     (if b = 0 then ''0 B''
      else let i = log1024 (nat \<lfloor>b\<rfloor>) in
        toFixed 1 (b / 1024 ^ i) @ '' '' @ (case nth_opt byte_units (int i) of None \<Rightarrow> ''undefined'' | Some u \<Rightarrow> u))"

datatype fixed_ev = GoBack

fun fixed_user :: "fixed_ev \<Rightarrow> 's \<Rightarrow> ('s, unit) effect" where
  "fixed_user GoBack s = (s, [HistoryBack], [])"

definition back_button :: "string \<Rightarrow> fixed_ev ui" where
  "back_button key = Button False GoBack [Say (tr key)]"

definition figure_card :: "string \<Rightarrow> 'e ui list \<Rightarrow> 'e ui" where
  "figure_card key us = Node ''Card'' (Say (tr key) # us)"

text \<open>2.4 and 10 gibibytes, the first from the double nearest to 2.4.\<close>

definition org_bandwidth :: "rat \<times> rat" where
  "org_bandwidth = (5404319552844595 / 2251799813685248 * 1024 ^ 3, 10 * 1024 ^ 3)"

definition org_users :: "(string \<times> string \<times> string \<times> string) list" where
  "org_users = [(''John Doe'', ''john@acme.com'', ''admin'', ''active''), (''Jane Smith'', ''jane@acme.com'', ''member'', ''active'')]"

definition org_tunnels :: "(string \<times> string \<times> string \<times> nat) list" where
  "org_tunnels = [(''web-prod'', ''https'', ''active'', 324 * 1024 * 1024), (''api-staging'', ''tcp'', ''stopped'', 0)]"

definition org_user_view :: "string \<times> string \<times> string \<times> string \<Rightarrow> 'e ui" where
  "org_user_view u = (case u of (name, email, role, st) \<Rightarrow> Node ''TableRow''
     [Say [Lit name], Say [Lit email], Node ''secondary'' [Say [Lit role]], Node ''success'' [Say [Lit st]]])"

definition org_tunnel_view :: "string \<times> string \<times> string \<times> nat \<Rightarrow> 'e ui" where
  "org_tunnel_view t = (case t of (name, protocol, st, traffic) \<Rightarrow> Node ''TableRow''
     [Say [Lit name], Node ''code'' [Say [Lit protocol]], Node (if st = ''active'' then ''success'' else ''secondary'') [Say [Lit st]],
      Say [Lit (formatBytes traffic)]])"

definition OrganizationDetail_view :: "string option \<Rightarrow> unit \<Rightarrow> fixed_ev ui" where
  "OrganizationDetail_view i s = Node ''div''
     [back_button ''organizationDetail.back'', Node ''h1'' [Say [Lit ''Acme Corp'']],
      Say [Tr ''organizationDetail.organization'' [(''id'', JStr (case i of None \<Rightarrow> ''1'' | Some x \<Rightarrow> x))]],
      figure_card ''organizationDetail.status'' [Node ''success'' [Say [Lit ''active'']]],
      figure_card ''organizationDetail.users'' [Say [Lit (nat_string 25)]],
      figure_card ''organizationDetail.tunnels'' [Say [Lit (nat_string 12)]],
      figure_card ''organizationDetail.bandwidth'' [Say [Lit (rat_formatBytes (fst org_bandwidth) @ '' / '' @ rat_formatBytes (snd org_bandwidth))]],
      figure_card ''organizationDetail.users''
        [head_row [''organizationDetail.status'', ''organizationDetail.role'', ''organizationDetail.status''], Node ''TableBody'' (map org_user_view org_users)],
      figure_card ''organizationDetail.tunnels''
        [head_row [''common.name'', ''organizationDetail.protocol'', ''organizationDetail.status'', ''organizationDetail.traffic''],
         Node ''TableBody'' (map org_tunnel_view org_tunnels)]]"

text \<open>The three buttons of the actions have no handler.\<close>

definition UserDetail_view :: "dir_cfg \<Rightarrow> string option \<Rightarrow> unit \<Rightarrow> fixed_ev ui" where
  "UserDetail_view cfg i s = Node ''div''
     [back_button ''userDetail.back'', Node ''h1'' [Say [Lit ''John Doe'']],
      Say [Tr ''userDetail.user'' [(''id'', JStr (case i of None \<Rightarrow> ''1'' | Some x \<Rightarrow> x))]],
      figure_card ''userDetail.profileInfo''
        [Say (tr ''userDetail.email''), Say [Lit ''john@acme.com''], Say (tr ''userDetail.organization''), Say [Lit ''Acme Corp''],
         Say (tr ''userDetail.role''), Node ''Badge'' [Say [Lit ''admin'']], Say (tr ''userDetail.joined''), Say [Lit (dir_date cfg ''2026-01-15T08:00:00Z'')]],
      figure_card ''userDetail.accountStatus''
        [Say (tr ''userDetail.status''), Node ''success'' [Say [Lit ''active'']], Say (tr ''userDetail.mfaEnabled''), Node ''success'' [Say (tr ''common.yes'')],
         Say (tr ''userDetail.lastLogin''), Say [Lit (dir_time cfg ''2026-05-21T10:30:00Z'')]],
      figure_card ''userDetail.actions''
        (map (\<lambda>key. Node ''Button'' [Say (tr key)]) [''userDetail.resetPassword'', ''userDetail.disableAccount'', ''userDetail.deleteUser''])]"

definition formatUptime :: "nat \<Rightarrow> string" where
  "formatUptime seconds = nat_string (seconds div 86400) @ ''d '' @ nat_string (seconds mod 86400 div 3600) @ ''h''"

text \<open>2.4 and 1.8 gibibytes, from the doubles nearest to them.\<close>

definition relay_bandwidth :: "rat \<times> rat" where
  "relay_bandwidth = (5404319552844595 / 2251799813685248 * 1024 ^ 3, 8106479329266893 / 4503599627370496 * 1024 ^ 3)"

text \<open>The state is what the chart draws from, the clock and the random numbers of the last render.\<close>

type_synonym relay_detail = "int \<times> (nat \<Rightarrow> rat)"

definition RelayNodeDetail_view :: "dir_cfg \<Rightarrow> (int \<Rightarrow> string) \<Rightarrow> relay_detail \<Rightarrow> fixed_ev ui" where
  "RelayNodeDetail_view cfg clock s = Node ''div''
     [back_button ''relayNodeDetail.back'', Node ''h1'' [Say [Lit ''relay-us-east-1'']], Node ''p'' [Say [Lit ''us-east-1.omnitun.io'']],
      figure_card ''relayNodeDetail.status'' [Node ''success'' [Say [Lit ''online'']]],
      figure_card ''relayNodeDetail.cpuUsage'' [Say [Lit ''23%'']], figure_card ''relayNodeDetail.memoryUsage'' [Say [Lit ''45%'']],
      figure_card ''relayNodeDetail.uptime'' [Say [Lit (formatUptime 2592000)]],
      figure_card ''relayNodeDetail.nodeInfo''
        [Say (tr ''relayNodeDetail.region''), Say [Lit ''US East''], Say (tr ''relayNodeDetail.version''), Node ''code'' [Say [Lit ''1.2.0'']],
         Say (tr ''relayNodeDetail.publicIp''), Node ''code'' [Say [Lit ''203.0.113.10'']], Say (tr ''relayNodeDetail.diskUsage''), Say [Lit ''32%'']],
      figure_card ''relayNodeDetail.trafficStats''
        [Say (tr ''relayNodeDetail.activeConnections''), Say [Lit (dir_count cfg 1450)], Say (tr ''relayNodeDetail.totalTunnels''), Say [Lit (nat_string 89)],
         Say (tr ''relayNodeDetail.bandwidthIn''), Say [Lit (rat_formatBytes (fst relay_bandwidth))],
         Say (tr ''relayNodeDetail.bandwidthOut''), Say [Lit (rat_formatBytes (snd relay_bandwidth))]],
      figure_card ''relayNodeDetail.trafficHistory'' [RelayTrafficChart clock (fst s) (snd s)]]"

definition fixed_page :: "'s \<Rightarrow> ('s \<Rightarrow> fixed_ev ui) \<Rightarrow> ('s \<Rightarrow> 's \<Rightarrow> bool) \<Rightarrow> ('s, fixed_ev, unit) page" where
  "fixed_page s0 view env =
     \<lparr>pg_mount = (s0, [], []), pg_view = view, pg_user = fixed_user, pg_resume = (\<lambda>k r s. (s, [], [])), pg_env = env\<rparr>"

lemma fixed_page_sel [simp]:
  "pg_mount (fixed_page s0 view env) = (s0, [], [])" "pg_view (fixed_page s0 view env) = view" "pg_user (fixed_page s0 view env) = fixed_user"
  "pg_resume (fixed_page s0 view env) = (\<lambda>k r s. (s, [], []))" "pg_env (fixed_page s0 view env) = env"
  by (simp_all add: fixed_page_def)

definition OrganizationDetail :: "string option \<Rightarrow> (unit, fixed_ev, unit) page" where
  "OrganizationDetail i = fixed_page () (OrganizationDetail_view i) (\<lambda>s s'. False)"

definition UserDetail :: "dir_cfg \<Rightarrow> string option \<Rightarrow> (unit, fixed_ev, unit) page" where
  "UserDetail cfg i = fixed_page () (UserDetail_view cfg i) (\<lambda>s s'. False)"

text \<open>A render draws numbers in [0, 1).\<close>

definition relay_rendered :: "relay_detail \<Rightarrow> relay_detail \<Rightarrow> bool" where
  "relay_rendered s s' \<longleftrightarrow> (\<forall>i. 0 \<le> snd s' i \<and> snd s' i < 1)"

definition RelayNodeDetail :: "dir_cfg \<Rightarrow> (int \<Rightarrow> string) \<Rightarrow> int \<Rightarrow> (relay_detail, fixed_ev, unit) page" where
  "RelayNodeDetail cfg clock now = fixed_page (now, \<lambda>_. 0) (RelayNodeDetail_view cfg clock) relay_rendered"

section \<open>The first page\<close>

record dashboard_stats =
  ds_total_orgs :: nat
  ds_active_tunnels :: nat
  ds_today_traffic_bytes :: nat
  ds_active_relays :: nat

record recent_signup =
  rs_org_name :: string
  rs_email :: string
  rs_plan :: string
  rs_created_at :: string

definition mockRecentSignups :: "recent_signup list" where
  "mockRecentSignups =
     [\<lparr>rs_org_name = ''Acme Corp'', rs_email = ''admin@acme.com'', rs_plan = ''pro'', rs_created_at = ''2026-05-21T10:30:00Z''\<rparr>,
      \<lparr>rs_org_name = ''Globex Inc'', rs_email = ''hello@globex.io'', rs_plan = ''enterprise'', rs_created_at = ''2026-05-21T09:15:00Z''\<rparr>,
      \<lparr>rs_org_name = ''Initech'', rs_email = ''ops@initech.dev'', rs_plan = ''free'', rs_created_at = ''2026-05-20T16:45:00Z''\<rparr>,
      \<lparr>rs_org_name = ''Umbrella'', rs_email = ''support@umbrella.com'', rs_plan = ''pro'', rs_created_at = ''2026-05-20T14:20:00Z''\<rparr>,
      \<lparr>rs_org_name = ''Stark Industries'', rs_email = ''tony@stark.net'', rs_plan = ''enterprise'', rs_created_at = ''2026-05-20T08:00:00Z''\<rparr>]"

datatype admin_dash_ev = RetryAdminStats

fun admin_dash_user :: "admin_dash_ev \<Rightarrow> dashboard_stats query \<Rightarrow> (dashboard_stats query, unit) effect" where
  "admin_dash_user RetryAdminStats s = (s, [Refetch [''admin'', ''dashboard'', ''stats'']], [])"

definition count_or_zero :: "(dashboard_stats \<Rightarrow> nat) \<Rightarrow> dashboard_stats query \<Rightarrow> string" where
  "count_or_zero f q = nat_string (case q_data q of None \<Rightarrow> 0 | Some st \<Rightarrow> f st)"

definition admin_figures :: "dashboard_stats query \<Rightarrow> admin_dash_ev ui" where
  "admin_figures q =
     (if q_isError q then failed_load ''dashboard.failedToLoad'' [Button False RetryAdminStats [Say (tr ''common.retry'')]]
      else if q_isLoading q then Node ''section'' (replicate 4 (Node ''Skeleton'' []))
      else Node ''section''
        [figure_card ''dashboard.totalOrgs'' [Say [Lit (count_or_zero ds_total_orgs q)], Node ''Badge'' [Say (tr ''dashboard.active'')]],
         figure_card ''dashboard.activeTunnels'' [Say [Lit (count_or_zero ds_active_tunnels q)]],
         figure_card ''dashboard.todayTraffic'' [Say [Lit (case q_data q of None \<Rightarrow> ''0 B'' | Some st \<Rightarrow> formatBytes (ds_today_traffic_bytes st))]],
         figure_card ''dashboard.activeRelays'' [Say [Lit (count_or_zero ds_active_relays q)]]])"

definition signup_row :: "dir_cfg \<Rightarrow> recent_signup \<Rightarrow> 'e ui" where
  "signup_row cfg r = Node ''TableRow''
     [Say [Lit (rs_org_name r)], Say [Lit (rs_email r)], Node (plan_variant (rs_plan r)) [Say [Lit (rs_plan r)]], Say [Lit (dir_date cfg (rs_created_at r))]]"

definition health_row :: "string \<times> string \<times> string \<Rightarrow> 'e ui" where
  "health_row h = (case h of (color, key, uptime) \<Rightarrow> Node color [Say (tr key), Say (tr uptime)])"

text \<open>The health of the system is a constant.\<close>

definition system_health :: "(string \<times> string \<times> string) list" where
  "system_health =
     [(''emerald'', ''dashboard.apiServer'', ''dashboard.uptime''), (''emerald'', ''dashboard.database'', ''dashboard.uptime''),
      (''amber'', ''dashboard.relayMesh'', ''dashboard.uptimeRelayMesh''), (''emerald'', ''dashboard.webSocketGateway'', ''dashboard.uptime'')]"

definition AdminDashboard_view :: "dir_cfg \<Rightarrow> dashboard_stats query \<Rightarrow> admin_dash_ev ui" where
  "AdminDashboard_view cfg q = Node ''div''
     [Node ''h1'' [Say (tr ''dashboard.title'')], Node ''p'' [Say (tr ''dashboard.subtitle'')], admin_figures q,
      figure_card ''dashboard.recentSignups''
        [head_row [''dashboard.organization'', ''common.plan'', ''dashboard.date''], Node ''TableBody'' (map (signup_row cfg) mockRecentSignups)],
      figure_card ''dashboard.systemHealth'' (map health_row system_health)]"

definition AdminDashboard :: "dir_cfg \<Rightarrow> (dashboard_stats query, admin_dash_ev, unit) page" where
  "AdminDashboard cfg =
     \<lparr>pg_mount = (q_pending, [CallApi ''GET'' ''/api/admin/v1/dashboard/metrics'' JUndef], []), pg_view = AdminDashboard_view cfg,
      pg_user = admin_dash_user, pg_resume = (\<lambda>k r s. (s, [], [])), pg_env = (\<lambda>s s'. True)\<rparr>"

lemma AdminDashboard_sel [simp]:
  "pg_mount (AdminDashboard cfg) = (q_pending, [CallApi ''GET'' ''/api/admin/v1/dashboard/metrics'' JUndef], [])"
  "pg_view (AdminDashboard cfg) = AdminDashboard_view cfg" "pg_user (AdminDashboard cfg) = admin_dash_user"
  "pg_resume (AdminDashboard cfg) = (\<lambda>k r s. (s, [], []))" "pg_env (AdminDashboard cfg) s s'"
  by (simp_all add: AdminDashboard_def)


section \<open>Contracts\<close>

text \<open>The lists send nothing, the details only go back, and the first page only reads.\<close>

interpretation searches: page_reading "search_page view" "\<lambda>_. True" "\<lambda>_. False" for view
proof
  show "True \<and> list_all (\<lambda>_. False) (fst (snd (pg_user (search_page view) e s))) \<and> snd (snd (pg_user (search_page view) e s)) = []" for e s
    by (cases e) simp
qed simp_all

interpretation details: page_reading "fixed_page s0 view env" "\<lambda>_. True" "\<lambda>c. c = HistoryBack" for s0 view env
proof
  show "True \<and> list_all (\<lambda>c. c = HistoryBack) (fst (snd (pg_user (fixed_page s0 view env) e s))) \<and> snd (snd (pg_user (fixed_page s0 view env) e s)) = []"
    for e s by (cases e) simp
qed simp_all

definition admin_dash_cmd_ok :: "cmd \<Rightarrow> bool" where
  "admin_dash_cmd_ok c \<longleftrightarrow> c = CallApi ''GET'' ''/api/admin/v1/dashboard/metrics'' JUndef \<or> c = Refetch [''admin'', ''dashboard'', ''stats'']"

interpretation admin_dash: page_reading "AdminDashboard cfg" "\<lambda>_. True" admin_dash_cmd_ok for cfg
proof
  show "True \<and> list_all admin_dash_cmd_ok (fst (snd (pg_user (AdminDashboard cfg) e s))) \<and> snd (snd (pg_user (AdminDashboard cfg) e s)) = []" for e s
    by (cases e) (simp add: admin_dash_cmd_ok_def)
qed (simp_all add: admin_dash_cmd_ok_def)

text \<open>The numbers a relay's chart draws from stay in [0, 1).\<close>

definition drawn :: "relay_detail \<Rightarrow> bool" where
  "drawn s \<longleftrightarrow> (\<forall>i. 0 \<le> snd s i \<and> snd s i < 1)"

interpretation relay_detail: page_reading "RelayNodeDetail cfg clock now" drawn "\<lambda>c. c = HistoryBack" for cfg clock now
proof
  show "drawn (fst (pg_user (RelayNodeDetail cfg clock now) e s)) \<and> list_all (\<lambda>c. c = HistoryBack) (fst (snd (pg_user (RelayNodeDetail cfg clock now) e s))) \<and>
      snd (snd (pg_user (RelayNodeDetail cfg clock now) e s)) = []" if "drawn s" for e s
    using that by (cases e) (simp add: RelayNodeDetail_def)
qed (simp_all add: RelayNodeDetail_def drawn_def relay_rendered_def)

section \<open>Properties\<close>

lemma text_matches_empty [simp]: "text_matches '''' v"
  by (cases "to_lower v") (simp_all add: text_matches_def to_lower_def)

text \<open>A longer search shows no more, and its case does not matter.\<close>

lemma text_matches_longer: "text_matches (s @ t) v \<Longrightarrow> text_matches s v"
  by (simp add: text_matches_def includes_sublist to_lower_def) (force simp: sublist_def)

lemma text_matches_case: "text_matches (to_lower s) v = text_matches s v"
  by (simp add: text_matches_def to_lower_idem)

lemma search_narrows:
  "set (orgs_filtered (s @ t)) \<subseteq> set (orgs_filtered s)" "set (users_filtered (s @ t)) \<subseteq> set (users_filtered s)"
  "set (relays_filtered (s @ t)) \<subseteq> set (relays_filtered s)"
  using text_matches_longer by (auto simp: orgs_filtered_def users_filtered_def relays_filtered_def)

lemma search_nothing: "orgs_filtered '''' = mockOrgs" "users_filtered '''' = mockUsers" "relays_filtered '''' = mockRelays"
  by (simp_all add: orgs_filtered_def users_filtered_def relays_filtered_def)

lemma directory_row_links [simp]:
  "links (org_row_view cfg r) = [''/organizations/'' @ or_id r]" "links (user_row_view cfg u) = [''/users/'' @ ur_id u]"
  "links (relay_row_view cfg v) = [''/relays/'' @ rr_id v]"
  by (simp_all add: org_row_view_def user_row_view_def relay_row_view_def load_bar_def)

lemma concat_singles: "concat (map (\<lambda>x. [f x]) xs) = map f xs"
  by (induction xs) simp_all

lemma links_head [simp]: "links (head_row keys) = []" "links (list_head t u) = []" "links (search_field s) = []"
  by (simp_all add: head_row_def list_head_def search_field_def Input_def)

lemma list_links:
  "links (Organizations_view cfg s) = map (\<lambda>r. ''/organizations/'' @ or_id r) (orgs_filtered s)"
  "links (Users_view cfg s) = map (\<lambda>r. ''/users/'' @ ur_id r) (users_filtered s)"
  "links (RelayNodes_view cfg s) = map (\<lambda>r. ''/relays/'' @ rr_id r) (relays_filtered s)"
  by (simp_all add: Organizations_view_def Users_view_def RelayNodes_view_def concat_singles comp_def)

text \<open>Each of the three lists leads to details and nowhere else: for every search, it has one link for each row that matches, in the order
  of the rows, and all rows when nothing is searched; and every link is the address of a page of the console behind
  its guard, the details of the list's own kind.
\<close>

theorem directory_leads_to_details:
  "list_all (\<lambda>(view, rows, page).
     (\<forall>search. subseq (links (view search)) (links (view '''')) \<and>
        (\<forall>l \<in> set (links (view search)). \<exists>r \<in> set admin_routes. rt_guarded r \<and> rt_page r = page \<and> route_matches (rt_path r) l)) \<and>
     length (links (view '''')) = rows)
   [(Organizations_view cfg, length mockOrgs, ''OrganizationDetail''), (Users_view cfg, length mockUsers, ''UserDetail''),
    (RelayNodes_view cfg, length mockRelays, ''RelayNodeDetail'')]"
proof -
  have sub: "subseq (map f (filter P xs)) (map f xs)" for f :: "'a \<Rightarrow> string" and P and xs
    by (intro subseq_map subseq_filter_left)
  have r: "mk_route True ''/organizations/:id'' ''OrganizationDetail'' \<in> set admin_routes" "mk_route True ''/users/:id'' ''UserDetail'' \<in> set admin_routes"
    "mk_route True ''/relays/:id'' ''RelayNodeDetail'' \<in> set admin_routes"
    by (simp_all add: admin_routes_def)
  have route: "id_ok i \<Longrightarrow> \<exists>r \<in> set admin_routes. rt_guarded r \<and> rt_page r = ''OrganizationDetail'' \<and> route_matches (rt_path r) (''/organizations/'' @ i)"
    "id_ok i \<Longrightarrow> \<exists>r \<in> set admin_routes. rt_guarded r \<and> rt_page r = ''UserDetail'' \<and> route_matches (rt_path r) (''/users/'' @ i)"
    "id_ok i \<Longrightarrow> \<exists>r \<in> set admin_routes. rt_guarded r \<and> rt_page r = ''RelayNodeDetail'' \<and> route_matches (rt_path r) (''/relays/'' @ i)" for i
    using bexI [OF _ r(1)] bexI [OF _ r(2)] bexI [OF _ r(3)] detail_matches [of i "''organizations''"] detail_matches [of i "''users''"]
      detail_matches [of i "''relays''"] by (simp_all add: mk_route_def)
  have ids: "r \<in> set mockOrgs \<Longrightarrow> id_ok (or_id r)" "u \<in> set mockUsers \<Longrightarrow> id_ok (ur_id u)" "v \<in> set mockRelays \<Longrightarrow> id_ok (rr_id v)" for r u v
    by (auto simp: mockOrgs_def mockUsers_def mockRelays_def mk_user_row_def mk_relay_def id_ok_def is_digit_def)
  show ?thesis
    using route ids search_nothing
    by (auto simp: list_links orgs_filtered_def users_filtered_def relays_filtered_def intro: sub)
qed

text \<open>Whichever organisation, user or relay node is opened, the details are those of the first.\<close>

theorem details_are_constant:
  "[Lit ''Acme Corp''] \<in> set (texts (OrganizationDetail_view i s))" "[Lit ''John Doe''] \<in> set (texts (UserDetail_view cfg i s))"
  "[Lit ''relay-us-east-1''] \<in> set (texts (RelayNodeDetail_view cfg clock t))"
  "\<not> js_includes ''Globex Inc'' ''Acme''"
  by (simp_all add: OrganizationDetail_view_def UserDetail_view_def RelayNodeDetail_view_def back_button_def)

text \<open>\<open>formatUptime\<close> loses less than an hour.\<close>

lemma formatUptime_hours:
  "\<exists>d h. formatUptime s = nat_string d @ ''d '' @ nat_string h @ ''h'' \<and> h < 24 \<and> (d * 24 + h) * 3600 \<le> s \<and> s < (d * 24 + h + 1) * 3600"
proof -
  have day: "86400 * (s div 86400) + s mod 86400 = s" by (rule mult_div_mod_eq)
  have hour: "3600 * (s mod 86400 div 3600) + s mod 86400 mod 3600 = s mod 86400" by (rule mult_div_mod_eq)
  have small: "s mod 86400 mod 3600 < 3600" "s mod 86400 div 3600 < 24" by (simp_all add: less_mult_imp_div_less)
  have "86400 * d + r = t \<Longrightarrow> 3600 * h + m = r \<Longrightarrow> m < 3600 \<Longrightarrow> (d * 24 + h) * 3600 \<le> t \<and> t < (d * 24 + h + 1) * 3600" for d r t h m :: nat
    by simp
  from this [OF day hour small(1)] show ?thesis unfolding formatUptime_def using small(2) by blast
qed

text \<open>For whole counts the two byte formats are the same.\<close>

lemma rat_formatBytes_nat: "rat_formatBytes (of_nat b) = formatBytes b"
  using toFixed1_toFixed [of "1024 ^ log1024 b" b] by (simp add: rat_formatBytes_def formatBytes_def Let_def)

text \<open>The mesh is said to be up while one of its five nodes is down, and the counts in its headline are those of the sample.\<close>

lemma relays_online: "onlineCount = 3" "length mockRelays = 5"
  by code_simp+

end
