(* ===== verification/DiscountsPage.thy ===== *)
theory DiscountsPage
  imports Hooks
begin

text \<open>
  The discount codes of the admin console (\<open>pages/DiscountCodes.tsx\<close>). One form creates and edits; the switch of a code is
  an update as well, can be started while others are in flight, and shares its \<open>onSuccess\<close>. As for the checkouts of the
  billing page the updates are numbered and the page follows the last one.
\<close>

section \<open>State\<close>

record discount =
  dc_id :: string
  dc_code :: string
  dc_type :: string
  dc_value :: int
  dc_uses :: "int option"
  dc_max_uses :: int
  dc_active :: bool
  dc_expires_at :: string
  dc_applicable_plans :: string

record discount_form =
  df_code :: string
  df_type :: string
  df_value :: int
  df_max_uses :: int
  df_expires_at :: string
  df_applicable_plans :: string

definition blank_discount :: discount_form where
  "blank_discount = \<lparr>df_code = '''', df_type = ''percentage'', df_value = 0, df_max_uses = 0, df_expires_at = '''', df_applicable_plans = ''''\<rparr>"

text \<open>The answer is an object that has the discounts, or not.\<close>

record discounts_page =
  discountsQuery :: "discount list option query"
  dc_createMutation :: mutation
  dc_updateMutation :: mutation
  dc_updates :: nat
  showForm :: bool
  editingId :: "string option"
  dform :: discount_form

definition discounts_init :: discounts_page where
  "discounts_init = \<lparr>discountsQuery = q_pending, dc_createMutation = idle, dc_updateMutation = idle, dc_updates = 0, showForm = False,
     editingId = None, dform = blank_discount\<rparr>"

datatype discounts_ev =
    NewDiscount | EditDiscount discount | ResetDiscount | SetDCode string | SetDType string | SetDValue int | SetDMax int | SetDExpires string
  | SetDPlans string | SubmitDiscount | ToggleDiscount discount | DeleteDiscount string bool | RetryDiscounts

datatype discounts_k = KCreateDiscount | KUpdateDiscount nat | KDeleteDiscount

section \<open>Handlers\<close>

abbreviation DISCOUNTS_KEY :: "string list" where
  "DISCOUNTS_KEY \<equiv> [''admin'', ''discounts'']"

abbreviation discounts_path :: string where
  "discounts_path \<equiv> ''/api/admin/v1/discounts''"

definition discount_path :: "string \<Rightarrow> string" where
  "discount_path i = discounts_path @ ''/'' @ i"

definition resetDiscount :: "discounts_page \<Rightarrow> discounts_page" where
  "resetDiscount s = s\<lparr>showForm := False, editingId := None, dform := blank_discount\<rparr>"

definition handleCreateDiscount :: "discounts_page \<Rightarrow> discounts_page" where
  "handleCreateDiscount s = (resetDiscount s)\<lparr>showForm := True\<rparr>"

text \<open>\<open>to_iso\<close> is \<open>new Date(x).toISOString().slice(0, 16)\<close>, which throws for a text that is no date; what was set before stays.\<close>

definition handleEditDiscount :: "(string \<Rightarrow> string option) \<Rightarrow> discount \<Rightarrow> discounts_page \<Rightarrow> discounts_page" where
  "handleEditDiscount to_iso d s =
     (case (if dc_expires_at d \<noteq> '''' then to_iso (dc_expires_at d) else Some '''') of
        None \<Rightarrow> s\<lparr>editingId := Some (dc_id d)\<rparr>
      | Some ex \<Rightarrow> s\<lparr>editingId := Some (dc_id d), showForm := True,
          dform := \<lparr>df_code = dc_code d, df_type = dc_type d, df_value = dc_value d, df_max_uses = dc_max_uses d, df_expires_at = ex,
            df_applicable_plans = dc_applicable_plans d\<rparr>\<rparr>)"

definition form_props :: "discount_form \<Rightarrow> (string \<times> json) list" where
  "form_props f = [(''code'', JStr (df_code f)), (''type'', JStr (df_type f)), (''value'', JNum (df_value f)), (''max_uses'', JNum (df_max_uses f)),
     (''expires_at'', JStr (df_expires_at f)), (''applicable_plans'', JStr (df_applicable_plans f))]"

definition start_update :: "string \<Rightarrow> json \<Rightarrow> discounts_page \<Rightarrow> (discounts_page, discounts_k) effect" where
  "start_update i b s = (s\<lparr>dc_updateMutation := mutate, dc_updates := Suc (dc_updates s)\<rparr>, [CallApi ''PUT'' (discount_path i) b],
     [KUpdateDiscount (Suc (dc_updates s))])"

definition handleSubmitDiscount :: "discounts_page \<Rightarrow> (discounts_page, discounts_k) effect" where
  "handleSubmitDiscount s =
     (if trim (df_code (dform s)) = '''' \<or> df_value (dform s) \<le> 0 then (s, [], [])
      else if present (editingId s) then start_update (the (editingId s)) (json_body ((''active'', JUndef) # form_props (dform s))) s
      else (s\<lparr>dc_createMutation := mutate\<rparr>, [CallApi ''POST'' discounts_path (json_body (form_props (dform s)))], [KCreateDiscount]))"

definition toggle_body :: "discount \<Rightarrow> json" where
  "toggle_body d = json_body [(''active'', JBool (\<not> dc_active d))]"

definition createDiscount_done :: "result \<Rightarrow> discounts_page \<Rightarrow> (discounts_page, discounts_k) effect" where
  "createDiscount_done r s =
     (let s1 = s\<lparr>dc_createMutation := settled r\<rparr> in
      case r of Inl err \<Rightarrow> (s1, [], []) | Inr v \<Rightarrow> (resetDiscount s1, [Invalidate DISCOUNTS_KEY], []))"

definition updateDiscount_done :: "nat \<Rightarrow> result \<Rightarrow> discounts_page \<Rightarrow> (discounts_page, discounts_k) effect" where
  "updateDiscount_done n r s =
     (let s1 = (if n = dc_updates s then s\<lparr>dc_updateMutation := settled r\<rparr> else s) in
      case r of Inl err \<Rightarrow> (s1, [], []) | Inr v \<Rightarrow> (resetDiscount s1, [Invalidate DISCOUNTS_KEY], []))"

abbreviation edit_discount :: "(discount_form \<Rightarrow> discount_form) \<Rightarrow> discounts_page \<Rightarrow> (discounts_page, discounts_k) effect" where
  "edit_discount f s \<equiv> (s\<lparr>dform := f (dform s)\<rparr>, [], [])"

fun discounts_user :: "(string \<Rightarrow> string option) \<Rightarrow> discounts_ev \<Rightarrow> discounts_page \<Rightarrow> (discounts_page, discounts_k) effect" where
  "discounts_user to_iso NewDiscount s = (handleCreateDiscount s, [], [])"
| "discounts_user to_iso (EditDiscount d) s = (handleEditDiscount to_iso d s, [], [])"
| "discounts_user to_iso ResetDiscount s = (resetDiscount s, [], [])"
| "discounts_user to_iso (SetDCode v) s = edit_discount (\<lambda>f. f\<lparr>df_code := v\<rparr>) s"
| "discounts_user to_iso (SetDType v) s = edit_discount (\<lambda>f. f\<lparr>df_type := v\<rparr>) s"
| "discounts_user to_iso (SetDValue n) s = edit_discount (\<lambda>f. f\<lparr>df_value := n\<rparr>) s"
| "discounts_user to_iso (SetDMax n) s = edit_discount (\<lambda>f. f\<lparr>df_max_uses := n\<rparr>) s"
| "discounts_user to_iso (SetDExpires v) s = edit_discount (\<lambda>f. f\<lparr>df_expires_at := v\<rparr>) s"
| "discounts_user to_iso (SetDPlans v) s = edit_discount (\<lambda>f. f\<lparr>df_applicable_plans := v\<rparr>) s"
| "discounts_user to_iso SubmitDiscount s = handleSubmitDiscount s"
| "discounts_user to_iso (ToggleDiscount d) s = start_update (dc_id d) (toggle_body d) s"
| "discounts_user to_iso (DeleteDiscount i ok) s =
     (if ok then (s, [CallApi ''DELETE'' (discount_path i) JUndef], [KDeleteDiscount]) else (s, [], []))"
| "discounts_user to_iso RetryDiscounts s = (s, [Refetch DISCOUNTS_KEY], [])"

fun discounts_resume :: "discounts_k \<Rightarrow> result \<Rightarrow> discounts_page \<Rightarrow> (discounts_page, discounts_k) effect" where
  "discounts_resume KCreateDiscount r s = createDiscount_done r s"
| "discounts_resume (KUpdateDiscount n) r s = updateDiscount_done n r s"
| "discounts_resume KDeleteDiscount r s = (s, (case r of Inl err \<Rightarrow> [] | Inr v \<Rightarrow> [Invalidate DISCOUNTS_KEY]), [])"

section \<open>View\<close>

definition discount_error :: "discounts_page \<Rightarrow> discounts_ev ui" where
  "discount_error s = form_error (dc_createMutation s) (dc_updateMutation s) ''discountCodes.operationFailed''"

definition discount_form_card :: "discounts_page \<Rightarrow> discounts_ev ui" where
  "discount_form_card s =
     (let f = dform s; editing = present (editingId s) in
      only_if (showForm s) (Node ''Card''
       [Say (tr (if editing then ''discountCodes.editDiscount'' else ''discountCodes.createDiscount'')),
        Input (tr ''discountCodes.code'') (df_code f) [] False SetDCode,
        Node ''label'' [Say (tr ''discountCodes.type'')],
        Select (df_type f) [(''percentage'', tr ''discountCodes.percentage''), (''fixed'', tr ''discountCodes.fixedAmount'')] SetDType,
        NumField (tr (if df_type f = ''percentage'' then ''discountCodes.valuePercent'' else ''discountCodes.valueDollar'')) (df_value f) SetDValue,
        NumField (tr ''discountCodes.maxUses'') (df_max_uses f) SetDMax,
        Input (tr ''discountCodes.expiresAt'') (df_expires_at f) [] False SetDExpires,
        Input (tr ''discountCodes.applicablePlans'') (df_applicable_plans f) [] False SetDPlans,
        Button (isPending (dc_createMutation s) \<or> isPending (dc_updateMutation s)) SubmitDiscount
          [Say (tr (if editing then ''common.update'' else ''common.create''))],
        Button False ResetDiscount [Say (tr ''common.cancel'')], discount_error s]))"

definition discount_row :: "(string \<Rightarrow> string) \<Rightarrow> discount \<Rightarrow> discounts_ev ui" where
  "discount_row toLocaleDateString d = Node ''TableRow''
     [Say [Lit (dc_code d)], Node ''Badge'' [Say [Lit (dc_type d)]],
      Say [Lit (if dc_type d = ''percentage'' then int_string (dc_value d) @ ''%'' else ''$'' @ int_string (dc_value d))],
      Say [Lit (int_string (case dc_uses d of None \<Rightarrow> 0 | Some n \<Rightarrow> n)), Lit ('' / '' @ (if dc_max_uses d > 0 then int_string (dc_max_uses d) else ''inf''))],
      Node ''Badge'' [Say (tr (if dc_active d then ''common.active'' else ''common.disabled''))],
      Say (if dc_expires_at d \<noteq> '''' then [Lit (toLocaleDateString (dc_expires_at d))] else tr ''common.never''),
      Say (if dc_applicable_plans d \<noteq> '''' then [Lit (dc_applicable_plans d)] else tr ''common.all''),
      Button False (ToggleDiscount d) [Node (if dc_active d then ''ToggleRight'' else ''ToggleLeft'') []],
      Button False (EditDiscount d) [], confirm_button False (DeleteDiscount (dc_id d))]"

definition listedDiscounts :: "discounts_page \<Rightarrow> discount list" where
  "listedDiscounts s = data_or_empty (Option.bind (q_data (discountsQuery s)) id)"

definition discounts_table :: "(string \<Rightarrow> string) \<Rightarrow> discounts_page \<Rightarrow> discounts_ev ui" where
  "discounts_table toLocaleDateString s =
     (let q = discountsQuery s; known = Option.bind (q_data q) id in
      Node ''Card''
       [Node ''CardTitle'' [Say (tr ''discountCodes.allDiscounts''),
          only_if (known \<noteq> None) (Say [Lit ('' ('' @ nat_string (length (listedDiscounts s)) @ '')'')])],
        if q_isError q then failed_load ''discountCodes.failedToLoad'' [Button False RetryDiscounts [Say (tr ''common.retry'')]]
        else Node ''Table''
         [head_row [''discountCodes.code'', ''discountCodes.type'', ''discountCodes.value'', ''discountCodes.usesMax'', ''discountCodes.status'',
            ''discountCodes.expires'', ''discountCodes.plans'', ''discountCodes.actions''],
          Node ''TableBody'' (if q_isLoading q then replicate 3 (Node ''TableRow'' (replicate 8 (Node ''Skeleton'' [])))
            else map (discount_row toLocaleDateString) (listedDiscounts s))],
        only_if (known = Some [] \<and> \<not> q_isLoading q) (Say (tr ''discountCodes.noDiscounts''))])"

definition DiscountCodes_view :: "(string \<Rightarrow> string) \<Rightarrow> discounts_page \<Rightarrow> discounts_ev ui" where
  "DiscountCodes_view toLocaleDateString s = Node ''div''
     [Node ''h1'' [Say (tr ''discountCodes.title'')], Node ''p'' [Say (tr ''discountCodes.subtitle'')],
      Button False NewDiscount [Say (tr ''discountCodes.newDiscount'')], discount_form_card s, discounts_table toLocaleDateString s]"

definition discounts_env :: "discounts_page \<Rightarrow> discounts_page \<Rightarrow> bool" where
  "discounts_env s s' \<longleftrightarrow> (\<exists>q. s' = s\<lparr>discountsQuery := q\<rparr>)"

definition DiscountCodes :: "(string \<Rightarrow> string) \<Rightarrow> (string \<Rightarrow> string option) \<Rightarrow> (discounts_page, discounts_ev, discounts_k) page" where
  "DiscountCodes toLocaleDateString to_iso =
     \<lparr>pg_mount = (discounts_init, [CallApi ''GET'' discounts_path JUndef], []), pg_view = DiscountCodes_view toLocaleDateString,
      pg_user = discounts_user to_iso, pg_resume = discounts_resume, pg_env = discounts_env\<rparr>"

lemma DiscountCodes_sel [simp]:
  "pg_mount (DiscountCodes fmt to_iso) = (discounts_init, [CallApi ''GET'' discounts_path JUndef], [])"
  "pg_view (DiscountCodes fmt to_iso) = DiscountCodes_view fmt" "pg_user (DiscountCodes fmt to_iso) = discounts_user to_iso"
  "pg_resume (DiscountCodes fmt to_iso) = discounts_resume" "pg_env (DiscountCodes fmt to_iso) = discounts_env"
  by (simp_all add: DiscountCodes_def)

section \<open>Invariant\<close>

definition discounts_inv :: "discounts_page \<Rightarrow> discounts_k list \<Rightarrow> bool" where
  "discounts_inv s ks \<longleftrightarrow>
     flags (isPending (dc_createMutation s)) (\<lambda>k. k = KCreateDiscount) ks \<and>
     (\<forall>n. waiting (\<lambda>k. k = KUpdateDiscount n) ks \<le> 1) \<and> (\<forall>n. KUpdateDiscount n \<in> set ks \<longrightarrow> n \<le> dc_updates s) \<and>
     (isPending (dc_updateMutation s) \<longleftrightarrow> KUpdateDiscount (dc_updates s) \<in> set ks)"

fun discounts_guard :: "discounts_page \<Rightarrow> discounts_ev \<Rightarrow> bool" where
  "discounts_guard s SubmitDiscount = (\<not> isPending (dc_createMutation s) \<and> \<not> isPending (dc_updateMutation s))"
| "discounts_guard s (ToggleDiscount d) = (d \<in> set (listedDiscounts s))"
| "discounts_guard s (SetDType v) = (v \<in> {''percentage'', ''fixed''})"
| "discounts_guard s _ = True"

text \<open>A code that is created or edited is not blank and has a positive value; else only the switch is sent.\<close>

definition discount_body :: "json \<Rightarrow> bool" where
  "discount_body b \<longleftrightarrow> (\<exists>f. trim (df_code f) \<noteq> '''' \<and> 0 < df_value f \<and> b = json_body (form_props f))"

fun discounts_cmd_ok :: "cmd \<Rightarrow> bool" where
  "discounts_cmd_ok (CallApi m p b) =
     (if m = ''POST'' then p = discounts_path \<and> discount_body b
      else if m = ''PUT'' then (\<exists>i. p = discount_path i) \<and> (discount_body b \<or> (\<exists>a. b = json_body [(''active'', JBool a)]))
      else b = JUndef)"
| "discounts_cmd_ok _ = True"

lemma discounts_parts_guarded:
  "e \<in> events (discount_form_card s) \<Longrightarrow> discounts_guard s e" "e \<in> events (discounts_table fmt s) \<Longrightarrow> discounts_guard s e"
  by (auto simp: discount_form_card_def discount_error_def discounts_table_def discount_row_def Let_def split: if_splits)

lemma discounts_offered: "e \<in> events (DiscountCodes_view fmt s) \<Longrightarrow> discounts_guard s e"
  by (auto simp: DiscountCodes_view_def dest: discounts_parts_guarded)

lemmas discounts_handlers = resetDiscount_def handleCreateDiscount_def handleEditDiscount_def start_update_def handleSubmitDiscount_def
  createDiscount_done_def updateDiscount_done_def Let_def

lemma waiting_member: "k \<in> set ks \<longleftrightarrow> waiting (\<lambda>x. x = k) ks \<noteq> 0"
  by (simp add: waiting_zero)

lemma start_update_inv:
  assumes "discounts_inv s ks"
  shows "discounts_inv (fst (start_update i b s)) (ks @ snd (snd (start_update i b s)))"
proof -
  have "KUpdateDiscount (Suc (dc_updates s)) \<notin> set ks" using assms by (auto simp: discounts_inv_def)
  then have "waiting (\<lambda>k. k = KUpdateDiscount (Suc (dc_updates s))) ks = 0" by (simp add: waiting_member)
  with assms show ?thesis by (auto simp: discounts_inv_def start_update_def flags_def le_Suc_eq)
qed

lemma discounts_user_inv:
  assumes "discounts_inv s ks" and "discounts_guard s e"
  shows "discounts_inv (fst (discounts_user to_iso e s)) (ks @ snd (snd (discounts_user to_iso e s)))"
    and "list_all discounts_cmd_ok (fst (snd (discounts_user to_iso e s)))"
proof -
  show "discounts_inv (fst (discounts_user to_iso e s)) (ks @ snd (snd (discounts_user to_iso e s)))"
  proof (cases e)
    case SubmitDiscount
    with assms start_update_inv [OF assms(1)] show ?thesis
      by (auto simp: handleSubmitDiscount_def) (auto simp: discounts_inv_def flags_def)
  next
    case (ToggleDiscount d)
    with start_update_inv [OF assms(1)] show ?thesis by simp
  qed (use assms(1) in \<open>auto simp: discounts_inv_def flags_def handleCreateDiscount_def handleEditDiscount_def resetDiscount_def split: option.split\<close>)
  show "list_all discounts_cmd_ok (fst (snd (discounts_user to_iso e s)))"
    by (cases e) (auto simp: handleSubmitDiscount_def start_update_def discount_body_def toggle_body_def json_body_def)
qed

lemma discounts_resume_inv:
  assumes "discounts_inv s (ks1 @ k # ks2)"
  shows "discounts_inv (fst (discounts_resume k r s)) (ks1 @ ks2 @ snd (snd (discounts_resume k r s)))"
    and "list_all discounts_cmd_ok (fst (snd (discounts_resume k r s)))"
proof -
  show "discounts_inv (fst (discounts_resume k r s)) (ks1 @ ks2 @ snd (snd (discounts_resume k r s)))"
  proof (cases k)
    case (KUpdateDiscount n)
    have "waiting (\<lambda>k. k = KUpdateDiscount n) (ks1 @ k # ks2) \<le> 1" using assms by (simp add: discounts_inv_def)
    then have n: "KUpdateDiscount n \<notin> set ks1" "KUpdateDiscount n \<notin> set ks2" using KUpdateDiscount by (simp_all add: waiting_member)
    have "waiting P (ks1 @ ks2) \<le> waiting P (ks1 @ k # ks2)" for P by simp
    then have w: "waiting (\<lambda>x. x = KUpdateDiscount m) (ks1 @ ks2) \<le> 1" for m
      using assms unfolding discounts_inv_def by (meson le_trans)
    from assms KUpdateDiscount n w show ?thesis
      by (cases r) (auto simp: discounts_inv_def updateDiscount_done_def resetDiscount_def Let_def flags_def)
  qed (use assms in \<open>cases r; auto simp: discounts_inv_def flags_def createDiscount_done_def resetDiscount_def Let_def split: if_splits\<close>)+
  show "list_all discounts_cmd_ok (fst (snd (discounts_resume k r s)))"
    by (cases k; cases r) (auto simp: createDiscount_done_def updateDiscount_done_def Let_def)
qed

lemma discounts_mounted: "discounts_inv discounts_init []"
  by (simp add: discounts_inv_def discounts_init_def flags_def)

lemma discounts_changed: "discounts_inv s ks \<Longrightarrow> discounts_env s s' \<Longrightarrow> discounts_inv s' ks"
  by (auto simp: discounts_inv_def discounts_env_def)

interpretation discounts: page_guarded "DiscountCodes fmt to_iso" discounts_inv discounts_guard discounts_cmd_ok for fmt to_iso
  by unfold_locales (simp_all add: discounts_mounted discounts_user_inv discounts_resume_inv discounts_changed, erule discounts_offered)

section \<open>Properties\<close>

text \<open>What the discounts page sends. A code is created or edited with a code that is not blank and a positive value, with
  all fields of the form; the switch sends the state alone. One creation at a time is in flight, exactly while it is pending.\<close>

theorem discounts_requests_sound:
  assumes "page_reach (DiscountCodes fmt to_iso) (s, ks, out)" and "CallApi m p b \<in> set out" and "m = ''POST'' \<or> m = ''PUT''"
  shows "((\<exists>f. trim (df_code f) \<noteq> '''' \<and> 0 < df_value f \<and> b = json_body (form_props f)) \<or>
       m = ''PUT'' \<and> (\<exists>a. b = json_body [(''active'', JBool a)])) \<and>
     waiting (\<lambda>k. k = KCreateDiscount) ks = (if isPending (dc_createMutation s) then 1 else 0)"
  using discounts.commands [OF assms(1,2)] discounts.reachable [OF assms(1)] assms(3)
  by (auto simp: discounts_inv_def flags_def discount_body_def split: if_splits)

lemma discount_events:
  "NewDiscount \<in> events (DiscountCodes_view fmt s)"
  "showForm s \<Longrightarrow> {SetDCode v, SetDValue n} \<subseteq> events (DiscountCodes_view fmt s)"
  "showForm s \<Longrightarrow> \<not> isPending (dc_createMutation s) \<Longrightarrow> \<not> isPending (dc_updateMutation s) \<Longrightarrow> SubmitDiscount \<in> events (DiscountCodes_view fmt s)"
  "\<not> q_isError (discountsQuery s) \<Longrightarrow> \<not> q_isLoading (discountsQuery s) \<Longrightarrow> d \<in> set (listedDiscounts s) \<Longrightarrow> ToggleDiscount d \<in> events (DiscountCodes_view fmt s)"
  by (auto simp: DiscountCodes_view_def discount_form_card_def discounts_table_def discount_row_def Let_def)

lemma discounts_init_sel [simp]:
  "dform discounts_init = blank_discount" "dc_createMutation discounts_init = idle" "dc_updateMutation discounts_init = idle"
  "editingId discounts_init = None" "dc_updates discounts_init = 0"
  by (simp_all add: discounts_init_def)

text \<open>Switching a code throws away a form that is being filled. The switch shares the mutation of the form, whose answer
  closes and empties it: a new code typed while a switch is in flight is gone without having been sent.\<close>

theorem toggle_drops_form:
  "\<exists>s ks out s' out'. page_reach (DiscountCodes fmt to_iso) (s, KUpdateDiscount 1 # ks, out) \<and> showForm s \<and> df_code (dform s) = c \<and>
    page_step (DiscountCodes fmt to_iso) (s, KUpdateDiscount 1 # ks, out) (s', ks, out') \<and> \<not> showForm s' \<and> dform s' = blank_discount \<and>
    (\<forall>b. CallApi ''POST'' discounts_path b \<notin> set out')"
proof -
  define d where "d = \<lparr>dc_id = ''1'', dc_code = ''SUMMER'', dc_type = ''percentage'', dc_value = 10, dc_uses = None, dc_max_uses = 0,
    dc_active = True, dc_expires_at = '''', dc_applicable_plans = ''''\<rparr>"
  let ?q = "q_pending\<lparr>q_data := Some (Some [d]), q_isLoading := False, q_isError := False\<rparr>"
  let ?play = "[Change (\<lambda>s. s\<lparr>discountsQuery := ?q\<rparr>), Do (ToggleDiscount d), Do NewDiscount, Do (SetDCode c)]"
  have "\<exists>s out. page_play (DiscountCodes fmt to_iso) ?play (discounts_init, [], [CallApi ''GET'' discounts_path JUndef]) =
      Some (s, [KUpdateDiscount 1], out) \<and> showForm s \<and> df_code (dform s) = c \<and> (\<forall>b. CallApi ''POST'' discounts_path b \<notin> set out)"
    using discount_events by (auto simp: discounts_handlers discounts_env_def listedDiscounts_def)
  then obtain s out where r: "page_reach (DiscountCodes fmt to_iso) (s, [KUpdateDiscount 1], out)" "showForm s" "df_code (dform s) = c"
    and o: "\<forall>b. CallApi ''POST'' discounts_path b \<notin> set out"
    using page_play_mount [OF DiscountCodes_sel(1)] by blast
  obtain s' where s: "pg_resume (DiscountCodes fmt to_iso) (KUpdateDiscount 1) (Inr JUndef) s = (s', [Invalidate DISCOUNTS_KEY], [])"
    "\<not> showForm s'" "dform s' = blank_discount"
    by (simp add: discounts_handlers)
  from step_resume [OF s(1), of "[]" "[]" out] s(2,3) r o show ?thesis
    by (intro exI [of _ s] exI [of _ "[]"] exI [of _ out] exI [of _ s'] exI [of _ "out @ [Invalidate DISCOUNTS_KEY]"]) simp
qed

theorem discounts_requests_sound_witness:
  "\<exists>s ks out. page_reach (DiscountCodes id Some) (s, ks, out) \<and> out \<noteq> [] \<and> waiting (\<lambda>k. k = KCreateDiscount) ks = 1"
proof -
  let ?play = "[Do NewDiscount, Do (SetDCode ''r''), Do (SetDValue 5), Do SubmitDiscount]"
  have "\<exists>s ks out b. page_play (DiscountCodes id Some) ?play (discounts_init, [], [CallApi ''GET'' discounts_path JUndef]) = Some (s, ks, out) \<and>
      CallApi ''POST'' discounts_path b \<in> set out \<and> isPending (dc_createMutation s)"
    using discount_events by (simp add: discounts_handlers trim_def is_ws_def)
  then obtain s ks out b where r: "page_reach (DiscountCodes id Some) (s, ks, out)" "CallApi ''POST'' discounts_path b \<in> set out"
    "isPending (dc_createMutation s)"
    using page_play_mount [OF DiscountCodes_sel(1)] by blast
  from discounts_requests_sound [OF r(1,2)] r show ?thesis by force
qed

end
