(* ===== verification/DomainsPage.thy ===== *)
theory DomainsPage
  imports Hooks
begin

text \<open>
  The custom domains (\<open>pages/Domains.tsx\<close>): the list with its verification, the dialog that adds a domain to a
  tunnel, the instructions for the DNS record and the delete dialog. The list of tunnels the dialog offers is a
  query of its own, asked for while the dialog is open.
\<close>

section \<open>State\<close>

record domain =
  dom_id :: string
  dom_tunnel_id :: "string option"
  dom_tunnel_name :: string
  dom_domain :: string
  dom_verification_status :: string
  dom_created_at :: string

text \<open>The answer to the creation is an unchecked value; the instructions dialog reads it with \<open>?.\<close>.\<close>

record domains_page =
  domainsQuery :: "domain list query"
  tunnelsQuery :: "tunnel list query"
  addDomain :: mutation
  removeDomain :: mutation
  verifyDomain :: mutation
  showAdd :: bool
  domainTarget :: "domain option"
  showInstructions :: json
  copiedRecord :: "string option"
  newDomain :: "string \<times> string"

definition domains_init :: domains_page where
  "domains_init = \<lparr>domainsQuery = q_pending, tunnelsQuery = q_pending, addDomain = idle, removeDomain = idle,
     verifyDomain = idle, showAdd = False, domainTarget = None, showInstructions = JNull, copiedRecord = None,
     newDomain = ('''', '''')\<rparr>"

datatype domains_ev =
    OpenAdd | CloseAdd | CancelAdd | SetDomainName string | SetTunnel string | SubmitDomain | RetryDomains
  | CopyRecord string | VerifyDomain string | AskRemove domain | CancelRemove | ConfirmRemove | CloseInstructions

datatype domains_k = KAddDomain | KRemoveDomain | KVerifyDomain | KRecordCopied string | KRecordReset

abbreviation DOMAINS_KEY :: "string list" where
  "DOMAINS_KEY \<equiv> [''domains'']"

section \<open>Handlers\<close>

definition domain_path :: "string \<Rightarrow> string" where
  "domain_path i = ''/v1/domains/'' @ i"

text \<open>The check trims the name; what is sent is the text as it was typed.\<close>

definition handleAdd :: "domains_page \<Rightarrow> (domains_page, domains_k) effect" where
  "handleAdd s =
     (case newDomain s of (name, tid) \<Rightarrow>
        if trim name = '''' \<or> tid = '''' then (s, [], [])
        else (s\<lparr>addDomain := mutate\<rparr>,
          [CallApi ''POST'' ''/v1/domains'' (json_body [(''domain'', JStr name), (''tunnel_id'', JStr tid)])], [KAddDomain]))"

definition addDomain_done :: "result \<Rightarrow> domains_page \<Rightarrow> (domains_page, domains_k) effect" where
  "addDomain_done r s =
     (case r of
        Inl err \<Rightarrow> (s\<lparr>addDomain := settled r\<rparr>, [], [])
      | Inr data \<Rightarrow>
          (s\<lparr>addDomain := settled r, showAdd := False, newDomain := ('''', ''''), showInstructions := data\<rparr>,
           [Invalidate DOMAINS_KEY, ShowToast (tr ''domains.created'') ''success''], []))"

definition removeDomain_start :: "domains_page \<Rightarrow> (domains_page, domains_k) effect" where
  "removeDomain_start s =
     (case domainTarget s of
        None \<Rightarrow> (s, [], [])
      | Some d \<Rightarrow> (s\<lparr>removeDomain := mutate\<rparr>, [CallApi ''DELETE'' (domain_path (dom_id d)) JUndef], [KRemoveDomain]))"

definition removeDomain_done :: "result \<Rightarrow> domains_page \<Rightarrow> (domains_page, domains_k) effect" where
  "removeDomain_done r s =
     (case r of
        Inl err \<Rightarrow> (s\<lparr>removeDomain := settled r\<rparr>, [], [])
      | Inr v \<Rightarrow> (s\<lparr>removeDomain := settled r, domainTarget := None\<rparr>,
          [Invalidate DOMAINS_KEY, ShowToast (tr ''domains.removed'') ''success''], []))"

definition verifyDomain_done :: "result \<Rightarrow> domains_page \<Rightarrow> (domains_page, domains_k) effect" where
  "verifyDomain_done r s = (s\<lparr>verifyDomain := settled r\<rparr>,
     (case r of
        Inl err \<Rightarrow> []
      | Inr v \<Rightarrow> [Invalidate DOMAINS_KEY, ShowToast (tr ''domains.verify_triggered'') ''success'']), [])"

definition copyRecord_done :: "string \<Rightarrow> result \<Rightarrow> domains_page \<Rightarrow> (domains_page, domains_k) effect" where
  "copyRecord_done txt r s =
     (case r of
        Inl err \<Rightarrow> (s, [], [])
      | Inr v \<Rightarrow> (s\<lparr>copiedRecord := Some txt\<rparr>, [ShowToast (tr ''common.copied'') ''default''], [KRecordReset]))"

fun domains_user :: "domains_ev \<Rightarrow> domains_page \<Rightarrow> (domains_page, domains_k) effect" where
  "domains_user OpenAdd s = (s\<lparr>showAdd := True\<rparr>, [], [])"
| "domains_user CloseAdd s = (s\<lparr>showAdd := False, newDomain := ('''', '''')\<rparr>, [], [])"
| "domains_user CancelAdd s = (s\<lparr>showAdd := False\<rparr>, [], [])"
| "domains_user (SetDomainName v) s = (s\<lparr>newDomain := (v, snd (newDomain s))\<rparr>, [], [])"
| "domains_user (SetTunnel v) s = (s\<lparr>newDomain := (fst (newDomain s), v)\<rparr>, [], [])"
| "domains_user SubmitDomain s = handleAdd s"
| "domains_user RetryDomains s = (s, [Refetch DOMAINS_KEY], [])"
| "domains_user (CopyRecord txt) s = (s, [CopyText txt], [KRecordCopied txt])"
| "domains_user (VerifyDomain i) s = (s\<lparr>verifyDomain := mutate\<rparr>, [CallApi ''POST'' (domain_path i @ ''/verify'') JUndef], [KVerifyDomain])"
| "domains_user (AskRemove d) s = (s\<lparr>domainTarget := Some d\<rparr>, [], [])"
| "domains_user CancelRemove s = (s\<lparr>domainTarget := None\<rparr>, [], [])"
| "domains_user ConfirmRemove s = removeDomain_start s"
| "domains_user CloseInstructions s = (s\<lparr>showInstructions := JNull\<rparr>, [], [])"

fun domains_resume :: "domains_k \<Rightarrow> result \<Rightarrow> domains_page \<Rightarrow> (domains_page, domains_k) effect" where
  "domains_resume KAddDomain r s = addDomain_done r s"
| "domains_resume KRemoveDomain r s = removeDomain_done r s"
| "domains_resume KVerifyDomain r s = verifyDomain_done r s"
| "domains_resume (KRecordCopied txt) r s = copyRecord_done txt r s"
| "domains_resume KRecordReset r s = (s\<lparr>copiedRecord := None\<rparr>, [], [])"

section \<open>View\<close>

abbreviation copy_mark :: "bool \<Rightarrow> 'e ui" where
  "copy_mark done \<equiv> Node (if done then ''Check'' else ''Copy'') []"

definition domain_row :: "(string \<Rightarrow> string) \<Rightarrow> domains_page \<Rightarrow> domain \<Rightarrow> domains_ev ui" where
  "domain_row toLocaleDateString s d = Node ''TableRow''
     [Node ''TableCell'' [Button False (CopyRecord (dom_domain d)) [Say [Lit (dom_domain d)], copy_mark (copiedRecord s = Some (dom_domain d))]],
      Node ''TableCell'' [Say [Lit (if dom_tunnel_name d \<noteq> '''' then dom_tunnel_name d
         else (case dom_tunnel_id d of None \<Rightarrow> '''' | Some i \<Rightarrow> take 8 i))]],
      Node ''TableCell'' [Node ''Badge'' [Say (tr (''domains.verification.'' @ dom_verification_status d))]],
      Node ''TableCell'' [Say [Lit (toLocaleDateString (dom_created_at d))]],
      Node ''TableCell'' [Node ''div''
       [Button (isPending (verifyDomain s)) (VerifyDomain (dom_id d)) [], Button False (AskRemove d) []]]]"

definition domains_table :: "(string \<Rightarrow> string) \<Rightarrow> domains_page \<Rightarrow> domains_ev ui" where
  "domains_table toLocaleDateString s =
     (let q = domainsQuery s; ds = data_or_empty (q_data q) in
      if q_isLoading q then Node ''div'' []
      else if q_isError q then failed_load ''domains.failed_load'' [Button False RetryDomains [Say (tr ''common.retry'')]]
      else if ds = [] then Node ''div'' [Node ''p'' [Say (tr ''domains.empty'')], Button False OpenAdd [Say (tr ''domains.add_first'')]]
      else Node ''Table''
       [head_row [''domains.table.domain'', ''domains.table.tunnel'', ''domains.table.verification'', ''domains.table.created'',
          ''domains.table.actions''],
        Node ''TableBody'' (map (domain_row toLocaleDateString s) ds)])"

definition domains_footer :: "domains_page \<Rightarrow> domains_ev ui" where
  "domains_footer s =
     (let ds = data_or_empty (q_data (domainsQuery s)) in
      only_if (length ds > 10) (Node ''CardFooter'' [Say [Lit (nat_string (length ds) @ '' ''), Tr ''domains.total'' []]]))"

definition tunnel_options :: "domains_page \<Rightarrow> (string \<times> caption) list" where
  "tunnel_options s = ('''', tr ''domains.add_dialog.select_tunnel'') #
     map (\<lambda>t. (tunnel_id t, [Lit (tunnel_name t @ '' ('' @ to_upper (tunnel_protocol t) @ '')'')])) (data_or_empty (q_data (tunnelsQuery s)))"

definition add_dialog :: "domains_page \<Rightarrow> domains_ev ui" where
  "add_dialog s = Dialog (showAdd s) CloseAdd (tr ''domains.add_dialog.title'') (tr ''domains.add_dialog.description'')
     [Form (isPending (addDomain s)) SubmitDomain
       [Input (tr ''domains.add_dialog.domain'') (fst (newDomain s)) [] False SetDomainName,
        Node ''div'' [Node ''label'' [Say (tr ''domains.add_dialog.tunnel'')], Select (snd (newDomain s)) (tunnel_options s) SetTunnel],
        mutation_error (addDomain s) ''domains.add_dialog.failed_add'',
        Node ''div''
         [Button False CancelAdd [Say (tr ''domains.add_dialog.cancel'')],
          Node ''submit'' [Say (tr (if isPending (addDomain s) then ''domains.add_dialog.adding'' else ''domains.add_dialog.submit''))]]]]"

text \<open>\<open>showInstructions?.tunnel_id?.slice(0, 8) ?? ''\<close> and the record's value.\<close>

definition str_or_empty :: "json \<Rightarrow> string" where
  "str_or_empty v = (if nullish v then '''' else js_string v)"

definition record_value :: "json \<Rightarrow> string" where
  "record_value d = take 8 (str_or_empty (jprop d ''tunnel_id'')) @ ''.omnitun-edge.com''"

definition instructions_dialog :: "domains_page \<Rightarrow> domains_ev ui" where
  "instructions_dialog s =
     (let d = showInstructions s in
      Dialog (truthy d) CloseInstructions (tr ''domains.instructions_dialog.title'') (tr ''domains.instructions_dialog.description'')
       [Node ''div''
         [Node ''p'' [Say [Tr ''domains.instructions_dialog.record_type'' [], Lit '': CNAME'']],
          Node ''div'' [Node ''p'' [Say (tr ''domains.instructions_dialog.name'')], Node ''code'' [Say [Lit (str_or_empty (jprop d ''domain''))]]],
          Node ''div''
           [Node ''p'' [Say (tr ''domains.instructions_dialog.value'')],
            Node ''code'' [Say [Lit (record_value d)]],
            Button False (CopyRecord (record_value d)) [copy_mark (copiedRecord s = Some (record_value d))]],
          Node ''p'' [Say (tr ''domains.instructions_dialog.note'')],
          Button False CloseInstructions [Say (tr ''domains.instructions_dialog.done'')]]])"

definition Domains_view :: "(string \<Rightarrow> string) \<Rightarrow> domains_page \<Rightarrow> domains_ev ui" where
  "Domains_view toLocaleDateString s = Node ''div''
     [Node ''div'' [Node ''h1'' [Say (tr ''domains.title'')], Node ''p'' [Say (tr ''domains.subtitle'')], Button False OpenAdd [Say (tr ''domains.add'')]],
      Node ''Card'' [Node ''CardHeader'' [Say (tr ''domains.dns_title''), Say (tr ''domains.dns_description'')],
        Node ''CardContent'' (map (\<lambda>k. Node ''p'' [Say (tr k)]) [''domains.dns_step1'', ''domains.dns_step2'', ''domains.dns_step3''])],
      Node ''Card'' [Node ''CardContent'' [domains_table toLocaleDateString s], domains_footer s],
      add_dialog s, instructions_dialog s,
      confirm_dialog (domainTarget s \<noteq> None) CancelRemove ConfirmRemove (isPending (removeDomain s))
        (''domains.delete_dialog.title'', ''domains.delete_dialog.message'', ''domains.delete_dialog.cancel'',
         ''domains.delete_dialog.removing'', ''domains.delete_dialog.confirm'')]"

definition domains_env :: "domains_page \<Rightarrow> domains_page \<Rightarrow> bool" where
  "domains_env s s' \<longleftrightarrow> (\<exists>q qt. s' = s\<lparr>domainsQuery := q, tunnelsQuery := qt\<rparr>)"

definition Domains :: "(string \<Rightarrow> string) \<Rightarrow> (domains_page, domains_ev, domains_k) page" where
  "Domains toLocaleDateString =
     \<lparr>pg_mount = (domains_init, [CallApi ''GET'' ''/v1/domains'' JUndef], []), pg_view = Domains_view toLocaleDateString,
      pg_user = domains_user, pg_resume = domains_resume, pg_env = domains_env\<rparr>"

lemma Domains_sel [simp]:
  "pg_mount (Domains fmt) = (domains_init, [CallApi ''GET'' ''/v1/domains'' JUndef], [])"
  "pg_view (Domains fmt) = Domains_view fmt" "pg_user (Domains fmt) = domains_user" "pg_resume (Domains fmt) = domains_resume"
  "pg_env (Domains fmt) = domains_env"
  by (simp_all add: Domains_def)

section \<open>Invariant\<close>

definition domains_inv :: "domains_page \<Rightarrow> domains_k list \<Rightarrow> bool" where
  "domains_inv s ks \<longleftrightarrow>
     flags (isPending (addDomain s)) (\<lambda>k. k = KAddDomain) ks \<and>
     flags (isPending (removeDomain s)) (\<lambda>k. k = KRemoveDomain) ks \<and>
     flags (isPending (verifyDomain s)) (\<lambda>k. k = KVerifyDomain) ks"

fun domains_guard :: "domains_page \<Rightarrow> domains_ev \<Rightarrow> bool" where
  "domains_guard s SubmitDomain = (showAdd s \<and> \<not> isPending (addDomain s))"
| "domains_guard s ConfirmRemove = (\<not> isPending (removeDomain s))"
| "domains_guard s (VerifyDomain i) = (\<not> isPending (verifyDomain s) \<and> i \<in> dom_id ` set (data_or_empty (q_data (domainsQuery s))))"
| "domains_guard s (AskRemove d) = (d \<in> set (data_or_empty (q_data (domainsQuery s))))"
| "domains_guard s (SetTunnel v) = (v = '''' \<or> v \<in> tunnel_id ` set (data_or_empty (q_data (tunnelsQuery s))))"
| "domains_guard s _ = True"

fun domains_cmd_ok :: "cmd \<Rightarrow> bool" where
  "domains_cmd_ok (CallApi m p b) = (m = ''POST'' \<and> p = ''/v1/domains'' \<longrightarrow>
     (\<exists>name tid. trim name \<noteq> '''' \<and> tid \<noteq> '''' \<and> b = json_body [(''domain'', JStr name), (''tunnel_id'', JStr tid)]))"
| "domains_cmd_ok _ = True"

lemma domains_parts_guarded:
  "e \<in> events (domain_row fmt s d) \<Longrightarrow> e \<in> {CopyRecord (dom_domain d), AskRemove d} \<or> e = VerifyDomain (dom_id d) \<and> \<not> isPending (verifyDomain s)"
  "e \<in> events (add_dialog s) \<Longrightarrow> domains_guard s e"
  "e \<in> events (instructions_dialog s) \<Longrightarrow> domains_guard s e"
  "events (domains_footer s) = {}"
  by (auto simp: domain_row_def add_dialog_def tunnel_options_def instructions_dialog_def domains_footer_def Let_def
      split: option.splits if_splits)

lemma domains_table_guarded: "e \<in> events (domains_table fmt s) \<Longrightarrow> domains_guard s e"
  by (auto simp: domains_table_def Let_def dest!: domains_parts_guarded(1) split: if_splits)

lemma domains_offered: "e \<in> events (Domains_view fmt s) \<Longrightarrow> domains_guard s e"
  by (auto simp: Domains_view_def domains_parts_guarded(4) dest: domains_parts_guarded(2,3) domains_table_guarded split: if_splits)

lemmas domains_handlers = handleAdd_def addDomain_done_def removeDomain_start_def removeDomain_done_def verifyDomain_done_def
  copyRecord_done_def

lemma domains_user_inv:
  assumes "domains_inv s ks" and "domains_guard s e"
  shows "domains_inv (fst (domains_user e s)) (ks @ snd (snd (domains_user e s)))"
    and "list_all domains_cmd_ok (fst (snd (domains_user e s)))"
  using assms
  by (cases e; auto simp: domains_inv_def flags_def domains_handlers domain_path_def split: option.splits prod.splits)+

lemma domains_resume_inv:
  assumes "domains_inv s (ks1 @ k # ks2)"
  shows "domains_inv (fst (domains_resume k r s)) (ks1 @ ks2 @ snd (snd (domains_resume k r s)))"
    and "list_all domains_cmd_ok (fst (snd (domains_resume k r s)))"
  using assms by (cases k; cases r; auto simp: domains_inv_def flags_def domains_handlers split: if_splits)+

lemma domains_mounted: "domains_inv domains_init []"
  by (simp add: domains_inv_def domains_init_def flags_def)

lemma domains_changed: "domains_inv s ks \<Longrightarrow> domains_env s s' \<Longrightarrow> domains_inv s' ks"
  by (auto simp: domains_inv_def domains_env_def)

interpretation domains: page_guarded "Domains fmt" domains_inv domains_guard domains_cmd_ok for fmt
  by unfold_locales (simp_all add: domains_mounted domains_user_inv domains_resume_inv domains_changed, erule domains_offered)

lemma domains_single_flight:
  "single_flight (Domains fmt)
     [(\<lambda>s. isPending (addDomain s), \<lambda>k. k = KAddDomain), (\<lambda>s. isPending (removeDomain s), \<lambda>k. k = KRemoveDomain),
      (\<lambda>s. isPending (verifyDomain s), \<lambda>k. k = KVerifyDomain)]"
  by (rule domains.single_flightI) (simp add: domains_inv_def)

section \<open>Properties\<close>

text \<open>Adding a domain. A domain is sent only with a name that is not blank and with a tunnel; when the server
  has created it, the form is empty again, the dialog closed, the list stale, and the instructions show the name and a
  record value from the answer, with a button that copies exactly that value; if it fails, what was typed stays.\<close>

theorem domain_added:
  assumes "page_reach (Domains fmt) (s, ks, out)" and "domains_resume KAddDomain r s = (s', cs, ks')"
  shows "(\<forall>b. CallApi ''POST'' ''/v1/domains'' b \<in> set out \<longrightarrow>
       (\<exists>name tid. trim name \<noteq> '''' \<and> tid \<noteq> '''' \<and> b = json_body [(''domain'', JStr name), (''tunnel_id'', JStr tid)])) \<and>
    (case r of
       Inl err \<Rightarrow> newDomain s' = newDomain s \<and> showAdd s' = showAdd s \<and> merror (addDomain s') = Some err
     | Inr data \<Rightarrow> newDomain s' = ('''', '''') \<and> \<not> showAdd s' \<and> Invalidate [''domains''] \<in> set cs \<and>
         (truthy data \<longrightarrow>
            CopyRecord (record_value data) \<in> events (Domains_view fmt s') \<and>
            {[Lit (str_or_empty (jprop data ''domain''))], [Lit (record_value data)]} \<subseteq> set (texts (Domains_view fmt s'))))"
proof -
  have "\<exists>name tid. trim name \<noteq> '''' \<and> tid \<noteq> '''' \<and> b = json_body [(''domain'', JStr name), (''tunnel_id'', JStr tid)]"
    if "CallApi ''POST'' ''/v1/domains'' b \<in> set out" for b
    using domains.commands [OF assms(1) that] by simp
  moreover have "case r of
       Inl err \<Rightarrow> newDomain s' = newDomain s \<and> showAdd s' = showAdd s \<and> merror (addDomain s') = Some err
     | Inr data \<Rightarrow> newDomain s' = ('''', '''') \<and> \<not> showAdd s' \<and> Invalidate [''domains''] \<in> set cs \<and> showInstructions s' = data"
    using assms(2) by (cases r) (auto simp: addDomain_done_def)
  moreover have "CopyRecord (record_value (showInstructions s')) \<in> events (Domains_view fmt s')"
    "{[Lit (str_or_empty (jprop (showInstructions s') ''domain''))], [Lit (record_value (showInstructions s'))]} \<subseteq> set (texts (Domains_view fmt s'))"
    if "truthy (showInstructions s')"
    using that by (simp_all add: Domains_view_def instructions_dialog_def Let_def Dialog_def)
  ultimately show ?thesis by (cases r) auto
qed

text \<open>A session: the dialog is opened, a name typed, a tunnel chosen, and the form sent.\<close>

definition with_tunnel :: "domains_page \<Rightarrow> domains_page" where
  "with_tunnel s = s\<lparr>domainsQuery := q_success [], tunnelsQuery := q_success
     [\<lparr>tunnel_id = ''0123456789'', tunnel_name = ''web'', tunnel_protocol = ''http'', tunnel_local_port = 80, tunnel_remote_port = 443,
       tunnel_domain = None, tunnel_status = ''active'', tunnel_tags = None, tunnel_bytes_in_total = 0, tunnel_bytes_out_total = 0\<rparr>]\<rparr>"

lemma adding_reached:
  "\<exists>s out. page_reach (Domains fmt) (s, [KAddDomain], out) \<and>
     CallApi ''POST'' ''/v1/domains'' (json_body [(''domain'', JStr ''a.b''), (''tunnel_id'', JStr ''0123456789'')]) \<in> set out"
proof -
  let ?play = "[Change with_tunnel, Do OpenAdd, Do (SetDomainName ''a.b''), Do (SetTunnel ''0123456789''), Do SubmitDomain]"
  have env: "domains_env s (with_tunnel s)" for s by (auto simp: domains_env_def with_tunnel_def)
  have sel: "addDomain (with_tunnel s) = addDomain s" "addDomain domains_init = idle"
    "map fst (tunnel_options (with_tunnel s)) = ['''', ''0123456789'']" for s
    by (simp_all add: with_tunnel_def tunnel_options_def domains_init_def)
  have opts: "tunnel_options (s\<lparr>showAdd := b, newDomain := n\<rparr>) = tunnel_options s"
    "tunnel_options (s\<lparr>newDomain := n, showAdd := b\<rparr>) = tunnel_options s" for s b n by (simp_all add: tunnel_options_def)
  have offers: "OpenAdd \<in> events (Domains_view fmt s)"
    "showAdd s \<Longrightarrow> SetDomainName v \<in> events (Domains_view fmt s)"
    "showAdd s \<Longrightarrow> v \<in> set (map fst (tunnel_options s)) \<Longrightarrow> SetTunnel v \<in> events (Domains_view fmt s)"
    "showAdd s \<Longrightarrow> \<not> isPending (addDomain s) \<Longrightarrow> SubmitDomain \<in> events (Domains_view fmt s)" for s v
    by (auto simp: Domains_view_def add_dialog_def)
  have t: "trim ''a.b'' = ''a.b''" by (simp add: trim_def is_ws_def)
  have "\<exists>s out. page_play (Domains fmt) ?play (domains_init, [], [CallApi ''GET'' ''/v1/domains'' JUndef]) = Some (s, [KAddDomain], out) \<and>
     CallApi ''POST'' ''/v1/domains'' (json_body [(''domain'', JStr ''a.b''), (''tunnel_id'', JStr ''0123456789'')]) \<in> set out"
    by (simp add: env sel opts offers handleAdd_def t)
  then show ?thesis using page_play_mount [OF Domains_sel(1)] by blast
qed

theorem domain_added_witness:
  "\<exists>s s' cs ks' out. page_reach (Domains id) (s, [KAddDomain], out) \<and>
     domains_resume KAddDomain (Inr (JObj [(''domain'', JStr ''a.b''), (''tunnel_id'', JStr ''0123456789'')])) s = (s', cs, ks') \<and>
     CopyRecord ''01234567.omnitun-edge.com'' \<in> events (Domains_view id s')"
proof -
  let ?data = "JObj [(''domain'', JStr ''a.b''), (''tunnel_id'', JStr ''0123456789'')]"
  obtain s out where r: "page_reach (Domains id) (s, [KAddDomain], out)" using adding_reached by blast
  obtain s' cs ks' where d: "domains_resume KAddDomain (Inr ?data) s = (s', cs, ks')" by (metis surj_pair)
  have "record_value ?data = ''01234567.omnitun-edge.com''" by (simp add: record_value_def str_or_empty_def jprop_def nullish_def)
  with domain_added [OF r d] r d show ?thesis by auto
qed

end
