(* ===== verification/DownloadsPage.thy ===== *)
theory DownloadsPage
  imports Hooks
begin

text \<open>
  The downloads of the dashboard (\<open>pages/Downloads.tsx\<close>): platforms and file names, install commands with copy buttons, and the
  history of versions. Each copy button is a component with a state of its own, which is lost when it leaves the page; a button is
  told from its successors by a number. Texts with a default for a missing translation are translated texts here.
\<close>

section \<open>Data\<close>

record platform_arch =
  pf_os :: string
  pf_arches :: "string list"

definition platformMatrix :: "platform_arch list" where
  "platformMatrix =
     [\<lparr>pf_os = ''macOS'', pf_arches = [''amd64 (Intel)'', ''arm64 (Apple Silicon)'']\<rparr>,
      \<lparr>pf_os = ''Linux'', pf_arches = [''amd64'', ''arm64'']\<rparr>,
      \<lparr>pf_os = ''Windows'', pf_arches = [''amd64'', ''arm64'']\<rparr>]"

record version_release =
  vr_version :: string
  vr_date :: string
  vr_changes :: "string list"
  vr_latest :: bool

definition release :: "string \<Rightarrow> string \<Rightarrow> bool \<Rightarrow> string list \<Rightarrow> version_release" where
  "release v d l cs = \<lparr>vr_version = v, vr_date = d, vr_changes = cs, vr_latest = l\<rparr>"

definition versions :: "version_release list" where
  "versions =
     [release ''v1.3.0'' ''2026-05-15'' True
        [''Mesh network topology visualization'', ''Webhook delivery retry with configurable backoff'', ''DNS verification status auto-refresh''],
      release ''v1.2.1'' ''2026-04-28'' False
        [''Fix TLS certificate renewal for custom domains'', ''Improve tunnel reconnection stability under high load''],
      release ''v1.2.0'' ''2026-04-10'' False
        [''Custom domain support with automatic DNS verification'', ''Batch tunnel operations (start/stop/delete)'', ''Request inspector waterfall view''],
      release ''v1.1.0'' ''2026-03-20'' False
        [''Mesh networking with WireGuard integration'', ''OAuth / SAML SSO for enterprise authentication'', ''Command palette with search''],
      release ''v1.0.0'' ''2026-02-14'' False
        [''Initial release'', ''TCP / HTTP / HTTPS tunnel support'', ''Web dashboard with real-time traffic'', ''CLI tool with install scripts'']]"

definition cliVersion :: string where
  "cliVersion = (case find vr_latest versions of None \<Rightarrow> ''v1.3.0'' | Some v \<Rightarrow> vr_version v)"

text \<open>Install commands: the label of a row and its text.\<close>

definition macCodes :: "(string \<times> string) list" where
  "macCodes = [(''curl'', ''curl -fsSL https://cli.omnitun.dev/install.sh | bash''), (''brew'', ''brew install omnitun/tap/omnitun'')]"

definition linuxCodes :: "(string \<times> string) list" where
  "linuxCodes = [(''curl'', ''curl -fsSL https://cli.omnitun.dev/install.sh | bash''), (''apt'', ''sudo apt-get install omnitun'')]"

definition winCodes :: "(string \<times> string) list" where
  "winCodes = [(''PowerShell'', ''irm https://cli.omnitun.dev/install.ps1 | iex''), (''winget'', ''winget install OmniTun.CLI''), (''choco'', ''choco install omnitun'')]"

definition getInstallCommands :: "string \<Rightarrow> (string \<times> string) list" where
  "getInstallCommands os =
     (if os = ''macOS'' then macCodes else if os = ''Linux'' then linuxCodes else if os = ''Windows'' then winCodes else macCodes)"

text \<open>The commands with a button of their own, whatever is selected.\<close>

definition fixedCodes :: "string list" where
  "fixedCodes = [''omnitun version'', ''omnitun login'', ''omnitun tunnel create my-api --protocol http --port 3000'', ''omnitun tunnel list'']"

section \<open>File names\<close>

text \<open>\<open>replace(/ \(.*\)/, '')\<close>: the first place where a blank and a parenthesis open and a parenthesis closes on the same line
  goes, up to the last parenthesis that closes.\<close>

definition on_line :: "char \<Rightarrow> bool" where
  "on_line c \<longleftrightarrow> (of_char c :: nat) \<notin> {10, 13}"

fun drop_parens :: "string \<Rightarrow> string" where
  "drop_parens [] = []"
| "drop_parens (c # cs) =
     (let body = takeWhile on_line (tl cs) in
      if c = CHR '' '' \<and> cs \<noteq> [] \<and> hd cs = CHR ''('' \<and> CHR '')'' \<in> set body
      then rev (takeWhile (\<lambda>x. x \<noteq> CHR '')'') (rev body)) @ drop (length body) (tl cs)
      else c # drop_parens cs)"

definition getPlatformFilename :: "string \<Rightarrow> string \<Rightarrow> string" where
  "getPlatformFilename os arch =
     (let ext = (if os = ''Windows'' then ''.zip'' else ''.tar.gz'') in
      ''omnitun_'' @ cliVersion @ ''_'' @ to_lower os @ ''_'' @ drop_parens arch @ ext)"

section \<open>The page\<close>

text \<open>A copy button is the row of an install command, by its label, or the place of a fixed command.\<close>

datatype copy_button = InstallRow string | FixedRow nat

record downloads_page =
  selectedOS :: string
  born :: "copy_button \<Rightarrow> nat"
  copied_buttons :: "(copy_button \<times> nat) list"
  openVersions :: "string list"

definition downloads_init :: downloads_page where
  "downloads_init = \<lparr>selectedOS = ''macOS'', born = (\<lambda>_. 0), copied_buttons = [], openVersions = []\<rparr>"

datatype downloads_ev = SelectOS string | ClickCopy copy_button string | ToggleVersion string

datatype downloads_k = KUncopy copy_button nat

text \<open>A row that stays on the page, by its key, keeps its component; the others get a new one.\<close>

definition selectOS :: "string \<Rightarrow> downloads_page \<Rightarrow> downloads_page" where
  "selectOS os s =
     (let old = map fst (getInstallCommands (selectedOS s)); new = map fst (getInstallCommands os) in
      s\<lparr>selectedOS := os,
        born := (\<lambda>b. case b of InstallRow l \<Rightarrow> if l \<in> set new \<and> l \<notin> set old then Suc (born s b) else born s b | FixedRow n \<Rightarrow> born s b)\<rparr>)"

definition handleCopyCommand :: "copy_button \<Rightarrow> string \<Rightarrow> downloads_page \<Rightarrow> (downloads_page, downloads_k) effect" where
  "handleCopyCommand b txt s =
     (s\<lparr>copied_buttons := (b, born s b) # copied_buttons s\<rparr>, [CopyText txt], [KUncopy b (born s b)])"

definition toggleVersion :: "string \<Rightarrow> downloads_page \<Rightarrow> downloads_page" where
  "toggleVersion v s = s\<lparr>openVersions := (if v \<in> set (openVersions s) then set_delete v (openVersions s) else v # openVersions s)\<rparr>"

fun downloads_user :: "downloads_ev \<Rightarrow> downloads_page \<Rightarrow> (downloads_page, downloads_k) effect" where
  "downloads_user (SelectOS os) s = (selectOS os s, [], [])"
| "downloads_user (ClickCopy b txt) s = handleCopyCommand b txt s"
| "downloads_user (ToggleVersion v) s = (toggleVersion v s, [], [])"

fun downloads_resume :: "downloads_k \<Rightarrow> result \<Rightarrow> downloads_page \<Rightarrow> (downloads_page, downloads_k) effect" where
  "downloads_resume (KUncopy b n) r s = (s\<lparr>copied_buttons := filter (\<lambda>x. x \<noteq> (b, n)) (copied_buttons s)\<rparr>, [], [])"

section \<open>View\<close>

definition CopyButton :: "downloads_page \<Rightarrow> copy_button \<Rightarrow> string \<Rightarrow> downloads_ev ui" where
  "CopyButton s b txt =
     Button False (ClickCopy b txt) [Node (if (b, born s b) \<in> set (copied_buttons s) then ''Check'' else ''Copy'') []]"

definition InstallCode :: "downloads_page \<Rightarrow> string \<times> string \<Rightarrow> downloads_ev ui" where
  "InstallCode s c = Node ''div'' [Say [Lit (fst c)], Node ''code'' [Say [Lit (snd c)]], CopyButton s (InstallRow (fst c)) (snd c)]"

definition fixed_row :: "downloads_page \<Rightarrow> nat \<Rightarrow> downloads_ev ui" where
  "fixed_row s n = (let c = fixedCodes ! n in Node ''div'' [Node ''code'' [Say [Lit c]], CopyButton s (FixedRow n) c])"

definition version_entry :: "downloads_page \<Rightarrow> version_release \<Rightarrow> downloads_ev ui" where
  "version_entry s v =
     (let isOpen = vr_version v \<in> set (openVersions s) in
      Node ''div''
       [Button False (ToggleVersion (vr_version v))
          [Node (if isOpen then ''ChevronDown'' else ''ChevronRight'') [], Say [Lit (vr_version v)],
           only_if (vr_latest v) (Node ''Badge'' [Say [Lit ''latest'']]), Say [Lit (vr_date v)]],
        only_if isOpen (Node ''ul'' (map (\<lambda>c. Node ''li'' [Say [Lit c]]) (vr_changes v)))])"

definition VersionHistory :: "downloads_page \<Rightarrow> downloads_ev ui" where
  "VersionHistory s = Node ''Card'' [Say [Lit ''Version History''], Node ''div'' (map (version_entry s) versions)]"

definition os_buttons :: "downloads_page \<Rightarrow> downloads_ev ui" where
  "os_buttons s = Node ''div'' (map (\<lambda>p. Button False (SelectOS (pf_os p))
     [Node (if selectedOS s = pf_os p then ''selected'' else '''') [Say [Lit (pf_os p)]]]) platformMatrix)"

definition selected_platform :: "downloads_page \<Rightarrow> platform_arch" where
  "selected_platform s = (case find (\<lambda>p. pf_os p = selectedOS s) platformMatrix of None \<Rightarrow> hd platformMatrix | Some p \<Rightarrow> p)"

text \<open>The button next to a file name has no handler.\<close>

definition platform_card :: "downloads_page \<Rightarrow> downloads_ev ui" where
  "platform_card s = Node ''Card''
     (Say [Lit (selectedOS s)] #
      map (\<lambda>a. Node ''div'' [Say [Lit a], Say [Lit (getPlatformFilename (selectedOS s) a)], Node ''Button'' [Say [Lit ''Download'']]])
        (pf_arches (selected_platform s)))"

definition install_card :: "downloads_page \<Rightarrow> downloads_ev ui" where
  "install_card s = Node ''Card''
     (Say [Lit ''Install''] # map (InstallCode s) (getInstallCommands (selectedOS s)) @
      [Say [Lit ''After installation, verify with:''], fixed_row s 0])"

definition quick_start :: "downloads_page \<Rightarrow> downloads_ev ui" where
  "quick_start s = Node ''Card''
     [Say (tr ''downloads.quick_start''),
      Say [Lit ''1. Authenticate''], fixed_row s 1, Say [Lit ''2. Create a tunnel''], fixed_row s 2, Say [Lit ''3. View status''], fixed_row s 3]"

definition Downloads_view :: "downloads_page \<Rightarrow> downloads_ev ui" where
  "Downloads_view s = Node ''div''
     [Node ''h1'' [Say (tr ''downloads.title'')], Node ''p'' [Say (tr ''downloads.subtitle'')],
      os_buttons s, platform_card s, install_card s, quick_start s, VersionHistory s]"

definition Downloads :: "(downloads_page, downloads_ev, downloads_k) page" where
  "Downloads =
     \<lparr>pg_mount = (downloads_init, [], []), pg_view = Downloads_view, pg_user = downloads_user, pg_resume = downloads_resume,
      pg_env = (\<lambda>s s'. False)\<rparr>"

lemma Downloads_sel [simp]:
  "pg_mount Downloads = (downloads_init, [], [])" "pg_view Downloads = Downloads_view" "pg_user Downloads = downloads_user"
  "pg_resume Downloads = downloads_resume" "\<not> pg_env Downloads s s'"
  by (simp_all add: Downloads_def)

section \<open>Contract\<close>

text \<open>The platform is one of the matrix, and a button shows its mark only while a timer will take it away.\<close>

definition downloads_inv :: "downloads_page \<Rightarrow> downloads_k list \<Rightarrow> bool" where
  "downloads_inv s ks \<longleftrightarrow>
     selectedOS s \<in> pf_os ` set platformMatrix \<and> (\<forall>(b, n) \<in> set (copied_buttons s). KUncopy b n \<in> set ks)"

fun downloads_guard :: "downloads_page \<Rightarrow> downloads_ev \<Rightarrow> bool" where
  "downloads_guard s (SelectOS os) = (os \<in> pf_os ` set platformMatrix)"
| "downloads_guard s (ClickCopy b txt) = (txt \<in> set fixedCodes \<union> snd ` set (getInstallCommands (selectedOS s)))"
| "downloads_guard s (ToggleVersion v) = (v \<in> vr_version ` set versions)"

text \<open>The page sends nothing; what it copies are commands it shows.\<close>

definition all_codes :: "string list" where
  "all_codes = fixedCodes @ map snd (macCodes @ linuxCodes @ winCodes)"

definition downloads_cmd_ok :: "cmd \<Rightarrow> bool" where
  "downloads_cmd_ok c \<longleftrightarrow> (\<exists>t \<in> set all_codes. c = CopyText t)"

lemma events_CopyButton [simp]: "events (CopyButton s b txt) = {ClickCopy b txt}"
  by (simp add: CopyButton_def)

lemma length_fixedCodes: "length fixedCodes = 4"
  by (simp add: fixedCodes_def)

lemma fixed_row_events: "n < 4 \<Longrightarrow> e \<in> events (fixed_row s n) \<Longrightarrow> downloads_guard s e"
  by (auto simp: fixed_row_def Let_def length_fixedCodes)

lemma install_row_events: "c \<in> set (getInstallCommands (selectedOS s)) \<Longrightarrow> e \<in> events (InstallCode s c) \<Longrightarrow> downloads_guard s e"
  by (cases c) (force simp: InstallCode_def)

lemma version_entry_events [simp]: "events (version_entry s v) = {ToggleVersion (vr_version v)}"
  by (auto simp: version_entry_def Let_def)

lemma downloads_offered: "e \<in> events (Downloads_view s) \<Longrightarrow> downloads_guard s e"
proof -
  assume "e \<in> events (Downloads_view s)"
  then consider "e \<in> events (os_buttons s)" | "e \<in> events (install_card s)" | "e \<in> events (quick_start s)" | "e \<in> events (VersionHistory s)"
    by (auto simp: Downloads_view_def platform_card_def)
  then show ?thesis
  proof cases
    case 2
    then show ?thesis using fixed_row_events [of 0] install_row_events by (auto simp: install_card_def)
  next
    case 3
    then show ?thesis using fixed_row_events [of 1] fixed_row_events [of 2] fixed_row_events [of 3] by (auto simp: quick_start_def)
  qed (auto simp: os_buttons_def VersionHistory_def)
qed

lemma install_all: "txt \<in> snd ` set (getInstallCommands os) \<Longrightarrow> txt \<in> set all_codes"
  by (auto simp: getInstallCommands_def all_codes_def split: if_splits)

lemma downloads_user_inv:
  assumes "downloads_inv s ks" and "downloads_guard s e"
  shows "downloads_inv (fst (downloads_user e s)) (ks @ snd (snd (downloads_user e s)))"
    and "list_all downloads_cmd_ok (fst (snd (downloads_user e s)))"
proof -
  show "downloads_inv (fst (downloads_user e s)) (ks @ snd (snd (downloads_user e s)))"
    using assms by (cases e) (auto simp: downloads_inv_def selectOS_def handleCopyCommand_def toggleVersion_def Let_def)
  show "list_all downloads_cmd_ok (fst (snd (downloads_user e s)))"
    using assms(2) install_all by (cases e) (auto simp: handleCopyCommand_def downloads_cmd_ok_def all_codes_def)
qed

lemma downloads_resume_inv:
  assumes "downloads_inv s (ks1 @ k # ks2)"
  shows "downloads_inv (fst (downloads_resume k r s)) (ks1 @ ks2 @ snd (snd (downloads_resume k r s)))"
    and "list_all downloads_cmd_ok (fst (snd (downloads_resume k r s)))"
  using assms by (cases k; auto simp: downloads_inv_def)+

lemma downloads_mounted: "downloads_inv downloads_init []"
  by (simp add: downloads_inv_def downloads_init_def platformMatrix_def)

interpretation downloads: page_guarded Downloads downloads_inv downloads_guard downloads_cmd_ok
  by unfold_locales (simp_all add: downloads_mounted downloads_user_inv downloads_resume_inv, erule downloads_offered)

section \<open>Properties\<close>

lemma latest_release: "cliVersion = ''v1.3.0''" "find vr_latest versions = Some (hd versions)"
  by (simp_all add: cliVersion_def versions_def release_def)

text \<open>A text without a parenthesis that closes is left as it is; one in parentheses at the end goes.\<close>

lemma in_set_tlD: "x \<in> set (tl xs) \<Longrightarrow> x \<in> set xs"
  by (cases xs) simp_all

lemma drop_parens_id: "CHR '')'' \<notin> set s \<Longrightarrow> drop_parens s = s"
  by (induction s rule: drop_parens.induct) (auto simp: Let_def dest!: set_takeWhileD in_set_tlD)

definition file_names :: "string list" where
  "file_names = concat (map (\<lambda>p. map (getPlatformFilename (pf_os p)) (pf_arches p)) platformMatrix)"

text \<open>The files of all platforms: their names are different, and free of blanks and parentheses.\<close>

lemma file_names_eq:
  "file_names = map (\<lambda>n. ''omnitun_v1.3.0_'' @ n) [''macos_amd64.tar.gz'', ''macos_arm64.tar.gz'', ''linux_amd64.tar.gz'', ''linux_arm64.tar.gz'',
     ''windows_amd64.zip'', ''windows_arm64.zip'']"
  by code_simp

lemma file_names_sound: "distinct file_names \<and> (\<forall>f \<in> set file_names. \<forall>c \<in> set f. c \<notin> {CHR '' '', CHR ''('', CHR '')''})"
  unfolding file_names_eq by simp

text \<open>In every reachable state the page shows the files of the platform that is selected, and the commands it copies are
  commands that it shows.\<close>

theorem downloads_shown:
  assumes "page_reach Downloads (s, ks, out)"
  shows "(\<exists>p \<in> set platformMatrix. pf_os p = selectedOS s \<and> selected_platform s = p \<and>
      (\<forall>a \<in> set (pf_arches p). getPlatformFilename (selectedOS s) a \<in> set file_names)) \<and>
    (\<forall>c \<in> set out. \<exists>t \<in> set all_codes. c = CopyText t)"
proof -
  have "selectedOS s \<in> pf_os ` set platformMatrix" using downloads.reachable [OF assms] by (simp add: downloads_inv_def)
  then obtain p where p: "p \<in> set platformMatrix" "pf_os p = selectedOS s" by auto
  have "find (\<lambda>q. pf_os q = selectedOS s) platformMatrix = Some p"
    using p(1) by (auto simp: platformMatrix_def p(2) [symmetric])
  then have "selected_platform s = p" by (simp add: selected_platform_def)
  moreover have "\<forall>a \<in> set (pf_arches p). getPlatformFilename (selectedOS s) a \<in> set file_names"
    using p(1) unfolding p(2) [symmetric] by (auto simp: file_names_def)
  ultimately show ?thesis using p downloads.commands [OF assms] by (auto simp: downloads_cmd_ok_def)
qed

text \<open>A mark of a row that was copied and then left the page is gone when the row comes back, also before its timer ends.\<close>

lemma copied_mark_forgotten:
  assumes "l \<in> set (map fst (getInstallCommands os))" and "l \<notin> set (map fst (getInstallCommands (selectedOS s)))"
    and "\<forall>(b, n) \<in> set (copied_buttons s). n \<le> born s b"
  shows "(InstallRow l, born (selectOS os s) (InstallRow l)) \<notin> set (copied_buttons (selectOS os s))"
  using assms by (auto simp: selectOS_def Let_def)

end
