(* ===== verification/FeatureFlagsPage.thy ===== *)
theory FeatureFlagsPage
  imports Hooks UrlCoding
begin

text \<open>
  The feature flags of the admin console (\<open>pages/FeatureFlags.tsx\<close>). As with the roles the page keeps its list itself and
  loads it after each change; the cast of the answer is the argument \<open>as_flags\<close>. A flag is named by its key.
\<close>

section \<open>State\<close>

record feature_flag =
  flag_id :: string
  flag_key :: string
  flag_name :: string
  flag_description :: string
  flag_type :: string
  flag_value :: string
  flag_enabled :: bool

record flags_page =
  flags_list :: "feature_flag list"
  flags_loading :: bool
  flagDialogOpen :: bool
  editingFlag :: "feature_flag option"
  formKey :: string
  formName :: string
  formDesc :: string
  formType :: string
  formValue :: string
  formEnabled :: bool
  flagSaving :: bool

definition value_boolean :: string where
  "value_boolean = ''{'' @ quoted ''enabled'' @ '':true}''"

definition value_percentage :: string where
  "value_percentage = ''{'' @ quoted ''percentage'' @ '':50}''"

definition value_whitelist :: string where
  "value_whitelist = ''{'' @ quoted ''orgs'' @ '':[]}''"

definition flags_init :: flags_page where
  "flags_init = \<lparr>flags_list = [], flags_loading = True, flagDialogOpen = False, editingFlag = None, formKey = '''', formName = '''',
     formDesc = '''', formType = ''boolean'', formValue = value_boolean, formEnabled = True, flagSaving = False\<rparr>"

datatype flags_ev =
    NewFlag | EditFlag feature_flag | CloseFlag | SetFlagKey string | SetFlagName string | SetFlagDesc string | SetFlagType string
  | SetFlagValue string | ToggleFormEnabled | SaveFlag | ToggleFlag feature_flag | DeleteFlag feature_flag bool

datatype flags_k = KFetchFlags | KSaveFlag | KToggleFlag | KDeleteFlag

section \<open>Handlers\<close>

abbreviation flags_path :: string where
  "flags_path \<equiv> ''/api/admin/v1/feature-flags''"

definition flag_path :: "string \<Rightarrow> string" where
  "flag_path k = flags_path @ ''/'' @ encodeURIComponent k"

definition fetchFlags :: "flags_page \<Rightarrow> (flags_page, flags_k) effect" where
  "fetchFlags s = (s\<lparr>flags_loading := True\<rparr>, [CallApi ''GET'' flags_path JUndef], [KFetchFlags])"

definition fetchFlags_done :: "(json \<Rightarrow> feature_flag list) \<Rightarrow> result \<Rightarrow> flags_page \<Rightarrow> flags_page" where
  "fetchFlags_done as_flags r s =
     (case r of
        Inl err \<Rightarrow> s\<lparr>flags_list := [], flags_loading := False\<rparr>
      | Inr data \<Rightarrow>
          s\<lparr>flags_list := (if \<not> nullish data \<and> truthy (jprop data ''flags'') then as_flags (jprop data ''flags'') else []),
            flags_loading := False\<rparr>)"

definition flags_openCreate :: "flags_page \<Rightarrow> flags_page" where
  "flags_openCreate s = s\<lparr>editingFlag := None, formKey := '''', formName := '''', formDesc := '''', formType := ''boolean'',
     formValue := value_boolean, formEnabled := True, flagDialogOpen := True\<rparr>"

definition flags_openEdit :: "feature_flag \<Rightarrow> flags_page \<Rightarrow> flags_page" where
  "flags_openEdit f s = s\<lparr>editingFlag := Some f, formKey := flag_key f, formName := flag_name f, formDesc := flag_description f,
     formType := flag_type f, formValue := flag_value f, formEnabled := flag_enabled f, flagDialogOpen := True\<rparr>"

definition flag_body :: "string \<Rightarrow> string \<Rightarrow> string \<Rightarrow> string \<Rightarrow> string \<Rightarrow> bool \<Rightarrow> json" where
  "flag_body key name desc ty vl enabled = json_body
     [(''key'', JStr key), (''name'', JStr name), (''description'', JStr desc), (''type'', JStr ty), (''value'', JStr vl),
      (''enabled'', JBool enabled)]"

definition handleSaveFlag :: "flags_page \<Rightarrow> (flags_page, flags_k) effect" where
  "handleSaveFlag s =
     (if trim (formKey s) = '''' \<or> trim (formName s) = '''' then (s, [], [])
      else let b = flag_body (trim (formKey s)) (trim (formName s)) (trim (formDesc s)) (formType s) (formValue s) (formEnabled s) in
        (s\<lparr>flagSaving := True\<rparr>,
         [case editingFlag s of Some f \<Rightarrow> CallApi ''PUT'' (flag_path (flag_key f)) b | None \<Rightarrow> CallApi ''POST'' flags_path b], [KSaveFlag]))"

text \<open>A failure is swallowed: nothing is shown.\<close>

definition handleSaveFlag_done :: "result \<Rightarrow> flags_page \<Rightarrow> (flags_page, flags_k) effect" where
  "handleSaveFlag_done r s =
     (case r of
        Inl err \<Rightarrow> (s\<lparr>flagSaving := False\<rparr>, [], [])
      | Inr v \<Rightarrow> (case fetchFlags (s\<lparr>flagDialogOpen := False\<rparr>) of (s1, cs, ks) \<Rightarrow> (s1\<lparr>flagSaving := False\<rparr>, cs, ks)))"

definition toggle_call :: "feature_flag \<Rightarrow> cmd" where
  "toggle_call f = CallApi ''PUT'' (flag_path (flag_key f))
     (flag_body (flag_key f) (flag_name f) (flag_description f) (flag_type f) (flag_value f) (\<not> flag_enabled f))"

definition refetch_done :: "result \<Rightarrow> flags_page \<Rightarrow> (flags_page, flags_k) effect" where
  "refetch_done r s = (case r of Inl err \<Rightarrow> (s, [], []) | Inr v \<Rightarrow> fetchFlags s)"

definition setFlagType :: "string \<Rightarrow> flags_page \<Rightarrow> flags_page" where
  "setFlagType v s = s\<lparr>formType := v,
     formValue := (if v = ''boolean'' then value_boolean else if v = ''percentage'' then value_percentage
       else if v = ''whitelist'' then value_whitelist else formValue s)\<rparr>"

fun flags_user :: "flags_ev \<Rightarrow> flags_page \<Rightarrow> (flags_page, flags_k) effect" where
  "flags_user NewFlag s = (flags_openCreate s, [], [])"
| "flags_user (EditFlag f) s = (flags_openEdit f s, [], [])"
| "flags_user CloseFlag s = (s\<lparr>flagDialogOpen := False\<rparr>, [], [])"
| "flags_user (SetFlagKey v) s = (s\<lparr>formKey := v\<rparr>, [], [])"
| "flags_user (SetFlagName v) s = (s\<lparr>formName := v\<rparr>, [], [])"
| "flags_user (SetFlagDesc v) s = (s\<lparr>formDesc := v\<rparr>, [], [])"
| "flags_user (SetFlagType v) s = (setFlagType v s, [], [])"
| "flags_user (SetFlagValue v) s = (s\<lparr>formValue := v\<rparr>, [], [])"
| "flags_user ToggleFormEnabled s = (s\<lparr>formEnabled := \<not> formEnabled s\<rparr>, [], [])"
| "flags_user SaveFlag s = handleSaveFlag s"
| "flags_user (ToggleFlag f) s = (s, [toggle_call f], [KToggleFlag])"
| "flags_user (DeleteFlag f ok) s = (if \<not> ok then (s, [], []) else (s, [CallApi ''DELETE'' (flag_path (flag_key f)) JUndef], [KDeleteFlag]))"

fun flags_resume :: "(json \<Rightarrow> feature_flag list) \<Rightarrow> flags_k \<Rightarrow> result \<Rightarrow> flags_page \<Rightarrow> (flags_page, flags_k) effect" where
  "flags_resume asf KFetchFlags r s = (fetchFlags_done asf r s, [], [])"
| "flags_resume asf KSaveFlag r s = handleSaveFlag_done r s"
| "flags_resume asf KToggleFlag r s = refetch_done r s"
| "flags_resume asf KDeleteFlag r s = refetch_done r s"

section \<open>View\<close>

definition flag_row :: "feature_flag \<Rightarrow> flags_ev ui" where
  "flag_row f = Node ''TableRow''
     [Node ''code'' [Say [Lit (flag_key f)]],
      Node ''TableCell'' [Say [Lit (flag_name f)], only_if (flag_description f \<noteq> '''') (Say [Lit (flag_description f)])],
      Node ''Badge'' [Say [Lit (flag_type f)]], Button False (ToggleFlag f) [Node (if flag_enabled f then ''on'' else ''off'') []],
      Button False (EditFlag f) [], confirm_button False (DeleteFlag f)]"

definition flags_table :: "flags_page \<Rightarrow> flags_ev ui" where
  "flags_table s =
     (if flags_loading s then Node ''CardContent'' (replicate 3 (Node ''Skeleton'' []))
      else Node ''Table''
       [head_row [''featureFlags.key'', ''featureFlags.name'', ''featureFlags.type'', ''common.status'', ''featureFlags.actions''],
        Node ''TableBody'' (only_if (flags_list s = []) (Node ''TableRow'' [Say (tr ''featureFlags.noFlags'')]) # map flag_row (flags_list s))])"

definition flag_dialog :: "flags_page \<Rightarrow> flags_ev ui" where
  "flag_dialog s = only_if (flagDialogOpen s) (Node ''div''
     [Say (tr (if editingFlag s \<noteq> None then ''featureFlags.editFlag'' else ''featureFlags.createFlag'')),
      Input (tr ''featureFlags.key'') (formKey s) [] (editingFlag s \<noteq> None) SetFlagKey,
      Input (tr ''featureFlags.name'') (formName s) [] False SetFlagName,
      Input (tr ''featureFlags.description'') (formDesc s) [] False SetFlagDesc,
      Node ''label'' [Say (tr ''featureFlags.type'')],
      Select (formType s) (map (\<lambda>v. (v, tr (''featureFlags.'' @ v))) [''boolean'', ''percentage'', ''whitelist'']) SetFlagType,
      Node ''label'' [Say (tr ''featureFlags.value'')], Field [] (formValue s) False SetFlagValue,
      Say (tr ''common.enabled''), Button False ToggleFormEnabled [Node (if formEnabled s then ''on'' else ''off'') []],
      Button False CloseFlag [Say (tr ''common.cancel'')],
      Button (flagSaving s) SaveFlag [Say (tr (if flagSaving s then ''common.saving'' else ''common.save''))]])"

definition FeatureFlags_view :: "flags_page \<Rightarrow> flags_ev ui" where
  "FeatureFlags_view s = Node ''div''
     [Node ''h1'' [Say (tr ''featureFlags.title'')],
      Node ''p'' [Say [Tr ''featureFlags.subtitle'' [(''count'', JNum (int (length (flags_list s))))]]],
      Button False NewFlag [Say (tr ''featureFlags.newFlag'')], flags_table s, flag_dialog s]"

definition FeatureFlags :: "(json \<Rightarrow> feature_flag list) \<Rightarrow> (flags_page, flags_ev, flags_k) page" where
  "FeatureFlags as_flags =
     \<lparr>pg_mount = fetchFlags flags_init, pg_view = FeatureFlags_view, pg_user = flags_user, pg_resume = flags_resume as_flags, pg_env = (\<lambda>s s'. False)\<rparr>"

lemma FeatureFlags_sel [simp]:
  "pg_mount (FeatureFlags asf) = (flags_init, [CallApi ''GET'' flags_path JUndef], [KFetchFlags])" "pg_view (FeatureFlags asf) = FeatureFlags_view"
  "pg_user (FeatureFlags asf) = flags_user" "pg_resume (FeatureFlags asf) = flags_resume asf" "pg_env (FeatureFlags asf) s s' = False"
  by (simp_all add: FeatureFlags_def fetchFlags_def flags_init_def)

section \<open>Invariant\<close>

text \<open>While a flag is edited its key stays in the form: the field is disabled.\<close>

definition flags_inv :: "flags_page \<Rightarrow> flags_k list \<Rightarrow> bool" where
  "flags_inv s ks \<longleftrightarrow>
     flags (flagSaving s) (\<lambda>k. k = KSaveFlag) ks \<and> (\<forall>f. editingFlag s = Some f \<longrightarrow> formKey s = flag_key f)"

fun flags_guard :: "flags_page \<Rightarrow> flags_ev \<Rightarrow> bool" where
  "flags_guard s SaveFlag = (\<not> flagSaving s)"
| "flags_guard s (SetFlagKey v) = (editingFlag s = None)"
| "flags_guard s (ToggleFlag f) = (f \<in> set (flags_list s))"
| "flags_guard s _ = True"

text \<open>A change names in its body the flag of its path, up to the spaces around the key.\<close>

fun flags_cmd_ok :: "cmd \<Rightarrow> bool" where
  "flags_cmd_ok (CallApi m p b) =
     (if m = ''PUT'' then (\<exists>k k' name desc ty vl en. p = flag_path k \<and> trim k' = trim k \<and> b = flag_body k' name desc ty vl en)
      else if m = ''DELETE'' then (\<exists>k. p = flag_path k \<and> b = JUndef)
      else p = flags_path)"
| "flags_cmd_ok _ = True"

lemma flags_offered: "e \<in> events (FeatureFlags_view s) \<Longrightarrow> flags_guard s e"
  by (auto simp: FeatureFlags_view_def flags_table_def flag_row_def flag_dialog_def split: if_splits)

lemmas flags_handlers = flags_openCreate_def flags_openEdit_def handleSaveFlag_def handleSaveFlag_done_def refetch_done_def setFlagType_def
  fetchFlags_def fetchFlags_done_def Let_def

lemma flags_user_inv:
  assumes "flags_inv s ks" and "flags_guard s e"
  shows "flags_inv (fst (flags_user e s)) (ks @ snd (snd (flags_user e s)))" and "list_all flags_cmd_ok (fst (snd (flags_user e s)))"
proof -
  show "flags_inv (fst (flags_user e s)) (ks @ snd (snd (flags_user e s)))"
    using assms by (cases e) (auto simp: flags_inv_def flags_def flags_handlers)
  show "list_all flags_cmd_ok (fst (snd (flags_user e s)))"
  proof (cases e)
    case SaveFlag
    have "\<exists>k' name desc ty vl en. trim k' = trim (formKey s) \<and>
        flag_body (trim (formKey s)) (trim (formName s)) (trim (formDesc s)) (formType s) (formValue s) (formEnabled s) = flag_body k' name desc ty vl en"
      using trim_trim by blast
    with assms(1) SaveFlag show ?thesis by (auto simp: handleSaveFlag_def flags_inv_def Let_def split: option.split, blast)
  next
    case (ToggleFlag f)
    then show ?thesis by (simp add: toggle_call_def) blast
  qed auto
qed

lemma flags_resume_inv:
  assumes "flags_inv s (ks1 @ k # ks2)"
  shows "flags_inv (fst (flags_resume asf k r s)) (ks1 @ ks2 @ snd (snd (flags_resume asf k r s)))"
    and "list_all flags_cmd_ok (fst (snd (flags_resume asf k r s)))"
  using assms by (cases k; cases r; auto simp: flags_inv_def flags_def flags_handlers split: if_splits)+

lemma flags_mounted: "flags_inv flags_init [KFetchFlags]" "flags_cmd_ok (CallApi ''GET'' flags_path JUndef)"
  by (simp_all add: flags_inv_def flags_init_def flags_def)

interpretation feature_flags: page_guarded "FeatureFlags asf" flags_inv flags_guard flags_cmd_ok for asf
  by unfold_locales (simp_all add: flags_mounted flags_user_inv flags_resume_inv del: flags_cmd_ok.simps, erule flags_offered)

section \<open>Properties\<close>

text \<open>A change reaches the flag it names. Every request that changes a flag goes to one segment below the list, from
  which the server reads back a key, and its body carries that key, up to spaces around it.\<close>

theorem flag_changes_addressed:
  assumes "page_reach (FeatureFlags asf) (s, ks, out)" and "CallApi ''PUT'' p b \<in> set out"
  shows "\<exists>e k k'. p = flags_path @ ''/'' @ e \<and> set e \<inter> set ''/?#& '' = {} \<and> decodeURIComponent e = Some k \<and>
    jprop b ''key'' = JStr k' \<and> trim k' = trim k"
proof -
  from feature_flags.commands [OF assms] obtain k k' name desc ty vl en where
    c: "p = flag_path k" "trim k' = trim k" "b = flag_body k' name desc ty vl en" by auto
  have "set (encodeURIComponent k) \<inter> set ''/?#& '' = {}" using encodeURIComponent_safe delimiters_reserved by auto
  then show ?thesis
    using c decode_encode [of k] by (intro exI [of _ "encodeURIComponent k"] exI [of _ k] exI [of _ k'])
      (simp add: flag_path_def flag_body_def json_body_def jprop_def)
qed

lemma toggle_offered: "\<not> flags_loading s \<Longrightarrow> f \<in> set (flags_list s) \<Longrightarrow> ToggleFlag f \<in> events (FeatureFlags_view s)"
  by (auto simp: FeatureFlags_view_def flags_table_def flag_row_def)

lemma toggle_call_enabled: "\<exists>p b. toggle_call f = CallApi ''PUT'' p b \<and> jprop b ''enabled'' = JBool (\<not> flag_enabled f)"
  by (simp add: toggle_call_def flag_body_def json_body_def jprop_def)

lemma flags_loaded:
  "truthy v \<Longrightarrow> fetchFlags_done asf (Inr (JObj [(''flags'', v)])) s = s\<lparr>flags_list := asf v, flags_loading := False\<rparr>"
  by (simp add: fetchFlags_done_def nullish_def jprop_def)

text \<open>Two quick clicks on a switch do not cancel out. The switch is not disabled while its change is in flight, and
  what it sends is the opposite of the state the list shows, so that both clicks ask for the same state and the flag ends
  up switched.\<close>

theorem double_toggle_switches:
  assumes "f \<in> set (asf v)" and "truthy v"
  shows "\<exists>s ks out. page_reach (FeatureFlags asf) (s, ks @ [KToggleFlag, KToggleFlag], out @ [toggle_call f, toggle_call f]) \<and>
    (\<exists>p b. toggle_call f = CallApi ''PUT'' p b \<and> jprop b ''enabled'' = JBool (\<not> flag_enabled f))"
proof -
  have "page_play (FeatureFlags asf) [Answer 0 (Inr (JObj [(''flags'', v)])), Do (ToggleFlag f), Do (ToggleFlag f)]
      (flags_init, [KFetchFlags], [CallApi ''GET'' flags_path JUndef]) =
    Some (flags_init\<lparr>flags_list := asf v, flags_loading := False\<rparr>, [] @ [KToggleFlag, KToggleFlag],
      [CallApi ''GET'' flags_path JUndef] @ [toggle_call f, toggle_call f])"
    using assms toggle_offered by (simp add: flags_loaded)
  from page_play_mount [OF FeatureFlags_sel(1) this] toggle_call_enabled show ?thesis by blast
qed

definition sample_flag :: feature_flag where
  "sample_flag = \<lparr>flag_id = ''1'', flag_key = ''beta/ui'', flag_name = ''Beta'', flag_description = '''', flag_type = ''boolean'',
     flag_value = value_boolean, flag_enabled = False\<rparr>"

theorem double_toggle_switches_witness:
  "\<exists>s ks out. page_reach (FeatureFlags (\<lambda>_. [sample_flag])) (s, ks @ [KToggleFlag, KToggleFlag], out @ [toggle_call sample_flag, toggle_call sample_flag])"
  using double_toggle_switches [of sample_flag "\<lambda>_. [sample_flag]" "JBool True"] by auto

theorem flag_changes_addressed_witness:
  "\<exists>s ks out p b. page_reach (FeatureFlags (\<lambda>_. [sample_flag])) (s, ks, out) \<and> CallApi ''PUT'' p b \<in> set out \<and>
     (\<exists>e k. p = flags_path @ ''/'' @ e \<and> CHR ''/'' \<notin> set e \<and> decodeURIComponent e = Some k)"
proof -
  have "page_play (FeatureFlags (\<lambda>_. [sample_flag])) [Answer 0 (Inr (JObj [(''flags'', JBool True)])), Do (ToggleFlag sample_flag)]
      (flags_init, [KFetchFlags], [CallApi ''GET'' flags_path JUndef]) =
    Some (flags_init\<lparr>flags_list := [sample_flag], flags_loading := False\<rparr>, [KToggleFlag], [CallApi ''GET'' flags_path JUndef, toggle_call sample_flag])"
    using toggle_offered by (simp add: flags_loaded)
  from page_play_mount [OF FeatureFlags_sel(1) this] obtain s ks out p b where
    r: "page_reach (FeatureFlags (\<lambda>_. [sample_flag])) (s, ks, out)" "CallApi ''PUT'' p b \<in> set out"
    by (auto simp: toggle_call_def)
  from flag_changes_addressed [OF this] r show ?thesis by fastforce
qed

text \<open>A change that fails is not shown.\<close>

lemma failed_change_silent:
  "texts (FeatureFlags_view (fst (refetch_done (Inl err) s))) = texts (FeatureFlags_view s) \<and> fst (snd (flags_resume asf KSaveFlag (Inl err) s)) = []"
  by (simp add: refetch_done_def handleSaveFlag_done_def)

end
