(* ===== verification/WebSocketClient.thy ===== *)
theory WebSocketClient
  imports Jwt UrlCoding
begin

text \<open>
  The real-time connection: the class \<open>OmniTunWS\<close> of \<^verbatim>\<open>web/src/lib/websocket.ts\<close> and the
  hook \<^verbatim>\<open>web/src/hooks/useWebSocket.ts\<close>.

  The browser decides when a socket opens, delivers a message or closes and when a timer fires; these are
  events, enabled by the socket's \<open>readyState\<close> and by the pending timer. \<open>ok\<close> says for which URLs
  \<open>new WebSocket\<close> does not throw, \<open>throws\<close> which handler throws on which message. Handlers and
  listeners are functions of the caller, named by numbers.
\<close>

section \<open>The class\<close>

datatype ConnectionState = Connecting | Connected | Disconnected | Reconnecting

datatype ready_state = CONNECTING | OPEN | CLOSING | CLOSED

text \<open>
  The fields of the class (\<open>timer\<close>: the delay of the timeout that is pending), and what an
  observer sees: the URLs of the sockets created, the calls of state listeners and of message handlers,
  the frames sent.
\<close>

record ws_client =
  ws_url :: string
  ws_token :: string
  sock :: "ready_state option"
  handlers :: "(string \<times> nat list) list"
  reconnectAttempts :: nat
  timer :: "nat option"
  destroyed :: bool
  ws_state :: ConnectionState
  stateListeners :: "nat list"
  opened :: "string list"
  notified :: "(nat \<times> ConnectionState) list"
  called :: "(nat \<times> json) list"
  frames :: "json list"

definition maxReconnectAttempts :: nat where "maxReconnectAttempts = 10"
definition baseDelay :: nat where "baseDelay = 1000"
definition maxDelay :: nat where "maxDelay = 30000"

definition setState :: "ConnectionState \<Rightarrow> ws_client \<Rightarrow> ws_client" where
  "setState st w = w\<lparr>ws_state := st, notified := notified w @ map (\<lambda>f. (f, st)) (stateListeners w)\<rparr>"

definition backoff :: "nat \<Rightarrow> nat" where
  "backoff n = min (baseDelay * 2 ^ n) maxDelay"

definition scheduleReconnect :: "ws_client \<Rightarrow> ws_client" where
  "scheduleReconnect w =
     (if destroyed w then w
      else if reconnectAttempts w \<ge> maxReconnectAttempts then w
      else (setState Reconnecting w)
        \<lparr>reconnectAttempts := Suc (reconnectAttempts w), timer := Some (backoff (reconnectAttempts w))\<rparr>)"

definition connect_url :: "ws_client \<Rightarrow> string" where
  "connect_url w = ws_url w @ ''?token='' @ encodeURIComponent (ws_token w)"

definition connect :: "(string \<Rightarrow> bool) \<Rightarrow> ws_client \<Rightarrow> ws_client" where
  "connect ok w =
     (if destroyed w then w
      else let w1 = setState Connecting w in
        if ok (connect_url w1)
        then w1\<lparr>sock := Some CONNECTING, opened := opened w1 @ [connect_url w1]\<rparr>
        else scheduleReconnect w1)"

definition new_OmniTunWS :: "(string \<Rightarrow> bool) \<Rightarrow> string \<Rightarrow> string \<Rightarrow> ws_client" where
  "new_OmniTunWS ok url tok = connect ok
     \<lparr>ws_url = url, ws_token = tok, sock = None, handlers = [], reconnectAttempts = 0, timer = None,
      destroyed = False, ws_state = Disconnected, stateListeners = [], opened = [], notified = [],
      called = [], frames = []\<rparr>"

definition onStateChange :: "nat \<Rightarrow> ws_client \<Rightarrow> ws_client" where
  "onStateChange f w = w\<lparr>stateListeners := set_add f (stateListeners w)\<rparr>"

definition offStateChange :: "nat \<Rightarrow> ws_client \<Rightarrow> ws_client" where
  "offStateChange f w = w\<lparr>stateListeners := set_delete f (stateListeners w)\<rparr>"

text \<open>The callbacks of the socket.\<close>

definition ws_onopen :: "ws_client \<Rightarrow> ws_client" where
  "ws_onopen w = setState Connected (w\<lparr>sock := Some OPEN, reconnectAttempts := 0\<rparr>)"

text \<open>\<open>handlers.forEach\<close>: the handlers called, and whether none of them threw.\<close>

fun call_all :: "(nat \<Rightarrow> json \<Rightarrow> bool) \<Rightarrow> json \<Rightarrow> nat list \<Rightarrow> nat list \<times> bool" where
  "call_all throws msg [] = ([], True)"
| "call_all throws msg (h # hs) =
     (if throws h msg then ([h], False)
      else let (cs, fine) = call_all throws msg hs in (h # cs, fine))"

definition registered :: "string \<Rightarrow> ws_client \<Rightarrow> nat list" where
  "registered ch w = (case map_of (handlers w) ch of None \<Rightarrow> [] | Some hs \<Rightarrow> hs)"

definition typed_handlers :: "json \<Rightarrow> ws_client \<Rightarrow> nat list" where
  "typed_handlers msg w =
     (case jprop msg ''type'' of JStr t \<Rightarrow> if t = '''' then [] else registered t w | _ \<Rightarrow> [])"

text \<open>\<open>data\<close> is what \<open>JSON.parse\<close> makes of the frame, \<^const>\<open>None\<close> where it throws.\<close>

definition ws_onmessage :: "(nat \<Rightarrow> json \<Rightarrow> bool) \<Rightarrow> json option \<Rightarrow> ws_client \<Rightarrow> ws_client" where
  "ws_onmessage throws data w =
     (case data of
        None \<Rightarrow> w
      | Some msg \<Rightarrow>
          if nullish msg then w
          else let (cs, fine) = call_all throws msg (typed_handlers msg w);
                   w1 = w\<lparr>called := called w @ map (\<lambda>h. (h, msg)) cs\<rparr>
               in if fine
                  then w1\<lparr>called := called w1 @ map (\<lambda>h. (h, msg)) (fst (call_all throws msg (registered ''*'' w)))\<rparr>
                  else w1)"

definition ws_onclose :: "ws_client \<Rightarrow> ws_client" where
  "ws_onclose w =
     (let w1 = w\<lparr>sock := Some CLOSED\<rparr> in
      if \<not> destroyed w1 then scheduleReconnect (setState Disconnected w1) else w1)"

definition ws_on :: "string \<Rightarrow> nat \<Rightarrow> ws_client \<Rightarrow> ws_client" where
  "ws_on ch h w =
     (let hs = (if map_of (handlers w) ch = None then handlers w @ [(ch, [])] else handlers w)
      in w\<lparr>handlers := map (\<lambda>(k, xs). (k, if k = ch then set_add h xs else xs)) hs\<rparr>)"

definition ws_off :: "string \<Rightarrow> nat \<Rightarrow> ws_client \<Rightarrow> ws_client" where
  "ws_off ch h w = w\<lparr>handlers := map (\<lambda>(k, xs). (k, if k = ch then set_delete h xs else xs)) (handlers w)\<rparr>"

definition ws_send :: "json \<Rightarrow> ws_client \<Rightarrow> ws_client" where
  "ws_send data w = (if sock w = Some OPEN then w\<lparr>frames := frames w @ [data]\<rparr> else w)"

definition ws_close :: "ws_client \<Rightarrow> ws_client" where
  "ws_close w =
     setState Disconnected
       (w\<lparr>destroyed := True, timer := None,
          sock := (case sock w of Some CONNECTING \<Rightarrow> Some CLOSING | Some OPEN \<Rightarrow> Some CLOSING | r \<Rightarrow> r)\<rparr>)"

section \<open>Events\<close>

text \<open>\<open>EvPeerCloses\<close> is the start of the closing handshake by the server: \<open>readyState\<close> changes, no callback is called before
  the close event at its end, and messages that come in between are dropped.\<close>

datatype ws_event =
    EvOpen | EvMessage "json option" | EvPeerCloses | EvClose | EvTimer
  | DoOn string nat | DoOff string nat | DoSend json | DoListen nat | DoUnlisten nat | DoClose

fun ws_apply :: "(string \<Rightarrow> bool) \<Rightarrow> (nat \<Rightarrow> json \<Rightarrow> bool) \<Rightarrow> ws_event \<Rightarrow> ws_client \<Rightarrow> ws_client option" where
  "ws_apply ok throws EvOpen w = (if sock w = Some CONNECTING then Some (ws_onopen w) else None)"
| "ws_apply ok throws (EvMessage m) w = (if sock w = Some OPEN then Some (ws_onmessage throws m w) else None)"
| "ws_apply ok throws EvPeerCloses w = (if sock w = Some OPEN then Some (w\<lparr>sock := Some CLOSING\<rparr>) else None)"
| "ws_apply ok throws EvClose w = (if sock w \<in> {Some CONNECTING, Some OPEN, Some CLOSING} then Some (ws_onclose w) else None)"
| "ws_apply ok throws EvTimer w = (if timer w = None then None else Some (connect ok (w\<lparr>timer := None\<rparr>)))"
| "ws_apply ok throws (DoOn ch h) w = Some (ws_on ch h w)"
| "ws_apply ok throws (DoOff ch h) w = Some (ws_off ch h w)"
| "ws_apply ok throws (DoSend d) w = Some (ws_send d w)"
| "ws_apply ok throws (DoListen f) w = Some (onStateChange f w)"
| "ws_apply ok throws (DoUnlisten f) w = Some (offStateChange f w)"
| "ws_apply ok throws DoClose w = Some (ws_close w)"

fun ws_run :: "(string \<Rightarrow> bool) \<Rightarrow> (nat \<Rightarrow> json \<Rightarrow> bool) \<Rightarrow> ws_event list \<Rightarrow> ws_client \<Rightarrow> ws_client option" where
  "ws_run ok throws [] w = Some w"
| "ws_run ok throws (e # es) w =
     (case ws_apply ok throws e w of None \<Rightarrow> None | Some w' \<Rightarrow> ws_run ok throws es w')"

section \<open>The hook\<close>

text \<open>
  \<open>useWebSocket\<close>: the effect waits 500 ms, then creates the connection and registers the listener
  (number 0) and the given handlers. \<open>hk_state\<close> is the React state the listener writes.
\<close>

record ws_hook =
  hk_timer :: bool
  hk_ws :: "ws_client option"
  hk_state :: ConnectionState

definition hook_mount :: "'a client_scheme \<Rightarrow> ws_hook" where
  "hook_mount c = \<lparr>hk_timer = (case getAccessToken web_cfg c of None \<Rightarrow> False | Some t \<Rightarrow> t \<noteq> ''''),
     hk_ws = None, hk_state = Disconnected\<rparr>"

definition hook_connect :: "(string \<Rightarrow> bool) \<Rightarrow> string \<Rightarrow> string \<Rightarrow> (string \<times> nat) list \<Rightarrow> ws_hook \<Rightarrow> ws_hook" where
  "hook_connect ok url tok hs k =
     (if hk_timer k
      then k\<lparr>hk_timer := False,
             hk_ws := Some (fold (\<lambda>(ch, h). ws_on ch h) hs (onStateChange 0 (new_OmniTunWS ok url tok)))\<rparr>
      else k)"

text \<open>The state after the calls of listener 0 made since the last event.\<close>

definition hook_observe :: "ws_client \<Rightarrow> ws_hook \<Rightarrow> ws_hook" where
  "hook_observe w' k =
     (let n = (case hk_ws k of None \<Rightarrow> 0 | Some w \<Rightarrow> length (notified w));
          news = map snd (filter (\<lambda>(f, _). f = 0) (drop n (notified w')))
      in k\<lparr>hk_ws := Some w', hk_state := (if news = [] then hk_state k else last news)\<rparr>)"

definition hook_cleanup :: "ws_hook \<Rightarrow> ws_hook" where
  "hook_cleanup k =
     (let k1 = k\<lparr>hk_timer := False\<rparr>
      in case hk_ws k1 of None \<Rightarrow> k1 | Some w \<Rightarrow> hook_observe (ws_close w) k1)"

section \<open>The token in the URL\<close>

text \<open>C20: the token survives the address. Whatever characters a token has, reading back what \<open>connect\<close> appends to the
  address of the server after \<open>?token=\<close> gives the token; and no character of it can end the parameter.\<close>

theorem token_roundtrip:
  "\<exists>e. connect_url w = ws_url w @ ''?token='' @ e \<and> decodeURIComponent e = Some (ws_token w) \<and> set e \<inter> set ''?&=#/ '' = {}"
  using encodeURIComponent_safe delimiters_reserved
  by (intro exI [of _ "encodeURIComponent (ws_token w)"]) (auto simp: connect_url_def decode_encode)

section \<open>The invariant of a connection\<close>

inductive wreach :: "(string \<Rightarrow> bool) \<Rightarrow> (nat \<Rightarrow> json \<Rightarrow> bool) \<Rightarrow> ws_client \<Rightarrow> bool" for ok throws where
  new: "wreach ok throws (new_OmniTunWS ok url tok)"
| event: "wreach ok throws w \<Longrightarrow> ws_apply ok throws e w = Some w' \<Longrightarrow> wreach ok throws w'"

definition winv :: "ws_client \<Rightarrow> bool" where
  "winv w \<longleftrightarrow>
     reconnectAttempts w \<le> maxReconnectAttempts \<and>
     (\<forall>d. timer w = Some d \<longrightarrow> \<not> destroyed w \<and> sock w \<in> {None, Some CLOSED} \<and> ws_state w = Reconnecting \<and>
        0 < reconnectAttempts w \<and> d = backoff (reconnectAttempts w - 1)) \<and>
     (destroyed w \<longrightarrow> timer w = None \<and> ws_state w = Disconnected \<and> sock w \<notin> {Some CONNECTING, Some OPEN}) \<and>
     (sock w = Some CONNECTING \<longrightarrow> ws_state w = Connecting) \<and>
     (ws_state w = Connected \<longleftrightarrow> \<not> destroyed w \<and> sock w \<in> {Some OPEN, Some CLOSING})"

lemma setState_simps [simp]:
  "ws_state (setState st w) = st" "sock (setState st w) = sock w" "destroyed (setState st w) = destroyed w"
  "timer (setState st w) = timer w" "reconnectAttempts (setState st w) = reconnectAttempts w"
  "opened (setState st w) = opened w" "handlers (setState st w) = handlers w"
  "stateListeners (setState st w) = stateListeners w" "ws_url (setState st w) = ws_url w"
  "ws_token (setState st w) = ws_token w"
  "notified (setState st w) = notified w @ map (\<lambda>f. (f, st)) (stateListeners w)"
  by (simp_all add: setState_def)

lemma winv_schedule:
  assumes "sock w \<in> {None, Some CLOSED}" and "reconnectAttempts w \<le> maxReconnectAttempts"
    and "timer w = None" and "\<not> destroyed w" and "ws_state w \<noteq> Connected"
  shows "winv (scheduleReconnect w)"
  using assms by (auto simp: winv_def scheduleReconnect_def)

lemma winv_connect:
  assumes "winv w" and "sock w \<in> {None, Some CLOSED}"
  shows "winv (connect ok (w\<lparr>timer := None\<rparr>))"
proof (cases "destroyed w")
  case True
  with assms show ?thesis by (auto simp: winv_def connect_def)
next
  case False
  have "winv (scheduleReconnect (setState Connecting (w\<lparr>timer := None\<rparr>)))"
    using assms False by (intro winv_schedule) (auto simp: winv_def)
  with assms False show ?thesis
    by (auto simp: connect_def Let_def) (auto simp: winv_def)
qed

lemma winv_new: "winv (new_OmniTunWS ok url tok)"
proof -
  let ?w = "\<lparr>ws_url = url, ws_token = tok, sock = None, handlers = [], reconnectAttempts = 0, timer = None,
      destroyed = False, ws_state = Disconnected, stateListeners = [], opened = [], notified = [],
      called = [], frames = []\<rparr>"
  have "winv ?w" by (simp add: winv_def)
  from winv_connect [OF this, of ok] show ?thesis by (simp add: new_OmniTunWS_def)
qed

lemma winv_onclose:
  assumes "winv w" and "sock w \<in> {Some CONNECTING, Some OPEN, Some CLOSING}"
  shows "winv (ws_onclose w)"
proof (cases "destroyed w")
  case True
  with assms show ?thesis by (auto simp: winv_def ws_onclose_def Let_def)
next
  case False
  have "winv (scheduleReconnect (setState Disconnected (w\<lparr>sock := Some CLOSED\<rparr>)))"
    using assms False by (intro winv_schedule) (auto simp: winv_def)
  with False show ?thesis by (simp add: ws_onclose_def Let_def)
qed

text \<open>Messages, registrations and frames leave the connection as it is.\<close>

lemma winv_cong:
  assumes "winv w" and "sock w' = sock w" and "timer w' = timer w" and "destroyed w' = destroyed w"
    and "ws_state w' = ws_state w" and "reconnectAttempts w' = reconnectAttempts w"
  shows "winv w'"
  using assms by (simp add: winv_def)

lemma winv_apply:
  assumes "winv w" and "ws_apply ok throws e w = Some w'"
  shows "winv w'"
proof (cases e)
  case EvOpen
  with assms show ?thesis by (auto simp: winv_def ws_onopen_def split: if_splits)
next
  case EvPeerCloses
  with assms show ?thesis by (auto simp: winv_def split: if_splits)
next
  case EvClose
  with assms show ?thesis using winv_onclose [OF assms(1)] by (auto split: if_splits)
next
  case EvTimer
  with assms have "w' = connect ok (w\<lparr>timer := None\<rparr>)" "sock w \<in> {None, Some CLOSED}"
    by (auto simp: winv_def split: if_splits)
  with winv_connect [OF assms(1)] show ?thesis by simp
next
  case DoClose
  with assms show ?thesis
    by (auto simp: winv_def ws_close_def split: option.splits ready_state.splits)
next
  case (EvMessage m)
  then have "w' = ws_onmessage throws m w" using assms(2) by (simp split: if_splits)
  then show ?thesis
    by (intro winv_cong [OF assms(1)]) (auto simp: ws_onmessage_def Let_def split: option.splits prod.splits)
qed (use assms in \<open>auto intro: winv_cong [OF assms(1)] simp: ws_on_def ws_off_def ws_send_def onStateChange_def
      offStateChange_def Let_def split: if_splits\<close>)

lemma wreach_winv: "wreach ok throws w \<Longrightarrow> winv w"
  by (induction rule: wreach.induct) (auto intro: winv_new winv_apply)

lemma backoff_bounds: "baseDelay \<le> backoff n \<and> backoff n \<le> maxDelay"
proof -
  have "(1::nat) \<le> 2 ^ n" by simp
  then have "baseDelay * 1 \<le> baseDelay * 2 ^ n" by (rule mult_le_mono2)
  then show ?thesis by (simp add: backoff_def baseDelay_def maxDelay_def)
qed

text \<open>C16: in every reachable state of a connection the reported state is \<open>connected\<close> exactly from the opening of the socket
  until its close event or \<open>close()\<close>: while the socket is open, and while a closing handshake the server has started
  is not over; at most ten attempts are counted; a pending reconnection waits between one and thirty seconds, and it is pending
  only while there is no other socket and the state says so.\<close>

theorem connection_state_sound:
  assumes "wreach ok throws w"
  shows "(ws_state w = Connected \<longleftrightarrow> \<not> destroyed w \<and> sock w \<in> {Some OPEN, Some CLOSING}) \<and> (sock w = Some OPEN \<longrightarrow> \<not> destroyed w) \<and>
    reconnectAttempts w \<le> 10 \<and>
    (\<forall>d. timer w = Some d \<longrightarrow> ws_state w = Reconnecting \<and> sock w \<in> {None, Some CLOSED} \<and> 1000 \<le> d \<and> d \<le> 30000)"
  using wreach_winv [OF assms] backoff_bounds [of "reconnectAttempts w - 1"]
  by (auto simp: winv_def maxReconnectAttempts_def baseDelay_def maxDelay_def)

definition demo_ws :: ws_client where
  "demo_ws = ws_onclose (new_OmniTunWS (\<lambda>_. True) ''ws://h/ws'' ''t'')"

lemma demo_ws_reach: "wreach (\<lambda>_. True) (\<lambda>_ _. False) demo_ws"
  unfolding demo_ws_def
  by (rule wreach.event [OF wreach.new [where url = "''ws://h/ws''" and tok = "''t''"], where e = EvClose])
    (simp add: new_OmniTunWS_def connect_def Let_def)

theorem connection_state_sound_witness:
  "timer demo_ws = Some 1000 \<and> ws_state demo_ws = Reconnecting \<and> sock demo_ws \<in> {None, Some CLOSED}"
proof -
  have "timer demo_ws = Some 1000"
    by (simp add: demo_ws_def ws_onclose_def new_OmniTunWS_def connect_def Let_def scheduleReconnect_def
        maxReconnectAttempts_def backoff_def baseDelay_def maxDelay_def)
  with connection_state_sound [OF demo_ws_reach] show ?thesis by blast
qed

section \<open>Closing and giving up\<close>

lemma winv_close: "winv w \<Longrightarrow> winv (ws_close w)"
  using winv_apply [of w "\<lambda>_. True" "\<lambda>_ _. False" DoClose] by simp

lemma destroyed_apply:
  assumes "winv w" and "destroyed w" and "ws_apply ok throws e w = Some w'"
  shows "destroyed w' \<and> opened w' = opened w \<and> frames w' = frames w \<and> called w' = called w"
  using assms
  by (cases e) (auto simp: winv_def ws_onclose_def ws_on_def ws_off_def ws_send_def onStateChange_def
      offStateChange_def ws_close_def setState_def Let_def split: if_splits)

lemma destroyed_run:
  assumes "winv w" and "destroyed w" and "ws_run ok throws es w = Some w'"
  shows "winv w' \<and> destroyed w' \<and> opened w' = opened w \<and> frames w' = frames w \<and> called w' = called w"
  using assms
proof (induction es arbitrary: w)
  case Nil
  then show ?case by simp
next
  case (Cons e es)
  then obtain w1 where w1: "ws_apply ok throws e w = Some w1" "ws_run ok throws es w1 = Some w'"
    by (auto split: option.splits)
  with Cons.prems have "winv w1" "destroyed w1" "opened w1 = opened w" "frames w1 = frames w" "called w1 = called w"
    using winv_apply destroyed_apply by blast+
  with Cons.IH [OF _ _ w1(2)] show ?case by simp
qed

text \<open>C4: closing is final: after \<open>close()\<close> no sequence of events (late socket callbacks, timers,
  further calls) opens a socket, sends a frame or calls a message handler again; the state stays
  \<open>disconnected\<close> and no reconnection is pending.\<close>

theorem close_is_final:
  assumes "wreach ok throws w" and "ws_run ok throws es (ws_close w) = Some w'"
  shows "opened w' = opened w \<and> frames w' = frames w \<and> called w' = called w \<and>
    ws_state w' = Disconnected \<and> timer w' = None"
proof -
  have "winv (ws_close w)" "destroyed (ws_close w)"
    using winv_close [OF wreach_winv [OF assms(1)]] by (simp_all add: ws_close_def)
  from destroyed_run [OF this assms(2)] show ?thesis
    by (simp add: winv_def ws_close_def setState_def)
qed

theorem close_is_final_witness:
  "\<exists>w'. ws_run (\<lambda>_. True) (\<lambda>_ _. False) [DoSend JNull, DoClose] (ws_close demo_ws) = Some w' \<and>
     opened w' = opened demo_ws \<and> timer w' = None"
proof -
  obtain w' where r: "ws_run (\<lambda>_. True) (\<lambda>_ _. False) [DoSend JNull, DoClose] (ws_close demo_ws) = Some w'"
    by simp
  from close_is_final [OF demo_ws_reach r] r show ?thesis by auto
qed

text \<open>Sockets created, plus the one a pending timer will create, against the attempts counted.\<close>

definition budget :: "ws_client \<Rightarrow> bool" where
  "budget w \<longleftrightarrow> length (opened w) + (if timer w = None then 0 else 1) \<le> Suc (reconnectAttempts w)"

lemma budget_schedule:
  "timer w = None \<Longrightarrow> length (opened w) \<le> Suc (reconnectAttempts w) \<Longrightarrow> budget (scheduleReconnect w)"
  by (simp add: budget_def scheduleReconnect_def)

lemma budget_connect:
  assumes "length (opened w) \<le> reconnectAttempts w" and "timer w = None"
  shows "budget (connect ok w)"
  using assms budget_schedule [of "setState Connecting w"]
  by (auto simp: connect_def Let_def) (auto simp: budget_def)

lemma budget_apply:
  assumes "winv w" and "budget w" and "ws_apply ok throws e w = Some w'" and "e \<noteq> EvOpen"
  shows "budget w'"
proof (cases e)
  case EvTimer
  with assms have "w' = connect ok (w\<lparr>timer := None\<rparr>)" "length (opened w) \<le> reconnectAttempts w"
    by (auto simp: budget_def split: if_splits)
  then show ?thesis using budget_connect [of "w\<lparr>timer := None\<rparr>" ok] by simp
next
  case EvClose
  then have "w' = ws_onclose w" "timer w = None"
    using assms(1,3) by (auto simp: winv_def split: if_splits)
  with assms(2) show ?thesis
    by (auto simp: ws_onclose_def Let_def intro!: budget_schedule) (auto simp: budget_def)
next
  case (EvMessage m)
  with assms show ?thesis
    by (auto simp: budget_def ws_onmessage_def Let_def split: if_splits option.splits prod.splits)
next
  case DoClose
  with assms show ?thesis by (auto simp: budget_def ws_close_def split: if_splits)
qed (use assms in \<open>auto simp: budget_def ws_on_def ws_off_def ws_send_def onStateChange_def offStateChange_def
      Let_def split: if_splits\<close>)

lemma budget_run:
  "winv w \<Longrightarrow> budget w \<Longrightarrow> EvOpen \<notin> set es \<Longrightarrow> ws_run ok throws es w = Some w' \<Longrightarrow> winv w' \<and> budget w'"
proof (induction es arbitrary: w)
  case Nil
  then show ?case by simp
next
  case (Cons e es)
  then obtain w1 where w1: "ws_apply ok throws e w = Some w1" "ws_run ok throws es w1 = Some w'"
    by (auto split: option.splits)
  show ?case
    using Cons.IH [OF winv_apply [OF Cons.prems(1) w1(1)] budget_apply [OF Cons.prems(1,2) w1(1)] _ w1(2)] Cons.prems(3)
    by auto
qed

text \<open>C19: an unreachable server is not hammered: as long as no socket opens, at most eleven are ever
  created (the first and ten reconnections), whatever else happens to the connection.\<close>

theorem reconnects_bounded:
  assumes "ws_run ok throws es (new_OmniTunWS ok url tok) = Some w" and "EvOpen \<notin> set es"
  shows "length (opened w) \<le> 11"
proof -
  have "budget (new_OmniTunWS ok url tok)"
    unfolding new_OmniTunWS_def by (rule budget_connect) simp_all
  with budget_run [OF winv_new _ assms(2,1)] show ?thesis
    by (auto simp: budget_def winv_def maxReconnectAttempts_def split: if_splits)
qed

theorem reconnects_bounded_witness:
  "\<exists>w. ws_run (\<lambda>_. True) (\<lambda>_ _. False) [EvClose, EvTimer, EvClose] (new_OmniTunWS (\<lambda>_. True) ''u'' ''t'') = Some w \<and>
     length (opened w) \<le> 11"
proof -
  obtain w where r: "ws_run (\<lambda>_. True) (\<lambda>_ _. False) [EvClose, EvTimer, EvClose] (new_OmniTunWS (\<lambda>_. True) ''u'' ''t'') = Some w"
    by (simp add: new_OmniTunWS_def connect_def Let_def ws_onclose_def scheduleReconnect_def maxReconnectAttempts_def)
  from reconnects_bounded [OF r] r show ?thesis by auto
qed

text \<open>Where \<open>new WebSocket\<close> itself throws, giving up is reported wrongly: after the tenth
  reconnection the client has no socket and no timer, and no event of the browser can happen any more, but its
  state says \<open>connecting\<close>.\<close>

theorem giving_up_reports_connecting:
  "\<exists>w. ws_run (\<lambda>_. False) throws (replicate 10 EvTimer) (new_OmniTunWS (\<lambda>_. False) url tok) = Some w \<and>
     sock w = None \<and> timer w = None \<and> \<not> destroyed w \<and> ws_state w = Connecting"
  by (simp add: eval_nat_numeral new_OmniTunWS_def connect_def Let_def scheduleReconnect_def maxReconnectAttempts_def)

section \<open>Message routing\<close>

lemma map_of_map_key:
  "map_of (map (\<lambda>(k, xs). (k, if k = ch then f xs else xs)) ps) k =
     map_option (\<lambda>xs. if k = ch then f xs else xs) (map_of ps k)"
  by (induction ps) auto

lemma registered_on:
  "registered k (ws_on ch h w) = (if k = ch then set_add h (registered ch w) else registered k w)"
  by (auto simp: registered_def ws_on_def Let_def map_of_map_key map_add_def split: option.splits)

lemma registered_off:
  "registered k (ws_off ch h w) = (if k = ch then set_delete h (registered ch w) else registered k w)"
  by (auto simp: registered_def ws_off_def map_of_map_key set_delete_def split: option.splits)

lemma call_all_quiet: "(\<And>h. h \<in> set hs \<Longrightarrow> \<not> throws h msg) \<Longrightarrow> call_all throws msg hs = (hs, True)"
  by (induction hs) auto

lemma onmessage_calls:
  assumes "\<not> nullish msg" and "jprop msg ''type'' = JStr ch" and "ch \<noteq> ''''" and "\<And>h. \<not> throws h msg"
  shows "called (ws_onmessage throws (Some msg) w) =
    called w @ map (\<lambda>h. (h, msg)) (registered ch w @ registered ''*'' w)"
  using assms call_all_quiet [of _ throws msg]
  by (simp add: ws_onmessage_def typed_handlers_def Let_def)

text \<open>A message reaches exactly the handlers registered for its type and those for \<open>*\<close>: the calls
  made for a message of type \<open>ch\<close> after \<open>on(ch, h)\<close> include \<open>h\<close>, and after
  \<open>off(ch, h)\<close> they do not, unless \<open>h\<close> also listens to everything.\<close>

theorem message_routing:
  assumes "\<not> nullish msg" and "jprop msg ''type'' = JStr ch" and "ch \<noteq> ''''" and "\<And>h. \<not> throws h msg"
    and "called w = []"
  shows "set (called (ws_onmessage throws (Some msg) (ws_on ch h w))) =
      (\<lambda>x. (x, msg)) ` (insert h (set (registered ch w)) \<union> set (registered ''*'' w)) \<and>
    set (called (ws_onmessage throws (Some msg) (ws_off ch h w))) \<subseteq>
      (\<lambda>x. (x, msg)) ` ((set (registered ch w) - {h}) \<union> set (registered ''*'' w))"
proof -
  have "called (ws_on ch h w) = []" "called (ws_off ch h w) = []"
    using assms(5) by (simp_all add: ws_on_def ws_off_def Let_def)
  then show ?thesis
    using onmessage_calls [where throws = throws, OF assms(1-4), of "ws_on ch h w"]
      onmessage_calls [where throws = throws, OF assms(1-4), of "ws_off ch h w"]
    by (auto simp: registered_on registered_off)
qed

theorem message_routing_witness:
  "set (called (ws_onmessage (\<lambda>_ _. False) (Some (JObj [(''type'', JStr ''tunnel.status'')]))
      (ws_on ''tunnel.status'' 7 (new_OmniTunWS (\<lambda>_. True) ''u'' ''t''))))
    = {(7, JObj [(''type'', JStr ''tunnel.status'')])}"
proof -
  let ?w = "new_OmniTunWS (\<lambda>_. True) ''u'' ''t''"
  have "called ?w = []" "registered k ?w = []" for k
    by (simp_all add: new_OmniTunWS_def connect_def Let_def setState_def registered_def)
  with message_routing [of "JObj [(''type'', JStr ''tunnel.status'')]" "''tunnel.status''" "\<lambda>_ _. False" ?w 7]
  show ?thesis by (simp add: nullish_def jprop_def)
qed

section \<open>The hook\<close>

text \<open>The hook misses the first state: when its timer fires the connection starts in the
  constructor, before the listener is registered, so while the socket is connecting the component still sees
  \<open>disconnected\<close>; unmounting leaves no timer behind and the connection closed for good.\<close>

theorem hook_first_state_and_cleanup:
  assumes "hk_timer k" and "hk_state k = Disconnected" and "ok (url @ ''?token='' @ encodeURIComponent tok)"
  shows "\<exists>w. hk_ws (hook_connect ok url tok hs k) = Some w \<and> ws_state w = Connecting \<and>
      hk_state (hook_connect ok url tok hs k) = Disconnected \<and>
      (\<exists>w'. hk_ws (hook_cleanup (hook_connect ok url tok hs k)) = Some w' \<and> destroyed w' \<and> timer w' = None \<and>
        \<not> hk_timer (hook_cleanup (hook_connect ok url tok hs k)))"
proof -
  define w0 where "w0 = onStateChange 0 (new_OmniTunWS ok url tok)"
  have w0: "ws_state w0 = Connecting"
    using assms(3) by (simp add: w0_def onStateChange_def new_OmniTunWS_def connect_def connect_url_def)
  have "ws_state (fold (\<lambda>(ch, h). ws_on ch h) hs w) = ws_state w" for w
    by (induction hs arbitrary: w) (auto simp: ws_on_def Let_def)
  then show ?thesis
    using assms w0 by (auto simp: hook_connect_def hook_cleanup_def hook_observe_def Let_def w0_def [symmetric]
        ws_close_def)
qed

theorem hook_first_state_and_cleanup_witness:
  "hk_state (hook_connect (\<lambda>_. True) ''ws://h'' ''old'' [(''tunnel.status'', 1)] (hook_mount signed_in_client)) = Disconnected"
proof -
  have "hk_timer (hook_mount signed_in_client)" "hk_state (hook_mount signed_in_client) = Disconnected"
    by (simp_all add: hook_mount_def getAccessToken_def signed_in_client_def web_cfg_def)
  from hook_first_state_and_cleanup [OF this, of "\<lambda>_. True"] show ?thesis by blast
qed

end
