(* ===== verification/InspectPage.thy ===== *)
theory InspectPage
  imports Hooks WebSocketClient JsonText
begin

text \<open>
  The traffic inspector (\<open>pages/TunnelInspect.tsx\<close>): a bounded list of requests, newest first, that can be paused,
  filtered and cleared, the detail of one entry, and the replay dialog. Entries come from a socket of the page's own,
  which is modelled apart, and from a timer that makes them up.

  Locale times, random ids and the unchecked cast of a message to an entry are arguments.
\<close>

section \<open>Entries\<close>

record inspect_entry =
  ie_id :: string
  ie_timestamp :: string
  ie_method :: string
  ie_path :: string
  ie_status_code :: int
  ie_duration_ms :: int
  ie_client_ip :: string
  ie_request_headers :: "(string \<times> string) list option"
  ie_request_body :: "string option"
  ie_response_headers :: "(string \<times> string) list option"
  ie_response_body :: "string option"

text \<open>\<open>xs[Math.floor(Math.random() * xs.length)]\<close> for a random number in [0, 1).\<close>

definition pick :: "'a list \<Rightarrow> rat \<Rightarrow> 'a" where
  "pick xs r = xs ! nat \<lfloor>r * of_nat (length xs)\<rfloor>"

definition below :: "int \<Rightarrow> rat \<Rightarrow> int" where
  "below n r = \<lfloor>r * of_int n\<rfloor>"

definition mock_methods :: "string list" where
  "mock_methods = [''GET'', ''POST'', ''PUT'', ''DELETE'', ''PATCH'']"

definition mock_paths :: "string list" where
  "mock_paths = [''/api/users'', ''/api/tunnels'', ''/api/health'', ''/api/data'', ''/api/config'', ''/'', ''/static/app.js'', ''/favicon.ico'']"

definition mock_codes :: "int list" where
  "mock_codes = [200, 200, 200, 201, 204, 301, 302, 304, 400, 401, 403, 404, 500, 502, 503]"

text \<open>\<open>rnd\<close> has the random numbers of one entry, \<open>uid\<close> and \<open>rid\<close> the two random ids.\<close>

definition generateMockEntry :: "string \<Rightarrow> string \<Rightarrow> string \<Rightarrow> (nat \<Rightarrow> rat) \<Rightarrow> inspect_entry" where
  "generateMockEntry now uid rid rnd =
     (let m = pick mock_methods (rnd 0) in
      \<lparr>ie_id = uid, ie_timestamp = now, ie_method = m, ie_path = pick mock_paths (rnd 2), ie_status_code = pick mock_codes (rnd 1),
       ie_duration_ms = below 500 (rnd 3),
       ie_client_ip = ''192.168.'' @ int_string (below 255 (rnd 4)) @ ''.'' @ int_string (below 255 (rnd 5)),
       ie_request_headers = Some [(''Host'', ''example.omnitun.io''), (''User-Agent'', ''Mozilla/5.0 (Windows NT 10.0; Win64; x64)''),
         (''Accept'', ''application/json''), (''Content-Type'', ''application/json''), (''Authorization'', ''Bearer eyJ...'')],
       ie_request_body = (if m \<noteq> ''GET''
         then Some (''{'' @ nl @ ''  '' @ quoted ''action'' @ '': '' @ quoted ''test'' @ '','' @ nl @ ''  '' @ quoted ''value'' @ '': '' @
            int_string (below 100 (rnd 6)) @ nl @ ''}'')
         else None),
       ie_response_headers = Some [(''Content-Type'', ''application/json''), (''X-Request-ID'', rid)],
       ie_response_body = Some (''{'' @ nl @ ''  '' @ quoted ''ok'' @ '': true,'' @ nl @ ''  '' @ quoted ''id'' @ '': '' @
            int_string (below 1000 (rnd 7)) @ nl @ ''}'')\<rparr>)"

definition statusColor :: "int \<Rightarrow> string" where
  "statusColor code = (if code \<ge> 500 then ''red'' else if code \<ge> 400 then ''yellow'' else if code \<ge> 300 then ''blue'' else ''emerald'')"

text \<open>\<open>JSON.stringify(headers, null, 2)\<close> for an object of strings.\<close>

definition stringify_headers :: "(string \<times> string) list \<Rightarrow> string" where
  "stringify_headers hs =
     (if hs = [] then ''{}''
      else ''{'' @ nl @ join_with ('','' @ nl) (map (\<lambda>(k, v). ''  '' @ json_quote k @ '': '' @ json_quote v) hs) @ nl @ ''}'')"

definition header_lines :: "(string \<times> string) list option \<Rightarrow> string list" where
  "header_lines hs = map (\<lambda>(k, v). k @ '': '' @ v) (data_or_empty hs)"

definition text_or_empty :: "string option \<Rightarrow> string" where
  "text_or_empty v = (case v of None \<Rightarrow> '''' | Some s \<Rightarrow> s)"

section \<open>State and handlers\<close>

abbreviation MAX_ENTRIES :: nat where
  "MAX_ENTRIES \<equiv> 200"

record inspect_page =
  in_tunnel :: "string option"
  in_connection :: string
  entries :: "inspect_entry list"
  paused :: bool
  in_filter :: string
  selectedEntry :: "inspect_entry option"
  showReplay :: bool
  replayBody :: string
  replayHeaders :: string
  replaying :: bool
  highlightedId :: "string option"

definition inspect_init :: inspect_page where
  "inspect_init = \<lparr>in_tunnel = None, in_connection = ''disconnected'', entries = [], paused = False, in_filter = '''',
     selectedEntry = None, showReplay = False, replayBody = '''', replayHeaders = '''', replaying = False, highlightedId = None\<rparr>"

definition addEntry :: "inspect_entry \<Rightarrow> inspect_page \<Rightarrow> inspect_page" where
  "addEntry e s = s\<lparr>entries := take MAX_ENTRIES (e # entries s), highlightedId := Some (ie_id e)\<rparr>"

text \<open>\<open>ws.onmessage\<close> on the parsed text, \<open>None\<close> where it is not JSON; reading a property of \<open>null\<close> throws and is caught as
  well.\<close>

definition inspect_onmessage :: "(json \<Rightarrow> inspect_entry) \<Rightarrow> json option \<Rightarrow> inspect_page \<Rightarrow> inspect_page" where
  "inspect_onmessage as_entry parsed s =
     (if paused s then s
      else (case parsed of
         None \<Rightarrow> s
       | Some msg \<Rightarrow>
           (case jget msg ''type'' of
              None \<Rightarrow> s
            | Some ty \<Rightarrow> if ty = JStr ''traffic'' \<and> truthy (jprop msg ''data'') then addEntry (as_entry (jprop msg ''data'')) s else s)))"

definition mock_tick :: "inspect_entry \<Rightarrow> inspect_page \<Rightarrow> inspect_page" where
  "mock_tick e s = (if \<not> paused s then addEntry e s else s)"

definition entry_matches :: "string \<Rightarrow> inspect_entry \<Rightarrow> bool" where
  "entry_matches flt e =
     (let q = to_lower flt in
      js_includes (to_lower (ie_method e)) q \<or> js_includes (to_lower (ie_path e)) q \<or>
      js_includes (int_string (ie_status_code e)) q \<or> js_includes (ie_client_ip e) q)"

definition in_filtered :: "inspect_page \<Rightarrow> inspect_entry list" where
  "in_filtered s = (if in_filter s \<noteq> '''' then filter (entry_matches (in_filter s)) (entries s) else entries s)"

datatype inspect_ev =
    TogglePause | ClearEntries | SetInFilter string | SelectEntry inspect_entry | CloseEntry
  | CopyRequest inspect_entry | CopyResponse inspect_entry | OpenReplay inspect_entry | CloseReplay
  | SetReplayHeaders string | SetReplayBody string | SubmitReplay

datatype inspect_k = KReplay

definition request_text :: "inspect_entry \<Rightarrow> string" where
  "request_text e = ie_method e @ '' '' @ ie_path e @ nl @ join_with nl (header_lines (ie_request_headers e)) @ nl @ nl @ text_or_empty (ie_request_body e)"

definition response_text :: "inspect_entry \<Rightarrow> string" where
  "response_text e = ''Status: '' @ int_string (ie_status_code e) @ nl @ join_with nl (header_lines (ie_response_headers e)) @ nl @ nl @
     text_or_empty (ie_response_body e)"

definition handleOpenReplay :: "inspect_entry \<Rightarrow> inspect_page \<Rightarrow> inspect_page" where
  "handleOpenReplay e s = s\<lparr>replayBody := text_or_empty (ie_request_body e),
     replayHeaders := stringify_headers (data_or_empty (ie_request_headers e)), showReplay := True\<rparr>"

text \<open>\<open>handleReplay\<close> waits 800 ms and reports success; it sends nothing.\<close>

definition handleReplay :: "inspect_page \<Rightarrow> (inspect_page, inspect_k) effect" where
  "handleReplay s = (if selectedEntry s = None then (s, [], []) else (s\<lparr>replaying := True\<rparr>, [], [KReplay]))"

fun inspect_user :: "inspect_ev \<Rightarrow> inspect_page \<Rightarrow> (inspect_page, inspect_k) effect" where
  "inspect_user TogglePause s = (s\<lparr>paused := \<not> paused s\<rparr>, [], [])"
| "inspect_user ClearEntries s = (s\<lparr>entries := []\<rparr>, [], [])"
| "inspect_user (SetInFilter v) s = (s\<lparr>in_filter := v\<rparr>, [], [])"
| "inspect_user (SelectEntry e) s = (s\<lparr>selectedEntry := Some e\<rparr>, [], [])"
| "inspect_user CloseEntry s = (s\<lparr>selectedEntry := None\<rparr>, [], [])"
| "inspect_user (CopyRequest e) s = (s, [CopyText (request_text e), ShowToast (tr ''common.copied'') ''success''], [])"
| "inspect_user (CopyResponse e) s = (s, [CopyText (response_text e), ShowToast (tr ''common.copied'') ''success''], [])"
| "inspect_user (OpenReplay e) s = (handleOpenReplay e s, [], [])"
| "inspect_user CloseReplay s = (s\<lparr>showReplay := False\<rparr>, [], [])"
| "inspect_user (SetReplayHeaders v) s = (s\<lparr>replayHeaders := v\<rparr>, [], [])"
| "inspect_user (SetReplayBody v) s = (s\<lparr>replayBody := v\<rparr>, [], [])"
| "inspect_user SubmitReplay s = handleReplay s"

fun inspect_resume :: "inspect_k \<Rightarrow> result \<Rightarrow> inspect_page \<Rightarrow> (inspect_page, inspect_k) effect" where
  "inspect_resume KReplay r s = (s\<lparr>replaying := False, showReplay := False\<rparr>, [ShowToast [Lit ''Request replayed (mock)''] ''success''], [])"

section \<open>View\<close>

definition entry_row_view :: "(string \<Rightarrow> string) \<Rightarrow> inspect_entry \<Rightarrow> inspect_ev ui" where
  "entry_row_view formatTimestamp e = Listens (SelectEntry e)
     [Node ''TableCell'' [Say [Lit (formatTimestamp (ie_timestamp e))]],
      Node ''TableCell'' [Node ''Badge'' [Say [Lit (ie_method e)]]],
      Node ''TableCell'' [Say [Lit (ie_path e)]],
      Node ''TableCell'' [Node (statusColor (ie_status_code e)) [Say [Lit (int_string (ie_status_code e))]]],
      Node ''TableCell'' [Say [Lit (int_string (ie_duration_ms e) @ ''ms'')]],
      Node ''TableCell'' [Say [Lit (ie_client_ip e)]]]"

definition inspect_table :: "(string \<Rightarrow> string) \<Rightarrow> inspect_page \<Rightarrow> inspect_ev ui" where
  "inspect_table formatTimestamp s = Node ''Table''
     [head_row [''inspect.table.time'', ''inspect.table.method'', ''inspect.table.path'', ''inspect.table.status'', ''inspect.table.duration'',
        ''inspect.table.client_ip''],
      Node ''TableBody''
       (if in_filtered s = [] then [Node ''TableRow'' [Say (tr (if entries s = [] then ''inspect.empty'' else ''inspect.no_match''))]]
        else map (entry_row_view formatTimestamp) (in_filtered s))]"

definition body_view :: "string option \<Rightarrow> inspect_ev ui" where
  "body_view b = Node ''pre'' [if present b then Say [Lit (the b)] else Say (tr ''inspect.detail.no_body'')]"

definition headers_view :: "(string \<times> string) list option \<Rightarrow> inspect_ev ui" where
  "headers_view hs = Node ''pre'' [Say [Lit (concat (map (\<lambda>l. l @ nl) (header_lines hs)))]]"

definition entry_panel :: "inspect_entry \<Rightarrow> inspect_ev ui" where
  "entry_panel e = Node ''Card''
     [Node ''CardHeader'' [Say (tr ''inspect.detail.title''), Button False CloseEntry []],
      Node ''CardContent''
       [Node ''div''
         [Node ''h4'' [Say (tr ''inspect.detail.request'')],
          Button False (CopyRequest e) [Say (tr ''inspect.detail.copy_request'')],
          Button False (OpenReplay e) [Say (tr ''inspect.detail.replay'')],
          Node ''Badge'' [Say [Lit (ie_method e)]], Node ''code'' [Say [Lit (ie_path e)]],
          Node ''p'' [Say (tr ''inspect.detail.headers'')], headers_view (ie_request_headers e),
          Node ''p'' [Say (tr ''inspect.detail.body'')], body_view (ie_request_body e)],
        Node ''div''
         [Node ''h4'' [Say (tr ''inspect.detail.response'')],
          Button False (CopyResponse e) [Say (tr ''inspect.detail.copy_response'')],
          Node ''span'' [Say [Tr ''inspect.detail.status'' [], Lit '':'']],
          Node (statusColor (ie_status_code e)) [Say [Lit (int_string (ie_status_code e))]],
          Node ''span'' [Say [Tr ''inspect.detail.duration'' [], Lit '':'']],
          Node ''span'' [Say [Lit (int_string (ie_duration_ms e) @ ''ms'')]],
          Node ''p'' [Say (tr ''inspect.detail.headers'')], headers_view (ie_response_headers e),
          Node ''p'' [Say (tr ''inspect.detail.body'')], body_view (ie_response_body e)]]]"

definition replay_dialog :: "inspect_page \<Rightarrow> inspect_ev ui" where
  "replay_dialog s = Dialog (showReplay s) CloseReplay (tr ''inspect.replay_dialog.title'') (tr ''inspect.replay_dialog.description'')
     [Form (replaying s) SubmitReplay
       [Field (tr ''inspect.detail.headers'') (replayHeaders s) False SetReplayHeaders,
        Field (tr ''inspect.detail.body'') (replayBody s) False SetReplayBody,
        Node ''div''
         [Button False CloseReplay [Say (tr ''inspect.replay_dialog.cancel'')],
          Node ''submit'' [Say (tr (if replaying s then ''inspect.replay_dialog.sending'' else ''inspect.replay_dialog.send''))]]]]"

definition TunnelInspect_view :: "(string \<Rightarrow> string) \<Rightarrow> string \<Rightarrow> inspect_page \<Rightarrow> inspect_ev ui" where
  "TunnelInspect_view formatTimestamp tid s = Node ''div''
     [Node ''nav''
       [LinkTo ''/tunnels'' [Say (tr ''tunnel_detail.breadcrumb'')],
        LinkTo (''/tunnels/'' @ tid) [Say [Lit (case in_tunnel s of None \<Rightarrow> ''...'' | Some n \<Rightarrow> n)]],
        Node ''span'' [Say (tr ''inspect.title'')]],
      LinkTo (''/tunnels/'' @ tid) [Say (tr ''inspect.back'')],
      Node ''Card''
       [Node ''CardHeader''
         [Say (tr ''inspect.title''), Say [Tr ''inspect.subtitle'' [], Lit ('': '' @ (case in_tunnel s of None \<Rightarrow> tid | Some n \<Rightarrow> n))],
          Node ''span'' [Say [Lit (''WS: '' @ in_connection s @ '' | '' @ nat_string (length (entries s)) @ '' entries'')]],
          Button False TogglePause [Say (tr (if paused s then ''inspect.resume'' else ''inspect.pause''))],
          Button False ClearEntries [Say (tr ''inspect.clear'')]],
        Node ''CardContent'' [Input [] (in_filter s) [] False SetInFilter, inspect_table formatTimestamp s]],
      (case selectedEntry s of None \<Rightarrow> Null | Some e \<Rightarrow> entry_panel e),
      replay_dialog s]"

text \<open>The environment: messages and mock entries while the page is not paused, the end of a highlight, the tunnel's
  data and the state of the hook's connection.\<close>

definition inspect_env :: "inspect_page \<Rightarrow> inspect_page \<Rightarrow> bool" where
  "inspect_env s s' \<longleftrightarrow>
     (\<exists>as_entry m. s' = inspect_onmessage as_entry m s) \<or> (\<exists>e. s' = mock_tick e s) \<or>
     (\<exists>h n c. s' = s\<lparr>highlightedId := h, in_tunnel := n, in_connection := c\<rparr>)"

definition TunnelInspect :: "(string \<Rightarrow> string) \<Rightarrow> string \<Rightarrow> (inspect_page, inspect_ev, inspect_k) page" where
  "TunnelInspect formatTimestamp tid =
     \<lparr>pg_mount = (inspect_init, useTunnel_calls (Some tid), []), pg_view = TunnelInspect_view formatTimestamp tid,
      pg_user = inspect_user, pg_resume = inspect_resume, pg_env = inspect_env\<rparr>"

lemma TunnelInspect_sel [simp]:
  "pg_mount (TunnelInspect fmt tid) = (inspect_init, useTunnel_calls (Some tid), [])"
  "pg_view (TunnelInspect fmt tid) = TunnelInspect_view fmt tid" "pg_user (TunnelInspect fmt tid) = inspect_user"
  "pg_resume (TunnelInspect fmt tid) = inspect_resume" "pg_env (TunnelInspect fmt tid) = inspect_env"
  by (simp_all add: TunnelInspect_def)

section \<open>Invariant\<close>

definition inspect_inv :: "inspect_page \<Rightarrow> inspect_k list \<Rightarrow> bool" where
  "inspect_inv s ks \<longleftrightarrow> length (entries s) \<le> MAX_ENTRIES \<and> flags (replaying s) (\<lambda>k. k = KReplay) ks"

fun inspect_guard :: "inspect_page \<Rightarrow> inspect_ev \<Rightarrow> bool" where
  "inspect_guard s SubmitReplay = (\<not> replaying s)"
| "inspect_guard s (SelectEntry e) = (e \<in> set (in_filtered s))"
| "inspect_guard s _ = True"

fun inspect_cmd_ok :: "string \<Rightarrow> cmd \<Rightarrow> bool" where
  "inspect_cmd_ok tid (CallApi m p b) = ((m, p, b) = (''GET'', tunnel_path tid, JUndef))"
| "inspect_cmd_ok tid _ = True"

lemma inspect_parts_guarded:
  "e \<in> events (inspect_table fmt s) \<Longrightarrow> inspect_guard s e" "e \<in> events (entry_panel x) \<Longrightarrow> inspect_guard s e"
  "e \<in> events (replay_dialog s) \<Longrightarrow> inspect_guard s e"
  by (auto simp: inspect_table_def entry_row_view_def entry_panel_def headers_view_def body_view_def replay_dialog_def split: if_splits)

lemma inspect_offered: "e \<in> events (TunnelInspect_view fmt tid s) \<Longrightarrow> inspect_guard s e"
  by (auto simp: TunnelInspect_view_def dest: inspect_parts_guarded split: option.splits)

lemma inspect_user_inv:
  assumes "inspect_inv s ks" and "inspect_guard s e"
  shows "inspect_inv (fst (inspect_user e s)) (ks @ snd (snd (inspect_user e s)))"
    and "list_all (inspect_cmd_ok tid) (fst (snd (inspect_user e s)))"
  using assms by (cases e; auto simp: inspect_inv_def flags_def handleOpenReplay_def handleReplay_def)+

lemma inspect_resume_inv:
  assumes "inspect_inv s (ks1 @ k # ks2)"
  shows "inspect_inv (fst (inspect_resume k r s)) (ks1 @ ks2 @ snd (snd (inspect_resume k r s)))"
    and "list_all (inspect_cmd_ok tid) (fst (snd (inspect_resume k r s)))"
  using assms by (cases k; auto simp: inspect_inv_def flags_def split: if_splits)+

lemma inspect_mounted: "inspect_inv inspect_init []" "list_all (inspect_cmd_ok tid) (useTunnel_calls (Some tid))"
  by (simp_all add: inspect_inv_def inspect_init_def flags_def useTunnel_calls_def)

lemma addEntry_inv: "inspect_inv s ks \<Longrightarrow> inspect_inv (addEntry e s) ks"
  by (simp add: inspect_inv_def addEntry_def)

lemma inspect_changed: "inspect_inv s ks \<Longrightarrow> inspect_env s s' \<Longrightarrow> inspect_inv s' ks"
  by (auto simp: inspect_env_def inspect_onmessage_def mock_tick_def addEntry_inv inspect_inv_def addEntry_def split: option.splits)

interpretation inspect: page_guarded "TunnelInspect fmt tid" inspect_inv inspect_guard "inspect_cmd_ok tid" for fmt tid
  by unfold_locales (simp_all add: inspect_mounted inspect_user_inv inspect_resume_inv inspect_changed, erule inspect_offered)

section \<open>Properties of the page\<close>

lemma take_window: "take n (xs @ take n ys) = take n (xs @ ys)"
  by simp

lemma addEntry_fold: "length (entries s) \<le> MAX_ENTRIES \<Longrightarrow> entries (foldl (\<lambda>s e. addEntry e s) s es) = take MAX_ENTRIES (rev es @ entries s)"
proof (induction es arbitrary: s)
  case Nil
  then show ?case by simp
next
  case (Cons e es)
  have "length (entries (addEntry e s)) \<le> MAX_ENTRIES" by (simp add: addEntry_def)
  then have "entries (foldl (\<lambda>s e. addEntry e s) (addEntry e s) es) = take MAX_ENTRIES (rev es @ entries (addEntry e s))"
    by (rule Cons.IH)
  also have "entries (addEntry e s) = take MAX_ENTRIES (e # entries s)" by (simp add: addEntry_def)
  also have "take MAX_ENTRIES (rev es @ take MAX_ENTRIES (e # entries s)) = take MAX_ENTRIES (rev es @ e # entries s)"
    by (rule take_window)
  finally show ?case by simp
qed

text \<open>The inspector shows a sliding window: it never holds more than 200 entries, after any number of arrivals it
  holds the latest 200 of them and of the ones before, newest first; what the filter shows is a subsequence of it, all of
  it where the filter is empty; and while it is paused, messages and made-up entries change nothing.\<close>

theorem inspect_window:
  assumes "page_reach (TunnelInspect fmt tid) (s, ks, out)"
  shows "length (entries s) \<le> 200 \<and>
    entries (foldl (\<lambda>s e. addEntry e s) s es) = take 200 (rev es @ entries s) \<and>
    subseq (in_filtered s) (entries s) \<and> (in_filter s = '''' \<longrightarrow> in_filtered s = entries s) \<and>
    (paused s \<longrightarrow> inspect_onmessage as_entry m s = s \<and> mock_tick e s = s)"
  using inspect.reachable [OF assms] addEntry_fold [of s es]
  by (simp add: inspect_inv_def in_filtered_def inspect_onmessage_def mock_tick_def subseq_filter_left)

theorem inspect_window_witness:
  "\<exists>s. page_reach (TunnelInspect id ''t'') (s, [], useTunnel_calls (Some ''t'')) \<and>
     entries (foldl (\<lambda>s e. addEntry e s) s [e1, e2]) = [e2, e1]"
proof -
  have r: "page_reach (TunnelInspect id ''t'') (inspect_init, [], useTunnel_calls (Some ''t''))" by (rule reach_mount) simp
  have "entries inspect_init = []" by (simp add: inspect_init_def)
  with inspect_window [OF r, of "[e1, e2]"] r show ?thesis by force
qed

text \<open>A replay replays nothing. Whatever is done on the page, the only request it ever sends is the one that loads
  the tunnel, and yet the end of a replay reports success.\<close>

theorem replay_sends_nothing:
  assumes "page_reach (TunnelInspect fmt tid) (s, ks, out)" and "CallApi m p b \<in> set out"
  shows "m = ''GET'' \<and> p = ''/v1/tunnels/'' @ tid \<and>
    fst (snd (inspect_resume KReplay r s)) = [ShowToast [Lit ''Request replayed (mock)''] ''success'']"
  using inspect.commands [OF assms] by (simp add: tunnel_path_def)

theorem replay_sends_nothing_witness:
  "\<exists>s out. page_reach (TunnelInspect id ''t'') (s, [KReplay], out) \<and> replaying s \<and>
     CallApi ''GET'' ''/v1/tunnels/t'' JUndef \<in> set out \<and>
     fst (snd (inspect_resume KReplay (Inr JUndef) s)) = [ShowToast [Lit ''Request replayed (mock)''] ''success'']"
proof -
  fix e :: inspect_entry
  let ?play = "[Change (mock_tick e), Do (SelectEntry e), Do (OpenReplay e), Do SubmitReplay]"
  have env: "inspect_env s (mock_tick e s)" for s by (auto simp: inspect_env_def)
  have one: "entries (mock_tick e inspect_init) = [e]" "in_filter (mock_tick e inspect_init) = ''''"
    "replaying (mock_tick e inspect_init) = False"
    by (simp_all add: mock_tick_def addEntry_def inspect_init_def)
  have offers: "e \<in> set (in_filtered s) \<Longrightarrow> SelectEntry e \<in> events (TunnelInspect_view f t s)"
    "selectedEntry s = Some e \<Longrightarrow> OpenReplay e \<in> events (TunnelInspect_view f t s)"
    "showReplay s \<Longrightarrow> \<not> replaying s \<Longrightarrow> SubmitReplay \<in> events (TunnelInspect_view f t s)" for s f t
    by (auto simp: TunnelInspect_view_def inspect_table_def entry_row_view_def entry_panel_def replay_dialog_def)
  have "\<exists>s out. page_play (TunnelInspect id ''t'') ?play (inspect_init, [], useTunnel_calls (Some ''t'')) = Some (s, [KReplay], out) \<and>
      replaying s \<and> CallApi ''GET'' ''/v1/tunnels/t'' JUndef \<in> set out"
    by (simp add: env one offers in_filtered_def handleOpenReplay_def handleReplay_def useTunnel_calls_def tunnel_path_def)
  then obtain s out where r: "page_reach (TunnelInspect id ''t'') (s, [KReplay], out)" "replaying s"
    and c: "CallApi ''GET'' ''/v1/tunnels/t'' JUndef \<in> set out"
    using page_play_mount [OF TunnelInspect_sel(1)] by blast
  from replay_sends_nothing [OF r(1) c, of "Inr JUndef"] r c show ?thesis by blast
qed

section \<open>The page's socket\<close>

text \<open>
  The effect's variables: the socket it holds, whether a reconnection is scheduled, and whether the clean-up has
  run; \<open>sk_opened\<close> has the URLs of all sockets created. The browser's events are enabled as for the connection
  class; a timeout is set by every closing and by a constructor that throws.
\<close>

record inspect_sock =
  sk_ws :: "ready_state option"
  sk_timer :: bool
  sk_cleaned :: bool
  sk_opened :: "string list"

definition inspect_url :: "string option \<Rightarrow> string" where
  "inspect_url tok = ''ws://localhost:8080/ws?token='' @ encodeURIComponent (text_or_empty tok)"

definition sk_connect :: "(string \<Rightarrow> bool) \<Rightarrow> string \<Rightarrow> inspect_sock \<Rightarrow> inspect_sock" where
  "sk_connect ok url w =
     (if ok url then w\<lparr>sk_ws := Some CONNECTING, sk_opened := sk_opened w @ [url]\<rparr> else w\<lparr>sk_timer := True\<rparr>)"

definition sk_mount :: "(string \<Rightarrow> bool) \<Rightarrow> string \<Rightarrow> inspect_sock" where
  "sk_mount ok url = sk_connect ok url \<lparr>sk_ws = None, sk_timer = False, sk_cleaned = False, sk_opened = []\<rparr>"

definition sk_onclose :: "inspect_sock \<Rightarrow> inspect_sock" where
  "sk_onclose w = w\<lparr>sk_ws := Some CLOSED, sk_timer := True\<rparr>"

definition sk_cleanup :: "inspect_sock \<Rightarrow> inspect_sock" where
  "sk_cleanup w = w\<lparr>sk_ws := (if sk_ws w \<in> {Some CONNECTING, Some OPEN} then Some CLOSING else sk_ws w), sk_timer := False, sk_cleaned := True\<rparr>"

datatype sk_event = SkOpen | SkPeerCloses | SkClose | SkTimer | SkCleanup

fun sk_apply :: "(string \<Rightarrow> bool) \<Rightarrow> string \<Rightarrow> sk_event \<Rightarrow> inspect_sock \<Rightarrow> inspect_sock option" where
  "sk_apply ok url SkOpen w = (if sk_ws w = Some CONNECTING then Some (w\<lparr>sk_ws := Some OPEN\<rparr>) else None)"
| "sk_apply ok url SkPeerCloses w = (if sk_ws w = Some OPEN then Some (w\<lparr>sk_ws := Some CLOSING\<rparr>) else None)"
| "sk_apply ok url SkClose w = (if sk_ws w \<in> {Some CONNECTING, Some OPEN, Some CLOSING} then Some (sk_onclose w) else None)"
| "sk_apply ok url SkTimer w = (if sk_timer w then Some (sk_connect ok url (w\<lparr>sk_timer := False\<rparr>)) else None)"
| "sk_apply ok url SkCleanup w = (if sk_cleaned w then None else Some (sk_cleanup w))"

fun sk_run :: "(string \<Rightarrow> bool) \<Rightarrow> string \<Rightarrow> sk_event list \<Rightarrow> inspect_sock \<Rightarrow> inspect_sock option" where
  "sk_run ok url [] w = Some w"
| "sk_run ok url (e # es) w = (case sk_apply ok url e w of None \<Rightarrow> None | Some w' \<Rightarrow> sk_run ok url es w')"

text \<open>While the page is there it does not stay without a connection: a socket that is not closed or a timer that will
  make one, never both.\<close>

definition sk_alive :: "inspect_sock \<Rightarrow> bool" where
  "sk_alive w \<longleftrightarrow> (sk_ws w \<in> {Some CONNECTING, Some OPEN, Some CLOSING} \<longleftrightarrow> \<not> sk_timer w)"

lemma sk_apply_alive: "sk_apply ok url e w = Some w' \<Longrightarrow> sk_alive w \<Longrightarrow> \<not> sk_cleaned w' \<Longrightarrow> sk_alive w'"
  by (cases e) (auto simp: sk_alive_def sk_onclose_def sk_connect_def sk_cleanup_def split: if_splits)

lemma sk_apply_cleaned: "sk_apply ok url e w = Some w' \<Longrightarrow> \<not> sk_cleaned w' \<Longrightarrow> \<not> sk_cleaned w"
  by (cases e) (auto simp: sk_onclose_def sk_connect_def sk_cleanup_def split: if_splits)

lemma sk_run_cleaned: "sk_run ok url es w = Some w' \<Longrightarrow> \<not> sk_cleaned w' \<Longrightarrow> \<not> sk_cleaned w"
  by (induction es arbitrary: w) (auto dest: sk_apply_cleaned split: option.splits)

lemma sk_run_alive: "sk_run ok url es w = Some w' \<Longrightarrow> sk_alive w \<Longrightarrow> \<not> sk_cleaned w' \<Longrightarrow> sk_alive w'"
proof (induction es arbitrary: w)
  case (Cons e es)
  then obtain v where v: "sk_apply ok url e w = Some v" "sk_run ok url es v = Some w'" by (auto split: option.splits)
  from Cons.IH [OF v(2) sk_apply_alive [OF v(1) Cons.prems(2) sk_run_cleaned [OF v(2) Cons.prems(3)]] Cons.prems(3)]
  show ?case .
qed simp

lemma sk_mount_alive: "sk_alive (sk_mount ok url)"
  by (simp add: sk_alive_def sk_mount_def sk_connect_def)

text \<open>After the clean-up: the closing of the socket schedules a reconnection, which opens the next socket.\<close>

lemma leak_once:
  assumes "ok url" and "sk_ws w = Some CLOSING \<or> sk_ws w = Some CONNECTING"
  shows "sk_run ok url [SkClose, SkTimer] w =
    Some (w\<lparr>sk_ws := Some CONNECTING, sk_timer := False, sk_opened := sk_opened w @ [url]\<rparr>)"
  using assms by (auto simp: sk_onclose_def sk_connect_def)

lemma sk_run_append: "sk_run ok url (es @ fs) w = (case sk_run ok url es w of None \<Rightarrow> None | Some w' \<Rightarrow> sk_run ok url fs w')"
  by (induction es arbitrary: w) (auto split: option.splits)

lemma leak_many:
  assumes "ok url" and "sk_ws w = Some CLOSING \<or> sk_ws w = Some CONNECTING"
  shows "\<exists>w'. sk_run ok url (concat (replicate n [SkClose, SkTimer])) w = Some w' \<and>
    sk_opened w' = sk_opened w @ replicate n url \<and> sk_cleaned w' = sk_cleaned w"
  using assms(2)
proof (induction n arbitrary: w)
  case (Suc n)
  let ?v = "w\<lparr>sk_ws := Some CONNECTING, sk_timer := False, sk_opened := sk_opened w @ [url]\<rparr>"
  have "sk_ws ?v = Some CLOSING \<or> sk_ws ?v = Some CONNECTING" by simp
  from Suc.IH [OF this] obtain w' where w': "sk_run ok url (concat (replicate n [SkClose, SkTimer])) ?v = Some w'"
    "sk_opened w' = sk_opened ?v @ replicate n url" "sk_cleaned w' = sk_cleaned ?v" by blast
  have "concat (replicate (Suc n) [SkClose, SkTimer]) = [SkClose, SkTimer] @ concat (replicate n [SkClose, SkTimer])" by simp
  then have "sk_run ok url (concat (replicate (Suc n) [SkClose, SkTimer])) w = Some w'"
    using leak_once [where ok = ok, OF assms(1) Suc.prems] w'(1) by (simp only: sk_run_append option.case)
  with w'(2,3) show ?case by simp
qed simp

text \<open>C23: the inspector's socket outlives the page. As long as the page is shown it has a socket or a scheduled
  reconnection, never both. But leaving the page closes the socket without detaching its handler: the closing schedules a
  new connection, and since nothing is left to stop it, any number of further sockets can be opened by a page that is
  gone.\<close>

theorem inspect_socket_leaks:
  assumes "ok url" and "sk_run ok url es (sk_mount ok url) = Some w" and "\<not> sk_cleaned w"
  shows "(sk_ws w \<in> {Some CONNECTING, Some OPEN, Some CLOSING} \<longleftrightarrow> \<not> sk_timer w) \<and>
    (\<not> sk_timer w \<longrightarrow> (\<exists>w'. sk_run ok url (es @ SkCleanup # concat (replicate n [SkClose, SkTimer])) (sk_mount ok url) = Some w' \<and>
       sk_cleaned w' \<and> sk_opened w' = sk_opened w @ replicate n url))"
proof -
  have alive: "sk_alive w" by (rule sk_run_alive [OF assms(2) sk_mount_alive assms(3)])
  have "\<exists>w'. sk_run ok url (es @ SkCleanup # concat (replicate n [SkClose, SkTimer])) (sk_mount ok url) = Some w' \<and>
       sk_cleaned w' \<and> sk_opened w' = sk_opened w @ replicate n url" if "\<not> sk_timer w"
  proof -
    have "sk_ws (sk_cleanup w) = Some CLOSING" using alive that by (auto simp: sk_alive_def sk_cleanup_def)
    then obtain w' where "sk_run ok url (concat (replicate n [SkClose, SkTimer])) (sk_cleanup w) = Some w'"
      "sk_opened w' = sk_opened (sk_cleanup w) @ replicate n url" "sk_cleaned w' = sk_cleaned (sk_cleanup w)"
      using leak_many [where ok = ok, OF assms(1)] by blast
    then show ?thesis using assms(2,3) by (auto simp: sk_run_append sk_cleanup_def)
  qed
  with alive show ?thesis by (auto simp: sk_alive_def)
qed

theorem inspect_socket_leaks_witness:
  "\<exists>w'. sk_run (\<lambda>_. True) ''u'' ([SkOpen] @ SkCleanup # concat (replicate 3 [SkClose, SkTimer])) (sk_mount (\<lambda>_. True) ''u'') = Some w' \<and>
     sk_cleaned w' \<and> sk_opened w' = [''u'', ''u'', ''u'', ''u'']"
proof -
  obtain w where w: "sk_run (\<lambda>_. True) ''u'' [SkOpen] (sk_mount (\<lambda>_. True) ''u'') = Some w"
    "\<not> sk_cleaned w" "\<not> sk_timer w" "sk_opened w = [''u'']"
    by (simp add: sk_mount_def sk_connect_def)
  have "replicate 3 ''u'' = [''u'', ''u'', ''u'']" by (simp add: numeral_3_eq_3)
  with inspect_socket_leaks [where ok = "\<lambda>_. True" and n = 3, OF _ w(1,2)] w(3,4) show ?thesis by simp
qed


section \<open>What a replay starts from\<close>

lemma join_with_front: "xs \<noteq> [] \<Longrightarrow> join_with sep (map (\<lambda>x. p @ f x) xs) = p @ join_with (sep @ p) (map f xs)"
proof (induction xs)
  case (Cons x xs)
  then show ?case by (cases xs) auto
qed simp

lemma stringify_headers_json: "stringify_headers hs = json_pretty '''' (JObj (map (\<lambda>(k, v). (k, JStr v)) hs))"
proof (cases "hs = []")
  case False
  then show ?thesis
    using join_with_front [of hs "'',''" nl "\<lambda>(k, v). ''  '' @ json_quote k @ '': '' @ json_quote v"]
    by (simp add: stringify_headers_def comp_def case_prod_unfold)
qed (simp add: stringify_headers_def)

text \<open>The headers a replay dialog opens with are the JSON text of the headers of the request, whatever characters they hold: read back,
  they are those headers, in their order; the body is the request's as it was.
\<close>

theorem replay_starts_from_request:
  "json_read (replayHeaders (handleOpenReplay e s)) = Some (JObj (map (\<lambda>(k, v). (k, JStr v)) (data_or_empty (ie_request_headers e)))) \<and>
   replayBody (handleOpenReplay e s) = text_or_empty (ie_request_body e) \<and> showReplay (handleOpenReplay e s)"
proof -
  have j: "is_json (JObj (map (\<lambda>(k, v). (k, JStr v)) hs))" for hs by auto
  show ?thesis by (simp add: handleOpenReplay_def stringify_headers_json json_round_trip [OF j] del: json_pretty.simps)
qed

end
