(* ===== verification/InvoicesPage.thy ===== *)
theory InvoicesPage
  imports Hooks UrlCoding
begin

text \<open>
  The invoices of the admin console (\<open>pages/Invoices.tsx\<close>): the list with its filters, an invoice opened below its row,
  marking as paid and voiding. The cast of an opened invoice is the argument \<open>as_invoice\<close>, with none for an answer that
  is falsy.
\<close>

section \<open>State\<close>

record invoice_item =
  it_description :: string
  it_quantity :: int
  it_unit_price :: "rat option"
  it_total :: "rat option"

record invoice =
  iv_id :: string
  iv_customer :: string
  iv_amount :: "rat option"
  iv_subtotal :: "rat option"
  iv_tax :: "rat option"
  iv_status :: string
  iv_date :: string
  iv_due_date :: "string option"
  iv_payment_method :: string
  iv_items :: "invoice_item list option"

record invoices_answer =
  ia_invoices :: "invoice list option"
  ia_total :: "int option"

record invoices_page =
  listQuery :: "invoices_answer query"
  iv_search :: string
  iv_statusFilter :: string
  expandedId :: "string option"
  detailData :: "invoice option"
  detailLoading :: bool

definition invoices_init :: invoices_page where
  "invoices_init = \<lparr>listQuery = q_pending, iv_search = '''', iv_statusFilter = '''', expandedId = None, detailData = None, detailLoading = False\<rparr>"

datatype invoices_ev =
  SearchInvoices string | FilterInvoices string | LoadDetail string | MarkPaid string bool | VoidInvoice string bool | RetryInvoiceList

datatype invoices_k = KDetail string | KMarkPaid string | KVoid string

section \<open>Handlers\<close>

abbreviation invoices_path :: string where
  "invoices_path \<equiv> ''/api/admin/v1/invoices''"

definition invoices_call :: "invoices_page \<Rightarrow> cmd" where
  "invoices_call s = CallApi ''GET''
     (invoices_path @ ''?'' @ params_string (params_set_if ''customer'' (iv_search s) (params_set_if ''status'' (iv_statusFilter s) []))) JUndef"

definition mark_paid_path :: "string \<Rightarrow> string" where
  "mark_paid_path i = invoices_path @ ''/'' @ i @ ''/mark-paid''"

definition void_path :: "string \<Rightarrow> string" where
  "void_path i = invoices_path @ ''/'' @ i @ ''/void''"

definition loadDetail :: "string \<Rightarrow> invoices_page \<Rightarrow> (invoices_page, invoices_k) effect" where
  "loadDetail i s =
     (if expandedId s = Some i then (s\<lparr>expandedId := None, detailData := None\<rparr>, [], [])
      else (s\<lparr>expandedId := Some i, detailLoading := True\<rparr>, [CallApi ''GET'' (invoices_path @ ''/'' @ i) JUndef], [KDetail i]))"

text \<open>What follows the \<open>await\<close> sets the data whatever is opened by then.\<close>

definition loadDetail_done :: "(json \<Rightarrow> invoice option) \<Rightarrow> result \<Rightarrow> invoices_page \<Rightarrow> invoices_page" where
  "loadDetail_done as_invoice r s =
     s\<lparr>detailData := (case r of Inl err \<Rightarrow> None | Inr data \<Rightarrow> as_invoice data), detailLoading := False\<rparr>"

definition settle_done :: "result \<Rightarrow> invoices_page \<Rightarrow> (invoices_page, invoices_k) effect" where
  "settle_done r s =
     (case r of
        Inl err \<Rightarrow> (s, [], [])
      | Inr v \<Rightarrow> (s\<lparr>expandedId := None, detailData := None\<rparr>, [Invalidate [''admin'', ''invoices'']], []))"

fun invoices_user :: "invoices_ev \<Rightarrow> invoices_page \<Rightarrow> (invoices_page, invoices_k) effect" where
  "invoices_user (SearchInvoices v) s = (s\<lparr>iv_search := v\<rparr>, [], [])"
| "invoices_user (FilterInvoices v) s = (s\<lparr>iv_statusFilter := v\<rparr>, [], [])"
| "invoices_user (LoadDetail i) s = loadDetail i s"
| "invoices_user (MarkPaid i ok) s = (if ok then (s, [CallApi ''POST'' (mark_paid_path i) JUndef], [KMarkPaid i]) else (s, [], []))"
| "invoices_user (VoidInvoice i ok) s = (if ok then (s, [CallApi ''POST'' (void_path i) JUndef], [KVoid i]) else (s, [], []))"
| "invoices_user RetryInvoiceList s = (s, [Refetch [''admin'', ''invoices'', iv_statusFilter s, iv_search s]], [])"

fun invoices_resume :: "(json \<Rightarrow> invoice option) \<Rightarrow> invoices_k \<Rightarrow> result \<Rightarrow> invoices_page \<Rightarrow> (invoices_page, invoices_k) effect" where
  "invoices_resume asi (KDetail i) r s = (loadDetail_done asi r s, [], [])"
| "invoices_resume asi (KMarkPaid i) r s = settle_done r s"
| "invoices_resume asi (KVoid i) r s = settle_done r s"

section \<open>View\<close>

text \<open>\<open>$\<close> and \<open>x?.toFixed(2)\<close>.\<close>

definition money :: "rat option \<Rightarrow> string" where
  "money x = ''$'' @ (case x of None \<Rightarrow> '''' | Some n \<Rightarrow> toFixed 2 n)"

definition invoice_items :: "invoice_item list \<Rightarrow> 'e ui" where
  "invoice_items items = Node ''div''
     [Node ''p'' [Say (tr ''invoices.invoiceItems'')],
      Node ''table''
       [head_row [''invoices.description'', ''invoices.qty'', ''invoices.unitPrice'', ''invoices.total''],
        Node ''tbody'' (map (\<lambda>it. Node ''tr'' [Say [Lit (it_description it)], Say [Lit (int_string (it_quantity it))],
          Say [Lit (money (it_unit_price it))], Say [Lit (money (it_total it))]]) items)]]"

definition invoice_detail :: "invoices_page \<Rightarrow> 'e ui" where
  "invoice_detail s =
     (if detailLoading s then Node ''div'' (replicate 3 (Node ''Skeleton'' []))
      else (case detailData s of
          None \<Rightarrow> Node ''p'' [Say (tr ''invoices.failedToLoadDetail'')]
        | Some d \<Rightarrow> Node ''div''
           [Say (tr ''invoices.subtotal''), Say [Lit (money (iv_subtotal d))], Say (tr ''invoices.tax''), Say [Lit (money (iv_tax d))],
            Say (tr ''invoices.paymentMethod''), Say (if iv_payment_method d \<noteq> '''' then [Lit (iv_payment_method d)] else tr ''invoices.na''),
            (case iv_items d of None \<Rightarrow> Null | Some items \<Rightarrow> only_if (items \<noteq> []) (invoice_items items))]))"

definition invoice_rows :: "(string \<Rightarrow> string) \<Rightarrow> invoices_page \<Rightarrow> invoice \<Rightarrow> invoices_ev ui list" where
  "invoice_rows toLocaleDateString s i =
     [Node ''TableRow''
       [Say [Lit (take 8 (iv_id i))], Say [Lit (or_dash (iv_customer i))], Say [Lit (money (iv_amount i))], Node ''Badge'' [Say [Lit (iv_status i)]],
        Say [Lit (if iv_date i \<noteq> '''' then toLocaleDateString (iv_date i) else ''-'')],
        Say [Lit (case iv_due_date i of None \<Rightarrow> ''-'' | Some d \<Rightarrow> d)],
        Button False (LoadDetail (iv_id i)) [Node (if expandedId s = Some (iv_id i) then ''ChevronUp'' else ''ChevronDown'') []],
        only_if (iv_status i \<noteq> ''paid'' \<and> iv_status i \<noteq> ''void'') (confirm_button False (MarkPaid (iv_id i))),
        only_if (iv_status i \<noteq> ''void'' \<and> iv_status i \<noteq> ''paid'') (confirm_button False (VoidInvoice (iv_id i))),
        Node ''Mail'' []],
      only_if (expandedId s = Some (iv_id i)) (Node ''TableRow'' [invoice_detail s])]"

definition invoices_listed :: "invoices_answer query \<Rightarrow> invoice list" where
  "invoices_listed q = data_or_empty (Option.bind (q_data q) ia_invoices)"

definition invoices_table :: "(string \<Rightarrow> string) \<Rightarrow> invoices_page \<Rightarrow> invoices_ev ui" where
  "invoices_table toLocaleDateString s =
     (let q = listQuery s in
      Node ''Card''
       [Node ''CardTitle'' [Say (tr ''invoices.allInvoices''),
          (case Option.bind (q_data q) ia_total of None \<Rightarrow> Null | Some n \<Rightarrow> Say [Lit ('' ('' @ int_string n @ '')'')])],
        if q_isError q then failed_load ''invoices.failedToLoad'' [Button False RetryInvoiceList [Say (tr ''common.retry'')]]
        else Node ''Table''
         [head_row [''invoices.id'', ''invoices.customer'', ''invoices.amount'', ''invoices.status'', ''invoices.date'', ''invoices.dueDate'',
            ''invoices.actions''],
          Node ''TableBody'' (if q_isLoading q then replicate 4 (Node ''TableRow'' (replicate 7 (Node ''Skeleton'' [])))
            else concat (map (invoice_rows toLocaleDateString s) (invoices_listed q)))],
        only_if (Option.bind (q_data q) ia_invoices = Some [] \<and> \<not> q_isLoading q) (Say (tr ''invoices.noInvoices''))])"

definition Invoices_view :: "(string \<Rightarrow> string) \<Rightarrow> invoices_page \<Rightarrow> invoices_ev ui" where
  "Invoices_view toLocaleDateString s = Node ''div''
     [Node ''h1'' [Say (tr ''invoices.title'')], Node ''p'' [Say (tr ''invoices.subtitle'')],
      Input [] (iv_search s) [] False SearchInvoices,
      Select (iv_statusFilter s) [('''', tr ''invoices.allStatuses''), (''paid'', [Lit ''Paid'']), (''pending'', [Lit ''Pending'']),
        (''overdue'', [Lit ''Overdue'']), (''void'', [Lit ''Void''])] FilterInvoices,
      invoices_table toLocaleDateString s]"

text \<open>\<open>settled\<close> holds the invoices that every list the server sends shows as paid or void; none are known in advance where
  it is empty.\<close>

definition invoices_env :: "string set \<Rightarrow> invoices_page \<Rightarrow> invoices_page \<Rightarrow> bool" where
  "invoices_env S s s' \<longleftrightarrow>
     (\<exists>q. s' = s\<lparr>listQuery := q\<rparr> \<and> (\<forall>i \<in> set (invoices_listed q). iv_id i \<in> S \<longrightarrow> iv_status i \<in> {''paid'', ''void''}))"

definition Invoices ::
  "(string \<Rightarrow> string) \<Rightarrow> (json \<Rightarrow> invoice option) \<Rightarrow> string set \<Rightarrow> (invoices_page, invoices_ev, invoices_k) page" where
  "Invoices toLocaleDateString as_invoice S =
     \<lparr>pg_mount = (invoices_init, [invoices_call invoices_init], []), pg_view = Invoices_view toLocaleDateString, pg_user = invoices_user,
      pg_resume = invoices_resume as_invoice, pg_env = invoices_env S\<rparr>"

lemma Invoices_sel [simp]:
  "pg_mount (Invoices fmt asi S) = (invoices_init, [invoices_call invoices_init], [])" "pg_view (Invoices fmt asi S) = Invoices_view fmt"
  "pg_user (Invoices fmt asi S) = invoices_user" "pg_resume (Invoices fmt asi S) = invoices_resume asi" "pg_env (Invoices fmt asi S) = invoices_env S"
  by (simp_all add: Invoices_def)

section \<open>Invariant\<close>

text \<open>The list shows the settled ones as settled, and an invoice that is opened and not loading has been answered for.\<close>

definition invoices_inv :: "string set \<Rightarrow> invoices_page \<Rightarrow> invoices_k list \<Rightarrow> bool" where
  "invoices_inv S s ks \<longleftrightarrow>
     (\<forall>i \<in> set (invoices_listed (listQuery s)). iv_id i \<in> S \<longrightarrow> iv_status i \<in> {''paid'', ''void''}) \<and>
     (detailLoading s \<longrightarrow> (\<exists>i. KDetail i \<in> set ks))"

fun invoices_guard :: "string set \<Rightarrow> invoices_page \<Rightarrow> invoices_ev \<Rightarrow> bool" where
  "invoices_guard S s (MarkPaid i ok) = (i \<notin> S)"
| "invoices_guard S s (VoidInvoice i ok) = (i \<notin> S)"
| "invoices_guard S s _ = True"

fun invoices_cmd_ok :: "string set \<Rightarrow> cmd \<Rightarrow> bool" where
  "invoices_cmd_ok S (CallApi m p b) =
     (b = JUndef \<and> (if m = ''POST'' then \<exists>i. i \<notin> S \<and> (p = mark_paid_path i \<or> p = void_path i) else m = ''GET''))"
| "invoices_cmd_ok S _ = True"

lemma events_invoice_detail [simp]: "events (invoice_detail s) = {}" "events (invoice_items items) = {}"
  by (auto simp: invoice_detail_def invoice_items_def split: option.split)

lemma invoice_rows_events:
  "u \<in> set (invoice_rows fmt s i) \<Longrightarrow> e \<in> events u \<Longrightarrow>
   e = LoadDetail (iv_id i) \<or> iv_status i \<notin> {''paid'', ''void''} \<and> (\<exists>ok. e = MarkPaid (iv_id i) ok \<or> e = VoidInvoice (iv_id i) ok)"
  by (auto simp: invoice_rows_def split: if_splits)

lemma invoices_table_events:
  assumes "e \<in> events (invoices_table fmt s)"
  obtains "e = RetryInvoiceList" | i where "i \<in> set (invoices_listed (listQuery s))" "e = LoadDetail (iv_id i)"
  | i ok where "i \<in> set (invoices_listed (listQuery s))" "iv_status i \<notin> {''paid'', ''void''}"
      "e = MarkPaid (iv_id i) ok \<or> e = VoidInvoice (iv_id i) ok"
proof -
  from assms consider "e = RetryInvoiceList"
    | i u where "i \<in> set (invoices_listed (listQuery s))" "u \<in> set (invoice_rows fmt s i)" "e \<in> events u"
    by (auto simp: invoices_table_def Let_def split: if_splits option.splits)
  then show ?thesis using invoice_rows_events that by cases blast+
qed

lemma invoices_offered: "invoices_inv S s ks \<Longrightarrow> e \<in> events (Invoices_view fmt s) \<Longrightarrow> invoices_guard S s e"
  by (auto simp: Invoices_view_def invoices_inv_def elim!: invoices_table_events)

lemma invoices_user_inv:
  assumes "invoices_inv S s ks" and "invoices_guard S s e"
  shows "invoices_inv S (fst (invoices_user e s)) (ks @ snd (snd (invoices_user e s)))"
    and "list_all (invoices_cmd_ok S) (fst (snd (invoices_user e s)))"
  using assms by (cases e; auto simp: invoices_inv_def loadDetail_def)+

lemma invoices_resume_inv:
  assumes "invoices_inv S s (ks1 @ k # ks2)"
  shows "invoices_inv S (fst (invoices_resume asi k r s)) (ks1 @ ks2 @ snd (snd (invoices_resume asi k r s)))"
    and "list_all (invoices_cmd_ok S) (fst (snd (invoices_resume asi k r s)))"
  using assms by (cases k; cases r; auto simp: invoices_inv_def loadDetail_done_def settle_done_def)+

lemma invoices_mounted: "invoices_inv S invoices_init []" "invoices_cmd_ok S (invoices_call invoices_init)"
  by (simp_all add: invoices_inv_def invoices_init_def invoices_listed_def invoices_call_def)

lemma invoices_changed: "invoices_inv S s ks \<Longrightarrow> invoices_env S s s' \<Longrightarrow> invoices_inv S s' ks"
  by (auto simp: invoices_inv_def invoices_env_def)

interpretation invoices: page_guarded "Invoices fmt asi S" "invoices_inv S" "invoices_guard S" "invoices_cmd_ok S" for fmt asi S
  by unfold_locales
    (simp_all add: invoices_mounted invoices_user_inv invoices_resume_inv invoices_changed del: invoices_cmd_ok.simps, erule (1) invoices_offered)

section \<open>Properties\<close>

lemma settle_paths: "mark_paid_path i \<noteq> void_path j" "mark_paid_path i = mark_paid_path j \<longleftrightarrow> i = j" "void_path i = void_path j \<longleftrightarrow> i = j"
proof -
  have "rev (mark_paid_path i) \<noteq> rev (void_path j)" by (simp add: mark_paid_path_def void_path_def)
  then show "mark_paid_path i \<noteq> void_path j" by metis
qed (simp_all add: mark_paid_path_def void_path_def)

text \<open>C14: settled invoices are left alone. Whatever the lists the server sends and however they change, no request marks as
  paid or voids an invoice that every list shows as paid or void.\<close>

theorem settled_invoices_kept:
  assumes "page_reach (Invoices fmt asi S) (s, ks, out)" and "i \<in> S"
  shows "CallApi ''POST'' (mark_paid_path i) b \<notin> set out \<and> CallApi ''POST'' (void_path i) b \<notin> set out"
proof -
  have "\<not> invoices_cmd_ok S (CallApi ''POST'' (mark_paid_path i) b)" "\<not> invoices_cmd_ok S (CallApi ''POST'' (void_path i) b)"
    using assms(2) by (auto simp: settle_paths settle_paths(1) [symmetric])
  then show ?thesis using invoices.commands [OF assms(1)] by blast
qed

lemma invoice_row_shown:
  "\<not> q_isError (listQuery s) \<Longrightarrow> \<not> q_isLoading (listQuery s) \<Longrightarrow> i \<in> set (invoices_listed (listQuery s)) \<Longrightarrow>
   u \<in> set (invoice_rows fmt s i) \<Longrightarrow> e \<in> events u \<Longrightarrow> e \<in> events (Invoices_view fmt s)"
  by (auto simp: Invoices_view_def invoices_table_def Let_def)

lemma invoice_row_events:
  "\<exists>u \<in> set (invoice_rows fmt s i). LoadDetail (iv_id i) \<in> events u"
  "iv_status i \<notin> {''paid'', ''void''} \<Longrightarrow> \<exists>u \<in> set (invoice_rows fmt s i). VoidInvoice (iv_id i) ok \<in> events u"
  by (auto simp: invoice_rows_def)

lemma invoice_events:
  "\<not> q_isError (listQuery s) \<Longrightarrow> \<not> q_isLoading (listQuery s) \<Longrightarrow> i \<in> set (invoices_listed (listQuery s)) \<Longrightarrow>
     LoadDetail (iv_id i) \<in> events (Invoices_view fmt s)"
  "\<not> q_isError (listQuery s) \<Longrightarrow> \<not> q_isLoading (listQuery s) \<Longrightarrow> i \<in> set (invoices_listed (listQuery s)) \<Longrightarrow>
     iv_status i \<notin> {''paid'', ''void''} \<Longrightarrow> VoidInvoice (iv_id i) ok \<in> events (Invoices_view fmt s)"
  using invoice_row_shown invoice_row_events by blast+

definition sample_invoice :: "string \<Rightarrow> string \<Rightarrow> invoice" where
  "sample_invoice i st = \<lparr>iv_id = i, iv_customer = ''Acme'', iv_amount = None, iv_subtotal = None, iv_tax = None, iv_status = st, iv_date = '''',
     iv_due_date = None, iv_payment_method = '''', iv_items = None\<rparr>"

definition list_invoices :: "invoice list \<Rightarrow> invoices_page \<Rightarrow> invoices_page" where
  "list_invoices is_listed s = s\<lparr>listQuery := q_success \<lparr>ia_invoices = Some is_listed, ia_total = None\<rparr>\<rparr>"

lemma list_invoices_sel [simp]:
  "listQuery (list_invoices l s) = q_success \<lparr>ia_invoices = Some l, ia_total = None\<rparr>" "expandedId (list_invoices l s) = expandedId s"
  by (simp_all add: list_invoices_def)

lemma invoices_listed_success [simp]: "invoices_listed (q_success \<lparr>ia_invoices = Some l, ia_total = n\<rparr>) = l"
  by (simp add: invoices_listed_def)

theorem settled_invoices_kept_witness:
  "\<exists>s ks out. page_reach (Invoices id (\<lambda>_. None) {''7''}) (s, ks, out) \<and> CallApi ''POST'' (void_path ''8'') JUndef \<in> set out \<and>
     CallApi ''POST'' (void_path ''7'') JUndef \<notin> set out"
proof -
  let ?l = "list_invoices [sample_invoice ''7'' ''paid'', sample_invoice ''8'' ''pending'']"
  have env: "invoices_env {''7''} s (?l s)" for s
    unfolding invoices_env_def by (intro exI conjI, rule list_invoices_def) (simp add: sample_invoice_def)
  have "VoidInvoice ''8'' True \<in> events (Invoices_view id (?l s))" for s
    using invoice_events(2) [of "?l s" "sample_invoice ''8'' ''pending''"] by (simp add: sample_invoice_def)
  then have "\<exists>s ks out. page_play (Invoices id (\<lambda>_. None) {''7''}) [Change ?l, Do (VoidInvoice ''8'' True)] (invoices_init, [], [invoices_call invoices_init]) =
      Some (s, ks, out) \<and> CallApi ''POST'' (void_path ''8'') JUndef \<in> set out"
    using env by simp
  then obtain s ks out where r: "page_reach (Invoices id (\<lambda>_. None) {''7''}) (s, ks, out)" "CallApi ''POST'' (void_path ''8'') JUndef \<in> set out"
    using page_play_mount [OF Invoices_sel(1)] by blast
  from settled_invoices_kept [OF r(1), of "''7''" JUndef] r show ?thesis by blast
qed

text \<open>C32: an invoice can show the contents of another. When a second invoice is opened while the first is loading, the answer
  for the first that comes last is shown below the second, as its contents, with nothing loading any more.\<close>

theorem detail_of_other_invoice:
  assumes "a \<noteq> b"
  shows "\<exists>s out s'. page_reach (Invoices fmt asi {}) (s, [KDetail a], out) \<and> expandedId s = Some b \<and> detailData s = asi vb \<and>
    page_step (Invoices fmt asi {}) (s, [KDetail a], out) (s', [], out) \<and> pg_resume (Invoices fmt asi {}) (KDetail a) (Inr va) s = (s', [], []) \<and>
    expandedId s' = Some b \<and> detailData s' = asi va \<and> \<not> detailLoading s'"
proof -
  let ?l = "list_invoices [sample_invoice a ''paid'', sample_invoice b ''paid'']"
  have env: "invoices_env {} s (?l s)" for s
    unfolding invoices_env_def by (intro exI conjI, rule list_invoices_def) simp
  have ids: "iv_id (sample_invoice i st) = i" for i st by (simp add: sample_invoice_def)
  have ev: "\<not> q_isError (listQuery s) \<Longrightarrow> \<not> q_isLoading (listQuery s) \<Longrightarrow>
      invoices_listed (listQuery s) = [sample_invoice a ''paid'', sample_invoice b ''paid''] \<Longrightarrow>
      LoadDetail a \<in> events (Invoices_view fmt s) \<and> LoadDetail b \<in> events (Invoices_view fmt s)" for s
    using invoice_events(1) [of s "sample_invoice a ''paid''" fmt] invoice_events(1) [of s "sample_invoice b ''paid''" fmt] by (simp add: ids)
  have "\<exists>s out. page_play (Invoices fmt asi {}) [Change ?l, Do (LoadDetail a), Do (LoadDetail b), Answer 1 (Inr vb)]
      (invoices_init, [], [invoices_call invoices_init]) = Some (s, [KDetail a], out) \<and> expandedId s = Some b \<and> detailData s = asi vb"
    using env ev assms by (simp add: loadDetail_def loadDetail_done_def invoices_init_def)
  then obtain s out where r: "page_reach (Invoices fmt asi {}) (s, [KDetail a], out)" "expandedId s = Some b" "detailData s = asi vb"
    using page_play_mount [OF Invoices_sel(1)] by blast
  obtain s' where s: "pg_resume (Invoices fmt asi {}) (KDetail a) (Inr va) s = (s', [], [])" "expandedId s' = Some b" "detailData s' = asi va"
    "\<not> detailLoading s'"
    using r(2) by (simp add: loadDetail_done_def)
  from step_resume [OF s(1), of "[]" "[]" out] r s show ?thesis by (intro exI [of _ s] exI [of _ out] exI [of _ s']) simp
qed

theorem detail_of_other_invoice_witness:
  "let asi = (\<lambda>v. Some (sample_invoice (js_string v) ''paid'')) in
   \<exists>s out s'. page_reach (Invoices id asi {}) (s, [KDetail ''7''], out) \<and> page_reach (Invoices id asi {}) (s', [], out) \<and>
     detailData s = Some (sample_invoice ''8'' ''paid'') \<and> expandedId s' = Some ''8'' \<and> detailData s' = Some (sample_invoice ''7'' ''paid'')"
proof -
  let ?asi = "\<lambda>v. Some (sample_invoice (js_string v) ''paid'')"
  have ids: "''7'' \<noteq> ''8''" by simp
  obtain s out s' where "page_reach (Invoices id ?asi {}) (s, [KDetail ''7''], out)" "detailData s = ?asi (JStr ''8'')"
    "page_step (Invoices id ?asi {}) (s, [KDetail ''7''], out) (s', [], out)" "expandedId s' = Some ''8''" "detailData s' = ?asi (JStr ''7'')"
    using detail_of_other_invoice [OF ids, where fmt = id and va = "JStr ''7''" and vb = "JStr ''8''" and asi = ?asi] by blast
  moreover from this have "page_reach (Invoices id ?asi {}) (s', [], out)" using reach_step by blast
  ultimately show ?thesis by (auto simp: Let_def)
qed

end
