(* ===== verification/Theming.thy ===== *)
theory Theming
  imports Ui
begin

text \<open>
  Light and dark: the script of \<^verbatim>\<open>web/index.html\<close> that runs before the page is drawn, and
  \<open>components/ThemeToggle.tsx\<close>, the button of the layout that cycles through three themes, stores the choice and keeps the
  class \<open>dark\<close> of the document in line with it and with the preference of the operating system.

  The machine has the document, the storage and the one toggle that can be mounted. An effect runs with the rendering that causes
  it: React flushes the effects of a click before the next event, and the model does so on mounting too.
\<close>

section \<open>State\<close>

datatype theme = Light | Dark | System

record theme_world =
  st_works :: bool
  st_theme :: "string option"
  prefers_dark :: bool
  html_dark :: bool
  toggle :: "theme option"
  listening :: bool

text \<open>Whether \<open>localStorage\<close> can be used, what it has for the key, the preference, the class, the mounted toggle's state, and
  whether its listener for the preference is attached.\<close>

section \<open>The script before the page\<close>

text \<open>Everything stands in one \<open>try\<close>: without a storage nothing is done.\<close>

definition boot :: "theme_world \<Rightarrow> theme_world" where
  "boot w =
     (if st_works w \<and> (st_theme w = Some ''dark'' \<or> st_theme w \<noteq> Some ''light'' \<and> prefers_dark w)
      then w\<lparr>html_dark := True\<rparr> else w)"

section \<open>The toggle\<close>

fun theme_name :: "theme \<Rightarrow> string" where
  "theme_name Light = ''light''"
| "theme_name Dark = ''dark''"
| "theme_name System = ''system''"

definition read_theme :: "string option \<Rightarrow> theme" where
  "read_theme v =
     (if v = Some ''dark'' then Dark else if v = Some ''light'' then Light else System)"

definition getStoredTheme :: "theme_world \<Rightarrow> theme" where
  "getStoredTheme w = (if st_works w then read_theme (st_theme w) else System)"

definition isDark :: "theme \<Rightarrow> bool \<Rightarrow> bool" where
  "isDark t prefers \<longleftrightarrow> t = Dark \<or> t = System \<and> prefers"

definition applyTheme :: "theme \<Rightarrow> theme_world \<Rightarrow> theme_world" where
  "applyTheme t w = w\<lparr>html_dark := isDark t (prefers_dark w)\<rparr>"

definition themeCycle :: "theme list" where
  "themeCycle = [Light, Dark, System]"

fun index_of :: "theme list \<Rightarrow> theme \<Rightarrow> int" where
  "index_of [] t = -1"
| "index_of (x # xs) t = (if x = t then 0 else let i = index_of xs t in if i = -1 then -1 else i + 1)"

definition next_theme :: "theme \<Rightarrow> theme option" where
  "next_theme t = nth_opt themeCycle ((index_of themeCycle t + 1) mod int (length themeCycle))"

text \<open>The two effects, which run after a rendering in which the theme is new.\<close>

definition run_effects :: "theme \<Rightarrow> theme_world \<Rightarrow> theme_world" where
  "run_effects t w = (applyTheme t w)\<lparr>listening := (t = System)\<rparr>"

definition mount_toggle :: "theme_world \<Rightarrow> theme_world" where
  "mount_toggle w = (let t = getStoredTheme w in run_effects t (w\<lparr>toggle := Some t\<rparr>))"

definition unmount_toggle :: "theme_world \<Rightarrow> theme_world" where
  "unmount_toggle w = w\<lparr>toggle := None, listening := False\<rparr>"

text \<open>The updater given to \<open>setTheme\<close> stores the choice; a theme that is none of the list cannot come out of it.\<close>

definition cycle :: "theme_world \<Rightarrow> theme_world" where
  "cycle w =
     (case toggle w of
        None \<Rightarrow> w
      | Some prev \<Rightarrow>
          (case next_theme prev of
             None \<Rightarrow> w
           | Some t \<Rightarrow>
               run_effects t (w\<lparr>toggle := Some t, st_theme := (if st_works w then Some (theme_name t) else st_theme w)\<rparr>)))"

text \<open>A change of the system's preference calls the listener, if it is attached.\<close>

definition preference_change :: "bool \<Rightarrow> theme_world \<Rightarrow> theme_world" where
  "preference_change b w = (let w1 = w\<lparr>prefers_dark := b\<rparr> in if listening w then applyTheme System w1 else w1)"

definition ThemeToggle_view :: "theme \<Rightarrow> 'e \<Rightarrow> 'e ui" where
  "ThemeToggle_view t cycle_event = Button False cycle_event [Say (tr (''theme.'' @ theme_name t))]"

section \<open>Runs\<close>

inductive theme_step :: "theme_world \<Rightarrow> theme_world \<Rightarrow> bool" where
  step_mount: "toggle w = None \<Longrightarrow> theme_step w (mount_toggle w)"
| step_unmount: "toggle w \<noteq> None \<Longrightarrow> theme_step w (unmount_toggle w)"
| step_click: "toggle w \<noteq> None \<Longrightarrow> theme_step w (cycle w)"
| step_preference: "theme_step w (preference_change b w)"

text \<open>A page load: no toggle, no listener, the class not set, then the script.\<close>

definition loaded :: "bool \<Rightarrow> string option \<Rightarrow> bool \<Rightarrow> theme_world" where
  "loaded works stored prefers =
     boot \<lparr>st_works = works, st_theme = stored, prefers_dark = prefers, html_dark = False, toggle = None, listening = False\<rparr>"

inductive theme_reach :: "theme_world \<Rightarrow> bool" where
  theme_load: "theme_reach (loaded works stored prefers)"
| theme_next: "theme_reach w \<Longrightarrow> theme_step w w' \<Longrightarrow> theme_reach w'"

inductive_cases theme_stepE: "theme_step w w'"

section \<open>Properties\<close>

lemma next_theme_simps [simp]: "next_theme Light = Some Dark" "next_theme Dark = Some System" "next_theme System = Some Light"
  by (simp_all add: next_theme_def themeCycle_def nth_opt_def Let_def)

text \<open>Three clicks are a round.\<close>

lemma cycle_round: "Option.bind (Option.bind (next_theme t) next_theme) next_theme = Some t"
  by (cases t) simp_all

lemma read_theme_name [simp]: "read_theme (Some (theme_name t)) = t"
  by (cases t) (simp_all add: read_theme_def)

definition theme_inv :: "theme_world \<Rightarrow> bool" where
  "theme_inv w \<longleftrightarrow>
     (case toggle w of
        None \<Rightarrow> \<not> listening w
      | Some t \<Rightarrow> html_dark w = isDark t (prefers_dark w) \<and> listening w = (t = System) \<and> (st_works w \<longrightarrow> read_theme (st_theme w) = t))"

lemma theme_inv_mount: "theme_inv (mount_toggle w)"
  by (simp add: theme_inv_def mount_toggle_def run_effects_def applyTheme_def getStoredTheme_def Let_def)

lemma theme_inv_cycle: "theme_inv w \<Longrightarrow> theme_inv (cycle w)"
  by (auto simp: theme_inv_def cycle_def run_effects_def applyTheme_def split: option.splits)

lemma theme_inv_preference: "theme_inv w \<Longrightarrow> theme_inv (preference_change b w)"
  by (auto simp: theme_inv_def preference_change_def applyTheme_def isDark_def Let_def split: option.splits)

lemma theme_inv_unmount: "theme_inv (unmount_toggle w)"
  by (simp add: theme_inv_def unmount_toggle_def)

lemma theme_inv_step: "theme_inv w \<Longrightarrow> theme_step w w' \<Longrightarrow> theme_inv w'"
  by (erule theme_stepE) (simp_all add: theme_inv_mount theme_inv_cycle theme_inv_preference theme_inv_unmount)

lemma theme_inv_loaded: "theme_inv (loaded works stored prefers)"
  by (simp add: theme_inv_def loaded_def boot_def)

lemma theme_inv_reach: "theme_reach w \<Longrightarrow> theme_inv w"
  by (induction rule: theme_reach.induct) (auto intro: theme_inv_loaded theme_inv_step)

text \<open>What the script does is what the toggle will do: with a storage that works, whatever it holds, mounting the toggle on a page
  just loaded does not change the class, so that nothing flashes.\<close>

lemma boot_agrees: "html_dark (mount_toggle (loaded True stored prefers)) = html_dark (loaded True stored prefers)"
  by (auto simp: mount_toggle_def run_effects_def applyTheme_def getStoredTheme_def read_theme_def loaded_def boot_def isDark_def Let_def)

text \<open>Without one, a page loaded by someone who prefers the dark is light until the toggle is mounted - on the pages of the
  sign-in flow, for good.\<close>

lemma boot_disagrees: "\<not> html_dark (loaded False stored True)" "html_dark (mount_toggle (loaded False stored True))"
  by (simp_all add: mount_toggle_def run_effects_def applyTheme_def getStoredTheme_def loaded_def boot_def isDark_def Let_def)

text \<open>C17: the page looks as its toggle says. In every order of clicks, changes of the system's preference and visits to pages with
  and without the layout, the document is dark exactly when the toggle's theme is dark, or follows the system and the system
  prefers the dark; the listener for the preference is attached exactly while it is followed; and where the storage works,
  loading the page anew comes up with the same theme and the same look, before the toggle is there and after.\<close>

theorem theme_as_chosen:
  assumes "theme_reach w" and "toggle w = Some t"
  shows "html_dark w = isDark t (prefers_dark w) \<and> (listening w \<longleftrightarrow> t = System) \<and>
    (st_works w \<longrightarrow> (let w' = loaded True (st_theme w) (prefers_dark w) in
       html_dark w' = html_dark w \<and> toggle (mount_toggle w') = Some t \<and> html_dark (mount_toggle w') = html_dark w))"
proof -
  let ?l = "loaded True (st_theme w) (prefers_dark w)"
  from theme_inv_reach [OF assms(1)] assms(2) have i: "html_dark w = isDark t (prefers_dark w)" "listening w \<longleftrightarrow> t = System"
    "st_works w \<longrightarrow> read_theme (st_theme w) = t"
    by (auto simp: theme_inv_def)
  have l: "st_works ?l" "st_theme ?l = st_theme w" "prefers_dark ?l = prefers_dark w"
    by (simp_all add: loaded_def boot_def)
  have m: "toggle (mount_toggle ?l) = Some (read_theme (st_theme w))"
    "html_dark (mount_toggle ?l) = isDark (read_theme (st_theme w)) (prefers_dark w)"
    by (simp_all add: mount_toggle_def run_effects_def applyTheme_def getStoredTheme_def Let_def l)
  have "st_works w \<Longrightarrow> html_dark ?l = html_dark w" using i m(2) boot_agrees [of "st_theme w" "prefers_dark w"] by simp
  with i m show ?thesis by (simp add: Let_def)
qed

theorem theme_as_chosen_witness:
  "\<exists>w. theme_reach w \<and> toggle w = Some System \<and> html_dark w \<and> st_theme w = Some ''system''"
proof -
  let ?start = "loaded True (Some ''light'') False"
  let ?w = "preference_change True (cycle (cycle (mount_toggle ?start)))"
  have t: "toggle ?start = None" "toggle (mount_toggle ?start) = Some Light" "toggle (cycle (mount_toggle ?start)) = Some Dark"
    "toggle ?w = Some System" "st_theme ?w = Some ''system''" "prefers_dark ?w"
    by (simp_all add: loaded_def boot_def mount_toggle_def cycle_def run_effects_def applyTheme_def getStoredTheme_def read_theme_def
        preference_change_def isDark_def Let_def)
  have r: "theme_reach ?w"
  proof -
    have "theme_reach (mount_toggle ?start)" using theme_next [OF theme_load step_mount] t(1) by blast
    then have "theme_reach (cycle (mount_toggle ?start))" using theme_next step_click t(2) by blast
    then have "theme_reach (cycle (cycle (mount_toggle ?start)))" using theme_next step_click t(3) by blast
    then show ?thesis by (rule theme_next [OF _ step_preference])
  qed
  from theme_as_chosen [OF r t(4)] r t show ?thesis by (intro exI [of _ ?w]) (simp add: isDark_def)
qed

end
