(* ===== verification/LayoutChrome.thy ===== *)
theory LayoutChrome
  imports Routing Theming
begin

text \<open>
  The frames around the pages: \<open>components/Layout.tsx\<close> of the dashboard and \<open>components/AdminLayout.tsx\<close> of the admin
  console, with \<open>lib/prefetch.ts\<close>, which loads a page's chunk when the pointer is over its entry.

  The location, the number of unread notifications and the theme button belong to others: the environment changes the first two,
  the third is the toggle of \<open>Theming\<close>. Both the buttons that only narrow screens show are always in the tree.
\<close>

section \<open>Prefetching\<close>

definition page_chunk :: "string \<Rightarrow> string" where
  "page_chunk name = ''../pages/'' @ name"

definition prefetchPage :: "string \<Rightarrow> string option" where
  "prefetchPage p = map_of
     [(''dashboard'', page_chunk ''Dashboard''), (''tunnels'', page_chunk ''Tunnels''), (''domains'', page_chunk ''Domains''),
      (''networks'', page_chunk ''Networks''), (''billing'', page_chunk ''Billing''), (''settings'', page_chunk ''Settings''),
      (''notifications'', page_chunk ''Notifications'')] p"

section \<open>The dashboard's layout\<close>

text \<open>An entry of the navigation: its target, its text, and what is loaded ahead.\<close>

record nav_item =
  nav_to :: string
  nav_label :: string
  nav_prefetch :: string

definition nav :: "string \<Rightarrow> string \<Rightarrow> string \<Rightarrow> nav_item" where
  "nav to lbl p = \<lparr>nav_to = to, nav_label = lbl, nav_prefetch = p\<rparr>"

definition navItems :: "nav_item list" where
  "navItems =
     [nav ''/'' ''nav.dashboard'' ''dashboard'', nav ''/tunnels'' ''nav.tunnels'' ''tunnels'', nav ''/domains'' ''nav.domains'' ''domains'',
      nav ''/networks'' ''nav.networks'' ''networks'', nav ''/billing'' ''nav.billing'' ''billing'', nav ''/settings'' ''nav.settings'' ''settings'',
      nav ''/notifications'' ''nav.notifications'' ''notifications'', nav ''/docs/api'' ''nav.api_docs'' ''settings'',
      nav ''/downloads'' ''nav.downloads'' ''settings'']"

record layout =
  lay_auth :: auth
  lay_path :: string
  lay_unread :: nat
  lay_theme :: theme
  lay_language :: string
  sidebarOpen :: bool
  lay_loaded :: "string list"

definition layout_init :: "auth \<Rightarrow> string \<Rightarrow> theme \<Rightarrow> string \<Rightarrow> layout" where
  "layout_init a path th lang = \<lparr>lay_auth = a, lay_path = path, lay_unread = 0, lay_theme = th, lay_language = lang, sidebarOpen = False, lay_loaded = []\<rparr>"

datatype layout_ev = OpenSidebar | CloseSidebar | FollowNav string | HoverNav string | OpenNotifications | CycleTheme | SwitchLanguage | SignOut

definition other_language :: "string \<Rightarrow> string" where
  "other_language lang = (if lang = ''en'' then ''zh'' else ''en'')"

fun layout_user :: "layout_ev \<Rightarrow> layout \<Rightarrow> (layout, unit) effect" where
  "layout_user OpenSidebar s = (s\<lparr>sidebarOpen := True\<rparr>, [], [])"
| "layout_user CloseSidebar s = (s\<lparr>sidebarOpen := False\<rparr>, [], [])"
| "layout_user (FollowNav to) s = (s\<lparr>sidebarOpen := False\<rparr>, [GoTo to], [])"
| "layout_user (HoverNav p) s =
     (s\<lparr>lay_loaded := lay_loaded s @ (case prefetchPage p of None \<Rightarrow> [] | Some c \<Rightarrow> [c])\<rparr>, [], [])"
| "layout_user OpenNotifications s = (s, [GoTo ''/notifications''], [])"
| "layout_user CycleTheme s = (s\<lparr>lay_theme := (case next_theme (lay_theme s) of None \<Rightarrow> lay_theme s | Some t \<Rightarrow> t)\<rparr>, [], [])"
| "layout_user SwitchLanguage s = (s\<lparr>lay_language := other_language (lay_language s)\<rparr>, [], [])"
| "layout_user SignOut s = (s\<lparr>lay_auth := web_logout (lay_auth s)\<rparr>, [], [])"

text \<open>\<open>user?.name ?? user?.email\<close> as a child.\<close>

definition user_label :: "json \<Rightarrow> caption" where
  "user_label u =
     (if nullish u then []
      else let v = coalesce (jprop u ''name'') (jprop u ''email'') in if nullish v then [] else [Lit (js_string v)])"

definition nav_entry :: "string \<Rightarrow> nav_item \<Rightarrow> layout_ev ui" where
  "nav_entry path i =
     Listens (HoverNav (nav_prefetch i))
       [Listens (FollowNav (nav_to i))
         [LinkTo (nav_to i) [Node (if nav_isActive path (nav_to i) then ''active'' else '''') [Say (tr (nav_label i))]]]]"

definition unread_mark :: "nat \<Rightarrow> caption" where
  "unread_mark n = [Lit (if n > 9 then ''9+'' else nat_string n)]"

definition layout_header :: "layout \<Rightarrow> layout_ev ui" where
  "layout_header s = Node ''header''
     [Button False OpenSidebar [], only_if (sidebarOpen s) (Button False CloseSidebar []),
      Say (user_label (user (lay_auth s))),
      Button False OpenNotifications [only_if (lay_unread s > 0) (Node ''span'' [Say (unread_mark (lay_unread s))])],
      ThemeToggle_view (lay_theme s) CycleTheme,
      Button False SwitchLanguage [Say [Lit (if lay_language s = ''en'' then ''zhongwen'' else ''EN'')]],
      Button False SignOut [Say (tr ''nav.sign_out'')]]"

text \<open>The name of the Chinese language is written in Chinese characters in the source.\<close>

definition Layout_view :: "layout \<Rightarrow> layout_ev ui" where
  "Layout_view s = Node ''div''
     [only_if (sidebarOpen s) (Listens CloseSidebar []),
      Node ''aside''
       [Say (tr ''app.title''), Node ''nav'' (map (nav_entry (lay_path s)) navItems), Say (user_label (user (lay_auth s)))],
      layout_header s]"

text \<open>The router, the notifications and the session's other users change what the layout reads.\<close>

definition layout_env :: "layout \<Rightarrow> layout \<Rightarrow> bool" where
  "layout_env s s' \<longleftrightarrow> (\<exists>p n u. s' = s\<lparr>lay_path := p, lay_unread := n, lay_auth := (lay_auth s)\<lparr>user := u\<rparr>\<rparr>)"

definition Layout :: "auth \<Rightarrow> string \<Rightarrow> theme \<Rightarrow> string \<Rightarrow> (layout, layout_ev, unit) page" where
  "Layout a path th lang =
     \<lparr>pg_mount = (layout_init a path th lang, [], []), pg_view = Layout_view, pg_user = layout_user, pg_resume = (\<lambda>k r s. (s, [], [])),
      pg_env = layout_env\<rparr>"

lemma Layout_sel [simp]:
  "pg_mount (Layout a path th lang) = (layout_init a path th lang, [], [])" "pg_view (Layout a path th lang) = Layout_view"
  "pg_user (Layout a path th lang) = layout_user" "pg_resume (Layout a path th lang) = (\<lambda>k r s. (s, [], []))"
  "pg_env (Layout a path th lang) = layout_env"
  by (simp_all add: Layout_def)

section \<open>The admin console's layout\<close>

record admin_layout =
  al_auth :: auth
  al_path :: string
  al_sidebarOpen :: bool

datatype admin_layout_ev = AdminOpenSidebar | AdminCloseSidebar | AdminFollowNav string | AdminSignOut

fun admin_layout_user :: "admin_layout_ev \<Rightarrow> admin_layout \<Rightarrow> (admin_layout, unit) effect" where
  "admin_layout_user AdminOpenSidebar s = (s\<lparr>al_sidebarOpen := True\<rparr>, [], [])"
| "admin_layout_user AdminCloseSidebar s = (s\<lparr>al_sidebarOpen := False\<rparr>, [], [])"
| "admin_layout_user (AdminFollowNav to) s = (s\<lparr>al_sidebarOpen := False\<rparr>, [GoTo to], [])"
| "admin_layout_user AdminSignOut s = (s\<lparr>al_auth := admin_logout (al_auth s)\<rparr>, [], [])"

text \<open>The texts of the entries of \<^const>\<open>admin_navItems\<close>, in their order.\<close>

definition admin_nav_labels :: "string list" where
  "admin_nav_labels = [''nav.dashboard'', ''nav.organizations'', ''nav.users'', ''nav.relayNodes'', ''nav.auditLogs'', ''nav.announcements'',
     ''nav.certificates'', ''nav.revenue'', ''nav.invoices'', ''nav.pricing'', ''nav.discounts'', ''nav.ipWhitelist'', ''nav.dataRetention'',
     ''nav.slaDashboard'', ''nav.auditReports'', ''nav.roles'']"

definition admin_nav_entry :: "string \<Rightarrow> string \<times> string \<Rightarrow> admin_layout_ev ui" where
  "admin_nav_entry path i =
     Listens (AdminFollowNav (fst i))
       [LinkTo (fst i) [Node (if nav_isActive path (fst i) then ''active'' else '''') [Say (tr (snd i))]]]"

definition AdminLayout_view :: "admin_layout \<Rightarrow> admin_layout_ev ui" where
  "AdminLayout_view s = Node ''div''
     [only_if (al_sidebarOpen s) (Listens AdminCloseSidebar []),
      Node ''aside''
       [Say (tr ''nav.omniTunAdmin''), Node ''nav'' (map (admin_nav_entry (al_path s)) (zip admin_navItems admin_nav_labels)),
        Say (user_label (user (al_auth s)))],
      Node ''header''
       [Button False AdminOpenSidebar [], Say (user_label (user (al_auth s))), Button False AdminSignOut [Say (tr ''nav.signOut'')]]]"

definition admin_layout_env :: "admin_layout \<Rightarrow> admin_layout \<Rightarrow> bool" where
  "admin_layout_env s s' \<longleftrightarrow> (\<exists>p u. s' = s\<lparr>al_path := p, al_auth := (al_auth s)\<lparr>user := u\<rparr>\<rparr>)"

definition AdminLayout :: "auth \<Rightarrow> string \<Rightarrow> (admin_layout, admin_layout_ev, unit) page" where
  "AdminLayout a path =
     \<lparr>pg_mount = (\<lparr>al_auth = a, al_path = path, al_sidebarOpen = False\<rparr>, [], []), pg_view = AdminLayout_view, pg_user = admin_layout_user,
      pg_resume = (\<lambda>k r s. (s, [], [])), pg_env = admin_layout_env\<rparr>"

lemma AdminLayout_sel [simp]:
  "pg_mount (AdminLayout a path) = (\<lparr>al_auth = a, al_path = path, al_sidebarOpen = False\<rparr>, [], [])"
  "pg_view (AdminLayout a path) = AdminLayout_view" "pg_user (AdminLayout a path) = admin_layout_user"
  "pg_resume (AdminLayout a path) = (\<lambda>k r s. (s, [], []))" "pg_env (AdminLayout a path) = admin_layout_env"
  by (simp_all add: AdminLayout_def)

section \<open>Contracts\<close>

lemma navItems_to: "map nav_to navItems = web_navItems"
  by (simp add: navItems_def nav_def web_navItems_def)

lemma admin_nav_zip: "map fst (zip admin_navItems admin_nav_labels) = admin_navItems"
  by (simp add: admin_navItems_def admin_nav_labels_def)

text \<open>The layouts only navigate, and only where the navigation and the bell lead.\<close>

definition layout_cmd_ok :: "cmd \<Rightarrow> bool" where
  "layout_cmd_ok c \<longleftrightarrow> (\<exists>p \<in> set web_navItems. c = GoTo p)"

definition admin_layout_cmd_ok :: "cmd \<Rightarrow> bool" where
  "admin_layout_cmd_ok c \<longleftrightarrow> (\<exists>p \<in> set admin_navItems. c = GoTo p)"

lemma nav_to_in: "i \<in> set navItems \<Longrightarrow> nav_to i \<in> set web_navItems"
  by (simp flip: navItems_to)

lemma layout_follow: "FollowNav to \<in> events (Layout_view s) \<Longrightarrow> to \<in> set web_navItems"
  by (auto simp: Layout_view_def layout_header_def ThemeToggle_view_def nav_entry_def nav_to_in split: if_splits)

lemma admin_follow: "AdminFollowNav to \<in> events (AdminLayout_view s) \<Longrightarrow> to \<in> set admin_navItems"
  by (auto simp: AdminLayout_view_def admin_nav_entry_def dest: set_zip_leftD split: if_splits)

lemma layout_reads:
  assumes "e \<in> events (Layout_view s)"
  shows "list_all layout_cmd_ok (fst (snd (layout_user e s))) \<and> snd (snd (layout_user e s)) = []"
proof -
  have "''/notifications'' \<in> set web_navItems" by (simp add: web_navItems_def)
  then show ?thesis using assms layout_follow by (cases e) (auto simp: layout_cmd_ok_def)
qed

lemma admin_layout_reads:
  assumes "e \<in> events (AdminLayout_view s)"
  shows "list_all admin_layout_cmd_ok (fst (snd (admin_layout_user e s))) \<and> snd (snd (admin_layout_user e s)) = []"
  using assms admin_follow by (cases e) (auto simp: admin_layout_cmd_ok_def)

interpretation layout: page_reading "Layout a path th lang" "\<lambda>_. True" layout_cmd_ok for a path th lang
  by unfold_locales (simp_all add: layout_reads)

interpretation admin_layout: page_reading "AdminLayout a path" "\<lambda>_. True" admin_layout_cmd_ok for a path
  by unfold_locales (simp_all add: admin_layout_reads)

section \<open>Properties\<close>

text \<open>A path starts with at most one of several that are not prefixes of each other.\<close>

definition prefix_free :: "string list \<Rightarrow> bool" where
  "prefix_free ps \<longleftrightarrow> (\<forall>a \<in> set ps. \<forall>b \<in> set ps. prefix a b \<longrightarrow> a = b)"

lemma active_unique:
  assumes "prefix_free (filter (\<lambda>p. p \<noteq> ''/'') items)" and "\<forall>p \<in> set items. prefix ''/'' p"
    and "a \<in> set items" "b \<in> set items" "nav_isActive path a" "nav_isActive path b"
  shows "a = b"
proof -
  have root: "p = ''/''" if "prefix p ''/''" "p \<in> set items" for p
    using that assms(2) by (metis prefix_order.antisym)
  show ?thesis
  proof (cases "a = ''/'' \<or> b = ''/''")
    case True
    then show ?thesis using assms(3-6) root by (auto simp: nav_isActive_def starts_with_prefix split: if_splits)
  next
    case False
    then have "prefix a path" "prefix b path" using assms(5,6) by (simp_all add: nav_isActive_def starts_with_prefix)
    then have "prefix a b \<or> prefix b a" by (rule prefix_same_cases)
    then show ?thesis using assms(1,3,4) False by (auto simp: prefix_free_def)
  qed
qed

lemma nav_prefix_free:
  "prefix_free (filter (\<lambda>p. p \<noteq> ''/'') web_navItems)" "prefix_free (filter (\<lambda>p. p \<noteq> ''/'') admin_navItems)"
  "\<forall>p \<in> set web_navItems. prefix ''/'' p" "\<forall>p \<in> set admin_navItems. prefix ''/'' p"
  by (simp_all add: prefix_free_def web_navItems_def admin_navItems_def)

text \<open>An address as the code spells it: the path of a route with some segment in the place of \<open>:id\<close>. The router takes other
  spellings for the same page, with capitals or slashes at the end.\<close>

definition table_address :: "string \<Rightarrow> string \<Rightarrow> bool" where
  "table_address pat path \<longleftrightarrow>
     list_all2 (\<lambda>p s. if p = '':id'' then s \<noteq> '''' else s = p) (split_on (CHR ''/'') pat) (split_on (CHR ''/'') path)"

lemma address_of_plain:
  assumes "'':id'' \<notin> set (split_on (CHR ''/'') pat)" and "table_address pat path"
  shows "path = pat"
proof -
  have "list_all2 (=) (split_on (CHR ''/'') pat) (split_on (CHR ''/'') path)"
    using assms by (auto simp: table_address_def elim!: list.rel_mono_strong split: if_splits)
  then show ?thesis by (metis join_split_on list.rel_eq)
qed

lemma address_of_detail:
  assumes "'':id'' \<notin> set (split_on (CHR ''/'') base)" and "table_address (base @ ''/:id'') path"
  shows "\<exists>i. path = base @ ''/'' @ i"
proof -
  obtain us seg where u: "split_on (CHR ''/'') path = us @ [seg]"
    "list_all2 (\<lambda>p s. if p = '':id'' then s \<noteq> '''' else s = p) (split_on (CHR ''/'') base) us"
    using assms(2) split_on_concat [of "CHR ''/''" base "'':id''"] by (auto simp: table_address_def list_all2_append1 list_all2_Cons1)
  have "list_all2 (=) (split_on (CHR ''/'') base) us"
    using u(2) assms(1) by (auto elim!: list.rel_mono_strong split: if_splits)
  then have "us = split_on (CHR ''/'') base" by (simp add: list.rel_eq)
  with u(1) have "split_on (CHR ''/'') path = split_on (CHR ''/'') (base @ ''/'' @ seg)"
    using split_on_concat [of "CHR ''/''" base seg] split_on_pieces [of seg "CHR ''/''" path] by (simp add: split_on_no_sep)
  then show ?thesis by (metis join_split_on)
qed

text \<open>The guarded routes but the customers' have an entry each that their addresses start with.\<close>

definition has_entry :: "string list \<Rightarrow> string \<Rightarrow> bool" where
  "has_entry items pat \<longleftrightarrow>
     (let base = take (length pat - 4) pat in
      if pat = base @ ''/:id'' then base \<in> set items \<and> base \<noteq> ''/'' \<and> '':id'' \<notin> set (split_on (CHR ''/'') base)
      else pat \<in> set items \<and> '':id'' \<notin> set (split_on (CHR ''/'') pat))"

lemma table_entries:
  "\<forall>r \<in> set web_routes. rt_guarded r \<longrightarrow> rt_page r \<noteq> ''Onboarding'' \<longrightarrow> has_entry web_navItems (rt_path r)"
  "\<forall>r \<in> set admin_routes. rt_guarded r \<longrightarrow> rt_page r \<notin> {''CustomerCRM'', ''CustomerDetail''} \<longrightarrow> has_entry admin_navItems (rt_path r)"
  "\<forall>r \<in> set admin_routes. rt_page r \<in> {''CustomerCRM'', ''CustomerDetail''} \<longrightarrow> rt_path r \<in> {''/customers'', ''/customers/:id''}"
  by code_simp+

lemma has_entry_active:
  assumes "has_entry items pat" and "table_address pat path"
  shows "\<exists>a \<in> set items. nav_isActive path a"
proof (cases "pat \<in> set items \<and> '':id'' \<notin> set (split_on (CHR ''/'') pat)")
  case True
  then have "path = pat" using address_of_plain assms(2) by blast
  then show ?thesis using True by (auto simp: nav_isActive_def starts_with_prefix)
next
  case False
  then obtain base where b: "base \<in> set items" "pat = base @ ''/:id''" "base \<noteq> ''/''" "'':id'' \<notin> set (split_on (CHR ''/'') base)"
    using assms(1) by (auto simp: has_entry_def Let_def split: if_splits)
  then obtain i where "path = base @ ''/'' @ i" using address_of_detail assms(2) by blast
  then have "nav_isActive path base" using b(3) by (simp add: nav_isActive_def starts_with_prefix)
  then show ?thesis using b(1) by blast
qed

lemma customers_unmarked:
  assumes "pat \<in> {''/customers'', ''/customers/:id''}" and "table_address pat path" and "a \<in> set admin_navItems"
  shows "\<not> nav_isActive path a"
proof
  assume act: "nav_isActive path a"
  have "path = ''/customers'' \<or> (\<exists>i. path = ''/customers'' @ ''/'' @ i)"
    using assms(1,2) address_of_plain [of "''/customers''"] address_of_detail [of "''/customers''"] by auto
  then have p: "prefix ''/customers'' path" and "path \<noteq> ''/''" by auto
  with act have "a \<noteq> ''/''" "prefix a path" by (auto simp: nav_isActive_def starts_with_prefix split: if_splits)
  with prefix_same_cases [OF p, of a] have "prefix ''/customers'' a \<or> prefix a ''/customers''" "a \<noteq> ''/''" by blast+
  with assms(3) show False by (auto simp: admin_navItems_def)
qed

text \<open>C6: the navigation says where one is. At any location at most one entry of a layout is marked as the current page; at every
  address of a page inside the dashboard's layout, as the code spells it, exactly one is; of the pages of the admin console only the
  customers have none. The comparison is by characters, the router's is not: at \<open>/Tunnels\<close> the tunnels are shown and no entry
  is marked. Marked means highlighted by the layout's own test; what \<open>NavLink\<close> adds by itself (\<open>aria-current\<close>) is the library's.\<close>

theorem one_entry_marked:
  "(\<forall>a \<in> set web_navItems. \<forall>b \<in> set web_navItems. nav_isActive path a \<longrightarrow> nav_isActive path b \<longrightarrow> a = b) \<and>
   (\<forall>a \<in> set admin_navItems. \<forall>b \<in> set admin_navItems. nav_isActive path a \<longrightarrow> nav_isActive path b \<longrightarrow> a = b) \<and>
   (\<forall>r \<in> set web_routes. rt_guarded r \<longrightarrow> table_address (rt_path r) path \<longrightarrow> rt_page r \<noteq> ''Onboarding'' \<longrightarrow>
      (\<exists>a \<in> set web_navItems. nav_isActive path a)) \<and>
   (\<forall>r \<in> set admin_routes. rt_guarded r \<longrightarrow> table_address (rt_path r) path \<longrightarrow>
      (\<exists>a \<in> set admin_navItems. nav_isActive path a) \<longleftrightarrow> rt_page r \<notin> {''CustomerCRM'', ''CustomerDetail''}) \<and>
   route_matches ''/tunnels'' ''/Tunnels'' \<and> (\<forall>a \<in> set web_navItems. \<not> nav_isActive ''/Tunnels'' a)"
proof -
  have "\<forall>r \<in> set web_routes. rt_guarded r \<longrightarrow> table_address (rt_path r) path \<longrightarrow> rt_page r \<noteq> ''Onboarding'' \<longrightarrow>
      (\<exists>a \<in> set web_navItems. nav_isActive path a)"
    using table_entries(1) has_entry_active by blast
  moreover have "(\<exists>a \<in> set admin_navItems. nav_isActive path a) \<longleftrightarrow> rt_page r \<notin> {''CustomerCRM'', ''CustomerDetail''}"
    if "r \<in> set admin_routes" "rt_guarded r" "table_address (rt_path r) path" for r
  proof (cases "rt_page r \<in> {''CustomerCRM'', ''CustomerDetail''}")
    case True
    then show ?thesis using that table_entries(3) customers_unmarked by blast
  next
    case False
    then show ?thesis using that table_entries(2) has_entry_active by blast
  qed
  moreover have "route_matches ''/tunnels'' ''/Tunnels'' \<and> (\<forall>a \<in> set web_navItems. \<not> nav_isActive ''/Tunnels'' a)" by code_simp
  moreover note active_unique [OF nav_prefix_free(1,3)] active_unique [OF nav_prefix_free(2,4)]
  ultimately show ?thesis by blast
qed

theorem one_entry_marked_witness:
  "(\<exists>a \<in> set web_navItems. nav_isActive ''/tunnels/7'' a) \<and> \<not> (\<exists>a \<in> set admin_navItems. nav_isActive ''/customers/7'' a)"
proof -
  have r: "mk_route True ''/tunnels/:id'' ''TunnelDetail'' \<in> set web_routes" "mk_route True ''/customers/:id'' ''CustomerDetail'' \<in> set admin_routes"
    by (simp_all add: web_routes_def admin_routes_def)
  have m: "table_address ''/tunnels/:id'' ''/tunnels/7''" "table_address ''/customers/:id'' ''/customers/7''"
    by (simp_all add: table_address_def)
  have "\<exists>a \<in> set web_navItems. nav_isActive ''/tunnels/7'' a"
    using one_entry_marked [of "''/tunnels/7''", THEN conjunct2, THEN conjunct2, THEN conjunct1, rule_format, OF r(1)] m(1) by (simp add: mk_route_def)
  moreover have "\<not> (\<exists>a \<in> set admin_navItems. nav_isActive ''/customers/7'' a)"
    using one_entry_marked [of "''/customers/7''", THEN conjunct2, THEN conjunct2, THEN conjunct2, THEN conjunct1, rule_format, OF r(2)] m(2)
    by (simp add: mk_route_def)
  ultimately show ?thesis ..
qed

text \<open>Pointing at an entry loads the chunk of its page, but for the API reference and the downloads, which load the settings.\<close>

lemma prefetched_page:
  "\<forall>i \<in> set navItems. prefetchPage (nav_prefetch i) =
     Some (if nav_to i \<in> {''/docs/api'', ''/downloads''} then page_chunk ''Settings''
       else page_chunk (rt_page (the (find (\<lambda>r. rt_path r = nav_to i) web_routes))))"
  by code_simp

text \<open>The language button offers the other of two languages, but it does so only once the language is one of them by name: started in
  \<open>en-US\<close>, it first switches from English to English.\<close>

lemma language_round: "lang \<in> {''en'', ''zh''} \<Longrightarrow> other_language (other_language lang) = lang"
  by (auto simp: other_language_def)

lemma first_switch_to_english: "other_language ''en-US'' = ''en''"
  by (simp add: other_language_def)

text \<open>Following an entry closes the sidebar; the badge never shows more than one digit and a plus.\<close>

lemma follow_closes: "\<not> sidebarOpen (fst (layout_user (FollowNav to) s))"
  by simp

lemma unread_mark_short: "length (case unread_mark n of [Lit t] \<Rightarrow> t) \<le> 2"
proof (cases "n < 10")
  case True
  then have "length (nat_string n) = 1" by (subst nat_string.simps) simp
  then show ?thesis by (simp add: unread_mark_def)
qed (simp add: unread_mark_def)

text \<open>Signing out from the layout, at whatever page, leaves the session of a visitor: every guarded page then leads to the login.\<close>

lemma sign_out_leaves:
  "\<not> isLoggedIn (lay_auth (fst (layout_user SignOut s)))" "\<not> isLoggedIn (al_auth (fst (admin_layout_user AdminSignOut t)))"
  by (simp_all add: web_logout_def admin_logout_def logout_def)

end
