(* ===== verification/NetworkPages.thy ===== *)
theory NetworkPages
  imports Hooks
begin

text \<open>
  The mesh networks: their list with the dialogs that create, join and delete one (\<open>pages/Networks.tsx\<close>), and one
  network with its invitation and its nodes (\<open>pages/NetworkDetail.tsx\<close>), over the requests of
  \<open>hooks/useNetworks.ts\<close>.
\<close>

section \<open>List\<close>

record networks_page =
  networksQuery :: "mesh_network list query"
  m_createNet :: mutation
  m_joinNet :: mutation
  m_deleteNet :: mutation
  showCreateNet :: bool
  showJoin :: bool
  netTarget :: "mesh_network option"
  newNetwork :: "string \<times> string"
  inviteCode :: string

definition networks_init :: networks_page where
  "networks_init = \<lparr>networksQuery = q_pending, m_createNet = idle, m_joinNet = idle, m_deleteNet = idle,
     showCreateNet = False, showJoin = False, netTarget = None, newNetwork = ('''', ''''), inviteCode = ''''\<rparr>"

datatype networks_ev =
    OpenCreateNet | CloseCreateNet | OpenJoin | CloseJoin | SetNetName string | SetCidr string | SubmitNet
  | SetInvite string | SubmitJoin | AskDeleteNet mesh_network | CancelDeleteNet | ConfirmDeleteNet | RetryNetworks

datatype networks_k = KCreateNet | KJoinNet | KDeleteNet

definition handleCreateNet :: "networks_page \<Rightarrow> (networks_page, networks_k) effect" where
  "handleCreateNet s = (s\<lparr>m_createNet := mutate\<rparr>, [createNetwork (fst (newNetwork s)) (snd (newNetwork s))], [KCreateNet])"

definition handleCreateNet_done :: "result \<Rightarrow> networks_page \<Rightarrow> (networks_page, networks_k) effect" where
  "handleCreateNet_done r s =
     (let s1 = s\<lparr>m_createNet := settled r\<rparr> in
      case r of
        Inl err \<Rightarrow> (s1, [], [])
      | Inr v \<Rightarrow> (s1\<lparr>showCreateNet := False, newNetwork := ('''', '''')\<rparr>,
          networks_onSuccess r @ [ShowToast (tr ''networks.created'') ''success''], []))"

definition handleJoin :: "networks_page \<Rightarrow> (networks_page, networks_k) effect" where
  "handleJoin s = (s\<lparr>m_joinNet := mutate\<rparr>, [joinNetwork (inviteCode s)], [KJoinNet])"

definition handleJoin_done :: "result \<Rightarrow> networks_page \<Rightarrow> (networks_page, networks_k) effect" where
  "handleJoin_done r s =
     (let s1 = s\<lparr>m_joinNet := settled r\<rparr> in
      case r of
        Inl err \<Rightarrow> (s1, [], [])
      | Inr v \<Rightarrow> (s1\<lparr>showJoin := False, inviteCode := ''''\<rparr>,
          networks_onSuccess r @ [ShowToast (tr ''networks.joined'') ''success''], []))"

definition handleDeleteNet :: "networks_page \<Rightarrow> (networks_page, networks_k) effect" where
  "handleDeleteNet s =
     (case netTarget s of
        None \<Rightarrow> (s, [], [])
      | Some n \<Rightarrow> (s\<lparr>m_deleteNet := mutate\<rparr>, [deleteNetwork (network_id n)], [KDeleteNet]))"

definition handleDeleteNet_done :: "result \<Rightarrow> networks_page \<Rightarrow> (networks_page, networks_k) effect" where
  "handleDeleteNet_done r s =
     (let s1 = s\<lparr>m_deleteNet := settled r\<rparr> in
      case r of
        Inl err \<Rightarrow> (s1, [], [])
      | Inr v \<Rightarrow> (s1\<lparr>netTarget := None\<rparr>, networks_onSuccess r @ [ShowToast (tr ''networks.deleted'') ''success''], []))"

fun networks_user :: "networks_ev \<Rightarrow> networks_page \<Rightarrow> (networks_page, networks_k) effect" where
  "networks_user OpenCreateNet s = (s\<lparr>showCreateNet := True\<rparr>, [], [])"
| "networks_user CloseCreateNet s = (s\<lparr>showCreateNet := False\<rparr>, [], [])"
| "networks_user OpenJoin s = (s\<lparr>showJoin := True\<rparr>, [], [])"
| "networks_user CloseJoin s = (s\<lparr>showJoin := False\<rparr>, [], [])"
| "networks_user (SetNetName v) s = (s\<lparr>newNetwork := (v, snd (newNetwork s))\<rparr>, [], [])"
| "networks_user (SetCidr v) s = (s\<lparr>newNetwork := (fst (newNetwork s), v)\<rparr>, [], [])"
| "networks_user SubmitNet s = handleCreateNet s"
| "networks_user (SetInvite v) s = (s\<lparr>inviteCode := v\<rparr>, [], [])"
| "networks_user SubmitJoin s = handleJoin s"
| "networks_user (AskDeleteNet n) s = (s\<lparr>netTarget := Some n\<rparr>, [], [])"
| "networks_user CancelDeleteNet s = (s\<lparr>netTarget := None\<rparr>, [], [])"
| "networks_user ConfirmDeleteNet s = handleDeleteNet s"
| "networks_user RetryNetworks s = (s, [Refetch NETWORKS_KEY], [])"

fun networks_resume :: "networks_k \<Rightarrow> result \<Rightarrow> networks_page \<Rightarrow> (networks_page, networks_k) effect" where
  "networks_resume KCreateNet r s = handleCreateNet_done r s"
| "networks_resume KJoinNet r s = handleJoin_done r s"
| "networks_resume KDeleteNet r s = handleDeleteNet_done r s"

definition network_row :: "mesh_network \<Rightarrow> networks_ev ui" where
  "network_row n = Node ''TableRow''
     [Node ''TableCell'' [LinkTo (''/networks/'' @ network_id n) [Say [Lit (network_name n)]]],
      Node ''TableCell'' [Say [Lit (network_cidr n)]],
      Node ''TableCell'' [Say [Lit (int_string (network_node_count n))]],
      Node ''TableCell'' [Node ''Badge'' [Say (tr ''networks.active'')]],
      Node ''TableCell'' [Node ''div'' [LinkTo (''/networks/'' @ network_id n) [], Button False (AskDeleteNet n) []]]]"

definition join_create_buttons :: "networks_ev ui" where
  "join_create_buttons = Node ''div''
     [Button False OpenJoin [Say (tr ''networks.join'')], Button False OpenCreateNet [Say (tr ''networks.create'')]]"

definition networks_table :: "networks_page \<Rightarrow> networks_ev ui" where
  "networks_table s =
     (let q = networksQuery s; ns = data_or_empty (q_data q) in
      if q_isLoading q then Node ''div'' []
      else if q_isError q then failed_load ''networks.failed_load'' [Button False RetryNetworks [Say (tr ''common.retry'')]]
      else if ns = [] then Node ''div'' [Node ''p'' [Say (tr ''networks.empty'')], join_create_buttons]
      else Node ''Table''
       [head_row [''networks.table.name'', ''networks.table.cidr'', ''networks.table.nodes'', ''networks.table.status'', ''networks.table.actions''],
        Node ''TableBody'' (map network_row ns)])"

definition create_net_dialog :: "networks_page \<Rightarrow> networks_ev ui" where
  "create_net_dialog s = Dialog (showCreateNet s) CloseCreateNet (tr ''networks.create_dialog.title'') (tr ''networks.create_dialog.description'')
     [Form (isPending (m_createNet s)) SubmitNet
       [Input (tr ''networks.create_dialog.name'') (fst (newNetwork s)) [] False SetNetName,
        Input (tr ''networks.create_dialog.cidr'') (snd (newNetwork s)) [] False SetCidr,
        mutation_error (m_createNet s) ''networks.create_dialog.failed_create'',
        Node ''div''
         [Button False CloseCreateNet [Say (tr ''networks.create_dialog.cancel'')],
          Node ''submit'' [Say (tr (if isPending (m_createNet s) then ''networks.create_dialog.creating'' else ''networks.create_dialog.submit''))]]]]"

definition join_dialog :: "networks_page \<Rightarrow> networks_ev ui" where
  "join_dialog s = Dialog (showJoin s) CloseJoin (tr ''networks.join_dialog.title'') (tr ''networks.join_dialog.description'')
     [Form (isPending (m_joinNet s)) SubmitJoin
       [Input (tr ''networks.join_dialog.code'') (inviteCode s) [] False SetInvite,
        mutation_error (m_joinNet s) ''networks.join_dialog.failed_join'',
        Node ''div''
         [Button False CloseJoin [Say (tr ''networks.join_dialog.cancel'')],
          Node ''submit'' [Say (tr (if isPending (m_joinNet s) then ''networks.join_dialog.joining'' else ''networks.join_dialog.submit''))]]]]"

definition Networks_view :: "networks_page \<Rightarrow> networks_ev ui" where
  "Networks_view s = Node ''div''
     [Node ''div'' [Node ''h1'' [Say (tr ''networks.title'')], Node ''p'' [Say (tr ''networks.subtitle'')], join_create_buttons],
      Node ''Card'' [Node ''CardContent'' [networks_table s]],
      create_net_dialog s, join_dialog s,
      confirm_dialog (netTarget s \<noteq> None) CancelDeleteNet ConfirmDeleteNet (isPending (m_deleteNet s))
        (''networks.delete_dialog.title'', ''networks.delete_dialog.message'', ''networks.delete_dialog.cancel'',
         ''networks.delete_dialog.deleting'', ''networks.delete_dialog.confirm'')]"

definition networks_env :: "networks_page \<Rightarrow> networks_page \<Rightarrow> bool" where
  "networks_env s s' \<longleftrightarrow> (\<exists>q. s' = s\<lparr>networksQuery := q\<rparr>)"

definition Networks :: "(networks_page, networks_ev, networks_k) page" where
  "Networks = \<lparr>pg_mount = (networks_init, [CallApi ''GET'' ''/v1/networks'' JUndef], []), pg_view = Networks_view,
     pg_user = networks_user, pg_resume = networks_resume, pg_env = networks_env\<rparr>"

lemma Networks_sel [simp]:
  "pg_mount Networks = (networks_init, [CallApi ''GET'' ''/v1/networks'' JUndef], [])" "pg_view Networks = Networks_view"
  "pg_user Networks = networks_user" "pg_resume Networks = networks_resume" "pg_env Networks = networks_env"
  by (simp_all add: Networks_def)

definition networks_inv :: "networks_page \<Rightarrow> networks_k list \<Rightarrow> bool" where
  "networks_inv s ks \<longleftrightarrow>
     flags (isPending (m_createNet s)) (\<lambda>k. k = KCreateNet) ks \<and>
     flags (isPending (m_joinNet s)) (\<lambda>k. k = KJoinNet) ks \<and>
     flags (isPending (m_deleteNet s)) (\<lambda>k. k = KDeleteNet) ks"

fun networks_guard :: "networks_page \<Rightarrow> networks_ev \<Rightarrow> bool" where
  "networks_guard s SubmitNet = (\<not> isPending (m_createNet s))"
| "networks_guard s SubmitJoin = (\<not> isPending (m_joinNet s))"
| "networks_guard s ConfirmDeleteNet = (\<not> isPending (m_deleteNet s))"
| "networks_guard s _ = True"

lemma networks_parts_guarded:
  "e \<in> events (networks_table s) \<Longrightarrow> networks_guard s e"
  "e \<in> events (create_net_dialog s) \<Longrightarrow> networks_guard s e"
  "e \<in> events (join_dialog s) \<Longrightarrow> networks_guard s e"
  "e \<in> events join_create_buttons \<Longrightarrow> networks_guard s e"
  by (auto simp: networks_table_def network_row_def create_net_dialog_def join_dialog_def join_create_buttons_def Let_def
      split: if_splits)

lemma networks_offered: "e \<in> events (Networks_view s) \<Longrightarrow> networks_guard s e"
  by (auto simp: Networks_view_def dest: networks_parts_guarded split: if_splits)

lemmas networks_handlers = handleCreateNet_def handleCreateNet_done_def handleJoin_def handleJoin_done_def handleDeleteNet_def
  handleDeleteNet_done_def Let_def

lemma networks_user_inv:
  assumes "networks_inv s ks" and "networks_guard s e"
  shows "networks_inv (fst (networks_user e s)) (ks @ snd (snd (networks_user e s)))"
  using assms by (cases e) (auto simp: networks_inv_def flags_def networks_handlers split: option.splits)

lemma networks_resume_inv:
  assumes "networks_inv s (ks1 @ k # ks2)"
  shows "networks_inv (fst (networks_resume k r s)) (ks1 @ ks2 @ snd (snd (networks_resume k r s)))"
  using assms by (cases k; cases r) (auto simp: networks_inv_def flags_def networks_handlers split: if_splits)

lemma networks_mounted: "networks_inv networks_init []"
  by (simp add: networks_inv_def networks_init_def flags_def)

lemma networks_changed: "networks_inv s ks \<Longrightarrow> networks_env s s' \<Longrightarrow> networks_inv s' ks"
  by (auto simp: networks_inv_def networks_env_def)

interpretation networks: page_guarded Networks networks_inv networks_guard "\<lambda>_. True"
  by unfold_locales (simp_all add: networks_mounted networks_user_inv networks_resume_inv networks_changed networks_offered list_all_iff)

lemma networks_single_flight:
  "single_flight Networks
     [(\<lambda>s. isPending (m_createNet s), \<lambda>k. k = KCreateNet), (\<lambda>s. isPending (m_joinNet s), \<lambda>k. k = KJoinNet),
      (\<lambda>s. isPending (m_deleteNet s), \<lambda>k. k = KDeleteNet)]"
  by (rule networks.single_flightI) (simp add: networks_inv_def)

lemma networks_links:
  "p \<in> set (links (Networks_view s)) \<Longrightarrow> \<exists>n \<in> set (data_or_empty (q_data (networksQuery s))). p = ''/networks/'' @ network_id n"
  by (auto simp: Networks_view_def networks_table_def network_row_def create_net_dialog_def join_dialog_def join_create_buttons_def
      Let_def failed_load_def head_row_def Dialog_def Input_def split: if_splits)

section \<open>Detail\<close>

record mesh_node =
  node_id :: string
  node_name :: string
  node_ip :: string
  node_public_key :: string
  node_nat_type :: string
  node_endpoints :: "string list option"
  node_status :: string

record network_detail = mesh_network +
  nd_created_at :: string
  nd_nodes :: "mesh_node list option"

record detail_page =
  networkQuery :: "network_detail query"
  inviteQuery :: "string query"
  m_invite :: mutation
  m_removeNode :: mutation
  removeTarget :: "mesh_node option"
  copiedCode :: bool

text \<open>Of the invitation the page reads its code.\<close>

definition detail_init :: detail_page where
  "detail_init = \<lparr>networkQuery = q_pending, inviteQuery = q_pending, m_invite = idle, m_removeNode = idle,
     removeTarget = None, copiedCode = False\<rparr>"

datatype detail_ev =
    CreateInvite | CopyInvite string | AskRemoveNode mesh_node | CancelRemoveNode | ConfirmRemoveNode | RetryNetwork

datatype detail_k = KInvite | KInviteCopied | KCopiedCode | KRemoveNode

definition handleCreateInvite :: "string \<Rightarrow> detail_page \<Rightarrow> (detail_page, detail_k) effect" where
  "handleCreateInvite nid s =
     (if nid = '''' then (s, [], []) else (s\<lparr>m_invite := mutate\<rparr>, [createInvite nid], [KInvite]))"

definition handleCreateInvite_done :: "string \<Rightarrow> result \<Rightarrow> detail_page \<Rightarrow> (detail_page, detail_k) effect" where
  "handleCreateInvite_done nid r s = (s\<lparr>m_invite := settled r\<rparr>,
     (case r of
        Inl err \<Rightarrow> []
      | Inr v \<Rightarrow> invite_onSuccess nid r @ [ShowToast (tr ''network_detail.invite_created'') ''success'']), [])"

definition handleCopyInvite_done :: "result \<Rightarrow> detail_page \<Rightarrow> (detail_page, detail_k) effect" where
  "handleCopyInvite_done r s =
     (case r of
        Inl err \<Rightarrow> (s, [], [])
      | Inr v \<Rightarrow> (s\<lparr>copiedCode := True\<rparr>, [ShowToast (tr ''common.copied'') ''success''], [KCopiedCode]))"

definition handleRemoveNode :: "string \<Rightarrow> detail_page \<Rightarrow> (detail_page, detail_k) effect" where
  "handleRemoveNode nid s =
     (case removeTarget s of
        None \<Rightarrow> (s, [], [])
      | Some n \<Rightarrow> (s\<lparr>m_removeNode := mutate\<rparr>, [removeNode nid (node_id n)], [KRemoveNode]))"

definition handleRemoveNode_done :: "string \<Rightarrow> result \<Rightarrow> detail_page \<Rightarrow> (detail_page, detail_k) effect" where
  "handleRemoveNode_done nid r s =
     (let s1 = s\<lparr>m_removeNode := settled r\<rparr> in
      case r of
        Inl err \<Rightarrow> (s1, [], [])
      | Inr v \<Rightarrow> (s1\<lparr>removeTarget := None\<rparr>,
          removeNode_onSuccess nid r @ [ShowToast (tr ''network_detail.node_removed'') ''success''], []))"

fun detail_user :: "string \<Rightarrow> detail_ev \<Rightarrow> detail_page \<Rightarrow> (detail_page, detail_k) effect" where
  "detail_user nid CreateInvite s = handleCreateInvite nid s"
| "detail_user nid (CopyInvite code) s = (s, [CopyText code], [KInviteCopied])"
| "detail_user nid (AskRemoveNode n) s = (s\<lparr>removeTarget := Some n\<rparr>, [], [])"
| "detail_user nid CancelRemoveNode s = (s\<lparr>removeTarget := None\<rparr>, [], [])"
| "detail_user nid ConfirmRemoveNode s = handleRemoveNode nid s"
| "detail_user nid RetryNetwork s = (s, [Refetch [''network'', nid]], [])"

fun detail_resume :: "string \<Rightarrow> detail_k \<Rightarrow> result \<Rightarrow> detail_page \<Rightarrow> (detail_page, detail_k) effect" where
  "detail_resume nid KInvite r s = handleCreateInvite_done nid r s"
| "detail_resume nid KInviteCopied r s = handleCopyInvite_done r s"
| "detail_resume nid KCopiedCode r s = (s\<lparr>copiedCode := False\<rparr>, [], [])"
| "detail_resume nid KRemoveNode r s = handleRemoveNode_done nid r s"

subsection \<open>View\<close>

definition onlineNodes :: "network_detail \<Rightarrow> nat" where
  "onlineNodes n = length (filter (\<lambda>x. node_status x = ''online'') (data_or_empty (nd_nodes n)))"

definition nodes_shown :: "network_detail \<Rightarrow> mesh_node list" where
  "nodes_shown n = data_or_empty (nd_nodes n)"

text \<open>The dates are formatted by a library: \<open>fmt\<close> and \<open>distance\<close> are its functions.\<close>

definition network_info :: "(string \<Rightarrow> string) \<Rightarrow> (string \<Rightarrow> string) \<Rightarrow> network_detail \<Rightarrow> detail_ev ui" where
  "network_info fmt distance n = Node ''Card''
     [Node ''CardHeader'' [Say [Lit (network_name n)],
        Say [Tr ''network_detail.created'' [], Lit ('' '' @ fmt (nd_created_at n) @ '' - '' @ distance (nd_created_at n))]],
      Node ''CardContent''
       [Node ''dt'' [Say (tr ''networks.table.cidr'')], Node ''dd'' [Say [Lit (network_cidr n)]],
        Node ''dt'' [Say (tr ''networks.table.nodes'')], Node ''dd'' [Say [Lit (nat_string (length (nodes_shown n)))]],
        Node ''dt'' [Say (tr ''network_detail.online_nodes'')], Node ''dd'' [Say [Lit (nat_string (onlineNodes n))]]]]"

definition invite_card :: "detail_page \<Rightarrow> detail_ev ui" where
  "invite_card s = Node ''Card''
     [Node ''CardHeader'' [Say (tr ''network_detail.invite_code''), Say (tr ''network_detail.invite_description'')],
      Node ''CardContent''
       [case q_data (inviteQuery s) of
          Some code \<Rightarrow> Node ''div'' [Node ''code'' [Say [Lit code]],
            Button False (CopyInvite code) [Node (if copiedCode s then ''Check'' else ''Copy'') [], Say (tr ''network_detail.copy_code'')]]
        | None \<Rightarrow> Node ''div'' [Node ''p'' [Say (tr ''network_detail.no_invite'')],
            Button (q_isLoading (inviteQuery s) \<or> isPending (m_invite s)) CreateInvite
              [Say (tr (if isPending (m_invite s) then ''network_detail.generating'' else ''network_detail.generate_invite''))]]]]"

definition topology :: "network_detail \<Rightarrow> detail_ev ui" where
  "topology n = Node ''Card''
     [Node ''CardHeader'' [Say (tr ''network_detail.topology''), Say (tr ''network_detail.topology_description'')],
      Node ''CardContent''
       [Node ''div'' (map (\<lambda>(i, x). Node ''span''
          [Node ''div'' [Say [Lit (to_upper (take 2 (node_name x)))]],
           Node ''p'' [Say [Lit (node_name x)]], Node ''p'' [Say [Lit (node_ip x)]],
           only_if (Suc i < length (nodes_shown n)) (Node ''line'' [])]) (enumerate 0 (nodes_shown n))),
        only_if (nodes_shown n = []) (Node ''p'' [Say (tr ''network_detail.no_nodes'')])]]"

definition first_endpoint :: "mesh_node \<Rightarrow> string" where
  "first_endpoint x = (case data_or_empty (node_endpoints x) of [] \<Rightarrow> '''' | e # _ \<Rightarrow> e)"

definition node_row :: "mesh_node \<Rightarrow> detail_ev ui" where
  "node_row x = Node ''TableRow''
     [Node ''TableCell'' [Say [Lit (node_name x)]], Node ''TableCell'' [Say [Lit (node_ip x)]],
      Node ''TableCell'' [Say [Lit (take 16 (node_public_key x) @ ''...'')]],
      Node ''TableCell'' [Node ''Badge'' [Say [Lit (or_dash (node_nat_type x))]]],
      Node ''TableCell'' [Say [Lit (or_dash (first_endpoint x))]],
      Node ''TableCell'' [Node ''Badge'' [Say (tr (''network_detail.status.'' @ node_status x))]],
      Node ''TableCell'' [Button False (AskRemoveNode x) []]]"

text \<open>\<open>t(key, text)\<close> gives the text for a key that is not found.\<close>

definition node_list :: "network_detail \<Rightarrow> detail_ev ui" where
  "node_list n = Node ''Card''
     [Node ''CardHeader'' [Say (tr ''network_detail.nodes'')],
      Node ''CardContent''
       [if nodes_shown n = [] then Node ''div'' [Say (tr ''network_detail.no_nodes'')]
        else Node ''Table''
         [Node ''TableHeader'' [Node ''TableRow'' (map (\<lambda>k. Node ''TableHead'' [Say (tr k)])
            [''network_detail.table.name'', ''network_detail.table.ip'', ''network_detail.table.public_key'',
             ''network_detail.table.nat_type'', ''network_detail.table.endpoint'', ''network_detail.table.status''] @
            [Node ''TableHead'' [Say [Tr ''common.actions'' [(''defaultValue'', JStr ''Actions'')]]]])],
          Node ''TableBody'' (map node_row (nodes_shown n))]]]"

definition NetworkDetail_view :: "(string \<Rightarrow> string) \<Rightarrow> (string \<Rightarrow> string) \<Rightarrow> detail_page \<Rightarrow> detail_ev ui" where
  "NetworkDetail_view fmt distance s =
     (let q = networkQuery s in
      Node ''div''
       [Node ''nav'' [LinkTo ''/networks'' [Say (tr ''network_detail.breadcrumb'')], Node ''span'' [Say [Lit ''/'']],
          Node ''span'' [Say [Lit (case q_data q of None \<Rightarrow> ''...'' | Some n \<Rightarrow> network_name n)]]],
        LinkTo ''/networks'' [Say (tr ''network_detail.back'')],
        if q_isLoading q then Node ''Card'' []
        else if q_isError q then Node ''Card'' [failed_load ''network_detail.failed_load'' [Button False RetryNetwork [Say (tr ''common.retry'')]]]
        else (case q_data q of
           None \<Rightarrow> Node ''Card'' [Say (tr ''network_detail.not_found'')]
         | Some n \<Rightarrow> Node '''' [network_info fmt distance n, invite_card s, topology n, node_list n]),
        confirm_dialog (removeTarget s \<noteq> None) CancelRemoveNode ConfirmRemoveNode (isPending (m_removeNode s))
          (''network_detail.remove_dialog.title'', ''network_detail.remove_dialog.message'', ''network_detail.remove_dialog.cancel'',
           ''network_detail.remove_dialog.removing'', ''network_detail.remove_dialog.confirm'')])"

text \<open>The two queries of a network are asked for only when the path has an id.\<close>

definition useNetwork_calls :: "string \<Rightarrow> cmd list" where
  "useNetwork_calls nid =
     (if nid = '''' then [] else [CallApi ''GET'' (network_path nid) JUndef, CallApi ''GET'' (network_path nid @ ''/invite'') JUndef])"

definition detail_env :: "detail_page \<Rightarrow> detail_page \<Rightarrow> bool" where
  "detail_env s s' \<longleftrightarrow> (\<exists>q qi. s' = s\<lparr>networkQuery := q, inviteQuery := qi\<rparr>)"

definition NetworkDetail :: "(string \<Rightarrow> string) \<Rightarrow> (string \<Rightarrow> string) \<Rightarrow> string \<Rightarrow> (detail_page, detail_ev, detail_k) page" where
  "NetworkDetail fmt distance nid =
     \<lparr>pg_mount = (detail_init, useNetwork_calls nid, []), pg_view = NetworkDetail_view fmt distance,
      pg_user = detail_user nid, pg_resume = detail_resume nid, pg_env = detail_env\<rparr>"

lemma NetworkDetail_sel [simp]:
  "pg_mount (NetworkDetail fmt distance nid) = (detail_init, useNetwork_calls nid, [])"
  "pg_view (NetworkDetail fmt distance nid) = NetworkDetail_view fmt distance"
  "pg_user (NetworkDetail fmt distance nid) = detail_user nid" "pg_resume (NetworkDetail fmt distance nid) = detail_resume nid"
  "pg_env (NetworkDetail fmt distance nid) = detail_env"
  by (simp_all add: NetworkDetail_def)

subsection \<open>Invariant\<close>

definition detail_inv :: "detail_page \<Rightarrow> detail_k list \<Rightarrow> bool" where
  "detail_inv s ks \<longleftrightarrow>
     flags (isPending (m_invite s)) (\<lambda>k. k = KInvite) ks \<and> flags (isPending (m_removeNode s)) (\<lambda>k. k = KRemoveNode) ks"

fun detail_guard :: "detail_page \<Rightarrow> detail_ev \<Rightarrow> bool" where
  "detail_guard s CreateInvite = (\<not> isPending (m_invite s) \<and> q_data (inviteQuery s) = None)"
| "detail_guard s ConfirmRemoveNode = (\<not> isPending (m_removeNode s))"
| "detail_guard s (CopyInvite code) = (q_data (inviteQuery s) = Some code)"
| "detail_guard s _ = True"

text \<open>Everything the page sends concerns its own network.\<close>

fun detail_cmd_ok :: "string \<Rightarrow> cmd \<Rightarrow> bool" where
  "detail_cmd_ok nid (CallApi m p b) = (prefix (network_path nid) p \<and> b = JUndef)"
| "detail_cmd_ok nid (Invalidate key) = (key = [''network'', nid] \<or> key = [''network'', nid, ''invite''] \<or> key = NETWORKS_KEY)"
| "detail_cmd_ok nid _ = True"

lemma detail_parts_guarded:
  "events (network_info fmt distance n) = {}" "events (topology n) = {}"
  "e \<in> events (invite_card s) \<Longrightarrow> detail_guard s e" "e \<in> events (node_list n) \<Longrightarrow> detail_guard s e"
  by (auto simp: network_info_def topology_def invite_card_def node_list_def node_row_def split: option.splits if_splits)

lemma detail_offered: "e \<in> events (NetworkDetail_view fmt distance s) \<Longrightarrow> detail_guard s e"
  by (auto simp: NetworkDetail_view_def Let_def detail_parts_guarded(1,2) dest: detail_parts_guarded(3,4) split: option.splits if_splits)

lemmas detail_handlers = handleCreateInvite_def handleCreateInvite_done_def handleCopyInvite_done_def handleRemoveNode_def
  handleRemoveNode_done_def Let_def createInvite_def removeNode_def

lemma detail_user_inv:
  assumes "detail_inv s ks" and "detail_guard s e"
  shows "detail_inv (fst (detail_user nid e s)) (ks @ snd (snd (detail_user nid e s)))"
    and "list_all (detail_cmd_ok nid) (fst (snd (detail_user nid e s)))"
  using assms by (cases e; auto simp: detail_inv_def flags_def detail_handlers split: option.splits)+

lemma detail_resume_inv:
  assumes "detail_inv s (ks1 @ k # ks2)"
  shows "detail_inv (fst (detail_resume nid k r s)) (ks1 @ ks2 @ snd (snd (detail_resume nid k r s)))"
    and "list_all (detail_cmd_ok nid) (fst (snd (detail_resume nid k r s)))"
  using assms by (cases k; cases r; auto simp: detail_inv_def flags_def detail_handlers split: if_splits)+

lemma detail_mounted: "detail_inv detail_init []" "list_all (detail_cmd_ok nid) (useNetwork_calls nid)"
  by (simp_all add: detail_inv_def detail_init_def flags_def useNetwork_calls_def)

lemma detail_changed: "detail_inv s ks \<Longrightarrow> detail_env s s' \<Longrightarrow> detail_inv s' ks"
  by (auto simp: detail_inv_def detail_env_def)

interpretation network_detail: page_guarded "NetworkDetail fmt distance nid" detail_inv detail_guard "detail_cmd_ok nid"
  for fmt distance nid
  by unfold_locales (simp_all add: detail_mounted detail_user_inv detail_resume_inv detail_changed, erule detail_offered)

lemma network_detail_single_flight:
  "single_flight (NetworkDetail fmt distance nid)
     [(\<lambda>s. isPending (m_invite s), \<lambda>k. k = KInvite), (\<lambda>s. isPending (m_removeNode s), \<lambda>k. k = KRemoveNode)]"
  by (rule network_detail.single_flightI) (simp add: detail_inv_def)

lemma online_at_most_all: "onlineNodes n \<le> length (nodes_shown n)"
  by (simp add: onlineNodes_def nodes_shown_def)

section \<open>Properties\<close>

text \<open>The page of a network acts on that network only: every request it sends is below the network's path and
  without a body, and removing a node makes the network, its invitation and the list of networks stale; whatever the
  order of answers, one invitation and one removal at a time are in flight.\<close>

theorem network_detail_local:
  assumes "page_reach (NetworkDetail fmt distance nid) (s, ks, out)"
  shows "(\<forall>m p b. CallApi m p b \<in> set out \<longrightarrow> prefix (''/v1/networks/'' @ nid) p \<and> b = JUndef) \<and>
    waiting (\<lambda>k. k = KInvite) ks \<le> 1 \<and> waiting (\<lambda>k. k = KRemoveNode) ks \<le> 1 \<and>
    (\<forall>v s2. let cs = fst (snd (detail_resume nid KRemoveNode (Inr v) s2)) in
       stale cs [''network'', nid] \<and> stale cs [''network'', nid, ''invite''] \<and> stale cs [''networks''])"
proof -
  have "prefix (''/v1/networks/'' @ nid) p \<and> b = JUndef" if "CallApi m p b \<in> set out" for m p b
    using network_detail.commands [OF assms that] by (simp add: network_path_def)
  moreover have "waiting (\<lambda>k. k = KInvite) ks \<le> 1" "waiting (\<lambda>k. k = KRemoveNode) ks \<le> 1"
    using network_detail.reachable [OF assms] by (simp_all add: detail_inv_def flags_def)
  moreover have "let cs = fst (snd (detail_resume nid KRemoveNode (Inr v) s2)) in
       stale cs [''network'', nid] \<and> stale cs [''network'', nid, ''invite''] \<and> stale cs [''networks'']" for v s2
    by (simp add: handleRemoveNode_done_def Let_def stale_def)
  ultimately show ?thesis by blast
qed

theorem network_detail_local_witness:
  "prefix ''/v1/networks/n1'' ''/v1/networks/n1/invite'' \<and> page_reach (NetworkDetail id id ''n1'') (detail_init, [], useNetwork_calls ''n1'')"
proof -
  have r: "page_reach (NetworkDetail id id ''n1'') (detail_init, [], useNetwork_calls ''n1'')"
    by (rule reach_mount) simp
  have "CallApi ''GET'' ''/v1/networks/n1/invite'' JUndef \<in> set (useNetwork_calls ''n1'')"
    by (simp add: useNetwork_calls_def network_path_def)
  with network_detail_local [OF r] r show ?thesis by force
qed

end
