(* ===== verification/Notifications.thy ===== *)
theory Notifications
  imports Hooks
begin

text \<open>
  The notifications (\<open>hooks/useNotifications.ts\<close>, \<open>pages/Notifications.tsx\<close>). The hook keeps a module-wide
  list beside the state of each component that uses it: the page's and the one of the layout, whose unread count
  is the badge of the navigation. Each instance has its own timer that regenerates the list.

  Times are milliseconds; \<open>n_now\<close> is what \<open>Date.now()\<close> returns. The flag \<open>isLoading\<close> is left out: \<open>refetch\<close> sets and resets it
  in one synchronous call, so no rendering sees it set.
\<close>

section \<open>State\<close>

record notification =
  nf_id :: string
  nf_type :: string
  nf_category :: string
  nf_title :: string
  nf_description :: string
  nf_read :: bool
  nf_severity :: string
  nf_created_at :: int
  nf_link :: "string option"

definition mk_notification ::
  "string \<Rightarrow> string \<Rightarrow> string \<Rightarrow> string \<Rightarrow> string \<Rightarrow> bool \<Rightarrow> string \<Rightarrow> int \<Rightarrow> string option \<Rightarrow> notification" where
  "mk_notification i ty cat title descr r sev created link = \<lparr>nf_id = i, nf_type = ty, nf_category = cat, nf_title = title,
     nf_description = descr, nf_read = r, nf_severity = sev, nf_created_at = created, nf_link = link\<rparr>"

definition generateMockNotifications :: "int \<Rightarrow> notification list" where
  "generateMockNotifications now =
     [mk_notification ''n1'' ''tunnel_created'' ''tunnels'' ''Tunnel \"api-gateway\" created''
        ''A new HTTP tunnel was created on port 8080.'' False ''success'' (now - 2 * 60 * 1000) (Some ''/tunnels''),
      mk_notification ''n2'' ''tunnel_error'' ''tunnels'' ''Tunnel \"db-proxy\" connection error''
        ''The tunnel failed to establish a connection to the remote server.'' False ''error'' (now - 15 * 60 * 1000) (Some ''/tunnels''),
      mk_notification ''n3'' ''domain_verified'' ''tunnels'' ''Domain verified: app.example.com''
        ''Your custom domain has been verified and is now active.'' False ''success'' (now - 60 * 60 * 1000) (Some ''/domains''),
      mk_notification ''n4'' ''billing_invoice'' ''billing'' ''Invoice #INV-2026-05 generated''
        ''Your monthly invoice for May 2026 is now available.'' True ''info'' (now - 2 * 60 * 60 * 1000) (Some ''/billing''),
      mk_notification ''n5'' ''billing_limit'' ''billing'' ''Bandwidth usage at 80%''
        ''You have used 8 GB of your 10 GB monthly bandwidth limit.'' True ''warning'' (now - 5 * 60 * 60 * 1000) (Some ''/billing''),
      mk_notification ''n6'' ''system_update'' ''system'' ''OmniTun v2.4.0 released''
        ''New features include enhanced mesh networking and improved performance.'' True ''info'' (now - 24 * 60 * 60 * 1000) None,
      mk_notification ''n7'' ''system_maintenance'' ''system'' ''Scheduled maintenance on June 1''
        ''We will be performing scheduled maintenance. Expect up to 5 minutes of downtime.'' True ''warning'' (now - 2 * 24 * 60 * 60 * 1000) None,
      mk_notification ''n8'' ''tunnel_started'' ''tunnels'' ''Tunnel \"web-app\" started''
        ''The tunnel has been started and is now accepting connections.'' True ''success'' (now - 3 * 24 * 60 * 60 * 1000) (Some ''/tunnels'')]"

record notif_state =
  n_now :: int
  mockStore :: "notification list"
  n_page :: "notification list"
  n_badge :: "notification list"
  n_category :: string

definition notif_init :: "int \<Rightarrow> notif_state" where
  "notif_init now = \<lparr>n_now = now, mockStore = generateMockNotifications now, n_page = generateMockNotifications now,
     n_badge = generateMockNotifications now, n_category = ''all''\<rparr>"

section \<open>The hook\<close>

text \<open>The timers of the two instances, and the actions of the page's.\<close>

definition page_tick :: "notif_state \<Rightarrow> notif_state" where
  "page_tick s = (let m = generateMockNotifications (n_now s) in s\<lparr>mockStore := m, n_page := m\<rparr>)"

definition badge_tick :: "notif_state \<Rightarrow> notif_state" where
  "badge_tick s = (let m = generateMockNotifications (n_now s) in s\<lparr>mockStore := m, n_badge := m\<rparr>)"

definition markAllRead :: "notif_state \<Rightarrow> notif_state" where
  "markAllRead s = (let m = map (\<lambda>n. n\<lparr>nf_read := True\<rparr>) (mockStore s) in s\<lparr>mockStore := m, n_page := m\<rparr>)"

definition markOneRead :: "string \<Rightarrow> notif_state \<Rightarrow> notif_state" where
  "markOneRead i s =
     (let m = map (\<lambda>n. if nf_id n = i then n\<lparr>nf_read := True\<rparr> else n) (mockStore s) in s\<lparr>mockStore := m, n_page := m\<rparr>)"

definition notif_refetch :: "notif_state \<Rightarrow> notif_state" where
  "notif_refetch s = page_tick s"

definition unreadCount :: "notification list \<Rightarrow> nat" where
  "unreadCount ns = length (filter (\<lambda>n. \<not> nf_read n) ns)"

section \<open>The page\<close>

definition categoryTabs :: "string list" where
  "categoryTabs = [''all'', ''tunnels'', ''billing'', ''system'']"

definition notif_filtered :: "notif_state \<Rightarrow> notification list" where
  "notif_filtered s = (if n_category s = ''all'' then n_page s else filter (\<lambda>n. nf_category n = n_category s) (n_page s))"

definition hasUnread :: "notif_state \<Rightarrow> bool" where
  "hasUnread s \<longleftrightarrow> list_ex (\<lambda>n. \<not> nf_read n) (n_page s)"

definition tab_count :: "notif_state \<Rightarrow> string \<Rightarrow> nat" where
  "tab_count s key =
     (if key = ''all'' then unreadCount (n_page s) else length (filter (\<lambda>n. nf_category n = key \<and> \<not> nf_read n) (n_page s)))"

datatype notif_ev = MarkAll | ShowCategory string | ViewOne notification

definition handleView :: "notification \<Rightarrow> notif_state \<Rightarrow> (notif_state, unit) effect" where
  "handleView n s =
     (if \<not> nf_read n then markOneRead (nf_id n) s else s,
      (case nf_link n of None \<Rightarrow> [] | Some l \<Rightarrow> if l = '''' then [] else [GoTo l]), [])"

fun notif_user :: "notif_ev \<Rightarrow> notif_state \<Rightarrow> (notif_state, unit) effect" where
  "notif_user MarkAll s = (markAllRead s, [], [])"
| "notif_user (ShowCategory c) s = (s\<lparr>n_category := c\<rparr>, [], [])"
| "notif_user (ViewOne n) s = handleView n s"

definition tab_label :: "string \<Rightarrow> caption" where
  "tab_label key =
     (if key = ''all'' then tr ''notifications.all''
      else tr (''notifications.'' @ (if key = ''billing'' then ''billing_cat'' else key)))"

definition notif_tab :: "notif_state \<Rightarrow> string \<Rightarrow> notif_ev ui" where
  "notif_tab s key = Button False (ShowCategory key)
     [Say (tab_label key), only_if (tab_count s key > 0) (Node ''Badge'' [Say [Lit (nat_string (tab_count s key))]])]"

definition notif_row :: "notif_state \<Rightarrow> notification \<Rightarrow> notif_ev ui" where
  "notif_row s n = Node ''div''
     [Node ''div'' [Node ''p'' [Say [Lit (nf_title n)]], only_if (\<not> nf_read n) (Node ''span'' [])],
      Node ''p'' [Say [Lit (nf_description n)]],
      Node ''p'' [Say (timeAgo (n_now s) (nf_created_at n))],
      (case nf_link n of
         None \<Rightarrow> Null
       | Some l \<Rightarrow> only_if (l \<noteq> '''') (Button False (ViewOne n) [Say (tr ''notifications.view'')]))]"

definition Notifications_view :: "notif_state \<Rightarrow> notif_ev ui" where
  "Notifications_view s = Node ''div''
     [Node ''div''
       [Node ''h1'' [Say (tr ''notifications.title'')], Node ''p'' [Say (tr ''notifications.subtitle'')],
        only_if (hasUnread s) (Button False MarkAll [Say (tr ''notifications.mark_all_read'')])],
      Node ''div'' (map (notif_tab s) categoryTabs),
      Node ''Card''
       [if notif_filtered s = [] then Node ''div'' [Node ''p'' [Say (tr ''notifications.empty'')]]
        else Node ''div'' (map (notif_row s) (notif_filtered s))]]"

text \<open>Between the user's events time passes and the timers fire.\<close>

definition notif_env :: "notif_state \<Rightarrow> notif_state \<Rightarrow> bool" where
  "notif_env s s' \<longleftrightarrow> (\<exists>d \<ge> 0. s' = s\<lparr>n_now := n_now s + d\<rparr>) \<or> s' = page_tick s \<or> s' = badge_tick s"

definition NotificationsPage :: "int \<Rightarrow> (notif_state, notif_ev, unit) page" where
  "NotificationsPage now = \<lparr>pg_mount = (notif_init now, [], []), pg_view = Notifications_view, pg_user = notif_user,
     pg_resume = (\<lambda>k r s. (s, [], [])), pg_env = notif_env\<rparr>"

lemma NotificationsPage_sel [simp]:
  "pg_mount (NotificationsPage now) = (notif_init now, [], [])" "pg_view (NotificationsPage now) = Notifications_view"
  "pg_user (NotificationsPage now) = notif_user" "pg_resume (NotificationsPage now) = (\<lambda>k r s. (s, [], []))"
  "pg_env (NotificationsPage now) = notif_env"
  by (simp_all add: NotificationsPage_def)

section \<open>Invariant\<close>

text \<open>All copies of the list hold the same eight notifications; only times and read marks differ.\<close>

definition known_kind :: "notification \<Rightarrow> bool" where
  "known_kind n \<longleftrightarrow> nf_category n \<in> {''tunnels'', ''billing'', ''system''} \<and>
     nf_link n \<in> {None, Some ''/tunnels'', Some ''/domains'', Some ''/billing''}"

definition listed :: "notification list \<Rightarrow> bool" where
  "listed ns \<longleftrightarrow> map nf_id ns = [''n1'', ''n2'', ''n3'', ''n4'', ''n5'', ''n6'', ''n7'', ''n8''] \<and> (\<forall>n \<in> set ns. known_kind n)"

lemma known_kind_read [simp]: "known_kind (n\<lparr>nf_read := b\<rparr>) = known_kind n"
  by (simp add: known_kind_def)

lemma known_kind_link: "known_kind n \<Longrightarrow> nf_link n = Some l \<Longrightarrow> l \<in> {''/tunnels'', ''/domains'', ''/billing''}"
  by (auto simp: known_kind_def)

lemma listed_generated: "listed (generateMockNotifications now)"
  by (simp add: listed_def known_kind_def generateMockNotifications_def mk_notification_def)

lemma listed_map_read:
  assumes "listed ns"
  shows "listed (map (\<lambda>n. if P n then n\<lparr>nf_read := True\<rparr> else n) ns)"
proof -
  have "map nf_id (map (\<lambda>n. if P n then n\<lparr>nf_read := True\<rparr> else n) ns) = map nf_id ns" by simp
  moreover have "\<forall>n \<in> set (map (\<lambda>n. if P n then n\<lparr>nf_read := True\<rparr> else n) ns). known_kind n"
    using assms by (auto simp: listed_def)
  ultimately show ?thesis using assms by (simp only: listed_def)
qed

lemma listed_all_read: "listed ns \<Longrightarrow> listed (map (\<lambda>n. n\<lparr>nf_read := True\<rparr>) ns)"
  using listed_map_read [of ns "\<lambda>_. True"] by simp

definition notif_inv :: "notif_state \<Rightarrow> unit list \<Rightarrow> bool" where
  "notif_inv s ks \<longleftrightarrow> listed (mockStore s) \<and> listed (n_page s) \<and> listed (n_badge s) \<and> n_category s \<in> set categoryTabs \<and> ks = []"

fun notif_guard :: "notif_state \<Rightarrow> notif_ev \<Rightarrow> bool" where
  "notif_guard s (ShowCategory c) = (c \<in> set categoryTabs)"
| "notif_guard s (ViewOne n) = (n \<in> set (n_page s))"
| "notif_guard s MarkAll = hasUnread s"

lemma notif_offered: "e \<in> events (Notifications_view s) \<Longrightarrow> notif_guard s e"
  by (auto simp: Notifications_view_def notif_tab_def notif_row_def notif_filtered_def split: if_splits option.splits)

fun notif_cmd_ok :: "cmd \<Rightarrow> bool" where
  "notif_cmd_ok (GoTo p) = (p \<in> {''/tunnels'', ''/domains'', ''/billing''})"
| "notif_cmd_ok _ = False"

lemma notif_view_cmds:
  assumes "notif_inv s ks" and "n \<in> set (n_page s)" and "handleView n s = (s', cs, new)" and "c \<in> set cs"
  shows "notif_cmd_ok c"
proof -
  have "known_kind n" using assms(1,2) by (simp add: notif_inv_def listed_def)
  moreover obtain l where "nf_link n = Some l" "c = GoTo l"
    using assms(3,4) by (auto simp: handleView_def split: option.splits if_splits)
  ultimately show ?thesis using known_kind_link by simp
qed

interpretation notifications: page_commands "NotificationsPage now" notif_inv notif_cmd_ok for now
proof unfold_locales
  show "pg_mount (NotificationsPage now) = (s, cs, ks) \<Longrightarrow> notif_inv s ks" for s cs ks
    by (auto simp: notif_init_def notif_inv_def listed_generated categoryTabs_def)
  show "notif_inv s ks \<Longrightarrow> e \<in> events (pg_view (NotificationsPage now) s) \<Longrightarrow> pg_user (NotificationsPage now) e s = (s', cs, new) \<Longrightarrow>
      notif_inv s' (ks @ new)" for s ks e s' cs new
    using notif_offered [of e s]
    by (cases e) (auto simp: notif_inv_def markAllRead_def markOneRead_def handleView_def Let_def listed_all_read listed_map_read)
  show "notif_inv s (ks1 @ k # ks2) \<Longrightarrow> pg_resume (NotificationsPage now) k r s = (s', cs, new) \<Longrightarrow> notif_inv s' (ks1 @ ks2 @ new)"
    for s ks1 k ks2 r s' cs new by (simp add: notif_inv_def)
  show "notif_inv s ks \<Longrightarrow> pg_env (NotificationsPage now) s s' \<Longrightarrow> notif_inv s' ks" for s ks s'
    by (auto simp: notif_env_def notif_inv_def page_tick_def badge_tick_def Let_def listed_generated)
  show "pg_mount (NotificationsPage now) = (s, cs, ks) \<Longrightarrow> c \<in> set cs \<Longrightarrow> notif_cmd_ok c" for s cs ks c by simp
  show "notif_inv s ks \<Longrightarrow> e \<in> events (pg_view (NotificationsPage now) s) \<Longrightarrow> pg_user (NotificationsPage now) e s = (s', cs, new) \<Longrightarrow>
      c \<in> set cs \<Longrightarrow> notif_cmd_ok c" for s ks e s' cs new c
    using notif_offered [of e s] notif_view_cmds [of s ks] by (cases e) auto
  show "notif_inv s (ks1 @ k # ks2) \<Longrightarrow> pg_resume (NotificationsPage now) k r s = (s', cs, new) \<Longrightarrow> c \<in> set cs \<Longrightarrow> notif_cmd_ok c"
    for s ks1 k ks2 r s' cs new c by simp
qed

section \<open>Properties\<close>

lemma count_by_category:
  assumes "list_all (\<lambda>n. nf_category n \<in> {''tunnels'', ''billing'', ''system''}) ns"
  shows "length (filter (\<lambda>n. \<not> nf_read n) ns) =
    length (filter (\<lambda>n. nf_category n = ''tunnels'' \<and> \<not> nf_read n) ns) +
    length (filter (\<lambda>n. nf_category n = ''billing'' \<and> \<not> nf_read n) ns) +
    length (filter (\<lambda>n. nf_category n = ''system'' \<and> \<not> nf_read n) ns)"
  using assms by (induction ns) auto

text \<open>The counts beside the four tabs agree: the unread notifications of the three categories add up to
  those of the first tab, and the button that marks all as read is shown exactly while that number is not
  zero.\<close>

theorem notification_counts:
  assumes "page_reach (NotificationsPage now) (s, ks, out)"
  shows "tab_count s ''all'' = tab_count s ''tunnels'' + tab_count s ''billing'' + tab_count s ''system'' \<and>
    (MarkAll \<in> events (Notifications_view s) \<longleftrightarrow> 0 < tab_count s ''all'')"
proof -
  have "listed (n_page s)" using notifications.reachable [OF assms] by (simp add: notif_inv_def)
  then have "tab_count s ''all'' = tab_count s ''tunnels'' + tab_count s ''billing'' + tab_count s ''system''"
    using count_by_category [of "n_page s"] by (simp add: tab_count_def unreadCount_def listed_def list_all_iff known_kind_def)
  moreover have "MarkAll \<in> events (Notifications_view s) \<longleftrightarrow> hasUnread s"
    by (auto simp: Notifications_view_def notif_tab_def notif_row_def split: option.splits if_splits)
  moreover have "hasUnread s \<longleftrightarrow> 0 < tab_count s ''all''"
    by (simp add: hasUnread_def tab_count_def unreadCount_def list_ex_iff length_greater_0_conv filter_empty_conv)
  ultimately show ?thesis by blast
qed

theorem notification_counts_witness:
  "tab_count (notif_init 0) ''all'' = tab_count (notif_init 0) ''tunnels'' + tab_count (notif_init 0) ''billing'' + tab_count (notif_init 0) ''system''"
proof -
  have "page_reach (NotificationsPage 0) (notif_init 0, [], [])" by (rule reach_mount) simp
  from notification_counts [OF this] show ?thesis by blast
qed

text \<open>Reading does not last and is not shared. Marking everything as read empties the page's count but not
  the badge of the navigation, which keeps its own copy; and whatever had been read, the next tick of the page's
  timer brings the three unread notifications back.\<close>

theorem read_marks_are_lost:
  "unreadCount (n_page (markAllRead s)) = 0 \<and> n_badge (markAllRead s) = n_badge s \<and>
   unreadCount (n_page (page_tick s)) = 3 \<and> unreadCount (n_badge (badge_tick s)) = 3 \<and>
   unreadCount (n_page (page_tick (markAllRead s))) = 3"
  by (simp add: unreadCount_def markAllRead_def page_tick_def badge_tick_def Let_def generateMockNotifications_def mk_notification_def
      filter_empty_conv)

text \<open>Opening a notification marks it and nothing else: afterwards it is read, every other one is as it was,
  and opening it again changes nothing.\<close>

theorem marking_one:
  assumes "n \<in> set (mockStore s)"
  shows "map nf_id (mockStore (markOneRead (nf_id n) s)) = map nf_id (mockStore s) \<and>
    n\<lparr>nf_read := True\<rparr> \<in> set (mockStore (markOneRead (nf_id n) s)) \<and>
    filter (\<lambda>m. nf_id m \<noteq> nf_id n) (mockStore (markOneRead (nf_id n) s)) = filter (\<lambda>m. nf_id m \<noteq> nf_id n) (mockStore s) \<and>
    n_page (markOneRead (nf_id n) s) = mockStore (markOneRead (nf_id n) s) \<and>
    markOneRead (nf_id n) (markOneRead (nf_id n) s) = markOneRead (nf_id n) s"
proof -
  let ?f = "\<lambda>m. if nf_id m = nf_id n then m\<lparr>nf_read := True\<rparr> else m"
  have "filter (\<lambda>m. nf_id m \<noteq> nf_id n) (map ?f ms) = filter (\<lambda>m. nf_id m \<noteq> nf_id n) ms" for ms
    by (induction ms) auto
  moreover have "n\<lparr>nf_read := True\<rparr> \<in> set (map ?f (mockStore s))" using assms by force
  moreover have "map nf_id (map ?f ms) = map nf_id ms" "map ?f (map ?f ms) = map ?f ms" for ms
    by simp_all
  ultimately show ?thesis by (simp add: markOneRead_def Let_def)
qed

theorem marking_one_witness:
  "markOneRead ''n1'' (markOneRead ''n1'' (notif_init 0)) = markOneRead ''n1'' (notif_init 0)"
proof -
  let ?n = "hd (mockStore (notif_init 0))"
  have "?n \<in> set (mockStore (notif_init 0))" "nf_id ?n = ''n1''"
    by (simp_all add: notif_init_def generateMockNotifications_def mk_notification_def)
  with marking_one [of ?n "notif_init 0"] show ?thesis by simp
qed

end
