(* ===== verification/OnboardingPage.thy ===== *)
theory OnboardingPage
  imports Hooks
begin

text \<open>
  The five steps after registration (\<open>pages/Onboarding.tsx\<close>): welcome, organization, command line client,
  first tunnel, done. Answers of the two creating requests and of the completion request may arrive at any step.
\<close>

section \<open>State\<close>

definition STEPS :: int where
  "STEPS = 5"

definition CLI_COMMANDS :: "string \<Rightarrow> (string \<times> string) option" where
  "CLI_COMMANDS platform = map_of
     [(''macos'', ''brew install omnitun/tap/omnitun'', ''omnitun --version''),
      (''linux'', ''curl -fsSL https://get.omnitun.dev | bash'', ''omnitun --version''),
      (''windows'', ''irm https://get.omnitun.dev/install.ps1 | iex'', ''omnitun --version'')] platform"

record created_tunnel =
  ct_id :: json
  ct_slug :: json
  ct_domain :: json

record onboarding =
  step :: int
  orgName :: string
  orgSlug :: string
  orgCreating :: bool
  orgError :: caption
  cliPlatform :: string
  copiedPlatform :: "string option"
  tunnelPort :: string
  tunnelProtocol :: string
  tunnelName :: string
  tunnelCreating :: bool
  createdTunnel :: "created_tunnel option"

definition onboarding_init :: onboarding where
  "onboarding_init = \<lparr>step = 1, orgName = '''', orgSlug = '''', orgCreating = False, orgError = [], cliPlatform = ''macos'',
     copiedPlatform = None, tunnelPort = '''', tunnelProtocol = ''http'', tunnelName = '''', tunnelCreating = False,
     createdTunnel = None\<rparr>"

datatype onboarding_ev =
    Skip | Next | Prev | OrgName string | OrgSlug string | SubmitOrg | Platform string | CopyCli string string
  | TunnelName string | TunnelPort string | TunnelProtocol string | SubmitTunnel | CopyUrl string
  | Finish | FinishToTunnels

datatype onboarding_k = KSkip | KFinish bool | KOrg | KTunnel | KCopiedReset

section \<open>Handlers\<close>

definition nextStep :: "onboarding \<Rightarrow> onboarding" where
  "nextStep s = s\<lparr>step := min (step s + 1) STEPS\<rparr>"

definition prevStep :: "onboarding \<Rightarrow> onboarding" where
  "prevStep s = s\<lparr>step := max (step s - 1) 1\<rparr>"

abbreviation complete_call :: cmd where
  "complete_call \<equiv> CallApi ''POST'' ''/v1/org/onboarding/complete'' JUndef"

definition handleSkip :: "onboarding \<Rightarrow> (onboarding, onboarding_k) effect" where
  "handleSkip s = (s, [complete_call], [KSkip])"

text \<open>\<open>handleFinish\<close>; the button to the tunnels navigates once more after it.\<close>

definition handleFinish :: "bool \<Rightarrow> onboarding \<Rightarrow> (onboarding, onboarding_k) effect" where
  "handleFinish to_tunnels s = (s, [complete_call], [KFinish to_tunnels])"

definition handleCreateOrg :: "onboarding \<Rightarrow> (onboarding, onboarding_k) effect" where
  "handleCreateOrg s =
     (if trim (orgName s) = '''' then (s\<lparr>orgError := tr ''onboarding.step2_name_required''\<rparr>, [], [])
      else (s\<lparr>orgError := [], orgCreating := True\<rparr>,
        [CallApi ''PATCH'' ''/v1/org/'' (json_body
           [(''name'', JStr (trim (orgName s))), (''slug'', JStr (if orgSlug s \<noteq> '''' then orgSlug s else slugify (orgName s)))])],
        [KOrg]))"

definition handleCreateOrg_done :: "result \<Rightarrow> onboarding \<Rightarrow> onboarding" where
  "handleCreateOrg_done r s =
     (case r of
        Inl err \<Rightarrow> s\<lparr>orgError := tr ''onboarding.failed_create_org'', orgCreating := False\<rparr>
      | Inr v \<Rightarrow> (nextStep s)\<lparr>orgCreating := False\<rparr>)"

definition handleCopy :: "string \<Rightarrow> string \<Rightarrow> onboarding \<Rightarrow> (onboarding, onboarding_k) effect" where
  "handleCopy txt key s =
     (s\<lparr>copiedPlatform := Some key\<rparr>, [CopyText txt, ShowToast (tr ''onboarding.copied_cli'') ''success''], [KCopiedReset])"

definition local_port_of :: "string \<Rightarrow> int" where
  "local_port_of v = (case parseInt v of None \<Rightarrow> 3000 | Some n \<Rightarrow> if n = 0 then 3000 else n)"

text \<open>The placeholder sent for an empty name is the translated text; the model sends its key.\<close>

definition handleCreateTunnel :: "onboarding \<Rightarrow> (onboarding, onboarding_k) effect" where
  "handleCreateTunnel s =
     (s\<lparr>tunnelCreating := True\<rparr>,
      [CallApi ''POST'' ''/v1/tunnels'' (json_body
         [(''name'', JStr (if tunnelName s \<noteq> '''' then tunnelName s else ''onboarding.step4_name_placeholder'')),
          (''protocol'', JStr (tunnelProtocol s)), (''local_port'', JNum (local_port_of (tunnelPort s)))])],
      [KTunnel])"

text \<open>The toast of success is shown before the answer is read; an answer without a body fails on reading it.\<close>

definition handleCreateTunnel_done :: "result \<Rightarrow> onboarding \<Rightarrow> (onboarding, onboarding_k) effect" where
  "handleCreateTunnel_done r s =
     (case r of
        Inl err \<Rightarrow> (s\<lparr>tunnelCreating := False\<rparr>, [ShowToast (tr ''onboarding.failed_create_tunnel'') ''error''], [])
      | Inr data \<Rightarrow>
          if nullish data
          then (s\<lparr>tunnelCreating := False\<rparr>,
            [ShowToast (tr ''onboarding.step4_created'') ''success'', ShowToast (tr ''onboarding.failed_create_tunnel'') ''error''], [])
          else ((nextStep (s\<lparr>createdTunnel := Some \<lparr>ct_id = jprop data ''id'', ct_slug = jprop data ''slug'',
              ct_domain = or_else (jprop data ''domain'') (JStr (js_string (jprop data ''slug'') @ ''.omnitun.io''))\<rparr>\<rparr>))
                \<lparr>tunnelCreating := False\<rparr>,
            [ShowToast (tr ''onboarding.step4_created'') ''success''], []))"

fun onboarding_user :: "onboarding_ev \<Rightarrow> onboarding \<Rightarrow> (onboarding, onboarding_k) effect" where
  "onboarding_user Skip s = handleSkip s"
| "onboarding_user Next s = (nextStep s, [], [])"
| "onboarding_user Prev s = (prevStep s, [], [])"
| "onboarding_user (OrgName v) s = (s\<lparr>orgName := v, orgSlug := slugify v, orgError := []\<rparr>, [], [])"
| "onboarding_user (OrgSlug v) s = (s\<lparr>orgSlug := slugify v\<rparr>, [], [])"
| "onboarding_user SubmitOrg s = handleCreateOrg s"
| "onboarding_user (Platform p) s = (s\<lparr>cliPlatform := p\<rparr>, [], [])"
| "onboarding_user (CopyCli txt key) s = handleCopy txt key s"
| "onboarding_user (TunnelName v) s = (s\<lparr>tunnelName := v\<rparr>, [], [])"
| "onboarding_user (TunnelPort v) s = (s\<lparr>tunnelPort := v\<rparr>, [], [])"
| "onboarding_user (TunnelProtocol v) s = (s\<lparr>tunnelProtocol := v\<rparr>, [], [])"
| "onboarding_user SubmitTunnel s = handleCreateTunnel s"
| "onboarding_user (CopyUrl u) s = (s, [CopyText u, ShowToast (tr ''onboarding.step5_copy_url'') ''success''], [])"
| "onboarding_user Finish s = handleFinish False s"
| "onboarding_user FinishToTunnels s = handleFinish True s"

fun onboarding_resume :: "onboarding_k \<Rightarrow> result \<Rightarrow> onboarding \<Rightarrow> (onboarding, onboarding_k) effect" where
  "onboarding_resume KSkip r s = (s, [GoTo ''/''], [])"
| "onboarding_resume (KFinish to_tunnels) r s = (s, GoTo ''/'' # (if to_tunnels then [GoTo ''/tunnels''] else []), [])"
| "onboarding_resume KOrg r s = (handleCreateOrg_done r s, [], [])"
| "onboarding_resume KTunnel r s = handleCreateTunnel_done r s"
| "onboarding_resume KCopiedReset r s = (s\<lparr>copiedPlatform := None\<rparr>, [], [])"

section \<open>View\<close>

definition ProgressBar :: "int \<Rightarrow> 'e ui" where
  "ProgressBar n = Node ''div'' (map (\<lambda>i. Node ''div''
     [if i + 1 < n then Node ''Check'' [] else Say [Lit (int_string (i + 1))]]) [0 .. STEPS - 1])"

definition onboarding_welcome :: "onboarding_ev ui" where
  "onboarding_welcome = Node ''div''
     [Node ''div'' [Node ''h1'' [Say (tr ''onboarding.step1_title'')], Node ''p'' [Say (tr ''onboarding.step1_desc'')]],
      Node ''div'' (map (\<lambda>f. Node ''Card''
        [Node ''h3'' [Say (tr (''onboarding.step1_'' @ f @ ''_title''))], Node ''p'' [Say (tr (''onboarding.step1_'' @ f @ ''_desc''))]])
        [''feature1'', ''feature2'', ''feature3''])]"

definition onboarding_org :: "onboarding \<Rightarrow> onboarding_ev ui" where
  "onboarding_org s = Node ''Card''
     [Node ''CardHeader'' [Say (tr ''onboarding.step2_title''), Say (tr ''onboarding.step2_desc'')],
      Form (orgCreating s) SubmitOrg
       [Input (tr ''onboarding.step2_name_label'') (orgName s) (orgError s) False OrgName,
        Input (tr ''onboarding.step2_slug_label'') (orgSlug s) [] True OrgSlug,
        Node ''submit'' [Say (tr (if orgCreating s then ''onboarding.creating_org'' else ''onboarding.next''))]]]"

definition cli_line :: "onboarding \<Rightarrow> string \<Rightarrow> string \<Rightarrow> string \<Rightarrow> onboarding_ev ui" where
  "cli_line s note txt key = Node ''div''
     [Node ''p'' [Say (tr note)],
      Node ''div'' [Node ''code'' [Say [Lit txt]],
        Button False (CopyCli txt key) [Node (if copiedPlatform s = Some key then ''Check'' else ''Copy'') []]]]"

definition onboarding_cli :: "onboarding \<Rightarrow> onboarding_ev ui" where
  "onboarding_cli s = Node ''div''
     [Node ''div'' [Node ''h1'' [Say (tr ''onboarding.step3_title'')], Node ''p'' [Say (tr ''onboarding.step3_desc'')]],
      Node ''div'' (map (\<lambda>p. Button False (Platform p) [Say (tr (''onboarding.step3_'' @ p))]) [''macos'', ''linux'', ''windows'']),
      (case CLI_COMMANDS (cliPlatform s) of
         None \<Rightarrow> Null
       | Some (install, verify) \<Rightarrow> Node ''Card''
           [cli_line s ''onboarding.step3_install_note'' install (''install-'' @ cliPlatform s),
            cli_line s ''onboarding.step3_verify'' verify (''verify-'' @ cliPlatform s)])]"

definition onboarding_tunnel :: "onboarding \<Rightarrow> onboarding_ev ui" where
  "onboarding_tunnel s = Node ''Card''
     [Node ''CardHeader'' [Say (tr ''onboarding.step4_title''), Say (tr ''onboarding.step4_desc'')],
      Form (tunnelCreating s) SubmitTunnel
       [Input (tr ''onboarding.step4_name_label'') (tunnelName s) [] False TunnelName,
        Node ''div''
         [Input (tr ''onboarding.step4_port_label'') (tunnelPort s) [] False TunnelPort,
          Node ''div'' [Node ''label'' [Say (tr ''onboarding.step4_protocol_label'')],
            Select (tunnelProtocol s) [(''http'', [Lit ''HTTP'']), (''https'', [Lit ''HTTPS'']), (''tcp'', [Lit ''TCP''])] TunnelProtocol]],
        Node ''div''
         [Node ''p'' [Say (tr ''onboarding.step4_preview_title'')],
          Node ''p'' [Say [Lit (''https://'' @ (if tunnelName s \<noteq> '''' then slugify (tunnelName s) else ''my-tunnel'') @ ''.omnitun.dev'')]]],
        Node ''submit'' [Say (tr (if tunnelCreating s then ''onboarding.step4_creating'' else ''onboarding.step4_create''))]]]"

definition onboarding_done :: "onboarding \<Rightarrow> onboarding_ev ui" where
  "onboarding_done s = Node ''div''
     [Node ''div'' [Node ''h1'' [Say (tr ''onboarding.step5_title'')], Node ''p'' [Say (tr ''onboarding.step5_desc'')]],
      (case createdTunnel s of
         None \<Rightarrow> Null
       | Some c \<Rightarrow> Node ''Card''
           [Node ''p'' [Say (tr ''onboarding.step5_tunnel_url'')],
            Node ''a'' [Say [Lit (js_string (ct_domain c))]],
            Button False (CopyUrl (''https://'' @ js_string (ct_domain c))) []]),
      Node ''div''
       [Button False Finish [Say (tr ''onboarding.step5_link_dashboard'')],
        Button False FinishToTunnels [Say (tr ''onboarding.step5_link_tunnels'')],
        Listens Finish [Say (tr ''onboarding.step5_link_docs'')]]]"

definition onboarding_buttons :: "onboarding \<Rightarrow> onboarding_ev ui" where
  "onboarding_buttons s = only_if (step s < 5) (Node ''div''
     [Button False (if step s = 1 then Skip else Prev) [Say (tr (if step s = 1 then ''onboarding.skip'' else ''onboarding.back''))],
      only_if (step s = 1) (Button False Next [Say (tr ''onboarding.get_started'')]),
      only_if (step s = 3) (Button False Next [Say (tr ''onboarding.next'')]),
      only_if (step s = 4) (Button (createdTunnel s = None) Next [Say (tr ''onboarding.next'')])])"

definition Onboarding_view :: "onboarding \<Rightarrow> onboarding_ev ui" where
  "Onboarding_view s = Node ''div''
     [Node ''div'' [Node ''span'' [Say [Lit ''OmniTun'']], Button False Skip [Say (tr ''onboarding.skip'')]],
      ProgressBar (step s),
      only_if (step s = 1) onboarding_welcome,
      only_if (step s = 2) (onboarding_org s),
      only_if (step s = 3) (onboarding_cli s),
      only_if (step s = 4) (onboarding_tunnel s),
      only_if (step s = 5) (onboarding_done s),
      onboarding_buttons s]"

definition Onboarding :: "(onboarding, onboarding_ev, onboarding_k) page" where
  "Onboarding = \<lparr>pg_mount = (onboarding_init, [], []), pg_view = Onboarding_view, pg_user = onboarding_user,
     pg_resume = onboarding_resume, pg_env = (=)\<rparr>"

lemma Onboarding_sel [simp]:
  "pg_mount Onboarding = (onboarding_init, [], [])" "pg_view Onboarding = Onboarding_view" "pg_user Onboarding = onboarding_user"
  "pg_resume Onboarding = onboarding_resume" "pg_env Onboarding = (=)"
  by (simp_all add: Onboarding_def)

section \<open>Invariant\<close>

fun onboarding_guard :: "onboarding \<Rightarrow> onboarding_ev \<Rightarrow> bool" where
  "onboarding_guard s Next = (step s = 1 \<or> step s = 3 \<or> step s = 4 \<and> createdTunnel s \<noteq> None)"
| "onboarding_guard s Prev = (2 \<le> step s \<and> step s \<le> 4)"
| "onboarding_guard s SubmitOrg = (step s = 2 \<and> \<not> orgCreating s)"
| "onboarding_guard s SubmitTunnel = (step s = 4 \<and> \<not> tunnelCreating s)"
| "onboarding_guard s (OrgSlug v) = False"
| "onboarding_guard s Finish = (step s = 5)"
| "onboarding_guard s FinishToTunnels = (step s = 5)"
| "onboarding_guard s _ = True"

definition onboarding_inv :: "onboarding \<Rightarrow> onboarding_k list \<Rightarrow> bool" where
  "onboarding_inv s ks \<longleftrightarrow>
     1 \<le> step s \<and> step s \<le> STEPS \<and>
     flags (orgCreating s) (\<lambda>k. k = KOrg) ks \<and> flags (tunnelCreating s) (\<lambda>k. k = KTunnel) ks \<and>
     orgSlug s = slugify (orgName s) \<and>
     (createdTunnel s = None \<longrightarrow> step s < STEPS \<and> (orgCreating s \<longrightarrow> step s \<le> 2))"

lemma events_ProgressBar [simp]: "events (ProgressBar n) = {}"
  by (auto simp: ProgressBar_def split: if_splits)

lemma steps_guarded:
  "e \<in> events onboarding_welcome \<Longrightarrow> onboarding_guard s e"
  "e \<in> events (onboarding_org s) \<Longrightarrow> step s = 2 \<Longrightarrow> onboarding_guard s e"
  "e \<in> events (onboarding_cli s) \<Longrightarrow> onboarding_guard s e"
  "e \<in> events (onboarding_tunnel s) \<Longrightarrow> step s = 4 \<Longrightarrow> onboarding_guard s e"
  "e \<in> events (onboarding_done s) \<Longrightarrow> step s = 5 \<Longrightarrow> onboarding_guard s e"
  by (auto simp: onboarding_welcome_def onboarding_org_def onboarding_cli_def cli_line_def onboarding_tunnel_def
      onboarding_done_def split: option.splits if_splits)

lemma buttons_guarded: "e \<in> events (onboarding_buttons s) \<Longrightarrow> 1 \<le> step s \<Longrightarrow> onboarding_guard s e"
  by (auto simp: onboarding_buttons_def split: if_splits)

lemma onboarding_offered: "e \<in> events (Onboarding_view s) \<Longrightarrow> 1 \<le> step s \<Longrightarrow> onboarding_guard s e"
  using steps_guarded [of e s] buttons_guarded [of e s] by (auto simp: Onboarding_view_def split: if_splits)

lemma onboarding_user_inv:
  assumes "onboarding_inv s ks" and "onboarding_guard s e"
  shows "onboarding_inv (fst (onboarding_user e s)) (ks @ snd (snd (onboarding_user e s)))"
  using assms
  by (cases e) (auto simp: onboarding_inv_def flags_def STEPS_def nextStep_def prevStep_def handleSkip_def handleFinish_def
      handleCreateOrg_def handleCopy_def handleCreateTunnel_def)

lemma onboarding_resume_inv:
  assumes "onboarding_inv s (ks1 @ k # ks2)"
  shows "onboarding_inv (fst (onboarding_resume k r s)) (ks1 @ ks2 @ snd (snd (onboarding_resume k r s)))"
  using assms
  by (cases k; cases r) (auto simp: onboarding_inv_def flags_def STEPS_def nextStep_def handleCreateOrg_done_def
      handleCreateTunnel_done_def split: if_splits)

fun onboarding_cmd_ok :: "cmd \<Rightarrow> bool" where
  "onboarding_cmd_ok (CallApi m p b) = (p = ''/v1/org/'' \<longrightarrow>
     (\<exists>v. trim v \<noteq> '''' \<and> b = json_body [(''name'', JStr (trim v)), (''slug'', JStr (slugify v))]))"
| "onboarding_cmd_ok _ = True"

lemma onboarding_user_cmds:
  assumes "onboarding_inv s ks" and "c \<in> set (fst (snd (onboarding_user e s)))"
  shows "onboarding_cmd_ok c"
  using assms
  by (cases e) (auto simp: onboarding_inv_def handleSkip_def handleFinish_def handleCreateOrg_def handleCopy_def
      handleCreateTunnel_def split: if_splits)

interpretation onboarding: page_commands Onboarding onboarding_inv onboarding_cmd_ok
proof unfold_locales
  have "slugify [] = []" by (simp add: slugify_def trim_dashes_def to_lower_def)
  then show "pg_mount Onboarding = (s, cs, ks) \<Longrightarrow> onboarding_inv s ks" for s cs ks
    by (auto simp: onboarding_init_def onboarding_inv_def flags_def STEPS_def)
  show "onboarding_inv s ks \<Longrightarrow> e \<in> events (pg_view Onboarding s) \<Longrightarrow> pg_user Onboarding e s = (s', cs, new) \<Longrightarrow> onboarding_inv s' (ks @ new)"
    for s ks e s' cs new
    using onboarding_user_inv [of s ks e] onboarding_offered [of e s] by (simp add: onboarding_inv_def)
  show "onboarding_inv s (ks1 @ k # ks2) \<Longrightarrow> pg_resume Onboarding k r s = (s', cs, new) \<Longrightarrow> onboarding_inv s' (ks1 @ ks2 @ new)"
    for s ks1 k ks2 r s' cs new
    using onboarding_resume_inv [of s ks1 k ks2 r] by simp
  show "onboarding_inv s ks \<Longrightarrow> pg_env Onboarding s s' \<Longrightarrow> onboarding_inv s' ks" for s ks s' by simp
  show "pg_mount Onboarding = (s, cs, ks) \<Longrightarrow> c \<in> set cs \<Longrightarrow> onboarding_cmd_ok c" for s cs ks c by simp
  show "onboarding_inv s ks \<Longrightarrow> e \<in> events (pg_view Onboarding s) \<Longrightarrow> pg_user Onboarding e s = (s', cs, new) \<Longrightarrow> c \<in> set cs \<Longrightarrow> onboarding_cmd_ok c"
    for s ks e s' cs new c
    using onboarding_user_cmds [of s ks c e] by simp
  show "onboarding_inv s (ks1 @ k # ks2) \<Longrightarrow> pg_resume Onboarding k r s = (s', cs, new) \<Longrightarrow> c \<in> set cs \<Longrightarrow> onboarding_cmd_ok c"
    for s ks1 k ks2 r s' cs new c
    by (cases k; cases r) (auto simp: handleCreateTunnel_done_def split: if_splits)
qed

section \<open>Properties\<close>

text \<open>C15: the onboarding stays within its five steps, and its last step is reached only with a tunnel that the
  server has created, although the two requests it awaits may be answered at any step and in any order; neither
  of these two, which rename the organization and create the tunnel, is sent again while its answer is awaited. Skipping and
  finishing have no such flag.\<close>

theorem onboarding_steps_sound:
  assumes "page_reach Onboarding (s, ks, out)"
  shows "1 \<le> step s \<and> step s \<le> 5 \<and> (step s = 5 \<longrightarrow> createdTunnel s \<noteq> None) \<and>
    waiting (\<lambda>k. k = KOrg) ks = (if orgCreating s then 1 else 0) \<and>
    waiting (\<lambda>k. k = KTunnel) ks = (if tunnelCreating s then 1 else 0)"
  using onboarding.reachable [OF assms] by (auto simp: onboarding_inv_def flags_def STEPS_def)

text \<open>The organization is renamed only to a name that is not blank, with the slug of that name: at most 64
  characters, lower-case letters, digits and single dashes.\<close>

theorem onboarding_org_request:
  assumes "page_reach Onboarding (s, ks, out)" and "CallApi m ''/v1/org/'' b \<in> set out"
  shows "\<exists>v. trim v \<noteq> '''' \<and> b = json_body [(''name'', JStr (trim v)), (''slug'', JStr (slugify v))] \<and>
    length (slugify v) \<le> 64 \<and> list_all (\<lambda>c. slug_char c \<or> c = CHR ''-'') (slugify v) \<and> \<not> sublist ''--'' (slugify v)"
  using onboarding.commands [OF assms] slugify_shape by (auto simp: list_all_iff)

text \<open>Nobody is trapped: from every step the onboarding can be skipped, and whatever the server answers to
  the completion request - an error included - the dashboard is opened.\<close>

theorem onboarding_can_be_left:
  "Skip \<in> events (Onboarding_view s) \<and>
   onboarding_user Skip s = (s, [CallApi ''POST'' ''/v1/org/onboarding/complete'' JUndef], [KSkip]) \<and>
   fst (snd (onboarding_resume KSkip r s')) = [GoTo ''/''] \<and> hd (fst (snd (onboarding_resume (KFinish b) r s'))) = GoTo ''/''"
  by (simp add: Onboarding_view_def handleSkip_def)

text \<open>A session that goes through all the steps.\<close>

lemma onboarding_offers:
  "step s = 1 \<Longrightarrow> Next \<in> events (Onboarding_view s)" "step s = 3 \<Longrightarrow> Next \<in> events (Onboarding_view s)"
  "step s = 2 \<Longrightarrow> OrgName v \<in> events (Onboarding_view s)"
  "step s = 2 \<Longrightarrow> \<not> orgCreating s \<Longrightarrow> SubmitOrg \<in> events (Onboarding_view s)"
  "step s = 4 \<Longrightarrow> \<not> tunnelCreating s \<Longrightarrow> SubmitTunnel \<in> events (Onboarding_view s)"
  by (simp_all add: Onboarding_view_def onboarding_buttons_def onboarding_org_def onboarding_tunnel_def)

definition onboarding_session :: "(onboarding, onboarding_ev) act list" where
  "onboarding_session = [Do Next, Do (OrgName ''acme''), Do SubmitOrg, Answer 0 (Inr JUndef), Do Next, Do SubmitTunnel,
     Answer 0 (Inr (JObj [(''id'', JStr ''t1''), (''slug'', JStr ''web'')]))]"

lemma onboarding_session_reach:
  "\<exists>s out. page_reach Onboarding (s, [], out) \<and> step s = 5 \<and>
     CallApi ''PATCH'' ''/v1/org/'' (json_body [(''name'', JStr ''acme''), (''slug'', JStr (slugify ''acme''))]) \<in> set out"
proof -
  have t: "trim ''acme'' = ''acme''" by (simp add: trim_def is_ws_def)
  have "\<exists>s out. page_play Onboarding onboarding_session (onboarding_init, [], []) = Some (s, [], out) \<and> step s = 5 \<and>
     CallApi ''PATCH'' ''/v1/org/'' (json_body [(''name'', JStr ''acme''), (''slug'', JStr (slugify ''acme''))]) \<in> set out"
    using onboarding_offers t
    by (simp add: onboarding_session_def onboarding_init_def nextStep_def STEPS_def handleCreateOrg_def handleCreateOrg_done_def
        handleCreateTunnel_def handleCreateTunnel_done_def nullish_def)
  then show ?thesis using page_play_mount [OF Onboarding_sel(1)] by blast
qed

theorem onboarding_steps_sound_witness:
  "\<exists>s out. page_reach Onboarding (s, [], out) \<and> step s = 5 \<and> createdTunnel s \<noteq> None"
  using onboarding_session_reach onboarding_steps_sound by fast

theorem onboarding_org_request_witness:
  "length (slugify ''acme'') \<le> 64 \<and> list_all (\<lambda>c. slug_char c \<or> c = CHR ''-'') (slugify ''acme'')"
proof -
  obtain s out where "page_reach Onboarding (s, [], out)"
    and "CallApi ''PATCH'' ''/v1/org/'' (json_body [(''name'', JStr ''acme''), (''slug'', JStr (slugify ''acme''))]) \<in> set out"
    using onboarding_session_reach by blast
  from onboarding_org_request [OF this] show ?thesis by (auto simp: json_body_def)
qed

end
