(* ===== verification/PricingPage.thy ===== *)
theory PricingPage
  imports Hooks
begin

text \<open>
  The price list of the admin console (\<open>pages/PricingConfig.tsx\<close>): one plan at a time is edited in a copy, and saved
  together with the plans that are loaded and the annual discount of the slider. Numbers in the fields are whole; how a
  quotient prints and how it is sent are the arguments \<open>pc_text\<close> and \<open>pc_number\<close>.
\<close>

section \<open>State\<close>

record pricing_plan =
  pp_id :: string
  pp_name :: string
  pp_price_monthly_usd :: int
  pp_max_tunnels :: int
  pp_max_bandwidth_gb :: int
  pp_features :: "string list"

record pricing_data =
  pd_plans :: "pricing_plan list"
  pd_annual_discount :: "rat option"

record pricing_page =
  pricingQuery :: "pricing_data query"
  saveMutation :: mutation
  save_isSuccess :: bool
  editPlan :: "pricing_plan option"
  annualDiscount :: int
  editForm :: "pricing_plan option"

definition pricing_init :: pricing_page where
  "pricing_init = \<lparr>pricingQuery = q_pending, saveMutation = idle, save_isSuccess = False, editPlan = None, annualDiscount = 20, editForm = None\<rparr>"

record pricing_cfg =
  pc_text :: "rat \<Rightarrow> string"
  pc_number :: "rat \<Rightarrow> json"

datatype pricing_ev =
    SetDiscount int | EditPlan pricing_plan | CancelPlan | SavePlan | SetPlanPrice int | SetPlanTunnels int | SetPlanBandwidth int
  | SetFeature nat string | AddFeature | RemoveFeature nat | RetryPricing

datatype pricing_k = KSavePricing

section \<open>Handlers\<close>

abbreviation PRICING_KEY :: "string list" where
  "PRICING_KEY \<equiv> [''admin'', ''pricing'']"

abbreviation pricing_path :: string where
  "pricing_path \<equiv> ''/api/admin/v1/pricing''"

text \<open>\<open>Math.round(x * 100)\<close>: the nearest whole number, the larger of two.\<close>

definition discount_percent :: "pricing_data \<Rightarrow> int" where
  "discount_percent d = \<lfloor>(case pd_annual_discount d of None \<Rightarrow> 1 / 5 | Some x \<Rightarrow> x) * 100 + 1 / 2\<rfloor>"

text \<open>The effect that follows the data.\<close>

definition pricing_loaded :: "pricing_data query \<Rightarrow> pricing_page \<Rightarrow> pricing_page" where
  "pricing_loaded q s =
     (case q_data q of
        Some d \<Rightarrow> if q_data (pricingQuery s) \<noteq> Some d then s\<lparr>pricingQuery := q, annualDiscount := discount_percent d\<rparr> else s\<lparr>pricingQuery := q\<rparr>
      | None \<Rightarrow> s\<lparr>pricingQuery := q\<rparr>)"

definition handleEditPlan :: "pricing_plan \<Rightarrow> pricing_page \<Rightarrow> pricing_page" where
  "handleEditPlan p s = s\<lparr>editPlan := Some p, editForm := Some p\<rparr>"

definition handleCancelEdit :: "pricing_page \<Rightarrow> pricing_page" where
  "handleCancelEdit s = s\<lparr>editPlan := None, editForm := None\<rparr>"

definition plan_json :: "pricing_plan \<Rightarrow> json" where
  "plan_json p = json_body [(''id'', JStr (pp_id p)), (''name'', JStr (pp_name p)), (''price_monthly_usd'', JNum (pp_price_monthly_usd p)),
     (''max_tunnels'', JNum (pp_max_tunnels p)), (''max_bandwidth_gb'', JNum (pp_max_bandwidth_gb p)), (''features'', JArr (map JStr (pp_features p)))]"

definition merge_plan :: "pricing_plan \<Rightarrow> pricing_plan list \<Rightarrow> pricing_plan list" where
  "merge_plan f plans = map (\<lambda>p. if pp_id p = pp_id f then f else p) plans"

definition pricing_body :: "(rat \<Rightarrow> json) \<Rightarrow> pricing_plan list \<Rightarrow> int \<Rightarrow> json" where
  "pricing_body number plans percent = json_body [(''plans'', JArr (map plan_json plans)), (''annual_discount'', number (of_int percent / 100))]"

definition handleSavePlan :: "(rat \<Rightarrow> json) \<Rightarrow> pricing_page \<Rightarrow> (pricing_page, pricing_k) effect" where
  "handleSavePlan number s =
     (case (editForm s, q_data (pricingQuery s)) of
        (Some f, Some d) \<Rightarrow> (s\<lparr>saveMutation := mutate, save_isSuccess := False\<rparr>,
          [CallApi ''PUT'' pricing_path (pricing_body number (merge_plan f (pd_plans d)) (annualDiscount s))], [KSavePricing])
      | _ \<Rightarrow> (s, [], []))"

definition savePlan_done :: "result \<Rightarrow> pricing_page \<Rightarrow> (pricing_page, pricing_k) effect" where
  "savePlan_done r s =
     (case r of
        Inl err \<Rightarrow> (s\<lparr>saveMutation := settled r\<rparr>, [], [])
      | Inr v \<Rightarrow> (s\<lparr>saveMutation := settled r, save_isSuccess := True, editPlan := None, editForm := None\<rparr>, [Invalidate PRICING_KEY], []))"

text \<open>The index is that of a field that is shown (\<open>pricing_guard\<close>), so that the assignment never extends the list.\<close>

definition updateFeature :: "nat \<Rightarrow> string \<Rightarrow> pricing_plan \<Rightarrow> pricing_plan" where
  "updateFeature i v f = f\<lparr>pp_features := (pp_features f)[i := v]\<rparr>"

definition addFeature :: "pricing_plan \<Rightarrow> pricing_plan" where
  "addFeature f = f\<lparr>pp_features := pp_features f @ ['''']\<rparr>"

definition removeFeature :: "nat \<Rightarrow> pricing_plan \<Rightarrow> pricing_plan" where
  "removeFeature i f = f\<lparr>pp_features := take i (pp_features f) @ drop (Suc i) (pp_features f)\<rparr>"

abbreviation edit_plan :: "(pricing_plan \<Rightarrow> pricing_plan) \<Rightarrow> pricing_page \<Rightarrow> (pricing_page, pricing_k) effect" where
  "edit_plan g s \<equiv> (s\<lparr>editForm := map_option g (editForm s)\<rparr>, [], [])"

fun pricing_user :: "(rat \<Rightarrow> json) \<Rightarrow> pricing_ev \<Rightarrow> pricing_page \<Rightarrow> (pricing_page, pricing_k) effect" where
  "pricing_user number (SetDiscount n) s = (s\<lparr>annualDiscount := n\<rparr>, [], [])"
| "pricing_user number (EditPlan p) s = (handleEditPlan p s, [], [])"
| "pricing_user number CancelPlan s = (handleCancelEdit s, [], [])"
| "pricing_user number SavePlan s = handleSavePlan number s"
| "pricing_user number (SetPlanPrice n) s = edit_plan (\<lambda>f. f\<lparr>pp_price_monthly_usd := n\<rparr>) s"
| "pricing_user number (SetPlanTunnels n) s = edit_plan (\<lambda>f. f\<lparr>pp_max_tunnels := n\<rparr>) s"
| "pricing_user number (SetPlanBandwidth n) s = edit_plan (\<lambda>f. f\<lparr>pp_max_bandwidth_gb := n\<rparr>) s"
| "pricing_user number (SetFeature i v) s = edit_plan (updateFeature i v) s"
| "pricing_user number AddFeature s = edit_plan addFeature s"
| "pricing_user number (RemoveFeature i) s = edit_plan (removeFeature i) s"
| "pricing_user number RetryPricing s = (s, [Refetch PRICING_KEY], [])"

fun pricing_resume :: "pricing_k \<Rightarrow> result \<Rightarrow> pricing_page \<Rightarrow> (pricing_page, pricing_k) effect" where
  "pricing_resume KSavePricing r s = savePlan_done r s"

section \<open>View\<close>

text \<open>The slider offers its positions from 0 to 50.\<close>

definition discount_card :: "int \<Rightarrow> pricing_ev ui" where
  "discount_card n = Node ''Card''
     [Say (tr ''pricing.annualDiscount''), Node ''range'' (map (\<lambda>i. Listens (SetDiscount (int i)) []) [0..<51]),
      Say [Lit (int_string n @ ''%'')], Say (tr ''pricing.annualHint'')]"

definition feature_fields :: "string list \<Rightarrow> pricing_ev ui list" where
  "feature_fields fs = map (\<lambda>i. Node ''div'' [Field [] (fs ! i) False (SetFeature i), Button False (RemoveFeature i) []]) [0..<length fs]"

definition plan_editor :: "bool \<Rightarrow> pricing_plan \<Rightarrow> pricing_ev ui list" where
  "plan_editor busy f =
     [NumField (tr ''pricing.monthlyPrice'') (pp_price_monthly_usd f) SetPlanPrice, NumField (tr ''pricing.maxTunnels'') (pp_max_tunnels f) SetPlanTunnels,
      NumField (tr ''pricing.maxBandwidth'') (pp_max_bandwidth_gb f) SetPlanBandwidth,
      Node ''div'' (Say (tr ''pricing.features'') # feature_fields (pp_features f) @ [Button False AddFeature [Say (tr ''pricing.addFeature'')]]),
      Button busy SavePlan [Say (tr ''common.save'')], Button False CancelPlan [Say (tr ''common.cancel'')]]"

definition plan_summary :: "(rat \<Rightarrow> string) \<Rightarrow> pricing_plan \<Rightarrow> pricing_ev ui list" where
  "plan_summary num_text p =
     [Say (tr ''pricing.tunnels''), Say (if pp_max_tunnels p \<ge> 999999 then tr ''pricing.unlimited'' else [Lit (int_string (pp_max_tunnels p))]),
      Say (tr ''pricing.bandwidth''),
      Say [Lit (if pp_max_bandwidth_gb p \<ge> 5000 then num_text (of_int (pp_max_bandwidth_gb p) / 1024) @ '' TB''
        else int_string (pp_max_bandwidth_gb p) @ '' GB'')],
      only_if (pp_features p \<noteq> []) (Node ''div'' (Say (tr ''pricing.features'') # map (\<lambda>f. Node ''li'' [Say [Lit f]]) (pp_features p))),
      Button False (EditPlan p) [Say (tr ''common.edit'')]]"

definition pricing_card :: "(rat \<Rightarrow> string) \<Rightarrow> pricing_page \<Rightarrow> pricing_plan \<Rightarrow> pricing_ev ui" where
  "pricing_card num_text s p = Node ''Card''
     (Say [Lit (pp_name p)] #
      Node ''Badge'' [Say [Lit (if pp_id p = ''free'' then ''Free'' else ''$'' @ num_text (of_int (pp_price_monthly_usd p) / 100) @ ''/mo'')]] #
      (case (if map_option pp_id (editPlan s) = Some (pp_id p) then editForm s else None) of
         Some f \<Rightarrow> plan_editor (isPending (saveMutation s)) f
       | None \<Rightarrow> plan_summary num_text p))"

definition PricingConfig_view :: "(rat \<Rightarrow> string) \<Rightarrow> pricing_page \<Rightarrow> pricing_ev ui" where
  "PricingConfig_view num_text s = Node ''div''
     [Node ''h1'' [Say (tr ''pricing.title'')], Node ''p'' [Say (tr ''pricing.subtitle'')],
      only_if (save_isSuccess s) (Node ''Badge'' [Say (tr ''pricing.saved'')]), discount_card (annualDiscount s),
      (if q_isError (pricingQuery s) then failed_load ''pricing.failedToLoad'' [Button False RetryPricing [Say (tr ''common.retry'')]]
       else Node ''div'' (map (pricing_card num_text s) (case q_data (pricingQuery s) of None \<Rightarrow> [] | Some d \<Rightarrow> pd_plans d))),
      only_if (q_isLoading (pricingQuery s)) (Node ''div'' (replicate 4 (Node ''Card'' (replicate 5 (Node ''Skeleton'' [])))))]"

text \<open>\<open>D\<close> holds what the server may answer.\<close>

definition pricing_env :: "pricing_data set \<Rightarrow> pricing_page \<Rightarrow> pricing_page \<Rightarrow> bool" where
  "pricing_env D s s' \<longleftrightarrow> (\<exists>q. s' = pricing_loaded q s \<and> set_option (q_data q) \<subseteq> D)"

definition PricingConfig :: "pricing_cfg \<Rightarrow> pricing_data set \<Rightarrow> (pricing_page, pricing_ev, pricing_k) page" where
  "PricingConfig cfg D =
     \<lparr>pg_mount = (pricing_init, [CallApi ''GET'' pricing_path JUndef], []), pg_view = PricingConfig_view (pc_text cfg),
      pg_user = pricing_user (pc_number cfg), pg_resume = pricing_resume, pg_env = pricing_env D\<rparr>"

lemma PricingConfig_sel [simp]:
  "pg_mount (PricingConfig cfg D) = (pricing_init, [CallApi ''GET'' pricing_path JUndef], [])"
  "pg_view (PricingConfig cfg D) = PricingConfig_view (pc_text cfg)" "pg_user (PricingConfig cfg D) = pricing_user (pc_number cfg)"
  "pg_resume (PricingConfig cfg D) = pricing_resume" "pg_env (PricingConfig cfg D) = pricing_env D"
  by (simp_all add: PricingConfig_def)

section \<open>Invariant\<close>

text \<open>The copy that is edited is of the plan that is edited: no field changes its id.\<close>

definition pricing_inv :: "pricing_data set \<Rightarrow> pricing_page \<Rightarrow> pricing_k list \<Rightarrow> bool" where
  "pricing_inv D s ks \<longleftrightarrow>
     flags (isPending (saveMutation s)) (\<lambda>k. k = KSavePricing) ks \<and> set_option (q_data (pricingQuery s)) \<subseteq> D \<and>
     map_option pp_id (editForm s) = map_option pp_id (editPlan s)"

fun pricing_guard :: "pricing_page \<Rightarrow> pricing_ev \<Rightarrow> bool" where
  "pricing_guard s SavePlan = (\<not> isPending (saveMutation s))"
| "pricing_guard s (SetFeature i v) = (\<exists>f. editForm s = Some f \<and> i < length (pp_features f))"
| "pricing_guard s (RemoveFeature i) = (\<exists>f. editForm s = Some f \<and> i < length (pp_features f))"
| "pricing_guard s (SetDiscount n) = (0 \<le> n \<and> n \<le> 50)"
| "pricing_guard s _ = True"

fun pricing_cmd_ok :: "pricing_cfg \<Rightarrow> pricing_data set \<Rightarrow> cmd \<Rightarrow> bool" where
  "pricing_cmd_ok cfg D (CallApi m p b) =
     (p = pricing_path \<and> (m = ''PUT'' \<longrightarrow> (\<exists>d \<in> D. \<exists>f n. b = pricing_body (pc_number cfg) (merge_plan f (pd_plans d)) n)))"
| "pricing_cmd_ok cfg D _ = True"

lemma plan_editor_events:
  "u \<in> set (plan_editor busy f) \<Longrightarrow> e \<in> events u \<Longrightarrow>
   e \<in> range SetPlanPrice \<union> range SetPlanTunnels \<union> range SetPlanBandwidth \<union> {AddFeature, CancelPlan} \<or> e = SavePlan \<and> \<not> busy \<or>
   (\<exists>i < length (pp_features f). e = RemoveFeature i \<or> e \<in> range (SetFeature i))"
  by (auto simp: plan_editor_def feature_fields_def split: if_splits)

lemma pricing_card_guarded:
  assumes "e \<in> events (pricing_card tx s p)"
  shows "pricing_guard s e"
proof (cases "if map_option pp_id (editPlan s) = Some (pp_id p) then editForm s else None")
  case None
  with assms show ?thesis by (auto simp: pricing_card_def plan_summary_def split: if_splits)
next
  case (Some f)
  with assms obtain u where "u \<in> set (plan_editor (isPending (saveMutation s)) f)" "e \<in> events u" by (auto simp: pricing_card_def)
  with Some show ?thesis by (auto dest!: plan_editor_events split: if_splits)
qed

lemma pricing_offered: "e \<in> events (PricingConfig_view tx s) \<Longrightarrow> pricing_guard s e"
  by (auto simp: PricingConfig_view_def discount_card_def dest: pricing_card_guarded split: if_splits)

lemma same_plan_id [simp]: "pp_id (updateFeature i v f) = pp_id f" "pp_id (addFeature f) = pp_id f" "pp_id (removeFeature i f) = pp_id f"
  by (simp_all add: updateFeature_def addFeature_def removeFeature_def)

lemmas pricing_handlers = handleEditPlan_def handleCancelEdit_def handleSavePlan_def savePlan_done_def

lemma pricing_user_inv:
  assumes "pricing_inv D s ks" and "pricing_guard s e"
  shows "pricing_inv D (fst (pricing_user (pc_number cfg) e s)) (ks @ snd (snd (pricing_user (pc_number cfg) e s)))"
    and "list_all (pricing_cmd_ok cfg D) (fst (snd (pricing_user (pc_number cfg) e s)))"
proof -
  show "pricing_inv D (fst (pricing_user (pc_number cfg) e s)) (ks @ snd (snd (pricing_user (pc_number cfg) e s)))"
    using assms by (cases e) (auto simp: pricing_inv_def flags_def pricing_handlers option.map_comp comp_def split: option.splits)
  show "list_all (pricing_cmd_ok cfg D) (fst (snd (pricing_user (pc_number cfg) e s)))"
    using assms(1) by (cases e) (auto simp: pricing_inv_def pricing_handlers split: option.splits)
qed

lemma pricing_resume_inv:
  assumes "pricing_inv D s (ks1 @ k # ks2)"
  shows "pricing_inv D (fst (pricing_resume k r s)) (ks1 @ ks2 @ snd (snd (pricing_resume k r s)))"
    and "list_all (pricing_cmd_ok cfg D) (fst (snd (pricing_resume k r s)))"
  using assms by (cases k; cases r; auto simp: pricing_inv_def flags_def pricing_handlers split: if_splits)+

lemma pricing_mounted: "pricing_inv D pricing_init []"
  by (simp add: pricing_inv_def pricing_init_def flags_def)

lemma pricing_changed: "pricing_inv D s ks \<Longrightarrow> pricing_env D s s' \<Longrightarrow> pricing_inv D s' ks"
  by (auto simp: pricing_inv_def pricing_env_def pricing_loaded_def split: option.splits if_splits)

interpretation pricing: page_guarded "PricingConfig cfg D" "pricing_inv D" pricing_guard "pricing_cmd_ok cfg D" for cfg D
  by unfold_locales (simp_all add: pricing_mounted pricing_user_inv pricing_resume_inv pricing_changed, erule pricing_offered)

section \<open>Properties\<close>

lemma nth_merge: "i < length plans \<Longrightarrow> merge_plan f plans ! i = (if pp_id (plans ! i) = pp_id f then f else plans ! i)"
  by (simp add: merge_plan_def)

lemma merge_ids: "map pp_id (merge_plan f plans) = map pp_id plans"
  by (simp add: merge_plan_def)

text \<open>C33: saving a plan leaves the others as they are. Every price list the page sends has the plans of a list the server has
  sent, by the same ids in the same order, and all of them unchanged but those of one id; and one is sent at a time.\<close>

theorem other_plans_kept:
  assumes "page_reach (PricingConfig cfg D) (s, ks, out)" and "CallApi ''PUT'' p b \<in> set out"
  shows "(\<exists>d \<in> D. \<exists>plans n x. b = pricing_body (pc_number cfg) plans n \<and> map pp_id plans = map pp_id (pd_plans d) \<and>
      list_all2 (\<lambda>new old. new = old \<or> pp_id old = x) plans (pd_plans d)) \<and>
    waiting (\<lambda>k. k = KSavePricing) ks = (if isPending (saveMutation s) then 1 else 0)"
proof -
  from pricing.commands [OF assms] obtain d f n where d: "d \<in> D" "b = pricing_body (pc_number cfg) (merge_plan f (pd_plans d)) n" by auto
  have "list_all2 (\<lambda>new old. new = old \<or> pp_id old = pp_id f) (merge_plan f (pd_plans d)) (pd_plans d)"
    by (simp add: merge_plan_def list_all2_conv_all_nth)
  with d merge_ids pricing.reachable [OF assms(1)] show ?thesis by (fastforce simp: pricing_inv_def flags_def)
qed

lemma pricing_events:
  assumes "\<not> q_isError (pricingQuery s)" "q_data (pricingQuery s) = Some d" "p \<in> set (pd_plans d)"
  shows "map_option pp_id (editPlan s) \<noteq> Some (pp_id p) \<Longrightarrow> EditPlan p \<in> events (PricingConfig_view tx s)"
    and "map_option pp_id (editPlan s) = Some (pp_id p) \<Longrightarrow> editForm s = Some f \<Longrightarrow>
      {CancelPlan, SetPlanPrice n} \<subseteq> events (PricingConfig_view tx s) \<and> (\<not> isPending (saveMutation s) \<longrightarrow> SavePlan \<in> events (PricingConfig_view tx s))"
proof -
  have c: "e \<in> events (pricing_card tx s p) \<Longrightarrow> e \<in> events (PricingConfig_view tx s)" for e
    using assms by (auto simp: PricingConfig_view_def)
  show "map_option pp_id (editPlan s) \<noteq> Some (pp_id p) \<Longrightarrow> EditPlan p \<in> events (PricingConfig_view tx s)"
    by (rule c) (auto simp: pricing_card_def plan_summary_def)
  show "map_option pp_id (editPlan s) = Some (pp_id p) \<Longrightarrow> editForm s = Some f \<Longrightarrow>
      {CancelPlan, SetPlanPrice n} \<subseteq> events (PricingConfig_view tx s) \<and> (\<not> isPending (saveMutation s) \<longrightarrow> SavePlan \<in> events (PricingConfig_view tx s))"
    by (auto intro!: c simp: pricing_card_def plan_editor_def)
qed

definition sample_plan :: "string \<Rightarrow> pricing_plan" where
  "sample_plan i = \<lparr>pp_id = i, pp_name = i, pp_price_monthly_usd = 900, pp_max_tunnels = 10, pp_max_bandwidth_gb = 100, pp_features = []\<rparr>"

definition sample_pricing :: pricing_data where
  "sample_pricing = \<lparr>pd_plans = [sample_plan ''pro'', sample_plan ''team''], pd_annual_discount = None\<rparr>"

text \<open>A save closes the editor of another plan. While it is in flight the first plan can be left and a second opened; the
  answer then drops what was entered for the second.\<close>

theorem late_save_closes_plan:
  "\<exists>s out s' out'. page_reach (PricingConfig cfg {sample_pricing}) (s, [KSavePricing], out) \<and>
    editForm s = Some ((sample_plan ''team'')\<lparr>pp_price_monthly_usd := n\<rparr>) \<and>
    page_step (PricingConfig cfg {sample_pricing}) (s, [KSavePricing], out) (s', [], out') \<and> editForm s' = None"
proof -
  let ?load = "pricing_loaded (q_success sample_pricing)"
  have env: "pricing_env {sample_pricing} s (?load s)" for s
    unfolding pricing_env_def by (intro exI conjI, rule refl) simp
  have l: "q_data (pricingQuery (?load s)) = Some sample_pricing" "\<not> q_isError (pricingQuery (?load s))"
    "editPlan (?load s) = editPlan s" "saveMutation (?load s) = saveMutation s" for s
    by (simp_all add: pricing_loaded_def)
  have p: "sample_plan ''pro'' \<in> set (pd_plans sample_pricing)" "sample_plan ''team'' \<in> set (pd_plans sample_pricing)"
    "pp_id (sample_plan i) = i" for i
    by (simp_all add: sample_pricing_def sample_plan_def)
  note ev = pricing_events [where d = sample_pricing and p = "sample_plan ''pro''" and tx = "pc_text cfg"]
    pricing_events [where d = sample_pricing and p = "sample_plan ''team''" and tx = "pc_text cfg"]
  have i: "editPlan pricing_init = None" "saveMutation pricing_init = idle" by (simp_all add: pricing_init_def)
  have "\<exists>s out. page_play (PricingConfig cfg {sample_pricing})
      [Change ?load, Do (EditPlan (sample_plan ''pro'')), Do SavePlan, Do (EditPlan (sample_plan ''team'')), Do (SetPlanPrice n)]
      (pricing_init, [], [CallApi ''GET'' pricing_path JUndef]) = Some (s, [KSavePricing], out) \<and>
      editForm s = Some ((sample_plan ''team'')\<lparr>pp_price_monthly_usd := n\<rparr>)"
    using ev env by (simp add: l p i pricing_handlers)
  then obtain s out where r: "page_reach (PricingConfig cfg {sample_pricing}) (s, [KSavePricing], out)"
    "editForm s = Some ((sample_plan ''team'')\<lparr>pp_price_monthly_usd := n\<rparr>)"
    using page_play_mount [OF PricingConfig_sel(1)] by blast
  obtain s' where s: "pg_resume (PricingConfig cfg {sample_pricing}) KSavePricing (Inr JUndef) s = (s', [Invalidate PRICING_KEY], [])" "editForm s' = None"
    by (simp add: pricing_handlers)
  from step_resume [OF s(1), of "[]" "[]" out] r s(2) show ?thesis
    by (intro exI [of _ s] exI [of _ out] exI [of _ s'] exI) auto
qed

theorem other_plans_kept_witness:
  "\<exists>s ks out b plans n. page_reach (PricingConfig \<lparr>pc_text = (\<lambda>_. ''''), pc_number = (\<lambda>_. JNum 0)\<rparr> {sample_pricing}) (s, ks, out) \<and>
     CallApi ''PUT'' pricing_path b \<in> set out \<and> b = pricing_body (\<lambda>_. JNum 0) plans n \<and> map pp_id plans = [''pro'', ''team'']"
proof -
  let ?cfg = "\<lparr>pc_text = (\<lambda>_. ''''), pc_number = (\<lambda>_. JNum 0)\<rparr>" and ?load = "pricing_loaded (q_success sample_pricing)"
  have env: "pricing_env {sample_pricing} s (?load s)" for s
    unfolding pricing_env_def by (intro exI conjI, rule refl) simp
  have l: "q_data (pricingQuery (?load s)) = Some sample_pricing" "\<not> q_isError (pricingQuery (?load s))"
    "editPlan (?load s) = editPlan s" "saveMutation (?load s) = saveMutation s" for s
    by (simp_all add: pricing_loaded_def)
  have p: "sample_plan ''pro'' \<in> set (pd_plans sample_pricing)" "pp_id (sample_plan i) = i" for i
    by (simp_all add: sample_pricing_def sample_plan_def)
  have i: "editPlan pricing_init = None" "saveMutation pricing_init = idle" by (simp_all add: pricing_init_def)
  have "\<exists>s ks out b. page_play (PricingConfig ?cfg {sample_pricing}) [Change ?load, Do (EditPlan (sample_plan ''pro'')), Do SavePlan]
      (pricing_init, [], [CallApi ''GET'' pricing_path JUndef]) = Some (s, ks, out) \<and> CallApi ''PUT'' pricing_path b \<in> set out"
    using pricing_events [where d = sample_pricing and p = "sample_plan ''pro''"] env by (simp add: l p i pricing_handlers)
  then obtain s ks out b where r: "page_reach (PricingConfig ?cfg {sample_pricing}) (s, ks, out)" "CallApi ''PUT'' pricing_path b \<in> set out"
    using page_play_mount [OF PricingConfig_sel(1)] by blast
  from other_plans_kept [OF r] obtain plans n where "b = pricing_body (\<lambda>_. JNum 0) plans n" "map pp_id plans = map pp_id (pd_plans sample_pricing)"
    by auto
  moreover have "map pp_id (pd_plans sample_pricing) = [''pro'', ''team'']" by (simp add: sample_pricing_def sample_plan_def)
  ultimately show ?thesis
    using r by (intro exI [of _ s] exI [of _ ks] exI [of _ out] exI [of _ b] exI [of _ plans] exI [of _ n] conjI) simp_all
qed

end
