(* ===== verification/RetentionPage.thy ===== *)
theory RetentionPage
  imports Hooks "HOL-Library.AList"
begin

text \<open>
  The data retention of the admin console (\<open>pages/DataRetention.tsx\<close>). The page copies the server's settings into its
  state while it renders, when it has none of its own; React renders again after such a change, and throws when there
  are more than twenty-five in a row.
\<close>

section \<open>State\<close>

record usage_item =
  ui_count :: nat
  ui_size_bytes :: nat

text \<open>The settings are an object, in the order of its keys.\<close>

record retention_data =
  rd_settings :: "(string \<times> string) list"
  rd_usage :: "(string \<times> usage_item) list"
  rd_plan_limits :: "(string \<times> string) list"
  rd_last_cleanup :: string

record retention_page =
  retentionQuery :: "retention_data query"
  rt_updateMutation :: mutation
  cleanupMutation :: mutation
  cleanup_data :: json
  rt_settings :: "(string \<times> string) list"

definition retention_init :: retention_page where
  "retention_init = \<lparr>retentionQuery = q_pending, rt_updateMutation = idle, cleanupMutation = idle, cleanup_data = JUndef, rt_settings = []\<rparr>"

definition retentionOptions :: "(string \<times> string) list" where
  "retentionOptions = [(''30d'', ''30 Days''), (''90d'', ''90 Days''), (''1y'', ''1 Year''), (''3y'', ''3 Years'')]"

definition data_types :: "(string \<times> string \<times> string) list" where
  "data_types =
     [(''audit_logs'', ''dataRetention.auditLogs'', ''dataRetention.auditLogsDesc''),
      (''traffic_events'', ''dataRetention.trafficEvents'', ''dataRetention.trafficEventsDesc''),
      (''user_sessions'', ''dataRetention.userSessions'', ''dataRetention.userSessionsDesc'')]"

section \<open>Rendering\<close>

text \<open>One pass: the state the pass sets, where it sets one.\<close>

definition render_pass :: "retention_page \<Rightarrow> retention_page option" where
  "render_pass s =
     (case q_data (retentionQuery s) of
        Some d \<Rightarrow> if \<not> q_isLoading (retentionQuery s) \<and> rt_settings s = [] then Some (s\<lparr>rt_settings := rd_settings d\<rparr>) else None
      | None \<Rightarrow> None)"

fun render_retention :: "nat \<Rightarrow> retention_page \<Rightarrow> retention_page option" where
  "render_retention n s =
     (case render_pass s of
        None \<Rightarrow> Some s
      | Some s' \<Rightarrow> (case n of 0 \<Rightarrow> None | Suc m \<Rightarrow> render_retention m s'))"

declare render_retention.simps [simp del]

definition re_render_limit :: nat where
  "re_render_limit = 25"

definition blank_settings :: "retention_page \<Rightarrow> bool" where
  "blank_settings s \<longleftrightarrow>
     \<not> q_isLoading (retentionQuery s) \<and> rt_settings s = [] \<and> (\<exists>d. q_data (retentionQuery s) = Some d \<and> rd_settings d = [])"

definition adjusted :: "retention_page \<Rightarrow> retention_page" where
  "adjusted s = (case render_pass s of None \<Rightarrow> s | Some s' \<Rightarrow> s')"

lemma render_blank: "blank_settings s \<Longrightarrow> render_retention n s = None"
proof (induction n)
  case 0
  then show ?case by (auto simp: render_retention.simps [of 0] render_pass_def blank_settings_def)
next
  case (Suc n)
  from Suc.prems have "render_pass s = Some s" by (auto simp: render_pass_def blank_settings_def)
  with Suc show ?case by (simp add: render_retention.simps [of "Suc n"])
qed

lemma render_settles:
  assumes "\<not> blank_settings s"
  shows "render_retention (Suc n) s = Some (adjusted s)" "render_pass (adjusted s) = None"
proof -
  show a: "render_pass (adjusted s) = None"
    using assms by (auto simp: adjusted_def render_pass_def blank_settings_def split: option.splits if_splits)
  show "render_retention (Suc n) s = Some (adjusted s)"
    using a by (auto simp: render_retention.simps [of "Suc n"] render_retention.simps [of n] adjusted_def split: option.splits)
qed

section \<open>Handlers\<close>

datatype retention_ev = SelectRetention string string | SaveRetention string | TriggerCleanup | RetryRetention

datatype retention_k = KUpdateRetention | KCleanup

abbreviation RETENTION_KEY :: "string list" where
  "RETENTION_KEY \<equiv> [''admin'', ''retention'']"

abbreviation retention_path :: string where
  "retention_path \<equiv> ''/api/admin/v1/retention''"

text \<open>\<open>settings[key]\<close>.\<close>

definition setting :: "(string \<times> string) list \<Rightarrow> string \<Rightarrow> json" where
  "setting ss k = (case map_of ss k of None \<Rightarrow> JUndef | Some v \<Rightarrow> JStr v)"

definition handleSelectChange :: "string \<Rightarrow> string \<Rightarrow> retention_page \<Rightarrow> retention_page" where
  "handleSelectChange k v s = s\<lparr>rt_settings := AList.update k v (rt_settings s)\<rparr>"

definition handleSaveRetention :: "string \<Rightarrow> retention_page \<Rightarrow> (retention_page, retention_k) effect" where
  "handleSaveRetention k s =
     (s\<lparr>rt_updateMutation := mutate\<rparr>, [CallApi ''PUT'' retention_path (json_body [(k, setting (rt_settings s) k)])], [KUpdateRetention])"

fun retention_user :: "retention_ev \<Rightarrow> retention_page \<Rightarrow> (retention_page, retention_k) effect" where
  "retention_user (SelectRetention k v) s = (handleSelectChange k v s, [], [])"
| "retention_user (SaveRetention k) s = handleSaveRetention k s"
| "retention_user TriggerCleanup s =
     (s\<lparr>cleanupMutation := mutate, cleanup_data := JUndef\<rparr>, [CallApi ''POST'' (retention_path @ ''/cleanup'') JUndef], [KCleanup])"
| "retention_user RetryRetention s = (s, [Refetch RETENTION_KEY], [])"

definition retention_refresh :: "result \<Rightarrow> cmd list" where
  "retention_refresh r = (case r of Inl err \<Rightarrow> [] | Inr v \<Rightarrow> [Invalidate RETENTION_KEY])"

fun retention_resume :: "retention_k \<Rightarrow> result \<Rightarrow> retention_page \<Rightarrow> (retention_page, retention_k) effect" where
  "retention_resume KUpdateRetention r s = (s\<lparr>rt_updateMutation := settled r\<rparr>, retention_refresh r, [])"
| "retention_resume KCleanup r s =
     (s\<lparr>cleanupMutation := settled r, cleanup_data := (case r of Inl err \<Rightarrow> JUndef | Inr v \<Rightarrow> v)\<rparr>, retention_refresh r, [])"

section \<open>View\<close>

definition retention_formatBytes :: "nat \<Rightarrow> string" where
  "retention_formatBytes bytes =
     (if bytes < 1024 then nat_string bytes @ '' B''
      else if bytes < 1048576 then toFixed1 bytes 1024 @ '' KB''
      else if bytes < 1073741824 then toFixed1 bytes 1048576 @ '' MB''
      else toFixed1 bytes 1073741824 @ '' GB'')"

definition usage_panel :: "(nat \<Rightarrow> string) \<Rightarrow> usage_item option \<Rightarrow> 'e ui" where
  "usage_panel toLocaleString u =
     (case u of
        None \<Rightarrow> Null
      | Some it \<Rightarrow> Node ''div''
          [Say (tr ''dataRetention.currentRecords''), Say [Lit (toLocaleString (ui_count it))],
           Say (tr ''dataRetention.storageUsed''), Say [Lit (retention_formatBytes (ui_size_bytes it))]])"

definition loaded_setting :: "retention_page \<Rightarrow> string \<Rightarrow> json" where
  "loaded_setting s k = (case q_data (retentionQuery s) of None \<Rightarrow> JUndef | Some d \<Rightarrow> setting (rd_settings d) k)"

definition retention_card :: "(nat \<Rightarrow> string) \<Rightarrow> retention_page \<Rightarrow> string \<times> string \<times> string \<Rightarrow> retention_ev ui" where
  "retention_card toLocaleString s dt =
     (case dt of (key, lbl, descr) \<Rightarrow> Node ''Card''
       [Node ''CardTitle'' [Say (tr lbl)], Node ''p'' [Say (tr descr)],
        usage_panel toLocaleString (Option.bind (q_data (retentionQuery s)) (\<lambda>d. map_of (rd_usage d) key)),
        Say (tr ''dataRetention.retentionPeriod''),
        Select (case map_of (rt_settings s) key of None \<Rightarrow> '''' | Some v \<Rightarrow> v) (map (\<lambda>(v, l). (v, [Lit l])) retentionOptions) (SelectRetention key),
        Button (isPending (rt_updateMutation s) \<or> setting (rt_settings s) key = loaded_setting s key) (SaveRetention key)
          [Say (tr ''common.save'')]])"

record retention_cfg =
  rc_count :: "nat \<Rightarrow> string"
  rc_time :: "string \<Rightarrow> string"
  rc_json :: "json \<Rightarrow> string"

definition retention_cards :: "retention_cfg \<Rightarrow> retention_page \<Rightarrow> retention_ev ui list" where
  "retention_cards cfg s =
     [Node ''Card'' (Say (tr ''dataRetention.planLimits'') #
        (case q_data (retentionQuery s) of
           None \<Rightarrow> []
         | Some d \<Rightarrow> map (\<lambda>(plan, limit). Node ''div'' [Node ''Badge'' [Say [Lit plan]], Say [Tr ''dataRetention.max'' [(''limit'', JStr limit)]]])
             (rd_plan_limits d)))] @
     map (retention_card (rc_count cfg) s) data_types @
     [(case q_data (retentionQuery s) of
         None \<Rightarrow> Null
       | Some d \<Rightarrow> only_if (rd_last_cleanup d \<noteq> '''')
           (Say [Tr ''dataRetention.lastCleanup'' [(''date'', JStr (rc_time cfg (rd_last_cleanup d)))]])),
      only_if (truthy (cleanup_data s)) (Node ''Card'' [Say (tr ''dataRetention.cleanupSuccess''), Node ''pre'' [Say [Lit (rc_json cfg (cleanup_data s))]]])]"

definition DataRetention_view :: "retention_cfg \<Rightarrow> retention_page \<Rightarrow> retention_ev ui" where
  "DataRetention_view cfg s = Node ''div''
     ([Node ''h1'' [Say (tr ''dataRetention.title'')], Node ''p'' [Say (tr ''dataRetention.subtitle'')],
       Button (isPending (cleanupMutation s)) TriggerCleanup
         [Say (tr (if isPending (cleanupMutation s) then ''dataRetention.running'' else ''dataRetention.triggerCleanup''))]] @
      (if q_isLoading (retentionQuery s) then replicate 3 (Node ''Skeleton'' [])
       else if q_isError (retentionQuery s) then [failed_load ''dataRetention.failedToLoad'' [Button False RetryRetention [Say (tr ''common.retry'')]]]
       else retention_cards cfg s))"

text \<open>New data is rendered before anything else happens.\<close>

definition retention_env :: "retention_page \<Rightarrow> retention_page \<Rightarrow> bool" where
  "retention_env s s' \<longleftrightarrow> (\<exists>q. render_retention re_render_limit (s\<lparr>retentionQuery := q\<rparr>) = Some s')"

definition DataRetention :: "retention_cfg \<Rightarrow> (retention_page, retention_ev, retention_k) page" where
  "DataRetention cfg =
     \<lparr>pg_mount = (retention_init, [CallApi ''GET'' retention_path JUndef], []), pg_view = DataRetention_view cfg, pg_user = retention_user,
      pg_resume = retention_resume, pg_env = retention_env\<rparr>"

lemma DataRetention_sel [simp]:
  "pg_mount (DataRetention cfg) = (retention_init, [CallApi ''GET'' retention_path JUndef], [])" "pg_view (DataRetention cfg) = DataRetention_view cfg"
  "pg_user (DataRetention cfg) = retention_user" "pg_resume (DataRetention cfg) = retention_resume" "pg_env (DataRetention cfg) = retention_env"
  by (simp_all add: DataRetention_def)

section \<open>Invariant\<close>

definition retention_inv :: "retention_page \<Rightarrow> retention_k list \<Rightarrow> bool" where
  "retention_inv s ks \<longleftrightarrow>
     flags (isPending (rt_updateMutation s)) (\<lambda>k. k = KUpdateRetention) ks \<and> flags (isPending (cleanupMutation s)) (\<lambda>k. k = KCleanup) ks \<and>
     render_pass s = None"

fun retention_guard :: "retention_page \<Rightarrow> retention_ev \<Rightarrow> bool" where
  "retention_guard s (SaveRetention k) = (\<not> isPending (rt_updateMutation s) \<and> k \<in> fst ` set data_types \<and> setting (rt_settings s) k \<noteq> loaded_setting s k)"
| "retention_guard s (SelectRetention k v) = (k \<in> fst ` set data_types \<and> v \<in> fst ` set retentionOptions)"
| "retention_guard s TriggerCleanup = (\<not> isPending (cleanupMutation s))"
| "retention_guard s RetryRetention = True"

fun retention_cmd_ok :: "cmd \<Rightarrow> bool" where
  "retention_cmd_ok (CallApi m p b) =
     (if m = ''PUT'' then p = retention_path \<and> (\<exists>k \<in> fst ` set data_types. \<exists>v. b = json_body [(k, v)])
      else b = JUndef \<and> (m = ''GET'' \<and> p = retention_path \<or> m = ''POST'' \<and> p = retention_path @ ''/cleanup''))"
| "retention_cmd_ok _ = True"

lemma retention_card_guarded: "e \<in> events (retention_card fmt s dt) \<Longrightarrow> dt \<in> set data_types \<Longrightarrow> retention_guard s e"
  by (cases dt) (auto simp: retention_card_def usage_panel_def rev_image_eqI split: if_splits option.splits)

lemma retention_offered: "e \<in> events (DataRetention_view cfg s) \<Longrightarrow> retention_guard s e"
  by (auto simp: DataRetention_view_def retention_cards_def dest: retention_card_guarded split: if_splits option.splits)

lemma retention_user_inv:
  assumes "retention_inv s ks" and "retention_guard s e"
  shows "retention_inv (fst (retention_user e s)) (ks @ snd (snd (retention_user e s)))"
    and "list_all retention_cmd_ok (fst (snd (retention_user e s)))"
proof -
  have "AList.update k v ss \<noteq> []" for k v and ss :: "(string \<times> string) list" by (cases ss) auto
  with assms show "retention_inv (fst (retention_user e s)) (ks @ snd (snd (retention_user e s)))"
    by (cases e) (auto simp: retention_inv_def flags_def handleSelectChange_def handleSaveRetention_def render_pass_def split: option.splits)
  show "list_all retention_cmd_ok (fst (snd (retention_user e s)))"
    using assms(2) by (cases e) (auto simp: handleSaveRetention_def rev_image_eqI)
qed

lemma retention_resume_inv:
  assumes "retention_inv s (ks1 @ k # ks2)"
  shows "retention_inv (fst (retention_resume k r s)) (ks1 @ ks2 @ snd (snd (retention_resume k r s)))"
    and "list_all retention_cmd_ok (fst (snd (retention_resume k r s)))"
  using assms
  by (cases k; cases r; auto simp: retention_inv_def flags_def retention_refresh_def render_pass_def split: if_splits option.splits)+

lemma retention_mounted: "retention_inv retention_init []"
  by (simp add: retention_inv_def retention_init_def flags_def render_pass_def)

lemma retention_changed:
  assumes "retention_inv s ks" and "retention_env s s'"
  shows "retention_inv s' ks"
proof -
  obtain q where q: "render_retention re_render_limit (s\<lparr>retentionQuery := q\<rparr>) = Some s'" using assms(2) by (auto simp: retention_env_def)
  then have n: "\<not> blank_settings (s\<lparr>retentionQuery := q\<rparr>)" using render_blank by force
  then have "s' = adjusted (s\<lparr>retentionQuery := q\<rparr>)" using q render_settles(1) [OF n, of 24] by (simp add: re_render_limit_def)
  with render_settles(2) [OF n] assms(1) show ?thesis
    by (auto simp: retention_inv_def adjusted_def render_pass_def split: option.splits)
qed

interpretation retention: page_guarded "DataRetention cfg" retention_inv retention_guard retention_cmd_ok for cfg
  by unfold_locales (simp_all add: retention_mounted retention_user_inv retention_resume_inv, erule retention_offered, erule (1) retention_changed)

lemma retention_single_flight:
  "single_flight (DataRetention cfg)
     [(\<lambda>s. isPending (rt_updateMutation s), \<lambda>k. k = KUpdateRetention), (\<lambda>s. isPending (cleanupMutation s), \<lambda>k. k = KCleanup)]"
  by (rule retention.single_flightI) (simp add: retention_inv_def)

section \<open>Properties\<close>

text \<open>C35: when the page renders at all. Rendering ends within React's limit, and with the state that is then shown, unless the
  server's answer has no settings while the page has none of its own: then every pass sets the same state again, no number
  of passes is enough, and the page is lost to the error React throws.\<close>

theorem rendering_settles:
  "render_retention re_render_limit s = (if blank_settings s then None else Some (adjusted s)) \<and>
   ((\<exists>n. render_retention n s \<noteq> None) \<longleftrightarrow> \<not> blank_settings s) \<and> (blank_settings s \<or> render_pass (adjusted s) = None)"
  using render_blank [of s] render_settles [of s] by (auto simp: re_render_limit_def eval_nat_numeral)

definition load_settings :: "(string \<times> string) list \<Rightarrow> retention_page \<Rightarrow> retention_page" where
  "load_settings ss s = adjusted (s\<lparr>retentionQuery := q_success \<lparr>rd_settings = ss, rd_usage = [], rd_plan_limits = [], rd_last_cleanup = ''''\<rparr>\<rparr>)"

lemma load_settings_env:
  assumes "ss \<noteq> []"
  shows "retention_env s (load_settings ss s)"
proof -
  let ?t = "s\<lparr>retentionQuery := q_success \<lparr>rd_settings = ss, rd_usage = [], rd_plan_limits = [], rd_last_cleanup = ''''\<rparr>\<rparr>"
  have "\<not> blank_settings ?t" using assms by (simp add: blank_settings_def)
  from render_settles(1) [OF this, of 24] show ?thesis
    unfolding retention_env_def load_settings_def by (intro exI) (simp add: re_render_limit_def)
qed

lemma load_settings_sel:
  "rt_settings (load_settings ss s) = (if rt_settings s = [] then ss else rt_settings s)"
  "loaded_setting (load_settings ss s) k = setting ss k" "rt_updateMutation (load_settings ss s) = rt_updateMutation s"
  "\<not> q_isLoading (retentionQuery (load_settings ss s))" "\<not> q_isError (retentionQuery (load_settings ss s))"
  by (auto simp: load_settings_def adjusted_def render_pass_def loaded_setting_def)

lemma save_offered:
  assumes "\<not> q_isLoading (retentionQuery s)" "\<not> q_isError (retentionQuery s)" "\<not> isPending (rt_updateMutation s)"
    and "setting (rt_settings s) ''audit_logs'' \<noteq> loaded_setting s ''audit_logs''"
  shows "SaveRetention ''audit_logs'' \<in> events (DataRetention_view cfg s)"
proof -
  have "SaveRetention ''audit_logs'' \<in> events (retention_card fmt s (''audit_logs'', l, d))" for fmt l d
    using assms(3,4) by (simp add: retention_card_def)
  then show ?thesis using assms(1,2) by (auto simp: DataRetention_view_def retention_cards_def data_types_def)
qed

text \<open>The page sends back what somebody else has changed. It takes over the settings once; when the server's setting is
  changed elsewhere afterwards, the button for saving is enabled though nothing was chosen on the page, and sends the old
  value.\<close>

theorem stale_setting_sent:
  assumes "x \<noteq> y"
  shows "\<exists>s. page_play (DataRetention cfg)
      [Change (load_settings [(''audit_logs'', x)]), Change (load_settings [(''audit_logs'', y)]), Do (SaveRetention ''audit_logs'')]
      (retention_init, [], [CallApi ''GET'' retention_path JUndef]) =
      Some (s, [KUpdateRetention], [CallApi ''GET'' retention_path JUndef, CallApi ''PUT'' retention_path (JObj [(''audit_logs'', JStr x)])]) \<and>
    loaded_setting s ''audit_logs'' = JStr y"
proof -
  let ?s = "load_settings [(''audit_logs'', y)] (load_settings [(''audit_logs'', x)] retention_init)"
  have s: "rt_settings ?s = [(''audit_logs'', x)]" "loaded_setting ?s ''audit_logs'' = JStr y" "\<not> isPending (rt_updateMutation ?s)"
    by (simp_all add: load_settings_sel setting_def retention_init_def)
  have e: "SaveRetention ''audit_logs'' \<in> events (DataRetention_view cfg ?s)"
    by (rule save_offered) (use assms in \<open>simp_all add: load_settings_sel(4,5) s setting_def\<close>)
  have "loaded_setting (?s\<lparr>rt_updateMutation := mutate\<rparr>) ''audit_logs'' = JStr y" using s(2) by (simp add: loaded_setting_def)
  then show ?thesis
    using e load_settings_env by (simp add: handleSaveRetention_def s(1) setting_def json_body_def)
qed

theorem stale_setting_sent_witness:
  "\<exists>s cfg. loaded_setting s ''audit_logs'' = JStr ''30d'' \<and>
     page_reach (DataRetention cfg) (s, [KUpdateRetention], [CallApi ''GET'' retention_path JUndef,
       CallApi ''PUT'' retention_path (JObj [(''audit_logs'', JStr ''1y'')])])"
proof -
  have "''1y'' \<noteq> ''30d''" by simp
  from stale_setting_sent [OF this] show ?thesis using page_play_mount [OF DataRetention_sel(1)] by blast
qed

text \<open>Sizes read as elsewhere. From a kibibyte to below a tebibyte the page's own byte counts are those of the tunnel
  list.\<close>

theorem retention_formatBytes_agrees:
  assumes "1024 \<le> b" and "b < 1024 ^ 4"
  shows "retention_formatBytes b = formatBytes b"
proof -
  have pw: "(1024::nat) ^ 1 = 1024" "(1024::nat) ^ 2 = 1048576" "(1024::nat) ^ 3 = 1073741824" "(1024::nat) ^ Suc 1 = 1048576"
    "(1024::nat) ^ Suc 2 = 1073741824" "(1024::nat) ^ Suc 3 = 1024 ^ 4" by simp_all
  consider "b < 1048576" "log1024 b = 1" | "\<not> b < 1048576" "b < 1073741824" "log1024 b = 2" | "\<not> b < 1073741824" "log1024 b = 3"
    using assms log1024_eq [of 1 b] log1024_eq [of 2 b] log1024_eq [of 3 b] unfolding pw by linarith
  then show ?thesis
    using assms by cases (simp_all add: retention_formatBytes_def formatBytes_def Let_def nth_opt_def byte_units_def)
qed

theorem retention_formatBytes_agrees_witness: "retention_formatBytes 1536 = formatBytes 1536"
  by (rule retention_formatBytes_agrees) simp_all

end
