(* ===== verification/RevenuePage.thy ===== *)
theory RevenuePage
  imports Hooks Decimals
begin

text \<open>
  The revenue of the admin console (\<open>pages/RevenueDashboard.tsx\<close>): figures, a trend, a forecast, a funnel and the churn, over three
  queries. The page only reads.

  Numbers are the exact values of the doubles; a percentage of the forecast's scale is exact too, where a double is the nearest one.
  The chart library is a name with the data it is given. How a plain number is printed is an argument; amounts ask for
  the grouping of \<open>en-US\<close> themselves.
\<close>

section \<open>Data\<close>

record mrr_point =
  mp_month :: string
  mp_mrr :: rat
  mp_new :: rat
  mp_expansion :: rat
  mp_contraction :: rat
  mp_churn :: rat

record revenue_forecast =
  days_30 :: rat
  days_60 :: rat
  days_90 :: rat

record mrr_data =
  md_mrr :: rat
  md_arr :: rat
  md_active_subscriptions :: rat
  md_trend :: "mrr_point list"
  md_forecast :: revenue_forecast

record churn_data =
  ch_rate :: rat
  ch_voluntary :: rat
  ch_involuntary :: rat
  ch_retention :: rat
  ch_at_risk :: rat
  ch_trend :: "(string \<times> rat) list"

record funnel_stage =
  fs_name :: string
  fs_count :: rat

record revenue_page =
  mrrQuery :: "mrr_data query"
  churnQuery :: "churn_data query"
  funnelQuery :: "funnel_stage list query"

definition revenue_init :: revenue_page where
  "revenue_init = \<lparr>mrrQuery = q_pending, churnQuery = q_pending, funnelQuery = q_pending\<rparr>"

datatype revenue_ev = RetryRevenue

section \<open>Amounts\<close>

text \<open>Groups of three digits.\<close>

fun group_thousands :: "nat \<Rightarrow> string" where
  "group_thousands n = (if n < 1000 then nat_string n else group_thousands (n div 1000) @ '','' @ pad_digits 3 (n mod 1000))"

declare group_thousands.simps [simp del]

text \<open>\<open>val.toLocaleString('en-US', ...)\<close> without decimal places: the nearest whole number, halves away from zero, and its sign.\<close>

definition formatCurrency :: "rat \<Rightarrow> string" where
  "formatCurrency v = ''$'' @ (if v < 0 then ''-'' else '''') @ group_thousands (fixed_units 0 v)"

definition formatPercent :: "rat \<Rightarrow> string" where
  "formatPercent v = toFixed 1 v @ ''%''"

lemma join_with_snoc: "ps \<noteq> [] \<Longrightarrow> join_with sep (ps @ [p]) = join_with sep ps @ sep @ p"
proof (induction ps)
  case (Cons q ps)
  then show ?case by (cases ps) auto
qed simp

lemma pad_three: "read_nat (pad_digits 3 (n mod 1000)) = n mod 1000 \<and> length (pad_digits 3 (n mod 1000)) = 3 \<and> (\<forall>c \<in> set (pad_digits 3 (n mod 1000)). is_digit c)"
proof -
  have "n mod 1000 < 10 ^ Suc 2" by simp
  from pad_digits_facts [OF this] show ?thesis by (simp add: numeral_3_eq_3 numeral_2_eq_2)
qed

lemma thousands_facts:
  "read_nat (filter is_digit (group_thousands n)) = n \<and>
   (\<exists>g gs. group_thousands n = join_with '','' (g # gs) \<and> length g \<in> {1, 2, 3} \<and> (\<forall>h \<in> set gs. length h = 3) \<and> (\<forall>h \<in> set (g # gs). \<forall>c \<in> set h. is_digit c))"
proof (induction n rule: group_thousands.induct)
  case (1 n)
  show ?case
  proof (cases "n < 1000")
    case True
    have "length (nat_string n) \<le> Suc 2" using True by (intro length_nat_string) simp
    moreover have "0 < length (nat_string n)" by simp
    ultimately have "length (nat_string n) \<in> {1, 2, 3}" unfolding insert_iff empty_iff by presburger
    moreover have "filter is_digit (nat_string n) = nat_string n" using nat_string_digits by (simp add: filter_id_conv)
    moreover have "group_thousands n = join_with '','' [nat_string n]" using True by (simp add: group_thousands.simps)
    ultimately show ?thesis using nat_string_digits [of n] True by (intro conjI exI [of _ "nat_string n"] exI [of _ "[]"]) (simp_all add: read_nat_string)
  next
    case False
    let ?p = "pad_digits 3 (n mod 1000)"
    have g: "group_thousands n = group_thousands (n div 1000) @ '','' @ ?p" using False by (subst group_thousands.simps) simp
    have "filter is_digit ?p = ?p" "\<not> is_digit (CHR '','')" using pad_three by (simp_all add: filter_id_conv is_digit_def)
    then have "read_nat (filter is_digit (group_thousands n)) = n div 1000 * 10 ^ 3 + n mod 1000"
      using 1 False pad_three unfolding g by (simp add: read_nat_append)
    moreover obtain h hs where "group_thousands (n div 1000) = join_with '','' (h # hs)" "length h \<in> {1, 2, 3}" "\<forall>x \<in> set hs. length x = 3"
      "\<forall>x \<in> set (h # hs). \<forall>c \<in> set x. is_digit c" using 1 False by blast
    ultimately show ?thesis
      using g pad_three join_with_snoc [of "h # hs" "'',''" ?p] by (intro conjI exI [of _ h] exI [of _ "hs @ [?p]"]) auto
  qed
qed

lemma fixed_units_zero: "\<bar>of_nat (fixed_units 0 v) - \<bar>v\<bar>\<bar> \<le> (1 / 2 :: rat)"
  using fixed_units_near [of 0 v] by simp

text \<open>C22: What an amount shows: a dollar sign, the sign of the amount and digits in groups of three; the digits, read as one number, are the
  amount's size to the nearest dollar, so the grouping neither drops nor adds any.
\<close>

theorem formatCurrency_reads_back:
  "\<exists>g gs. formatCurrency v = ''$'' @ (if v < 0 then ''-'' else '''') @ join_with '','' (g # gs) \<and>
     length g \<in> {1, 2, 3} \<and> (\<forall>h \<in> set gs. length h = 3) \<and> (\<forall>h \<in> set (g # gs). \<forall>c \<in> set h. is_digit c) \<and>
     \<bar>of_nat (read_nat (filter is_digit (join_with '','' (g # gs)))) - \<bar>v\<bar>\<bar> \<le> (1 / 2 :: rat)"
  using thousands_facts [of "fixed_units 0 v"] fixed_units_zero [of v] unfolding formatCurrency_def by metis

theorem formatCurrency_reads_back_witness:
  "\<exists>g gs. formatCurrency (- 1234567) = ''$-'' @ join_with '','' (g # gs) \<and> length g \<in> {1, 2, 3} \<and> list_all (\<lambda>h. length h = 3) gs \<and>
     \<bar>of_nat (read_nat (filter is_digit (join_with '','' (g # gs)))) - 1234567\<bar> \<le> (1 / 2 :: rat)"
  using formatCurrency_reads_back [of "- 1234567"] by (simp add: list_all_iff) blast

section \<open>View\<close>

definition chart :: "string \<Rightarrow> string list \<Rightarrow> 'e ui" where
  "chart name points = Node name (map (\<lambda>p. Say [Lit p]) points)"

definition or_zero :: "('a \<Rightarrow> rat) \<Rightarrow> 'a option \<Rightarrow> rat" where
  "or_zero f d = (case d of None \<Rightarrow> 0 | Some x \<Rightarrow> f x)"

text \<open>The badges of the figures are fixed texts.\<close>

definition revenue_figures :: "(rat \<Rightarrow> string) \<Rightarrow> mrr_data option \<Rightarrow> churn_data option \<Rightarrow> 'e ui" where
  "revenue_figures num m c = Node ''section''
     [Node ''Card'' [Say (tr ''revenue.mrr''), Say [Lit (formatCurrency (or_zero md_mrr m))], Node ''Badge'' [Say [Lit ''6.2%'']]],
      Node ''Card'' [Say (tr ''revenue.arr''), Say [Lit (formatCurrency (or_zero md_arr m))]],
      Node ''Card'' [Say (tr ''revenue.activeSubscriptions''), Say [Lit (num (or_zero md_active_subscriptions m))], Node ''Badge'' [Say [Lit ''12'']]],
      Node ''Card'' [Say (tr ''revenue.churnRate''), Say [Lit (formatPercent (or_zero ch_rate c))], Node ''Badge'' [Say [Lit ''0.4pp'']]]]"

definition axis_amount :: "rat \<Rightarrow> string" where
  "axis_amount v = ''$'' @ toFixed 0 (v / 1000) @ ''k''"

definition trend_lines :: "(string \<times> (mrr_point \<Rightarrow> rat)) list" where
  "trend_lines = [(''MRR'', mp_mrr), (''New'', mp_new), (''Expansion'', mp_expansion), (''Contraction'', mp_contraction), (''Churn'', mp_churn)]"

definition mrr_trend :: "mrr_data option \<Rightarrow> 'e ui" where
  "mrr_trend m =
     (let ps = data_or_empty (map_option md_trend m) in
      Node ''LineChart'' (chart ''XAxis'' (map mp_month ps) #
        map (\<lambda>(name, f). chart name (map (\<lambda>p. axis_amount (f p)) ps)) trend_lines))"

text \<open>The width of a bar in percent.\<close>

definition bar_width :: "rat \<Rightarrow> rat" where
  "bar_width v = min (v / 70000 * 100) 100"

definition forecast_row :: "(rat \<Rightarrow> string) \<Rightarrow> string \<times> rat \<Rightarrow> 'e ui" where
  "forecast_row num r = (case r of (key, v) \<Rightarrow>
     Node ''div'' [Say (tr key), Node (num (bar_width v) @ ''%'') [], Say [Lit (formatCurrency v)]])"

definition forecast_rows :: "mrr_data option \<Rightarrow> (string \<times> rat) list" where
  "forecast_rows m =
     [(''revenue.days30'', or_zero (\<lambda>d. days_30 (md_forecast d)) m), (''revenue.days60'', or_zero (\<lambda>d. days_60 (md_forecast d)) m),
      (''revenue.days90'', or_zero (\<lambda>d. days_90 (md_forecast d)) m), (''revenue.current'', or_zero md_mrr m)]"

definition COLORS :: "string list" where
  "COLORS = [''#22c55e'', ''#3b82f6'', ''#f59e0b'', ''#ef4444'']"

definition funnel_chart :: "(rat \<Rightarrow> string) \<Rightarrow> funnel_stage list \<Rightarrow> 'e ui" where
  "funnel_chart num stages = Node ''BarChart''
     (map (\<lambda>(i, st). Node (COLORS ! (i mod length COLORS)) [Say [Lit (fs_name st)], Say [Lit (num (fs_count st))]]) (enumerate 0 stages))"

definition churn_metrics :: "(rat \<Rightarrow> string) \<Rightarrow> churn_data option \<Rightarrow> 'e ui" where
  "churn_metrics num c = Node ''div''
     [Say (tr ''revenue.voluntaryChurn''), Say [Lit (formatPercent (or_zero ch_voluntary c))],
      Say (tr ''revenue.involuntaryChurn''), Say [Lit (formatPercent (or_zero ch_involuntary c))],
      Say (tr ''revenue.retentionRate''), Say [Lit (formatPercent (or_zero ch_retention c))],
      Say (tr ''revenue.atRiskCustomers''), Say [Lit (num (or_zero ch_at_risk c))],
      Node ''LineChart'' (map (\<lambda>(month, r). Node ''div'' [Say [Lit month], Say [Lit (formatPercent r)]]) (data_or_empty (map_option ch_trend c)))]"

definition revenue_loading :: "revenue_page \<Rightarrow> bool" where
  "revenue_loading s \<longleftrightarrow> q_isLoading (mrrQuery s) \<or> q_isLoading (churnQuery s) \<or> q_isLoading (funnelQuery s)"

definition revenue_error :: "revenue_page \<Rightarrow> bool" where
  "revenue_error s \<longleftrightarrow> q_isError (mrrQuery s) \<or> q_isError (churnQuery s) \<or> q_isError (funnelQuery s)"

definition loaded_card :: "revenue_page \<Rightarrow> string \<Rightarrow> revenue_ev ui list \<Rightarrow> revenue_ev ui" where
  "loaded_card s key us = Node ''Card'' (Say (tr key) # (if revenue_loading s then [Node ''Skeleton'' []] else us))"

definition RevenueDashboard_view :: "(rat \<Rightarrow> string) \<Rightarrow> revenue_page \<Rightarrow> revenue_ev ui" where
  "RevenueDashboard_view num s =
     (let m = q_data (mrrQuery s); c = q_data (churnQuery s); f = q_data (funnelQuery s) in
      if revenue_error s then failed_load ''revenue.failedToLoad'' [Button False RetryRevenue [Say (tr ''common.retry'')]]
      else Node ''div''
        [Node ''h1'' [Say (tr ''revenue.title'')], Node ''p'' [Say (tr ''revenue.subtitle'')],
         (if revenue_loading s then Node ''section'' (replicate 4 (Node ''Skeleton'' [])) else revenue_figures num m c),
         loaded_card s ''revenue.mrrTrendBreakdown'' [mrr_trend m],
         loaded_card s ''revenue.revenueForecast'' (map (forecast_row num) (forecast_rows m)),
         loaded_card s ''revenue.conversionFunnel'' [funnel_chart num (data_or_empty f)],
         loaded_card s ''revenue.churnMetrics'' [churn_metrics num c]])"

section \<open>The page\<close>

definition revenue_parts :: "string list" where
  "revenue_parts = [''mrr'', ''churn'', ''funnel'']"

definition revenue_call :: "string \<Rightarrow> cmd" where
  "revenue_call part = CallApi ''GET'' (''/api/admin/v1/revenue/'' @ part) JUndef"

definition revenue_key :: "string \<Rightarrow> string list" where
  "revenue_key part = [''admin'', ''revenue'', part]"

fun revenue_user :: "revenue_ev \<Rightarrow> revenue_page \<Rightarrow> (revenue_page, unit) effect" where
  "revenue_user RetryRevenue s = (s, map (\<lambda>part. Refetch (revenue_key part)) revenue_parts, [])"

definition RevenueDashboard :: "(rat \<Rightarrow> string) \<Rightarrow> (revenue_page, revenue_ev, unit) page" where
  "RevenueDashboard num =
     \<lparr>pg_mount = (revenue_init, map revenue_call revenue_parts, []), pg_view = RevenueDashboard_view num, pg_user = revenue_user,
      pg_resume = (\<lambda>k r s. (s, [], [])), pg_env = (\<lambda>s s'. True)\<rparr>"

lemma RevenueDashboard_sel [simp]:
  "pg_mount (RevenueDashboard num) = (revenue_init, map revenue_call revenue_parts, [])" "pg_view (RevenueDashboard num) = RevenueDashboard_view num"
  "pg_user (RevenueDashboard num) = revenue_user" "pg_resume (RevenueDashboard num) = (\<lambda>k r s. (s, [], []))" "pg_env (RevenueDashboard num) s s'"
  by (simp_all add: RevenueDashboard_def)

definition revenue_cmd_ok :: "cmd \<Rightarrow> bool" where
  "revenue_cmd_ok c \<longleftrightarrow> (\<exists>part \<in> set revenue_parts. c = revenue_call part \<or> c = Refetch (revenue_key part))"

interpretation revenue: page_reading "RevenueDashboard num" "\<lambda>_. True" revenue_cmd_ok for num
proof
  show "list_all revenue_cmd_ok (fst (snd (pg_mount (RevenueDashboard num))))" by (simp add: list_all_iff revenue_cmd_ok_def) blast
  show "True \<and> list_all revenue_cmd_ok (fst (snd (pg_user (RevenueDashboard num) e s))) \<and> snd (snd (pg_user (RevenueDashboard num) e s)) = []" for e s
    by (cases e) (simp add: list_all_iff revenue_cmd_ok_def, blast)
qed simp_all

section \<open>Properties\<close>

text \<open>A bar never leaves its track, unless the amount is negative.\<close>

lemma bar_width_bounds: "0 \<le> v \<Longrightarrow> 0 \<le> bar_width v \<and> bar_width v \<le> 100" "bar_width v = 100 \<longleftrightarrow> 70000 \<le> v"
  by (auto simp: bar_width_def min_def)

text \<open>One failed query of the three hides what the others have, and the one button asks for all three again.\<close>

lemma revenue_retry:
  "events (RevenueDashboard_view num s) = (if revenue_error s then {RetryRevenue} else {})"
  "fst (snd (revenue_user RetryRevenue s)) = [Refetch [''admin'', ''revenue'', ''mrr''], Refetch [''admin'', ''revenue'', ''churn''], Refetch [''admin'', ''revenue'', ''funnel'']]"
  by (auto simp: RevenueDashboard_view_def Let_def loaded_card_def revenue_figures_def mrr_trend_def chart_def forecast_row_def funnel_chart_def
      churn_metrics_def revenue_parts_def revenue_key_def split: prod.split)

text \<open>The comparisons next to the figures do not come from the data: a page without any revenue shows the same growth.\<close>

lemma figures_badges_fixed:
  "[Lit ''6.2%''] \<in> set (texts (revenue_figures num m c))" "[Lit ''12''] \<in> set (texts (revenue_figures num m c))"
  "[Lit ''0.4pp''] \<in> set (texts (revenue_figures num m c))"
  by (simp_all add: revenue_figures_def)

end
