(* ===== verification/RolesPage.thy ===== *)
theory RolesPage
  imports Hooks UrlCoding
begin

text \<open>
  The custom roles of the admin console (\<open>pages/Roles.tsx\<close>). The page keeps its list itself: \<open>fetchRoles\<close> loads it at
  the start and after each change. What the server answers is cast without a check; the casts \<open>as_roles\<close> and
  \<open>as_templates\<close> are arguments.
\<close>

section \<open>Permissions\<close>

definition PERMISSION_CATEGORIES :: "(string \<times> string list) list" where
  "PERMISSION_CATEGORIES =
     [(''Tunnels'', [''tunnels:create'', ''tunnels:read'', ''tunnels:update'', ''tunnels:delete'', ''tunnels:start'', ''tunnels:stop'']),
      (''Domains'', [''domains:create'', ''domains:read'', ''domains:update'', ''domains:delete'']),
      (''Networks'', [''networks:create'', ''networks:read'', ''networks:update'', ''networks:delete'', ''networks:join'', ''networks:leave'']),
      (''Billing'', [''billing:read'', ''billing:manage'']),
      (''Members'', [''members:read'', ''members:invite'', ''members:remove'', ''members:change_role'']),
      (''Settings'', [''settings:read'', ''settings:update''])]"

text \<open>Without a colon reading \<open>parts[1].replace\<close> throws.\<close>

definition permissionLabel :: "string \<Rightarrow> string option" where
  "permissionLabel perm =
     (case split_on (CHR '':'') perm of
        p # q # _ \<Rightarrow> Some (replace_first (CHR ''_'') (CHR '' '') q @ '' '' @ to_upper (take 1 p) @ drop 1 p)
      | _ \<Rightarrow> None)"

lemma permission_labels: "(c, perms) \<in> set PERMISSION_CATEGORIES \<Longrightarrow> p \<in> set perms \<Longrightarrow> permissionLabel p \<noteq> None"
  by (auto simp: PERMISSION_CATEGORIES_def permissionLabel_def)

definition togglePermission :: "string \<Rightarrow> string list \<Rightarrow> string list" where
  "togglePermission perm prev = (if perm \<in> set prev then filter (\<lambda>p. p \<noteq> perm) prev else prev @ [perm])"

definition toggleCategory :: "string list \<Rightarrow> bool \<Rightarrow> string list \<Rightarrow> string list" where
  "toggleCategory perms checked prev =
     (if checked then prev @ filter (\<lambda>p. p \<notin> set prev) perms else filter (\<lambda>p. p \<notin> set perms) prev)"

definition allCategoryChecked :: "string list \<Rightarrow> string list \<Rightarrow> bool" where
  "allCategoryChecked formPerms perms = list_all (\<lambda>p. p \<in> set formPerms) perms"

definition someCategoryChecked :: "string list \<Rightarrow> string list \<Rightarrow> bool" where
  "someCategoryChecked formPerms perms = (list_ex (\<lambda>p. p \<in> set formPerms) perms \<and> \<not> allCategoryChecked formPerms perms)"

lemma set_togglePermission: "set (togglePermission perm prev) = (if perm \<in> set prev then set prev - {perm} else insert perm (set prev))"
  by (auto simp: togglePermission_def)

lemma distinct_toggles:
  "distinct prev \<Longrightarrow> distinct (togglePermission perm prev)" "distinct prev \<Longrightarrow> distinct perms \<Longrightarrow> distinct (toggleCategory perms b prev)"
  by (auto simp: togglePermission_def toggleCategory_def)

section \<open>State\<close>

record custom_role =
  role_id :: string
  role_name :: string
  role_permissions :: "string list"
  role_assigned_users :: int
  role_created_at :: string

record roles_page =
  roles :: "custom_role list"
  role_templates :: "(string \<times> string list) list"
  roles_loading :: bool
  roleDialogOpen :: bool
  editingRole :: "custom_role option"
  roleName :: string
  formPerms :: "string list"
  roleSaving :: bool

definition roles_init :: roles_page where
  "roles_init = \<lparr>roles = [], role_templates = [], roles_loading = True, roleDialogOpen = False, editingRole = None, roleName = '''',
     formPerms = [], roleSaving = False\<rparr>"

datatype roles_ev =
    NewRole | EditRole custom_role | CloseRole | SetRoleName string | ApplyTemplate string | TogglePermission string
  | ToggleCategory "string list" bool | SaveRole | DeleteRole custom_role bool

datatype roles_k = KFetchRoles | KSaveRole | KDeleteRole

section \<open>Handlers\<close>

abbreviation roles_path :: string where
  "roles_path \<equiv> ''/api/admin/v1/roles''"

definition role_path :: "string \<Rightarrow> string" where
  "role_path i = roles_path @ ''/'' @ encodeURIComponent i"

definition fetchRoles :: "roles_page \<Rightarrow> (roles_page, roles_k) effect" where
  "fetchRoles s = (s\<lparr>roles_loading := True\<rparr>, [CallApi ''GET'' roles_path JUndef], [KFetchRoles])"

definition fetchRoles_done ::
  "(json \<Rightarrow> custom_role list) \<Rightarrow> (json \<Rightarrow> (string \<times> string list) list) \<Rightarrow> result \<Rightarrow> roles_page \<Rightarrow> roles_page" where
  "fetchRoles_done as_roles as_templates r s =
     (case r of
        Inl err \<Rightarrow> s\<lparr>roles := [], roles_loading := False\<rparr>
      | Inr data \<Rightarrow>
          if nullish data then s\<lparr>roles := [], roles_loading := False\<rparr>
          else s\<lparr>roles := (if truthy (jprop data ''roles'') then as_roles (jprop data ''roles'') else []),
                 role_templates := (if truthy (jprop data ''templates'') then as_templates (jprop data ''templates'') else []),
                 roles_loading := False\<rparr>)"

definition roles_openCreate :: "roles_page \<Rightarrow> roles_page" where
  "roles_openCreate s = s\<lparr>editingRole := None, roleName := '''', formPerms := [], roleDialogOpen := True\<rparr>"

definition roles_openEdit :: "custom_role \<Rightarrow> roles_page \<Rightarrow> roles_page" where
  "roles_openEdit r s = s\<lparr>editingRole := Some r, roleName := role_name r, formPerms := role_permissions r, roleDialogOpen := True\<rparr>"

definition applyRoleTemplate :: "string \<Rightarrow> roles_page \<Rightarrow> roles_page" where
  "applyRoleTemplate name s = (case map_of (role_templates s) name of None \<Rightarrow> s | Some perms \<Rightarrow> s\<lparr>formPerms := perms\<rparr>)"

definition role_body :: "roles_page \<Rightarrow> json" where
  "role_body s = json_body [(''name'', JStr (trim (roleName s))), (''permissions'', JArr (map JStr (formPerms s)))]"

definition handleSaveRole :: "roles_page \<Rightarrow> (roles_page, roles_k) effect" where
  "handleSaveRole s =
     (if trim (roleName s) = '''' \<or> formPerms s = [] then (s, [], [])
      else (s\<lparr>roleSaving := True\<rparr>,
        [case editingRole s of
           Some r \<Rightarrow> CallApi ''PUT'' (role_path (role_id r)) (role_body s)
         | None \<Rightarrow> CallApi ''POST'' roles_path (role_body s)], [KSaveRole]))"

definition handleSaveRole_done :: "result \<Rightarrow> roles_page \<Rightarrow> (roles_page, roles_k) effect" where
  "handleSaveRole_done r s =
     (case r of
        Inl err \<Rightarrow> (s\<lparr>roleSaving := False\<rparr>, [], [])
      | Inr v \<Rightarrow> (case fetchRoles (s\<lparr>roleDialogOpen := False\<rparr>) of (s1, cs, ks) \<Rightarrow> (s1\<lparr>roleSaving := False\<rparr>, cs, ks)))"

definition handleDeleteRole :: "custom_role \<Rightarrow> bool \<Rightarrow> roles_page \<Rightarrow> (roles_page, roles_k) effect" where
  "handleDeleteRole r confirmed s =
     (if \<not> confirmed then (s, [], []) else (s, [CallApi ''DELETE'' (role_path (role_id r)) JUndef], [KDeleteRole]))"

definition handleDeleteRole_done :: "result \<Rightarrow> roles_page \<Rightarrow> (roles_page, roles_k) effect" where
  "handleDeleteRole_done r s =
     (case r of
        Inl err \<Rightarrow> (s, if exn_code err = JStr ''has_users'' then [Alert (''Cannot delete: '' @ js_string (exn_message err))] else [], [])
      | Inr v \<Rightarrow> fetchRoles s)"

fun roles_user :: "roles_ev \<Rightarrow> roles_page \<Rightarrow> (roles_page, roles_k) effect" where
  "roles_user NewRole s = (roles_openCreate s, [], [])"
| "roles_user (EditRole r) s = (roles_openEdit r s, [], [])"
| "roles_user CloseRole s = (s\<lparr>roleDialogOpen := False\<rparr>, [], [])"
| "roles_user (SetRoleName v) s = (s\<lparr>roleName := v\<rparr>, [], [])"
| "roles_user (ApplyTemplate n) s = (applyRoleTemplate n s, [], [])"
| "roles_user (TogglePermission p) s = (s\<lparr>formPerms := togglePermission p (formPerms s)\<rparr>, [], [])"
| "roles_user (ToggleCategory ps b) s = (s\<lparr>formPerms := toggleCategory ps b (formPerms s)\<rparr>, [], [])"
| "roles_user SaveRole s = handleSaveRole s"
| "roles_user (DeleteRole r ok) s = handleDeleteRole r ok s"

fun roles_resume ::
  "(json \<Rightarrow> custom_role list) \<Rightarrow> (json \<Rightarrow> (string \<times> string list) list) \<Rightarrow> roles_k \<Rightarrow> result \<Rightarrow> roles_page \<Rightarrow> (roles_page, roles_k) effect" where
  "roles_resume asr ast KFetchRoles r s = (fetchRoles_done asr ast r s, [], [])"
| "roles_resume asr ast KSaveRole r s = handleSaveRole_done r s"
| "roles_resume asr ast KDeleteRole r s = handleDeleteRole_done r s"

section \<open>View\<close>

definition role_row :: "(string \<Rightarrow> string) \<Rightarrow> custom_role \<Rightarrow> roles_ev ui" where
  "role_row toLocaleDateString r = Node ''TableRow''
     [Say [Lit (role_name r)],
      Node ''div'' (map (\<lambda>p. Node ''Badge'' [Say [Lit p]]) (take 4 (role_permissions r)) @
        [only_if (length (role_permissions r) > 4)
          (Node ''Badge'' [Say [Tr ''roles.more'' [(''count'', JNum (int (length (role_permissions r)) - 4))]]])]),
      Node ''Badge'' [Say [Lit (int_string (role_assigned_users r))]], Say [Lit (toLocaleDateString (role_created_at r))],
      Button False (EditRole r) [], confirm_button (role_assigned_users r > 0) (DeleteRole r)]"

definition roles_table :: "(string \<Rightarrow> string) \<Rightarrow> roles_page \<Rightarrow> roles_ev ui" where
  "roles_table toLocaleDateString s =
     (if roles_loading s then Node ''CardContent'' (replicate 3 (Node ''Skeleton'' []))
      else Node ''Table''
       [head_row [''roles.name'', ''roles.permissions'', ''roles.assignedUsers'', ''common.created'', ''roles.actions''],
        Node ''TableBody'' (only_if (roles s = []) (Node ''TableRow'' [Say (tr ''roles.noRoles'')]) # map (role_row toLocaleDateString) (roles s))])"

text \<open>Clicking a box of a category sends the state it changes to: checked exactly when not all were checked.\<close>

definition category_box :: "string list \<Rightarrow> string \<times> string list \<Rightarrow> roles_ev ui" where
  "category_box fp cat =
     (let (name, perms) = cat; every = allCategoryChecked fp perms in
      Node ''fieldset''
       [Node (if someCategoryChecked fp perms then ''indeterminate'' else '''') [Checkbox every (ToggleCategory perms (\<not> every))], Say [Lit name],
        Node ''div'' (map (\<lambda>p. Node ''label'' [Checkbox (p \<in> set fp) (TogglePermission p),
          (case permissionLabel p of None \<Rightarrow> Null | Some lbl \<Rightarrow> Say [Lit lbl])]) perms)])"

definition role_dialog :: "roles_page \<Rightarrow> roles_ev ui" where
  "role_dialog s = only_if (roleDialogOpen s) (Node ''div''
     [Say (tr (if editingRole s \<noteq> None then ''roles.editRole'' else ''roles.createRole'')),
      Input (tr ''roles.roleName'') (roleName s) [] False SetRoleName,
      only_if (role_templates s \<noteq> []) (Node ''div'' (Say (tr ''roles.templates'') #
        map (\<lambda>(n, _). Button False (ApplyTemplate n) [Say [Lit n]]) (role_templates s))),
      Node ''div'' (Say (tr ''roles.permissions'') # map (category_box (formPerms s)) PERMISSION_CATEGORIES),
      Say [Tr ''roles.permissionsSelected_other'' [(''count'', JNum (int (length (formPerms s))))]],
      Button False CloseRole [Say (tr ''common.cancel'')],
      Button (roleSaving s \<or> trim (roleName s) = '''' \<or> formPerms s = []) SaveRole
        [Say (tr (if roleSaving s then ''common.saving'' else ''common.save''))]])"

definition Roles_view :: "(string \<Rightarrow> string) \<Rightarrow> roles_page \<Rightarrow> roles_ev ui" where
  "Roles_view toLocaleDateString s = Node ''div''
     [Node ''h1'' [Say (tr ''roles.title'')], Node ''p'' [Say [Tr ''roles.subtitle_other'' [(''count'', JNum (int (length (roles s))))]]],
      Button False NewRole [Say (tr ''roles.newRole'')], roles_table toLocaleDateString s, role_dialog s]"

record roles_cfg =
  rc_date :: "string \<Rightarrow> string"
  rc_roles :: "json \<Rightarrow> custom_role list"
  rc_templates :: "json \<Rightarrow> (string \<times> string list) list"

definition Roles :: "roles_cfg \<Rightarrow> (roles_page, roles_ev, roles_k) page" where
  "Roles cfg =
     \<lparr>pg_mount = fetchRoles roles_init, pg_view = Roles_view (rc_date cfg), pg_user = roles_user,
      pg_resume = roles_resume (rc_roles cfg) (rc_templates cfg), pg_env = (\<lambda>s s'. False)\<rparr>"

lemma Roles_sel [simp]:
  "pg_mount (Roles cfg) = (roles_init, [CallApi ''GET'' roles_path JUndef], [KFetchRoles])" "pg_view (Roles cfg) = Roles_view (rc_date cfg)"
  "pg_user (Roles cfg) = roles_user" "pg_resume (Roles cfg) = roles_resume (rc_roles cfg) (rc_templates cfg)" "pg_env (Roles cfg) s s' = False"
  by (simp_all add: Roles_def fetchRoles_def roles_init_def)

section \<open>Invariant\<close>

definition roles_inv :: "roles_page \<Rightarrow> roles_k list \<Rightarrow> bool" where
  "roles_inv s ks \<longleftrightarrow> flags (roleSaving s) (\<lambda>k. k = KSaveRole) ks \<and> (roles_loading s \<longrightarrow> KFetchRoles \<in> set ks)"

fun roles_guard :: "roles_page \<Rightarrow> roles_ev \<Rightarrow> bool" where
  "roles_guard s SaveRole = (\<not> roleSaving s)"
| "roles_guard s (DeleteRole r ok) = (r \<in> set (roles s) \<and> role_assigned_users r \<le> 0)"
| "roles_guard s _ = True"

text \<open>A path names the list or one role, whose id can neither leave its segment nor end the path.\<close>

definition one_segment :: "string \<Rightarrow> string \<Rightarrow> bool" where
  "one_segment base p \<longleftrightarrow> p = base \<or> (\<exists>e. p = base @ ''/'' @ e \<and> set e \<inter> set ''/?#& '' = {})"

fun roles_cmd_ok :: "cmd \<Rightarrow> bool" where
  "roles_cmd_ok (CallApi m p b) = (one_segment roles_path p \<and>
     (m \<in> {''POST'', ''PUT''} \<longrightarrow> (\<exists>name perms. trim name \<noteq> '''' \<and> perms \<noteq> [] \<and>
        b = json_body [(''name'', JStr (trim name)), (''permissions'', JArr (map JStr perms))])))"
| "roles_cmd_ok _ = True"

lemma segment_safe: "set (encodeURIComponent i) \<inter> set ''/?#& '' = {}"
  using encodeURIComponent_safe delimiters_reserved by auto

lemma role_path_segment: "one_segment roles_path (role_path i)"
  unfolding one_segment_def role_path_def using segment_safe by blast

lemma roles_parts_guarded:
  "e \<in> events (roles_table fmt s) \<Longrightarrow> roles_guard s e" "e \<in> events (category_box fp c) \<Longrightarrow> e \<in> range TogglePermission \<union> {ToggleCategory ps b | ps b. True}"
  by (auto simp: roles_table_def role_row_def category_box_def Let_def split: if_splits option.splits prod.splits)

lemma roles_offered: "e \<in> events (Roles_view fmt s) \<Longrightarrow> roles_guard s e"
  by (auto simp: Roles_view_def role_dialog_def dest!: roles_parts_guarded split: if_splits)

lemmas roles_handlers = roles_openCreate_def roles_openEdit_def applyRoleTemplate_def handleSaveRole_def handleSaveRole_done_def
  handleDeleteRole_def handleDeleteRole_done_def fetchRoles_def fetchRoles_done_def

lemma roles_user_inv:
  assumes "roles_inv s ks" and "roles_guard s e"
  shows "roles_inv (fst (roles_user e s)) (ks @ snd (snd (roles_user e s)))" and "list_all roles_cmd_ok (fst (snd (roles_user e s)))"
proof -
  show "roles_inv (fst (roles_user e s)) (ks @ snd (snd (roles_user e s)))"
    using assms by (cases e) (auto simp: roles_inv_def flags_def roles_handlers split: option.splits)
  show "list_all roles_cmd_ok (fst (snd (roles_user e s)))"
    using role_path_segment
    by (cases e) (auto simp: roles_handlers role_body_def one_segment_def split: option.splits)
qed

lemma roles_resume_inv:
  assumes "roles_inv s (ks1 @ k # ks2)"
  shows "roles_inv (fst (roles_resume asr ast k r s)) (ks1 @ ks2 @ snd (snd (roles_resume asr ast k r s)))"
    and "list_all roles_cmd_ok (fst (snd (roles_resume asr ast k r s)))"
  using assms by (cases k; cases r; auto simp: roles_inv_def flags_def roles_handlers one_segment_def split: if_splits)+

lemma roles_mounted: "roles_inv roles_init [KFetchRoles]" "roles_cmd_ok (CallApi ''GET'' roles_path JUndef)"
  by (simp_all add: roles_inv_def roles_init_def flags_def one_segment_def)

interpretation roles: page_guarded "Roles cfg" roles_inv roles_guard roles_cmd_ok for cfg
  by unfold_locales (simp_all add: roles_mounted roles_user_inv roles_resume_inv del: roles_cmd_ok.simps, erule roles_offered)

lemma roles_single_flight: "single_flight (Roles cfg) [(roleSaving, \<lambda>k. k = KSaveRole)]"
  by (rule roles.single_flightI) (simp add: roles_inv_def)

section \<open>Properties\<close>

text \<open>The box of a category. A click on it leaves all permissions of the category selected where they were not, and
  none where they were; the other permissions stay as they are, and nothing is selected twice that was not before.\<close>

theorem category_click:
  "let new = toggleCategory perms (\<not> allCategoryChecked sel perms) sel in
     (\<forall>p. p \<in> set new \<longleftrightarrow> (if p \<in> set perms then \<not> allCategoryChecked sel perms else p \<in> set sel)) \<and>
     (distinct sel \<and> distinct perms \<longrightarrow> distinct new)"
  using distinct_toggles(2) by (auto simp: toggleCategory_def Let_def)

theorem category_click_witness:
  "distinct (toggleCategory [''billing:read'', ''billing:manage''] True [''billing:read''])"
proof -
  have "\<not> allCategoryChecked [''billing:read''] [''billing:read'', ''billing:manage'']" by (simp add: allCategoryChecked_def)
  then show ?thesis using category_click [of "[''billing:read'', ''billing:manage'']" "[''billing:read'']"] by (simp add: Let_def)
qed

text \<open>What the roles page sends. Whatever the ids and names of the roles are, every request stays within the list of
  roles or the path of one role; a saved role has a name that is not blank, trimmed, and at least one permission; and one
  save at a time is in flight, exactly while its button says so.\<close>

theorem roles_requests_sound:
  assumes "page_reach (Roles cfg) (s, ks, out)" and "CallApi m p b \<in> set out"
  shows "one_segment roles_path p \<and>
    (m \<in> {''POST'', ''PUT''} \<longrightarrow> (\<exists>name perms. trim name \<noteq> '''' \<and> perms \<noteq> [] \<and>
       b = json_body [(''name'', JStr (trim name)), (''permissions'', JArr (map JStr perms))])) \<and>
    waiting (\<lambda>k. k = KSaveRole) ks = (if roleSaving s then 1 else 0)"
  using roles.commands [OF assms] roles.reachable [OF assms(1)] by (simp add: roles_inv_def flags_def)

lemma role_events:
  "NewRole \<in> events (Roles_view fmt s)"
  "roleDialogOpen s \<Longrightarrow> {CloseRole, SetRoleName v, TogglePermission ''billing:read''} \<subseteq> events (Roles_view fmt s)"
  "roleDialogOpen s \<Longrightarrow> \<not> roleSaving s \<Longrightarrow> trim (roleName s) \<noteq> '''' \<Longrightarrow> formPerms s \<noteq> [] \<Longrightarrow> SaveRole \<in> events (Roles_view fmt s)"
  "\<not> roles_loading s \<Longrightarrow> r \<in> set (roles s) \<Longrightarrow> EditRole r \<in> events (Roles_view fmt s)"
  by (auto simp: Roles_view_def role_dialog_def category_box_def PERMISSION_CATEGORIES_def roles_table_def role_row_def Let_def)

lemma trim_r: "trim ''r'' = ''r''"
  by (simp add: trim_def is_ws_def)

lemma roles_init_sel [simp]: "\<not> roleSaving roles_init" "formPerms roles_init = []" "editingRole roles_init = None"
  by (simp_all add: roles_init_def)

text \<open>The answer to a save closes the dialog of another role. Cancelling does not stop a save: when the user has opened
  a second role by then, the answer to the first closes its dialog, and what was changed there is lost without having
  been sent.\<close>

theorem late_save_closes_other:
  assumes "rc_roles cfg v = [r]" and "truthy v"
  shows "\<exists>s ks out s' out'. page_reach (Roles cfg) (s, KSaveRole # ks, out) \<and> editingRole s = Some r \<and> roleDialogOpen s \<and> roleName s = ''changed'' \<and>
    page_step (Roles cfg) (s, KSaveRole # ks, out) (s', ks @ [KFetchRoles], out') \<and> \<not> roleDialogOpen s' \<and>
    (\<forall>b. CallApi ''PUT'' (role_path (role_id r)) b \<notin> set out')"
proof -
  let ?play = "[Answer 0 (Inr (JObj [(''roles'', v)])), Do NewRole, Do (SetRoleName ''r''), Do (TogglePermission ''billing:read''), Do SaveRole,
    Do CloseRole, Do (EditRole r), Do (SetRoleName ''changed'')]"
  have "\<exists>s out. page_play (Roles cfg) ?play (roles_init, [KFetchRoles], [CallApi ''GET'' roles_path JUndef]) = Some (s, [KSaveRole], out) \<and>
      editingRole s = Some r \<and> roleDialogOpen s \<and> roleName s = ''changed'' \<and> (\<forall>b. CallApi ''PUT'' (role_path (role_id r)) b \<notin> set out)"
    using assms role_events by (simp add: roles_handlers togglePermission_def trim_r nullish_def jprop_def)
  then obtain s out where r: "page_reach (Roles cfg) (s, [KSaveRole], out)" "editingRole s = Some r" "roleDialogOpen s" "roleName s = ''changed''"
    and o: "\<forall>b. CallApi ''PUT'' (role_path (role_id r)) b \<notin> set out"
    using page_play_mount [OF Roles_sel(1)] by blast
  let ?s' = "s\<lparr>roleDialogOpen := False, roles_loading := True, roleSaving := False\<rparr>"
  have "pg_resume (Roles cfg) KSaveRole (Inr JUndef) s = (?s', [CallApi ''GET'' roles_path JUndef], [KFetchRoles])"
    by (simp add: roles_handlers)
  from step_resume [OF this, of "[]" "[]" out] r o show ?thesis
    by (intro exI [of _ s] exI [of _ "[]"] exI [of _ out] exI [of _ ?s'] exI [of _ "out @ [CallApi ''GET'' roles_path JUndef]"]) simp
qed

definition sample_roles :: roles_cfg where
  "sample_roles = \<lparr>rc_date = id, rc_roles = (\<lambda>_. [\<lparr>role_id = ''7'', role_name = ''ops'', role_permissions = [''billing:read''],
     role_assigned_users = 0, role_created_at = ''''\<rparr>]), rc_templates = (\<lambda>_. [])\<rparr>"

theorem late_save_closes_other_witness:
  "\<exists>s ks out s' out'. page_reach (Roles sample_roles) (s, KSaveRole # ks, out) \<and> roleDialogOpen s \<and>
     page_step (Roles sample_roles) (s, KSaveRole # ks, out) (s', ks @ [KFetchRoles], out') \<and> \<not> roleDialogOpen s'"
proof -
  have "rc_roles sample_roles (JBool True) = [hd (rc_roles sample_roles (JBool True))]" by (simp add: sample_roles_def)
  moreover have "truthy (JBool True)" by simp
  ultimately show ?thesis using late_save_closes_other by blast
qed

theorem roles_requests_sound_witness:
  "\<exists>s ks out b. page_reach (Roles sample_roles) (s, ks, out) \<and> CallApi ''POST'' roles_path b \<in> set out \<and> roleSaving s \<and>
     waiting (\<lambda>k. k = KSaveRole) ks = 1"
proof -
  let ?play = "[Do NewRole, Do (SetRoleName ''r''), Do (TogglePermission ''billing:read''), Do SaveRole]"
  have "\<exists>s ks out b. page_play (Roles sample_roles) ?play (roles_init, [KFetchRoles], [CallApi ''GET'' roles_path JUndef]) = Some (s, ks, out) \<and>
      CallApi ''POST'' roles_path b \<in> set out \<and> roleSaving s"
    using role_events by (simp add: roles_handlers togglePermission_def trim_r)
  then obtain s ks out b where r: "page_reach (Roles sample_roles) (s, ks, out)" "CallApi ''POST'' roles_path b \<in> set out" "roleSaving s"
    using page_play_mount [OF Roles_sel(1)] by blast
  from roles_requests_sound [OF r(1,2)] r show ?thesis by auto
qed

end
