(* ===== verification/SettingsPage.thy ===== *)
theory SettingsPage
  imports Hooks
begin

text \<open>
  The settings (\<open>pages/Settings.tsx\<close>). The page shows one of six tabs; each is a component that React mounts
  when its tab is opened and drops with its state when another is. A tab is a page of its own here, one mount of
  it: what a dropped tab still awaits can no longer change a state.

  Dates are formatted by the browser's locale; the formatting is an argument of the views.
\<close>

section \<open>Data\<close>

record api_key =
  key_id :: string
  key_name :: string
  key_prefix :: string
  key_status :: string
  key_created_at :: string
  key_last_used_at :: "string option"

record invitation =
  inv_id :: string
  inv_code :: string
  inv_max_uses :: int
  inv_use_count :: int
  inv_expires_at :: "string option"

record session =
  session_id :: string
  session_current :: bool
  session_browser :: string
  session_os :: string
  session_ip :: string
  session_location :: string
  session_last_active :: string

record org_usage =
  bandwidth_used :: nat
  bandwidth_limit :: nat
  tunnels_used :: nat
  tunnels_limit :: nat

record org_event =
  oe_user_id :: string
  oe_user_name :: string
  oe_user_email :: string
  oe_action :: string
  oe_resource_type :: string
  oe_resource_id :: string
  oe_created_at :: int

section \<open>API keys\<close>

record apikeys_tab =
  apiKeysQuery :: "api_key list query"
  createKeyMutation :: mutation
  revokeKeyMutation :: mutation
  showCreateKey :: bool
  newKeyName :: string
  copiedKey :: json
  createdKey :: json
  revokeTarget :: "api_key option"

definition apikeys_init :: apikeys_tab where
  "apikeys_init = \<lparr>apiKeysQuery = q_pending, createKeyMutation = idle, revokeKeyMutation = idle, showCreateKey = False,
     newKeyName = '''', copiedKey = JNull, createdKey = JNull, revokeTarget = None\<rparr>"

datatype apikeys_ev =
    OpenCreateKey | CloseCreateKey | CancelCreateKey | SetKeyName string | SubmitKey | CopyKey json | CloseCreatedKey
  | RetryKeys | AskRevoke api_key | CancelRevoke | ConfirmRevoke

datatype apikeys_k = KCreateKey | KRevokeKey | KKeyCopied json | KKeyCopyReset

abbreviation APIKEYS_KEY :: "string list" where
  "APIKEYS_KEY \<equiv> [''apikeys'']"

abbreviation apikeys_path :: string where
  "apikeys_path \<equiv> ''/v1/api-keys''"

definition handleCreateKey :: "apikeys_tab \<Rightarrow> (apikeys_tab, apikeys_k) effect" where
  "handleCreateKey s =
     (if trim (newKeyName s) = '''' then (s, [], [])
      else (s\<lparr>createKeyMutation := mutate\<rparr>,
        [CallApi ''POST'' apikeys_path (json_body [(''name'', JStr (trim (newKeyName s)))])], [KCreateKey]))"

text \<open>\<open>onSuccess\<close> reads \<open>data.key\<close>; where the answer has no body that throws, which makes the
  mutation fail, and the name in the field stays.\<close>

definition handleCreateKey_done :: "result \<Rightarrow> apikeys_tab \<Rightarrow> (apikeys_tab, apikeys_k) effect" where
  "handleCreateKey_done r s =
     (case r of
        Inl err \<Rightarrow> (s\<lparr>createKeyMutation := settled r\<rparr>, [], [])
      | Inr data \<Rightarrow>
          if nullish data
          then (s\<lparr>createKeyMutation :=
              settled (Inl (JsError (''Cannot read properties of '' @ js_string data @ '' (reading 'key')'')))\<rparr>,
            [Invalidate APIKEYS_KEY], [])
          else (s\<lparr>createKeyMutation := settled r, createdKey := jprop data ''key'', newKeyName := ''''\<rparr>,
            [Invalidate APIKEYS_KEY], []))"

definition revokeKey :: "apikeys_tab \<Rightarrow> (apikeys_tab, apikeys_k) effect" where
  "revokeKey s =
     (case revokeTarget s of
        None \<Rightarrow> (s, [], [])
      | Some k \<Rightarrow> (s\<lparr>revokeKeyMutation := mutate\<rparr>, [CallApi ''DELETE'' (apikeys_path @ ''/'' @ key_id k) JUndef], [KRevokeKey]))"

definition revokeKey_done :: "result \<Rightarrow> apikeys_tab \<Rightarrow> (apikeys_tab, apikeys_k) effect" where
  "revokeKey_done r s =
     (case r of
        Inl err \<Rightarrow> (s\<lparr>revokeKeyMutation := settled r\<rparr>, [], [])
      | Inr v \<Rightarrow> (s\<lparr>revokeKeyMutation := settled r, revokeTarget := None\<rparr>,
          [Invalidate APIKEYS_KEY, ShowToast (tr ''settings.api_keys.created'') ''success''], []))"

definition handleCloseCreatedKey :: "apikeys_tab \<Rightarrow> apikeys_tab" where
  "handleCloseCreatedKey s = s\<lparr>createdKey := JNull, showCreateKey := False\<rparr>"

definition copyToClipboard_done :: "json \<Rightarrow> result \<Rightarrow> apikeys_tab \<Rightarrow> (apikeys_tab, apikeys_k) effect" where
  "copyToClipboard_done txt r s =
     (case r of
        Inl err \<Rightarrow> (s, [], [])
      | Inr v \<Rightarrow> (s\<lparr>copiedKey := txt\<rparr>, [ShowToast (tr ''common.copied'') ''default''], [KKeyCopyReset]))"

fun apikeys_user :: "apikeys_ev \<Rightarrow> apikeys_tab \<Rightarrow> (apikeys_tab, apikeys_k) effect" where
  "apikeys_user OpenCreateKey s = (s\<lparr>showCreateKey := True\<rparr>, [], [])"
| "apikeys_user CloseCreateKey s = (s\<lparr>showCreateKey := False, createdKey := JNull\<rparr>, [], [])"
| "apikeys_user CancelCreateKey s = (s\<lparr>showCreateKey := False\<rparr>, [], [])"
| "apikeys_user (SetKeyName v) s = (s\<lparr>newKeyName := v\<rparr>, [], [])"
| "apikeys_user SubmitKey s = handleCreateKey s"
| "apikeys_user (CopyKey k) s = (s, [CopyText (js_string k)], [KKeyCopied k])"
| "apikeys_user CloseCreatedKey s = (handleCloseCreatedKey s, [], [])"
| "apikeys_user RetryKeys s = (s, [Refetch APIKEYS_KEY], [])"
| "apikeys_user (AskRevoke k) s = (s\<lparr>revokeTarget := Some k\<rparr>, [], [])"
| "apikeys_user CancelRevoke s = (s\<lparr>revokeTarget := None\<rparr>, [], [])"
| "apikeys_user ConfirmRevoke s = revokeKey s"

fun apikeys_resume :: "apikeys_k \<Rightarrow> result \<Rightarrow> apikeys_tab \<Rightarrow> (apikeys_tab, apikeys_k) effect" where
  "apikeys_resume KCreateKey r s = handleCreateKey_done r s"
| "apikeys_resume KRevokeKey r s = revokeKey_done r s"
| "apikeys_resume (KKeyCopied k) r s = copyToClipboard_done k r s"
| "apikeys_resume KKeyCopyReset r s = (s\<lparr>copiedKey := JNull\<rparr>, [], [])"

subsection \<open>View\<close>

definition apikey_row :: "(string \<Rightarrow> string) \<Rightarrow> api_key \<Rightarrow> apikeys_ev ui" where
  "apikey_row toLocaleDateString k = Node ''TableRow''
     [Node ''TableCell'' [Say [Lit (key_name k)]],
      Node ''TableCell'' [Node ''code'' [Say [Lit (key_prefix k @ ''...'')]]],
      Node ''TableCell'' [Say [Lit (toLocaleDateString (key_created_at k))]],
      Node ''TableCell''
       [if present (key_last_used_at k) then Say [Lit (toLocaleDateString (the (key_last_used_at k)))]
        else Say (tr ''settings.api_keys.never'')],
      Node ''TableCell'' [Node ''Badge'' [if key_status k = ''active'' then Say (tr ''common.active'') else Say [Lit (key_status k)]]],
      Node ''TableCell'' [Button (key_status k = ''revoked'') (AskRevoke k) []]]"

definition apikeys_table :: "(string \<Rightarrow> string) \<Rightarrow> apikeys_tab \<Rightarrow> apikeys_ev ui" where
  "apikeys_table toLocaleDateString s =
     (let q = apiKeysQuery s in
      if q_isLoading q then Node ''div'' []
      else if q_isError q then failed_load ''settings.api_keys.failed_load'' [Button False RetryKeys [Say (tr ''common.retry'')]]
      else if q_data q = Some [] then Node ''div'' [Say (tr ''settings.api_keys.empty'')]
      else Node ''Table''
       [head_row [''settings.api_keys.table.name'', ''settings.api_keys.table.prefix'', ''settings.api_keys.table.created'',
          ''settings.api_keys.table.last_used'', ''settings.api_keys.table.status'', ''settings.api_keys.table.actions''],
        Node ''TableBody'' (map (apikey_row toLocaleDateString) (data_or_empty (q_data q)))])"

definition create_key_dialog :: "apikeys_tab \<Rightarrow> apikeys_ev ui" where
  "create_key_dialog s = Dialog (showCreateKey s) CloseCreateKey
     (tr ''settings.api_keys.create_dialog.title'') (tr ''settings.api_keys.create_dialog.description'')
     [if truthy (createdKey s)
      then Node ''div''
       [Node ''p'' [Say (tr ''settings.api_keys.created_dialog.warning'')],
        Node ''code'' [Say [Lit (js_string (createdKey s))]],
        Button False (CopyKey (createdKey s)) [Node (if copiedKey s = createdKey s then ''Check'' else ''Copy'') []],
        Button False CloseCreatedKey [Say (tr ''settings.api_keys.created_dialog.done'')]]
      else Form (isPending (createKeyMutation s)) SubmitKey
       [Input (tr ''settings.api_keys.create_dialog.name'') (newKeyName s) [] False SetKeyName,
        (case merror (createKeyMutation s) of
           None \<Rightarrow> Null
         | Some err \<Rightarrow> Node ''p''
             [if nullish (exn_message err) then Say (tr ''settings.api_keys.create_dialog.failed_create'')
              else Say [Lit (js_string (exn_message err))]]),
        Node ''div''
         [Button False CancelCreateKey [Say (tr ''settings.api_keys.create_dialog.cancel'')],
          Node ''submit'' [Say (tr (if isPending (createKeyMutation s) then ''settings.api_keys.create_dialog.creating''
             else ''settings.api_keys.create_dialog.submit''))]]]]"

definition revoke_key_dialog :: "apikeys_tab \<Rightarrow> apikeys_ev ui" where
  "revoke_key_dialog s = Dialog (revokeTarget s \<noteq> None) CancelRevoke
     (tr ''settings.api_keys.revoke_dialog.title'') (tr ''settings.api_keys.revoke_dialog.message'')
     [Node ''div''
       [Button False CancelRevoke [Say (tr ''settings.api_keys.revoke_dialog.cancel'')],
        Button (isPending (revokeKeyMutation s)) ConfirmRevoke
          [Say (tr (if isPending (revokeKeyMutation s) then ''settings.api_keys.revoke_dialog.revoking''
             else ''settings.api_keys.revoke_dialog.confirm''))]]]"

definition ApiKeysTab_view :: "(string \<Rightarrow> string) \<Rightarrow> apikeys_tab \<Rightarrow> apikeys_ev ui" where
  "ApiKeysTab_view toLocaleDateString s = Node ''div''
     [Node ''Card''
       [Node ''CardHeader'' [Say (tr ''settings.api_keys.title''), Say (tr ''settings.api_keys.description''),
          Button False OpenCreateKey [Say (tr ''settings.api_keys.create'')]],
        Node ''CardContent'' [apikeys_table toLocaleDateString s]],
      create_key_dialog s, revoke_key_dialog s]"

text \<open>The data of the list change on their own. The set \<open>dead\<close> has ids that the server reports as revoked
  whenever it lists them.\<close>

definition apikeys_env :: "string set \<Rightarrow> apikeys_tab \<Rightarrow> apikeys_tab \<Rightarrow> bool" where
  "apikeys_env dead s s' \<longleftrightarrow>
     (\<exists>q. s' = s\<lparr>apiKeysQuery := q\<rparr> \<and> list_all (\<lambda>k. key_id k \<in> dead \<longrightarrow> key_status k = ''revoked'') (data_or_empty (q_data q)))"

definition ApiKeysTab :: "(string \<Rightarrow> string) \<Rightarrow> string set \<Rightarrow> (apikeys_tab, apikeys_ev, apikeys_k) page" where
  "ApiKeysTab toLocaleDateString dead =
     \<lparr>pg_mount = (apikeys_init, [CallApi ''GET'' apikeys_path JUndef], []), pg_view = ApiKeysTab_view toLocaleDateString,
      pg_user = apikeys_user, pg_resume = apikeys_resume, pg_env = apikeys_env dead\<rparr>"

lemma ApiKeysTab_sel [simp]:
  "pg_mount (ApiKeysTab fmt dead) = (apikeys_init, [CallApi ''GET'' apikeys_path JUndef], [])"
  "pg_view (ApiKeysTab fmt dead) = ApiKeysTab_view fmt" "pg_user (ApiKeysTab fmt dead) = apikeys_user"
  "pg_resume (ApiKeysTab fmt dead) = apikeys_resume" "pg_env (ApiKeysTab fmt dead) = apikeys_env dead"
  by (simp_all add: ApiKeysTab_def)

subsection \<open>Invariant\<close>

definition apikeys_inv :: "string set \<Rightarrow> apikeys_tab \<Rightarrow> apikeys_k list \<Rightarrow> bool" where
  "apikeys_inv dead s ks \<longleftrightarrow>
     flags (isPending (createKeyMutation s)) (\<lambda>k. k = KCreateKey) ks \<and>
     flags (isPending (revokeKeyMutation s)) (\<lambda>k. k = KRevokeKey) ks \<and>
     (\<forall>k \<in> set (data_or_empty (q_data (apiKeysQuery s))). key_id k \<in> dead \<longrightarrow> key_status k = ''revoked'') \<and>
     (\<forall>k. revokeTarget s = Some k \<longrightarrow> key_id k \<notin> dead)"

text \<open>The events that need more than being an event of the tab.\<close>

fun apikeys_guard :: "apikeys_tab \<Rightarrow> apikeys_ev \<Rightarrow> bool" where
  "apikeys_guard s SubmitKey = (\<not> isPending (createKeyMutation s))"
| "apikeys_guard s ConfirmRevoke = (\<not> isPending (revokeKeyMutation s))"
| "apikeys_guard s (AskRevoke k) = (k \<in> set (data_or_empty (q_data (apiKeysQuery s))) \<and> key_status k \<noteq> ''revoked'')"
| "apikeys_guard s (CopyKey k) = (k = createdKey s)"
| "apikeys_guard s _ = True"

lemma apikeys_parts_guarded:
  "e \<in> events (apikey_row fmt k) \<Longrightarrow> e = AskRevoke k \<and> key_status k \<noteq> ''revoked''"
  "e \<in> events (create_key_dialog s) \<Longrightarrow> apikeys_guard s e"
  "e \<in> events (revoke_key_dialog s) \<Longrightarrow> apikeys_guard s e"
  by (auto simp: apikey_row_def create_key_dialog_def revoke_key_dialog_def split: option.splits if_splits)

lemma apikeys_table_guarded: "e \<in> events (apikeys_table fmt s) \<Longrightarrow> apikeys_guard s e"
  by (auto simp: apikeys_table_def Let_def dest: apikeys_parts_guarded(1) split: if_splits)

lemma apikeys_offered: "e \<in> events (ApiKeysTab_view fmt s) \<Longrightarrow> apikeys_guard s e"
  by (auto simp: ApiKeysTab_view_def dest: apikeys_parts_guarded(2,3) apikeys_table_guarded)

fun apikeys_cmd_ok :: "string set \<Rightarrow> cmd \<Rightarrow> bool" where
  "apikeys_cmd_ok dead (CallApi m p b) =
     ((m, p, b) = (''GET'', apikeys_path, JUndef) \<or>
      m = ''POST'' \<and> p = apikeys_path \<and> (\<exists>v. trim v \<noteq> '''' \<and> b = json_body [(''name'', JStr (trim v))]) \<or>
      m = ''DELETE'' \<and> b = JUndef \<and> (\<exists>i. p = apikeys_path @ ''/'' @ i \<and> i \<notin> dead))"
| "apikeys_cmd_ok dead _ = True"

lemma apikeys_user_inv:
  assumes "apikeys_inv dead s ks" and "apikeys_guard s e"
  shows "apikeys_inv dead (fst (apikeys_user e s)) (ks @ snd (snd (apikeys_user e s)))"
    and "list_all (apikeys_cmd_ok dead) (fst (snd (apikeys_user e s)))"
  using assms
  by (cases e; auto simp: apikeys_inv_def flags_def handleCreateKey_def revokeKey_def handleCloseCreatedKey_def
      split: option.splits if_splits)+

lemma apikeys_resume_inv:
  assumes "apikeys_inv dead s (ks1 @ k # ks2)"
  shows "apikeys_inv dead (fst (apikeys_resume k r s)) (ks1 @ ks2 @ snd (snd (apikeys_resume k r s)))"
    and "list_all (apikeys_cmd_ok dead) (fst (snd (apikeys_resume k r s)))"
  using assms
  by (cases k; cases r; auto simp: apikeys_inv_def flags_def handleCreateKey_done_def revokeKey_done_def copyToClipboard_done_def
      split: if_splits)+

lemma apikeys_mounted: "apikeys_inv dead apikeys_init []"
  by (simp add: apikeys_inv_def apikeys_init_def flags_def)

lemma apikeys_changed: "apikeys_inv dead s ks \<Longrightarrow> apikeys_env dead s s' \<Longrightarrow> apikeys_inv dead s' ks"
  by (auto simp: apikeys_inv_def apikeys_env_def list_all_iff)

interpretation apikeys: page_guarded "ApiKeysTab fmt dead" "apikeys_inv dead" apikeys_guard "apikeys_cmd_ok dead" for fmt dead
  by unfold_locales (simp_all add: apikeys_mounted apikeys_user_inv apikeys_resume_inv apikeys_changed, erule apikeys_offered)

text \<open>In every reachable state of the API keys tab at most one creation and one revocation are in flight,
  exactly while their buttons are disabled. Keys are created only under names that are not blank, trimmed, and no
  request asks to revoke a key that the server reports as revoked.\<close>

theorem apikeys_requests_sound:
  assumes "page_reach (ApiKeysTab fmt dead) (s, ks, out)"
  shows "waiting (\<lambda>k. k = KCreateKey) ks = (if isPending (createKeyMutation s) then 1 else 0) \<and>
    waiting (\<lambda>k. k = KRevokeKey) ks = (if isPending (revokeKeyMutation s) then 1 else 0) \<and>
    (\<forall>p b. CallApi ''POST'' p b \<in> set out \<longrightarrow>
       p = ''/v1/api-keys'' \<and> (\<exists>v. trim v \<noteq> '''' \<and> b = json_body [(''name'', JStr (trim v))])) \<and>
    (\<forall>i b. CallApi ''DELETE'' (''/v1/api-keys/'' @ i) b \<in> set out \<longrightarrow> i \<notin> dead)"
proof -
  have "p = ''/v1/api-keys'' \<and> (\<exists>v. trim v \<noteq> '''' \<and> b = json_body [(''name'', JStr (trim v))])"
    if "CallApi ''POST'' p b \<in> set out" for p b
    using apikeys.commands [OF assms that] by simp
  moreover have "i \<notin> dead" if "CallApi ''DELETE'' (''/v1/api-keys/'' @ i) b \<in> set out" for i b
    using apikeys.commands [OF assms that] by auto
  ultimately show ?thesis
    using apikeys.reachable [OF assms] by (auto simp: apikeys_inv_def flags_def)
qed

text \<open>A session: a key is created, then another one revoked; a third one is listed as revoked.\<close>

definition sample_key :: "string \<Rightarrow> string \<Rightarrow> api_key" where
  "sample_key i st = \<lparr>key_id = i, key_name = ''CI'', key_prefix = ''ot_'', key_status = st, key_created_at = ''2025-01-01'',
     key_last_used_at = None\<rparr>"

definition list_keys :: "apikeys_tab \<Rightarrow> apikeys_tab" where
  "list_keys s = s\<lparr>apiKeysQuery := q_success [sample_key ''a'' ''active'', sample_key ''b'' ''revoked'']\<rparr>"

definition apikeys_session :: "(apikeys_tab, apikeys_ev) act list" where
  "apikeys_session = [Change list_keys, Do OpenCreateKey, Do (SetKeyName ''ci ''), Do SubmitKey,
     Answer 0 (Inr (JObj [(''key'', JStr ''ot_secret'')])), Do CloseCreatedKey, Do (AskRevoke (sample_key ''a'' ''active'')), Do ConfirmRevoke]"

lemma apikeys_offers:
  "OpenCreateKey \<in> events (ApiKeysTab_view fmt s)"
  "showCreateKey s \<Longrightarrow> \<not> truthy (createdKey s) \<Longrightarrow> SetKeyName v \<in> events (ApiKeysTab_view fmt s)"
  "showCreateKey s \<Longrightarrow> \<not> truthy (createdKey s) \<Longrightarrow> \<not> isPending (createKeyMutation s) \<Longrightarrow> SubmitKey \<in> events (ApiKeysTab_view fmt s)"
  "showCreateKey s \<Longrightarrow> truthy (createdKey s) \<Longrightarrow> CloseCreatedKey \<in> events (ApiKeysTab_view fmt s)"
  "revokeTarget s \<noteq> None \<Longrightarrow> \<not> isPending (revokeKeyMutation s) \<Longrightarrow> ConfirmRevoke \<in> events (ApiKeysTab_view fmt s)"
  "apiKeysQuery s = q_success xs \<Longrightarrow> k \<in> set xs \<Longrightarrow> key_status k \<noteq> ''revoked'' \<Longrightarrow> AskRevoke k \<in> events (ApiKeysTab_view fmt s)"
  by (auto simp: ApiKeysTab_view_def create_key_dialog_def revoke_key_dialog_def apikeys_table_def apikey_row_def)

lemma apikeys_init_sel [simp]:
  "createKeyMutation apikeys_init = idle" "revokeKeyMutation apikeys_init = idle" "createdKey apikeys_init = JNull"
  by (simp_all add: apikeys_init_def)

lemma list_keys_sel [simp]:
  "apikeys_env {''b''} s (list_keys s)"
  "apiKeysQuery (list_keys s) = q_success [sample_key ''a'' ''active'', sample_key ''b'' ''revoked'']"
  "createKeyMutation (list_keys s) = createKeyMutation s" "revokeKeyMutation (list_keys s) = revokeKeyMutation s"
  "createdKey (list_keys s) = createdKey s"
  by (auto simp: apikeys_env_def list_keys_def sample_key_def)

lemma sample_key_sel [simp]: "key_id (sample_key i st) = i" "key_status (sample_key i st) = st"
  by (simp_all add: sample_key_def)

lemma apikeys_session_reach:
  "\<exists>s out. page_reach (ApiKeysTab fmt {''b''}) (s, [KRevokeKey], out) \<and> isPending (revokeKeyMutation s) \<and>
     CallApi ''POST'' ''/v1/api-keys'' (json_body [(''name'', JStr ''ci'')]) \<in> set out \<and>
     CallApi ''DELETE'' ''/v1/api-keys/a'' JUndef \<in> set out"
proof -
  have t: "trim ''ci '' = ''ci''" by (simp add: trim_def is_ws_def)
  have "\<exists>s out. page_play (ApiKeysTab fmt {''b''}) apikeys_session (apikeys_init, [], [CallApi ''GET'' apikeys_path JUndef]) =
     Some (s, [KRevokeKey], out) \<and> isPending (revokeKeyMutation s) \<and>
     CallApi ''POST'' ''/v1/api-keys'' (json_body [(''name'', JStr ''ci'')]) \<in> set out \<and>
     CallApi ''DELETE'' ''/v1/api-keys/a'' JUndef \<in> set out"
    by (simp add: apikeys_offers t apikeys_session_def handleCreateKey_def handleCreateKey_done_def handleCloseCreatedKey_def
        revokeKey_def nullish_def jprop_def)
  then show ?thesis using page_play_mount [OF ApiKeysTab_sel(1)] by blast
qed

theorem apikeys_requests_sound_witness:
  "\<exists>s out. page_reach (ApiKeysTab id {''b''}) (s, [KRevokeKey], out) \<and> isPending (revokeKeyMutation s) \<and>
     CallApi ''DELETE'' ''/v1/api-keys/a'' JUndef \<in> set out \<and> CallApi ''DELETE'' ''/v1/api-keys/b'' JUndef \<notin> set out"
proof -
  obtain s out where r: "page_reach (ApiKeysTab id {''b''}) (s, [KRevokeKey], out)" and p: "isPending (revokeKeyMutation s)"
    and c: "CallApi ''DELETE'' ''/v1/api-keys/a'' JUndef \<in> set out"
    using apikeys_session_reach by blast
  have "CallApi ''DELETE'' (''/v1/api-keys/'' @ ''b'') JUndef \<notin> set out"
    using apikeys_requests_sound [OF r] by blast
  with r p c show ?thesis by auto
qed

text \<open>A new key is not lost: the server shows it once, and from the answer on the dialog shows it whenever it is
  open, offers to copy it and no longer offers the form, also when the dialog was cancelled while the request was under
  way.\<close>

lemma texts_Dialog [simp]:
  "texts (Dialog is_open e title descr us) =
     (if is_open then (if title \<noteq> [] then [title] else []) @ (if descr \<noteq> [] then [descr] else []) @ concat (map texts us) else [])"
  by (simp add: Dialog_def)

lemma created_key_view:
  assumes "createdKey s = JStr key" and "key \<noteq> ''''" and "showCreateKey s"
  shows "[Lit key] \<in> set (texts (ApiKeysTab_view fmt s))" and "CopyKey (JStr key) \<in> events (ApiKeysTab_view fmt s)"
    and "SubmitKey \<notin> events (ApiKeysTab_view fmt s)"
proof -
  show "[Lit key] \<in> set (texts (ApiKeysTab_view fmt s))" "CopyKey (JStr key) \<in> events (ApiKeysTab_view fmt s)"
    using assms by (simp_all add: ApiKeysTab_view_def create_key_dialog_def)
  have "SubmitKey \<notin> events (apikeys_table fmt s)" by (auto simp: apikeys_table_def Let_def apikey_row_def)
  then show "SubmitKey \<notin> events (ApiKeysTab_view fmt s)"
    using assms by (simp add: ApiKeysTab_view_def create_key_dialog_def revoke_key_dialog_def)
qed

theorem created_key_shown:
  assumes "apikeys_resume KCreateKey (Inr (JObj ps)) s = (s1, cs1, ks1)" and "map_of ps ''key'' = Some (JStr key)" and "key \<noteq> ''''"
    and "apikeys_user OpenCreateKey s1 = (s2, cs2, ks2)"
  shows "[Lit key] \<in> set (texts (ApiKeysTab_view fmt s2)) \<and> CopyKey (JStr key) \<in> events (ApiKeysTab_view fmt s2) \<and>
    SubmitKey \<notin> events (ApiKeysTab_view fmt s2)"
proof -
  have "createdKey s2 = JStr key" "showCreateKey s2"
    using assms by (auto simp: handleCreateKey_done_def nullish_def jprop_def)
  with assms(3) show ?thesis using created_key_view by blast
qed

section \<open>Security\<close>

record security_tab =
  enrolling :: bool
  secret :: json
  qrCodeUrl :: json
  verifyCode :: string
  verifying :: bool
  disabling :: bool
  mfaEnabled :: bool

text \<open>The last field is not the tab's: it is \<open>user?.mfa_enabled ?? false\<close> of the auth store.\<close>

definition security_init :: "bool \<Rightarrow> security_tab" where
  "security_init mfa = \<lparr>enrolling = False, secret = JStr '''', qrCodeUrl = JStr '''', verifyCode = '''', verifying = False,
     disabling = False, mfaEnabled = mfa\<rparr>"

datatype security_ev = EnrollMFA | SetCode string | VerifyMFA | DisableMFA

datatype security_k = KEnroll | KVerify | KVerifyUser | KDisable | KDisableUser

definition mfa_of :: "json \<Rightarrow> bool" where
  "mfa_of user = truthy (coalesce (jprop user ''mfa_enabled'') (JBool False))"

text \<open>\<open>fetchUser\<close> of the store: it asks for the user and never rejects; a failure leaves no user.\<close>

abbreviation fetchUser_call :: cmd where
  "fetchUser_call \<equiv> CallApi ''GET'' ''/v1/auth/me'' JUndef"

definition fetchUser_done :: "result \<Rightarrow> security_tab \<Rightarrow> security_tab" where
  "fetchUser_done r s = s\<lparr>mfaEnabled := case r of Inl err \<Rightarrow> False | Inr user \<Rightarrow> mfa_of user\<rparr>"

definition handleEnrollMFA :: "security_tab \<Rightarrow> (security_tab, security_k) effect" where
  "handleEnrollMFA s = (s\<lparr>enrolling := True\<rparr>, [CallApi ''GET'' ''/v1/auth/mfa/enroll'' JUndef], [KEnroll])"

definition handleEnrollMFA_done :: "result \<Rightarrow> security_tab \<Rightarrow> (security_tab, security_k) effect" where
  "handleEnrollMFA_done r s =
     (let failed = (s\<lparr>enrolling := False\<rparr>, [ShowToast (tr ''settings.security.enroll_failed'') ''error''], []) in
      case r of
        Inl err \<Rightarrow> failed
      | Inr data \<Rightarrow>
          if nullish data then failed
          else (s\<lparr>secret := jprop data ''secret'', qrCodeUrl := jprop data ''qr_code_url'', enrolling := False\<rparr>, [], []))"

definition handleVerifyMFA :: "security_tab \<Rightarrow> (security_tab, security_k) effect" where
  "handleVerifyMFA s =
     (if verifyCode s = '''' \<or> length (verifyCode s) \<noteq> 6 then (s, [], [])
      else (s\<lparr>verifying := True\<rparr>,
        [CallApi ''POST'' ''/v1/auth/mfa/verify'' (json_body [(''code'', JStr (verifyCode s))])], [KVerify]))"

definition handleVerifyMFA_done :: "result \<Rightarrow> security_tab \<Rightarrow> (security_tab, security_k) effect" where
  "handleVerifyMFA_done r s =
     (let failed = (s\<lparr>verifying := False\<rparr>, [ShowToast (tr ''settings.security.verify_failed'') ''error''], []) in
      case r of
        Inl err \<Rightarrow> failed
      | Inr data \<Rightarrow>
          if truthy (jprop data ''success'')
          then (s\<lparr>secret := JStr '''', qrCodeUrl := JStr '''', verifyCode := ''''\<rparr>,
            [ShowToast (tr ''settings.security.mfa_enabled'') ''success'', fetchUser_call], [KVerifyUser])
          else failed)"

definition handleDisableMFA :: "security_tab \<Rightarrow> (security_tab, security_k) effect" where
  "handleDisableMFA s = (s\<lparr>disabling := True\<rparr>, [CallApi ''POST'' ''/v1/auth/mfa/disable'' JUndef], [KDisable])"

definition handleDisableMFA_done :: "result \<Rightarrow> security_tab \<Rightarrow> (security_tab, security_k) effect" where
  "handleDisableMFA_done r s =
     (case r of
        Inl err \<Rightarrow> (s\<lparr>disabling := False\<rparr>, [ShowToast (tr ''settings.security.disable_failed'') ''error''], [])
      | Inr data \<Rightarrow> (s, [ShowToast (tr ''settings.security.mfa_disabled'') ''success'', fetchUser_call], [KDisableUser]))"

fun security_user :: "security_ev \<Rightarrow> security_tab \<Rightarrow> (security_tab, security_k) effect" where
  "security_user EnrollMFA s = handleEnrollMFA s"
| "security_user (SetCode v) s = (s\<lparr>verifyCode := filter is_digit v\<rparr>, [], [])"
| "security_user VerifyMFA s = handleVerifyMFA s"
| "security_user DisableMFA s = handleDisableMFA s"

text \<open>After the second \<open>await\<close> of the two handlers only \<open>finally\<close> is left.\<close>

fun security_resume :: "security_k \<Rightarrow> result \<Rightarrow> security_tab \<Rightarrow> (security_tab, security_k) effect" where
  "security_resume KEnroll r s = handleEnrollMFA_done r s"
| "security_resume KVerify r s = handleVerifyMFA_done r s"
| "security_resume KVerifyUser r s = ((fetchUser_done r s)\<lparr>verifying := False\<rparr>, [], [])"
| "security_resume KDisable r s = handleDisableMFA_done r s"
| "security_resume KDisableUser r s = ((fetchUser_done r s)\<lparr>disabling := False\<rparr>, [], [])"

subsection \<open>View\<close>

definition enroll_panel :: "security_tab \<Rightarrow> security_ev ui" where
  "enroll_panel s = Node ''div''
     [Node ''p'' [Say (tr ''settings.security.scan_qr'')],
      Node ''pre'' [Say [Lit (js_string (qrCodeUrl s))]],
      Node ''p'' [Say [Tr ''settings.security.manual_secret'' [], Lit '': ''], Node ''code'' [Say [Lit (js_string (secret s))]]],
      Node ''div''
       [Input (tr ''settings.security.verify_code'') (verifyCode s) [] False SetCode,
        Button (verifying s \<or> length (verifyCode s) \<noteq> 6) VerifyMFA
          [Say (tr (if verifying s then ''settings.security.verifying'' else ''settings.security.verify''))]]]"

definition SecurityTab_view :: "security_tab \<Rightarrow> security_ev ui" where
  "SecurityTab_view s = Node ''Card''
     [Node ''CardHeader'' [Say (tr ''settings.security.title''), Say (tr ''settings.security.description'')],
      Node ''CardContent''
       [Node ''div''
         [Node ''p'' [Say (tr ''settings.security.mfa_status'')],
          Node ''p'' [Say (tr (if mfaEnabled s then ''settings.security.mfa_enabled_desc'' else ''settings.security.mfa_disabled_desc''))],
          Node ''Badge'' [Say (tr (if mfaEnabled s then ''settings.security.enabled'' else ''settings.security.disabled''))]],
        if mfaEnabled s
        then Button (disabling s) DisableMFA
          [Say (tr (if disabling s then ''settings.security.disabling'' else ''settings.security.disable''))]
        else if \<not> truthy (secret s)
        then Button (enrolling s) EnrollMFA
          [Say (tr (if enrolling s then ''settings.security.enrolling'' else ''settings.security.enable_mfa''))]
        else enroll_panel s]]"

definition security_env :: "security_tab \<Rightarrow> security_tab \<Rightarrow> bool" where
  "security_env s s' \<longleftrightarrow> (\<exists>b. s' = s\<lparr>mfaEnabled := b\<rparr>)"

definition SecurityTab :: "bool \<Rightarrow> (security_tab, security_ev, security_k) page" where
  "SecurityTab mfa = \<lparr>pg_mount = (security_init mfa, [], []), pg_view = SecurityTab_view, pg_user = security_user,
     pg_resume = security_resume, pg_env = security_env\<rparr>"

lemma SecurityTab_sel [simp]:
  "pg_mount (SecurityTab mfa) = (security_init mfa, [], [])" "pg_view (SecurityTab mfa) = SecurityTab_view"
  "pg_user (SecurityTab mfa) = security_user" "pg_resume (SecurityTab mfa) = security_resume"
  "pg_env (SecurityTab mfa) = security_env"
  by (simp_all add: SecurityTab_def)

subsection \<open>Invariant\<close>

fun security_guard :: "security_tab \<Rightarrow> security_ev \<Rightarrow> bool" where
  "security_guard s EnrollMFA = (\<not> enrolling s \<and> \<not> mfaEnabled s \<and> \<not> truthy (secret s))"
| "security_guard s (SetCode v) = (\<not> mfaEnabled s \<and> truthy (secret s))"
| "security_guard s VerifyMFA = (\<not> verifying s \<and> length (verifyCode s) = 6 \<and> \<not> mfaEnabled s \<and> truthy (secret s))"
| "security_guard s DisableMFA = (\<not> disabling s \<and> mfaEnabled s)"

definition security_inv :: "security_tab \<Rightarrow> security_k list \<Rightarrow> bool" where
  "security_inv s ks \<longleftrightarrow>
     flags (enrolling s) (\<lambda>k. k = KEnroll) ks \<and>
     flags (verifying s) (\<lambda>k. k = KVerify \<or> k = KVerifyUser) ks \<and>
     flags (disabling s) (\<lambda>k. k = KDisable \<or> k = KDisableUser) ks \<and>
     list_all is_digit (verifyCode s)"

fun security_cmd_ok :: "cmd \<Rightarrow> bool" where
  "security_cmd_ok (CallApi m p b) =
     ((m, p, b) \<in> {(''GET'', ''/v1/auth/me'', JUndef), (''GET'', ''/v1/auth/mfa/enroll'', JUndef), (''POST'', ''/v1/auth/mfa/disable'', JUndef)} \<or>
      m = ''POST'' \<and> p = ''/v1/auth/mfa/verify'' \<and>
      (\<exists>code. length code = 6 \<and> list_all is_digit code \<and> b = json_body [(''code'', JStr code)]))"
| "security_cmd_ok _ = True"

lemma security_offered: "e \<in> events (SecurityTab_view s) \<Longrightarrow> security_guard s e"
  by (auto simp: SecurityTab_view_def enroll_panel_def split: if_splits)

lemmas security_handlers = handleEnrollMFA_def handleEnrollMFA_done_def handleVerifyMFA_def handleVerifyMFA_done_def
  handleDisableMFA_def handleDisableMFA_done_def fetchUser_done_def Let_def

lemma security_user_inv:
  assumes "security_inv s ks" and "security_guard s e"
  shows "security_inv (fst (security_user e s)) (ks @ snd (snd (security_user e s)))"
    and "list_all security_cmd_ok (fst (snd (security_user e s)))"
  using assms by (cases e; auto simp: security_inv_def flags_def security_handlers list_all_iff)+

lemma security_resume_inv:
  assumes "security_inv s (ks1 @ k # ks2)"
  shows "security_inv (fst (security_resume k r s)) (ks1 @ ks2 @ snd (snd (security_resume k r s)))"
    and "list_all security_cmd_ok (fst (snd (security_resume k r s)))"
  using assms by (cases k; cases r; auto simp: security_inv_def flags_def security_handlers split: if_splits)+

lemma security_mounted: "security_inv (security_init mfa) []"
  by (simp add: security_inv_def security_init_def flags_def)

lemma security_changed: "security_inv s ks \<Longrightarrow> security_env s s' \<Longrightarrow> security_inv s' ks"
  by (auto simp: security_inv_def security_env_def)

interpretation security: page_guarded "SecurityTab mfa" security_inv security_guard security_cmd_ok for mfa
  by unfold_locales (simp_all add: security_mounted security_user_inv security_resume_inv security_changed, erule security_offered)

text \<open>In every reachable state of the security tab at most one enrolment, one verification and one
  deactivation are under way, exactly while their buttons are disabled - the verification and the deactivation until the
  user has been loaded again - and every code that is sent to be verified has six digits.\<close>

theorem mfa_requests_sound:
  assumes "page_reach (SecurityTab mfa) (s, ks, out)"
  shows "waiting (\<lambda>k. k = KEnroll) ks = (if enrolling s then 1 else 0) \<and>
    waiting (\<lambda>k. k = KVerify \<or> k = KVerifyUser) ks = (if verifying s then 1 else 0) \<and>
    waiting (\<lambda>k. k = KDisable \<or> k = KDisableUser) ks = (if disabling s then 1 else 0) \<and>
    (\<forall>m b. CallApi m ''/v1/auth/mfa/verify'' b \<in> set out \<longrightarrow>
       (\<exists>code. length code = 6 \<and> list_all is_digit code \<and> b = json_body [(''code'', JStr code)]))"
proof -
  have "\<exists>code. length code = 6 \<and> list_all is_digit code \<and> b = json_body [(''code'', JStr code)]"
    if "CallApi m ''/v1/auth/mfa/verify'' b \<in> set out" for m b
    using security.commands [OF assms that] by simp
  then show ?thesis using security.reachable [OF assms] by (auto simp: security_inv_def flags_def)
qed

lemma security_offers:
  "\<not> mfaEnabled s \<Longrightarrow> \<not> truthy (secret s) \<Longrightarrow> \<not> enrolling s \<Longrightarrow> EnrollMFA \<in> events (SecurityTab_view s)"
  "\<not> mfaEnabled s \<Longrightarrow> truthy (secret s) \<Longrightarrow> SetCode v \<in> events (SecurityTab_view s)"
  "\<not> mfaEnabled s \<Longrightarrow> truthy (secret s) \<Longrightarrow> \<not> verifying s \<Longrightarrow> length (verifyCode s) = 6 \<Longrightarrow> VerifyMFA \<in> events (SecurityTab_view s)"
  "mfaEnabled s \<Longrightarrow> \<not> disabling s \<Longrightarrow> DisableMFA \<in> events (SecurityTab_view s)"
  by (simp_all add: SecurityTab_view_def enroll_panel_def)

definition enrolled_answer :: result where
  "enrolled_answer = Inr (JObj [(''secret'', JStr ''ABC''), (''qr_code_url'', JStr ''otpauth://totp'')])"

lemma enrolled_answer_done:
  "handleEnrollMFA_done enrolled_answer s = (s\<lparr>secret := JStr ''ABC'', qrCodeUrl := JStr ''otpauth://totp'', enrolling := False\<rparr>, [], [])"
  by (simp add: handleEnrollMFA_done_def enrolled_answer_def Let_def nullish_def jprop_def)

theorem mfa_requests_sound_witness:
  "\<exists>s out. page_reach (SecurityTab False) (s, [KVerify], out) \<and> verifying s \<and>
     CallApi ''POST'' ''/v1/auth/mfa/verify'' (json_body [(''code'', JStr ''012345'')]) \<in> set out"
proof -
  let ?play = "[Do EnrollMFA, Answer 0 enrolled_answer, Do (SetCode ''012 345''), Do VerifyMFA]"
  have f: "filter is_digit ''012 345'' = ''012345''" by (simp add: is_digit_def)
  have "\<exists>s out. page_play (SecurityTab False) ?play (security_init False, [], []) = Some (s, [KVerify], out) \<and>
     CallApi ''POST'' ''/v1/auth/mfa/verify'' (json_body [(''code'', JStr ''012345'')]) \<in> set out"
    by (simp add: security_offers security_init_def handleEnrollMFA_def enrolled_answer_done handleVerifyMFA_def f del: filter.simps)
  then obtain s out where "page_reach (SecurityTab False) (s, [KVerify], out)"
    and "CallApi ''POST'' ''/v1/auth/mfa/verify'' (json_body [(''code'', JStr ''012345'')]) \<in> set out"
    using page_play_mount [OF SecurityTab_sel(1)] by blast
  moreover from mfa_requests_sound [OF this(1)] have "verifying s" by (simp split: if_splits)
  ultimately show ?thesis by blast
qed

text \<open>The outcome of a verification. If the server confirms the code, the secret, its address and the code are
  forgotten and the user is asked for, and with the answer the tab shows whether the second factor is on and is ready
  again; otherwise an error is shown, the secret stays on display and the code can be tried again.\<close>

theorem mfa_verify_outcome:
  assumes "security_resume KVerify r s = (s1, cs, ks)"
  shows "if \<exists>data. r = Inr data \<and> truthy (jprop data ''success'')
    then secret s1 = JStr '''' \<and> qrCodeUrl s1 = JStr '''' \<and> verifyCode s1 = '''' \<and> verifying s1 = verifying s \<and>
      filter is_call cs = [CallApi ''GET'' ''/v1/auth/me'' JUndef] \<and> ks = [KVerifyUser] \<and>
      (\<forall>user s2. mfaEnabled (fst (security_resume KVerifyUser (Inr user) s2)) = mfa_of user \<and>
         \<not> verifying (fst (security_resume KVerifyUser (Inr user) s2)))
    else s1 = s\<lparr>verifying := False\<rparr> \<and> cs = [ShowToast (tr ''settings.security.verify_failed'') ''error''] \<and> ks = []"
  using assms by (cases r) (auto simp: handleVerifyMFA_done_def Let_def fetchUser_done_def split: if_splits)

theorem mfa_verify_outcome_witness:
  "\<exists>s1 cs ks. security_resume KVerify (Inr (JObj [(''success'', JBool True)])) (security_init False) = (s1, cs, ks) \<and>
     secret s1 = JStr '''' \<and> ks = [KVerifyUser]"
proof -
  obtain s1 cs ks where r: "security_resume KVerify (Inr (JObj [(''success'', JBool True)])) (security_init False) = (s1, cs, ks)"
    by (metis surj_pair)
  have "truthy (jprop (JObj [(''success'', JBool True)]) ''success'')" by (simp add: jprop_def)
  with mfa_verify_outcome [OF r] r show ?thesis by auto
qed

section \<open>Members\<close>

record members_tab =
  invitationsQuery :: "invitation list query"
  generating :: bool
  copied :: "string option"

definition members_init :: members_tab where
  "members_init = \<lparr>invitationsQuery = q_pending, generating = False, copied = None\<rparr>"

datatype members_ev = GenerateLink | CopyLink string | DeleteInvitation string

datatype members_k = KGenerate | KDeleteInv | KLinkCopied string | KLinkReset

abbreviation INVITATIONS_KEY :: "string list" where
  "INVITATIONS_KEY \<equiv> [''invitations'']"

abbreviation invitations_path :: string where
  "invitations_path \<equiv> ''/v1/org/invitations''"

definition generateLink :: "members_tab \<Rightarrow> (members_tab, members_k) effect" where
  "generateLink s = (s\<lparr>generating := True\<rparr>,
     [CallApi ''POST'' invitations_path (json_body [(''max_uses'', JNum 0), (''expires_in'', JNum (86400 * 7))])], [KGenerate])"

definition generateLink_done :: "result \<Rightarrow> members_tab \<Rightarrow> (members_tab, members_k) effect" where
  "generateLink_done r s = (s\<lparr>generating := False\<rparr>,
     (case r of
        Inl err \<Rightarrow> []
      | Inr v \<Rightarrow> [Invalidate INVITATIONS_KEY, ShowToast (tr ''invitations.generate'') ''success'']), [])"

definition deleteInvitation_done :: "result \<Rightarrow> members_tab \<Rightarrow> (members_tab, members_k) effect" where
  "deleteInvitation_done r s = (s,
     (case r of
        Inl err \<Rightarrow> []
      | Inr v \<Rightarrow> [Invalidate INVITATIONS_KEY, ShowToast (tr ''invitations.deleted'') ''success'']), [])"

definition invitation_link :: "string \<Rightarrow> string \<Rightarrow> string" where
  "invitation_link origin code = origin @ ''/join?code='' @ code"

definition copyLink_done :: "string \<Rightarrow> result \<Rightarrow> members_tab \<Rightarrow> (members_tab, members_k) effect" where
  "copyLink_done code r s =
     (case r of
        Inl err \<Rightarrow> (s, [], [])
      | Inr v \<Rightarrow> (s\<lparr>copied := Some code\<rparr>, [ShowToast (tr ''invitations.link_copied'') ''default''], [KLinkReset]))"

fun members_user :: "string \<Rightarrow> members_ev \<Rightarrow> members_tab \<Rightarrow> (members_tab, members_k) effect" where
  "members_user origin GenerateLink s = generateLink s"
| "members_user origin (CopyLink code) s = (s, [CopyText (invitation_link origin code)], [KLinkCopied code])"
| "members_user origin (DeleteInvitation i) s = (s, [CallApi ''DELETE'' (invitations_path @ ''/'' @ i) JUndef], [KDeleteInv])"

fun members_resume :: "members_k \<Rightarrow> result \<Rightarrow> members_tab \<Rightarrow> (members_tab, members_k) effect" where
  "members_resume KGenerate r s = generateLink_done r s"
| "members_resume KDeleteInv r s = deleteInvitation_done r s"
| "members_resume (KLinkCopied code) r s = copyLink_done code r s"
| "members_resume KLinkReset r s = (s\<lparr>copied := None\<rparr>, [], [])"

definition invitation_row :: "(string \<Rightarrow> string) \<Rightarrow> members_tab \<Rightarrow> invitation \<Rightarrow> members_ev ui" where
  "invitation_row toLocaleDateString s v = Node ''TableRow''
     [Node ''TableCell'' [Button False (CopyLink (inv_code v))
        [Node ''code'' [Say [Lit (inv_code v)]], Node (if copied s = Some (inv_code v) then ''Check'' else ''Copy'') []]],
      Node ''TableCell''
       [if inv_max_uses v = 0 then Say (tr ''invitations.unlimited_uses'')
        else Say [Lit (int_string (inv_use_count v) @ '' / '' @ int_string (inv_max_uses v))]],
      Node ''TableCell''
       [if present (inv_expires_at v) then Say [Lit (toLocaleDateString (the (inv_expires_at v)))]
        else Say (tr ''invitations.never_expires'')],
      Node ''TableCell'' [Button False (DeleteInvitation (inv_id v)) []]]"

definition MembersTab_view :: "(string \<Rightarrow> string) \<Rightarrow> members_tab \<Rightarrow> members_ev ui" where
  "MembersTab_view toLocaleDateString s =
     (let invitations = data_or_empty (q_data (invitationsQuery s)) in
      Node ''Card''
       [Node ''CardHeader''
         [Say (tr ''invitations.active_links''), Say (tr ''settings.members.description''),
          Button (generating s) GenerateLink [Say (tr (if generating s then ''invitations.generating'' else ''invitations.generate''))]],
        Node ''CardContent''
         [if q_isLoading (invitationsQuery s) then Node ''Skeleton'' []
          else if invitations = [] then Node ''div'' [Node ''p'' [Say (tr ''invitations.no_invites'')]]
          else Node ''Table''
           [head_row [''invitations.copy_link'', ''invitations.uses'', ''invitations.expires'', ''tunnels.table.actions''],
            Node ''TableBody'' (map (invitation_row toLocaleDateString s) invitations)]]])"

definition members_env :: "members_tab \<Rightarrow> members_tab \<Rightarrow> bool" where
  "members_env s s' \<longleftrightarrow> (\<exists>q. s' = s\<lparr>invitationsQuery := q\<rparr>)"

definition MembersTab :: "string \<Rightarrow> (string \<Rightarrow> string) \<Rightarrow> (members_tab, members_ev, members_k) page" where
  "MembersTab origin toLocaleDateString =
     \<lparr>pg_mount = (members_init, [CallApi ''GET'' invitations_path JUndef], []), pg_view = MembersTab_view toLocaleDateString,
      pg_user = members_user origin, pg_resume = members_resume, pg_env = members_env\<rparr>"

lemma MembersTab_sel [simp]:
  "pg_mount (MembersTab origin fmt) = (members_init, [CallApi ''GET'' invitations_path JUndef], [])"
  "pg_view (MembersTab origin fmt) = MembersTab_view fmt" "pg_user (MembersTab origin fmt) = members_user origin"
  "pg_resume (MembersTab origin fmt) = members_resume" "pg_env (MembersTab origin fmt) = members_env"
  by (simp_all add: MembersTab_def)

definition members_inv :: "members_tab \<Rightarrow> members_k list \<Rightarrow> bool" where
  "members_inv s ks \<longleftrightarrow> flags (generating s) (\<lambda>k. k = KGenerate) ks"

fun members_guard :: "members_tab \<Rightarrow> members_ev \<Rightarrow> bool" where
  "members_guard s GenerateLink = (\<not> generating s)"
| "members_guard s (CopyLink code) = (code \<in> inv_code ` set (data_or_empty (q_data (invitationsQuery s))))"
| "members_guard s (DeleteInvitation i) = (i \<in> inv_id ` set (data_or_empty (q_data (invitationsQuery s))))"

fun members_cmd_ok :: "string \<Rightarrow> cmd \<Rightarrow> bool" where
  "members_cmd_ok origin (CopyText txt) = (\<exists>code. txt = invitation_link origin code)"
| "members_cmd_ok origin _ = True"

lemma members_offered: "e \<in> events (MembersTab_view fmt s) \<Longrightarrow> members_guard s e"
  by (auto simp: MembersTab_view_def invitation_row_def Let_def split: if_splits)

lemma members_user_inv:
  assumes "members_inv s ks" and "members_guard s e"
  shows "members_inv (fst (members_user origin e s)) (ks @ snd (snd (members_user origin e s)))"
    and "list_all (members_cmd_ok origin) (fst (snd (members_user origin e s)))"
  using assms by (cases e; auto simp: members_inv_def flags_def generateLink_def)+

lemma members_resume_inv:
  assumes "members_inv s (ks1 @ k # ks2)"
  shows "members_inv (fst (members_resume k r s)) (ks1 @ ks2 @ snd (snd (members_resume k r s)))"
    and "list_all (members_cmd_ok origin) (fst (snd (members_resume k r s)))"
  using assms by (cases k; cases r; auto simp: members_inv_def flags_def generateLink_done_def deleteInvitation_done_def
      copyLink_done_def split: if_splits)+

lemma members_mounted: "members_inv members_init []"
  by (simp add: members_inv_def members_init_def flags_def)

lemma members_changed: "members_inv s ks \<Longrightarrow> members_env s s' \<Longrightarrow> members_inv s' ks"
  by (auto simp: members_inv_def members_env_def)

interpretation members: page_guarded "MembersTab origin fmt" members_inv members_guard "members_cmd_ok origin" for origin fmt
  by unfold_locales (simp_all add: members_mounted members_user_inv members_resume_inv members_changed, erule members_offered)

section \<open>Sessions\<close>

record sessions_tab =
  sessionsQuery :: "session list query"
  revokeMutation :: mutation
  sessionTarget :: "string option"

definition sessions_init :: sessions_tab where
  "sessions_init = \<lparr>sessionsQuery = q_pending, revokeMutation = idle, sessionTarget = None\<rparr>"

datatype sessions_ev = AskRevokeSession string | CancelRevokeSession | RevokeSession

datatype sessions_k = KRevokeSession

abbreviation SESSIONS_KEY :: "string list" where
  "SESSIONS_KEY \<equiv> [''sessions'']"

abbreviation sessions_path :: string where
  "sessions_path \<equiv> ''/v1/sessions''"

definition handleRevoke :: "sessions_tab \<Rightarrow> (sessions_tab, sessions_k) effect" where
  "handleRevoke s =
     (if \<not> present (sessionTarget s) then (s, [], [])
      else (s\<lparr>revokeMutation := mutate\<rparr>, [CallApi ''DELETE'' (sessions_path @ ''/'' @ the (sessionTarget s)) JUndef], [KRevokeSession]))"

definition handleRevoke_done :: "result \<Rightarrow> sessions_tab \<Rightarrow> (sessions_tab, sessions_k) effect" where
  "handleRevoke_done r s =
     (case r of
        Inl err \<Rightarrow> (s\<lparr>revokeMutation := settled r\<rparr>, [], [])
      | Inr v \<Rightarrow> (s\<lparr>revokeMutation := settled r, sessionTarget := None\<rparr>,
          [Invalidate SESSIONS_KEY, ShowToast (tr ''sessions.revoked'') ''success''], []))"

fun sessions_user :: "sessions_ev \<Rightarrow> sessions_tab \<Rightarrow> (sessions_tab, sessions_k) effect" where
  "sessions_user (AskRevokeSession i) s = (s\<lparr>sessionTarget := Some i\<rparr>, [], [])"
| "sessions_user CancelRevokeSession s = (s\<lparr>sessionTarget := None\<rparr>, [], [])"
| "sessions_user RevokeSession s = handleRevoke s"

fun sessions_resume :: "sessions_k \<Rightarrow> result \<Rightarrow> sessions_tab \<Rightarrow> (sessions_tab, sessions_k) effect" where
  "sessions_resume KRevokeSession r s = handleRevoke_done r s"

definition session_row :: "(string \<Rightarrow> string) \<Rightarrow> session \<Rightarrow> sessions_ev ui" where
  "session_row toLocaleString x = Node ''TableRow''
     [Node ''TableCell'' [Node ''div''
        [Node ''span'' [Say [Lit (session_browser x @ '' / '' @ session_os x)]],
         only_if (session_current x) (Node ''Badge'' [Say (tr ''sessions.current_session'')])]],
      Node ''TableCell'' [Say [Lit (or_dash (session_ip x))]],
      Node ''TableCell'' [Say [Lit (or_dash (session_location x))]],
      Node ''TableCell'' [Say [Lit (toLocaleString (session_last_active x))]],
      Node ''TableCell'' [only_if (\<not> session_current x) (Button False (AskRevokeSession (session_id x)) [])]]"

definition revoke_session_dialog :: "sessions_tab \<Rightarrow> sessions_ev ui" where
  "revoke_session_dialog s = Dialog (present (sessionTarget s)) CancelRevokeSession (tr ''sessions.revoke'') (tr ''sessions.revoke_confirm'')
     [Node ''div''
       [Button False CancelRevokeSession [Say (tr ''common.cancel'')],
        Button (isPending (revokeMutation s)) RevokeSession
          [Say (tr (if isPending (revokeMutation s) then ''sessions.revoking'' else ''sessions.revoke''))]]]"

definition SessionsTab_view :: "(string \<Rightarrow> string) \<Rightarrow> sessions_tab \<Rightarrow> sessions_ev ui" where
  "SessionsTab_view toLocaleString s =
     (let q = sessionsQuery s; sessions = data_or_empty (q_data q) in
      Node ''Card''
       [Node ''CardHeader'' [Say (tr ''sessions.title''), Say (tr ''sessions.subtitle'')],
        Node ''CardContent''
         [if q_isLoading q then Node ''div'' []
          else if q_isError q then failed_load ''sessions.failed_load'' []
          else if sessions = [] then Node ''div'' [Node ''p'' [Say (tr ''sessions.no_sessions'')]]
          else Node ''Table''
           [head_row [''sessions.table.browser'', ''sessions.table.ip'', ''sessions.table.location'', ''sessions.table.last_active'',
              ''sessions.table.actions''],
            Node ''TableBody'' (map (session_row toLocaleString) sessions)]],
        revoke_session_dialog s])"

text \<open>The data of the list change on their own; \<open>cur\<close> is the session the tab runs in, which the server marks as
  the current one whenever it lists it.\<close>

definition sessions_env :: "string \<Rightarrow> sessions_tab \<Rightarrow> sessions_tab \<Rightarrow> bool" where
  "sessions_env cur s s' \<longleftrightarrow>
     (\<exists>q. s' = s\<lparr>sessionsQuery := q\<rparr> \<and> list_all (\<lambda>x. session_id x = cur \<longrightarrow> session_current x) (data_or_empty (q_data q)))"

definition SessionsTab :: "(string \<Rightarrow> string) \<Rightarrow> string \<Rightarrow> (sessions_tab, sessions_ev, sessions_k) page" where
  "SessionsTab toLocaleString cur =
     \<lparr>pg_mount = (sessions_init, [CallApi ''GET'' sessions_path JUndef], []), pg_view = SessionsTab_view toLocaleString,
      pg_user = sessions_user, pg_resume = sessions_resume, pg_env = sessions_env cur\<rparr>"

lemma SessionsTab_sel [simp]:
  "pg_mount (SessionsTab fmt cur) = (sessions_init, [CallApi ''GET'' sessions_path JUndef], [])"
  "pg_view (SessionsTab fmt cur) = SessionsTab_view fmt" "pg_user (SessionsTab fmt cur) = sessions_user"
  "pg_resume (SessionsTab fmt cur) = sessions_resume" "pg_env (SessionsTab fmt cur) = sessions_env cur"
  by (simp_all add: SessionsTab_def)

definition sessions_inv :: "string \<Rightarrow> sessions_tab \<Rightarrow> sessions_k list \<Rightarrow> bool" where
  "sessions_inv cur s ks \<longleftrightarrow>
     flags (isPending (revokeMutation s)) (\<lambda>k. True) ks \<and> sessionTarget s \<noteq> Some cur \<and>
     (\<forall>x \<in> set (data_or_empty (q_data (sessionsQuery s))). session_id x = cur \<longrightarrow> session_current x)"

fun sessions_guard :: "sessions_tab \<Rightarrow> sessions_ev \<Rightarrow> bool" where
  "sessions_guard s (AskRevokeSession i) =
     (\<exists>x \<in> set (data_or_empty (q_data (sessionsQuery s))). session_id x = i \<and> \<not> session_current x)"
| "sessions_guard s CancelRevokeSession = True"
| "sessions_guard s RevokeSession = (\<not> isPending (revokeMutation s) \<and> present (sessionTarget s))"

fun sessions_cmd_ok :: "string \<Rightarrow> cmd \<Rightarrow> bool" where
  "sessions_cmd_ok cur (CallApi m p b) =
     ((m, p, b) = (''GET'', sessions_path, JUndef) \<or>
      m = ''DELETE'' \<and> b = JUndef \<and> (\<exists>i. p = sessions_path @ ''/'' @ i \<and> i \<noteq> '''' \<and> i \<noteq> cur))"
| "sessions_cmd_ok cur _ = True"

lemma sessions_offered: "e \<in> events (SessionsTab_view fmt s) \<Longrightarrow> sessions_guard s e"
  by (auto simp: SessionsTab_view_def session_row_def revoke_session_dialog_def Let_def split: if_splits)

lemma sessions_user_inv:
  assumes "sessions_inv cur s ks" and "sessions_guard s e"
  shows "sessions_inv cur (fst (sessions_user e s)) (ks @ snd (snd (sessions_user e s)))"
    and "list_all (sessions_cmd_ok cur) (fst (snd (sessions_user e s)))"
  using assms by (cases e; auto simp: sessions_inv_def flags_def handleRevoke_def)+

lemma sessions_resume_inv:
  assumes "sessions_inv cur s (ks1 @ k # ks2)"
  shows "sessions_inv cur (fst (sessions_resume k r s)) (ks1 @ ks2 @ snd (snd (sessions_resume k r s)))"
    and "list_all (sessions_cmd_ok cur) (fst (snd (sessions_resume k r s)))"
  using assms by (cases k; cases r; auto simp: sessions_inv_def flags_def handleRevoke_done_def split: if_splits)+

lemma sessions_mounted: "sessions_inv cur sessions_init []"
  by (simp add: sessions_inv_def sessions_init_def flags_def)

lemma sessions_changed: "sessions_inv cur s ks \<Longrightarrow> sessions_env cur s s' \<Longrightarrow> sessions_inv cur s' ks"
  by (auto simp: sessions_inv_def sessions_env_def list_all_iff)

interpretation sessions: page_guarded "SessionsTab fmt cur" "sessions_inv cur" sessions_guard "sessions_cmd_ok cur" for fmt cur
  by unfold_locales (simp_all add: sessions_mounted sessions_user_inv sessions_resume_inv sessions_changed, erule sessions_offered)

text \<open>C13: nobody is signed out by their own settings: whatever the lists the server sends and however they change
  while the dialog is open, the sessions tab never asks to revoke the session it runs in, as long as the server marks that
  one as the current session; and one revocation at a time is in flight, exactly while its button is disabled.\<close>

theorem current_session_kept:
  assumes "page_reach (SessionsTab fmt cur) (s, ks, out)"
  shows "CallApi m (''/v1/sessions/'' @ cur) b \<notin> set out \<and>
    length ks = (if isPending (revokeMutation s) then 1 else 0) \<and> sessionTarget s \<noteq> Some cur"
proof -
  have "CallApi m (''/v1/sessions/'' @ cur) b \<notin> set out"
    using sessions.commands [OF assms] by fastforce
  then show ?thesis using sessions.reachable [OF assms] by (simp add: sessions_inv_def flags_def waiting_def)
qed

definition sample_session :: "string \<Rightarrow> bool \<Rightarrow> session" where
  "sample_session i cur = \<lparr>session_id = i, session_current = cur, session_browser = ''Firefox'', session_os = ''Linux'',
     session_ip = ''10.0.0.1'', session_location = '''', session_last_active = ''2025-01-01''\<rparr>"

definition list_sessions :: "sessions_tab \<Rightarrow> sessions_tab" where
  "list_sessions s = s\<lparr>sessionsQuery := q_success [sample_session ''me'' True, sample_session ''other'' False]\<rparr>"

theorem current_session_kept_witness:
  "\<exists>s out. page_reach (SessionsTab id ''me'') (s, [KRevokeSession], out) \<and> isPending (revokeMutation s) \<and>
     CallApi ''DELETE'' ''/v1/sessions/other'' JUndef \<in> set out \<and> CallApi ''DELETE'' ''/v1/sessions/me'' JUndef \<notin> set out"
proof -
  let ?play = "[Change list_sessions, Do (AskRevokeSession ''other''), Do RevokeSession]"
  have env: "sessions_env ''me'' s (list_sessions s)" for s
    by (auto simp: sessions_env_def list_sessions_def sample_session_def)
  have ask: "AskRevokeSession ''other'' \<in> events (SessionsTab_view id (list_sessions s))" for s
    by (simp add: SessionsTab_view_def Let_def list_sessions_def session_row_def sample_session_def)
  have rev: "present (sessionTarget s) \<Longrightarrow> \<not> isPending (revokeMutation s) \<Longrightarrow> RevokeSession \<in> events (SessionsTab_view id s)" for s
    by (simp add: SessionsTab_view_def Let_def revoke_session_dialog_def)
  have idle: "revokeMutation (list_sessions sessions_init) = idle" by (simp add: list_sessions_def sessions_init_def)
  have "\<exists>s out. page_play (SessionsTab id ''me'') ?play (sessions_init, [], [CallApi ''GET'' sessions_path JUndef]) =
      Some (s, [KRevokeSession], out) \<and> CallApi ''DELETE'' ''/v1/sessions/other'' JUndef \<in> set out"
    by (simp add: env ask rev idle handleRevoke_def)
  then obtain s out where r: "page_reach (SessionsTab id ''me'') (s, [KRevokeSession], out)"
    and c: "CallApi ''DELETE'' ''/v1/sessions/other'' JUndef \<in> set out"
    using page_play_mount [OF SessionsTab_sel(1)] by blast
  from current_session_kept [OF r, of "''DELETE''" JUndef] r c show ?thesis by (auto split: if_splits)
qed

section \<open>Activity\<close>

definition formatAction :: "string \<Rightarrow> string" where
  "formatAction action =
     (let parts = split_on (CHR ''.'') action in
      if length parts \<ge> 2 then parts ! 0 @ '' '' @ parts ! 1 else action)"

definition getInitials :: "string \<Rightarrow> string \<Rightarrow> string" where
  "getInitials name email =
     (if name \<noteq> '''' then to_upper (take 1 name) else if email \<noteq> '''' then to_upper (take 1 email) else ''?'')"

text \<open>The colours by their hue.\<close>

definition AVATAR_COLORS :: "string list" where
  "AVATAR_COLORS = [''blue'', ''emerald'', ''amber'', ''purple'', ''pink'', ''cyan'']"

definition colorIndex :: "string \<Rightarrow> nat" where
  "colorIndex user_id = nat \<bar>foldl (\<lambda>a c. a + int (of_char c)) 0 user_id\<bar> mod length AVATAR_COLORS"

definition activity_item :: "int \<Rightarrow> org_event \<Rightarrow> 'e ui" where
  "activity_item now ev = Node ''div''
     [Node (AVATAR_COLORS ! colorIndex (oe_user_id ev)) [Say [Lit (getInitials (oe_user_name ev) (oe_user_email ev))]],
      Node ''div''
       [Node ''p''
         [Node ''span'' [Say [Lit (if oe_user_name ev \<noteq> '''' then oe_user_name ev else oe_user_email ev)]],
          Node ''span'' [Say [Lit (formatAction (oe_action ev))]],
          only_if (oe_resource_type ev \<noteq> '''') (Node ''span'' [Say [Lit ('' '' @ oe_resource_type ev)]]),
          only_if (oe_resource_id ev \<noteq> '''') (Node ''code'' [Say [Lit (take 8 (oe_resource_id ev) @ ''...'')]])],
        Node ''p'' [Say (timeAgo now (oe_created_at ev))]]]"

text \<open>The tab only shows its query; it has no handler. The times an event carries are parsed.\<close>

definition ActivityTab_view :: "int \<Rightarrow> org_event list query \<Rightarrow> 'e ui" where
  "ActivityTab_view now q =
     (let evs = data_or_empty (q_data q) in
      Node ''Card''
       [Node ''CardHeader'' [Say (tr ''activity.title''), Say (tr ''activity.description'')],
        Node ''CardContent''
         [if q_isLoading q then Node ''div'' []
          else if q_isError q then failed_load ''activity.failed_load'' []
          else if evs = [] then Node ''div'' [Node ''p'' [Say (tr ''activity.empty'')]]
          else Node ''div'' (map (activity_item now) evs)]])"

lemma colorIndex_bound: "colorIndex user_id < length AVATAR_COLORS"
  by (simp add: colorIndex_def AVATAR_COLORS_def)

lemma formatAction_two:
  assumes "CHR ''.'' \<notin> set resource" and "CHR ''.'' \<notin> set verb"
  shows "formatAction (resource @ ''.'' @ verb) = resource @ '' '' @ verb"
  using assms by (simp add: formatAction_def Let_def split_on_append split_on_no_sep)

section \<open>Organization\<close>

text \<open>The width of a usage bar in percent, \<open>None\<close> for NaN; JavaScript's division by zero gives NaN or infinity.
  The rounding of its numbers is left out.\<close>

definition usage_width :: "nat \<Rightarrow> nat \<Rightarrow> rat option" where
  "usage_width used limit =
     (if limit = 0 then (if used = 0 then None else Some 100)
      else Some (min (of_nat used / of_nat limit * 100) 100))"

datatype organization_ev = RetryUsage

definition usage_bar :: "caption \<Rightarrow> string \<Rightarrow> string \<Rightarrow> organization_ev ui" where
  "usage_bar lbl used limit = Node ''div''
     [Node ''div'' [Node ''span'' [Say lbl], Node ''span'' [Say [Lit (used @ '' / '' @ limit)]]], Node ''bar'' []]"

text \<open>The widths of the two bars, which the view's tree leaves out as styling.\<close>

definition usage_widths :: "org_usage query \<Rightarrow> rat option list" where
  "usage_widths q =
     (case q_data q of
        None \<Rightarrow> [Some 0, Some 0]
      | Some u \<Rightarrow> [usage_width (bandwidth_used u) (bandwidth_limit u), usage_width (tunnels_used u) (tunnels_limit u)])"

definition no_usage :: org_usage where
  "no_usage = \<lparr>bandwidth_used = 0, bandwidth_limit = 0, tunnels_used = 0, tunnels_limit = 0\<rparr>"

definition usage_card :: "org_usage query \<Rightarrow> organization_ev ui" where
  "usage_card q =
     (let u = (case q_data q of None \<Rightarrow> no_usage | Some u \<Rightarrow> u) in
      Node ''Card''
       [Node ''CardHeader'' [Say (tr ''settings.organization.usage''), Say (tr ''settings.organization.usage_description'')],
        Node ''CardContent''
         [if q_isLoading q then Node '''' []
          else if q_isError q
          then failed_load ''settings.organization.failed_usage'' [Button False RetryUsage [Say (tr ''common.retry'')]]
          else Node ''''
           [usage_bar (tr ''settings.organization.bandwidth_usage'') (formatBytes (bandwidth_used u)) (formatBytes (bandwidth_limit u)),
            usage_bar (tr ''settings.organization.tunnels_usage'') (nat_string (tunnels_used u)) (nat_string (tunnels_limit u))]]])"

text \<open>The two inputs have a default value and no handler.\<close>

definition OrganizationTab_view :: "string \<Rightarrow> string \<Rightarrow> org_usage query \<Rightarrow> organization_ev ui" where
  "OrganizationTab_view name org_id q = Node ''div''
     [Node ''Card''
       [Node ''CardHeader'' [Say (tr ''settings.organization.title''), Say (tr ''settings.organization.description'')],
        Node ''CardContent''
         [Node ''div'' [Node ''label'' [Say (tr ''settings.organization.name'')], Node ''input'' [Say [Lit name]]],
          Node ''div'' [Node ''label'' [Say (tr ''settings.organization.slug'')], Node ''input'' [Say [Lit org_id]],
            Node ''p'' [Say (tr ''settings.organization.slug_help'')]],
          Node ''div'' [Say [Tr ''settings.organization.plan'' [], Lit '':''], Node ''Badge'' [Say (tr ''settings.organization.plan_free'')]]]],
      usage_card q]"

fun organization_user :: "organization_ev \<Rightarrow> 's \<Rightarrow> ('s, 'k) effect" where
  "organization_user RetryUsage s = (s, [Refetch [''org'', ''usage'']], [])"

lemma usage_widths_bound: "Some w \<in> set (usage_widths q) \<Longrightarrow> 0 \<le> w \<and> w \<le> 100"
  by (auto simp: usage_widths_def usage_width_def split: if_splits option.splits)

section \<open>The page\<close>

datatype settings_tab = Organization | Security | ApiKeys | Members | Activity | Sessions

definition tabItems :: "(settings_tab \<times> caption) list" where
  "tabItems =
     [(Organization, tr ''settings.tabs.organization''), (Security, tr ''settings.tabs.security''),
      (Members, tr ''settings.tabs.members''), (ApiKeys, tr ''settings.tabs.api_keys''),
      (Activity, tr ''activity.title''), (Sessions, tr ''sessions.title'')]"

text \<open>\<open>content\<close> is the view of the tab that is mounted, with its events; \<open>setActiveTab\<close> replaces it.\<close>

definition Settings_view :: "(settings_tab \<Rightarrow> (settings_tab + 'e) ui) \<Rightarrow> settings_tab \<Rightarrow> (settings_tab + 'e) ui" where
  "Settings_view content activeTab = Node ''div''
     [Node ''div'' [Node ''h1'' [Say (tr ''settings.title'')], Node ''p'' [Say (tr ''settings.subtitle'')]],
      Node ''div'' (map (\<lambda>(key, lbl). Button False (Inl key) [Say lbl]) tabItems),
      content activeTab]"

lemma every_tab_offered: "Inl tab \<in> events (Settings_view content activeTab)"
  by (cases tab) (simp_all add: Settings_view_def tabItems_def)

end
