(* ===== verification/SlaPage.thy ===== *)
theory SlaPage
  imports Hooks Decimals
begin

text \<open>
  The service levels of the admin console (\<open>pages/SLADashboard.tsx\<close>): uptime, incidents and credits in three tabs, each
  with a query that is enabled while its tab is open. The page only reads.

  Numbers are the exact values of the doubles the answers hold. Their differences are exact where neither number is
  more than twice the other, which holds for uptimes above one half. How a number, an amount and a date are
  printed are arguments.
\<close>

section \<open>Data\<close>

record uptime_month =
  up_api :: rat
  up_control :: rat
  up_relay :: rat

record trend_point =
  tp_month :: string
  tp_api :: rat
  tp_control :: rat
  tp_data :: rat

record uptime_data =
  current_month :: uptime_month
  previous_month :: uptime_month
  monthly_trend :: "trend_point list"

record sla_incident =
  inc_id :: string
  inc_date :: string
  inc_duration :: string
  inc_minutes :: int
  inc_impact :: string
  inc_root_cause :: string
  inc_services :: "string list"

record credit_month =
  cm_month :: string
  cm_uptime :: rat
  cm_met :: bool
  cm_credits :: rat

text \<open>The two tables of strings are in the order their entries are enumerated in.\<close>

record credit_data =
  cr_breached :: bool
  cr_owed :: rat
  cr_threshold :: rat
  cr_actual :: rat
  cr_history :: "credit_month list"
  cr_total_ytd :: rat
  cr_thresholds :: "(string \<times> rat) list"
  cr_formula :: "(string \<times> string) list"

datatype sla_tab = Uptime | Incidents | Credits

record sla_page =
  slaTab :: sla_tab
  uptimeQuery :: "uptime_data query"
  incidentsQuery :: "sla_incident list query"
  creditsQuery :: "credit_data query"

definition sla_init :: sla_page where
  "sla_init = \<lparr>slaTab = Uptime, uptimeQuery = q_pending, incidentsQuery = q_disabled, creditsQuery = q_disabled\<rparr>"

datatype sla_ev = SetSlaTab sla_tab | RetryUptime | RetryIncidents | RetryCredits

section \<open>Handlers\<close>

definition sla_name :: "sla_tab \<Rightarrow> string" where
  "sla_name t = (case t of Uptime \<Rightarrow> ''uptime'' | Incidents \<Rightarrow> ''incidents'' | Credits \<Rightarrow> ''credits'')"

definition sla_call :: "sla_tab \<Rightarrow> cmd" where
  "sla_call t = CallApi ''GET'' (''/api/admin/v1/sla/'' @ sla_name t) JUndef"

definition sla_key :: "sla_tab \<Rightarrow> string list" where
  "sla_key t = [''admin'', ''sla'', sla_name t]"

definition setSlaTab :: "sla_tab \<Rightarrow> sla_page \<Rightarrow> (sla_page, unit) effect" where
  "setSlaTab t s =
     (if t = slaTab s then (s, [], [])
      else let s1 = s\<lparr>slaTab := t\<rparr> in
        (case t of
           Uptime \<Rightarrow> (s1\<lparr>uptimeQuery := q_enable (uptimeQuery s)\<rparr>, if q_fetches (uptimeQuery s) then [sla_call t] else [], [])
         | Incidents \<Rightarrow> (s1\<lparr>incidentsQuery := q_enable (incidentsQuery s)\<rparr>, if q_fetches (incidentsQuery s) then [sla_call t] else [], [])
         | Credits \<Rightarrow> (s1\<lparr>creditsQuery := q_enable (creditsQuery s)\<rparr>, if q_fetches (creditsQuery s) then [sla_call t] else [], [])))"

fun sla_user :: "sla_ev \<Rightarrow> sla_page \<Rightarrow> (sla_page, unit) effect" where
  "sla_user (SetSlaTab t) s = setSlaTab t s"
| "sla_user RetryUptime s = (s, [Refetch (sla_key Uptime)], [])"
| "sla_user RetryIncidents s = (s, [Refetch (sla_key Incidents)], [])"
| "sla_user RetryCredits s = (s, [Refetch (sla_key Credits)], [])"

section \<open>View\<close>

record sla_cfg =
  sl_number :: "rat \<Rightarrow> string"
  sl_amount :: "rat \<Rightarrow> string"
  sl_date :: "string \<Rightarrow> string"

text \<open>The double nearest to 99.9.\<close>

definition three_nines :: rat where
  "three_nines = 3514918771674317 / 35184372088832"

definition getUptimeColor :: "rat \<Rightarrow> string" where
  "getUptimeColor v = (if v \<ge> three_nines then ''bg-green-500'' else if v \<ge> 99 then ''bg-yellow-500'' else ''bg-red-500'')"

definition getUptimeTextColor :: "rat \<Rightarrow> string" where
  "getUptimeTextColor v =
     (if v \<ge> three_nines then ''text-green-600 dark:text-green-400''
      else if v \<ge> 99 then ''text-yellow-600 dark:text-yellow-400''
      else ''text-red-600 dark:text-red-400'')"

text \<open>The change to the month before: its text, and whether the badge marks it as good. \<open>parseFloat\<close> reads it back
  from the text; a text it cannot read compares as no number does.\<close>

definition change_text :: "rat \<Rightarrow> rat \<Rightarrow> string" where
  "change_text v previous = toFixed 2 (v - previous)"

definition change_good :: "string \<Rightarrow> bool" where
  "change_good change = (case parseFloat change of None \<Rightarrow> False | Some x \<Rightarrow> x \<ge> 0)"

definition change_badge :: "rat \<Rightarrow> rat \<Rightarrow> string" where
  "change_badge v previous = (let c = change_text v previous in (if change_good c then ''+'' else '''') @ c @ ''%'')"

definition UptimeBar :: "sla_cfg \<Rightarrow> string \<Rightarrow> rat \<Rightarrow> rat option \<Rightarrow> 'e ui" where
  "UptimeBar cfg key v previous = Node ''div''
     [Say (tr key), Node (getUptimeTextColor v) [Say [Lit (sl_number cfg v @ ''%'')]],
      (case previous of
         None \<Rightarrow> Null
       | Some p \<Rightarrow> Node (if change_good (change_text v p) then ''success'' else ''destructive'') [Say [Lit (change_badge v p)]]),
      Node (getUptimeColor v) [Say [Lit (sl_number cfg (min v 100) @ ''%'')]]]"

definition uptime_bars :: "sla_cfg \<Rightarrow> uptime_data option \<Rightarrow> 'e ui" where
  "uptime_bars cfg d = Node ''Card''
     [Say (tr ''sla.currentMonth''),
      UptimeBar cfg ''sla.apiUptime'' (case d of None \<Rightarrow> 0 | Some u \<Rightarrow> up_api (current_month u)) (map_option (\<lambda>u. up_api (previous_month u)) d),
      UptimeBar cfg ''sla.tunnelControlPlane'' (case d of None \<Rightarrow> 0 | Some u \<Rightarrow> up_control (current_month u))
        (map_option (\<lambda>u. up_control (previous_month u)) d),
      UptimeBar cfg ''sla.relayDataPlane'' (case d of None \<Rightarrow> 0 | Some u \<Rightarrow> up_relay (current_month u))
        (map_option (\<lambda>u. up_relay (previous_month u)) d)]"

definition uptime_cell :: "sla_cfg \<Rightarrow> rat \<Rightarrow> 'e ui" where
  "uptime_cell cfg v = Node (getUptimeTextColor v) [Say [Lit (sl_number cfg v @ ''%'')]]"

definition trend_table :: "sla_cfg \<Rightarrow> uptime_data option \<Rightarrow> 'e ui" where
  "trend_table cfg d = Node ''Card''
     [Say (tr ''sla.monthlyTrend''),
      Node ''Table''
       [head_row [''sla.month'', ''sla.apiUptime'', ''sla.controlPlane'', ''sla.dataPlane''],
        Node ''TableBody'' (map (\<lambda>p. Node ''TableRow''
          [Say [Lit (tp_month p)], uptime_cell cfg (tp_api p), uptime_cell cfg (tp_control p), uptime_cell cfg (tp_data p)])
          (data_or_empty (map_option monthly_trend d)))]]"

definition incident_variant :: "int \<Rightarrow> string" where
  "incident_variant minutes = (if minutes < 15 then ''success'' else if minutes < 60 then ''warning'' else ''destructive'')"

definition incident_row :: "sla_cfg \<Rightarrow> sla_incident \<Rightarrow> 'e ui" where
  "incident_row cfg i = Node ''TableRow''
     [Say [Lit (sl_date cfg (inc_date i))], Node (incident_variant (inc_minutes i)) [Say [Lit (inc_duration i)]], Say [Lit (inc_impact i)],
      Say [Lit (inc_root_cause i)], Node ''div'' (map (\<lambda>svc. Node ''Badge'' [Say [Lit svc]]) (inc_services i))]"

definition incident_table :: "sla_cfg \<Rightarrow> sla_incident list \<Rightarrow> 'e ui" where
  "incident_table cfg is = Node ''Card''
     [Say (tr ''sla.incidentLog''),
      Node ''Table''
       [head_row [''sla.date'', ''sla.duration'', ''sla.impact'', ''sla.rootCause'', ''sla.services''],
        Node ''TableBody'' (map (incident_row cfg) is)]]"

definition service_label :: "string \<Rightarrow> string" where
  "service_label svc = replace_first (CHR ''_'') (CHR '' '') svc @ '' threshold''"

text \<open>\<open>$\<close> and \<open>x?.toLocaleString() ?? '0'\<close>; a missing number within text is nothing.\<close>

definition amount_or_zero :: "sla_cfg \<Rightarrow> rat option \<Rightarrow> string" where
  "amount_or_zero cfg x = ''$'' @ (case x of None \<Rightarrow> ''0'' | Some v \<Rightarrow> sl_amount cfg v)"

definition percent_of :: "sla_cfg \<Rightarrow> rat option \<Rightarrow> string" where
  "percent_of cfg x = (case x of None \<Rightarrow> '''' | Some v \<Rightarrow> sl_number cfg v) @ ''%''"

definition credit_status :: "sla_cfg \<Rightarrow> credit_data option \<Rightarrow> 'e ui" where
  "credit_status cfg d = Node ''Card''
     [Say (tr ''sla.slaStatusCurrent''),
      Say (tr ''sla.actualUptime''), Node (getUptimeTextColor (case d of None \<Rightarrow> 0 | Some c \<Rightarrow> cr_actual c)) [Say [Lit (percent_of cfg (map_option cr_actual d))]],
      Say (tr ''sla.slaThreshold''), Say [Lit (percent_of cfg (map_option cr_threshold d))],
      Say (tr ''sla.slaBreached''), Say (tr (if (\<exists>c. d = Some c \<and> cr_breached c) then ''common.yes'' else ''common.no'')),
      Say (tr ''sla.creditsOwed''), Say [Lit (amount_or_zero cfg (map_option cr_owed d))]]"

definition credit_row :: "sla_cfg \<Rightarrow> credit_month \<Rightarrow> 'e ui" where
  "credit_row cfg h = Node ''TableRow''
     [Say [Lit (cm_month h)], uptime_cell cfg (cm_uptime h),
      Node (if cm_met h then ''success'' else ''destructive'') [Say (tr (if cm_met h then ''sla.met'' else ''sla.breached''))],
      Say [Lit (if cm_credits h > 0 then ''$'' @ sl_amount cfg (cm_credits h) else ''$0'')]]"

definition credit_history :: "sla_cfg \<Rightarrow> credit_data option \<Rightarrow> 'e ui" where
  "credit_history cfg d = Node ''Card''
     [Say (tr ''sla.creditHistory''),
      Node ''Table''
       [head_row [''sla.month'', ''sla.uptime'', ''sla.slaMet'', ''sla.creditsOwed''],
        Node ''TableBody'' (map (credit_row cfg) (data_or_empty (map_option cr_history d)))],
      Say (tr ''sla.totalCreditsYtd''), Say [Lit (amount_or_zero cfg (map_option cr_total_ytd d))]]"

definition credit_rules :: "sla_cfg \<Rightarrow> credit_data option \<Rightarrow> 'e ui" where
  "credit_rules cfg d = Node ''Card''
     (Say (tr ''sla.creditFormula'') #
      map (\<lambda>(r, credit). Node ''div'' [Say [Lit (r @ ''%'')], Say [Lit credit]]) (data_or_empty (map_option cr_formula d)) @
      map (\<lambda>(svc, limit). Node ''div'' [Say [Lit (service_label svc)], Say [Lit (sl_number cfg limit @ ''%'')]])
        (data_or_empty (map_option cr_thresholds d)))"

text \<open>A query's card: while it loads, after a failure, otherwise.\<close>

definition sla_panel :: "'a query \<Rightarrow> nat \<Rightarrow> string \<Rightarrow> sla_ev \<Rightarrow> sla_ev ui list \<Rightarrow> sla_ev ui" where
  "sla_panel q skeletons key retry us =
     (if q_isLoading q then Node ''Card'' (replicate skeletons (Node ''Skeleton'' []))
      else if q_isError q then Node ''Card'' [failed_load key [Button False retry [Say (tr ''common.retry'')]]]
      else Node '''' us)"

definition sla_tabs :: "sla_ev ui" where
  "sla_tabs = Node ''div''
     [Button False (SetSlaTab Uptime) [Say (tr ''sla.uptime'')], Button False (SetSlaTab Incidents) [Say (tr ''sla.incidents'')],
      Button False (SetSlaTab Credits) [Say (tr ''sla.slaCredits'')]]"

definition SLADashboard_view :: "sla_cfg \<Rightarrow> sla_page \<Rightarrow> sla_ev ui" where
  "SLADashboard_view cfg s = Node ''div''
     [Node ''h1'' [Say (tr ''sla.title'')], Node ''p'' [Say (tr ''sla.subtitle'')], sla_tabs,
      (case slaTab s of
         Uptime \<Rightarrow> sla_panel (uptimeQuery s) 3 ''sla.failedToLoadUptime'' RetryUptime
           [uptime_bars cfg (q_data (uptimeQuery s)), trend_table cfg (q_data (uptimeQuery s))]
       | Incidents \<Rightarrow> sla_panel (incidentsQuery s) 5 ''sla.failedToLoadIncidents'' RetryIncidents
           [incident_table cfg (data_or_empty (q_data (incidentsQuery s)))]
       | Credits \<Rightarrow> sla_panel (creditsQuery s) 2 ''sla.failedToLoadCredits'' RetryCredits
           [credit_status cfg (q_data (creditsQuery s)), credit_history cfg (q_data (creditsQuery s)), credit_rules cfg (q_data (creditsQuery s))])]"

definition sla_env :: "sla_page \<Rightarrow> sla_page \<Rightarrow> bool" where
  "sla_env s s' \<longleftrightarrow> (\<exists>u i c. s' = s\<lparr>uptimeQuery := u, incidentsQuery := i, creditsQuery := c\<rparr>)"

definition SLADashboard :: "sla_cfg \<Rightarrow> (sla_page, sla_ev, unit) page" where
  "SLADashboard cfg =
     \<lparr>pg_mount = (sla_init, [sla_call Uptime], []), pg_view = SLADashboard_view cfg, pg_user = sla_user,
      pg_resume = (\<lambda>k r s. (s, [], [])), pg_env = sla_env\<rparr>"

lemma SLADashboard_sel [simp]:
  "pg_mount (SLADashboard cfg) = (sla_init, [sla_call Uptime], [])" "pg_view (SLADashboard cfg) = SLADashboard_view cfg"
  "pg_user (SLADashboard cfg) = sla_user" "pg_resume (SLADashboard cfg) = (\<lambda>k r s. (s, [], []))" "pg_env (SLADashboard cfg) = sla_env"
  by (simp_all add: SLADashboard_def)

section \<open>Contract\<close>

text \<open>Only the three reads are sent.\<close>

definition sla_cmd_ok :: "cmd \<Rightarrow> bool" where
  "sla_cmd_ok c \<longleftrightarrow> (\<exists>t. c = sla_call t \<or> c = Refetch (sla_key t))"

lemma sla_parts_no_events [simp]:
  "events (UptimeBar cfg key v p) = {}" "events (uptime_bars cfg d) = {}" "events (uptime_cell cfg v) = {}" "events (trend_table cfg d) = {}"
  "events (incident_row cfg i) = {}" "events (incident_table cfg is) = {}" "events (credit_status cfg c) = {}"
  "events (credit_row cfg h) = {}" "events (credit_history cfg c) = {}" "events (credit_rules cfg c) = {}"
  by (auto simp: UptimeBar_def uptime_bars_def uptime_cell_def trend_table_def incident_row_def incident_table_def credit_status_def
      credit_row_def credit_history_def credit_rules_def split: option.split)

lemma sla_reads: "list_all sla_cmd_ok (fst (snd (sla_user e s))) \<and> snd (snd (sla_user e s)) = []"
  by (cases e) (auto simp: sla_cmd_ok_def setSlaTab_def Let_def split: sla_tab.split)

interpretation sla: page_reading "SLADashboard cfg" "\<lambda>_. True" sla_cmd_ok for cfg
  by unfold_locales (simp_all add: sla_reads, simp add: sla_cmd_ok_def, blast)

section \<open>Properties\<close>

text \<open>Each tab offers to load again exactly what it failed to load.\<close>

lemma sla_events:
  "events (SLADashboard_view cfg s) = range SetSlaTab \<union>
     (case slaTab s of
        Uptime \<Rightarrow> (if \<not> q_isLoading (uptimeQuery s) \<and> q_isError (uptimeQuery s) then {RetryUptime} else {})
      | Incidents \<Rightarrow> (if \<not> q_isLoading (incidentsQuery s) \<and> q_isError (incidentsQuery s) then {RetryIncidents} else {})
      | Credits \<Rightarrow> (if \<not> q_isLoading (creditsQuery s) \<and> q_isError (creditsQuery s) then {RetryCredits} else {}))"
proof -
  have "t \<in> {Uptime, Incidents, Credits}" for t by (cases t) simp_all
  then have "range SetSlaTab = {SetSlaTab Uptime, SetSlaTab Incidents, SetSlaTab Credits}" by blast
  then have tabs: "events sla_tabs = range SetSlaTab" by (simp add: sla_tabs_def insert_commute)
  show ?thesis
    by (cases "slaTab s") (auto simp: SLADashboard_view_def tabs sla_panel_def)
qed

text \<open>The bar and the figure next to it agree about an uptime.\<close>

lemma uptime_colors_agree:
  "getUptimeColor v = ''bg-green-500'' \<longleftrightarrow> getUptimeTextColor v = ''text-green-600 dark:text-green-400''"
  "getUptimeColor v = ''bg-red-500'' \<longleftrightarrow> getUptimeTextColor v = ''text-red-600 dark:text-red-400''"
  by (simp_all add: getUptimeColor_def getUptimeTextColor_def)

text \<open>Half a hundredth of loss is where the badge turns.\<close>

lemma change_good_iff: "change_good (change_text v p) \<longleftrightarrow> - 1 / 200 < v - p"
proof -
  have "change_good (change_text v p) \<longleftrightarrow> \<not> (v - p < 0 \<and> 0 < fixed_units 2 (v - p))"
    by (auto simp: change_good_def change_text_def parseFloat_toFixed)
  also have "\<dots> \<longleftrightarrow> - 1 / 200 < v - p"
  proof (cases "v - p < 0")
    case True
    have "0 < fixed_units 2 (v - p) \<longleftrightarrow> 1 \<le> \<bar>v - p\<bar> * 100 + 1 / 2"
      by (simp add: fixed_units_def)
    also have "\<dots> \<longleftrightarrow> \<not> - 1 / 200 < v - p" using abs_of_neg [OF True] by (auto simp: field_simps)
    finally show ?thesis using True by simp
  qed simp
  finally show ?thesis .
qed

lemma small_loss_shown_as_gain:
  assumes "v < p" and "p < v + 1 / 200"
  shows "change_badge v p = ''+-0.00%''"
proof -
  have "toFixed (Suc 1) (v - p) = ''-0.'' @ replicate (Suc 1) (CHR ''0'')"
    using assms by (intro toFixed_negative_zero) simp_all
  then have "change_text v p = ''-0.00''" by (simp add: change_text_def numeral_2_eq_2)
  moreover have "change_good (change_text v p)" using assms by (simp add: change_good_iff)
  ultimately show ?thesis by (simp add: change_badge_def)
qed

text \<open>The badge that compares an uptime with the month before. Its figure, read back, is the change to within half a
  hundredth, and it is marked as good for every gain, and also for every loss of less than half a hundredth, which is
  shown with two signs.\<close>

theorem change_badge_sound:
  "(\<exists>y. parseFloat (change_text v p) = Some y \<and> \<bar>y - (v - p)\<bar> \<le> 1 / 200) \<and>
   (change_good (change_text v p) \<longleftrightarrow> p - 1 / 200 < v) \<and>
   (v < p \<longrightarrow> p < v + 1 / 200 \<longrightarrow> change_badge v p = ''+-0.00%'')"
proof -
  have "\<exists>y. parseFloat (change_text v p) = Some y \<and> \<bar>y - (v - p)\<bar> \<le> 1 / 200"
    using toFixed_reads_back [of 2 "v - p"] by (auto simp: change_text_def)
  moreover have "change_good (change_text v p) \<longleftrightarrow> p - 1 / 200 < v" unfolding change_good_iff by linarith
  ultimately show ?thesis using small_loss_shown_as_gain by blast
qed

theorem change_badge_sound_witness: "change_badge 99 (99 + 1 / 1000) = ''+-0.00%'' \<and> \<not> change_good (change_text 99 (99 + 1 / 100))"
  using change_badge_sound [of 99 "99 + 1 / 1000"] change_badge_sound [of 99 "99 + 1 / 100"] by simp

text \<open>A service whose name has two underscores keeps the second in its label.\<close>

lemma service_label_keeps_underscore:
  "CHR ''_'' \<notin> set a \<Longrightarrow> service_label (a @ ''_'' @ b @ ''_'' @ c) = a @ '' '' @ b @ ''_'' @ c @ '' threshold''"
proof -
  have "CHR ''_'' \<notin> set a \<Longrightarrow> replace_first (CHR ''_'') (CHR '' '') (a @ CHR ''_'' # t) = a @ CHR '' '' # t" for t
    by (induction a) auto
  then show "CHR ''_'' \<notin> set a \<Longrightarrow> service_label (a @ ''_'' @ b @ ''_'' @ c) = a @ '' '' @ b @ ''_'' @ c @ '' threshold''"
    by (simp add: service_label_def)
qed

end
