(* ===== verification/TunnelDetailPage.thy ===== *)
theory TunnelDetailPage
  imports Hooks
begin

text \<open>
  One tunnel (\<open>pages/TunnelDetail.tsx\<close>): its data, start, stop and restart, the edit dialog, the connection log, and
  the traffic graph, whose data the page makes up: thirty random points, of which every five seconds the oldest is
  replaced. Instants are milliseconds; a random number is a rational in [0, 1).
\<close>

section \<open>State\<close>

record tunnel_info = tunnel +
  ti_traffic_in :: nat
  ti_traffic_out :: nat
  ti_auth_mode :: "string option"
  ti_created_at :: string

record log_entry =
  log_id :: string
  log_timestamp :: string
  log_client_ip :: string
  log_method :: string
  log_path :: string
  log_status_code :: int
  log_bytes_sent :: nat
  log_duration_ms :: int

record traffic_point =
  tp_timestamp :: int
  tp_bytes_in :: int
  tp_bytes_out :: int

text \<open>\<open>i\<close> counts down from 29; the \<open>k\<close>-th point draws the random numbers \<open>2 k\<close> and \<open>2 k + 1\<close>.\<close>

definition generateMockTraffic :: "int \<Rightarrow> (nat \<Rightarrow> rat) \<Rightarrow> traffic_point list" where
  "generateMockTraffic now rnd = map (\<lambda>k.
     \<lparr>tp_timestamp = now - (29 - int k) * 5000, tp_bytes_in = draw (rnd (2 * k)) 5000 2000, tp_bytes_out = draw (rnd (2 * k + 1)) 3000 1000\<rparr>)
     [0..<30]"

record tunnel_detail =
  td_query :: "tunnel_info query"
  td_logs :: "log_entry list query"
  td_start :: mutation
  td_stop :: mutation
  td_restart :: mutation
  td_update :: mutation
  td_connection :: string
  showEdit :: bool
  editName :: string
  editAuthMode :: string
  editMaxConnections :: int
  mockTraffic :: "traffic_point list"

definition td_init :: "int \<Rightarrow> (nat \<Rightarrow> rat) \<Rightarrow> tunnel_detail" where
  "td_init now rnd = \<lparr>td_query = q_pending, td_logs = q_pending, td_start = idle, td_stop = idle, td_restart = idle, td_update = idle,
     td_connection = ''disconnected'', showEdit = False, editName = '''', editAuthMode = ''none'', editMaxConnections = 10,
     mockTraffic = generateMockTraffic now rnd\<rparr>"

datatype td_ev =
    TdStart string | TdStop string | TdRestart string | OpenEdit | CloseEdit | SetEditName string | SetAuthMode string
  | SetMaxConnections int | SubmitEdit | RetryTunnel | RetryLogs

datatype td_k = KTdStart | KTdStop | KTdRestart | KTdUpdate

section \<open>Handlers\<close>

text \<open>The interval timer: the oldest point goes, a new one comes.\<close>

definition traffic_tick :: "int \<Rightarrow> rat \<Rightarrow> rat \<Rightarrow> tunnel_detail \<Rightarrow> tunnel_detail" where
  "traffic_tick now r1 r2 s = s\<lparr>mockTraffic := drop 1 (mockTraffic s) @
     [\<lparr>tp_timestamp = now, tp_bytes_in = draw r1 8000 2000, tp_bytes_out = draw r2 5000 1000\<rparr>]\<rparr>"

definition openEdit :: "tunnel_detail \<Rightarrow> tunnel_detail" where
  "openEdit s = (case q_data (td_query s) of None \<Rightarrow> s | Some t \<Rightarrow> s\<lparr>editName := tunnel_name t, showEdit := True\<rparr>)"

definition handleEdit :: "string \<Rightarrow> tunnel_detail \<Rightarrow> (tunnel_detail, td_k) effect" where
  "handleEdit tid s =
     (if tid = '''' then (s, [], [])
      else (s\<lparr>td_update := mutate\<rparr>,
        [updateTunnel tid [(''name'', JStr (editName s)), (''auth_mode'', JStr (editAuthMode s)), (''max_connections'', JNum (editMaxConnections s))]],
        [KTdUpdate]))"

definition handleEdit_done :: "string \<Rightarrow> result \<Rightarrow> tunnel_detail \<Rightarrow> (tunnel_detail, td_k) effect" where
  "handleEdit_done tid r s =
     (let s1 = s\<lparr>td_update := settled r\<rparr> in
      case r of
        Inl err \<Rightarrow> (s1, [], [])
      | Inr v \<Rightarrow> (s1\<lparr>showEdit := False\<rparr>,
          tunnels_onSuccess r @ [Refetch [''tunnel'', tid], ShowToast (tr ''tunnel_detail.updated'') ''success''], []))"

fun td_user :: "string \<Rightarrow> td_ev \<Rightarrow> tunnel_detail \<Rightarrow> (tunnel_detail, td_k) effect" where
  "td_user tid (TdStart i) s = (s\<lparr>td_start := mutate\<rparr>, [startTunnel i], [KTdStart])"
| "td_user tid (TdStop i) s = (s\<lparr>td_stop := mutate\<rparr>, [stopTunnel i], [KTdStop])"
| "td_user tid (TdRestart i) s = (s\<lparr>td_restart := mutate\<rparr>, [restartTunnel i], [KTdRestart])"
| "td_user tid OpenEdit s = (openEdit s, [], [])"
| "td_user tid CloseEdit s = (s\<lparr>showEdit := False\<rparr>, [], [])"
| "td_user tid (SetEditName v) s = (s\<lparr>editName := v\<rparr>, [], [])"
| "td_user tid (SetAuthMode v) s = (s\<lparr>editAuthMode := v\<rparr>, [], [])"
| "td_user tid (SetMaxConnections n) s = (s\<lparr>editMaxConnections := n\<rparr>, [], [])"
| "td_user tid SubmitEdit s = handleEdit tid s"
| "td_user tid RetryTunnel s = (s, [Refetch [''tunnel'', tid]], [])"
| "td_user tid RetryLogs s = (s, [Refetch [''tunnel'', tid, ''logs'']], [])"

fun td_resume :: "string \<Rightarrow> td_k \<Rightarrow> result \<Rightarrow> tunnel_detail \<Rightarrow> (tunnel_detail, td_k) effect" where
  "td_resume tid KTdStart r s = (s\<lparr>td_start := settled r\<rparr>, tunnels_onSuccess r, [])"
| "td_resume tid KTdStop r s = (s\<lparr>td_stop := settled r\<rparr>, tunnels_onSuccess r, [])"
| "td_resume tid KTdRestart r s = (s\<lparr>td_restart := settled r\<rparr>, tunnels_onSuccess r, [])"
| "td_resume tid KTdUpdate r s = handleEdit_done tid r s"

section \<open>View\<close>

definition td_item :: "string \<Rightarrow> caption \<Rightarrow> td_ev ui" where
  "td_item key v = Node ''div'' [Node ''dt'' [Say (tr key)], Node ''dd'' [Say v]]"

definition td_info :: "(string \<Rightarrow> string) \<Rightarrow> (string \<Rightarrow> string) \<Rightarrow> tunnel_info \<Rightarrow> td_ev ui" where
  "td_info fmt distance t = Node ''div''
     [Node ''CardHeader'' [Say [Lit (tunnel_name t)],
        Say [Lit (''Created '' @ fmt (ti_created_at t) @ '' - '' @ distance (ti_created_at t))],
        Node ''Badge'' [Say (tr (''tunnels.status.'' @ tunnel_status t))]],
      td_item ''tunnel_detail.protocol'' (tr (''tunnels.protocols.'' @ tunnel_protocol t)),
      td_item ''tunnel_detail.local_address'' [Lit (''localhost:'' @ int_string (tunnel_local_port t))],
      td_item ''tunnel_detail.remote_port'' [Lit ('':'' @ int_string (tunnel_remote_port t))],
      td_item ''tunnel_detail.domain'' [Lit (case tunnel_domain t of None \<Rightarrow> ''-'' | Some d \<Rightarrow> or_dash d)],
      td_item ''tunnel_detail.traffic'' [Lit (formatBytes (ti_traffic_in t + ti_traffic_out t))]]"

definition td_actions :: "tunnel_detail \<Rightarrow> tunnel_info \<Rightarrow> td_ev ui" where
  "td_actions s t = Node ''div''
     [if tunnel_status t \<noteq> ''active''
      then Button (isPending (td_start s)) (TdStart (tunnel_id t))
        [Say (tr (if isPending (td_start s) then ''tunnel_detail.actions.starting'' else ''tunnel_detail.actions.start''))]
      else Button (isPending (td_stop s)) (TdStop (tunnel_id t))
        [Say (tr (if isPending (td_stop s) then ''tunnel_detail.actions.stopping'' else ''tunnel_detail.actions.stop''))],
      Button (isPending (td_restart s)) (TdRestart (tunnel_id t))
        [Say (tr (if isPending (td_restart s) then ''tunnel_detail.actions.restarting'' else ''tunnel_detail.actions.restart''))],
      LinkTo (''/tunnels/'' @ tunnel_id t @ ''/inspect'') [Say [Lit ''Inspect Traffic'']],
      Button False OpenEdit [Say (tr ''tunnel_detail.edit'')]]"

definition log_row :: "(string \<Rightarrow> string) \<Rightarrow> log_entry \<Rightarrow> td_ev ui" where
  "log_row toLocaleString e = Node ''TableRow'' (map (\<lambda>v. Node ''TableCell'' [Say [Lit v]])
     [toLocaleString (log_timestamp e), log_client_ip e, log_method e, log_path e, int_string (log_status_code e),
      formatBytes (log_bytes_sent e), int_string (log_duration_ms e) @ ''ms''])"

definition td_log_card :: "(string \<Rightarrow> string) \<Rightarrow> log_entry list query \<Rightarrow> td_ev ui" where
  "td_log_card toLocaleString q = Node ''Card''
     [Node ''CardHeader'' [Say (tr ''tunnel_detail.connection_log'')],
      Node ''CardContent''
       [if q_isLoading q then Node ''div'' []
        else (case q_data q of
           Some [] \<Rightarrow> Node ''div'' [Say (tr ''tunnel_detail.no_logs'')]
         | Some es \<Rightarrow> Node ''Table''
            [head_row [''tunnel_detail.table.time'', ''tunnel_detail.table.client_ip'', ''tunnel_detail.table.method'',
               ''tunnel_detail.table.path'', ''tunnel_detail.table.status'', ''tunnel_detail.table.bytes'', ''tunnel_detail.table.duration''],
             Node ''TableBody'' (map (log_row toLocaleString) es)]
         | None \<Rightarrow> failed_load ''tunnel_detail.failed_logs'' [Button False RetryLogs [Say (tr ''common.retry'')]])]]"

definition edit_dialog :: "tunnel_detail \<Rightarrow> td_ev ui" where
  "edit_dialog s = Dialog (showEdit s) CloseEdit (tr ''tunnel_detail.edit_dialog.title'') (tr ''tunnel_detail.edit_dialog.description'')
     [Form (isPending (td_update s)) SubmitEdit
       [Input (tr ''tunnel_detail.edit_dialog.name'') (editName s) [] False SetEditName,
        Node ''div'' [Node ''label'' [Say (tr ''tunnel_detail.edit_dialog.auth_mode'')],
          Select (editAuthMode s) (map (\<lambda>m. (m, tr (''tunnel_detail.edit_dialog.auth_'' @ m))) [''none'', ''basic'', ''oauth'']) SetAuthMode],
        NumField (tr ''tunnel_detail.edit_dialog.max_connections'') (editMaxConnections s) SetMaxConnections,
        mutation_error (td_update s) ''tunnel_detail.failed_load'',
        Node ''div''
         [Button False CloseEdit [Say (tr ''tunnel_detail.edit_dialog.cancel'')],
          Node ''submit'' [Say (tr (if isPending (td_update s) then ''tunnel_detail.edit_dialog.saving'' else ''tunnel_detail.edit_dialog.save''))]]]]"

text \<open>The chart is drawn by a library from \<open>mockTraffic\<close>.\<close>

definition TunnelDetail_view ::
  "(string \<Rightarrow> string) \<Rightarrow> (string \<Rightarrow> string) \<Rightarrow> (string \<Rightarrow> string) \<Rightarrow> tunnel_detail \<Rightarrow> td_ev ui" where
  "TunnelDetail_view fmt distance toLocaleString s =
     (let q = td_query s in
      Node ''div''
       [Node ''nav'' [LinkTo ''/tunnels'' [Say (tr ''tunnel_detail.breadcrumb'')], Node ''span'' [Say [Lit ''/'']],
          Node ''span'' [Say [Lit (case q_data q of None \<Rightarrow> ''...'' | Some t \<Rightarrow> tunnel_name t)]]],
        LinkTo ''/tunnels'' [Say (tr ''tunnel_detail.back'')],
        if q_isLoading q then Node ''Card'' []
        else if q_isError q then Node ''Card'' [failed_load ''tunnel_detail.failed_load'' [Button False RetryTunnel [Say (tr ''common.retry'')]]]
        else (case q_data q of
           None \<Rightarrow> Node ''Card'' [Say (tr ''tunnel_detail.not_found'')]
         | Some t \<Rightarrow> Node ''''
            [Node ''Card'' [td_info fmt distance t, td_actions s t],
             Node ''Card'' [Node ''CardHeader'' [Say (tr ''tunnel_detail.traffic_graph''), Say [Lit (''WS: '' @ td_connection s)]], Node ''TrafficLineChart'' []],
             td_log_card toLocaleString (td_logs s)]),
        edit_dialog s])"

text \<open>The environment: the two queries, the connection's state, and the timer.\<close>

definition td_env :: "tunnel_detail \<Rightarrow> tunnel_detail \<Rightarrow> bool" where
  "td_env s s' \<longleftrightarrow>
     (\<exists>q ql w. s' = s\<lparr>td_query := q, td_logs := ql, td_connection := w\<rparr>) \<or>
     (\<exists>now r1 r2. 0 \<le> r1 \<and> r1 < 1 \<and> 0 \<le> r2 \<and> r2 < 1 \<and> s' = traffic_tick now r1 r2 s)"

definition td_calls :: "string \<Rightarrow> cmd list" where
  "td_calls tid = (if tid = '''' then [] else [CallApi ''GET'' (tunnel_path tid) JUndef]) @ [CallApi ''GET'' ''/v1/tunnels'' JUndef] @
     (if tid = '''' then [] else [CallApi ''GET'' (tunnel_path tid @ ''/logs'') JUndef])"

record td_cfg =
  cfg_format :: "string \<Rightarrow> string"
  cfg_distance :: "string \<Rightarrow> string"
  cfg_locale :: "string \<Rightarrow> string"
  cfg_now :: int
  cfg_random :: "nat \<Rightarrow> rat"

definition TunnelDetail :: "td_cfg \<Rightarrow> string \<Rightarrow> (tunnel_detail, td_ev, td_k) page" where
  "TunnelDetail cfg tid =
     \<lparr>pg_mount = (td_init (cfg_now cfg) (cfg_random cfg), td_calls tid, []),
      pg_view = TunnelDetail_view (cfg_format cfg) (cfg_distance cfg) (cfg_locale cfg),
      pg_user = td_user tid, pg_resume = td_resume tid, pg_env = td_env\<rparr>"

lemma TunnelDetail_sel [simp]:
  "pg_mount (TunnelDetail cfg tid) = (td_init (cfg_now cfg) (cfg_random cfg), td_calls tid, [])"
  "pg_view (TunnelDetail cfg tid) = TunnelDetail_view (cfg_format cfg) (cfg_distance cfg) (cfg_locale cfg)"
  "pg_user (TunnelDetail cfg tid) = td_user tid" "pg_resume (TunnelDetail cfg tid) = td_resume tid" "pg_env (TunnelDetail cfg tid) = td_env"
  by (simp_all add: TunnelDetail_def)

section \<open>Invariant\<close>

definition td_inv :: "tunnel_detail \<Rightarrow> td_k list \<Rightarrow> bool" where
  "td_inv s ks \<longleftrightarrow>
     flags (isPending (td_start s)) (\<lambda>k. k = KTdStart) ks \<and> flags (isPending (td_stop s)) (\<lambda>k. k = KTdStop) ks \<and>
     flags (isPending (td_restart s)) (\<lambda>k. k = KTdRestart) ks \<and> flags (isPending (td_update s)) (\<lambda>k. k = KTdUpdate) ks \<and>
     editAuthMode s \<in> {''none'', ''basic'', ''oauth''}"

fun td_guard :: "tunnel_detail \<Rightarrow> td_ev \<Rightarrow> bool" where
  "td_guard s (TdStart i) = (\<not> isPending (td_start s))"
| "td_guard s (TdStop i) = (\<not> isPending (td_stop s))"
| "td_guard s (TdRestart i) = (\<not> isPending (td_restart s))"
| "td_guard s SubmitEdit = (\<not> isPending (td_update s))"
| "td_guard s (SetAuthMode m) = (m \<in> {''none'', ''basic'', ''oauth''})"
| "td_guard s _ = True"

fun td_cmd_ok :: "string \<Rightarrow> cmd \<Rightarrow> bool" where
  "td_cmd_ok tid (CallApi m p b) = (m = ''PATCH'' \<longrightarrow> p = tunnel_path tid \<and>
     (\<exists>name mode n. mode \<in> {''none'', ''basic'', ''oauth''} \<and>
        b = json_body [(''name'', JStr name), (''auth_mode'', JStr mode), (''max_connections'', JNum n)]))"
| "td_cmd_ok tid _ = True"

lemma td_parts_guarded:
  "events (td_info fmt distance t) = {}" "events (log_row loc l) = {}"
  "e \<in> events (td_actions s t) \<Longrightarrow> td_guard s e" "e \<in> events (td_log_card loc q) \<Longrightarrow> td_guard s e"
  "e \<in> events (edit_dialog s) \<Longrightarrow> td_guard s e"
  by (auto simp: td_info_def td_item_def log_row_def td_actions_def td_log_card_def edit_dialog_def split: option.splits list.splits if_splits)

lemma td_offered: "e \<in> events (TunnelDetail_view fmt distance loc s) \<Longrightarrow> td_guard s e"
  by (auto simp: TunnelDetail_view_def Let_def td_parts_guarded(1) dest: td_parts_guarded(3-5) split: option.splits if_splits)

lemma td_user_inv:
  assumes "td_inv s ks" and "td_guard s e"
  shows "td_inv (fst (td_user tid e s)) (ks @ snd (snd (td_user tid e s)))"
    and "list_all (td_cmd_ok tid) (fst (snd (td_user tid e s)))"
  using assms
  by (cases e; auto simp: td_inv_def flags_def handleEdit_def openEdit_def updateTunnel_def startTunnel_def stopTunnel_def
      restartTunnel_def split: option.splits)+

lemma td_resume_inv:
  assumes "td_inv s (ks1 @ k # ks2)"
  shows "td_inv (fst (td_resume tid k r s)) (ks1 @ ks2 @ snd (snd (td_resume tid k r s)))"
    and "list_all (td_cmd_ok tid) (fst (snd (td_resume tid k r s)))"
  using assms by (cases k; cases r; auto simp: td_inv_def flags_def handleEdit_done_def Let_def split: if_splits)+

lemma td_mounted: "td_inv (td_init now rnd) []" "list_all (td_cmd_ok tid) (td_calls tid)"
  by (simp_all add: td_inv_def td_init_def flags_def td_calls_def)

lemma td_changed: "td_inv s ks \<Longrightarrow> td_env s s' \<Longrightarrow> td_inv s' ks"
  by (auto simp: td_inv_def td_env_def traffic_tick_def)

interpretation tunnel_detail: page_guarded "TunnelDetail cfg tid" td_inv td_guard "td_cmd_ok tid" for cfg tid
  by unfold_locales (simp_all add: td_mounted td_user_inv td_resume_inv td_changed, erule td_offered)

lemma tunnel_detail_single_flight:
  "single_flight (TunnelDetail cfg tid)
     [(\<lambda>s. isPending (td_start s), \<lambda>k. k = KTdStart), (\<lambda>s. isPending (td_stop s), \<lambda>k. k = KTdStop),
      (\<lambda>s. isPending (td_restart s), \<lambda>k. k = KTdRestart), (\<lambda>s. isPending (td_update s), \<lambda>k. k = KTdUpdate)]"
  by (rule tunnel_detail.single_flightI) (simp add: td_inv_def)

section \<open>The graph\<close>

definition traffic_ok :: "traffic_point list \<Rightarrow> bool" where
  "traffic_ok ps \<longleftrightarrow> length ps = 30 \<and>
     (\<forall>p \<in> set ps. 2000 \<le> tp_bytes_in p \<and> tp_bytes_in p < 10000 \<and> 1000 \<le> tp_bytes_out p \<and> tp_bytes_out p < 6000)"

lemma traffic_ok_mock: "(\<And>i. 0 \<le> rnd i \<and> rnd i < 1) \<Longrightarrow> traffic_ok (generateMockTraffic now rnd)"
proof -
  assume r: "\<And>i. 0 \<le> rnd i \<and> rnd i < 1"
  have "2000 \<le> draw (rnd i) 5000 2000 \<and> draw (rnd i) 5000 2000 < 10000 \<and>
      1000 \<le> draw (rnd j) 3000 1000 \<and> draw (rnd j) 3000 1000 < 6000" for i j
    using draw_bounds [of "rnd i" 5000 2000] draw_bounds [of "rnd j" 3000 1000] r [of i] r [of j] by simp
  then show ?thesis by (auto simp: traffic_ok_def generateMockTraffic_def)
qed

lemma traffic_ok_tick:
  assumes "traffic_ok (mockTraffic s)" and "0 \<le> r1" "r1 < 1" "0 \<le> r2" "r2 < 1"
  shows "traffic_ok (mockTraffic (traffic_tick now r1 r2 s))"
  using assms draw_bounds [of r1 8000 2000] draw_bounds [of r2 5000 1000]
  by (auto simp: traffic_ok_def traffic_tick_def dest: in_set_dropD)

lemma td_user_traffic: "mockTraffic (fst (td_user tid e s)) = mockTraffic s"
  by (cases e) (auto simp: handleEdit_def openEdit_def split: option.split)

lemma td_resume_traffic: "mockTraffic (fst (td_resume tid k r s)) = mockTraffic s"
  by (cases k; cases r) (auto simp: handleEdit_done_def Let_def)

lemma td_env_traffic: "td_env s s' \<Longrightarrow> traffic_ok (mockTraffic s) \<Longrightarrow> traffic_ok (mockTraffic s')"
  by (auto simp: td_env_def traffic_ok_tick)

lemma td_step_traffic:
  assumes "page_step (TunnelDetail cfg tid) a b" and "traffic_ok (mockTraffic (fst a))"
  shows "traffic_ok (mockTraffic (fst b))"
  using assms
proof (cases rule: page_step.cases)
  case (step_user e s s' cs new ks out)
  then show ?thesis using assms(2) td_user_traffic [of tid e s] by simp
next
  case (step_resume k r s s' cs new ks1 ks2 out)
  then show ?thesis using assms(2) td_resume_traffic [of tid k r s] by simp
next
  case (step_env s s' ks out)
  then show ?thesis using assms(2) td_env_traffic by simp
qed

lemma td_reach_traffic:
  assumes "page_reach (TunnelDetail cfg tid) a" and "\<And>i. 0 \<le> cfg_random cfg i \<and> cfg_random cfg i < 1"
  shows "traffic_ok (mockTraffic (fst a))"
  using assms(1)
proof (induction rule: page_reach.induct)
  case (reach_mount s cs ks)
  then show ?case using traffic_ok_mock [of "cfg_random cfg"] assms(2) by (auto simp: td_init_def)
next
  case (reach_step a b)
  then show ?case using td_step_traffic by blast
qed

section \<open>Properties\<close>

text \<open>The data of the traffic graph keep their shape: whatever happens on the page, there are exactly thirty
  points, with 2000 to 9999 bytes in and 1000 to 5999 bytes out.\<close>

theorem traffic_graph_shape:
  assumes "page_reach (TunnelDetail cfg tid) (s, ks, out)" and "\<And>i. 0 \<le> cfg_random cfg i \<and> cfg_random cfg i < 1"
  shows "length (mockTraffic s) = 30 \<and>
    (\<forall>p \<in> set (mockTraffic s). 2000 \<le> tp_bytes_in p \<and> tp_bytes_in p < 10000 \<and> 1000 \<le> tp_bytes_out p \<and> tp_bytes_out p < 6000)"
  using td_reach_traffic [OF assms] by (simp add: traffic_ok_def)

definition plain_cfg :: td_cfg where
  "plain_cfg = \<lparr>cfg_format = id, cfg_distance = id, cfg_locale = id, cfg_now = 0, cfg_random = (\<lambda>_. 0)\<rparr>"

theorem traffic_graph_shape_witness:
  "\<exists>s ks out. page_reach (TunnelDetail plain_cfg ''t'') (s, ks, out) \<and> length (mockTraffic s) = 30"
proof -
  have r: "page_reach (TunnelDetail plain_cfg ''t'') (td_init 0 (\<lambda>_. 0), [], td_calls ''t'')"
    by (rule reach_mount) (simp add: plain_cfg_def)
  have "0 \<le> cfg_random plain_cfg i \<and> cfg_random plain_cfg i < 1" for i by (simp add: plain_cfg_def)
  from traffic_graph_shape [OF r this] r show ?thesis by blast
qed

text \<open>Starting, stopping and restarting a tunnel do not refresh the page that shows it. A successful answer makes
  the list of tunnels stale, but neither the query of this tunnel nor its log, so that the status and the button stay
  as they were until something else loads them; after an edit the page asks for the tunnel itself.\<close>

theorem actions_leave_detail_stale:
  assumes "k \<in> {KTdStart, KTdStop, KTdRestart}"
  shows "let cs = fst (snd (td_resume tid k (Inr v) s)) in
    stale cs [''tunnels''] \<and> \<not> stale cs [''tunnel'', tid] \<and> \<not> stale cs [''tunnel'', tid, ''logs''] \<and>
    Refetch [''tunnel'', tid] \<notin> set cs \<and> td_query (fst (td_resume tid k (Inr v) s)) = td_query s \<and>
    Refetch [''tunnel'', tid] \<in> set (fst (snd (td_resume tid KTdUpdate (Inr v) s)))"
  using assms by (auto simp: stale_def handleEdit_done_def Let_def)

theorem actions_leave_detail_stale_witness:
  "\<not> stale (fst (snd (td_resume ''t'' KTdStop (Inr JUndef) (td_init 0 (\<lambda>_. 0))))) [''tunnel'', ''t'']"
  using actions_leave_detail_stale [of KTdStop "''t''" JUndef "td_init 0 (\<lambda>_. 0)"] by (simp add: Let_def)

lemma td_init_sel [simp]:
  "td_update (td_init now rnd) = idle" "editAuthMode (td_init now rnd) = ''none''" "editMaxConnections (td_init now rnd) = 10"
  by (simp_all add: td_init_def)

text \<open>The fields for the protection change only when they are typed into.\<close>

lemma td_play_untouched:
  assumes "page_play (TunnelDetail cfg tid) ds a = Some b"
    and "\<And>m. Do (SetAuthMode m) \<notin> set ds" and "\<And>n. Do (SetMaxConnections n) \<notin> set ds"
  shows "editAuthMode (fst b) = editAuthMode (fst a) \<and> editMaxConnections (fst b) = editMaxConnections (fst a)"
  using assms
proof (induction "TunnelDetail cfg tid" ds a rule: page_play.induct)
  case (2 e ds s ks out)
  have "editAuthMode (fst (td_user tid e s)) = editAuthMode s \<and> editMaxConnections (fst (td_user tid e s)) = editMaxConnections s"
    using "2.prems"(2,3) by (cases e) (auto simp: openEdit_def handleEdit_def split: option.split)
  with 2 show ?case by (auto split: if_splits prod.splits)
next
  case (3 i r ds s ks out)
  have "editAuthMode (fst (td_resume tid (ks ! i) r s)) = editAuthMode s \<and>
      editMaxConnections (fst (td_resume tid (ks ! i) r s)) = editMaxConnections s"
    by (cases "ks ! i"; cases r) (auto simp: handleEdit_done_def Let_def)
  with 3 show ?case by (auto split: if_splits prod.splits)
next
  case (4 f ds s ks out)
  have "td_env s (f s) \<Longrightarrow> editAuthMode (f s) = editAuthMode s \<and> editMaxConnections (f s) = editMaxConnections s"
    by (auto simp: td_env_def traffic_tick_def)
  with 4 show ?case by (auto split: if_splits)
qed auto

lemma edit_offered:
  "q_data (td_query s) = Some t \<Longrightarrow> \<not> q_isLoading (td_query s) \<Longrightarrow> \<not> q_isError (td_query s) \<Longrightarrow>
     OpenEdit \<in> events (TunnelDetail_view f d l s)"
  "showEdit s \<Longrightarrow> \<not> isPending (td_update s) \<Longrightarrow> SubmitEdit \<in> events (TunnelDetail_view f d l s)"
  by (simp_all add: TunnelDetail_view_def Let_def td_actions_def edit_dialog_def)

text \<open>C31: the edit dialog takes away a tunnel's protection. Whatever has happened on the page - unless the user typed into the
  two fields for the authentication mode and the number of connections - when the tunnel is shown and no edit is under way, opening
  the dialog and submitting it as it is sends the tunnel's own name, but always the mode \<open>none\<close> and ten connections, whatever
  authentication mode the tunnel has.\<close>

theorem edit_resets_protection:
  assumes "page_play (TunnelDetail cfg tid) ds (td_init (cfg_now cfg) (cfg_random cfg), [], td_calls tid) = Some (s, ks, out)"
    and "\<And>m. Do (SetAuthMode m) \<notin> set ds" and "\<And>n. Do (SetMaxConnections n) \<notin> set ds" and "tid \<noteq> ''''"
    and "td_query s = q_success t" and "\<not> isPending (td_update s)"
  shows "\<exists>s' ks'. page_play (TunnelDetail cfg tid) [Do OpenEdit, Do SubmitEdit] (s, ks, out) =
    Some (s', ks', out @ [CallApi ''PATCH'' (''/v1/tunnels/'' @ tid)
      (JObj [(''name'', JStr (tunnel_name t)), (''auth_mode'', JStr ''none''), (''max_connections'', JNum 10)])])"
proof -
  have "editAuthMode s = ''none''" "editMaxConnections s = 10" using td_play_untouched [OF assms(1-3)] by simp_all
  with assms(4-6) show ?thesis
    by (simp add: edit_offered openEdit_def handleEdit_def updateTunnel_def tunnel_path_def json_body_def)
qed

theorem edit_resets_protection_witness:
  "\<exists>ds s ks out. page_play (TunnelDetail plain_cfg ''t'') ds (td_init 0 (\<lambda>_. 0), [], td_calls ''t'') = Some (s, ks, out) \<and>
     (\<exists>t. q_data (td_query s) = Some t \<and> ti_auth_mode t = Some ''oauth'') \<and>
     CallApi ''PATCH'' ''/v1/tunnels/t'' (JObj [(''name'', JStr ''web''), (''auth_mode'', JStr ''none''), (''max_connections'', JNum 10)]) \<in> set out"
proof -
  define t :: tunnel_info where "t = \<lparr>tunnel_id = ''t'', tunnel_name = ''web'', tunnel_protocol = ''http'', tunnel_local_port = 80,
    tunnel_remote_port = 8000, tunnel_domain = None, tunnel_status = ''active'', tunnel_tags = None,
    tunnel_bytes_in_total = 0, tunnel_bytes_out_total = 0, ti_traffic_in = 0, ti_traffic_out = 0,
    ti_auth_mode = Some ''oauth'', ti_created_at = ''''\<rparr>"
  let ?load = "\<lambda>s :: tunnel_detail. s\<lparr>td_query := q_success t\<rparr>" and ?s0 = "td_init 0 (\<lambda>_. 0)"
  have env: "td_env s (?load s)" for s by (auto simp: td_env_def intro!: disjI1 exI [of _ "q_success t"] exI [of _ "td_logs s"] exI [of _ "td_connection s"])
  have cfg: "cfg_now plain_cfg = 0" "cfg_random plain_cfg = (\<lambda>_. 0)" by (simp_all add: plain_cfg_def)
  have load: "page_play (TunnelDetail plain_cfg ''t'') [Change ?load] (?s0, [], td_calls ''t'') = Some (?load ?s0, [], td_calls ''t'')"
    by (simp add: env)
  obtain s' ks' where p: "page_play (TunnelDetail plain_cfg ''t'') [Do OpenEdit, Do SubmitEdit] (?load ?s0, [], td_calls ''t'') =
      Some (s', ks', td_calls ''t'' @ [CallApi ''PATCH'' (''/v1/tunnels/'' @ ''t'')
        (JObj [(''name'', JStr (tunnel_name t)), (''auth_mode'', JStr ''none''), (''max_connections'', JNum 10)])])"
    using edit_resets_protection [of plain_cfg "''t''" "[Change ?load]" "?load ?s0" "[]" "td_calls ''t''" t] load cfg by auto
  moreover from p have "td_query s' = q_success t"
    by (auto simp: edit_offered openEdit_def handleEdit_def split: if_splits)
  moreover have "page_play (TunnelDetail plain_cfg ''t'') [Change ?load, Do OpenEdit, Do SubmitEdit] (?s0, [], td_calls ''t'') =
      page_play (TunnelDetail plain_cfg ''t'') [Do OpenEdit, Do SubmitEdit] (?load ?s0, [], td_calls ''t'')"
    by (simp add: env)
  moreover have "tunnel_name t = ''web''" "ti_auth_mode t = Some ''oauth''" by (simp_all add: t_def)
  ultimately show ?thesis
    by (intro exI [of _ "[Change ?load, Do OpenEdit, Do SubmitEdit]"] exI [of _ s'] exI [of _ ks'] exI) auto
qed

end
