(* ===== verification/TunnelsPage.thy ===== *)
theory TunnelsPage
  imports Hooks
begin

text \<open>
  The list of tunnels (\<open>pages/Tunnels.tsx\<close>): selection, batch actions, filter and pages, the create
  dialog with its templates and tags, and the delete dialogs.

  The page number is an integer, as in the code; that it is never negative, where \<open>slice\<close> would count from
  the end, is part of the invariant.
\<close>

section \<open>State\<close>

record new_tunnel =
  nt_name :: string
  nt_protocol :: string
  nt_local_port :: int
  nt_remote_port :: int
  nt_domain :: string
  nt_tags :: "string list"

definition blank_tunnel :: new_tunnel where
  "blank_tunnel = \<lparr>nt_name = '''', nt_protocol = ''tcp'', nt_local_port = 0, nt_remote_port = 0, nt_domain = '''', nt_tags = []\<rparr>"

record tunnels_page =
  tunnels :: "tunnel list"
  isLoading :: bool
  loadError :: bool
  m_create :: mutation
  m_delete :: mutation
  m_start :: mutation
  m_stop :: mutation
  showCreate :: bool
  createTab :: string
  deleteTarget :: "tunnel option"
  batchDeleteTargets :: "string list option"
  copiedDomain :: "string option"
  page_no :: int
  newTunnel :: new_tunnel
  tagInput :: string
  selectedIds :: "string list"
  batchProcessing :: bool
  tagFilter :: "string option"

definition tunnels_init :: tunnels_page where
  "tunnels_init = \<lparr>tunnels = [], isLoading = True, loadError = False,
     m_create = idle, m_delete = idle, m_start = idle, m_stop = idle,
     showCreate = False, createTab = ''scratch'', deleteTarget = None, batchDeleteTargets = None,
     copiedDomain = None, page_no = 0, newTunnel = blank_tunnel, tagInput = '''', selectedIds = [],
     batchProcessing = False, tagFilter = None\<rparr>"

definition TUNNEL_TEMPLATES :: "tunnel_template list" where
  "TUNNEL_TEMPLATES =
     [\<lparr>tmpl_id = ''http-api'', tmpl_name = ''HTTP API'', tmpl_icon = ''Globe'', tmpl_protocol = ''http'',
       tmpl_local_port = 8080, tmpl_tls_mode = ''edge'', tmpl_compression = False,
       tmpl_description = ''REST API with TLS and compression''\<rparr>,
      \<lparr>tmpl_id = ''grpc'', tmpl_name = ''gRPC'', tmpl_icon = ''Radio'', tmpl_protocol = ''tcp'',
       tmpl_local_port = 50051, tmpl_tls_mode = ''edge'', tmpl_compression = False,
       tmpl_description = ''gRPC service with HTTP/2''\<rparr>,
      \<lparr>tmpl_id = ''websocket'', tmpl_name = ''WebSocket'', tmpl_icon = ''Layers'', tmpl_protocol = ''tcp'',
       tmpl_local_port = 3001, tmpl_tls_mode = ''edge'', tmpl_compression = True,
       tmpl_description = ''Persistent WebSocket connections''\<rparr>,
      \<lparr>tmpl_id = ''tcp-database'', tmpl_name = ''TCP Database'', tmpl_icon = ''Database'', tmpl_protocol = ''tcp'',
       tmpl_local_port = 5432, tmpl_tls_mode = ''none'', tmpl_compression = False,
       tmpl_description = ''Database tunnel for PostgreSQL/MySQL''\<rparr>,
      \<lparr>tmpl_id = ''ssh'', tmpl_name = ''SSH'', tmpl_icon = ''Terminal'', tmpl_protocol = ''tcp'',
       tmpl_local_port = 22, tmpl_tls_mode = ''none'', tmpl_compression = False,
       tmpl_description = ''Secure shell tunnel''\<rparr>]"

abbreviation PAGE_SIZE :: int where
  "PAGE_SIZE \<equiv> 10"

section \<open>Derived values\<close>

definition filteredTunnels :: "tunnels_page \<Rightarrow> tunnel list" where
  "filteredTunnels s =
     (case tagFilter s of
        None \<Rightarrow> tunnels s
      | Some f \<Rightarrow>
          if f = '''' then tunnels s
          else filter (\<lambda>t. case tunnel_tags t of None \<Rightarrow> False | Some ts \<Rightarrow> f \<in> set ts) (tunnels s))"

definition paginatedTunnels :: "tunnels_page \<Rightarrow> tunnel list" where
  "paginatedTunnels s = slice (nat (page_no s * PAGE_SIZE)) (nat ((page_no s + 1) * PAGE_SIZE)) (filteredTunnels s)"

definition hasMore :: "tunnels_page \<Rightarrow> bool" where
  "hasMore s \<longleftrightarrow> (page_no s + 1) * PAGE_SIZE < int (length (filteredTunnels s))"

definition allSelected :: "tunnels_page \<Rightarrow> bool" where
  "allSelected s \<longleftrightarrow> paginatedTunnels s \<noteq> [] \<and> list_all (\<lambda>t. tunnel_id t \<in> set (selectedIds s)) (paginatedTunnels s)"

section \<open>Events and continuations\<close>

datatype tunnels_ev =
    OpenCreate | CloseCreate | CancelCreate | ShowTab string | SubmitCreate
  | SetName string | SetProtocol string | SetDomain string | SetLocalPort int | SetRemotePort int
  | SetTagInput string | AddTag | RemoveTag string | ApplyTemplate tunnel_template
  | BatchStart | BatchStop | AskBatchDelete | CancelBatchDelete | ConfirmBatchDelete | ClearSelection
  | FilterTag "string option" | RetryLoad | ToggleAll | ToggleOne string | CopyDomain string
  | StopOne string | StartOne string | CloneOne tunnel | AskDelete tunnel | CancelDelete | ConfirmDelete
  | PrevPage | NextPage

datatype tunnels_k =
    KCreate "string list" string
  | KDelete | KStart | KStop
  | KBatch string nat
  | KBatchDelete
  | KCopied string | KCopyReset

fun is_KCreate :: "tunnels_k \<Rightarrow> bool" where
  "is_KCreate (KCreate ts i) = True" | "is_KCreate _ = False"

fun is_KBatch :: "tunnels_k \<Rightarrow> bool" where
  "is_KBatch (KBatch l n) = True" | "is_KBatch KBatchDelete = True" | "is_KBatch _ = False"

type_synonym tunnels_eff = "(tunnels_page, tunnels_k) effect"

abbreviation quiet :: "'s \<Rightarrow> ('s, 'k) effect" where
  "quiet s \<equiv> (s, [], [])"

section \<open>Handlers\<close>

definition toggleSelect :: "string \<Rightarrow> tunnels_page \<Rightarrow> tunnels_page" where
  "toggleSelect i s = s\<lparr>selectedIds :=
     if i \<in> set (selectedIds s) then set_delete i (selectedIds s) else set_add i (selectedIds s)\<rparr>"

definition toggleSelectAll :: "tunnels_page \<Rightarrow> tunnels_page" where
  "toggleSelectAll s =
     (if allSelected s then s\<lparr>selectedIds := []\<rparr>
      else s\<lparr>selectedIds := set_of_list (map tunnel_id (paginatedTunnels s))\<rparr>)"

definition clearSelection :: "tunnels_page \<Rightarrow> tunnels_page" where
  "clearSelection s = s\<lparr>selectedIds := []\<rparr>"

definition first_id :: "tunnels_page \<Rightarrow> string" where
  "first_id s = (case tunnels s of [] \<Rightarrow> ''undefined'' | t # _ \<Rightarrow> tunnel_id t)"

definition handleCreate :: "tunnels_page \<Rightarrow> tunnels_eff" where
  "handleCreate s =
     (let n = newTunnel s in
      (s\<lparr>m_create := mutate\<rparr>,
       [createTunnel (nt_name n) (nt_protocol n) (nt_local_port n) (nt_remote_port n)
          (if nt_domain n = '''' then None else Some (nt_domain n))],
       [KCreate (nt_tags n) (first_id s)]))"

definition handleCreate_done :: "string list \<Rightarrow> string \<Rightarrow> result \<Rightarrow> tunnels_page \<Rightarrow> tunnels_eff" where
  "handleCreate_done tags first r s =
     (let s1 = s\<lparr>m_create := settled r\<rparr> in
      case r of
        Inl err \<Rightarrow> quiet s1
      | Inr v \<Rightarrow>
          (s1\<lparr>showCreate := False, newTunnel := blank_tunnel, tagInput := '''', createTab := ''scratch''\<rparr>,
           tunnels_onSuccess r @
           (if tags \<noteq> [] then [CallApi ''PUT'' (tunnel_path first @ ''/tags'') (json_body [(''tags'', JArr (map JStr tags))])] else []) @
           [ShowToast (tr ''tunnels.created'') ''success''],
           []))"

definition handleDelete :: "tunnels_page \<Rightarrow> tunnels_eff" where
  "handleDelete s =
     (case deleteTarget s of
        None \<Rightarrow> quiet s
      | Some t \<Rightarrow> (s\<lparr>m_delete := mutate\<rparr>, [deleteTunnel (tunnel_id t)], [KDelete]))"

definition handleDelete_done :: "result \<Rightarrow> tunnels_page \<Rightarrow> tunnels_eff" where
  "handleDelete_done r s =
     (let s1 = s\<lparr>m_delete := settled r\<rparr> in
      case r of
        Inl err \<Rightarrow> quiet s1
      | Inr v \<Rightarrow> (s1\<lparr>deleteTarget := None\<rparr>, tunnels_onSuccess r @ [ShowToast (tr ''tunnels.deleted'') ''success''], []))"

definition handleClone :: "tunnel \<Rightarrow> tunnels_page \<Rightarrow> tunnels_page" where
  "handleClone t s = s\<lparr>newTunnel :=
       \<lparr>nt_name = tunnel_name t @ ''-copy'', nt_protocol = tunnel_protocol t, nt_local_port = tunnel_local_port t,
        nt_remote_port = tunnel_remote_port t, nt_domain = '''',
        nt_tags = (case tunnel_tags t of None \<Rightarrow> [] | Some ts \<Rightarrow> ts)\<rparr>,
     createTab := ''scratch'', showCreate := True\<rparr>"

definition ids_body :: "string list \<Rightarrow> json" where
  "ids_body xs = json_body [(''ids'', JArr (map JStr xs))]"

definition handleBatch :: "string \<Rightarrow> string \<Rightarrow> tunnels_page \<Rightarrow> tunnels_eff" where
  "handleBatch path lbl s =
     (s\<lparr>batchProcessing := True\<rparr>,
      [CallApi ''POST'' path (ids_body (selectedIds s))],
      [KBatch lbl (length (selectedIds s))])"

definition handleBatchStart :: "tunnels_page \<Rightarrow> tunnels_eff" where
  "handleBatchStart s = handleBatch ''/v1/tunnels/batch/start'' ''batch.start_all'' s"

definition handleBatchStop :: "tunnels_page \<Rightarrow> tunnels_eff" where
  "handleBatchStop s = handleBatch ''/v1/tunnels/batch/stop'' ''batch.stop_all'' s"

text \<open>The rest of both handlers: on success the selection is dropped and the list asked for again; the flag
  falls in \<open>finally\<close>.\<close>

definition handleBatch_done :: "string \<Rightarrow> nat \<Rightarrow> result \<Rightarrow> tunnels_page \<Rightarrow> tunnels_eff" where
  "handleBatch_done lbl n r s =
     (case r of
        Inl err \<Rightarrow> (s\<lparr>batchProcessing := False\<rparr>, [ShowToast (tr ''tunnels.failed_load'') ''error''], [])
      | Inr v \<Rightarrow> ((clearSelection s)\<lparr>batchProcessing := False\<rparr>,
          [Refetch TUNNELS_KEY, ShowToast [Tr lbl [], Lit ('' ('' @ nat_string n @ '')'')] ''success''], []))"

definition handleBatchDelete :: "tunnels_page \<Rightarrow> tunnels_eff" where
  "handleBatchDelete s =
     (case batchDeleteTargets s of
        None \<Rightarrow> quiet s
      | Some xs \<Rightarrow> (s\<lparr>batchProcessing := True\<rparr>, [CallApi ''POST'' ''/v1/tunnels/batch/delete'' (ids_body xs)], [KBatchDelete]))"

definition handleBatchDelete_done :: "result \<Rightarrow> tunnels_page \<Rightarrow> tunnels_eff" where
  "handleBatchDelete_done r s =
     (case r of
        Inl err \<Rightarrow> (s\<lparr>batchProcessing := False\<rparr>, [ShowToast (tr ''tunnels.failed_load'') ''error''], [])
      | Inr v \<Rightarrow> ((clearSelection (s\<lparr>batchDeleteTargets := None\<rparr>))\<lparr>batchProcessing := False\<rparr>,
          [Refetch TUNNELS_KEY, ShowToast (tr ''tunnels.deleted'') ''success''], []))"

definition copyDomain :: "string \<Rightarrow> tunnels_page \<Rightarrow> tunnels_eff" where
  "copyDomain d s = (s, [CopyText d], [KCopied d])"

definition copyDomain_done :: "string \<Rightarrow> result \<Rightarrow> tunnels_page \<Rightarrow> tunnels_eff" where
  "copyDomain_done d r s =
     (case r of
        Inl err \<Rightarrow> quiet s
      | Inr v \<Rightarrow> (s\<lparr>copiedDomain := Some d\<rparr>, [ShowToast (tr ''common.copied'') ''success''], [KCopyReset]))"

definition applyTemplate :: "tunnel_template \<Rightarrow> tunnels_page \<Rightarrow> tunnels_eff" where
  "applyTemplate t s =
     (s\<lparr>newTunnel := (newTunnel s)\<lparr>nt_name := tmpl_name t, nt_protocol := tmpl_protocol t, nt_local_port := tmpl_local_port t\<rparr>,
        createTab := ''scratch''\<rparr>,
      [ShowToast [Tr ''tunnels.template_applied'' [(''name'', JStr (tmpl_name t))]] ''success''], [])"

definition handleAddTag :: "tunnels_page \<Rightarrow> tunnels_page" where
  "handleAddTag s =
     (let tag = trim (tagInput s) in
      if tag = '''' \<or> tag \<in> set (nt_tags (newTunnel s)) then s
      else s\<lparr>newTunnel := (newTunnel s)\<lparr>nt_tags := nt_tags (newTunnel s) @ [tag]\<rparr>, tagInput := ''''\<rparr>)"

definition handleRemoveTag :: "string \<Rightarrow> tunnels_page \<Rightarrow> tunnels_page" where
  "handleRemoveTag tag s =
     s\<lparr>newTunnel := (newTunnel s)\<lparr>nt_tags := filter (\<lambda>t. t \<noteq> tag) (nt_tags (newTunnel s))\<rparr>\<rparr>"

definition handleTagFilter :: "string option \<Rightarrow> tunnels_page \<Rightarrow> tunnels_page" where
  "handleTagFilter tag s = s\<lparr>tagFilter := if tagFilter s = tag then None else tag, page_no := 0\<rparr>"

abbreviation edit_new :: "(new_tunnel \<Rightarrow> new_tunnel) \<Rightarrow> tunnels_page \<Rightarrow> tunnels_eff" where
  "edit_new f s \<equiv> quiet (s\<lparr>newTunnel := f (newTunnel s)\<rparr>)"

fun tunnels_user :: "tunnels_ev \<Rightarrow> tunnels_page \<Rightarrow> tunnels_eff" where
  "tunnels_user OpenCreate s = quiet (s\<lparr>showCreate := True\<rparr>)"
| "tunnels_user CloseCreate s = quiet (s\<lparr>showCreate := False, createTab := ''scratch''\<rparr>)"
| "tunnels_user CancelCreate s = quiet (s\<lparr>showCreate := False\<rparr>)"
| "tunnels_user (ShowTab tab) s = quiet (s\<lparr>createTab := tab\<rparr>)"
| "tunnels_user SubmitCreate s = handleCreate s"
| "tunnels_user (SetName v) s = edit_new (\<lambda>p. p\<lparr>nt_name := v\<rparr>) s"
| "tunnels_user (SetProtocol v) s = edit_new (\<lambda>p. p\<lparr>nt_protocol := v\<rparr>) s"
| "tunnels_user (SetDomain v) s = edit_new (\<lambda>p. p\<lparr>nt_domain := v\<rparr>) s"
| "tunnels_user (SetLocalPort v) s = edit_new (\<lambda>p. p\<lparr>nt_local_port := v\<rparr>) s"
| "tunnels_user (SetRemotePort v) s = edit_new (\<lambda>p. p\<lparr>nt_remote_port := v\<rparr>) s"
| "tunnels_user (SetTagInput v) s = quiet (s\<lparr>tagInput := v\<rparr>)"
| "tunnels_user AddTag s = quiet (handleAddTag s)"
| "tunnels_user (RemoveTag tag) s = quiet (handleRemoveTag tag s)"
| "tunnels_user (ApplyTemplate t) s = applyTemplate t s"
| "tunnels_user BatchStart s = handleBatchStart s"
| "tunnels_user BatchStop s = handleBatchStop s"
| "tunnels_user AskBatchDelete s = quiet (s\<lparr>batchDeleteTargets := Some (selectedIds s)\<rparr>)"
| "tunnels_user CancelBatchDelete s = quiet (s\<lparr>batchDeleteTargets := None\<rparr>)"
| "tunnels_user ConfirmBatchDelete s = handleBatchDelete s"
| "tunnels_user ClearSelection s = quiet (clearSelection s)"
| "tunnels_user (FilterTag tag) s = quiet (handleTagFilter tag s)"
| "tunnels_user RetryLoad s = (s, [Refetch TUNNELS_KEY], [])"
| "tunnels_user ToggleAll s = quiet (toggleSelectAll s)"
| "tunnels_user (ToggleOne i) s = quiet (toggleSelect i s)"
| "tunnels_user (CopyDomain d) s = copyDomain d s"
| "tunnels_user (StopOne i) s = (s\<lparr>m_stop := mutate\<rparr>, [stopTunnel i], [KStop])"
| "tunnels_user (StartOne i) s = (s\<lparr>m_start := mutate\<rparr>, [startTunnel i], [KStart])"
| "tunnels_user (CloneOne t) s = quiet (handleClone t s)"
| "tunnels_user (AskDelete t) s = quiet (s\<lparr>deleteTarget := Some t\<rparr>)"
| "tunnels_user CancelDelete s = quiet (s\<lparr>deleteTarget := None\<rparr>)"
| "tunnels_user ConfirmDelete s = handleDelete s"
| "tunnels_user PrevPage s = quiet (s\<lparr>page_no := page_no s - 1\<rparr>)"
| "tunnels_user NextPage s = quiet (s\<lparr>page_no := page_no s + 1\<rparr>)"

fun tunnels_resume :: "tunnels_k \<Rightarrow> result \<Rightarrow> tunnels_page \<Rightarrow> tunnels_eff" where
  "tunnels_resume (KCreate tags first) r s = handleCreate_done tags first r s"
| "tunnels_resume KDelete r s = handleDelete_done r s"
| "tunnels_resume KStart r s = (s\<lparr>m_start := settled r\<rparr>, tunnels_onSuccess r, [])"
| "tunnels_resume KStop r s = (s\<lparr>m_stop := settled r\<rparr>, tunnels_onSuccess r, [])"
| "tunnels_resume (KBatch lbl n) r s = handleBatch_done lbl n r s"
| "tunnels_resume KBatchDelete r s = handleBatchDelete_done r s"
| "tunnels_resume (KCopied d) r s = copyDomain_done d r s"
| "tunnels_resume KCopyReset r s = quiet (s\<lparr>copiedDomain := None\<rparr>)"

section \<open>View\<close>

abbreviation num :: "nat \<Rightarrow> json" where
  "num n \<equiv> JNum (int n)"

definition batch_bar :: "tunnels_page \<Rightarrow> tunnels_ev ui" where
  "batch_bar s = only_if (selectedIds s \<noteq> []) (Node ''div''
     [Node ''span'' [Say [Tr ''batch.selected'' [(''count'', num (length (selectedIds s)))]]],
      Node ''div''
       [Button (batchProcessing s) BatchStart [Say (tr ''batch.start_all'')],
        Button (batchProcessing s) BatchStop [Say (tr ''batch.stop_all'')],
        Button (batchProcessing s) AskBatchDelete [Say (tr ''batch.delete_all'')]],
      Button False ClearSelection []])"

definition filter_bar :: "tunnels_page \<Rightarrow> tunnels_ev ui" where
  "filter_bar s =
     (case tagFilter s of
        None \<Rightarrow> Null
      | Some f \<Rightarrow> only_if (f \<noteq> '''') (Node ''div''
          [Node ''span'' [Say [Tr ''tags.filter_by_tag'' [], Lit '':'']], Listens (FilterTag None) [Say [Lit f]]]))"

definition tunnel_row :: "tunnels_page \<Rightarrow> tunnel \<Rightarrow> tunnels_ev ui" where
  "tunnel_row s t = Node ''TableRow''
     [Node ''TableCell'' [Checkbox (tunnel_id t \<in> set (selectedIds s)) (ToggleOne (tunnel_id t))],
      Node ''TableCell'' [LinkTo (''/tunnels/'' @ tunnel_id t) [Say [Lit (tunnel_name t)]]],
      Node ''TableCell'' [Node ''Badge'' [Say (tr (''tunnels.protocols.'' @ tunnel_protocol t))]],
      Node ''TableCell'' [Node ''Badge'' [Say (tr (''tunnels.status.'' @ tunnel_status t))]],
      Node ''TableCell''
       [case tunnel_domain t of
          None \<Rightarrow> Node ''span'' []
        | Some d \<Rightarrow> if d = '''' then Node ''span'' [] else Button False (CopyDomain d)
            [Say [Lit d], Node (if copiedDomain s = Some d then ''Check'' else ''Copy'') []]],
      Node ''TableCell''
       [case tunnel_tags t of
          None \<Rightarrow> Node ''span'' []
        | Some ts \<Rightarrow> if ts = [] then Node ''span'' []
            else Node ''div'' (map (\<lambda>tag. Button False (FilterTag (Some tag)) [Say [Lit tag]]) ts)],
      Node ''TableCell'' [Say [Lit (formatBytes (tunnel_bytes_in_total t + tunnel_bytes_out_total t))]],
      Node ''TableCell'' [Node ''div''
       [if tunnel_status t = ''active''
        then Button (isPending (m_stop s)) (StopOne (tunnel_id t)) []
        else Button (isPending (m_start s)) (StartOne (tunnel_id t)) [],
        Button False (CloneOne t) [],
        LinkTo (''/tunnels/'' @ tunnel_id t) [],
        Button False (AskDelete t) []]]]"

definition pagination_text :: "tunnels_page \<Rightarrow> caption" where
  "pagination_text s =
     (if length (filteredTunnels s) = length (tunnels s)
      then [Tr ''tunnels.pagination.showing'' [], Lit ('' '' @ int_string (page_no s * PAGE_SIZE + 1) @ ''-'' @
              int_string (min ((page_no s + 1) * PAGE_SIZE) (int (length (filteredTunnels s)))) @ '' ''),
            Tr ''tunnels.pagination.of'' [], Lit ('' '' @ nat_string (length (filteredTunnels s)))]
      else [Lit (nat_string (length (filteredTunnels s)) @ '' ''), Tr ''tunnels.pagination.of'' [],
            Lit ('' '' @ nat_string (length (tunnels s)))])"

definition pagination :: "tunnels_page \<Rightarrow> tunnels_ev ui" where
  "pagination s = only_if (int (length (filteredTunnels s)) > PAGE_SIZE) (Node ''div''
     [Node ''p'' [Say (pagination_text s)],
      Node ''div''
       [Button (page_no s = 0) PrevPage [Say (tr ''tunnels.pagination.previous'')],
        Button (\<not> hasMore s) NextPage [Say (tr ''tunnels.pagination.next'')]]])"

definition tunnels_table :: "tunnels_page \<Rightarrow> tunnels_ev ui" where
  "tunnels_table s =
     (if isLoading s then Node ''div'' []
      else if loadError s
      then Node ''div'' [Node ''p'' [Say (tr ''tunnels.failed_load'')], Button False RetryLoad [Say (tr ''common.retry'')]]
      else if tunnels s = []
      then Node ''div'' [Node ''p'' [Say (tr ''tunnels.empty'')], Button False OpenCreate [Say (tr ''dashboard.create_first'')]]
      else Node '''' [Node ''Table''
        [Node ''TableHeader'' [Node ''TableRow'' (Node ''TableHead'' [Checkbox (allSelected s) ToggleAll] #
           map (\<lambda>k. Node ''TableHead'' [Say (tr k)])
             [''tunnels.table.name'', ''tunnels.table.protocol'', ''tunnels.table.status'', ''tunnels.table.domain'',
              ''tags.no_tags'', ''tunnels.table.traffic'', ''tunnels.table.actions''])],
         Node ''TableBody'' (map (tunnel_row s) (paginatedTunnels s))],
        pagination s])"

definition template_card :: "tunnel_template \<Rightarrow> tunnels_ev ui" where
  "template_card t = Button False (ApplyTemplate t)
     [Node ''div'' [Node ''span'' [Say [Lit (tmpl_name t)]]],
      Node ''div'' [Say [Lit (tmpl_description t)]],
      Node ''div''
       [Node ''Badge'' [Say [Lit (tmpl_protocol t)]],
        Node ''Badge'' [Say [Lit ('':'' @ int_string (tmpl_local_port t))]],
        only_if (tmpl_compression t) (Node ''Badge'' [Say [Lit ''compressed'']])]]"

definition tags_input :: "tunnels_page \<Rightarrow> tunnels_ev ui" where
  "tags_input s = Node ''div''
     [Node ''label'' [Say (tr ''tags.placeholder'')],
      Node ''div'' [Listens AddTag [Input [] (tagInput s) [] False SetTagInput], Button False AddTag []],
      only_if (nt_tags (newTunnel s) \<noteq> [])
        (Node ''div'' (map (\<lambda>tag. Node ''Badge'' [Say [Lit tag], Button False (RemoveTag tag) []]) (nt_tags (newTunnel s))))]"

definition create_form :: "tunnels_page \<Rightarrow> tunnels_ev ui" where
  "create_form s = Form (isPending (m_create s)) SubmitCreate
     [Input (tr ''tunnels.create_dialog.name'') (nt_name (newTunnel s)) [] False SetName,
      Node ''div''
       [Node ''div''
         [Node ''label'' [Say (tr ''tunnels.create_dialog.protocol'')],
          Select (nt_protocol (newTunnel s))
            (map (\<lambda>p. (p, tr (''tunnels.protocols.'' @ p))) [''tcp'', ''http'', ''https'']) SetProtocol],
        Input (tr ''tunnels.create_dialog.domain'') (nt_domain (newTunnel s)) [] False SetDomain],
      Node ''div''
       [NumField (tr ''tunnels.create_dialog.local_port'') (nt_local_port (newTunnel s)) SetLocalPort,
        NumField (tr ''tunnels.create_dialog.remote_port'') (nt_remote_port (newTunnel s)) SetRemotePort],
      tags_input s,
      (case merror (m_create s) of
         None \<Rightarrow> Null
       | Some err \<Rightarrow> Node ''p''
           [if nullish (exn_message err) then Say (tr ''tunnels.create_dialog.failed_create'')
            else Say [Lit (js_string (exn_message err))]]),
      Node ''div''
       [Button False CancelCreate [Say (tr ''tunnels.create_dialog.cancel'')],
        Node ''submit'' [Say (tr (if isPending (m_create s) then ''tunnels.create_dialog.creating'' else ''tunnels.create_dialog.submit''))]]]"

definition create_dialog :: "tunnels_page \<Rightarrow> tunnels_ev ui" where
  "create_dialog s = Dialog (showCreate s) CloseCreate (tr ''tunnels.create_dialog.title'') (tr ''tunnels.create_dialog.description'')
     [Node ''div''
       [Button False (ShowTab ''scratch'') [Say (tr ''templates.tab_from_scratch'')],
        Button False (ShowTab ''templates'') [Say (tr ''templates.tab_templates'')]],
      (if createTab s = ''templates'' then Node ''div'' (map template_card TUNNEL_TEMPLATES) else create_form s)]"

definition delete_dialog :: "tunnels_page \<Rightarrow> tunnels_ev ui" where
  "delete_dialog s = Dialog (deleteTarget s \<noteq> None) CancelDelete (tr ''tunnels.delete_dialog.title'') (tr ''tunnels.delete_dialog.message'')
     [Node ''div''
       [Button False CancelDelete [Say (tr ''tunnels.delete_dialog.cancel'')],
        Button (isPending (m_delete s)) ConfirmDelete
          [Say (tr (if isPending (m_delete s) then ''tunnels.delete_dialog.deleting'' else ''tunnels.delete_dialog.confirm''))]]]"

definition batch_delete_dialog :: "tunnels_page \<Rightarrow> tunnels_ev ui" where
  "batch_delete_dialog s = Dialog (batchDeleteTargets s \<noteq> None) CancelBatchDelete (tr ''batch.batch_delete_title'')
     [Tr ''batch.batch_delete_message''
        [(''count'', num (case batchDeleteTargets s of None \<Rightarrow> 0 | Some xs \<Rightarrow> length xs))]]
     [Node ''div''
       [Button False CancelBatchDelete [Say (tr ''tunnels.delete_dialog.cancel'')],
        Button (batchProcessing s) ConfirmBatchDelete
          [Say (tr (if batchProcessing s then ''tunnels.delete_dialog.deleting'' else ''tunnels.delete_dialog.confirm''))]]]"

definition Tunnels_view :: "tunnels_page \<Rightarrow> tunnels_ev ui" where
  "Tunnels_view s = Node ''div''
     [Node ''div''
       [Node ''div'' [Node ''h1'' [Say (tr ''tunnels.title'')], Node ''p'' [Say (tr ''tunnels.subtitle'')]],
        Button False OpenCreate [Say (tr ''tunnels.create'')]],
      batch_bar s,
      filter_bar s,
      Node ''Card'' [Node ''CardContent'' [tunnels_table s]],
      create_dialog s,
      delete_dialog s,
      batch_delete_dialog s]"

text \<open>The query may deliver any list at any time.\<close>

definition tunnels_env :: "tunnels_page \<Rightarrow> tunnels_page \<Rightarrow> bool" where
  "tunnels_env s s' \<longleftrightarrow> (\<exists>d l e. s' = s\<lparr>tunnels := d, isLoading := l, loadError := e\<rparr>)"

definition Tunnels :: "(tunnels_page, tunnels_ev, tunnels_k) page" where
  "Tunnels = \<lparr>pg_mount = (tunnels_init, [CallApi ''GET'' ''/v1/tunnels'' JUndef], []),
     pg_view = Tunnels_view, pg_user = tunnels_user, pg_resume = tunnels_resume, pg_env = tunnels_env\<rparr>"

section \<open>What the view lets the user do\<close>

fun tunnels_guard :: "tunnels_page \<Rightarrow> tunnels_ev \<Rightarrow> bool" where
  "tunnels_guard s SubmitCreate = (\<not> isPending (m_create s))"
| "tunnels_guard s BatchStart = (\<not> batchProcessing s \<and> selectedIds s \<noteq> [])"
| "tunnels_guard s BatchStop = (\<not> batchProcessing s \<and> selectedIds s \<noteq> [])"
| "tunnels_guard s AskBatchDelete = (\<not> batchProcessing s \<and> selectedIds s \<noteq> [])"
| "tunnels_guard s ConfirmBatchDelete = (\<not> batchProcessing s \<and> batchDeleteTargets s \<noteq> None)"
| "tunnels_guard s ConfirmDelete = (\<not> isPending (m_delete s) \<and> deleteTarget s \<noteq> None)"
| "tunnels_guard s (StopOne i) = (\<not> isPending (m_stop s) \<and> (\<exists>t \<in> set (paginatedTunnels s). tunnel_id t = i \<and> tunnel_status t = ''active''))"
| "tunnels_guard s (StartOne i) = (\<not> isPending (m_start s) \<and> (\<exists>t \<in> set (paginatedTunnels s). tunnel_id t = i \<and> tunnel_status t \<noteq> ''active''))"
| "tunnels_guard s (SetProtocol p) = (p \<in> {''tcp'', ''http'', ''https''})"
| "tunnels_guard s (ApplyTemplate t) = (t \<in> set TUNNEL_TEMPLATES)"
| "tunnels_guard s PrevPage = (page_no s \<noteq> 0)"
| "tunnels_guard s NextPage = hasMore s"
| "tunnels_guard s _ = True"

lemma row_guarded: "e \<in> events (tunnel_row s t) \<Longrightarrow> t \<in> set (paginatedTunnels s) \<Longrightarrow> tunnels_guard s e"
  by (auto simp: tunnel_row_def split: option.splits if_splits)

lemma table_guarded: "e \<in> events (tunnels_table s) \<Longrightarrow> tunnels_guard s e"
  by (auto simp: tunnels_table_def pagination_def dest: row_guarded split: if_splits)

lemma bars_guarded: "e \<in> events (batch_bar s) \<union> events (filter_bar s) \<Longrightarrow> tunnels_guard s e"
  by (auto simp: batch_bar_def filter_bar_def split: option.splits if_splits)

lemma form_guarded: "e \<in> events (create_form s) \<Longrightarrow> tunnels_guard s e"
  by (auto simp: create_form_def tags_input_def split: option.splits if_splits)

lemma create_dialog_guarded: "e \<in> events (create_dialog s) \<Longrightarrow> tunnels_guard s e"
  by (auto simp: create_dialog_def template_card_def dest: form_guarded split: if_splits)

lemma delete_dialogs_guarded:
  "e \<in> events (delete_dialog s) \<union> events (batch_delete_dialog s) \<Longrightarrow> tunnels_guard s e"
  by (auto simp: delete_dialog_def batch_delete_dialog_def split: if_splits)

lemma tunnels_offered: "e \<in> events (Tunnels_view s) \<Longrightarrow> tunnels_guard s e"
  using table_guarded bars_guarded create_dialog_guarded delete_dialogs_guarded
  by (fastforce simp: Tunnels_view_def)

section \<open>Invariant\<close>

fun targets_ok :: "string list option \<Rightarrow> bool" where
  "targets_ok None = True"
| "targets_ok (Some xs) = (xs \<noteq> [] \<and> distinct xs)"

definition tunnels_inv :: "tunnels_page \<Rightarrow> tunnels_k list \<Rightarrow> bool" where
  "tunnels_inv s ks \<longleftrightarrow>
     flags (isPending (m_create s)) is_KCreate ks \<and>
     flags (isPending (m_delete s)) (\<lambda>k. k = KDelete) ks \<and>
     flags (isPending (m_start s)) (\<lambda>k. k = KStart) ks \<and>
     flags (isPending (m_stop s)) (\<lambda>k. k = KStop) ks \<and>
     flags (batchProcessing s) is_KBatch ks \<and>
     0 \<le> page_no s \<and> distinct (selectedIds s) \<and>
     targets_ok (batchDeleteTargets s)"

lemmas tunnels_handlers =
  handleCreate_def handleCreate_done_def handleDelete_def handleDelete_done_def handleClone_def
  handleBatch_def handleBatchStart_def handleBatchStop_def handleBatch_done_def handleBatchDelete_def
  handleBatchDelete_done_def copyDomain_def copyDomain_done_def applyTemplate_def handleAddTag_def
  handleRemoveTag_def handleTagFilter_def toggleSelect_def toggleSelectAll_def clearSelection_def

lemma tunnels_user_inv:
  assumes "tunnels_inv s ks" and "tunnels_guard s e"
  shows "tunnels_inv (fst (tunnels_user e s)) (ks @ snd (snd (tunnels_user e s)))"
  using assms
  by (cases e) (simp_all add: tunnels_inv_def tunnels_handlers flags_def Let_def split: option.split, auto)

lemma tunnels_resume_inv:
  assumes "tunnels_inv s (ks1 @ k # ks2)"
  shows "tunnels_inv (fst (tunnels_resume k r s)) (ks1 @ ks2 @ snd (snd (tunnels_resume k r s)))"
  using assms
  by (cases k; cases r) (simp_all add: tunnels_inv_def tunnels_handlers flags_def Let_def split: option.split if_split_asm)

interpretation tunnels_page: page_invariant Tunnels tunnels_inv
proof unfold_locales
  show "pg_mount Tunnels = (s, cs, ks) \<Longrightarrow> tunnels_inv s ks" for s cs ks
    by (auto simp: Tunnels_def tunnels_init_def tunnels_inv_def flags_def)
  show "tunnels_inv s ks \<Longrightarrow> e \<in> events (pg_view Tunnels s) \<Longrightarrow> pg_user Tunnels e s = (s', cs, new) \<Longrightarrow> tunnels_inv s' (ks @ new)"
    for s ks e s' cs new
    using tunnels_user_inv [of s ks e] tunnels_offered [of e s] by (simp add: Tunnels_def)
  show "tunnels_inv s (ks1 @ k # ks2) \<Longrightarrow> pg_resume Tunnels k r s = (s', cs, new) \<Longrightarrow> tunnels_inv s' (ks1 @ ks2 @ new)"
    for s ks1 k ks2 r s' cs new
    using tunnels_resume_inv [of s ks1 k ks2 r] by (simp add: Tunnels_def)
  show "tunnels_inv s ks \<Longrightarrow> pg_env Tunnels s s' \<Longrightarrow> tunnels_inv s' ks" for s ks s'
    by (auto simp: Tunnels_def tunnels_env_def tunnels_inv_def)
qed

text \<open>Every request that carries ids names at least one tunnel and none twice.\<close>

fun ids_cmd_ok :: "cmd \<Rightarrow> bool" where
  "ids_cmd_ok (CallApi m p b) = (jprop b ''ids'' = JUndef \<or> (\<exists>xs. b = ids_body xs \<and> xs \<noteq> [] \<and> distinct xs))"
| "ids_cmd_ok _ = True"

lemma tunnel_calls_no_ids [simp]:
  "ids_cmd_ok (createTunnel n p l r d)" "ids_cmd_ok (deleteTunnel i)" "ids_cmd_ok (startTunnel i)" "ids_cmd_ok (stopTunnel i)"
  "c \<in> set (tunnels_onSuccess r') \<Longrightarrow> ids_cmd_ok c"
  by (cases r'; auto simp: createTunnel_def deleteTunnel_def startTunnel_def stopTunnel_def json_body_def jprop_def opt_str_def
      split: option.split)+

lemma tunnels_user_cmds:
  assumes "tunnels_inv s ks" and "tunnels_guard s e"
  shows "\<forall>c \<in> set (fst (snd (tunnels_user e s))). ids_cmd_ok c"
  using assms
  by (cases e) (simp_all add: tunnels_inv_def tunnels_handlers Let_def split: option.split, auto)

lemma tunnels_resume_cmds: "\<forall>c \<in> set (fst (snd (tunnels_resume k r s))). ids_cmd_ok c"
  by (cases k; cases r) (simp_all add: tunnels_handlers Let_def json_body_def jprop_def)

interpretation tunnels_page: page_commands Tunnels tunnels_inv ids_cmd_ok
proof unfold_locales
  show "pg_mount Tunnels = (s, cs, ks) \<Longrightarrow> c \<in> set cs \<Longrightarrow> ids_cmd_ok c" for s cs ks c
    by (auto simp: Tunnels_def jprop_def)
  show "tunnels_inv s ks \<Longrightarrow> e \<in> events (pg_view Tunnels s) \<Longrightarrow> pg_user Tunnels e s = (s', cs, new) \<Longrightarrow> c \<in> set cs \<Longrightarrow> ids_cmd_ok c"
    for s ks e s' cs new c
    using tunnels_user_cmds [of s ks e] tunnels_offered [of e s] by (simp add: Tunnels_def)
  show "tunnels_inv s (ks1 @ k # ks2) \<Longrightarrow> pg_resume Tunnels k r s = (s', cs, new) \<Longrightarrow> c \<in> set cs \<Longrightarrow> ids_cmd_ok c"
    for s ks1 k ks2 r s' cs new c
    using tunnels_resume_cmds [of k r s] by (simp add: Tunnels_def)
qed

section \<open>Properties\<close>

text \<open>C7: the list of tunnels never has two requests of a kind in flight: in every reachable state at most
  one creation, one deletion, one start, one stop and one batch action wait for their answer, exactly when
  the flag that disables their buttons is set; the page number is never negative, and no tunnel is selected
  twice.\<close>

theorem tunnels_single_flight:
  assumes "page_reach Tunnels (s, ks, out)"
  shows "waiting is_KCreate ks = (if isPending (m_create s) then 1 else 0) \<and>
    waiting (\<lambda>k. k = KDelete) ks = (if isPending (m_delete s) then 1 else 0) \<and>
    waiting (\<lambda>k. k = KStart) ks = (if isPending (m_start s) then 1 else 0) \<and>
    waiting (\<lambda>k. k = KStop) ks = (if isPending (m_stop s) then 1 else 0) \<and>
    waiting is_KBatch ks = (if batchProcessing s then 1 else 0) \<and>
    0 \<le> page_no s \<and> distinct (selectedIds s)"
  using tunnels_page.reachable [OF assms] by (simp add: tunnels_inv_def flags_def)

lemma tunnels_mounted: "page_reach Tunnels (tunnels_init, [], [CallApi ''GET'' ''/v1/tunnels'' JUndef])"
  by (rule reach_mount) (simp add: Tunnels_def)

lemma Tunnels_sel [simp]:
  "pg_mount Tunnels = (tunnels_init, [CallApi ''GET'' ''/v1/tunnels'' JUndef], [])"
  "pg_view Tunnels = Tunnels_view" "pg_user Tunnels = tunnels_user" "pg_resume Tunnels = tunnels_resume"
  "pg_env Tunnels = tunnels_env"
  by (simp_all add: Tunnels_def)

lemma tunnels_init_sel [simp]:
  "m_create tunnels_init = idle" "showCreate tunnels_init = False" "createTab tunnels_init = ''scratch''"
  "page_no tunnels_init = 0" "newTunnel tunnels_init = blank_tunnel" "selectedIds tunnels_init = []"
  "batchProcessing tunnels_init = False" "tagFilter tunnels_init = None"
  by (simp_all add: tunnels_init_def)

text \<open>A session: eleven tunnels load, the user creates one, then turns the page and all but one are gone.\<close>

definition sample_tunnel :: "string \<Rightarrow> tunnel" where
  "sample_tunnel i = \<lparr>tunnel_id = i, tunnel_name = ''api'', tunnel_protocol = ''http'', tunnel_local_port = 8080,
     tunnel_remote_port = 443, tunnel_domain = None, tunnel_status = ''active'', tunnel_tags = None,
     tunnel_bytes_in_total = 0, tunnel_bytes_out_total = 0\<rparr>"

abbreviation load :: "tunnel list \<Rightarrow> tunnels_page \<Rightarrow> tunnels_page" where
  "load ts \<equiv> (\<lambda>s. s\<lparr>tunnels := ts, isLoading := False, loadError := False\<rparr>)"

lemma load_env [simp]: "tunnels_env s (load ts s)"
  by (auto simp: tunnels_env_def)

definition creating_state :: tunnels_page where
  "creating_state = (load [sample_tunnel ''a''] tunnels_init)\<lparr>showCreate := True, m_create := mutate\<rparr>"

lemma submit_offered:
  "showCreate s \<Longrightarrow> createTab s \<noteq> ''templates'' \<Longrightarrow> \<not> isPending (m_create s) \<Longrightarrow> SubmitCreate \<in> events (Tunnels_view s)"
  by (simp add: Tunnels_view_def create_dialog_def create_form_def)

lemma next_offered:
  "\<not> isLoading s \<Longrightarrow> \<not> loadError s \<Longrightarrow> tunnels s \<noteq> [] \<Longrightarrow> 10 < length (filteredTunnels s) \<Longrightarrow> hasMore s \<Longrightarrow> NextPage \<in> events (Tunnels_view s)"
  by (simp add: Tunnels_view_def tunnels_table_def pagination_def)

lemma creating_reached:
  "\<exists>out. page_reach Tunnels (creating_state, [KCreate [] ''a''], out)"
proof -
  have o: "OpenCreate \<in> events (Tunnels_view s)" for s by (simp add: Tunnels_view_def)
  have "\<exists>out. page_play Tunnels [Change (load [sample_tunnel ''a'']), Do OpenCreate, Do SubmitCreate]
     (tunnels_init, [], [CallApi ''GET'' ''/v1/tunnels'' JUndef]) = Some (creating_state, [KCreate [] ''a''], out)"
    using o submit_offered
    by (simp add: creating_state_def handleCreate_def Let_def first_id_def sample_tunnel_def blank_tunnel_def)
  then show ?thesis using page_play_mount [OF Tunnels_sel(1)] by blast
qed

theorem tunnels_single_flight_witness:
  "waiting is_KCreate [KCreate [] ''a''] = 1 \<and> isPending (m_create creating_state) \<and> 0 \<le> page_no creating_state"
proof -
  obtain out where "page_reach Tunnels (creating_state, [KCreate [] ''a''], out)" using creating_reached by blast
  from tunnels_single_flight [OF this] show ?thesis by (simp split: if_splits)
qed

text \<open>Every request of the page that carries a list of ids - the batch start, stop and delete - names
  at least one tunnel and none twice.\<close>

theorem batch_requests_well_formed:
  assumes "page_reach Tunnels (s, ks, out)" and "CallApi m p b \<in> set out" and "jprop b ''ids'' \<noteq> JUndef"
  shows "\<exists>xs. b = ids_body xs \<and> xs \<noteq> [] \<and> distinct xs"
  using tunnels_page.commands [OF assms(1,2)] assms(3) by simp

lemma batch_reached:
  "\<exists>s ks out. page_reach Tunnels (s, ks, out) \<and> CallApi ''POST'' ''/v1/tunnels/batch/stop'' (ids_body [''a'']) \<in> set out"
proof -
  let ?t = "sample_tunnel ''a''"
  have all: "ToggleAll \<in> events (Tunnels_view (load [?t] tunnels_init))"
    by (simp add: Tunnels_view_def tunnels_table_def)
  have stop: "selectedIds s \<noteq> [] \<Longrightarrow> \<not> batchProcessing s \<Longrightarrow> BatchStop \<in> events (Tunnels_view s)" for s
    by (simp add: Tunnels_view_def batch_bar_def)
  have "toggleSelectAll (load [?t] tunnels_init) = (load [?t] tunnels_init)\<lparr>selectedIds := [''a'']\<rparr>"
    by (simp add: toggleSelectAll_def allSelected_def paginatedTunnels_def filteredTunnels_def slice_def
        set_of_list_def set_add_def sample_tunnel_def)
  then have "\<exists>s ks out. page_play Tunnels [Change (load [?t]), Do ToggleAll, Do BatchStop]
     (tunnels_init, [], [CallApi ''GET'' ''/v1/tunnels'' JUndef]) = Some (s, ks, out) \<and>
     CallApi ''POST'' ''/v1/tunnels/batch/stop'' (ids_body [''a'']) \<in> set out"
    using all stop
    by (simp add: handleBatchStop_def handleBatch_def)
  then show ?thesis using page_play_mount [OF Tunnels_sel(1)] by blast
qed

theorem batch_requests_well_formed_witness:
  "\<exists>s ks out xs. page_reach Tunnels (s, ks, out) \<and> CallApi ''POST'' ''/v1/tunnels/batch/stop'' (ids_body xs) \<in> set out \<and>
     xs \<noteq> [] \<and> distinct xs"
proof -
  obtain s ks out where r: "page_reach Tunnels (s, ks, out)"
    and c: "CallApi ''POST'' ''/v1/tunnels/batch/stop'' (ids_body [''a'']) \<in> set out"
    using batch_reached by blast
  have "jprop (ids_body [''a'']) ''ids'' \<noteq> JUndef" by (simp add: ids_body_def json_body_def jprop_def)
  from batch_requests_well_formed [OF r c this] r c show ?thesis by metis
qed

lemma concat_slices: "concat (map (\<lambda>p. slice (p * k) (Suc p * k) xs) [0..<n]) = take (n * k) xs"
proof (induction n)
  case 0
  then show ?case by simp
next
  case (Suc n)
  have "take (n * k) xs @ slice (n * k) (Suc n * k) xs = take (Suc n * k) xs"
    by (simp add: slice_def take_add [symmetric] add.commute)
  with Suc show ?case by simp
qed

lemma filtered_page [simp]: "filteredTunnels (s\<lparr>page_no := p\<rparr>) = filteredTunnels s"
  by (simp add: filteredTunnels_def split: option.split)

lemma paginated_slice:
  "paginatedTunnels (s\<lparr>page_no := int p\<rparr>) = slice (p * 10) (Suc p * 10) (filteredTunnels s)"
  by (simp add: paginatedTunnels_def nat_mult_distrib nat_add_distrib algebra_simps)

text \<open>The pages partition the filtered list: the first \<open>n\<close> pages, one after the other, are its first
  \<open>10 n\<close> tunnels in order, a page has at most ten, and the next-page button is enabled exactly when the next
  page has a tunnel.\<close>

theorem pages_partition:
  "concat (map (\<lambda>p. paginatedTunnels (s\<lparr>page_no := int p\<rparr>)) [0..<n]) = take (n * 10) (filteredTunnels s) \<and>
   length (paginatedTunnels (s\<lparr>page_no := int p\<rparr>)) \<le> 10 \<and>
   (hasMore (s\<lparr>page_no := int p\<rparr>) \<longleftrightarrow> paginatedTunnels (s\<lparr>page_no := int (Suc p)\<rparr>) \<noteq> [])"
proof -
  have "concat (map (\<lambda>p. paginatedTunnels (s\<lparr>page_no := int p\<rparr>)) [0..<n]) = take (n * 10) (filteredTunnels s)"
    unfolding paginated_slice by (rule concat_slices)
  moreover have "length (paginatedTunnels (s\<lparr>page_no := int p\<rparr>)) \<le> 10"
    unfolding paginated_slice by (simp add: length_slice)
  moreover have "hasMore (s\<lparr>page_no := int p\<rparr>) \<longleftrightarrow> paginatedTunnels (s\<lparr>page_no := int (Suc p)\<rparr>) \<noteq> []"
    unfolding paginated_slice slice_empty_iff by (auto simp: hasMore_def)
  ultimately show ?thesis by blast
qed

text \<open>C34: submitting the create form sends the form's fields, and the domain only where one is typed. If
  the request fails the dialog keeps what was typed and shows the error; if it succeeds the form is reset, the
  dialog closes and the list is stale. The tags, however, are put on the tunnel that was first in the list when
  the form was submitted, not on the one the server has just created: the answer is not used.\<close>

theorem create_outcome:
  assumes "tunnels_user SubmitCreate s = (s1, cs1, [k])" and "tunnels_resume k r s2 = (s3, cs3, ks3)"
  shows "cs1 = [createTunnel (nt_name (newTunnel s)) (nt_protocol (newTunnel s)) (nt_local_port (newTunnel s))
             (nt_remote_port (newTunnel s)) (if nt_domain (newTunnel s) = '''' then None else Some (nt_domain (newTunnel s)))] \<and>
    (case r of
       Inl err \<Rightarrow> newTunnel s3 = newTunnel s2 \<and> showCreate s3 = showCreate s2 \<and> merror (m_create s3) = Some err \<and> cs3 = []
     | Inr v \<Rightarrow> newTunnel s3 = blank_tunnel \<and> \<not> showCreate s3 \<and> Invalidate TUNNELS_KEY \<in> set cs3 \<and>
         filter is_call cs3 =
           (if nt_tags (newTunnel s) = [] then []
            else [CallApi ''PUT'' (''/v1/tunnels/'' @ (case tunnels s of [] \<Rightarrow> ''undefined'' | t # _ \<Rightarrow> tunnel_id t) @ ''/tags'')
                    (json_body [(''tags'', JArr (map JStr (nt_tags (newTunnel s))))])]))"
proof -
  have k: "k = KCreate (nt_tags (newTunnel s)) (first_id s)" using assms(1) by (simp add: handleCreate_def Let_def)
  have "case r of
       Inl err \<Rightarrow> newTunnel s3 = newTunnel s2 \<and> showCreate s3 = showCreate s2 \<and> merror (m_create s3) = Some err \<and> cs3 = []
     | Inr v \<Rightarrow> newTunnel s3 = blank_tunnel \<and> \<not> showCreate s3 \<and> Invalidate TUNNELS_KEY \<in> set cs3 \<and>
         filter is_call cs3 =
           (if nt_tags (newTunnel s) = [] then []
            else [CallApi ''PUT'' (tunnel_path (first_id s) @ ''/tags'') (json_body [(''tags'', JArr (map JStr (nt_tags (newTunnel s))))])])"
    using assms(2) unfolding k by (cases r) (auto simp: handleCreate_done_def Let_def)
  then show ?thesis
    using assms(1) unfolding tunnel_path_def first_id_def append_assoc
    by (simp add: handleCreate_def Let_def)
qed

definition tagged_form :: tunnels_page where
  "tagged_form = (load [sample_tunnel ''old''] tunnels_init)\<lparr>newTunnel := blank_tunnel\<lparr>nt_name := ''new'', nt_tags := [''prod'']\<rparr>\<rparr>"

theorem create_outcome_witness:
  "\<exists>s1 cs1 k s3 cs3 ks3. tunnels_user SubmitCreate tagged_form = (s1, cs1, [k]) \<and>
     tunnels_resume k (Inr (JObj [(''id'', JStr ''new-id'')])) s1 = (s3, cs3, ks3) \<and>
     filter is_call cs3 = [CallApi ''PUT'' ''/v1/tunnels/old/tags'' (json_body [(''tags'', JArr [JStr ''prod''])])]"
proof -
  obtain s1 cs1 k where u: "tunnels_user SubmitCreate tagged_form = (s1, cs1, [k])"
    by (simp add: handleCreate_def Let_def)
  obtain s3 cs3 ks3 where r: "tunnels_resume k (Inr (JObj [(''id'', JStr ''new-id'')])) s1 = (s3, cs3, ks3)"
    by (metis surj_pair)
  have "filter is_call cs3 = [CallApi ''PUT'' ''/v1/tunnels/old/tags'' (json_body [(''tags'', JArr [JStr ''prod''])])]"
    using create_outcome [OF u r] by (simp add: tagged_form_def sample_tunnel_def)
  with u r show ?thesis by blast
qed

text \<open>The checkbox in the header flips between all and none of the shown page: where the page has a
  tunnel, toggling it changes whether all shown tunnels are selected, and afterwards the selection is the
  whole page or nothing; a row's checkbox toggled twice restores the selection.\<close>

theorem selection_toggles:
  "(allSelected (toggleSelectAll s) \<longleftrightarrow> paginatedTunnels s \<noteq> [] \<and> \<not> allSelected s) \<and>
   set (selectedIds (toggleSelectAll s)) = (if allSelected s then {} else tunnel_id ` set (paginatedTunnels s)) \<and>
   set (selectedIds (toggleSelect i (toggleSelect i s))) = set (selectedIds s)"
proof -
  have page: "paginatedTunnels (s\<lparr>selectedIds := xs\<rparr>) = paginatedTunnels s" for xs
    by (simp add: paginatedTunnels_def filteredTunnels_def split: option.split)
  have "allSelected (toggleSelectAll s) \<longleftrightarrow> paginatedTunnels s \<noteq> [] \<and> \<not> allSelected s"
    by (auto simp: toggleSelectAll_def allSelected_def page list_all_iff)
  then show ?thesis by (auto simp: toggleSelectAll_def toggleSelect_def)
qed

text \<open>The page number is not bounded by the list: when tunnels disappear while a later page is shown,
  the table can be empty although there are tunnels, and since the pagination is hidden for up to ten tunnels,
  no button leads back.\<close>

theorem pagination_can_strand:
  "\<exists>s ks out. page_reach Tunnels (s, ks, out) \<and> \<not> isLoading s \<and> \<not> loadError s \<and> tunnels s \<noteq> [] \<and>
     tagFilter s = None \<and> paginatedTunnels s = [] \<and> PrevPage \<notin> events (Tunnels_view s)"
proof -
  let ?many = "replicate 11 (sample_tunnel ''a'')" and ?one = "[sample_tunnel ''a'']"
  let ?s = "(load ?one (load ?many tunnels_init))\<lparr>page_no := 1\<rparr>"
  have "NextPage \<in> events (Tunnels_view (load ?many tunnels_init))"
    by (rule next_offered) (simp_all add: filteredTunnels_def hasMore_def)
  then have "page_play Tunnels [Change (load ?many), Do NextPage, Change (load ?one)]
      (tunnels_init, [], [CallApi ''GET'' ''/v1/tunnels'' JUndef]) =
      Some (?s, [], [CallApi ''GET'' ''/v1/tunnels'' JUndef])"
    by simp
  then have "page_reach Tunnels (?s, [], [CallApi ''GET'' ''/v1/tunnels'' JUndef])"
    by (rule page_play_mount [OF Tunnels_sel(1)])
  moreover have "paginatedTunnels ?s = []" by (simp add: paginatedTunnels_def filteredTunnels_def slice_def)
  moreover have "PrevPage \<notin> events (Tunnels_view ?s)"
  proof -
    have "int (length (filteredTunnels ?s)) \<le> 10" by (simp add: filteredTunnels_def)
    then have "PrevPage \<notin> events (pagination ?s)" by (simp add: pagination_def)
    then show ?thesis
      by (auto simp: Tunnels_view_def batch_bar_def filter_bar_def tunnels_table_def tunnel_row_def
          create_dialog_def template_card_def create_form_def tags_input_def delete_dialog_def batch_delete_dialog_def
          split: option.splits if_splits)
  qed
  ultimately show ?thesis by fastforce
qed

section \<open>Links\<close>

lemma links_Input [simp]: "links (Input lbl v err disabled f) = []"
  by (simp add: Input_def)

lemma links_Dialog [simp]: "links (Dialog is_open e title descr us) = (if is_open then concat (map links us) else [])"
  by (simp add: Dialog_def)

lemma row_links: "p \<in> set (links (tunnel_row s t)) \<Longrightarrow> p = ''/tunnels/'' @ tunnel_id t"
  by (auto simp: tunnel_row_def split: option.splits if_splits)

lemma paginated_listed: "t \<in> set (paginatedTunnels s) \<Longrightarrow> t \<in> set (tunnels s)"
  using set_slice_subset by (fastforce simp: paginatedTunnels_def filteredTunnels_def split: option.splits if_splits)

lemma tunnels_links: "p \<in> set (links (Tunnels_view s)) \<Longrightarrow> \<exists>t \<in> set (tunnels s). p = ''/tunnels/'' @ tunnel_id t"
  by (auto simp: Tunnels_view_def batch_bar_def filter_bar_def tunnels_table_def pagination_def create_dialog_def template_card_def
      create_form_def tags_input_def delete_dialog_def batch_delete_dialog_def dest!: row_links paginated_listed split: option.splits if_splits)

end
