(* ===== verification/WebhooksPage.thy ===== *)
theory WebhooksPage
  imports Hooks
begin

text \<open>
  The webhooks (\<open>pages/Webhooks.tsx\<close>): the list with its test button, the log of deliveries, one dialog for
  creating and editing, and the delete dialog. A new signing secret is drawn from random numbers in [0, 1); the
  \<open>n\<close>-th secret of the page uses the numbers \<open>rng n\<close>.
\<close>

section \<open>Data\<close>

record webhook =
  wh_id :: string
  wh_name :: string
  wh_url :: string
  wh_events :: "string list"
  wh_secret :: string
  wh_status :: string
  wh_last_delivery_at :: "string option"

record webhook_delivery =
  wd_id :: string
  wd_event :: string
  wd_status :: string
  wd_status_code :: "int option"
  wd_duration_ms :: int
  wd_retry_count :: int
  wd_request_headers :: "(string \<times> string) list option"
  wd_request_body :: "string option"
  wd_response_headers :: "(string \<times> string) list option"
  wd_response_body :: "string option"
  wd_created_at :: string

definition WEBHOOK_EVENTS :: "string list" where
  "WEBHOOK_EVENTS = [''tunnel.started'', ''tunnel.stopped'', ''tunnel.error'', ''cert.expiring'', ''quota.warning'', ''org.member_joined'']"

definition secret_chars :: string where
  "secret_chars = ''ABCDEFGHIJKLMNOPQRSTUVWXYZabcdefghijklmnopqrstuvwxyz0123456789''"

text \<open>\<open>charAt\<close> gives the empty string out of range.\<close>

definition char_at :: "string \<Rightarrow> int \<Rightarrow> string" where
  "char_at s i = (case nth_opt s i of None \<Rightarrow> '''' | Some c \<Rightarrow> [c])"

definition generateSecret :: "(nat \<Rightarrow> rat) \<Rightarrow> string" where
  "generateSecret rnd = foldl (\<lambda>acc i. acc @ char_at secret_chars \<lfloor>rnd i * of_nat (length secret_chars)\<rfloor>) ''whsec_'' [0..<32]"

section \<open>State\<close>

record webhook_form =
  wf_name :: string
  wf_url :: string
  wf_events :: "string list"
  wf_secret :: string

record webhooks_page =
  webhooksQuery :: "webhook list query"
  deliveriesQuery :: "webhook_delivery list query"
  createMutation :: mutation
  updateMutation :: mutation
  deleteMutation :: mutation
  testMutation :: mutation
  showCreateHook :: bool
  editTarget :: "webhook option"
  hookTarget :: "webhook option"
  deliveriesTarget :: "webhook option"
  expandedDelivery :: "string option"
  copiedSecret :: bool
  hook_form :: webhook_form
  secrets_drawn :: nat

definition blank_form :: "string \<Rightarrow> webhook_form" where
  "blank_form sec = \<lparr>wf_name = '''', wf_url = '''', wf_events = [], wf_secret = sec\<rparr>"

definition webhooks_init :: "(nat \<Rightarrow> nat \<Rightarrow> rat) \<Rightarrow> webhooks_page" where
  "webhooks_init rng = \<lparr>webhooksQuery = q_pending, deliveriesQuery = q_pending, createMutation = idle, updateMutation = idle,
     deleteMutation = idle, testMutation = idle, showCreateHook = False, editTarget = None, hookTarget = None, deliveriesTarget = None,
     expandedDelivery = None, copiedSecret = False, hook_form = blank_form (generateSecret (rng 0)), secrets_drawn = 1\<rparr>"

datatype webhooks_ev =
    OpenCreateHook | CloseHook | EditHook webhook | AskDeleteHook webhook | CancelDeleteHook | ConfirmDeleteHook | TestHook string
  | ShowDeliveries webhook | HideDeliveries | ToggleDelivery string | RetryHooks
  | SetHookName string | SetHookUrl string | ToggleEvent string | SetSecret string | RegenerateSecret | CopySecret | SubmitHook

datatype webhooks_k = KCreateHook | KUpdateHook | KDeleteHook | KTestHook | KSecretCopied | KSecretReset

abbreviation WEBHOOKS_KEY :: "string list" where
  "WEBHOOKS_KEY \<equiv> [''webhooks'']"

section \<open>Handlers\<close>

definition webhook_path :: "string \<Rightarrow> string" where
  "webhook_path i = ''/v1/webhooks/'' @ i"

definition resetForm :: "(nat \<Rightarrow> nat \<Rightarrow> rat) \<Rightarrow> webhooks_page \<Rightarrow> webhooks_page" where
  "resetForm rng s = s\<lparr>hook_form := blank_form (generateSecret (rng (secrets_drawn s))), secrets_drawn := Suc (secrets_drawn s)\<rparr>"

definition openEditHook :: "webhook \<Rightarrow> webhooks_page \<Rightarrow> webhooks_page" where
  "openEditHook w s = s\<lparr>hook_form := \<lparr>wf_name = wh_name w, wf_url = wh_url w, wf_events = wh_events w, wf_secret = wh_secret w\<rparr>,
     editTarget := Some w\<rparr>"

definition openCreate :: "(nat \<Rightarrow> nat \<Rightarrow> rat) \<Rightarrow> webhooks_page \<Rightarrow> webhooks_page" where
  "openCreate rng s = (resetForm rng s)\<lparr>showCreateHook := True\<rparr>"

definition toggleEvent :: "string \<Rightarrow> webhook_form \<Rightarrow> webhook_form" where
  "toggleEvent ev f = f\<lparr>wf_events := if ev \<in> set (wf_events f) then filter (\<lambda>e. e \<noteq> ev) (wf_events f) else wf_events f @ [ev]\<rparr>"

definition regenerateSecret :: "(nat \<Rightarrow> nat \<Rightarrow> rat) \<Rightarrow> webhooks_page \<Rightarrow> webhooks_page" where
  "regenerateSecret rng s = s\<lparr>hook_form := (hook_form s)\<lparr>wf_secret := generateSecret (rng (secrets_drawn s))\<rparr>, secrets_drawn := Suc (secrets_drawn s)\<rparr>"

definition copySecret_done :: "result \<Rightarrow> webhooks_page \<Rightarrow> (webhooks_page, webhooks_k) effect" where
  "copySecret_done r s =
     (case r of
        Inl err \<Rightarrow> (s, [], [])
      | Inr v \<Rightarrow> (s\<lparr>copiedSecret := True\<rparr>, [ShowToast (tr ''common.copied'') ''success''], [KSecretReset]))"

definition form_body :: "webhook_form \<Rightarrow> json" where
  "form_body f = json_body [(''name'', JStr (wf_name f)), (''url'', JStr (wf_url f)), (''events'', JArr (map JStr (wf_events f))),
     (''secret'', JStr (wf_secret f))]"

definition handleSubmitHook :: "webhooks_page \<Rightarrow> (webhooks_page, webhooks_k) effect" where
  "handleSubmitHook s =
     (case editTarget s of
        Some w \<Rightarrow> (s\<lparr>updateMutation := mutate\<rparr>, [CallApi ''PUT'' (webhook_path (wh_id w)) (form_body (hook_form s))], [KUpdateHook])
      | None \<Rightarrow> (s\<lparr>createMutation := mutate\<rparr>, [CallApi ''POST'' ''/v1/webhooks'' (form_body (hook_form s))], [KCreateHook]))"

definition createHook_done :: "(nat \<Rightarrow> nat \<Rightarrow> rat) \<Rightarrow> result \<Rightarrow> webhooks_page \<Rightarrow> (webhooks_page, webhooks_k) effect" where
  "createHook_done rng r s =
     (let s1 = s\<lparr>createMutation := settled r\<rparr> in
      case r of
        Inl err \<Rightarrow> (s1, [], [])
      | Inr v \<Rightarrow> (resetForm rng (s1\<lparr>showCreateHook := False\<rparr>),
          [Invalidate WEBHOOKS_KEY, ShowToast (tr ''webhooks.created'') ''success''], []))"

definition updateHook_done :: "result \<Rightarrow> webhooks_page \<Rightarrow> (webhooks_page, webhooks_k) effect" where
  "updateHook_done r s =
     (let s1 = s\<lparr>updateMutation := settled r\<rparr> in
      case r of
        Inl err \<Rightarrow> (s1, [], [])
      | Inr v \<Rightarrow> (s1\<lparr>editTarget := None\<rparr>, [Invalidate WEBHOOKS_KEY, ShowToast (tr ''webhooks.updated'') ''success''], []))"

definition deleteHook :: "webhooks_page \<Rightarrow> (webhooks_page, webhooks_k) effect" where
  "deleteHook s =
     (case hookTarget s of
        None \<Rightarrow> (s, [], [])
      | Some w \<Rightarrow> (s\<lparr>deleteMutation := mutate\<rparr>, [CallApi ''DELETE'' (webhook_path (wh_id w)) JUndef], [KDeleteHook]))"

definition deleteHook_done :: "result \<Rightarrow> webhooks_page \<Rightarrow> (webhooks_page, webhooks_k) effect" where
  "deleteHook_done r s =
     (let s1 = s\<lparr>deleteMutation := settled r\<rparr> in
      case r of
        Inl err \<Rightarrow> (s1, [], [])
      | Inr v \<Rightarrow> (s1\<lparr>hookTarget := None\<rparr>, [Invalidate WEBHOOKS_KEY, ShowToast (tr ''webhooks.deleted'') ''success''], []))"

text \<open>The answer to a test is shown by its status; an answer without a body makes \<open>onSuccess\<close> throw, and nothing is shown.\<close>

definition status_in_200s :: "json \<Rightarrow> bool" where
  "status_in_200s v = (case v of JNum n \<Rightarrow> 200 \<le> n \<and> n < 300 | _ \<Rightarrow> False)"

definition testHook_done :: "result \<Rightarrow> webhooks_page \<Rightarrow> (webhooks_page, webhooks_k) effect" where
  "testHook_done r s =
     (case r of
        Inl err \<Rightarrow> (s\<lparr>testMutation := settled r\<rparr>, [], [])
      | Inr data \<Rightarrow>
          if nullish data then (s\<lparr>testMutation := settled (Inl (JsError ''Cannot read properties of undefined''))\<rparr>, [], [])
          else let code = jprop data ''status_code'' in
            (s\<lparr>testMutation := settled r\<rparr>,
             [ShowToast [Tr ''webhooks.create_dialog.test_sent'' [(''status'', code)]] (if status_in_200s code then ''success'' else ''warning'')], []))"

abbreviation edit_form :: "(webhook_form \<Rightarrow> webhook_form) \<Rightarrow> webhooks_page \<Rightarrow> (webhooks_page, webhooks_k) effect" where
  "edit_form f s \<equiv> (s\<lparr>hook_form := f (hook_form s)\<rparr>, [], [])"

fun webhooks_user :: "(nat \<Rightarrow> nat \<Rightarrow> rat) \<Rightarrow> webhooks_ev \<Rightarrow> webhooks_page \<Rightarrow> (webhooks_page, webhooks_k) effect" where
  "webhooks_user rng OpenCreateHook s = (openCreate rng s, [], [])"
| "webhooks_user rng CloseHook s = (s\<lparr>showCreateHook := False, editTarget := None\<rparr>, [], [])"
| "webhooks_user rng (EditHook w) s = (openEditHook w s, [], [])"
| "webhooks_user rng (AskDeleteHook w) s = (s\<lparr>hookTarget := Some w\<rparr>, [], [])"
| "webhooks_user rng CancelDeleteHook s = (s\<lparr>hookTarget := None\<rparr>, [], [])"
| "webhooks_user rng ConfirmDeleteHook s = deleteHook s"
| "webhooks_user rng (TestHook i) s = (s\<lparr>testMutation := mutate\<rparr>, [CallApi ''POST'' (webhook_path i @ ''/test'') JUndef], [KTestHook])"
| "webhooks_user rng (ShowDeliveries w) s = (s\<lparr>deliveriesTarget := Some w\<rparr>, [], [])"
| "webhooks_user rng HideDeliveries s = (s\<lparr>deliveriesTarget := None, expandedDelivery := None\<rparr>, [], [])"
| "webhooks_user rng (ToggleDelivery i) s = (s\<lparr>expandedDelivery := if expandedDelivery s = Some i then None else Some i\<rparr>, [], [])"
| "webhooks_user rng RetryHooks s = (s, [Refetch WEBHOOKS_KEY], [])"
| "webhooks_user rng (SetHookName v) s = edit_form (\<lambda>f. f\<lparr>wf_name := v\<rparr>) s"
| "webhooks_user rng (SetHookUrl v) s = edit_form (\<lambda>f. f\<lparr>wf_url := v\<rparr>) s"
| "webhooks_user rng (ToggleEvent ev) s = edit_form (toggleEvent ev) s"
| "webhooks_user rng (SetSecret v) s = edit_form (\<lambda>f. f\<lparr>wf_secret := v\<rparr>) s"
| "webhooks_user rng RegenerateSecret s = (regenerateSecret rng s, [], [])"
| "webhooks_user rng CopySecret s = (s, [CopyText (wf_secret (hook_form s))], [KSecretCopied])"
| "webhooks_user rng SubmitHook s = handleSubmitHook s"

fun webhooks_resume :: "(nat \<Rightarrow> nat \<Rightarrow> rat) \<Rightarrow> webhooks_k \<Rightarrow> result \<Rightarrow> webhooks_page \<Rightarrow> (webhooks_page, webhooks_k) effect" where
  "webhooks_resume rng KCreateHook r s = createHook_done rng r s"
| "webhooks_resume rng KUpdateHook r s = updateHook_done r s"
| "webhooks_resume rng KDeleteHook r s = deleteHook_done r s"
| "webhooks_resume rng KTestHook r s = testHook_done r s"
| "webhooks_resume rng KSecretCopied r s = copySecret_done r s"
| "webhooks_resume rng KSecretReset r s = (s\<lparr>copiedSecret := False\<rparr>, [], [])"

section \<open>View\<close>

text \<open>\<open>t(key) || ev\<close>: the library returns the key where a translation is missing, so the fallback is not used.\<close>

definition webhook_row :: "(string \<Rightarrow> string) \<Rightarrow> webhooks_page \<Rightarrow> webhook \<Rightarrow> webhooks_ev ui" where
  "webhook_row toLocaleString s w = Node ''TableRow''
     [Node ''TableCell'' [Say [Lit (wh_name w)]], Node ''TableCell'' [Say [Lit (wh_url w)]],
      Node ''TableCell'' (map (\<lambda>ev. Node ''Badge'' [Say (tr (''webhooks.events.'' @ ev))]) (wh_events w)),
      Node ''TableCell'' [Node ''Badge'' [Say (tr (''webhooks.status.'' @ wh_status w))]],
      Node ''TableCell'' [Say [Lit (if present (wh_last_delivery_at w) then toLocaleString (the (wh_last_delivery_at w)) else ''-'')]],
      Node ''TableCell''
       [Button (isPending (testMutation s)) (TestHook (wh_id w)) [], Button False (ShowDeliveries w) [],
        Button False (EditHook w) [], Button False (AskDeleteHook w) []]]"

definition webhooks_table :: "(string \<Rightarrow> string) \<Rightarrow> webhooks_page \<Rightarrow> webhooks_ev ui" where
  "webhooks_table toLocaleString s =
     (let q = webhooksQuery s; ws = data_or_empty (q_data q) in
      if q_isLoading q then Node ''div'' []
      else if q_isError q then failed_load ''webhooks.failed_load'' [Button False RetryHooks [Say (tr ''common.retry'')]]
      else if ws = [] then Node ''div'' [Node ''p'' [Say (tr ''webhooks.empty'')], Button False OpenCreateHook [Say (tr ''webhooks.create'')]]
      else Node ''Table''
       [head_row [''webhooks.table.name'', ''webhooks.table.url'', ''webhooks.table.events'', ''webhooks.table.status'',
          ''webhooks.table.last_delivery'', ''webhooks.table.actions''],
        Node ''TableBody'' (map (webhook_row toLocaleString s) ws)])"

definition delivery_dump :: "(string \<times> string) list option \<Rightarrow> string option \<Rightarrow> webhooks_ev ui" where
  "delivery_dump hs b = Node ''pre''
     [Say [Lit (concat (map (\<lambda>(k, v). k @ '': '' @ v @ [CHR 0x0A]) (data_or_empty hs)))],
      Say [Lit (if present b then CHR 0x0A # the b else '''')]]"

definition delivery_rows :: "(string \<Rightarrow> string) \<Rightarrow> webhooks_page \<Rightarrow> webhook_delivery \<Rightarrow> webhooks_ev ui" where
  "delivery_rows toLocaleString s d = Node ''''
     [Listens (ToggleDelivery (wd_id d))
       [Node ''TableCell'' [Say [Lit (toLocaleString (wd_created_at d))]],
        Node ''TableCell'' [Node ''Badge'' [Say [Lit (wd_event d)]]],
        Node ''TableCell'' [Node ''Badge'' [Say [Lit (wd_status d @ '' '' @
           (case wd_status_code d of None \<Rightarrow> '''' | Some c \<Rightarrow> if c = 0 then '''' else ''('' @ int_string c @ '')''))]]],
        Node ''TableCell'' [Say [Lit (int_string (wd_duration_ms d) @ ''ms'')]],
        Node ''TableCell'' [Say [Lit (int_string (wd_retry_count d))]]],
      only_if (expandedDelivery s = Some (wd_id d)) (Node ''TableRow''
       [Node ''p'' [Say (tr ''webhooks.deliveries.detail.request'')], delivery_dump (wd_request_headers d) (wd_request_body d),
        Node ''p'' [Say (tr ''webhooks.deliveries.detail.response'')], delivery_dump (wd_response_headers d) (wd_response_body d)])]"

definition deliveries_panel :: "(string \<Rightarrow> string) \<Rightarrow> webhooks_page \<Rightarrow> webhooks_ev ui" where
  "deliveries_panel toLocaleString s =
     (case deliveriesTarget s of
        None \<Rightarrow> Null
      | Some w \<Rightarrow>
          (let q = deliveriesQuery s; ds = data_or_empty (q_data q) in
           Node ''Card''
            [Node ''CardHeader'' [Say [Tr ''webhooks.deliveries.title'' [], Lit ('': '' @ wh_name w)], Say (tr ''webhooks.deliveries.recent''),
               Button False HideDeliveries []],
             Node ''CardContent''
              [if q_isLoading q then Node ''Skeleton'' []
               else if ds = [] then Node ''p'' [Say (tr ''webhooks.deliveries.empty'')]
               else Node ''Table''
                [head_row [''webhooks.deliveries.table.time'', ''webhooks.deliveries.table.event'', ''webhooks.deliveries.table.status'',
                   ''webhooks.deliveries.table.duration'', ''webhooks.deliveries.table.retries''],
                 Node ''TableBody'' (map (delivery_rows toLocaleString s) ds)]]]))"

text \<open>\<open>createMutation.error || updateMutation.error\<close>.\<close>

definition hook_error :: "webhooks_page \<Rightarrow> mutation" where
  "hook_error s = (if merror (createMutation s) \<noteq> None then createMutation s else updateMutation s)"

definition hook_dialog :: "webhooks_page \<Rightarrow> webhooks_ev ui" where
  "hook_dialog s =
     (let f = hook_form s; editing = editTarget s \<noteq> None; busy = isPending (createMutation s) \<or> isPending (updateMutation s) in
      Dialog (showCreateHook s \<or> editing) CloseHook
       (tr (if editing then ''webhooks.edit_dialog.title'' else ''webhooks.create_dialog.title''))
       (tr (if editing then ''webhooks.edit_dialog.description'' else ''webhooks.create_dialog.description''))
       [Form busy SubmitHook
         [Input (tr ''webhooks.create_dialog.name'') (wf_name f) [] False SetHookName,
          Input (tr ''webhooks.create_dialog.url'') (wf_url f) [] False SetHookUrl,
          Node ''div'' (Node ''label'' [Say (tr ''webhooks.create_dialog.events'')] #
            map (\<lambda>ev. Node ''label'' [Checkbox (ev \<in> set (wf_events f)) (ToggleEvent ev), Say (tr (''webhooks.events.'' @ ev))]) WEBHOOK_EVENTS),
          Node ''div''
           [Node ''label'' [Say (tr ''webhooks.create_dialog.secret'')],
            Input [] (wf_secret f) [] False SetSecret, Button False RegenerateSecret [],
            Button False CopySecret [Node (if copiedSecret s then ''Check'' else ''Copy'') []]],
          mutation_error (hook_error s) ''webhooks.create_dialog.failed_create'',
          Node ''div''
           [Button False CloseHook [Say (tr ''webhooks.create_dialog.cancel'')],
            Node ''submit'' [Say (tr (if busy then ''webhooks.create_dialog.creating''
               else if editing then ''webhooks.edit_dialog.save'' else ''webhooks.create_dialog.submit''))]]]])"

definition Webhooks_view :: "(string \<Rightarrow> string) \<Rightarrow> webhooks_page \<Rightarrow> webhooks_ev ui" where
  "Webhooks_view toLocaleString s = Node ''div''
     [Node ''div'' [Node ''h1'' [Say (tr ''webhooks.title'')], Node ''p'' [Say (tr ''webhooks.subtitle'')],
        Button False OpenCreateHook [Say (tr ''webhooks.create'')]],
      Node ''Card'' [Node ''CardContent'' [webhooks_table toLocaleString s]],
      deliveries_panel toLocaleString s, hook_dialog s,
      confirm_dialog (hookTarget s \<noteq> None) CancelDeleteHook ConfirmDeleteHook (isPending (deleteMutation s))
        (''webhooks.delete_dialog.title'', ''webhooks.delete_dialog.message'', ''webhooks.delete_dialog.cancel'',
         ''webhooks.delete_dialog.deleting'', ''webhooks.delete_dialog.confirm'')]"

definition webhooks_env :: "webhooks_page \<Rightarrow> webhooks_page \<Rightarrow> bool" where
  "webhooks_env s s' \<longleftrightarrow> (\<exists>q qd. s' = s\<lparr>webhooksQuery := q, deliveriesQuery := qd\<rparr>)"

definition Webhooks :: "(string \<Rightarrow> string) \<Rightarrow> (nat \<Rightarrow> nat \<Rightarrow> rat) \<Rightarrow> (webhooks_page, webhooks_ev, webhooks_k) page" where
  "Webhooks toLocaleString rng =
     \<lparr>pg_mount = (webhooks_init rng, [CallApi ''GET'' ''/v1/webhooks'' JUndef], []), pg_view = Webhooks_view toLocaleString,
      pg_user = webhooks_user rng, pg_resume = webhooks_resume rng, pg_env = webhooks_env\<rparr>"

lemma Webhooks_sel [simp]:
  "pg_mount (Webhooks fmt rng) = (webhooks_init rng, [CallApi ''GET'' ''/v1/webhooks'' JUndef], [])"
  "pg_view (Webhooks fmt rng) = Webhooks_view fmt" "pg_user (Webhooks fmt rng) = webhooks_user rng"
  "pg_resume (Webhooks fmt rng) = webhooks_resume rng" "pg_env (Webhooks fmt rng) = webhooks_env"
  by (simp_all add: Webhooks_def)

section \<open>Invariant\<close>

definition webhooks_inv :: "webhooks_page \<Rightarrow> webhooks_k list \<Rightarrow> bool" where
  "webhooks_inv s ks \<longleftrightarrow>
     flags (isPending (createMutation s)) (\<lambda>k. k = KCreateHook) ks \<and> flags (isPending (updateMutation s)) (\<lambda>k. k = KUpdateHook) ks \<and>
     flags (isPending (deleteMutation s)) (\<lambda>k. k = KDeleteHook) ks \<and> flags (isPending (testMutation s)) (\<lambda>k. k = KTestHook) ks \<and>
     \<not> (isPending (createMutation s) \<and> isPending (updateMutation s))"

fun webhooks_guard :: "webhooks_page \<Rightarrow> webhooks_ev \<Rightarrow> bool" where
  "webhooks_guard s SubmitHook = (\<not> isPending (createMutation s) \<and> \<not> isPending (updateMutation s) \<and> (showCreateHook s \<or> editTarget s \<noteq> None))"
| "webhooks_guard s ConfirmDeleteHook = (\<not> isPending (deleteMutation s))"
| "webhooks_guard s (TestHook i) = (\<not> isPending (testMutation s))"
| "webhooks_guard s (ToggleEvent ev) = (ev \<in> set WEBHOOK_EVENTS)"
| "webhooks_guard s _ = True"

lemma webhooks_parts_guarded:
  "e \<in> events (webhook_row fmt s w) \<Longrightarrow> webhooks_guard s e" "e \<in> events (delivery_rows fmt s d) \<Longrightarrow> webhooks_guard s e"
  "e \<in> events (hook_dialog s) \<Longrightarrow> webhooks_guard s e"
  by (auto simp: webhook_row_def delivery_rows_def delivery_dump_def hook_dialog_def Let_def split: option.splits if_splits)

lemma webhooks_panels_guarded:
  "e \<in> events (webhooks_table fmt s) \<Longrightarrow> webhooks_guard s e" "e \<in> events (deliveries_panel fmt s) \<Longrightarrow> webhooks_guard s e"
  by (auto simp: webhooks_table_def deliveries_panel_def Let_def dest: webhooks_parts_guarded(1,2) split: option.splits if_splits)

lemma webhooks_offered: "e \<in> events (Webhooks_view fmt s) \<Longrightarrow> webhooks_guard s e"
  by (auto simp: Webhooks_view_def dest: webhooks_parts_guarded(3) webhooks_panels_guarded split: if_splits)

lemmas webhooks_handlers = openCreate_def resetForm_def openEditHook_def regenerateSecret_def copySecret_done_def handleSubmitHook_def
  createHook_done_def updateHook_done_def deleteHook_def deleteHook_done_def testHook_done_def Let_def

lemma webhooks_user_inv:
  assumes "webhooks_inv s ks" and "webhooks_guard s e"
  shows "webhooks_inv (fst (webhooks_user rng e s)) (ks @ snd (snd (webhooks_user rng e s)))"
  using assms by (cases e) (auto simp: webhooks_inv_def flags_def webhooks_handlers split: option.splits)

lemma webhooks_resume_inv:
  assumes "webhooks_inv s (ks1 @ k # ks2)"
  shows "webhooks_inv (fst (webhooks_resume rng k r s)) (ks1 @ ks2 @ snd (snd (webhooks_resume rng k r s)))"
  using assms by (cases k; cases r) (auto simp: webhooks_inv_def flags_def webhooks_handlers split: if_splits)

lemma webhooks_mounted: "webhooks_inv (webhooks_init rng) []"
  by (simp add: webhooks_inv_def webhooks_init_def flags_def)

lemma webhooks_changed: "webhooks_inv s ks \<Longrightarrow> webhooks_env s s' \<Longrightarrow> webhooks_inv s' ks"
  by (auto simp: webhooks_inv_def webhooks_env_def)

interpretation webhooks: page_guarded "Webhooks fmt rng" webhooks_inv webhooks_guard "\<lambda>_. True" for fmt rng
  by unfold_locales (simp_all add: webhooks_mounted webhooks_user_inv webhooks_resume_inv webhooks_changed list_all_iff, erule webhooks_offered)

lemma webhooks_single_flight:
  "single_flight (Webhooks fmt rng)
     [(\<lambda>s. isPending (createMutation s), \<lambda>k. k = KCreateHook), (\<lambda>s. isPending (updateMutation s), \<lambda>k. k = KUpdateHook),
      (\<lambda>s. isPending (deleteMutation s), \<lambda>k. k = KDeleteHook), (\<lambda>s. isPending (testMutation s), \<lambda>k. k = KTestHook)]"
  by (rule webhooks.single_flightI) (simp add: webhooks_inv_def)

section \<open>Properties\<close>

lemma char_at_in:
  assumes "0 \<le> (r :: rat)" and "r < 1" and "s \<noteq> ''''"
  shows "\<exists>c \<in> set s. char_at s \<lfloor>r * of_nat (length s)\<rfloor> = [c]"
proof -
  have pos: "0 < (of_nat (length s) :: rat)" using assms(3) by simp
  have "r * of_nat (length s) < 1 * of_nat (length s)" by (rule mult_strict_right_mono [OF assms(2) pos])
  then have "\<lfloor>r * of_nat (length s)\<rfloor> < int (length s)" by (simp add: floor_less_iff)
  moreover have "0 \<le> \<lfloor>r * of_nat (length s)\<rfloor>" using assms(1) by simp
  ultimately show ?thesis by (auto simp: char_at_def nth_opt_def nat_less_iff intro!: nth_mem)
qed

lemma drawn_chars:
  assumes "\<And>i. 0 \<le> rnd i \<and> rnd i < (1 :: rat)" and "s \<noteq> ''''"
  shows "\<exists>cs. foldl (\<lambda>acc i. acc @ char_at s \<lfloor>rnd i * of_nat (length s)\<rfloor>) p xs = p @ cs \<and> length cs = length xs \<and> set cs \<subseteq> set s"
proof (induction xs arbitrary: p)
  case Nil
  then show ?case by simp
next
  case (Cons i xs)
  obtain c where c: "c \<in> set s" "char_at s \<lfloor>rnd i * of_nat (length s)\<rfloor> = [c]" using char_at_in assms by blast
  with Cons [of "p @ [c]"] obtain cs where
    "foldl (\<lambda>acc i. acc @ char_at s \<lfloor>rnd i * of_nat (length s)\<rfloor>) (p @ [c]) xs = p @ c # cs" "length cs = length xs" "set cs \<subseteq> set s" by auto
  with c show ?case by (intro exI [of _ "c # cs"]) simp
qed

text \<open>A signing secret is the prefix \<open>whsec_\<close> and exactly 32 letters and digits, whatever the random numbers in
  [0, 1) are; no draw falls outside the alphabet, where \<open>charAt\<close> would add nothing.\<close>

theorem generateSecret_shape:
  assumes "\<And>i. 0 \<le> rnd i \<and> rnd i < 1"
  shows "\<exists>cs. generateSecret rnd = ''whsec_'' @ cs \<and> length cs = 32 \<and> (\<forall>c \<in> set cs. is_upper c \<or> is_lower c \<or> is_digit c)"
proof -
  have "\<forall>c \<in> set secret_chars. is_upper c \<or> is_lower c \<or> is_digit c"
    by (simp add: secret_chars_def is_upper_def is_lower_def is_digit_def)
  moreover have "secret_chars \<noteq> ''''" by (simp add: secret_chars_def)
  ultimately show ?thesis
    using drawn_chars [where rnd = rnd and s = secret_chars and p = "''whsec_''" and xs = "[0..<32]", OF assms] unfolding generateSecret_def by fastforce
qed

theorem generateSecret_shape_witness: "length (generateSecret (\<lambda>_. 99 / 100)) = 38"
proof -
  have "0 \<le> (99 / 100 :: rat) \<and> (99 / 100 :: rat) < 1" by simp
  from generateSecret_shape [of "\<lambda>_. 99 / 100", OF this] show ?thesis by auto
qed

text \<open>A second click on an event takes the first back, up to the order of the events.\<close>

lemma toggleEvent_set:
  "set (wf_events (toggleEvent ev f)) = (if ev \<in> set (wf_events f) then set (wf_events f) - {ev} else insert ev (set (wf_events f)))"
  by (auto simp: toggleEvent_def)

lemma toggleEvent_distinct: "distinct (wf_events f) \<Longrightarrow> distinct (wf_events (toggleEvent ev f))"
  by (simp add: toggleEvent_def)

lemma toggleEvent_twice: "set (wf_events (toggleEvent ev (toggleEvent ev f))) = set (wf_events f)"
  by (auto simp: toggleEvent_set)

lemma webhooks_init_sel [simp]:
  "createMutation (webhooks_init rng) = idle" "updateMutation (webhooks_init rng) = idle" "editTarget (webhooks_init rng) = None"
  "secrets_drawn (webhooks_init rng) = 1"
  by (simp_all add: webhooks_init_def)

lemma hook_submit_offered:
  "SubmitHook \<in> events (Webhooks_view fmt s) \<longleftrightarrow>
     (showCreateHook s \<or> editTarget s \<noteq> None) \<and> \<not> isPending (createMutation s) \<and> \<not> isPending (updateMutation s)"
  by (auto simp: Webhooks_view_def hook_dialog_def webhooks_table_def deliveries_panel_def webhook_row_def delivery_rows_def delivery_dump_def
      Let_def split: option.splits if_splits)

lemma hook_events:
  "OpenCreateHook \<in> events (Webhooks_view fmt s)"
  "showCreateHook s \<Longrightarrow> CloseHook \<in> events (Webhooks_view fmt s)"
  "webhooksQuery s = q_success ws \<Longrightarrow> w \<in> set ws \<Longrightarrow> EditHook w \<in> events (Webhooks_view fmt s)"
  by (auto simp: Webhooks_view_def hook_dialog_def webhooks_table_def webhook_row_def Let_def)

text \<open>The answer to a creation empties the form of another webhook. Closing the dialog does not cancel the creation;
  when the user has opened a webhook for editing by then, its answer resets the shared form while the edit dialog stays
  open, and saving replaces the webhook's name, address and events by nothing and its secret by a fresh one.\<close>

theorem late_creation_blanks_edit:
  "\<exists>s ks out sec. page_reach (Webhooks fmt rng) (s, ks, out) \<and> editTarget s = Some w \<and>
     CallApi ''PUT'' (webhook_path (wh_id w))
       (json_body [(''name'', JStr ''''), (''url'', JStr ''''), (''events'', JArr []), (''secret'', JStr sec)]) \<in> set out"
proof -
  let ?load = "\<lambda>s :: webhooks_page. s\<lparr>webhooksQuery := q_success [w]\<rparr>"
  have env: "webhooks_env s (?load s)" for s
    by (auto simp: webhooks_env_def intro!: exI [of _ "q_success [w]"] exI [of _ "deliveriesQuery s"])
  have "\<exists>s ks out sec. page_play (Webhooks fmt rng)
      [Change ?load, Do OpenCreateHook, Do SubmitHook, Do CloseHook, Do (EditHook w), Answer 0 (Inr JUndef), Do SubmitHook]
      (webhooks_init rng, [], [CallApi ''GET'' ''/v1/webhooks'' JUndef]) = Some (s, ks, out) \<and> editTarget s = Some w \<and>
      CallApi ''PUT'' (webhook_path (wh_id w))
        (json_body [(''name'', JStr ''''), (''url'', JStr ''''), (''events'', JArr []), (''secret'', JStr sec)]) \<in> set out"
    by (auto simp: env hook_submit_offered hook_events webhooks_handlers form_body_def blank_form_def)
  then show ?thesis using page_play_mount [OF Webhooks_sel(1)] by blast
qed

text \<open>The dialog shows the error of a failed creation also while it edits a webhook.\<close>

lemma edit_shows_old_error: "merror (createMutation s) = Some err \<Longrightarrow> hook_error (fst (webhooks_user rng (EditHook w) s)) = createMutation s"
  by (simp add: hook_error_def openEditHook_def)

end
