(* ===== verification/PageTexts.thy ===== *)
theory PageTexts
  imports Translations Charts AbusePage AccessPages AnnouncementsPage ApiDocsPage AuditPages AuthPages BillingPage CertificatesPage CustomerPages
    DashboardPage DirectoryPages DiscountsPage DomainsPage DownloadsPage FeatureFlagsPage InspectPage InvoicesPage LayoutChrome NetworkPages
    Notifications OnboardingPage PricingPage RetentionPage RevenuePage RolesPage SettingsPage SlaPage Theming TunnelDetailPage TunnelsPage
    WebhooksPage
begin

text \<open>
  Which pages show texts that the resource files have. For every page of the admin console, and for those of the dashboard that
  came with their texts, each key a view shows is in the table, whatever the state and the data; where a page keeps texts in its
  state, in the states it reaches. The pages of the dashboard's core - the first page, the tunnels, one tunnel, its inspector and
  the settings - show keys that no file has, in every state: the visitor reads \<open>dashboard.title\<close>.
\<close>

section \<open>Parts\<close>

lemmas view_rules = Let_def list_all_iff

text \<open>Some keys that no file has.\<close>

lemma missing_keys:
  "text_params web_en ''dashboard.title'' = None" "text_params web_en ''tunnels.title'' = None"
  "text_params web_en ''tunnel_detail.breadcrumb'' = None" "text_params web_en ''settings.title'' = None" "text_params web_en ''common.actions'' = None"
  by code_simp+

lemma ThemeToggle_found: "translated web_en (ThemeToggle_view t e)"
  by (cases t) (simp_all add: ThemeToggle_view_def)
lemma timeAgo_found: "caption_found web_en (timeAgo now t)"
  by (simp add: timeAgo_def Let_def)

lemma retention_card_found: "dt \<in> set data_types \<Longrightarrow> translated admin_en (retention_card fmt s dt)"
  by (auto simp: retention_card_def data_types_def usage_panel_def list_all_iff split: option.split)

lemma plan_limits_found: "x \<in> (\<lambda>(plan, limit). Node ''div'' [Node ''Badge'' [Say [Lit plan]], Say [Tr ''dataRetention.max'' [(''limit'', JStr limit)]]]) ` X \<Longrightarrow>
    translated admin_en x"
  by auto

lemma credit_rules_found: "translated admin_en (credit_rules cfg c)"
  by (auto simp: credit_rules_def list_all_iff)

lemma domain_row_found:
  "dom_verification_status d \<in> {''pending'', ''verified'', ''failed''} \<Longrightarrow> translated web_en (domain_row fmt s d)"
  by (auto simp: domain_row_def)

lemma strength_meter_found:
  "translated web_en (strength_meter ''auth.register.password_strength'' pw)" "translated web_en (strength_meter ''auth.reset.password_strength'' pw)"
  by (cases "getStrength pw"; simp add: strength_meter_def)+

lemma tab_label_found: "key \<in> set categoryTabs \<Longrightarrow> caption_found web_en (tab_label key)"
  by (auto simp: categoryTabs_def tab_label_def)

lemma property_head_found: "list_all (translated table) (property_head s kp)"
  by (simp add: property_head_def split: prod.split option.split)

lemma SchemaView_found: "translated table (SchemaView s depth :: 'e ui)"
proof (induction s arbitrary: depth rule: measure_induct_rule [where f = size])
  case (less s)
  have "\<forall>ss. sch_allOf s = Some ss \<longrightarrow> (\<forall>x \<in> set ss. \<forall>e. translated table (SchemaView x e :: 'e ui))"
    using less schema_sizes(1) [of s] by auto
  moreover have "\<forall>i. sch_items s = Some i \<longrightarrow> (\<forall>e. translated table (SchemaView i e :: 'e ui))"
    using less schema_sizes(2) [of s] by auto
  moreover have "\<forall>ps k p. sch_properties s = Some ps \<longrightarrow> (k, p) \<in> set ps \<longrightarrow> (\<forall>e. translated table (SchemaView p e :: 'e ui)) \<and>
      (\<forall>i. sch_items p = Some i \<longrightarrow> (\<forall>e. translated table (SchemaView i e :: 'e ui)))"
    using less schema_sizes(3) [of s] less_trans [OF schema_sizes(2) schema_sizes(3)] by fast
  ultimately show ?case
    by (subst SchemaView.simps) (auto simp: property_head_found list_all_iff [of _ "map f xs" for f xs] split: option.split if_split_asm)
qed

lemma schema_view_found: "translated table (schema_view s)"
  by (simp add: schema_view_def SchemaView_found split: option.split)

lemma docs_parts_found:
  "translated table (CodeSample k c e)" "translated table (parameters_view oper)" "translated table (request_view oper)"
  "translated table (responses_view oper)"
  by (auto simp: CodeSample_def parameters_view_def parameter_row_def request_view_def responses_view_def schema_view_found Let_def list_all_iff
    split: prod.split option.split)

lemma tag_card_found: "translated table (tag_card s g)"
  by (auto simp: tag_card_def EndpointCard_def docs_parts_found Let_def list_all_iff split: prod.split)

definition nodes_known :: "detail_page \<Rightarrow> bool" where
  "nodes_known s \<longleftrightarrow> (case q_data (networkQuery s) of
     None \<Rightarrow> True | Some n \<Rightarrow> list_all (\<lambda>x. node_status x \<in> {''online'', ''offline''}) (nodes_shown n))"

lemma node_row_found: "node_status x \<in> {''online'', ''offline''} \<Longrightarrow> translated web_en (node_row x)"
  by (auto simp: node_row_def)

lemma node_list_found:
  "\<forall>x \<in> set (nodes_shown n). node_status x = ''online'' \<or> node_status x = ''offline'' \<Longrightarrow> translated web_en (node_list n)"
  using node_row_found missing_keys(5) by (auto simp: node_list_def list_all_iff)

definition hook_known :: "webhook \<Rightarrow> bool" where
  "hook_known w \<longleftrightarrow> wh_status w \<in> {''active'', ''failed'', ''disabled''} \<and> set (wh_events w) \<subseteq> set WEBHOOK_EVENTS"

lemma event_found: "ev \<in> set WEBHOOK_EVENTS \<Longrightarrow> label_found web_en (Tr (''webhooks.events.'' @ ev) [])"
  by (auto simp: WEBHOOK_EVENTS_def)

lemma webhook_row_found: "hook_known w \<Longrightarrow> translated web_en (webhook_row fmt s w)"
  using event_found by (auto simp: webhook_row_def hook_known_def list_all_iff)


section \<open>Views\<close>

lemma AbuseReports_translated:
  "translated admin_en (AbuseReports_view fmt s)"
  by (simp add: AbuseReports_view_def abuse_actions_def abuse_row_def
    view_rules split: option.splits prod.splits)

lemma IPWhitelist_translated:
  "caption_found admin_en (ip_addError s) \<Longrightarrow> translated admin_en (IPWhitelist_view fmt s)"
  by (simp add: IPWhitelist_view_def whitelist_status_def whitelist_form_def whitelist_row_def whitelist_table_def
    view_rules split: option.splits prod.splits)

lemma Blacklist_translated:
  "caption_found admin_en (bl_addError s) \<Longrightarrow> translated admin_en (Blacklist_view fmt s)"
  by (simp add: Blacklist_view_def blacklist_row_def blacklist_form_def
    view_rules split: option.splits prod.splits)

lemma Announcements_translated:
  "translated admin_en (Announcements_view fmt s)"
  by (simp add: Announcements_view_def announcement_form_card_def schedule_def announcement_row_def announcements_table_def severities_def
    target_options_def form_error_def
    view_rules split: option.splits prod.splits)

lemma AuditLogs_translated:
  "translated admin_en (AuditLogs_view fmt s)"
  by (simp add: AuditLogs_view_def log_details_def log_rows_def logs_pager_def logs_table_def
    view_rules split: option.splits prod.splits)

lemma AuditReports_translated:
  "translated admin_en (AuditReports_view fmt s)"
  by (simp add: AuditReports_view_def generate_notes_def report_config_def template_cards_def report_row_def reports_history_def
    view_rules split: option.splits prod.splits)

lemma AdminLogin_translated:
  "caption_found admin_en (av_email s) \<and> caption_found admin_en (av_password s) \<Longrightarrow> translated admin_en (AdminLogin_view s)"
  by (simp add: AdminLogin_view_def error_badge_def submit_button_def
    view_rules split: option.splits prod.splits)

lemma Certificates_translated:
  "translated admin_en (Certificates_view fmt s)"
  by (simp add: Certificates_view_def getStatusBadge_def cert_cells_def system_row_def tenant_row_def cert_rows_def cert_tabs_def cert_head_def
    view_rules split: option.splits prod.splits cert_tab.splits)

lemma CustomerCRM_translated:
  "translated admin_en (CustomerCRM_view cfg s)"
  by (simp add: CustomerCRM_view_def customer_row_def crm_filters_def
    view_rules split: option.splits prod.splits)

lemma CustomerDetail_translated:
  "translated admin_en (CustomerDetail_view cfg s)"
  by (simp add: CustomerDetail_view_def customer_summary_def customer_overview_def customer_billing_def factor_bar_def customer_usage_tab_def
    customer_activity_def
    view_rules split: option.splits prod.splits)

lemma Organizations_translated:
  "translated admin_en (Organizations_view cfg q)"
  by (simp add: Organizations_view_def search_field_def list_head_def org_row_view_def
    view_rules split: option.splits prod.splits)

lemma Users_translated:
  "translated admin_en (Users_view cfg q)"
  by (simp add: Users_view_def search_field_def list_head_def user_row_view_def
    view_rules split: option.splits prod.splits)

lemma RelayNodes_translated:
  "translated admin_en (RelayNodes_view cfg q)"
  by (simp add: RelayNodes_view_def search_field_def list_head_def load_bar_def relay_row_view_def
    view_rules split: option.splits prod.splits)

lemma OrganizationDetail_translated:
  "translated admin_en (OrganizationDetail_view i u)"
  by (simp add: OrganizationDetail_view_def back_button_def figure_card_def org_user_view_def org_tunnel_view_def
    view_rules split: option.splits prod.splits)

lemma UserDetail_translated:
  "translated admin_en (UserDetail_view cfg i u)"
  by (simp add: UserDetail_view_def back_button_def figure_card_def
    view_rules split: option.splits prod.splits)

lemma RelayNodeDetail_translated:
  "translated admin_en (RelayNodeDetail_view cfg fmt s)"
  by (simp add: RelayNodeDetail_view_def back_button_def figure_card_def load_bar_def RelayTrafficChart_def
    view_rules split: option.splits prod.splits)

lemma AdminDashboard_translated:
  "translated admin_en (AdminDashboard_view cfg q)"
  by (simp add: AdminDashboard_view_def admin_figures_def signup_row_def health_row_def system_health_def figure_card_def
    view_rules split: option.splits prod.splits)

lemma DiscountCodes_translated:
  "translated admin_en (DiscountCodes_view fmt s)"
  by (simp add: DiscountCodes_view_def discount_error_def discount_form_card_def discount_row_def discounts_table_def form_error_def
    view_rules split: option.splits prod.splits)

lemma FeatureFlags_translated:
  "translated admin_en (FeatureFlags_view s)"
  by (simp add: FeatureFlags_view_def flag_row_def flags_table_def flag_dialog_def
    view_rules split: option.splits prod.splits)

lemma Invoices_translated:
  "translated admin_en (Invoices_view fmt s)"
  by (simp add: Invoices_view_def invoice_items_def invoice_detail_def invoice_rows_def invoices_table_def
    view_rules split: option.splits prod.splits)

lemma PricingConfig_translated:
  "translated admin_en (PricingConfig_view fmt s)"
  by (simp add: PricingConfig_view_def discount_card_def feature_fields_def plan_editor_def plan_summary_def pricing_card_def
    view_rules split: option.splits prod.splits)

lemma DataRetention_translated:
  "translated admin_en (DataRetention_view cfg s)"
  by (simp add: DataRetention_view_def plan_limits_found retention_cards_def retention_card_found
    view_rules split: option.splits prod.splits)

lemma RevenueDashboard_translated:
  "translated admin_en (RevenueDashboard_view fmt s)"
  by (simp add: RevenueDashboard_view_def chart_def revenue_figures_def mrr_trend_def forecast_row_def funnel_chart_def churn_metrics_def loaded_card_def
    forecast_rows_def
    view_rules split: option.splits prod.splits)

lemma Roles_translated:
  "translated admin_en (Roles_view fmt s)"
  by (simp add: Roles_view_def role_row_def roles_table_def category_box_def role_dialog_def
    view_rules split: option.splits prod.splits)

lemma SLADashboard_translated:
  "translated admin_en (SLADashboard_view cfg s)"
  by (simp add: SLADashboard_view_def UptimeBar_def uptime_bars_def uptime_cell_def trend_table_def incident_row_def incident_table_def credit_status_def
    credit_row_def credit_history_def credit_rules_found sla_panel_def sla_tabs_def
    view_rules split: option.splits prod.splits sla_tab.splits)

lemma AdminLayout_translated:
  "translated admin_en (AdminLayout_view s)"
  by (simp add: AdminLayout_view_def admin_nav_entry_def user_label_def admin_navItems_def admin_nav_labels_def
    view_rules split: option.splits prod.splits)

lemma Layout_translated:
  "translated web_en (Layout_view s)"
  by (simp add: Layout_view_def nav_entry_def unread_mark_def user_label_def layout_header_def navItems_def ThemeToggle_found nav_def
    view_rules split: option.splits prod.splits)

lemma ApiDocs_translated:
  "translated web_en (ApiDocs_view s)"
  by (simp add: ApiDocs_view_def ApiDocsSkeleton_def tag_card_found docs_error_def
    view_rules split: option.splits prod.splits)

lemma Downloads_translated:
  "translated web_en (Downloads_view s)"
  by (simp add: Downloads_view_def CopyButton_def InstallCode_def fixed_row_def version_entry_def VersionHistory_def os_buttons_def platform_card_def
    install_card_def quick_start_def
    view_rules split: option.splits prod.splits)

lemma Networks_translated:
  "translated web_en (Networks_view s)"
  by (simp add: Networks_view_def network_row_def join_create_buttons_def networks_table_def create_net_dialog_def join_dialog_def
    view_rules split: option.splits prod.splits)

lemma NetworkDetail_translated:
  "nodes_known s \<Longrightarrow> translated web_en (NetworkDetail_view fmt distance s)"
  by (simp add: NetworkDetail_view_def network_info_def invite_card_def topology_def nodes_known_def node_list_found
    view_rules split: option.splits prod.splits)

lemma Billing_translated:
  "translated web_en (Billing_view fmt s)"
  by (simp add: Billing_view_def billing_usage_bar_def current_plan_card_def plan_card_def billing_usage_card_def invoice_line_def invoices_card_def
    view_rules split: option.splits prod.splits)

lemma Domains_translated:
  "\<forall>d \<in> set (data_or_empty (q_data (domainsQuery s))). dom_verification_status d \<in> {''pending'', ''verified'', ''failed''} \<Longrightarrow> translated web_en (Domains_view fmt s)"
  by (simp add: Domains_view_def domain_row_found domains_table_def domains_footer_def add_dialog_def instructions_dialog_def tunnel_options_def
    view_rules split: option.splits prod.splits)

lemma Webhooks_translated:
  "list_all hook_known (data_or_empty (q_data (webhooksQuery s))) \<Longrightarrow> translated web_en (Webhooks_view fmt s)"
  by (simp add: Webhooks_view_def webhook_row_found webhooks_table_def delivery_dump_def delivery_rows_def deliveries_panel_def hook_dialog_def
    WEBHOOK_EVENTS_def
    view_rules split: option.splits prod.splits)

lemma Notifications_translated:
  "translated web_en (Notifications_view s)"
  by (simp add: Notifications_view_def tab_label_found notif_tab_def notif_row_def categoryTabs_def timeAgo_found
    view_rules split: option.splits prod.splits)

lemma Login_translated:
  "caption_found web_en (v_email s) \<and> caption_found web_en (v_password s) \<and> caption_found web_en (v_mfa s) \<Longrightarrow> translated web_en (Login_view s)"
  by (simp add: Login_view_def error_badge_def submit_button_def Login_form_def Login_sso_def
    view_rules split: option.splits prod.splits)

lemma Forgot_translated:
  "caption_found web_en (fv_email s) \<Longrightarrow> translated web_en (Forgot_view s)"
  by (simp add: Forgot_view_def error_badge_def submit_button_def
    view_rules split: option.splits prod.splits)

lemma Register_translated:
  "caption_found web_en (rv_name s) \<and> caption_found web_en (rv_email s) \<and> caption_found web_en (rv_password s) \<and> caption_found web_en (rv_confirm s) \<Longrightarrow> translated web_en (Register_view s)"
  by (simp add: Register_view_def error_badge_def submit_button_def strength_meter_found
    view_rules split: option.splits prod.splits)

lemma Reset_translated:
  "caption_found web_en (sv_password s) \<and> caption_found web_en (sv_confirm s) \<Longrightarrow> translated web_en (Reset_view s)"
  by (simp add: Reset_view_def error_badge_def submit_button_def strength_meter_found
    view_rules split: option.splits prod.splits)

lemma Onboarding_translated:
  "caption_found web_en (orgError s) \<Longrightarrow> translated web_en (Onboarding_view s)"
  by (simp add: Onboarding_view_def ProgressBar_def onboarding_welcome_def onboarding_org_def cli_line_def onboarding_cli_def onboarding_tunnel_def
    onboarding_done_def onboarding_buttons_def
    view_rules split: option.splits prod.splits)

section \<open>Texts a page keeps in its state\<close>

text \<open>Where a page keeps texts in its state - the errors of its fields -, \<open>K\<close> says that they are in the table; every handler keeps it.\<close>

locale translated_page = page_invariant pg "\<lambda>s ks. K s" for pg :: "('s, 'e, 'k) page" and K :: "'s \<Rightarrow> bool" +
  fixes table :: texts_table
  assumes shows_known: "K s \<Longrightarrow> translated table (pg_view pg s)"
begin

lemma reached_translated: "page_reach pg a \<Longrightarrow> translated table (pg_view pg (fst a))"
  using reach_keeps shows_known by blast

end

interpretation whitelist_texts: translated_page "IPWhitelist fmt" "\<lambda>s. caption_found admin_en (ip_addError s)" admin_en for fmt
proof unfold_locales
  show "caption_found admin_en (ip_addError s')" if "caption_found admin_en (ip_addError s)" "pg_user (IPWhitelist fmt) e s = (s', cs, new)" for s s' e cs new
    using that by (cases e) (auto simp: ip_handleAdd_def split: if_splits)
  show "caption_found admin_en (ip_addError s')" if "caption_found admin_en (ip_addError s)" "pg_resume (IPWhitelist fmt) k r s = (s', cs, new)" for s s' k r cs new
    using that by (cases k) (auto simp: ip_add_done_def ip_delete_done_def error_caption_def Let_def split: sum.splits if_splits)
qed (auto simp: ip_init_def ip_env_def intro: IPWhitelist_translated)

interpretation blacklist_texts: translated_page "Blacklist fmt" "\<lambda>s. caption_found admin_en (bl_addError s)" admin_en for fmt
proof unfold_locales
  show "caption_found admin_en (bl_addError s')" if "caption_found admin_en (bl_addError s)" "pg_user (Blacklist fmt) e s = (s', cs, new)" for s s' e cs new
    using that by (cases e) (auto simp: bl_handleAdd_def split: if_splits)
  show "caption_found admin_en (bl_addError s')" if "caption_found admin_en (bl_addError s)" "pg_resume (Blacklist fmt) k r s = (s', cs, new)" for s s' k r cs new
    using that by (cases k) (auto simp: bl_add_done_def bl_remove_done_def error_caption_def Let_def split: sum.splits if_splits)
qed (auto simp: blacklist_init_def blacklist_env_def intro: Blacklist_translated)

abbreviation admin_login_captions :: "admin_login_page \<Rightarrow> bool" where
  "admin_login_captions s \<equiv> caption_found admin_en (av_email s) \<and> caption_found admin_en (av_password s)"

interpretation admin_login_texts: translated_page AdminLogin admin_login_captions admin_en
proof unfold_locales
  show "admin_login_captions s'" if "admin_login_captions s" "pg_user AdminLogin e s = (s', cs, new)" for s s' e cs new
    using that by (cases e) (auto simp: admin_login_handleSubmit_def admin_login_validate_def email_errors_def store_begin_eq Let_def split: if_splits)
  show "admin_login_captions s'" if "admin_login_captions s" "pg_resume AdminLogin k r s = (s', cs, new)" for s s' k r cs new
    using that by (cases k) (auto simp: store_end_eq Let_def split: if_splits option.splits sum.splits)
qed (auto simp: admin_login_init_def intro: AdminLogin_translated)

abbreviation login_captions :: "login_page \<Rightarrow> bool" where
  "login_captions s \<equiv> caption_found web_en (v_email s) \<and> caption_found web_en (v_password s) \<and> caption_found web_en (v_mfa s)"

interpretation login_texts: translated_page Login login_captions web_en
proof unfold_locales
  show "login_captions s'" if "login_captions s" "pg_user Login e s = (s', cs, new)" for s s' e cs new
    using that by (cases e) (auto simp: login_handleSubmit_def login_validate_def email_errors_def store_begin_eq Let_def split: if_splits)
  show "login_captions s'" if "login_captions s" "pg_resume Login k r s = (s', cs, new)" for s s' k r cs new
    using that by (cases k) (auto simp: login_settled_def store_end_eq Let_def split: if_splits option.splits sum.splits)
qed (auto simp: login_init_def intro: Login_translated)

abbreviation register_captions :: "register_page \<Rightarrow> bool" where
  "register_captions s \<equiv> caption_found web_en (rv_name s) \<and> caption_found web_en (rv_email s) \<and> caption_found web_en (rv_password s) \<and> caption_found web_en (rv_confirm s)"

interpretation register_texts: translated_page Register register_captions web_en
proof unfold_locales
  show "register_captions s'" if "register_captions s" "pg_user Register e s = (s', cs, new)" for s s' e cs new
    using that by (cases e) (auto simp: register_handleSubmit_def register_validate_def email_errors_def password_errors_def store_begin_eq Let_def split: if_splits)
  show "register_captions s'" if "register_captions s" "pg_resume Register k r s = (s', cs, new)" for s s' k r cs new
    using that by (cases k) (auto simp: register_settled_def store_end_eq Let_def split: if_splits option.splits sum.splits)
qed (auto simp: register_init_def intro: Register_translated)

abbreviation forgot_captions :: "forgot_page \<Rightarrow> bool" where
  "forgot_captions s \<equiv> caption_found web_en (fv_email s)"

interpretation forgot_texts: translated_page ForgotPassword forgot_captions web_en
proof unfold_locales
  show "forgot_captions s'" if "forgot_captions s" "pg_user ForgotPassword e s = (s', cs, new)" for s s' e cs new
    using that by (cases e) (auto simp: forgot_handleSubmit_def forgot_validate_def email_errors_def Let_def split: if_splits)
  show "forgot_captions s'" if "forgot_captions s" "pg_resume ForgotPassword k r s = (s', cs, new)" for s s' k r cs new
    using that by (cases k) (auto simp: raw_settled_def Let_def split: if_splits option.splits sum.splits)
qed (auto simp: forgot_init_def intro: Forgot_translated)

abbreviation reset_captions :: "reset_page \<Rightarrow> bool" where
  "reset_captions s \<equiv> caption_found web_en (sv_password s) \<and> caption_found web_en (sv_confirm s)"

interpretation reset_texts: translated_page "ResetPassword tok" reset_captions web_en for tok
proof unfold_locales
  show "reset_captions s'" if "reset_captions s" "pg_user (ResetPassword tok) e s = (s', cs, new)" for s s' e cs new
    using that by (cases e) (auto simp: reset_handleSubmit_def reset_validate_def password_errors_def Let_def split: if_splits)
  show "reset_captions s'" if "reset_captions s" "pg_resume (ResetPassword tok) k r s = (s', cs, new)" for s s' k r cs new
    using that by (cases k) (auto simp: raw_settled_def Let_def split: if_splits option.splits sum.splits)
qed (auto simp: reset_init_def intro: Reset_translated)

abbreviation onboarding_captions :: "onboarding \<Rightarrow> bool" where
  "onboarding_captions s \<equiv> caption_found web_en (orgError s)"

interpretation onboarding_texts: translated_page Onboarding onboarding_captions web_en
proof unfold_locales
  show "onboarding_captions s'" if "onboarding_captions s" "pg_user Onboarding e s = (s', cs, new)" for s s' e cs new
    using that by (cases e) (auto simp: handleSkip_def nextStep_def prevStep_def handleCreateOrg_def handleCopy_def handleCreateTunnel_def handleFinish_def Let_def split: if_splits)
  show "onboarding_captions s'" if "onboarding_captions s" "pg_resume Onboarding k r s = (s', cs, new)" for s s' k r cs new
    using that by (cases k) (auto simp: handleCreateOrg_done_def handleCreateTunnel_done_def nextStep_def Let_def split: if_splits option.splits sum.splits)
qed (auto simp: onboarding_init_def intro: Onboarding_translated)

section \<open>Texts that are missing\<close>

lemma Dashboard_untranslated: "\<not> translated web_en (Dashboard_view cfg s)"
  by (simp add: Dashboard_view_def missing_keys)

lemma Tunnels_untranslated: "\<not> translated web_en (Tunnels_view s)"
  by (simp add: Tunnels_view_def missing_keys)

lemma TunnelDetail_untranslated: "\<not> translated web_en (TunnelDetail_view fmt distance loc s)"
  by (simp add: TunnelDetail_view_def missing_keys Let_def)

lemma TunnelInspect_untranslated: "\<not> translated web_en (TunnelInspect_view fmt tid s)"
  by (simp add: TunnelInspect_view_def missing_keys)

lemma Settings_untranslated: "\<not> translated web_en (Settings_view content tab)"
  by (simp add: Settings_view_def missing_keys)

lemmas admin_views_translated =
  AdminLayout_translated AdminDashboard_translated Organizations_translated OrganizationDetail_translated Users_translated UserDetail_translated RelayNodes_translated RelayNodeDetail_translated
  AbuseReports_translated Announcements_translated AuditLogs_translated AuditReports_translated Certificates_translated CustomerCRM_translated CustomerDetail_translated DiscountCodes_translated
  FeatureFlags_translated Invoices_translated PricingConfig_translated DataRetention_translated RevenueDashboard_translated Roles_translated SLADashboard_translated

lemmas web_views_translated =
  Layout_translated Networks_translated Billing_translated Notifications_translated Downloads_translated ApiDocs_translated

section \<open>Properties\<close>

text \<open>Every text of the admin console is in both resource files, with every name it interpolates, whatever the page's data: all
  twenty-six views, those that keep error texts in every state they reach.\<close>

theorem admin_pages_translated:
  "(page_reach AdminLogin l \<longrightarrow> translated admin_en (AdminLogin_view (fst l))) \<and>
   (page_reach (IPWhitelist fmt) w \<longrightarrow> translated admin_en (IPWhitelist_view fmt (fst w))) \<and>
   (page_reach (Blacklist fmt) b \<longrightarrow> translated admin_en (Blacklist_view fmt (fst b))) \<and>
   translated admin_en (AdminLayout_view layout0) \<and> translated admin_en (AdminDashboard_view dir stats0) \<and>
   translated admin_en (Organizations_view dir q) \<and> translated admin_en (OrganizationDetail_view i u) \<and>
   translated admin_en (Users_view dir q) \<and> translated admin_en (UserDetail_view dir i u) \<and>
   translated admin_en (RelayNodes_view dir q) \<and> translated admin_en (RelayNodeDetail_view dir hour relay0) \<and>
   translated admin_en (AbuseReports_view fmt abuse0) \<and> translated admin_en (Announcements_view fmt announcements0) \<and>
   translated admin_en (AuditLogs_view fmt logs0) \<and> translated admin_en (AuditReports_view fmt reports0) \<and>
   translated admin_en (Certificates_view fmt certificates0) \<and> translated admin_en (CustomerCRM_view crm customers0) \<and>
   translated admin_en (CustomerDetail_view detail customer0) \<and> translated admin_en (DiscountCodes_view fmt discounts0) \<and>
   translated admin_en (FeatureFlags_view feature_flags) \<and> translated admin_en (Invoices_view fmt invoices0) \<and>
   translated admin_en (PricingConfig_view amount pricing0) \<and> translated admin_en (DataRetention_view retention_cfg r0) \<and>
   translated admin_en (RevenueDashboard_view amount revenue0) \<and> translated admin_en (Roles_view fmt roles0) \<and>
   translated admin_en (SLADashboard_view sla_formats sla0)"
  using admin_login_texts.reached_translated [of l] whitelist_texts.reached_translated [of fmt w] blacklist_texts.reached_translated [of fmt b]
  by (simp add: admin_views_translated)

theorem admin_pages_translated_witness:
  "translated admin_en (AdminLogin_view admin_login_init) \<and> translated admin_en (IPWhitelist_view id ip_init) \<and>
   translated admin_en (Blacklist_view id blacklist_init)"
  using admin_pages_translated [of "(admin_login_init, [], [])" id "(ip_init, [], [])" "(blacklist_init, [], [CallApi ''GET'' blacklist_path JUndef])"]
  by (simp add: reach_mount)

text \<open>The texts of the dashboard's pages around its core are in both resource files, with every name they interpolate, in
  every state they reach, or have a default; of
  the data only the states of nodes, domains and webhooks are part of a key, and those of their types have one.\<close>

theorem web_pages_translated:
  "(page_reach Login l \<longrightarrow> translated web_en (Login_view (fst l))) \<and>
   (page_reach Register g \<longrightarrow> translated web_en (Register_view (fst g))) \<and>
   (page_reach ForgotPassword f \<longrightarrow> translated web_en (Forgot_view (fst f))) \<and>
   (page_reach (ResetPassword tok) r \<longrightarrow> translated web_en (Reset_view (fst r))) \<and>
   (page_reach Onboarding ob \<longrightarrow> translated web_en (Onboarding_view (fst ob))) \<and>
   (list_all (\<lambda>d. dom_verification_status d \<in> {''pending'', ''verified'', ''failed''}) (data_or_empty (q_data (domainsQuery domains0))) \<longrightarrow>
      translated web_en (Domains_view fmt domains0)) \<and>
   (list_all hook_known (data_or_empty (q_data (webhooksQuery hooks0))) \<longrightarrow> translated web_en (Webhooks_view fmt hooks0)) \<and>
   (nodes_known network0 \<longrightarrow> translated web_en (NetworkDetail_view fmt distance network0)) \<and>
   translated web_en (Layout_view layout0) \<and> translated web_en (Networks_view networks0) \<and> translated web_en (Billing_view fmt billing0) \<and>
   translated web_en (Notifications_view notifications0) \<and> translated web_en (Downloads_view downloads0) \<and> translated web_en (ApiDocs_view docs0)"
  using login_texts.reached_translated [of l] register_texts.reached_translated [of g] forgot_texts.reached_translated [of f]
    reset_texts.reached_translated [of tok r] onboarding_texts.reached_translated [of ob] Domains_translated [of domains0 fmt]
    Webhooks_translated [of hooks0 fmt] NetworkDetail_translated [of network0 fmt distance]
  by (simp add: web_views_translated list_all_iff)

theorem web_pages_translated_witness:
  "translated web_en (Login_view login_init) \<and> translated web_en (Register_view register_init) \<and> translated web_en (Forgot_view forgot_init) \<and>
   translated web_en (Reset_view (reset_init (Some ''t''))) \<and> translated web_en (Onboarding_view onboarding_init)"
  using web_pages_translated [of "(login_init, [], [])" "(register_init, [], [])" "(forgot_init, [], [])" "Some ''t''"
    "(reset_init (Some ''t''), [], [])" "(onboarding_init, [], [])"]
  by (simp add: reach_mount)

text \<open>The first page, the tunnel list, one tunnel, its inspector and the settings show a key that no resource file has,
  whatever their state and data.\<close>

theorem core_pages_untranslated:
  "\<not> translated web_en (Dashboard_view cfg dashboard0) \<and> \<not> translated web_en (Tunnels_view tunnels_s) \<and>
   \<not> translated web_en (TunnelDetail_view fmt distance loc tunnel0) \<and> \<not> translated web_en (TunnelInspect_view fmt tid inspector0) \<and>
   \<not> translated web_en (Settings_view content tab)"
  by (simp add: Dashboard_untranslated Tunnels_untranslated TunnelDetail_untranslated TunnelInspect_untranslated Settings_untranslated)

end
