(* ===== verification/CommandPalette.thy ===== *)
theory CommandPalette
  imports Hooks
begin

text \<open>
  The command palette (\<open>components/CommandPalette.tsx\<close>): the search over the cached tunnels, domains and
  networks and the fixed routes, the grouping, the keyboard navigation and the execution of an entry.

  The translated texts are compared with the query, so the translation function is an argument \<open>t\<close>.
\<close>

section \<open>Entries\<close>

record search_result =
  sr_id :: string
  sr_name :: string
  sr_subtitle :: string
  sr_group :: string
  sr_to :: string

record domain_item =
  dom_id :: string
  dom_domain :: string
  dom_tunnel_name :: "string option"
  dom_tunnel_id :: "string option"

record palette =
  pal_open :: bool
  pal_query :: string
  selectedIndex :: int
  pal_tunnels :: "tunnel list"
  pal_domains :: "domain_item list"
  pal_networks :: "mesh_network list"

definition palette_init :: palette where
  "palette_init = \<lparr>pal_open = False, pal_query = '''', selectedIndex = 0, pal_tunnels = [], pal_domains = [], pal_networks = []\<rparr>"

definition settingsRoutes :: "(string \<times> string \<times> string) list" where
  "settingsRoutes =
     [(''nav.settings'', ''settings'', ''/settings''),
      (''settings.tabs.organization'', ''settings-organization'', ''/settings''),
      (''settings.tabs.security'', ''settings-security'', ''/settings''),
      (''settings.tabs.api_keys'', ''settings-api'', ''/settings''),
      (''billing.title'', ''billing'', ''/billing''),
      (''notifications.title'', ''notifications'', ''/notifications'')]"

definition docsLinks :: "(string \<times> string) list" where
  "docsLinks = [(''docs-getting-started'', ''#'')]"

abbreviation or_empty :: "string option \<Rightarrow> string" where
  "or_empty x \<equiv> (case x of None \<Rightarrow> '''' | Some v \<Rightarrow> v)"

definition tunnel_matches :: "string \<Rightarrow> tunnel \<Rightarrow> bool" where
  "tunnel_matches query tn \<longleftrightarrow> fuzzyMatch query (tunnel_name tn) \<or> fuzzyMatch query (or_empty (tunnel_domain tn))"

definition tunnel_entry :: "tunnel \<Rightarrow> search_result" where
  "tunnel_entry tn = \<lparr>sr_id = ''tunnel-'' @ tunnel_id tn, sr_name = tunnel_name tn,
     sr_subtitle = to_upper (tunnel_protocol tn) @ '' - '' @
       (if or_empty (tunnel_domain tn) \<noteq> '''' then or_empty (tunnel_domain tn) else ''Port '' @ int_string (tunnel_remote_port tn)),
     sr_group = ''tunnels'', sr_to = ''/tunnels/'' @ tunnel_id tn\<rparr>"

definition domain_matches :: "string \<Rightarrow> domain_item \<Rightarrow> bool" where
  "domain_matches query d \<longleftrightarrow> fuzzyMatch query (dom_domain d) \<or> fuzzyMatch query (or_empty (dom_tunnel_name d))"

definition domain_entry :: "domain_item \<Rightarrow> search_result" where
  "domain_entry d = \<lparr>sr_id = ''domain-'' @ dom_id d, sr_name = dom_domain d,
     sr_subtitle = (case dom_tunnel_name d of Some n \<Rightarrow> n | None \<Rightarrow> (case dom_tunnel_id d of Some i \<Rightarrow> take 8 i | None \<Rightarrow> '''')),
     sr_group = ''domains'', sr_to = ''/domains''\<rparr>"

definition network_entry :: "mesh_network \<Rightarrow> search_result" where
  "network_entry n = \<lparr>sr_id = ''network-'' @ network_id n, sr_name = network_name n, sr_subtitle = network_cidr n,
     sr_group = ''networks'', sr_to = ''/networks/'' @ network_id n\<rparr>"

definition settings_matches :: "(string \<Rightarrow> string) \<Rightarrow> string \<Rightarrow> string \<times> string \<times> string \<Rightarrow> bool" where
  "settings_matches t query = (\<lambda>(name, slug, to). fuzzyMatch query (t name) \<or> fuzzyMatch query slug)"

definition settings_entry :: "(string \<Rightarrow> string) \<Rightarrow> string \<times> string \<times> string \<Rightarrow> search_result" where
  "settings_entry t = (\<lambda>(name, slug, to). \<lparr>sr_id = ''settings-'' @ slug, sr_name = t name, sr_subtitle = t ''nav.settings'',
     sr_group = ''settings'', sr_to = to\<rparr>)"

text \<open>The name of a documentation entry: the first \<open>docs-\<close> removed, dashes as spaces, words capitalised.\<close>

fun remove_first :: "string \<Rightarrow> string \<Rightarrow> string" where
  "remove_first p [] = []"
| "remove_first p (c # cs) = (if starts_with (c # cs) p then drop (length p) (c # cs) else c # remove_first p cs)"

definition word_char :: "char \<Rightarrow> bool" where
  "word_char c \<longleftrightarrow> is_upper c \<or> is_lower c \<or> is_digit c \<or> c = CHR ''_''"

fun capitalise :: "bool \<Rightarrow> string \<Rightarrow> string" where
  "capitalise inside [] = []"
| "capitalise inside (c # cs) = (if word_char c \<and> \<not> inside then upper_char c else c) # capitalise (word_char c) cs"

definition docs_name :: "string \<Rightarrow> string" where
  "docs_name slug = capitalise False (map (\<lambda>c. if c = CHR ''-'' then CHR '' '' else c) (remove_first ''docs-'' slug))"

definition docs_entry :: "string \<times> string \<Rightarrow> search_result" where
  "docs_entry = (\<lambda>(slug, to). \<lparr>sr_id = slug, sr_name = docs_name slug, sr_subtitle = '''', sr_group = ''docs'', sr_to = to\<rparr>)"

definition results :: "(string \<Rightarrow> string) \<Rightarrow> palette \<Rightarrow> search_result list" where
  "results t s =
     (let q = pal_query s in
      map tunnel_entry (filter (tunnel_matches q) (pal_tunnels s)) @
      map domain_entry (filter (domain_matches q) (pal_domains s)) @
      map network_entry (filter (\<lambda>n. fuzzyMatch q (network_name n)) (pal_networks s)) @
      map (settings_entry t) (filter (settings_matches t q) settingsRoutes) @
      (if q \<noteq> '''' then map docs_entry (filter (\<lambda>(slug, to). fuzzyMatch q slug) docsLinks) else []))"

text \<open>The map from group to entries, in the order in which the groups appear.\<close>

fun group_add :: "('a \<Rightarrow> string) \<Rightarrow> 'a \<Rightarrow> (string \<times> 'a list) list \<Rightarrow> (string \<times> 'a list) list" where
  "group_add f r [] = [(f r, [r])]"
| "group_add f r ((g, rs) # gs) = (if g = f r then (g, rs @ [r]) # gs else (g, rs) # group_add f r gs)"

definition group_by :: "('a \<Rightarrow> string) \<Rightarrow> 'a list \<Rightarrow> (string \<times> 'a list) list" where
  "group_by f rs = fold (group_add f) rs []"

text \<open>
  The entries of the flat list are distinct objects, which \<open>flatList.indexOf\<close> tells apart; in the model an
  entry is paired with its index in that list.
\<close>

definition grouped :: "(string \<Rightarrow> string) \<Rightarrow> palette \<Rightarrow> (string \<times> (nat \<times> search_result) list) list" where
  "grouped t s = group_by (\<lambda>(idx, r). sr_group r) (enumerate 0 (results t s))"

section \<open>Events\<close>

datatype palette_ev =
  ToggleKey | Escape | Backdrop | Typed string | ArrowDown | ArrowUp | EnterKey | Hover int | Choose string

text \<open>\<open>setOpen(true)\<close> with the effects of the change: the query and the selection are reset.\<close>

definition opened_palette :: "palette \<Rightarrow> palette" where
  "opened_palette s = s\<lparr>pal_open := True, pal_query := '''', selectedIndex := 0\<rparr>"

definition execute :: "string \<Rightarrow> palette \<Rightarrow> (palette, unit) effect" where
  "execute to s = (s\<lparr>pal_open := False\<rparr>, (if starts_with to ''/'' then [GoTo to] else []), [])"

fun palette_user :: "(string \<Rightarrow> string) \<Rightarrow> palette_ev \<Rightarrow> palette \<Rightarrow> (palette, unit) effect" where
  "palette_user t ToggleKey s = (if pal_open s then s\<lparr>pal_open := False\<rparr> else opened_palette s, [], [])"
| "palette_user t Escape s = (s\<lparr>pal_open := False\<rparr>, [], [])"
| "palette_user t Backdrop s = (s\<lparr>pal_open := False\<rparr>, [], [])"
| "palette_user t (Typed v) s = (s\<lparr>pal_query := v, selectedIndex := if v = pal_query s then selectedIndex s else 0\<rparr>, [], [])"
| "palette_user t ArrowDown s = (s\<lparr>selectedIndex := min (selectedIndex s + 1) (int (length (results t s)) - 1)\<rparr>, [], [])"
| "palette_user t ArrowUp s = (s\<lparr>selectedIndex := max (selectedIndex s - 1) 0\<rparr>, [], [])"
| "palette_user t EnterKey s =
     (case nth_opt (results t s) (selectedIndex s) of None \<Rightarrow> (s, [], []) | Some r \<Rightarrow> execute (sr_to r) s)"
| "palette_user t (Hover i) s = (s\<lparr>selectedIndex := i\<rparr>, [], [])"
| "palette_user t (Choose to) s = execute to s"

section \<open>View\<close>

definition entry_row :: "nat \<times> search_result \<Rightarrow> palette_ev ui" where
  "entry_row = (\<lambda>(idx, r). Listens (Hover (int idx)) [Button False (Choose (sr_to r))
     [Node ''p'' [Say [Lit (sr_name r)]], only_if (sr_subtitle r \<noteq> '''') (Node ''p'' [Say [Lit (sr_subtitle r)]])]])"

definition palette_list :: "(string \<Rightarrow> string) \<Rightarrow> palette \<Rightarrow> palette_ev ui" where
  "palette_list t s =
     (if grouped t s = [] \<and> pal_query s \<noteq> '''' then Node ''p'' [Say (tr ''search.no_results'')]
      else Node '''' (map (\<lambda>(g, rs). Node ''div'' (Node ''p'' [Say (tr (''search.groups.'' @ g))] # map entry_row rs)) (grouped t s)))"

definition palette_view :: "(string \<Rightarrow> string) \<Rightarrow> palette \<Rightarrow> palette_ev ui" where
  "palette_view t s = Listens ToggleKey
     [only_if (pal_open s) (Listens Escape [Listens Backdrop
       [Node ''div''
         [Listens ArrowDown [Listens ArrowUp [Listens EnterKey [Field [] (pal_query s) False Typed]]],
          palette_list t s]]])]"

definition palette_env :: "palette \<Rightarrow> palette \<Rightarrow> bool" where
  "palette_env s s' \<longleftrightarrow> (\<exists>ts ds ns. s' = s\<lparr>pal_tunnels := ts, pal_domains := ds, pal_networks := ns\<rparr>)"

definition CommandPaletteOverlay :: "(string \<Rightarrow> string) \<Rightarrow> (palette, palette_ev, unit) page" where
  "CommandPaletteOverlay t = \<lparr>pg_mount = (palette_init, [], []), pg_view = palette_view t, pg_user = palette_user t,
     pg_resume = (\<lambda>k r s. (s, [], [])), pg_env = palette_env\<rparr>"

lemma CommandPalette_sel [simp]:
  "pg_mount (CommandPaletteOverlay t) = (palette_init, [], [])" "pg_view (CommandPaletteOverlay t) = palette_view t"
  "pg_user (CommandPaletteOverlay t) = palette_user t" "pg_resume (CommandPaletteOverlay t) = (\<lambda>k r s. (s, [], []))"
  "pg_env (CommandPaletteOverlay t) = palette_env"
  by (simp_all add: CommandPaletteOverlay_def)

section \<open>The order of the entries\<close>

lemma group_add_new: "f r \<notin> fst ` set gs \<Longrightarrow> group_add f r gs = gs @ [(f r, [r])]"
  by (induction gs) auto

lemma group_add_last: "f r \<notin> fst ` set gs \<Longrightarrow> group_add f r (gs @ [(f r, rs)]) = gs @ [(f r, rs @ [r])]"
  by (induction gs) auto

lemma fold_group_last:
  "\<forall>x \<in> set xs. f x = g \<Longrightarrow> g \<notin> fst ` set gs \<Longrightarrow> fold (group_add f) xs (gs @ [(g, rs)]) = gs @ [(g, rs @ xs)]"
  by (induction xs arbitrary: rs) (auto simp: group_add_last)

lemma fold_group_segment:
  "\<forall>x \<in> set xs. f x = g \<Longrightarrow> g \<notin> fst ` set gs \<Longrightarrow>
   fold (group_add f) xs gs = gs @ (if xs = [] then [] else [(g, xs)])"
  by (cases xs) (auto simp: group_add_new fold_group_last)

lemma fold_group_segments:
  "distinct (map fst segs) \<Longrightarrow> fst ` set gs \<inter> fst ` set segs = {} \<Longrightarrow> \<forall>(g, ys) \<in> set segs. \<forall>y \<in> set ys. f y = g \<Longrightarrow>
   fold (group_add f) (concat (map snd segs)) gs = gs @ filter (\<lambda>(g, ys). ys \<noteq> []) segs"
proof (induction segs arbitrary: gs)
  case Nil
  then show ?case by simp
next
  case (Cons seg segs)
  obtain g ys where seg: "seg = (g, ys)" by (cases seg)
  have "fold (group_add f) (concat (map snd (seg # segs))) gs =
      fold (group_add f) (concat (map snd segs)) (gs @ (if ys = [] then [] else [(g, ys)]))"
    using Cons.prems seg fold_group_segment [of ys f g gs] by simp
  also have "\<dots> = (gs @ (if ys = [] then [] else [(g, ys)])) @ filter (\<lambda>(g, ys). ys \<noteq> []) segs"
    using Cons.prems seg by (intro Cons.IH) auto
  finally show ?case using seg by simp
qed

lemma group_by_segments:
  "distinct (map fst segs) \<Longrightarrow> \<forall>(g, ys) \<in> set segs. \<forall>y \<in> set ys. f y = g \<Longrightarrow>
   group_by f (concat (map snd segs)) = filter (\<lambda>(g, ys). ys \<noteq> []) segs"
  using fold_group_segments [of segs "[]" f] by (simp add: group_by_def)

lemma concat_nonempty_segments: "concat (map snd (filter (\<lambda>(g, ys). ys \<noteq> []) segs)) = concat (map snd segs)"
  by (induction segs) auto

lemma sr_group_enumerate: "\<forall>r \<in> set rs. sr_group r = g \<Longrightarrow> y \<in> set (enumerate n rs) \<Longrightarrow> (case y of (idx, r) \<Rightarrow> sr_group r) = g"
  by (cases y) (auto simp: in_set_enumerate_eq)

text \<open>The results in their five segments.\<close>

definition segments :: "(string \<Rightarrow> string) \<Rightarrow> palette \<Rightarrow> search_result list \<times> search_result list \<times> search_result list \<times> search_result list \<times> search_result list" where
  "segments t s =
     (map tunnel_entry (filter (tunnel_matches (pal_query s)) (pal_tunnels s)),
      map domain_entry (filter (domain_matches (pal_query s)) (pal_domains s)),
      map network_entry (filter (\<lambda>n. fuzzyMatch (pal_query s) (network_name n)) (pal_networks s)),
      map (settings_entry t) (filter (settings_matches t (pal_query s)) settingsRoutes),
      (if pal_query s \<noteq> '''' then map docs_entry (filter (\<lambda>(slug, to). fuzzyMatch (pal_query s) slug) docsLinks) else []))"

lemma segments_groups:
  assumes "segments t s = (a, b, c, d, e)"
  shows "\<forall>r \<in> set a. sr_group r = ''tunnels''" "\<forall>r \<in> set b. sr_group r = ''domains''" "\<forall>r \<in> set c. sr_group r = ''networks''"
    "\<forall>r \<in> set d. sr_group r = ''settings''" "\<forall>r \<in> set e. sr_group r = ''docs''" "results t s = a @ b @ c @ d @ e"
  using assms
  by (auto simp: segments_def results_def Let_def tunnel_entry_def domain_entry_def network_entry_def settings_entry_def docs_entry_def)

lemma grouped_segments: "\<exists>segs. distinct (map fst segs) \<and> concat (map snd segs) = enumerate 0 (results t s) \<and>
    grouped t s = filter (\<lambda>(g, ys). ys \<noteq> []) segs"
proof -
  obtain a b c d e where s: "segments t s = (a, b, c, d, e)" by (cases "segments t s")
  note g = segments_groups [OF s]
  define segs where "segs = [(''tunnels'', enumerate 0 a), (''domains'', enumerate (length a) b),
    (''networks'', enumerate (length a + length b) c), (''settings'', enumerate (length a + length b + length c) d),
    (''docs'', enumerate (length a + length b + length c + length d) e)]"
  have c: "concat (map snd segs) = enumerate 0 (results t s)"
    by (simp add: segs_def g(6) enumerate_append_eq add.assoc)
  have d: "distinct (map fst segs)" by (simp add: segs_def)
  have "\<forall>(g, ys) \<in> set segs. \<forall>y \<in> set ys. (case y of (idx, r) \<Rightarrow> sr_group r) = g"
    using g(1-5) by (simp add: segs_def) (intro conjI ballI; erule (1) sr_group_enumerate)
  from group_by_segments [OF d this] c have "grouped t s = filter (\<lambda>(g, ys). ys \<noteq> []) segs" by (simp add: grouped_def)
  with c d show ?thesis by blast
qed

lemma grouped_flat: "concat (map snd (grouped t s)) = enumerate 0 (results t s)"
  using grouped_segments [of t s] concat_nonempty_segments by metis

lemma grouped_member:
  assumes "(g, rs) \<in> set (grouped t s)" and "(idx, r) \<in> set rs"
  shows "r \<in> set (results t s)"
proof -
  have "(idx, r) \<in> set (concat (map snd (grouped t s)))" using assms by force
  then have "(idx, r) \<in> set (enumerate 0 (results t s))" by (simp only: grouped_flat)
  then show ?thesis by (auto simp: in_set_enumerate_eq)
qed

section \<open>Invariant\<close>

fun palette_guard :: "(string \<Rightarrow> string) \<Rightarrow> palette \<Rightarrow> palette_ev \<Rightarrow> bool" where
  "palette_guard t s (Hover i) = (0 \<le> i)"
| "palette_guard t s (Choose to) = (\<exists>r \<in> set (results t s). sr_to r = to)"
| "palette_guard t s _ = True"

lemma entry_guarded: "e \<in> events (entry_row (idx, r)) \<Longrightarrow> r \<in> set (results t s) \<Longrightarrow> palette_guard t s e"
  by (auto simp: entry_row_def split: if_splits)

lemma palette_list_guarded: "e \<in> events (palette_list t s) \<Longrightarrow> palette_guard t s e"
  using grouped_member entry_guarded by (fastforce simp: palette_list_def split: if_splits)

lemma palette_offered: "e \<in> events (palette_view t s) \<Longrightarrow> palette_guard t s e"
  using palette_list_guarded [of e t s] by (auto simp: palette_view_def split: if_splits)

definition palette_inv :: "palette \<Rightarrow> unit list \<Rightarrow> bool" where
  "palette_inv s ks \<longleftrightarrow> - 1 \<le> selectedIndex s \<and> ks = []"

text \<open>Where the entries lead; the documentation entry's \<open>#\<close> is no path.\<close>

definition palette_target :: "string \<Rightarrow> bool" where
  "palette_target p \<longleftrightarrow> p \<in> {''/domains'', ''/settings'', ''/billing'', ''/notifications''} \<or>
     (\<exists>i. p = ''/tunnels/'' @ i \<or> p = ''/networks/'' @ i)"

fun palette_cmd_ok :: "cmd \<Rightarrow> bool" where
  "palette_cmd_ok (GoTo p) = palette_target p"
| "palette_cmd_ok _ = False"

lemma entry_targets:
  "palette_target (sr_to (tunnel_entry tn))" "palette_target (sr_to (domain_entry d))" "palette_target (sr_to (network_entry n))"
  "x \<in> set settingsRoutes \<Longrightarrow> palette_target (sr_to (settings_entry t x))" "y \<in> set docsLinks \<Longrightarrow> sr_to (docs_entry y) = ''#''"
proof -
  show "x \<in> set settingsRoutes \<Longrightarrow> palette_target (sr_to (settings_entry t x))"
    by (auto simp: settings_entry_def settingsRoutes_def palette_target_def)
qed (simp_all add: tunnel_entry_def domain_entry_def network_entry_def docs_entry_def docsLinks_def palette_target_def)

lemma result_targets: "r \<in> set (results t s) \<Longrightarrow> palette_target (sr_to r) \<or> sr_to r = ''#''"
  using entry_targets by (auto simp: results_def Let_def split: if_splits)

lemma entry_leads [simp]:
  "sr_to (tunnel_entry tn) = ''/tunnels/'' @ tunnel_id tn" "sr_to (domain_entry d) = ''/domains''"
  "sr_to (network_entry n) = ''/networks/'' @ network_id n"
  by (simp_all add: tunnel_entry_def domain_entry_def network_entry_def)

lemma settings_leads: "x \<in> set settingsRoutes \<Longrightarrow> sr_to (settings_entry t x) \<in> {''/settings'', ''/billing'', ''/notifications''}"
  by (auto simp: settings_entry_def settingsRoutes_def)

lemma results_from:
  assumes "r \<in> set (results t s)"
  obtains (tunnel) tn where "tn \<in> set (pal_tunnels s)" "r = tunnel_entry tn" | (domain) d where "r = domain_entry d"
    | (network) n where "n \<in> set (pal_networks s)" "r = network_entry n"
    | (setting) x where "x \<in> set settingsRoutes" "r = settings_entry t x" | (doc) y where "y \<in> set docsLinks" "r = docs_entry y"
  using assms that unfolding results_def Let_def set_append set_map set_filter by (auto simp del: split_paired_Ex split: if_splits)

lemma result_leads:
  assumes "r \<in> set (results t s)"
  shows "sr_to r \<in> {''/domains'', ''/settings'', ''/billing'', ''/notifications'', ''#''} \<or>
    (\<exists>tn \<in> set (pal_tunnels s). sr_to r = ''/tunnels/'' @ tunnel_id tn) \<or> (\<exists>n \<in> set (pal_networks s). sr_to r = ''/networks/'' @ network_id n)"
  using assms by (cases rule: results_from) (use settings_leads entry_targets(5) in \<open>force simp del: append.simps\<close>)+

lemma execute_simps [simp]:
  "snd (snd (execute to s)) = []" "selectedIndex (fst (execute to s)) = selectedIndex s"
  "set (fst (snd (execute to s))) = (if starts_with to ''/'' then {GoTo to} else {})"
  by (simp_all add: execute_def)

lemma execute_cmds: "r \<in> set (results t s) \<Longrightarrow> c \<in> set (fst (snd (execute (sr_to r) s'))) \<Longrightarrow> palette_cmd_ok c"
  using result_targets by (fastforce split: if_splits)

lemma execute_result:
  assumes "r \<in> set (results t s)"
  shows "execute (sr_to r) s' = (s'\<lparr>pal_open := False\<rparr>, (if sr_to r = ''#'' then [] else [GoTo (sr_to r)]), [])"
proof -
  have "starts_with (sr_to r) ''/'' \<longleftrightarrow> sr_to r \<noteq> ''#''"
    using result_targets [OF assms] by (auto simp: palette_target_def)
  then show ?thesis by (simp add: execute_def)
qed

lemma palette_user_inv:
  assumes "palette_inv s ks" and "palette_guard t s e"
  shows "palette_inv (fst (palette_user t e s)) (ks @ snd (snd (palette_user t e s)))"
  using assms by (cases e) (auto simp: palette_inv_def opened_palette_def split: option.split)

lemma palette_user_cmds:
  assumes "palette_guard t s e" and "c \<in> set (fst (snd (palette_user t e s)))"
  shows "palette_cmd_ok c"
proof (cases e)
  case EnterKey
  then obtain r where "nth_opt (results t s) (selectedIndex s) = Some r" "c \<in> set (fst (snd (execute (sr_to r) s)))"
    using assms(2) by (auto split: option.splits)
  then show ?thesis using execute_cmds nth_opt_in_set by metis
next
  case (Choose to)
  then show ?thesis using assms execute_cmds by auto
qed (use assms in \<open>auto split: if_splits\<close>)

lemma palette_leads:
  assumes "e \<in> events (palette_view t s)" and "c \<in> set (fst (snd (palette_user t e s)))"
  shows "\<exists>r \<in> set (results t s). c = GoTo (sr_to r) \<and> sr_to r \<noteq> ''#''"
proof (cases e)
  case EnterKey
  with assms(2) obtain r where "nth_opt (results t s) (selectedIndex s) = Some r" "c \<in> set (fst (snd (execute (sr_to r) s)))"
    by (auto split: option.splits)
  then have r: "r \<in> set (results t s)" "c \<in> set (fst (snd (execute (sr_to r) s)))" using nth_opt_in_set by metis+
  then have "c = GoTo (sr_to r) \<and> sr_to r \<noteq> ''#''" by (simp add: execute_result split: if_splits)
  with r(1) show ?thesis by blast
next
  case (Choose to)
  with assms(1) obtain r where r: "r \<in> set (results t s)" "sr_to r = to" using palette_offered by fastforce
  with assms(2) Choose have "c \<in> set (fst (snd (execute (sr_to r) s)))" by simp
  then have "c = GoTo (sr_to r) \<and> sr_to r \<noteq> ''#''" using r(1) by (simp add: execute_result split: if_splits)
  with r(1) show ?thesis by blast
qed (use assms in \<open>auto split: if_splits\<close>)

interpretation palette: page_commands "CommandPaletteOverlay t" palette_inv palette_cmd_ok for t
proof unfold_locales
  show "pg_mount (CommandPaletteOverlay t) = (s, cs, ks) \<Longrightarrow> palette_inv s ks" for s cs ks
    by (auto simp: palette_inv_def palette_init_def)
  show "palette_inv s ks \<Longrightarrow> e \<in> events (pg_view (CommandPaletteOverlay t) s) \<Longrightarrow>
      pg_user (CommandPaletteOverlay t) e s = (s', cs, new) \<Longrightarrow> palette_inv s' (ks @ new)" for s ks e s' cs new
    using palette_user_inv [of s ks t e] palette_offered [of e t s] by simp
  show "palette_inv s (ks1 @ k # ks2) \<Longrightarrow> pg_resume (CommandPaletteOverlay t) k r s = (s', cs, new) \<Longrightarrow> palette_inv s' (ks1 @ ks2 @ new)"
    for s ks1 k ks2 r s' cs new by (simp add: palette_inv_def)
  show "palette_inv s ks \<Longrightarrow> pg_env (CommandPaletteOverlay t) s s' \<Longrightarrow> palette_inv s' ks" for s ks s'
    by (auto simp: palette_env_def palette_inv_def)
  show "pg_mount (CommandPaletteOverlay t) = (s, cs, ks) \<Longrightarrow> c \<in> set cs \<Longrightarrow> palette_cmd_ok c" for s cs ks c by simp
  show "palette_inv s ks \<Longrightarrow> e \<in> events (pg_view (CommandPaletteOverlay t) s) \<Longrightarrow>
      pg_user (CommandPaletteOverlay t) e s = (s', cs, new) \<Longrightarrow> c \<in> set cs \<Longrightarrow> palette_cmd_ok c" for s ks e s' cs new c
    using palette_user_cmds [of t s e c] palette_offered [of e t s] by simp
  show "palette_inv s (ks1 @ k # ks2) \<Longrightarrow> pg_resume (CommandPaletteOverlay t) k r s = (s', cs, new) \<Longrightarrow> c \<in> set cs \<Longrightarrow> palette_cmd_ok c"
    for s ks1 k ks2 r s' cs new c by simp
qed

section \<open>Properties\<close>

text \<open>The order on the screen is the order of the arrow keys: the groups, one below the other, show the
  flat list of results with its indices in order, every group has an entry and none appears twice; among the
  results are exactly the tunnels whose name or domain has the query as a subsequence, case ignored.\<close>

theorem palette_order:
  "concat (map snd (grouped t s)) = enumerate 0 (results t s) \<and> distinct (map fst (grouped t s)) \<and>
   [] \<notin> snd ` set (grouped t s) \<and>
   filter (\<lambda>r. sr_group r = ''tunnels'') (results t s) =
     map tunnel_entry (filter (\<lambda>tn. subseq (to_lower (pal_query s)) (to_lower (tunnel_name tn)) \<or>
       subseq (to_lower (pal_query s)) (to_lower (case tunnel_domain tn of None \<Rightarrow> '''' | Some d \<Rightarrow> d))) (pal_tunnels s))"
proof -
  obtain segs where segs: "distinct (map fst segs)" "grouped t s = filter (\<lambda>(g, ys). ys \<noteq> []) segs"
    using grouped_segments by blast
  then have "distinct (map fst (grouped t s))" "[] \<notin> snd ` set (grouped t s)" by (auto simp: distinct_map_filter)
  moreover have "filter (\<lambda>r. sr_group r = ''tunnels'') (results t s) =
      map tunnel_entry (filter (tunnel_matches (pal_query s)) (pal_tunnels s))"
  proof -
    obtain a b c d e where sg: "segments t s = (a, b, c, d, e)" by (cases "segments t s")
    note g = segments_groups [OF sg]
    have "filter (\<lambda>r. sr_group r = ''tunnels'') a = a" using g(1) by (simp add: filter_id_conv)
    moreover have "filter (\<lambda>r. sr_group r = ''tunnels'') (b @ c @ d @ e) = []"
      using g(2-5) by (auto simp: filter_empty_conv)
    ultimately have "filter (\<lambda>r. sr_group r = ''tunnels'') (results t s) = a" by (simp add: g(6))
    then show ?thesis using sg by (simp add: segments_def)
  qed
  moreover have "tunnel_matches (pal_query s) = (\<lambda>tn. subseq (to_lower (pal_query s)) (to_lower (tunnel_name tn)) \<or>
       subseq (to_lower (pal_query s)) (to_lower (case tunnel_domain tn of None \<Rightarrow> '''' | Some d \<Rightarrow> d)))"
    by (intro ext) (simp add: tunnel_matches_def fuzzyMatch_as_subseq)
  ultimately show ?thesis by (simp add: grouped_flat)
qed

text \<open>The selection of the palette never falls below the position before the first entry; the Enter key
  runs the selected entry where there is one and does nothing otherwise; all the palette ever does outside itself
  is to navigate, and only to pages of the dashboard.\<close>

theorem palette_keys:
  assumes "page_reach (CommandPaletteOverlay t) (s, ks, out)"
  shows "- 1 \<le> selectedIndex s \<and> (\<forall>c \<in> set out. \<exists>p. c = GoTo p \<and> palette_target p) \<and>
    palette_user t EnterKey s =
      (if 0 \<le> selectedIndex s \<and> selectedIndex s < int (length (results t s))
       then let to = sr_to (results t s ! nat (selectedIndex s)) in
         (s\<lparr>pal_open := False\<rparr>, (if to = ''#'' then [] else [GoTo to]), [])
       else (s, [], []))"
proof -
  have "palette_cmd_ok c" if "c \<in> set out" for c using palette.commands [OF assms that] .
  then have "\<exists>p. c = GoTo p \<and> palette_target p" if "c \<in> set out" for c using that by (cases c) fastforce+
  moreover have "palette_user t EnterKey s =
      (if 0 \<le> selectedIndex s \<and> selectedIndex s < int (length (results t s))
       then let to = sr_to (results t s ! nat (selectedIndex s)) in
         (s\<lparr>pal_open := False\<rparr>, (if to = ''#'' then [] else [GoTo to]), [])
       else (s, [], []))"
  proof (cases "0 \<le> selectedIndex s \<and> selectedIndex s < int (length (results t s))")
    case True
    let ?r = "results t s ! nat (selectedIndex s)"
    have "?r \<in> set (results t s)" "nth_opt (results t s) (selectedIndex s) = Some ?r"
      using True by (auto simp: nth_opt_def nat_less_iff)
    then show ?thesis
      by (simp only: palette_user.simps option.case execute_result if_P [OF True] Let_def)
  next
    case False
    then have "nth_opt (results t s) (selectedIndex s) = None" by (auto simp: nth_opt_def)
    then show ?thesis by (simp only: palette_user.simps option.case if_not_P [OF False])
  qed
  ultimately show ?thesis
    using palette.reachable [OF assms] by (simp add: palette_inv_def)
qed

definition one_tunnel :: tunnel where
  "one_tunnel = \<lparr>tunnel_id = ''a'', tunnel_name = ''api'', tunnel_protocol = ''http'', tunnel_local_port = 8080,
     tunnel_remote_port = 443, tunnel_domain = None, tunnel_status = ''active'', tunnel_tags = None,
     tunnel_bytes_in_total = 0, tunnel_bytes_out_total = 0\<rparr>"

definition opened_once :: palette where
  "opened_once = \<lparr>pal_open = True, pal_query = '''', selectedIndex = 0, pal_tunnels = [one_tunnel], pal_domains = [], pal_networks = []\<rparr>"

lemma opened_once_results: "\<exists>rs. results (\<lambda>k. k) opened_once = tunnel_entry one_tunnel # rs"
  by (simp add: results_def opened_once_def tunnel_matches_def fuzzyMatch_def Let_def)

lemma opened_once_reach: "page_reach (CommandPaletteOverlay (\<lambda>k. k)) (opened_once, [], [])"
proof -
  have "ToggleKey \<in> events (palette_view t s)" for t s by (simp add: palette_view_def)
  then have "page_play (CommandPaletteOverlay (\<lambda>k. k)) [Change (\<lambda>s. s\<lparr>pal_tunnels := [one_tunnel]\<rparr>), Do ToggleKey]
      (palette_init, [], []) = Some (opened_once, [], [])"
    by (auto simp: palette_env_def palette_init_def opened_palette_def opened_once_def)
  then show ?thesis by (rule page_play_mount [OF CommandPalette_sel(1)])
qed

lemma enter_reach: "page_reach (CommandPaletteOverlay (\<lambda>k. k)) (opened_once\<lparr>pal_open := False\<rparr>, [], [GoTo ''/tunnels/a''])"
proof -
  have "EnterKey \<in> events (palette_view (\<lambda>k. k) opened_once)" by (simp add: palette_view_def opened_once_def)
  moreover have "palette_user (\<lambda>k. k) EnterKey opened_once = (opened_once\<lparr>pal_open := False\<rparr>, [GoTo ''/tunnels/a''], [])"
    using opened_once_results by (auto simp: nth_opt_def execute_def opened_once_def tunnel_entry_def one_tunnel_def)
  ultimately have "page_play (CommandPaletteOverlay (\<lambda>k. k)) [Do EnterKey] (opened_once, [], []) =
      Some (opened_once\<lparr>pal_open := False\<rparr>, [], [GoTo ''/tunnels/a''])" by simp
  then show ?thesis by (rule page_play_reach [OF opened_once_reach])
qed

theorem palette_keys_witness:
  "palette_user (\<lambda>k. k) EnterKey opened_once = (opened_once\<lparr>pal_open := False\<rparr>, [GoTo ''/tunnels/a''], [])"
proof -
  obtain rs where r: "results (\<lambda>k. k) opened_once = tunnel_entry one_tunnel # rs" using opened_once_results by blast
  have "selectedIndex opened_once = 0" by (simp add: opened_once_def)
  with palette_keys [OF opened_once_reach] r show ?thesis by (simp add: tunnel_entry_def one_tunnel_def)
qed

end
