(* ===== verification/Spec2Isabelle.thy ===== *)
theory Spec2Isabelle
  imports PageTexts JsonText CertificatesPage SlaPage RevenuePage Charts DirectoryPages DownloadsPage ApiDocsPage Theming LayoutChrome
    ApiClient Jwt AuthStore Routing WebSocketClient Format Ui Hooks TunnelsPage AuthPages OnboardingPage
    CommandPalette Notifications SettingsPage DomainsPage NetworkPages TunnelDetailPage InspectPage WebhooksPage
    BillingPage DashboardPage AccessPages RolesPage FeatureFlagsPage DiscountsPage
    UrlCoding AuditPages InvoicesPage RetentionPage AnnouncementsPage PricingPage AbusePage CustomerPages
begin

text \<open>
  OmniTun is a tunnelling service: a Go server, relays and a command line client, and two browser front ends
  in TypeScript, the dashboard (\<open>web/src\<close>) and the admin console (\<open>admin/src\<close>). This development verifies the
  front ends. It models their core - the API client with its token refresh, the session, the routes, the
  live connection - and all of their pages, as they are written.

  \<^bold>\<open>How the parts interact.\<close> A page reads its data through hooks, whose requests go through the API client
  of the front end; the client keeps the access token in memory and in \<open>localStorage\<close>, refreshes it after a 401 and
  repeats the request. The auth store holds what the routes read to decide between a page and the login. The live
  connection is independent of the client: it takes the stored token and reconnects on its own.

  \<^bold>\<open>Theories, in the order they build on each other.\<close>

  \<^item> \<open>Prelude\<close>: JavaScript values, the string functions the code calls, thrown values, list lemmas.

  \<^item> \<open>ApiClient\<close> (\<open>lib/api.ts\<close> of both front ends): the fields of the class and the storage as a record, one
    definition per method; \<open>request\<close> is the method run alone, \<open>cstep\<close> the same code cut at its \<open>await\<close>s, with any
    number of requests interleaved. Shown: what a request sends, that the front ends do not touch each other's
    tokens, the outcome of a failed refresh, that one refresh at a time is in flight, that no request hangs, and that
    \<open>request\<close> is a schedule of the steps.

  \<^item> \<open>Jwt\<close> (\<open>lib/auth.ts\<close>): token storage and the start-up test, down to \<open>atob\<close>; \<open>AuthStore\<close>
    (\<open>store/auth.ts\<close>, \<open>hooks/useAuth.ts\<close>): login, registration, sign-out and the session check over a locale of
    what they need from the client, interpreted on both clients.

  \<^item> \<open>Routing\<close> (\<open>App.tsx\<close>): the route tables, the guard, redirects, the navigation's targets. The matching of
    paths is the router library's and an argument; \<open>route_matches\<close> is its documented rule - segment by segment, letters' case and
    slashes at the end ignored -, which the theorems on links use. \<open>Theming\<close> (\<open>components/ThemeToggle.tsx\<close>, the script of \<open>index.html\<close>): the theme as
    a state machine over clicks, page loads and the system's preference. \<open>LayoutChrome\<close> (\<open>components/Layout.tsx\<close>,
    \<open>components/AdminLayout.tsx\<close>, \<open>lib/prefetch.ts\<close>): the frames around the pages, and that one entry is marked.

  \<^item> \<open>UrlCoding\<close>: percent escapes and the queries of \<open>URLSearchParams\<close>, with the readers at the other end and the round
    trips; \<open>Decimals\<close>: \<open>parseFloat\<close>, and that it reads back what \<open>toFixed\<close> printed; \<open>JsonText\<close>: what \<open>JSON.stringify\<close> prints with
    indentation, a reader for it, and that nothing printed is ambiguous.

  \<^item> \<open>WebSocketClient\<close> (\<open>lib/websocket.ts\<close>, \<open>hooks/useWebSocket.ts\<close>): the connection as a machine over the
    browser's events, the start of a closing handshake by the server among them, with backoff, routing of messages and closing;
    the token's way through the address.

  \<^item> \<open>Format\<close>: the pure helpers of the pages (byte counts, hash colours, slugs, search, password strength,
    addresses), each against a reference definition.

  \<^item> \<open>Ui\<close> (\<open>components/ui\<close>): views as trees, the events a view offers, handlers with continuations, reachable
    states of a page, and the locales \<open>page_invariant\<close>, \<open>page_commands\<close> and \<open>page_guarded\<close>, of which every page interprets
    one; \<open>single_flight\<close>, what they prove of requests; \<open>page_reading\<close>, the contract of a page that only reads; the toasts.

  \<^item> \<open>Hooks\<close> (\<open>lib/types.ts\<close>, \<open>hooks/useTunnels.ts\<close>, \<open>hooks/useNetworks.ts\<close>): the data, the
    list responses and the requests and invalidations of the mutations.

  \<^item> \<open>TunnelsPage\<close>, \<open>AuthPages\<close>, \<open>OnboardingPage\<close>, \<open>CommandPalette\<close>, \<open>Notifications\<close>: a record per page state, a
    definition per handler - cut in two at its \<open>await\<close>, the second half named \<open>_done\<close> or \<open>_settled\<close> -, the view as the JSX
    has it, the invariant over all reachable states, and what the page can send. The sign-in pages run the two halves of the
    store's action, \<open>sign_in_begin\<close> and \<open>sign_in_end\<close> of \<open>AuthStore\<close>, on the two fields of the store that they show.

  \<^item> \<open>SettingsPage\<close> (one page machine per tab), \<open>DomainsPage\<close>, \<open>NetworkPages\<close> (the list and one network),
    \<open>TunnelDetailPage\<close>, \<open>InspectPage\<close>, \<open>WebhooksPage\<close>, \<open>BillingPage\<close>, \<open>DashboardPage\<close>: the same scheme over
    \<open>page_guarded\<close>, with a guard per event that the view enforces. Shown: one request of a kind in flight, what may be
    sent, and the states in which the code does not do what it means to - late answers, stale queries, sockets that
    outlive their page. \<open>InspectPage\<close> has the socket of its effect as a machine of its own.

  \<^item> \<open>AccessPages\<close> (whitelist and blacklist), \<open>RolesPage\<close>, \<open>FeatureFlagsPage\<close>, \<open>DiscountsPage\<close>, \<open>AuditPages\<close> (log and reports),
    \<open>InvoicesPage\<close>, \<open>RetentionPage\<close>, \<open>AnnouncementsPage\<close>, \<open>PricingPage\<close>, \<open>AbusePage\<close>, \<open>CustomerPages\<close> (list and one customer): pages
    of the admin console, in the same scheme. Shown besides: the language of the address test, the permissions a click on a
    category leaves, that a change reaches the flag it names, that settled invoices and closed reports are left alone, what the
    queries read back as, when rendering ends, and the late answers that close, empty or fill what they do not belong to.

  \<^item> \<open>CertificatesPage\<close>, \<open>SlaPage\<close>, \<open>RevenuePage\<close>, \<open>DirectoryPages\<close> (organisations, users, relay nodes, their details, the
    first page): the rest of the admin console, and \<open>DownloadsPage\<close>, \<open>ApiDocsPage\<close>, \<open>Charts\<close> of the dashboard. Shown: what the change
    badge of an uptime says, that amounts read back, that every row leads to a page, the grouping of the API reference against a reference
    definition, when the reference goes down while rendering, and that the data of its samples read back.

  \<^item> \<open>Translations\<close> (\<open>i18n/locales\<close>): the keys of the resource files with the names their texts interpolate; \<open>PageTexts\<close>: that
    what the admin console and the newer half of the dashboard show is there, in every state, and that the core of the dashboard
    asks for keys no file has. A page with texts in its state interprets \<open>translated_page\<close>.

  This theory has the properties that need several of them.

  \<^bold>\<open>Bounds and fuel.\<close> Recursions are structural. Fuel is the number of redirects of \<open>settle_route\<close>,
  which is shown to be at most two, and the number of passes of \<open>render_retention\<close>, React's limit of twenty-five, of which one
  is shown to be enough where any number is; the reader of \<open>JsonText\<close> gets twice the length of its text, which is shown to be enough for every
  text that is printed. Counts and times are integers; the hash of the tag colours keeps its 32 bits.
  Strings have code units below 256, and the letters with two cases are A to Z; dashes beyond ASCII in texts are written with a hyphen.

  \<^bold>\<open>Arguments of the model.\<close> The network is a function from the history and a request to a result, the JSON parser,
  the translation function, the router's matching and the clock are arguments; theorems hold for all of them, or name
  what they need.

  \<^bold>\<open>Not modelled.\<close> The Go services, the SDKs, deployment files; of the front ends the query cache of the library
  (its data change freely in a page's environment step), styling, icons, placeholder texts and the wording of the texts, the drawing of charts, and the set-up of
  the libraries at the start (\<open>main.tsx\<close>, \<open>i18n/index.ts\<close>). Values the server sends have the types the code declares, but where a
  theory says otherwise. What another tab writes to \<open>localStorage\<close> is not modelled; among interleaved requests the sign-in and
  sign-out steps set the access token, and the stored refresh token changes with the refreshes only.
\<close>

section \<open>Properties that span components\<close>

lemma web_login_signs_in: "web_login net email password code s = (None, s') \<Longrightarrow> AuthStore.isLoggedIn s'"
proof -
  assume "web_login net email password code s = (None, s')"
  then obtain b where "sign_in (web_apiRequest net) web_cfg ''/v1/auth/login'' b s = (None, s')"
    by (auto simp: web_login_def split: prod.splits)
  then show ?thesis using web_api.sign_in_ok by metis
qed

lemma web_logout_signs_out [simp]: "\<not> AuthStore.isLoggedIn (web_logout s)"
  by (simp add: web_logout_def logout_def)

lemma web_root_route: "find (\<lambda>r. rt_path r = ''/'') web_routes = Some (mk_route True ''/'' ''Dashboard'')"
  by (simp add: web_routes_def mk_route_def)

lemma guarded_after_logout:
  assumes "web_App chooser s path = Page p"
  shows "p \<in> {''Login'', ''Register'', ''ForgotPassword'', ''ResetPassword''} \<or> web_App chooser (web_logout t) path = Navigate ''/login''"
proof -
  from assms obtain pat r where pat: "chooser (map rt_path web_routes) path = Some pat"
    and r: "find (\<lambda>r. rt_path r = pat) web_routes = Some r" and p: "p = rt_page r"
    by (auto simp: web_App_def render_route_def ProtectedRoute_def split: option.splits if_splits)
  show ?thesis
  proof (cases "rt_guarded r")
    case True
    with pat r show ?thesis by (simp add: web_App_def render_route_def ProtectedRoute_def)
  next
    case False
    moreover have "r \<in> set web_routes" using r by (auto simp: find_Some_iff)
    ultimately show ?thesis using public_web_routes p by blast
  qed
qed

text \<open>C9: the session decides what is shown. With a router that maps \<open>/\<close> to the entry of that name, a visitor
  whose login succeeded gets the dashboard at \<open>/\<close>, where the login page navigates; after signing out that path
  and the path of every other guarded page lead to the login page.\<close>

theorem session_opens_dashboard:
  assumes "chooser (map rt_path web_routes) ''/'' = Some ''/''"
    and "web_login net email password code s = (None, s')"
  shows "web_App chooser s' ''/'' = Page ''Dashboard'' \<and> web_App chooser (web_logout s') ''/'' = Navigate ''/login'' \<and>
    (\<forall>path p. web_App chooser s' path = Page p \<longrightarrow>
       p \<in> {''Login'', ''Register'', ''ForgotPassword'', ''ResetPassword''} \<or> web_App chooser (web_logout s') path = Navigate ''/login'')"
  using assms(1) web_login_signs_in [OF assms(2)] guarded_after_logout [of chooser s' _ _ s']
  by (simp add: web_App_def render_route_def ProtectedRoute_def web_root_route mk_route_def)

theorem session_opens_dashboard_witness:
  "\<exists>s'. web_login accepting_net ''a@b.c'' ''secret'' None (web_logout (new_store (\<lambda>_. True) signed_in_client)) = (None, s') \<and>
     web_App exact_chooser s' ''/'' = Page ''Dashboard''"
proof -
  obtain s' where r: "web_login accepting_net ''a@b.c'' ''secret'' None (web_logout (new_store (\<lambda>_. True) signed_in_client)) = (None, s')"
    by (simp add: web_login_def sign_in_def sign_in_end_def sign_in_begin_def web_apiRequest_def request_def Let_def fetch_def accepting_net_def
        needs_refresh_def finish_def res_ok_def nullish_def)
  have "exact_chooser (map rt_path web_routes) ''/'' = Some ''/''"
    by (simp add: exact_chooser_def web_routes_def mk_route_def)
  from session_opens_dashboard [where chooser = exact_chooser, OF this r] r show ?thesis by blast
qed

text \<open>The paths that lead to a page: those the router matches with a guarded route.\<close>

definition routed :: "string \<Rightarrow> bool" where
  "routed p \<longleftrightarrow> (\<exists>r \<in> set web_routes. rt_guarded r \<and> route_matches (rt_path r) p)"

lemma routed_static: "p \<in> {''/'', ''/tunnels'', ''/domains'', ''/networks'', ''/settings'', ''/billing'', ''/notifications'', ''/docs/api'', ''/downloads''} \<Longrightarrow> routed p"
proof -
  have "list_all routed [''/'', ''/tunnels'', ''/domains'', ''/networks'', ''/settings'', ''/billing'', ''/notifications'', ''/docs/api'', ''/downloads'']"
    by code_simp
  then show "p \<in> {''/'', ''/tunnels'', ''/domains'', ''/networks'', ''/settings'', ''/billing'', ''/notifications'', ''/docs/api'', ''/downloads''} \<Longrightarrow> routed p"
    by auto
qed

lemma routed_detail: "id_ok i \<Longrightarrow> routed (''/tunnels/'' @ i)" "id_ok i \<Longrightarrow> routed (''/networks/'' @ i)"
proof -
  have "mk_route True ''/tunnels/:id'' ''TunnelDetail'' \<in> set web_routes" "mk_route True ''/networks/:id'' ''NetworkDetail'' \<in> set web_routes"
    by (simp_all add: web_routes_def)
  then show "id_ok i \<Longrightarrow> routed (''/tunnels/'' @ i)" "id_ok i \<Longrightarrow> routed (''/networks/'' @ i)"
    unfolding routed_def using detail_matches [of i "''tunnels''"] detail_matches [of i "''networks''"] by (force simp: mk_route_def)+
qed

text \<open>The link from a tunnel to its inspector is none of them: no route has three segments.\<close>

lemma inspector_unrouted: "\<not> routed (''/tunnels/'' @ ''a'' @ ''/inspect'')"
  by code_simp

text \<open>C29: the ways through the dashboard end at pages: every entry of the navigation, every page the command
  palette or a notification opens and every link of the tunnel list, the network list and the start page is a path
  that the router matches with a route behind the guard, so that none falls through to the redirect for unknown paths. The ids
  of tunnels and networks are made of letters, digits, dashes and underscores.\<close>

theorem navigation_is_routed:
  assumes "list_all (\<lambda>tn. id_ok (tunnel_id tn)) (pal_tunnels s @ tunnels w)"
    and "list_all (\<lambda>n. id_ok (network_id n)) (pal_networks s @ data_or_empty (q_data (networksQuery v)))"
    and "page_reach (NotificationsPage now) (s', ks', out)"
  shows "(\<forall>p \<in> set web_navItems. routed p) \<and>
    (\<forall>e \<in> events (palette_view t s). \<forall>c \<in> set (fst (snd (palette_user t e s))). \<exists>p. c = GoTo p \<and> routed p) \<and>
    (\<forall>c \<in> set out. \<exists>p. c = GoTo p \<and> routed p) \<and>
    (\<forall>p \<in> set (links (Tunnels_view w)) \<union> set (links (Networks_view v)) \<union> set (links (Dashboard_view cfg d)). routed p)"
proof -
  have "\<forall>p \<in> set web_navItems. routed p" by (simp add: web_navItems_def routed_static)
  moreover have "\<exists>p. c = GoTo p \<and> routed p" if "e \<in> events (palette_view t s)" "c \<in> set (fst (snd (palette_user t e s)))" for e c
  proof -
    from palette_leads [OF that] obtain r where r: "r \<in> set (results t s)" "c = GoTo (sr_to r)" "sr_to r \<noteq> ''#''" by blast
    have "routed (sr_to r)" using result_leads [OF r(1)] r(3) assms(1,2) routed_static routed_detail by (auto simp: list_all_iff)
    with r(2) show ?thesis by blast
  qed
  moreover have "\<exists>p. c = GoTo p \<and> routed p" if "c \<in> set out" for c
    using notifications.commands [OF assms(3) that] routed_static by (cases c) auto
  moreover have "routed p" if "p \<in> set (links (Tunnels_view w)) \<union> set (links (Networks_view v)) \<union> set (links (Dashboard_view cfg d))" for p
  proof -
    from that consider (tunnel) x where "x \<in> set (tunnels w)" "p = ''/tunnels/'' @ tunnel_id x"
      | (network) n where "n \<in> set (data_or_empty (q_data (networksQuery v)))" "p = ''/networks/'' @ network_id n" | (list) "p = ''/tunnels''"
      using tunnels_links [of p w] networks_links [of p v] dashboard_links [of p cfg d] by blast
    then show ?thesis
    proof cases
      case tunnel
      with assms(1) have "id_ok (tunnel_id x)" by (simp add: list_all_iff)
      with tunnel(2) show ?thesis using routed_detail(1) by simp
    next
      case network
      with assms(2) have "id_ok (network_id n)" by (simp add: list_all_iff)
      with network(2) show ?thesis using routed_detail(2) by simp
    qed (simp add: routed_static)
  qed
  ultimately show ?thesis by blast
qed

theorem navigation_is_routed_witness:
  "EnterKey \<in> events (palette_view id opened_once) \<and> fst (snd (palette_user id EnterKey opened_once)) = [GoTo ''/tunnels/a''] \<and> routed ''/tunnels/a''"
proof -
  have reach: "page_reach (NotificationsPage 0) (notif_init 0, [], [])" by (rule reach_mount) simp
  have ids: "list_all (\<lambda>tn. id_ok (tunnel_id tn)) (pal_tunnels opened_once @ tunnels tunnels_init)"
    "list_all (\<lambda>n. id_ok (network_id n)) (pal_networks opened_once @ data_or_empty (q_data (networksQuery networks_init)))"
    by (simp_all add: opened_once_def one_tunnel_def tunnels_init_def networks_init_def q_pending_def id_ok_def is_lower_def)
  have e: "EnterKey \<in> events (palette_view id opened_once)" by (simp add: palette_view_def opened_once_def)
  moreover have c: "fst (snd (palette_user id EnterKey opened_once)) = [GoTo ''/tunnels/a'']"
    using opened_once_results by (auto simp: nth_opt_def execute_def opened_once_def tunnel_entry_def one_tunnel_def id_def)
  moreover from navigation_is_routed [OF ids reach, of id] e c have "routed ''/tunnels/a''" by fastforce
  ultimately show ?thesis by blast
qed

text \<open>C8: one request of a kind at a time. Whatever the user does and in whatever order answers arrive, of each of the listed
  kinds of request at most one is in flight on its page, exactly while the mutation or the flag for it says so. Of the roles page this
  is saving a role; deleting one has no flag and is not in the list.\<close>

theorem mutations_single_flight:
  "single_flight (Domains fmt)
     [(\<lambda>s. isPending (addDomain s), \<lambda>k. k = KAddDomain), (\<lambda>s. isPending (removeDomain s), \<lambda>k. k = KRemoveDomain),
      (\<lambda>s. isPending (verifyDomain s), \<lambda>k. k = KVerifyDomain)] \<and>
   single_flight Networks
     [(\<lambda>s. isPending (m_createNet s), \<lambda>k. k = KCreateNet), (\<lambda>s. isPending (m_joinNet s), \<lambda>k. k = KJoinNet),
      (\<lambda>s. isPending (m_deleteNet s), \<lambda>k. k = KDeleteNet)] \<and>
   single_flight (NetworkDetail fmt distance nid)
     [(\<lambda>s. isPending (m_invite s), \<lambda>k. k = KInvite), (\<lambda>s. isPending (m_removeNode s), \<lambda>k. k = KRemoveNode)] \<and>
   single_flight (TunnelDetail cfg tid)
     [(\<lambda>s. isPending (td_start s), \<lambda>k. k = KTdStart), (\<lambda>s. isPending (td_stop s), \<lambda>k. k = KTdStop),
      (\<lambda>s. isPending (td_restart s), \<lambda>k. k = KTdRestart), (\<lambda>s. isPending (td_update s), \<lambda>k. k = KTdUpdate)] \<and>
   single_flight (Webhooks fmt rng)
     [(\<lambda>s. isPending (createMutation s), \<lambda>k. k = KCreateHook), (\<lambda>s. isPending (updateMutation s), \<lambda>k. k = KUpdateHook),
      (\<lambda>s. isPending (deleteMutation s), \<lambda>k. k = KDeleteHook), (\<lambda>s. isPending (testMutation s), \<lambda>k. k = KTestHook)] \<and>
   single_flight (IPWhitelist fmt)
     [(\<lambda>s. isPending (ip_addMutation s), \<lambda>k. k = KAddCIDR), (\<lambda>s. isPending (ip_deleteMutation s), \<lambda>k. k = KDeleteCIDR)] \<and>
   single_flight (Blacklist fmt)
     [(\<lambda>s. isPending (bl_addMutation s), \<lambda>k. k = KAddEntry), (\<lambda>s. isPending (bl_removeMutation s), \<lambda>k. k = KRemoveEntry)] \<and>
   single_flight (Roles rcfg) [(roleSaving, \<lambda>k. k = KSaveRole)] \<and>
   single_flight (DataRetention dcfg)
     [(\<lambda>s. isPending (rt_updateMutation s), \<lambda>k. k = KUpdateRetention), (\<lambda>s. isPending (cleanupMutation s), \<lambda>k. k = KCleanup)] \<and>
   single_flight (Certificates cfmt)
     [(\<lambda>s. isPending (renewMutation s), \<lambda>k. k = KRenew), (\<lambda>s. isPending (cert_revokeMutation s), \<lambda>k. k = KRevokeCert)]"
  by (intro conjI domains_single_flight networks_single_flight network_detail_single_flight tunnel_detail_single_flight
      webhooks_single_flight whitelist_single_flight blacklist_single_flight roles_single_flight
      retention_single_flight certificates_single_flight)

lemma join_unrouted: "pat \<in> set (map rt_path web_routes) \<Longrightarrow> \<not> route_matches pat ''/join''"
proof -
  have "list_all (\<lambda>r. \<not> route_matches (rt_path r) ''/join'') web_routes" by code_simp
  then show "pat \<in> set (map rt_path web_routes) \<Longrightarrow> \<not> route_matches pat ''/join''" by (auto simp: list_all_iff)
qed

text \<open>C30: the invitation links of the settings lead nowhere. Every text the members tab copies is the origin
  followed by \<open>/join?code=\<close> and a code, but with a router that gives \<open>/join\<close> only to a pattern that matches it - segment by
  segment, case and slashes at the end ignored - the dashboard has no page for it: the invited person is redirected to \<open>/\<close> and the code is lost.\<close>

theorem invitation_links_unrouted:
  assumes "page_reach (MembersTab origin fmt) (s, ks, out)" and "CopyText txt \<in> set out"
    and "\<And>pat. chooser (map rt_path web_routes) ''/join'' = Some pat \<Longrightarrow> pat \<in> set (map rt_path web_routes) \<and> route_matches pat ''/join''"
  shows "(\<exists>code. txt = origin @ ''/join'' @ ''?code='' @ code) \<and> web_App chooser auth ''/join'' = Navigate ''/''"
proof -
  have "chooser (map rt_path web_routes) ''/join'' = None"
    using assms(3) join_unrouted by (metis not_None_eq)
  then have "web_App chooser auth ''/join'' = Navigate ''/''"
    by (simp add: web_App_def render_route_def)
  moreover have "\<exists>code. txt = origin @ ''/join'' @ ''?code='' @ code"
    using members.commands [OF assms(1,2)] by (simp add: invitation_link_def)
  ultimately show ?thesis by blast
qed

definition invited :: "members_tab \<Rightarrow> members_tab" where
  "invited s = s\<lparr>invitationsQuery := q_success [\<lparr>inv_id = ''i'', inv_code = ''abc'', inv_max_uses = 0, inv_use_count = 0, inv_expires_at = None\<rparr>]\<rparr>"

theorem invitation_links_unrouted_witness:
  "\<exists>s ks out. page_reach (MembersTab ''https://app'' id) (s, ks, out) \<and> CopyText ''https://app/join?code=abc'' \<in> set out \<and>
     web_App exact_chooser visitor ''/join'' = Navigate ''/''"
proof -
  have env: "members_env s (invited s)" for s by (auto simp: members_env_def invited_def)
  have ev: "CopyLink ''abc'' \<in> events (MembersTab_view id (invited s))" for s
    by (simp add: MembersTab_view_def invited_def invitation_row_def)
  have "\<exists>s ks out. page_play (MembersTab ''https://app'' id) [Change invited, Do (CopyLink ''abc'')]
      (members_init, [], [CallApi ''GET'' invitations_path JUndef]) = Some (s, ks, out) \<and> CopyText ''https://app/join?code=abc'' \<in> set out"
    by (simp add: env ev invitation_link_def)
  then obtain s ks out where r: "page_reach (MembersTab ''https://app'' id) (s, ks, out)"
    and c: "CopyText ''https://app/join?code=abc'' \<in> set out"
    using page_play_mount [OF MembersTab_sel(1)] by blast
  have "pat \<in> set (map rt_path web_routes) \<and> route_matches pat ''/join''" if "exact_chooser (map rt_path web_routes) ''/join'' = Some pat" for pat
    using that web_paths by (auto simp: exact_chooser_def split: if_splits)
  from invitation_links_unrouted [OF r c this] r c show ?thesis by blast
qed

end
